(* ===== verification/Ril_Prelude.thy ===== *)
theory Ril_Prelude
  imports Main "HOL-Library.Word" "HOL-Library.Monad_Syntax"
begin

text \<open>
  Shared vocabulary of the development: the machine integers of the C++ sources, C strings,
  the application binary interface the sources are compiled for (pointer width, signedness of
  \<open>char\<close>, stack space), the sizes of C structs, bounds-checked array access, counted loops and
  the unsigned 32-bit network byte order.

  An operation that can leave the defined behaviour of C++ (a null or dangling pointer is
  dereferenced, an array is accessed outside its bounds, a failed \<open>assert\<close>, a thread that
  blocks on a mutex it can never get) returns an \<open>option\<close>; \<open>None\<close> says that execution has no
  defined continuation.
\<close>

named_theorems loop_simps "rewrite rules for counted loops"
named_theorems size_simps "sizes of C objects"

type_synonym u8 = "8 word"
type_synonym u16 = "16 word"
type_synonym i32 = "32 word"
type_synonym i64 = "64 word"

text \<open>A \<open>char *\<close>: null, or the bytes before the terminating zero.\<close>

type_synonym cstr = "u8 list option"

text \<open>Addresses; \<open>0\<close> is the null pointer.\<close>

type_synonym addr = nat

abbreviation (input) NULL :: addr where "NULL \<equiv> 0"

section \<open>The application binary interface\<close>

record abi =
  ptr_size :: nat       \<comment> \<open>\<open>sizeof (void *)\<close>, which is also \<open>sizeof (size_t)\<close>\<close>
  char_signed :: bool   \<comment> \<open>whether plain \<open>char\<close> is a signed type\<close>
  stack_avail :: nat    \<comment> \<open>bytes a function may still take with \<open>alloca\<close> or an array of variable length\<close>

definition abi32 :: abi where
  "abi32 = \<lparr>ptr_size = 4, char_signed = False, stack_avail = 65536\<rparr>"

definition abi64 :: abi where
  "abi64 = \<lparr>ptr_size = 8, char_signed = True, stack_avail = 65536\<rparr>"

text \<open>The conversion of an integer to \<open>size_t\<close>.\<close>

definition to_size :: "abi \<Rightarrow> int \<Rightarrow> nat" where
  "to_size a x = nat (x mod 2 ^ (8 * ptr_size a))"

text \<open>The integral promotion of a \<open>char\<close> to \<open>int\<close>.\<close>

definition char_to_int :: "abi \<Rightarrow> u8 \<Rightarrow> i32" where
  "char_to_int a c = (if char_signed a then scast c else ucast c)"

text \<open>\<open>alloca\<close> and arrays of variable length: beyond the stack the behaviour is undefined.\<close>

definition alloca :: "abi \<Rightarrow> nat \<Rightarrow> unit option" where
  "alloca a n = (if n \<le> stack_avail a then Some () else None)"

lemma to_size_small [size_simps]:
  "0 \<le> x \<Longrightarrow> x < 2 ^ (8 * ptr_size a) \<Longrightarrow> to_size a x = nat x"
  by (simp add: to_size_def)

section \<open>Sizes of C types\<close>

text \<open>
  A type is known by its size and alignment; a struct is laid out member by member, each at the
  next multiple of its alignment, and padded to a multiple of its own.
\<close>

type_synonym ctype = "nat \<times> nat"

definition align_up :: "nat \<Rightarrow> nat \<Rightarrow> nat" where
  "align_up n a = (if a = 0 then n else ((n + a - 1) div a) * a)"

fun layout_end :: "nat \<Rightarrow> ctype list \<Rightarrow> nat" where
  "layout_end off [] = off"
| "layout_end off ((s, a) # ms) = layout_end (align_up off a + s) ms"

fun max_align :: "ctype list \<Rightarrow> nat" where
  "max_align [] = 1"
| "max_align ((s, a) # ms) = max a (max_align ms)"

fun max_size :: "ctype list \<Rightarrow> nat" where
  "max_size [] = 0"
| "max_size ((s, a) # ms) = max s (max_size ms)"

definition c_struct :: "ctype list \<Rightarrow> ctype" where
  "c_struct ms = (align_up (layout_end 0 ms) (max_align ms), max_align ms)"

definition c_union :: "ctype list \<Rightarrow> ctype" where
  "c_union ms = (align_up (max_size ms) (max_align ms), max_align ms)"

definition c_array :: "nat \<Rightarrow> ctype \<Rightarrow> ctype" where
  "c_array n t = (n * fst t, snd t)"

definition c_char :: ctype where "c_char = (1, 1)"
definition c_int :: ctype where "c_int = (4, 4)"

definition c_ptr :: "abi \<Rightarrow> ctype" where
  "c_ptr a = (ptr_size a, ptr_size a)"

lemmas layout_simps [size_simps] =
  align_up_def c_struct_def c_union_def c_array_def c_char_def c_int_def c_ptr_def

section \<open>Arrays and counted loops\<close>

definition aget :: "'a list \<Rightarrow> nat \<Rightarrow> 'a option" where
  "aget xs i = (if i < length xs then Some (xs ! i) else None)"

definition aput :: "'a list \<Rightarrow> nat \<Rightarrow> 'a \<Rightarrow> 'a list option" where
  "aput xs i v = (if i < length xs then Some (xs[i := v]) else None)"

text \<open>
  \<open>foldM f xs s\<close> runs the loop body \<open>f\<close> for each element of \<open>xs\<close> in order and stops where
  the body has no defined continuation; \<open>for (int i = 0; i < n; i++)\<close> is the loop over
  \<open>[0..<n]\<close>.
\<close>

fun foldM :: "('a \<Rightarrow> 's \<Rightarrow> 's option) \<Rightarrow> 'a list \<Rightarrow> 's \<Rightarrow> 's option" where
  "foldM f [] s = Some s"
| "foldM f (x # xs) s = do { s' \<leftarrow> f x s; foldM f xs s' }"

abbreviation for_int :: "i32 \<Rightarrow> (nat \<Rightarrow> 's \<Rightarrow> 's option) \<Rightarrow> 's \<Rightarrow> 's option" where
  "for_int n f s \<equiv> foldM f [0..<nat (sint n)] s"

lemma foldM_append [loop_simps]:
  "foldM f (xs @ ys) s = do { s' \<leftarrow> foldM f xs s; foldM f ys s' }"
  by (induction xs arbitrary: s) (auto split: Option.bind_splits)

lemma foldM_map [loop_simps]: "foldM f (map g xs) s = foldM (\<lambda>x. f (g x)) xs s"
  by (induction xs arbitrary: s) (auto split: Option.bind_splits)

lemma foldM_cong:
  "(\<And>x s. x \<in> set xs \<Longrightarrow> f x s = g x s) \<Longrightarrow> foldM f xs s = foldM g xs s"
  by (induction xs arbitrary: s) (auto split: Option.bind_splits)

lemma foldM_Some [loop_simps]: "foldM (\<lambda>x s. Some (f x s)) xs s = Some (fold f xs s)"
  by (induction xs arbitrary: s) auto

lemma aget_Some [simp]: "i < length xs \<Longrightarrow> aget xs i = Some (xs ! i)"
  by (simp add: aget_def)

lemma aget_None [simp]: "length xs \<le> i \<Longrightarrow> aget xs i = None"
  by (simp add: aget_def)

lemma aput_Some [simp]: "i < length xs \<Longrightarrow> aput xs i v = Some (xs[i := v])"
  by (simp add: aput_def)

text \<open>A loop that reads \<open>xs[i]\<close> for \<open>i < n\<close> visits the first \<open>n\<close> elements, if there are so many.\<close>

lemma foldM_aget [loop_simps]:
  assumes "n \<le> length xs"
  shows "foldM (\<lambda>i s. do { x \<leftarrow> aget xs i; f x s }) [0..<n] s = foldM f (take n xs) s"
proof -
  have "take n xs = map (\<lambda>i. xs ! i) [0..<n]"
    using assms by (intro nth_equalityI) auto
  moreover have "foldM (\<lambda>i s. do { x \<leftarrow> aget xs i; f x s }) [0..<n] s
      = foldM (\<lambda>i. f (xs ! i)) [0..<n] s"
    using assms by (intro foldM_cong) simp
  ultimately show ?thesis by (simp add: foldM_map)
qed

lemma foldM_invariant:
  assumes "foldM f xs s = Some t" and "I s"
    and "\<And>x s s'. x \<in> set xs \<Longrightarrow> I s \<Longrightarrow> f x s = Some s' \<Longrightarrow> I s'"
  shows "I t"
  using assms
proof (induction xs arbitrary: s)
  case Nil
  then show ?case by simp
next
  case (Cons x xs)
  then obtain s' where s': "f x s = Some s'" "foldM f xs s' = Some t"
    by (auto split: Option.bind_splits)
  have "I s'" using Cons.prems(2,3) s'(1) by (meson list.set_intros(1))
  then show ?case using Cons.IH [OF s'(2)] Cons.prems(3) by (meson list.set_intros(2))
qed

lemma foldM_defined:
  assumes "I s" and "\<And>x s. x \<in> set xs \<Longrightarrow> I s \<Longrightarrow> \<exists>s'. f x s = Some s' \<and> I s'"
  shows "\<exists>t. foldM f xs s = Some t \<and> I t"
  using assms
proof (induction xs arbitrary: s)
  case Nil
  then show ?case by simp
next
  case (Cons x xs)
  obtain s' where s': "f x s = Some s'" "I s'" using Cons.prems by (meson list.set_intros(1))
  have "\<exists>t. foldM f xs s' = Some t \<and> I t"
    using Cons.IH [OF s'(2)] Cons.prems(2) by (meson list.set_intros(2))
  with s' show ?case by simp
qed

text \<open>A number that is small enough is the same as a signed integer.\<close>

lemma sint_small: "n < 2 ^ 31 \<Longrightarrow> sint (of_nat n :: i32) = int n"
  by (simp add: signed_of_nat signed_take_bit_int_eq_self)

section \<open>Network byte order\<close>

text \<open>\<open>htonl\<close>, as the four bytes it puts in memory: the most significant first.\<close>

definition be32 :: "i32 \<Rightarrow> u8 list" where
  "be32 w = [ucast (drop_bit 24 w), ucast (drop_bit 16 w), ucast (drop_bit 8 w), ucast w]"

definition le32 :: "i32 \<Rightarrow> u8 list" where
  "le32 w = rev (be32 w)"

fun from_be32 :: "u8 list \<Rightarrow> i32" where
  "from_be32 [a, b, c, d] =
     or (push_bit 24 (ucast a)) (or (push_bit 16 (ucast b)) (or (push_bit 8 (ucast c)) (ucast d)))"
| "from_be32 _ = 0"

lemma length_be32 [simp]: "length (be32 w) = 4"
  by (simp add: be32_def)

lemma length_le32 [simp]: "length (le32 w) = 4"
  by (simp add: le32_def)

lemma from_be32_be32 [simp]: "from_be32 (be32 w) = w"
proof (rule bit_word_eqI)
  fix n assume "n < LENGTH(32)"
  then show "bit (from_be32 (be32 w)) n = bit w n"
    by (cases "n < 8"; cases "n < 16"; cases "n < 24") (auto simp: be32_def bit_simps)
qed

lemma from_le32_le32 [simp]: "from_be32 (rev (le32 w)) = w"
  by (simp add: le32_def)

end
