(* ===== verification/Ril_Time.thy ===== *)
theory Ril_Time
  imports Ril_Prelude
begin

text \<open>
  \<open>struct timeval\<close> and the three macros of \<open>libril/ril_event.cpp\<close> that compute with it. The
  comparison macro is a linear order, the order in which the timer list is kept.
\<close>

datatype timeval = Timeval (tv_sec: int) (tv_usec: int)

definition timeradd :: "timeval \<Rightarrow> timeval \<Rightarrow> timeval" where
  "timeradd a b =
     (let sec = tv_sec a + tv_sec b; usec = tv_usec a + tv_usec b
      in if usec \<ge> 1000000 then Timeval (sec + 1) (usec - 1000000) else Timeval sec usec)"

text \<open>\<open>timercmp(a, b, op)\<close> with the comparison \<open>op\<close> as an argument.\<close>

definition timercmp :: "timeval \<Rightarrow> timeval \<Rightarrow> (int \<Rightarrow> int \<Rightarrow> bool) \<Rightarrow> bool" where
  "timercmp a b op =
     (if tv_sec a = tv_sec b then op (tv_usec a) (tv_usec b) else op (tv_sec a) (tv_sec b))"

definition timersub :: "timeval \<Rightarrow> timeval \<Rightarrow> timeval" where
  "timersub a b =
     (let sec = tv_sec a - tv_sec b; usec = tv_usec a - tv_usec b
      in if usec < 0 then Timeval (sec - 1) (usec + 1000000) else Timeval sec usec)"

instantiation timeval :: linorder
begin

definition less_timeval :: "timeval \<Rightarrow> timeval \<Rightarrow> bool" where
  "less_timeval a b \<longleftrightarrow> timercmp a b (<)"

definition less_eq_timeval :: "timeval \<Rightarrow> timeval \<Rightarrow> bool" where
  "less_eq_timeval a b \<longleftrightarrow> timercmp a b (<) \<or> a = b"

instance
proof
  fix x y z :: timeval
  show "x < y \<longleftrightarrow> x \<le> y \<and> \<not> y \<le> x"
    by (auto simp: less_timeval_def less_eq_timeval_def timercmp_def split: if_splits)
  show "x \<le> x"
    by (simp add: less_eq_timeval_def)
  show "x \<le> y \<Longrightarrow> y \<le> z \<Longrightarrow> x \<le> z"
    by (auto simp: less_eq_timeval_def timercmp_def split: if_splits)
  show "x \<le> y \<Longrightarrow> y \<le> x \<Longrightarrow> x = y"
    by (auto simp: less_eq_timeval_def timercmp_def split: if_splits)
  show "x \<le> y \<or> y \<le> x"
    by (cases x; cases y) (auto simp: less_eq_timeval_def timercmp_def)
qed

end

lemma timercmp_less [simp]: "timercmp a b (<) \<longleftrightarrow> a < b"
  by (simp add: less_timeval_def)

lemma timercmp_greater [simp]: "timercmp a b (>) \<longleftrightarrow> b < a"
  by (auto simp: less_timeval_def timercmp_def)

text \<open>A normalised time: what \<open>gettimeofday\<close> and \<open>clock_gettime\<close> return.\<close>

definition tv_ok :: "timeval \<Rightarrow> bool" where
  "tv_ok a \<longleftrightarrow> 0 \<le> tv_usec a \<and> tv_usec a < 1000000"

lemma timeradd_ok: "tv_ok a \<Longrightarrow> tv_ok b \<Longrightarrow> tv_ok (timeradd a b)"
  by (auto simp: tv_ok_def timeradd_def Let_def)

lemma timersub_ok: "tv_ok a \<Longrightarrow> tv_ok b \<Longrightarrow> tv_ok (timersub a b)"
  by (auto simp: tv_ok_def timersub_def Let_def)

lemma timersub_timeradd: "tv_ok a \<Longrightarrow> tv_ok b \<Longrightarrow> timersub (timeradd a b) a = b"
  by (cases a; cases b) (auto simp: tv_ok_def timersub_def timeradd_def Let_def)

lemma timeradd_timersub: "tv_ok a \<Longrightarrow> tv_ok b \<Longrightarrow> timeradd b (timersub a b) = a"
  by (cases a; cases b) (auto simp: tv_ok_def timersub_def timeradd_def Let_def)

lemma timersub_nonneg:
  "tv_ok a \<Longrightarrow> tv_ok b \<Longrightarrow> b \<le> a \<Longrightarrow> 0 \<le> tv_sec (timersub a b)"
  by (auto simp: less_eq_timeval_def timercmp_def tv_ok_def timersub_def Let_def split: if_splits)

end
