(* ===== verification/Ril_Event.thy ===== *)
theory Ril_Event
  imports Ril_Time
begin

text \<open>
  \<open>libril/ril_event.cpp\<close>: the event loop of the daemon. Events are nodes of intrusive, doubly
  linked, circular lists (\<open>timer_list\<close>, sorted by expiry, and \<open>pending_list\<close>, the events to fire)
  and entries of a table of watched file descriptors. The nodes live in a heap from addresses to
  \<open>struct ril_event\<close>, so that the pointer surgery of \<open>addToList\<close> and \<open>removeFromList\<close> is the code's;
  a loop that follows pointers is a \<open>partial_function\<close>. Results that would dereference a null or
  dangling pointer, or wait for the list mutex when nobody will release it, are \<open>None\<close>.
\<close>

section \<open>State\<close>

definition MAX_FD_EVENTS :: nat where "MAX_FD_EVENTS = 8"

text \<open>The callback type \<open>'f\<close> stands for the function pointers stored in events.\<close>

record 'f ril_event =
  ev_next :: addr
  ev_prev :: addr
  ev_fd :: int
  ev_index :: int
  ev_persist :: bool
  ev_timeout :: timeval
  ev_func :: "'f option"
  ev_param :: addr

type_synonym 'f ev_heap = "addr \<rightharpoonup> 'f ril_event"

definition zero_event :: "'f ril_event" where
  "zero_event = \<lparr>ev_next = NULL, ev_prev = NULL, ev_fd = 0, ev_index = 0, ev_persist = False,
     ev_timeout = Timeval 0 0, ev_func = None, ev_param = NULL\<rparr>"

text \<open>The addresses of the two static list heads.\<close>

definition timer_list :: addr where "timer_list = 1"
definition pending_list :: addr where "pending_list = 2"

record 'f event_state =
  heap :: "'f ev_heap"
  watch_table :: "addr list"
  readFds :: "int set"
  nfds :: int
  listLocked :: bool     \<comment> \<open>\<open>listMutex\<close> is held\<close>

section \<open>Memory access\<close>

definition get_next :: "'f ev_heap \<Rightarrow> addr \<Rightarrow> addr option" where
  "get_next h a = map_option ev_next (h a)"

definition get_prev :: "'f ev_heap \<Rightarrow> addr \<Rightarrow> addr option" where
  "get_prev h a = map_option ev_prev (h a)"

definition upd_event :: "'f ev_heap \<Rightarrow> addr \<Rightarrow> ('f ril_event \<Rightarrow> 'f ril_event) \<Rightarrow> 'f ev_heap option" where
  "upd_event h a f = map_option (\<lambda>e. h(a \<mapsto> f e)) (h a)"

abbreviation set_next :: "'f ev_heap \<Rightarrow> addr \<Rightarrow> addr \<Rightarrow> 'f ev_heap option" where
  "set_next h a v \<equiv> upd_event h a (\<lambda>e. e\<lparr>ev_next := v\<rparr>)"

abbreviation set_prev :: "'f ev_heap \<Rightarrow> addr \<Rightarrow> addr \<Rightarrow> 'f ev_heap option" where
  "set_prev h a v \<equiv> upd_event h a (\<lambda>e. e\<lparr>ev_prev := v\<rparr>)"

text \<open>\<open>FD_SET\<close>, \<open>FD_CLR\<close> and \<open>FD_ISSET\<close> are defined for descriptors below \<open>FD_SETSIZE\<close> only.\<close>

definition fd_ok :: "int \<Rightarrow> bool" where
  "fd_ok fd \<longleftrightarrow> 0 \<le> fd \<and> fd < 1024"

definition FD_SET :: "int \<Rightarrow> int set \<Rightarrow> int set option" where
  "FD_SET fd A = (if fd_ok fd then Some (insert fd A) else None)"

definition FD_CLR :: "int \<Rightarrow> int set \<Rightarrow> int set option" where
  "FD_CLR fd A = (if fd_ok fd then Some (A - {fd}) else None)"

definition FD_ISSET :: "int \<Rightarrow> int set \<Rightarrow> bool option" where
  "FD_ISSET fd A = (if fd_ok fd then Some (fd \<in> A) else None)"

definition MUTEX_ACQUIRE :: "('f, 'z) event_state_scheme \<Rightarrow> ('f, 'z) event_state_scheme option" where
  "MUTEX_ACQUIRE s = (if listLocked s then None else Some (s\<lparr>listLocked := True\<rparr>))"

definition MUTEX_RELEASE :: "('f, 'z) event_state_scheme \<Rightarrow> ('f, 'z) event_state_scheme" where
  "MUTEX_RELEASE s = s\<lparr>listLocked := False\<rparr>"

section \<open>Lists\<close>

definition init_list :: "'f ev_heap \<Rightarrow> addr \<Rightarrow> 'f ev_heap" where
  "init_list h l = h(l \<mapsto> zero_event\<lparr>ev_next := l, ev_prev := l, ev_fd := -1\<rparr>)"

definition addToList :: "'f ev_heap \<Rightarrow> addr \<Rightarrow> addr \<Rightarrow> 'f ev_heap option" where
  "addToList h ev l = do {
     h \<leftarrow> set_next h ev l;
     p \<leftarrow> get_prev h l;
     h \<leftarrow> set_prev h ev p;
     q \<leftarrow> get_prev h ev;
     h \<leftarrow> set_next h q ev;
     set_prev h l ev }"

definition removeFromList :: "'f ev_heap \<Rightarrow> addr \<Rightarrow> 'f ev_heap option" where
  "removeFromList h ev = do {
     n \<leftarrow> get_next h ev;
     p \<leftarrow> get_prev h ev;
     h \<leftarrow> set_prev h n p;
     p \<leftarrow> get_prev h ev;
     n \<leftarrow> get_next h ev;
     h \<leftarrow> set_next h p n;
     h \<leftarrow> set_next h ev NULL;
     set_prev h ev NULL }"

section \<open>The watch table\<close>

text \<open>The loop of \<open>removeWatch\<close> that looks for the largest descriptor still watched.\<close>

fun max_watched :: "'f ev_heap \<Rightarrow> addr list \<Rightarrow> int \<Rightarrow> int option" where
  "max_watched h [] n = Some n"
| "max_watched h (re # ws) n =
     (if re = NULL then max_watched h ws n
      else do { e \<leftarrow> h re; max_watched h ws (if ev_fd e > n then ev_fd e else n) })"

definition removeWatch ::
    "addr \<Rightarrow> nat \<Rightarrow> ('f, 'z) event_state_scheme \<Rightarrow> ('f, 'z) event_state_scheme option" where
  "removeWatch ev idx s = do {
     wt \<leftarrow> aput (watch_table s) idx NULL;
     h \<leftarrow> upd_event (heap s) ev (\<lambda>e. e\<lparr>ev_index := -1\<rparr>);
     e \<leftarrow> h ev;
     fds \<leftarrow> FD_CLR (ev_fd e) (readFds s);
     n \<leftarrow> (if ev_fd e + 1 = nfds s
           then map_option (\<lambda>m. m + 1) (max_watched h wt 0)
           else Some (nfds s));
     Some (s\<lparr>watch_table := wt, heap := h, readFds := fds, nfds := n\<rparr>) }"

fun first_free :: "addr list \<Rightarrow> nat \<Rightarrow> nat option" where
  "first_free [] i = None"
| "first_free (w # ws) i = (if w = NULL then Some i else first_free ws (Suc i))"

definition ril_event_add ::
    "addr \<Rightarrow> ('f, 'z) event_state_scheme \<Rightarrow> ('f, 'z) event_state_scheme option" where
  "ril_event_add ev s = do {
     s \<leftarrow> MUTEX_ACQUIRE s;
     s \<leftarrow> (case first_free (watch_table s) 0 of
            None \<Rightarrow> Some s
          | Some i \<Rightarrow> do {
              wt \<leftarrow> aput (watch_table s) i ev;
              h \<leftarrow> upd_event (heap s) ev (\<lambda>e. e\<lparr>ev_index := int i\<rparr>);
              e \<leftarrow> h ev;
              fds \<leftarrow> FD_SET (ev_fd e) (readFds s);
              Some (s\<lparr>watch_table := wt, heap := h, readFds := fds,
                     nfds := (if ev_fd e \<ge> nfds s then ev_fd e + 1 else nfds s)\<rparr>) });
     Some (MUTEX_RELEASE s) }"

text \<open>The early return of \<open>ril_event_del\<close> leaves the mutex held.\<close>

definition ril_event_del ::
    "addr \<Rightarrow> ('f, 'z) event_state_scheme \<Rightarrow> ('f, 'z) event_state_scheme option" where
  "ril_event_del ev s = do {
     s \<leftarrow> MUTEX_ACQUIRE s;
     e \<leftarrow> heap s ev;
     if ev_index e < 0 \<or> ev_index e \<ge> int MAX_FD_EVENTS then Some s
     else do {
       s \<leftarrow> removeWatch ev (nat (ev_index e)) s;
       Some (MUTEX_RELEASE s) } }"

section \<open>Timers\<close>

text \<open>\<open>now\<close> is the result of \<open>getNow\<close>.\<close>

partial_function (option) processTimeouts_loop ::
    "timeval \<Rightarrow> 'f ev_heap \<Rightarrow> addr \<Rightarrow> 'f ev_heap option" where
  "processTimeouts_loop now h tev =
     (if tev = timer_list then Some h
      else do {
        e \<leftarrow> h tev;
        if timercmp now (ev_timeout e) (>) then do {
          nx \<leftarrow> get_next h tev;
          h \<leftarrow> removeFromList h tev;
          h \<leftarrow> addToList h tev pending_list;
          processTimeouts_loop now h nx }
        else Some h })"

definition processTimeouts ::
    "timeval \<Rightarrow> ('f, 'z) event_state_scheme \<Rightarrow> ('f, 'z) event_state_scheme option" where
  "processTimeouts now s = do {
     s \<leftarrow> MUTEX_ACQUIRE s;
     tev \<leftarrow> get_next (heap s) timer_list;
     h \<leftarrow> processTimeouts_loop now (heap s) tev;
     Some (MUTEX_RELEASE (s\<lparr>heap := h\<rparr>)) }"

text \<open>\<open>None\<close> inside is the result \<open>-1\<close>: no timer is set.\<close>

definition calcNextTimeout ::
    "timeval \<Rightarrow> ('f, 'z) event_state_scheme \<Rightarrow> timeval option option" where
  "calcNextTimeout now s = do {
     tev \<leftarrow> get_next (heap s) timer_list;
     if tev = timer_list then Some None
     else do {
       e \<leftarrow> heap s tev;
       Some (Some (if timercmp (ev_timeout e) now (>) then timersub (ev_timeout e) now
                   else Timeval 0 0)) } }"

partial_function (option) timer_position :: "'f ev_heap \<Rightarrow> timeval \<Rightarrow> addr \<Rightarrow> addr option" where
  "timer_position h t l = do {
     e \<leftarrow> h l;
     if timercmp (ev_timeout e) t (<) \<and> l \<noteq> timer_list then timer_position h t (ev_next e)
     else Some l }"

text \<open>\<open>tv = None\<close> is the null pointer, for which nothing is added.\<close>

definition ril_timer_add ::
    "timeval \<Rightarrow> addr \<Rightarrow> timeval option \<Rightarrow> ('f, 'z) event_state_scheme \<Rightarrow>
     ('f, 'z) event_state_scheme option" where
  "ril_timer_add now ev tv s = do {
     s \<leftarrow> MUTEX_ACQUIRE s;
     s \<leftarrow> (case tv of
            None \<Rightarrow> Some s
          | Some t \<Rightarrow> do {
              l \<leftarrow> get_next (heap s) timer_list;
              h \<leftarrow> upd_event (heap s) ev (\<lambda>e. e\<lparr>ev_fd := -1, ev_timeout := timeradd now t\<rparr>);
              l \<leftarrow> timer_position h (timeradd now t) l;
              h \<leftarrow> addToList h ev l;
              Some (s\<lparr>heap := h\<rparr>) });
     Some (MUTEX_RELEASE s) }"

section \<open>Ready descriptors and firing\<close>

fun processReadReadies_loop ::
    "int set \<Rightarrow> nat list \<Rightarrow> int \<Rightarrow> ('f, 'z) event_state_scheme \<Rightarrow>
     ('f, 'z) event_state_scheme option" where
  "processReadReadies_loop rfds [] n s = Some s"
| "processReadReadies_loop rfds (i # is) n s =
     (if n > 0 then do {
        re \<leftarrow> aget (watch_table s) i;
        if re = NULL then processReadReadies_loop rfds is n s
        else do {
          e \<leftarrow> heap s re;
          ready \<leftarrow> FD_ISSET (ev_fd e) rfds;
          if ready then do {
            h \<leftarrow> addToList (heap s) re pending_list;
            s \<leftarrow> (if \<not> ev_persist e then removeWatch re i (s\<lparr>heap := h\<rparr>)
                  else Some (s\<lparr>heap := h\<rparr>));
            processReadReadies_loop rfds is (n - 1) s }
          else processReadReadies_loop rfds is n s } }
      else Some s)"

definition processReadReadies ::
    "int set \<Rightarrow> int \<Rightarrow> ('f, 'z) event_state_scheme \<Rightarrow> ('f, 'z) event_state_scheme option" where
  "processReadReadies rfds n s = do {
     s \<leftarrow> MUTEX_ACQUIRE s;
     s \<leftarrow> processReadReadies_loop rfds [0..<MAX_FD_EVENTS] n s;
     Some (MUTEX_RELEASE s) }"

text \<open>
  \<open>call f fd param\<close> runs the callback \<open>f\<close> with the arguments the code passes; callbacks are
  functions of the whole program state, which extends the state of this file.
\<close>

type_synonym ('f, 'z) fire = "'f \<Rightarrow> int \<Rightarrow> addr \<Rightarrow> ('f, 'z) event_state_scheme \<Rightarrow> ('f, 'z) event_state_scheme option"

partial_function (option) firePending_loop ::
    "('f, 'z) fire \<Rightarrow> ('f, 'z) event_state_scheme \<Rightarrow> addr \<Rightarrow> ('f, 'z) event_state_scheme option" where
  "firePending_loop call s ev =
     (if ev = pending_list then Some s
      else do {
        nx \<leftarrow> get_next (heap s) ev;
        h \<leftarrow> removeFromList (heap s) ev;
        e \<leftarrow> h ev;
        f \<leftarrow> ev_func e;
        s' \<leftarrow> call f (ev_fd e) (ev_param e) (s\<lparr>heap := h\<rparr>);
        firePending_loop call s' nx })"

definition firePending ::
    "('f, 'z) fire \<Rightarrow> ('f, 'z) event_state_scheme \<Rightarrow> ('f, 'z) event_state_scheme option" where
  "firePending call s = do {
     ev \<leftarrow> get_next (heap s) pending_list;
     firePending_loop call s ev }"

section \<open>Initialisation and the loop\<close>

definition ril_event_init :: "('f, 'z) event_state_scheme \<Rightarrow> ('f, 'z) event_state_scheme" where
  "ril_event_init s =
     s\<lparr>listLocked := False, readFds := {},
       heap := init_list (init_list (heap s) timer_list) pending_list,
       watch_table := replicate MAX_FD_EVENTS NULL\<rparr>"

definition ril_event_set ::
    "addr \<Rightarrow> int \<Rightarrow> bool \<Rightarrow> 'f \<Rightarrow> addr \<Rightarrow> 'f ev_heap \<Rightarrow> 'f ev_heap option" where
  "ril_event_set ev fd persist func param h =
     upd_event h ev (\<lambda>_. zero_event\<lparr>ev_fd := fd, ev_index := -1, ev_persist := persist,
       ev_func := Some func, ev_param := param\<rparr>)"

text \<open>
  One turn of \<open>ril_event_loop\<close>. What \<open>select\<close> does is its outcome: an error (with \<open>EINTR\<close> or
  not), or the number and the set of the ready descriptors.
\<close>

datatype select_result = SelectError bool | SelectReady int "int set"

datatype 's loop_result = Continue 's | Returned 's

definition ril_event_loop_turn ::
    "('f, 'z) fire \<Rightarrow> timeval \<Rightarrow> select_result \<Rightarrow> timeval \<Rightarrow> ('f, 'z) event_state_scheme \<Rightarrow>
     ('f, 'z) event_state_scheme loop_result option" where
  "ril_event_loop_turn call now sel now' s = do {
     ptv \<leftarrow> calcNextTimeout now s;
     case sel of
       SelectError eintr \<Rightarrow> Some (if eintr then Continue s else Returned s)
     | SelectReady n rfds \<Rightarrow> do {
         s \<leftarrow> processTimeouts now' s;
         s \<leftarrow> processReadReadies rfds n s;
         s \<leftarrow> firePending call s;
         Some (Continue s) } }"

text \<open>The loop over a finite sequence of turns.\<close>

fun ril_event_loop ::
    "('f, 'z) fire \<Rightarrow> (timeval \<times> select_result \<times> timeval) list \<Rightarrow> ('f, 'z) event_state_scheme \<Rightarrow>
     ('f, 'z) event_state_scheme loop_result option" where
  "ril_event_loop call [] s = Some (Continue s)"
| "ril_event_loop call ((now, sel, now') # ts) s = do {
     r \<leftarrow> ril_event_loop_turn call now sel now' s;
     case r of Continue s' \<Rightarrow> ril_event_loop call ts s' | Returned s' \<Rightarrow> Some (Returned s') }"

end
