(* ===== verification/Ril_Event_Lists.thy ===== *)
theory Ril_Event_Lists
  imports Ril_Event
begin

text \<open>
  The intrusive lists of \<open>ril_event.cpp\<close> against lists of addresses. \<open>dll h l xs\<close> says that the
  heap \<open>h\<close> holds, from the list head \<open>l\<close>, a circular doubly linked list through \<open>xs\<close>. The locale
  \<open>list_memory\<close> is the contract the loops of the event code rely on: what \<open>addToList\<close> and
  \<open>removeFromList\<close> do to the list they work on, and that they leave every other list and the
  contents of all events alone. The loops are verified from the contract, and the interpretation
  shows that the pointer operations fulfil it.
\<close>

section \<open>The contract\<close>

locale list_memory =
  fixes rep :: "'h \<Rightarrow> addr \<Rightarrow> addr list \<Rightarrow> bool"
    and unlink :: "'h \<Rightarrow> addr \<Rightarrow> 'h option"
    and link_before :: "'h \<Rightarrow> addr \<Rightarrow> addr \<Rightarrow> 'h option"
    and next_of :: "'h \<Rightarrow> addr \<Rightarrow> addr option"
    and node :: "'h \<Rightarrow> addr \<Rightarrow> 'd option"
  assumes rep_distinct: "rep h l xs \<Longrightarrow> distinct (l # xs)"
    and rep_node: "rep h l xs \<Longrightarrow> x \<in> set (l # xs) \<Longrightarrow> \<exists>d. node h x = Some d"
    and next_head: "rep h l xs \<Longrightarrow> next_of h l = Some (hd (xs @ [l]))"
    and next_mid: "rep h l (xs @ x # ys) \<Longrightarrow> next_of h x = Some (hd (ys @ [l]))"
    and unlink_rep: "rep h l (xs @ x # ys) \<Longrightarrow>
      \<exists>h'. unlink h x = Some h' \<and> rep h' l (xs @ ys) \<and> node h' = node h \<and>
        (\<forall>m zs. rep h m zs \<longrightarrow> set (m # zs) \<inter> set (l # xs @ x # ys) = {} \<longrightarrow> rep h' m zs)"
    and link_rep: "rep h l (xs @ ys) \<Longrightarrow> x \<notin> set (l # xs @ ys) \<Longrightarrow> node h x = Some d \<Longrightarrow>
      \<exists>h'. link_before h x (hd (ys @ [l])) = Some h' \<and> rep h' l (xs @ x # ys) \<and> node h' = node h \<and>
        (\<forall>m zs. rep h m zs \<longrightarrow> set (m # zs) \<inter> set (x # l # xs @ ys) = {} \<longrightarrow> rep h' m zs)"
begin

lemma move_first:
  assumes l: "rep h l (x # xs)" and m: "rep h m ys"
    and disj: "set (l # x # xs) \<inter> set (m # ys) = {}"
  shows "\<exists>h1 h2. unlink h x = Some h1 \<and> link_before h1 x m = Some h2 \<and>
    rep h2 l xs \<and> rep h2 m (ys @ [x]) \<and> node h2 = node h"
proof -
  obtain h1 where h1: "unlink h x = Some h1" "rep h1 l xs" "node h1 = node h" "rep h1 m ys"
    using unlink_rep [of h l "[]" x xs] l m disj by fastforce
  obtain d where "node h x = Some d" using rep_node [OF l] by auto
  moreover have "x \<notin> set (m # ys)" using disj by auto
  ultimately obtain h2 where h2: "link_before h1 x m = Some h2" "rep h2 m (ys @ [x])"
      "node h2 = node h1"
      "\<forall>n zs. rep h1 n zs \<longrightarrow> set (n # zs) \<inter> set (x # m # ys) = {} \<longrightarrow> rep h2 n zs"
    using link_rep [of h1 m ys "[]" x d] h1 by auto
  have "set (l # xs) \<inter> set (x # m # ys) = {}"
    using disj rep_distinct [OF l] by auto
  then have "rep h2 l xs" using h1(2) h2(4) by blast
  then show ?thesis using h1 h2 by auto
qed

text \<open>
  A loop that walks \<open>l\<close> from its first node and moves nodes to the end of \<open>m\<close> as long as their
  contents satisfy \<open>ex\<close>.
\<close>

lemma drain_loop:
  assumes step: "\<And>h t. loop h t = (if t = l then Some h else do {
      d \<leftarrow> node h t;
      if ex d then do {
        nx \<leftarrow> next_of h t; h1 \<leftarrow> unlink h t; h2 \<leftarrow> link_before h1 t m; loop h2 nx }
      else Some h })"
  shows "rep h l xs \<Longrightarrow> rep h m ys \<Longrightarrow> set (l # xs) \<inter> set (m # ys) = {} \<Longrightarrow>
    \<exists>h'. loop h (hd (xs @ [l])) = Some h' \<and> node h' = node h \<and>
      rep h' l (dropWhile (\<lambda>x. ex (the (node h x))) xs) \<and>
      rep h' m (ys @ takeWhile (\<lambda>x. ex (the (node h x))) xs)"
proof (induction xs arbitrary: h ys)
  case Nil
  then show ?case using step [of h l] by simp
next
  case (Cons x xs)
  have xl: "x \<noteq> l" using rep_distinct [OF Cons.prems(1)] by auto
  obtain d where d: "node h x = Some d" using rep_node [OF Cons.prems(1)] by auto
  show ?case
  proof (cases "ex d")
    case False
    then show ?thesis using step [of h x] xl d Cons.prems by simp
  next
    case True
    have nx: "next_of h x = Some (hd (xs @ [l]))"
      using next_mid [of h l "[]" x xs] Cons.prems(1) by simp
    obtain h1 h2 where m: "unlink h x = Some h1" "link_before h1 x m = Some h2"
        "rep h2 l xs" "rep h2 m (ys @ [x])" "node h2 = node h"
      using move_first [OF Cons.prems] by blast
    have "set (l # xs) \<inter> set (m # ys @ [x]) = {}"
      using Cons.prems(3) rep_distinct [OF Cons.prems(1)] by auto
    from Cons.IH [OF m(3,4) this] obtain h' where h': "loop h2 (hd (xs @ [l])) = Some h'"
        "node h' = node h2" "rep h' l (dropWhile (\<lambda>x. ex (the (node h2 x))) xs)"
        "rep h' m ((ys @ [x]) @ takeWhile (\<lambda>x. ex (the (node h2 x))) xs)" by blast
    have "loop h x = Some h'" using step [of h x] xl d True nx m h' by simp
    then show ?thesis using h' m(5) d True by auto
  qed
qed

text \<open>A loop that walks \<open>l\<close> past the nodes whose contents satisfy \<open>lt\<close>.\<close>

lemma position_loop:
  assumes step: "\<And>t. loop t = do {
      d \<leftarrow> node h t; nx \<leftarrow> next_of h t; if lt d \<and> t \<noteq> l then loop nx else Some t }"
    and rep: "rep h l (us @ xs)"
  shows "loop (hd (xs @ [l])) = Some (hd (dropWhile (\<lambda>x. lt (the (node h x))) xs @ [l]))"
  using rep
proof (induction xs arbitrary: us)
  case Nil
  obtain d where "node h l = Some d" using rep_node [OF Nil] by auto
  moreover have "next_of h l = Some (hd ((us @ []) @ [l]))" by (rule next_head [OF Nil])
  ultimately show ?case using step [of l] by simp
next
  case (Cons x xs)
  have "x \<noteq> l" using rep_distinct [OF Cons.prems] by auto
  moreover obtain d where "node h x = Some d" using rep_node [OF Cons.prems] by auto
  moreover have "next_of h x = Some (hd (xs @ [l]))" using next_mid [OF Cons.prems] .
  ultimately show ?case using step [of x] Cons.IH [of "us @ [x]"] Cons.prems by simp
qed

end

section \<open>Circular lists in the heap\<close>

fun seg :: "(addr \<rightharpoonup> addr) \<Rightarrow> (addr \<rightharpoonup> addr) \<Rightarrow> addr \<Rightarrow> addr list \<Rightarrow> addr \<Rightarrow> bool" where
  "seg N P a [] b \<longleftrightarrow> N a = Some b \<and> P b = Some a"
| "seg N P a (x # xs) b \<longleftrightarrow> N a = Some x \<and> P x = Some a \<and> seg N P x xs b"

definition dll :: "'f ev_heap \<Rightarrow> addr \<Rightarrow> addr list \<Rightarrow> bool" where
  "dll h l xs \<longleftrightarrow> seg (get_next h) (get_prev h) l xs l \<and> distinct (l # xs)"

text \<open>The contents of an event: everything but the links.\<close>

definition strip :: "'f ril_event \<Rightarrow> 'f ril_event" where
  "strip e = e\<lparr>ev_next := NULL, ev_prev := NULL\<rparr>"

definition event_data :: "'f ev_heap \<Rightarrow> addr \<Rightarrow> 'f ril_event option" where
  "event_data h a = map_option strip (h a)"

lemma strip_fields [simp]:
  "ev_fd (strip e) = ev_fd e" "ev_index (strip e) = ev_index e"
  "ev_persist (strip e) = ev_persist e" "ev_timeout (strip e) = ev_timeout e"
  "ev_func (strip e) = ev_func e" "ev_param (strip e) = ev_param e"
  by (simp_all add: strip_def)

lemma seg_append: "seg N P a (xs @ y # ys) b \<longleftrightarrow> seg N P a xs y \<and> seg N P y ys b"
  by (induction xs arbitrary: a) auto

lemma seg_frame:
  assumes "\<And>x. x \<in> set (a # xs) \<Longrightarrow> N' x = N x"
    and "\<And>x. x \<in> set xs \<or> x = b \<Longrightarrow> P' x = P x"
  shows "seg N' P' a xs b \<longleftrightarrow> seg N P a xs b"
  using assms by (induction xs arbitrary: a) auto

lemma seg_frameI:
  assumes "seg N P a xs b" and "\<And>x. x \<in> set (a # xs) \<Longrightarrow> N' x = N x"
    and "\<And>x. x \<in> set xs \<or> x = b \<Longrightarrow> P' x = P x"
  shows "seg N' P' a xs b"
  using seg_frame [of a xs N' N b P' P, OF assms(2,3)] assms(1) by simp

lemma seg_last: "seg N P a xs b \<Longrightarrow> N (last (a # xs)) = Some b \<and> P b = Some (last (a # xs))"
  by (induction xs arbitrary: a) auto

lemma seg_retarget:
  assumes "seg N P a xs b" and "distinct (a # xs)"
    and "\<And>x. x \<in> set (a # xs) \<Longrightarrow> x \<noteq> last (a # xs) \<Longrightarrow> N' x = N x"
    and "N' (last (a # xs)) = Some c" and "\<And>x. x \<in> set xs \<Longrightarrow> P' x = P x"
    and "P' c = Some (last (a # xs))"
  shows "seg N' P' a xs c"
  using assms
proof (induction xs arbitrary: a)
  case Nil
  then show ?case by simp
next
  case (Cons x xs)
  have "last (a # x # xs) = last (x # xs)" by simp
  moreover have "a \<noteq> last (x # xs)"
    using Cons.prems(2) last_in_set [of "x # xs"] by (metis distinct.simps(2) list.distinct(1))
  ultimately have "N' a = Some x" using Cons.prems(1) Cons.prems(3) [of a] by simp
  moreover have "P' x = Some a" using Cons.prems(1) Cons.prems(5) [of x] by simp
  moreover have "seg N' P' x xs c"
    using Cons.prems by (intro Cons.IH) auto
  ultimately show ?case by simp
qed

lemma seg_dom: "seg N P a xs b \<Longrightarrow> x \<in> set (a # xs) \<Longrightarrow> \<exists>y. N x = Some y"
  by (induction xs arbitrary: a) auto

lemma seg_dom_prev: "seg N P a xs b \<Longrightarrow> x \<in> set xs \<or> x = b \<Longrightarrow> \<exists>y. P x = Some y"
  by (induction xs arbitrary: a) auto

section \<open>Effects of the field updates\<close>

lemma get_next_Some: "get_next h a = Some b \<longleftrightarrow> (\<exists>e. h a = Some e \<and> ev_next e = b)"
  by (auto simp: get_next_def)

lemma get_prev_Some: "get_prev h a = Some b \<longleftrightarrow> (\<exists>e. h a = Some e \<and> ev_prev e = b)"
  by (auto simp: get_prev_def)

lemma set_next_ok:
  assumes "h a \<noteq> None"
  shows "\<exists>h'. set_next h a v = Some h' \<and> get_next h' = (get_next h)(a \<mapsto> v) \<and>
    get_prev h' = get_prev h \<and> event_data h' = event_data h \<and> dom h' = dom h"
proof -
  obtain e where "h a = Some e" using assms by auto
  then show ?thesis
    by (intro exI [of _ "h(a \<mapsto> e\<lparr>ev_next := v\<rparr>)"])
      (auto simp: upd_event_def get_next_def get_prev_def event_data_def strip_def fun_eq_iff)
qed

lemma set_prev_ok:
  assumes "h a \<noteq> None"
  shows "\<exists>h'. set_prev h a v = Some h' \<and> get_prev h' = (get_prev h)(a \<mapsto> v) \<and>
    get_next h' = get_next h \<and> event_data h' = event_data h \<and> dom h' = dom h"
proof -
  obtain e where "h a = Some e" using assms by auto
  then show ?thesis
    by (intro exI [of _ "h(a \<mapsto> e\<lparr>ev_prev := v\<rparr>)"])
      (auto simp: upd_event_def get_next_def get_prev_def event_data_def strip_def fun_eq_iff)
qed

lemma addToList_links:
  assumes "h ev \<noteq> None" and "get_prev h n = Some p" and "h p \<noteq> None" and "ev \<noteq> n"
  shows "\<exists>h'. addToList h ev n = Some h' \<and>
    get_next h' = (get_next h)(ev \<mapsto> n, p \<mapsto> ev) \<and> get_prev h' = (get_prev h)(ev \<mapsto> p, n \<mapsto> ev) \<and>
    event_data h' = event_data h"
proof -
  obtain h1 where h1: "set_next h ev n = Some h1" "get_next h1 = (get_next h)(ev \<mapsto> n)"
      "get_prev h1 = get_prev h" "event_data h1 = event_data h" "dom h1 = dom h"
    using set_next_ok [of h ev n] assms(1) by blast
  have "h1 ev \<noteq> None" using h1(5) assms(1) by blast
  then obtain h2 where h2: "set_prev h1 ev p = Some h2" "get_prev h2 = (get_prev h1)(ev \<mapsto> p)"
      "get_next h2 = get_next h1" "event_data h2 = event_data h1" "dom h2 = dom h1"
    using set_prev_ok [of h1 ev p] by blast
  have "h2 p \<noteq> None" using h1(5) h2(5) assms(3) by blast
  then obtain h3 where h3: "set_next h2 p ev = Some h3" "get_next h3 = (get_next h2)(p \<mapsto> ev)"
      "get_prev h3 = get_prev h2" "event_data h3 = event_data h2" "dom h3 = dom h2"
    using set_next_ok [of h2 p ev] by blast
  have "h n \<noteq> None" using assms(2) by (auto simp: get_prev_def)
  then have "h3 n \<noteq> None" using h1(5) h2(5) h3(5) by blast
  then obtain h4 where h4: "set_prev h3 n ev = Some h4" "get_prev h4 = (get_prev h3)(n \<mapsto> ev)"
      "get_next h4 = get_next h3" "event_data h4 = event_data h3" "dom h4 = dom h3"
    using set_prev_ok [of h3 n ev] by blast
  have "addToList h ev n = Some h4"
    using h1 h2 h3 h4 assms(2) by (simp add: addToList_def)
  then show ?thesis using h1 h2 h3 h4 by simp
qed

lemma removeFromList_links:
  assumes "get_next h ev = Some n" and "get_prev h ev = Some p" and "h n \<noteq> None" and "h p \<noteq> None"
    and "ev \<noteq> n" and "ev \<noteq> p"
  shows "\<exists>h'. removeFromList h ev = Some h' \<and>
    get_next h' = (get_next h)(p \<mapsto> n, ev \<mapsto> NULL) \<and> get_prev h' = (get_prev h)(n \<mapsto> p, ev \<mapsto> NULL) \<and>
    event_data h' = event_data h"
proof -
  obtain h1 where h1: "set_prev h n p = Some h1" "get_prev h1 = (get_prev h)(n \<mapsto> p)"
      "get_next h1 = get_next h" "event_data h1 = event_data h" "dom h1 = dom h"
    using set_prev_ok [of h n p] assms(3) by blast
  have "h1 p \<noteq> None" using h1(5) assms(4) by blast
  then obtain h2 where h2: "set_next h1 p n = Some h2" "get_next h2 = (get_next h1)(p \<mapsto> n)"
      "get_prev h2 = get_prev h1" "event_data h2 = event_data h1" "dom h2 = dom h1"
    using set_next_ok [of h1 p n] by blast
  have "h ev \<noteq> None" using assms(1) by (auto simp: get_next_def)
  then have "h2 ev \<noteq> None" using h1(5) h2(5) by blast
  then obtain h3 where h3: "set_next h2 ev NULL = Some h3" "get_next h3 = (get_next h2)(ev \<mapsto> NULL)"
      "get_prev h3 = get_prev h2" "event_data h3 = event_data h2" "dom h3 = dom h2"
    using set_next_ok [of h2 ev NULL] by blast
  then have "h3 ev \<noteq> None" using \<open>h2 ev \<noteq> None\<close> by blast
  then obtain h4 where h4: "set_prev h3 ev NULL = Some h4" "get_prev h4 = (get_prev h3)(ev \<mapsto> NULL)"
      "get_next h4 = get_next h3" "event_data h4 = event_data h3" "dom h4 = dom h3"
    using set_prev_ok [of h3 ev NULL] by blast
  have "removeFromList h ev = Some h4"
    using h1 h2 h3 h4 assms by (simp add: removeFromList_def)
  then show ?thesis using h1 h2 h3 h4 by simp
qed

section \<open>The pointer operations fulfil the contract\<close>

lemma seg_split:
  "seg N P l (xs @ ys) l \<longleftrightarrow>
     seg N P l xs (hd (ys @ [l])) \<and> (ys \<noteq> [] \<longrightarrow> seg N P (hd ys) (tl ys) l)"
  by (cases ys) (auto simp: seg_append)

lemma dll_frame:
  assumes "dll h m zs" and "\<And>a. a \<in> set (m # zs) \<Longrightarrow> get_next h' a = get_next h a"
    and "\<And>a. a \<in> set (m # zs) \<Longrightarrow> get_prev h' a = get_prev h a"
  shows "dll h' m zs"
  using assms seg_frame [of m zs "get_next h'" "get_next h" m "get_prev h'" "get_prev h"]
  by (auto simp: dll_def)

lemma dll_heap: "dll h l xs \<Longrightarrow> x \<in> set (l # xs) \<Longrightarrow> h x \<noteq> None"
  using seg_dom [of "get_next h" "get_prev h" l xs l x] by (auto simp: dll_def get_next_def)

lemma dll_link:
  assumes d: "dll h l (xs @ ys)" and x: "x \<notin> set (l # xs @ ys)" and hx: "h x \<noteq> None"
  shows "\<exists>h'. addToList h x (hd (ys @ [l])) = Some h' \<and> dll h' l (xs @ x # ys) \<and>
    event_data h' = event_data h \<and>
    (\<forall>m zs. dll h m zs \<longrightarrow> set (m # zs) \<inter> set (x # l # xs @ ys) = {} \<longrightarrow> dll h' m zs)"
proof -
  define n p where "n = hd (ys @ [l])" and "p = last (l # xs)"
  let ?N = "get_next h" and ?P = "get_prev h"
  have dist: "distinct (l # xs @ ys)" using d by (simp add: dll_def)
  have s1: "seg ?N ?P l xs n" and s2: "ys \<noteq> [] \<Longrightarrow> seg ?N ?P n (tl ys) l"
    using d seg_split [of ?N ?P l xs ys] by (auto simp: dll_def n_def hd_append)
  have n: "n \<in> set (l # ys)" unfolding n_def by (cases ys) auto
  have p: "p \<in> set (l # xs)" unfolding p_def by (rule last_in_set) simp
  have Pn: "?P n = Some p" using seg_last [OF s1] by (simp add: p_def)
  have hp: "h p \<noteq> None" using dll_heap [OF d] p by auto
  obtain h' where h': "addToList h x n = Some h'" "get_next h' = ?N(x \<mapsto> n, p \<mapsto> x)"
      "get_prev h' = ?P(x \<mapsto> p, n \<mapsto> x)" "event_data h' = event_data h"
    using addToList_links [of h x n p] hx Pn hp x n by auto
  have xp: "x \<noteq> p" "x \<noteq> n" using x p n by auto
  have nxs: "n \<notin> set xs" using dist n by auto
  have "seg (get_next h') (get_prev h') l xs x"
    using s1 dist x xp nxs by (intro seg_retarget [OF s1]) (auto simp: h' p_def)
  moreover have "seg (get_next h') (get_prev h') x ys l"
  proof (cases ys)
    case Nil
    then show ?thesis using xp by (simp add: h' n_def)
  next
    case (Cons y zs)
    then have y: "n = y" by (simp add: n_def)
    have "p \<notin> set ys" using p dist by auto
    moreover have "seg ?N ?P y zs l" using s2 Cons y by simp
    ultimately have "seg (get_next h') (get_prev h') y zs l"
      using Cons y dist x by - (rule seg_frameI, assumption, auto simp: h')
    then show ?thesis using Cons y xp by (simp add: h')
  qed
  ultimately have "dll h' l (xs @ x # ys)"
    using dist x by (auto simp: dll_def seg_append)
  moreover have "dll h' m zs"
    if "dll h m zs" "set (m # zs) \<inter> set (x # l # xs @ ys) = {}" for m zs
    using that p n by (intro dll_frame [OF that(1)]) (auto simp: h')
  ultimately show ?thesis using h' by (auto simp: n_def)
qed

lemma dll_unlink:
  assumes d: "dll h l (xs @ x # ys)"
  shows "\<exists>h'. removeFromList h x = Some h' \<and> dll h' l (xs @ ys) \<and> event_data h' = event_data h \<and>
    (\<forall>m zs. dll h m zs \<longrightarrow> set (m # zs) \<inter> set (l # xs @ x # ys) = {} \<longrightarrow> dll h' m zs)"
proof -
  define n p where "n = hd (ys @ [l])" and "p = last (l # xs)"
  let ?N = "get_next h" and ?P = "get_prev h"
  have dist: "distinct (l # xs @ x # ys)" using d by (simp add: dll_def)
  have s1: "seg ?N ?P l xs x" and s2: "seg ?N ?P x ys l"
    using d by (simp_all add: dll_def seg_append)
  have s3: "?N x = Some n" "?P n = Some x" and s4: "ys \<noteq> [] \<Longrightarrow> seg ?N ?P n (tl ys) l"
    using s2 by (cases ys; simp add: n_def)+
  have n: "n \<in> set (l # ys)" unfolding n_def by (cases ys) auto
  have p: "p \<in> set (l # xs)" unfolding p_def by (rule last_in_set) simp
  have Px: "?P x = Some p" using seg_last [OF s1] by (simp add: p_def)
  have "h n \<noteq> None" "h p \<noteq> None" using dll_heap [OF d] n p by auto
  moreover have xnp: "x \<noteq> n" "x \<noteq> p" using dist n p by auto
  ultimately obtain h' where h': "removeFromList h x = Some h'"
      "get_next h' = ?N(p \<mapsto> n, x \<mapsto> NULL)" "get_prev h' = ?P(n \<mapsto> p, x \<mapsto> NULL)"
      "event_data h' = event_data h"
    using removeFromList_links [OF s3(1) Px] by blast
  have nxs: "n \<notin> set xs" using dist n by auto
  have t1: "seg (get_next h') (get_prev h') l xs n"
    using s1 dist xnp nxs by (intro seg_retarget [OF s1]) (auto simp: h' p_def)
  have t2: "seg (get_next h') (get_prev h') n (tl ys) l" if ne: "ys \<noteq> []"
  proof -
    obtain y zs where ys: "ys = y # zs" using ne by (cases ys) auto
    moreover have "n = y" using ys by (simp add: n_def)
    moreover have "p \<notin> set ys" using p dist by auto
    moreover have "seg ?N ?P n (tl ys) l" using s4 [OF ne] .
    ultimately show ?thesis
      using dist xnp by - (rule seg_frameI, assumption, auto simp: h')
  qed
  have "seg (get_next h') (get_prev h') l (xs @ ys) l"
    using t1 t2 seg_split by (auto simp: n_def hd_append)
  then have "dll h' l (xs @ ys)" using dist by (auto simp: dll_def)
  moreover have "dll h' m zs"
    if "dll h m zs" "set (m # zs) \<inter> set (l # xs @ x # ys) = {}" for m zs
    using that p n by (intro dll_frame [OF that(1)]) (auto simp: h')
  ultimately show ?thesis using h' by auto
qed

lemma dll_next_head: "dll h l xs \<Longrightarrow> get_next h l = Some (hd (xs @ [l]))"
  by (cases xs) (auto simp: dll_def)

lemma dll_next_mid: "dll h l (xs @ x # ys) \<Longrightarrow> get_next h x = Some (hd (ys @ [l]))"
  by (cases ys) (auto simp: dll_def seg_append)

interpretation evl: list_memory dll removeFromList addToList get_next event_data
proof
  fix h :: "'a ev_heap" and l x xs ys and d :: "'a ril_event"
  show "dll h l xs \<Longrightarrow> distinct (l # xs)"
    by (simp add: dll_def)
  show "dll h l xs \<Longrightarrow> x \<in> set (l # xs) \<Longrightarrow> \<exists>d. event_data h x = Some d"
    using dll_heap [of h l xs x] by (auto simp: event_data_def)
  show "dll h l xs \<Longrightarrow> get_next h l = Some (hd (xs @ [l]))"
    by (rule dll_next_head)
  show "dll h l (xs @ x # ys) \<Longrightarrow> get_next h x = Some (hd (ys @ [l]))"
    by (rule dll_next_mid)
  show "dll h l (xs @ x # ys) \<Longrightarrow>
      \<exists>h'. removeFromList h x = Some h' \<and> dll h' l (xs @ ys) \<and> event_data h' = event_data h \<and>
        (\<forall>m zs. dll h m zs \<longrightarrow> set (m # zs) \<inter> set (l # xs @ x # ys) = {} \<longrightarrow> dll h' m zs)"
    by (rule dll_unlink)
  show "dll h l (xs @ ys) \<Longrightarrow> x \<notin> set (l # xs @ ys) \<Longrightarrow> event_data h x = Some d \<Longrightarrow>
      \<exists>h'. addToList h x (hd (ys @ [l])) = Some h' \<and> dll h' l (xs @ x # ys) \<and>
        event_data h' = event_data h \<and>
        (\<forall>m zs. dll h m zs \<longrightarrow> set (m # zs) \<inter> set (x # l # xs @ ys) = {} \<longrightarrow> dll h' m zs)"
    by (rule dll_link) (auto simp: event_data_def)
qed

end
