(* ===== verification/Ril_Event_Timers.thy ===== *)
theory Ril_Event_Timers
  imports Ril_Event_Lists
begin

text \<open>
  The timer and pending lists: adding a timer keeps the list sorted by expiry, the next timeout
  is the time to the earliest timer, the expired timers and only they move to the pending list in
  order of expiry, and firing runs every pending event once, in order.
\<close>

section \<open>Abstraction\<close>

definition event_lists :: "'f ev_heap \<Rightarrow> addr list \<Rightarrow> addr list \<Rightarrow> bool" where
  "event_lists h ts ps \<longleftrightarrow> dll h timer_list ts \<and> dll h pending_list ps \<and>
     set (timer_list # ts) \<inter> set (pending_list # ps) = {}"

definition timeout_of :: "'f ev_heap \<Rightarrow> addr \<Rightarrow> timeval" where
  "timeout_of h a = ev_timeout (the (h a))"

definition timers_sorted :: "'f ev_heap \<Rightarrow> addr list \<Rightarrow> bool" where
  "timers_sorted h ts \<longleftrightarrow> sorted (map (timeout_of h) ts)"

lemma list_heads [simp]:
  "timer_list \<noteq> pending_list" "pending_list \<noteq> timer_list" "timer_list \<noteq> NULL" "pending_list \<noteq> NULL"
  by (simp_all add: timer_list_def pending_list_def)

lemma sorted_split:
  fixes c :: "'a :: linorder"
  assumes "sorted (map f xs)"
  shows "takeWhile (\<lambda>x. f x < c) xs = filter (\<lambda>x. f x < c) xs \<and>
    dropWhile (\<lambda>x. f x < c) xs = filter (\<lambda>x. \<not> f x < c) xs"
  using assms
proof (induction xs)
  case Nil
  then show ?case by simp
next
  case (Cons x xs)
  show ?case
  proof (cases "f x < c")
    case True
    then show ?thesis using Cons by simp
  next
    case False
    then have "\<forall>y \<in> set xs. \<not> f y < c" using Cons.prems by force
    then have "filter (\<lambda>x. f x < c) xs = []" "filter (\<lambda>x. \<not> f x < c) xs = xs"
      by (simp_all add: filter_empty_conv filter_id_conv)
    then show ?thesis using False by simp
  qed
qed

lemma sorted_insert_position:
  fixes f :: "'b \<Rightarrow> 'a :: linorder"
  assumes "sorted (map f xs)"
  shows "sorted (map f (takeWhile (\<lambda>x. f x < f a) xs @ a # dropWhile (\<lambda>x. f x < f a) xs))"
  using assms sorted_split [OF assms, of "f a"]
  by (auto simp: sorted_append sorted_filter intro: less_imp_le order_trans)

lemma the_event_data [simp]: "ev_timeout (the (event_data h a)) = timeout_of h a"
  by (cases "h a") (simp_all add: event_data_def timeout_of_def)

lemma event_data_timeout: "event_data h' = event_data h \<Longrightarrow> timeout_of h' = timeout_of h"
  by (metis ext the_event_data)

lemma event_data_defined: "event_data h' = event_data h \<Longrightarrow> (h' a = None) = (h a = None)"
  unfolding event_data_def by (metis map_option_is_None)

lemma unlocked [simp]:
  "\<not> listLocked s \<Longrightarrow> s\<lparr>listLocked := False\<rparr> = s"
  "\<not> listLocked s \<Longrightarrow> s\<lparr>heap := h, listLocked := False\<rparr> = s\<lparr>heap := h\<rparr>"
  by (cases s; simp)+

text \<open>An update that keeps the links keeps every list.\<close>

lemma upd_event_links:
  assumes "upd_event h a f = Some h'" and "\<And>e. ev_next (f e) = ev_next e"
    and "\<And>e. ev_prev (f e) = ev_prev e"
  shows "dll h' l xs = dll h l xs"
proof -
  obtain e where e: "h a = Some e" "h' = h(a \<mapsto> f e)" using assms(1) by (auto simp: upd_event_def)
  then have "get_next h' = get_next h" "get_prev h' = get_prev h"
    using assms(2,3) by (auto simp: get_next_def get_prev_def fun_eq_iff)
  then show ?thesis by (simp add: dll_def)
qed

section \<open>Expired timers\<close>

lemma processTimeouts_loop_lists:
  assumes "event_lists h ts ps" and "timers_sorted h ts"
  shows "\<exists>h'. processTimeouts_loop now h (hd (ts @ [timer_list])) = Some h' \<and>
    event_data h' = event_data h \<and>
    event_lists h' (filter (\<lambda>t. \<not> timeout_of h t < now) ts)
      (ps @ filter (\<lambda>t. timeout_of h t < now) ts)"
proof -
  let ?ex = "\<lambda>d. ev_timeout d < now"
  have step: "processTimeouts_loop now h t = (if t = timer_list then Some h else do {
      d \<leftarrow> event_data h t;
      if ?ex d then do {
        nx \<leftarrow> get_next h t; h1 \<leftarrow> removeFromList h t; h2 \<leftarrow> addToList h1 t pending_list;
        processTimeouts_loop now h2 nx }
      else Some h })" for h :: "'a ev_heap" and t
    by (subst processTimeouts_loop.simps) (auto simp: event_data_def split: Option.bind_splits)
  have d: "dll h timer_list ts" "dll h pending_list ps"
      "set (timer_list # ts) \<inter> set (pending_list # ps) = {}"
    using assms(1) by (auto simp: event_lists_def)
  obtain h' where h': "processTimeouts_loop now h (hd (ts @ [timer_list])) = Some h'"
      "event_data h' = event_data h"
      "dll h' timer_list (dropWhile (\<lambda>x. timeout_of h x < now) ts)"
      "dll h' pending_list (ps @ takeWhile (\<lambda>x. timeout_of h x < now) ts)"
    using evl.drain_loop [of "processTimeouts_loop now" timer_list ?ex pending_list, OF step d] by auto
  then show ?thesis
    using h' d sorted_split [of "timeout_of h" ts now] assms(2)
    by (auto simp: event_lists_def timers_sorted_def dll_def)
qed

lemma timers_sorted_filter:
  assumes "timers_sorted h ts" and "event_data h' = event_data h"
  shows "timers_sorted h' (filter P ts)"
  using assms event_data_timeout [OF assms(2)] by (simp add: timers_sorted_def sorted_filter)

text \<open>
  \<open>processTimeouts\<close> moves the timers that expired before \<open>now\<close>, and only these, to the end of the
  pending list, in their order.
\<close>

lemma processTimeouts_lists:
  assumes "\<not> listLocked s" and "event_lists (heap s) ts ps" and "timers_sorted (heap s) ts"
  shows "\<exists>h'. processTimeouts now s = Some (s\<lparr>heap := h'\<rparr>) \<and> event_data h' = event_data (heap s) \<and>
    timers_sorted h' (filter (\<lambda>t. \<not> timeout_of (heap s) t < now) ts) \<and>
    event_lists h' (filter (\<lambda>t. \<not> timeout_of (heap s) t < now) ts)
      (ps @ filter (\<lambda>t. timeout_of (heap s) t < now) ts)"
proof -
  obtain h' where h': "processTimeouts_loop now (heap s) (hd (ts @ [timer_list])) = Some h'"
      "event_data h' = event_data (heap s)"
      "event_lists h' (filter (\<lambda>t. \<not> timeout_of (heap s) t < now) ts)
        (ps @ filter (\<lambda>t. timeout_of (heap s) t < now) ts)"
    using processTimeouts_loop_lists [OF assms(2,3)] by blast
  moreover have "get_next (heap s) timer_list = Some (hd (ts @ [timer_list]))"
    using assms(2) by (simp add: event_lists_def dll_next_head)
  ultimately show ?thesis
    using assms timers_sorted_filter [OF assms(3) h'(2)]
    by (auto simp: processTimeouts_def MUTEX_ACQUIRE_def MUTEX_RELEASE_def)
qed

section \<open>The next timeout\<close>

lemma calcNextTimeout_empty:
  "event_lists (heap s) [] ps \<Longrightarrow> calcNextTimeout now s = Some None"
  by (auto simp: calcNextTimeout_def event_lists_def dll_next_head)

lemma calcNextTimeout_first:
  assumes "event_lists (heap s) (t # ts) ps"
  shows "calcNextTimeout now s = Some (Some (if now < timeout_of (heap s) t
    then timersub (timeout_of (heap s) t) now else Timeval 0 0))"
proof -
  have "dll (heap s) timer_list (t # ts)" using assms by (simp add: event_lists_def)
  then have "get_next (heap s) timer_list = Some t" "t \<noteq> timer_list" "heap s t \<noteq> None"
    using dll_next_head [of "heap s" timer_list "t # ts"] dll_heap [of "heap s" timer_list "t # ts" t]
    by (auto simp: dll_def)
  then show ?thesis by (auto simp: calcNextTimeout_def timeout_of_def)
qed

section \<open>Adding a timer\<close>

lemma timer_position_lists:
  assumes "dll h timer_list ts"
  shows "timer_position h t (hd (ts @ [timer_list])) =
    Some (hd (dropWhile (\<lambda>x. timeout_of h x < t) ts @ [timer_list]))"
proof -
  let ?lt = "\<lambda>d. ev_timeout d < t"
  have step: "timer_position h t x = do {
      d \<leftarrow> event_data h x; nx \<leftarrow> get_next h x;
      if ?lt d \<and> x \<noteq> timer_list then timer_position h t nx else Some x }" for x
    by (subst timer_position.simps)
      (auto simp: event_data_def get_next_def split: Option.bind_splits)
  show ?thesis
    using evl.position_loop [of "timer_position h t" h ?lt timer_list "[]" ts, OF step] assms by simp
qed

text \<open>
  \<open>ril_timer_add\<close> puts the event before the first timer that does not expire earlier, so the list
  stays sorted; no other event and no other list changes.
\<close>

lemma ril_timer_add_lists:
  assumes "\<not> listLocked s" and lists: "event_lists (heap s) ts ps" and sorted: "timers_sorted (heap s) ts"
    and new: "ev \<notin> set (timer_list # pending_list # ts @ ps)" and he: "heap s ev = Some e"
  shows "\<exists>h'. ril_timer_add now ev (Some tv) s = Some (s\<lparr>heap := h'\<rparr>) \<and>
    (let at = timeradd now tv; before = takeWhile (\<lambda>x. timeout_of (heap s) x < at) ts;
         after = dropWhile (\<lambda>x. timeout_of (heap s) x < at) ts
     in event_lists h' (before @ ev # after) ps \<and> timers_sorted h' (before @ ev # after) \<and>
        event_data h' = (event_data (heap s))(ev \<mapsto> strip (e\<lparr>ev_fd := -1, ev_timeout := at\<rparr>)))"
proof -
  define at where "at = timeradd now tv"
  define e' where "e' = e\<lparr>ev_fd := -1, ev_timeout := at\<rparr>"
  define h1 where "h1 = (heap s)(ev \<mapsto> e')"
  let ?us = "takeWhile (\<lambda>x. timeout_of (heap s) x < at) ts"
  let ?vs = "dropWhile (\<lambda>x. timeout_of (heap s) x < at) ts"
  let ?f = "(timeout_of (heap s))(ev := at)"
  have u: "upd_event (heap s) ev (\<lambda>e. e\<lparr>ev_fd := -1, ev_timeout := at\<rparr>) = Some h1"
    by (simp add: upd_event_def he h1_def e'_def)
  have d1: "dll h1 l xs = dll (heap s) l xs" for l xs by (rule upd_event_links [OF u]) simp_all
  have dt: "dll h1 timer_list (?us @ ?vs)" and dp: "dll h1 pending_list ps"
    using lists d1 by (simp_all add: event_lists_def)
  have same: "timeout_of h1 x = timeout_of (heap s) x" if "x \<in> set ts" for x
    using that new by (auto simp: timeout_of_def h1_def)
  then have "dropWhile (\<lambda>x. timeout_of h1 x < at) ts = ?vs" by (intro dropWhile_cong) auto
  then have pos: "timer_position h1 at (hd (ts @ [timer_list])) = Some (hd (?vs @ [timer_list]))"
    using timer_position_lists [of h1 ts at] dt by simp
  have evts: "ev \<notin> set (timer_list # ?us @ ?vs)" using new by simp
  then obtain h' where h': "addToList h1 ev (hd (?vs @ [timer_list])) = Some h'"
      "dll h' timer_list (?us @ ev # ?vs)" "event_data h' = event_data h1"
      "\<forall>m zs. dll h1 m zs \<longrightarrow> set (m # zs) \<inter> set (ev # timer_list # ?us @ ?vs) = {} \<longrightarrow> dll h' m zs"
    using dll_link [OF dt evts] by (auto simp: h1_def)
  have disj: "set (pending_list # ps) \<inter> set (ev # timer_list # ?us @ ?vs) = {}"
    using lists new by (auto simp: event_lists_def)
  then have "dll h' pending_list ps" using h'(4) dp by blast
  then have el: "event_lists h' (?us @ ev # ?vs) ps"
    using h'(2) disj new lists
    by (auto simp: event_lists_def dest: set_takeWhileD set_dropWhileD)
  have "map (timeout_of h') (?us @ ev # ?vs) = map (timeout_of h1) (?us @ ev # ?vs)"
    by (simp add: event_data_timeout [OF h'(3)])
  also have "\<dots> = map ?f (?us @ ev # ?vs)"
    using evts same by (auto simp: timeout_of_def h1_def e'_def dest: set_takeWhileD set_dropWhileD)
  finally have mp: "map (timeout_of h') (?us @ ev # ?vs) = map ?f (?us @ ev # ?vs)" .
  have "map ?f ts = map (timeout_of (heap s)) ts" using new by auto
  then have "sorted (map ?f ts)" using sorted unfolding timers_sorted_def by (rule ssubst)
  from sorted_insert_position [OF this, of ev]
  have "sorted (map ?f (takeWhile (\<lambda>x. ?f x < ?f ev) ts @ ev # dropWhile (\<lambda>x. ?f x < ?f ev) ts))" .
  moreover have "takeWhile (\<lambda>x. ?f x < ?f ev) ts = ?us" "dropWhile (\<lambda>x. ?f x < ?f ev) ts = ?vs"
    using new by (auto intro!: takeWhile_cong dropWhile_cong)
  ultimately have "sorted (map ?f (?us @ ev # ?vs))" by simp
  then have so: "timers_sorted h' (?us @ ev # ?vs)"
    unfolding timers_sorted_def by (subst mp)
  have dat: "event_data h' = (event_data (heap s))(ev \<mapsto> strip e')"
    by (simp add: h'(3) h1_def event_data_def fun_eq_iff)
  have "get_next (heap s) timer_list = Some (hd (ts @ [timer_list]))"
    using lists by (simp add: event_lists_def dll_next_head)
  then have "ril_timer_add now ev (Some tv) s = Some (s\<lparr>heap := h'\<rparr>)"
    using assms(1) u pos h'(1)
    by (simp add: ril_timer_add_def MUTEX_ACQUIRE_def MUTEX_RELEASE_def at_def)
  then show ?thesis using el so dat
    by (intro exI [of _ h']) (simp add: Let_def at_def e'_def)
qed

section \<open>Firing\<close>

text \<open>What \<open>firePending\<close> does with one event.\<close>

definition fire_one :: "('f, 'z) fire \<Rightarrow> addr \<Rightarrow> ('f, 'z) event_state_scheme \<Rightarrow> ('f, 'z) event_state_scheme option" where
  "fire_one call ev s = do {
     h \<leftarrow> removeFromList (heap s) ev;
     e \<leftarrow> h ev;
     f \<leftarrow> ev_func e;
     call f (ev_fd e) (ev_param e) (s\<lparr>heap := h\<rparr>) }"

text \<open>A callback that leaves the events still to be fired alone.\<close>

definition keeps_pending :: "('f, 'z) fire \<Rightarrow> bool" where
  "keeps_pending call \<longleftrightarrow> (\<forall>f fd p s s' zs. call f fd p s = Some s' \<longrightarrow>
     dll (heap s) pending_list zs \<longrightarrow> dll (heap s') pending_list zs)"

lemma firePending_loop_eq:
  assumes keep: "keeps_pending call"
  shows "dll (heap s) pending_list ps \<Longrightarrow>
    firePending_loop call s (hd (ps @ [pending_list])) = foldM (fire_one call) ps s"
proof (induction ps arbitrary: s)
  case Nil
  then show ?case by (simp add: firePending_loop.simps)
next
  case (Cons x xs)
  have "x \<noteq> pending_list" using Cons.prems by (auto simp: dll_def)
  moreover have "get_next (heap s) x = Some (hd (xs @ [pending_list]))"
    using dll_next_mid [of "heap s" pending_list "[]" x xs] Cons.prems by simp
  moreover obtain h' where h': "removeFromList (heap s) x = Some h'" "dll h' pending_list xs"
    using dll_unlink [of "heap s" pending_list "[]" x xs] Cons.prems by auto
  moreover have "dll (heap s') pending_list xs"
    if "call f fd p (s\<lparr>heap := h'\<rparr>) = Some s'" for f fd p s'
    using keep that h'(2) unfolding keeps_pending_def by fastforce
  ultimately show ?case
    by (subst firePending_loop.simps)
      (auto simp: fire_one_def [of call x] Cons.IH split: Option.bind_splits)
qed

lemma firePending_eq:
  assumes "keeps_pending call" and "dll (heap s) pending_list ps"
  shows "firePending call s = foldM (fire_one call) ps s"
  using firePending_loop_eq [OF assms] dll_next_head [OF assms(2)] by (simp add: firePending_def)

lemma fire_one_pending:
  assumes "keeps_pending call" and "fire_one call x s = Some s'" and "dll (heap s) pending_list (x # xs)"
  shows "dll (heap s') pending_list xs"
proof -
  obtain h' where h': "removeFromList (heap s) x = Some h'" "dll h' pending_list xs"
    using dll_unlink [of "heap s" pending_list "[]" x xs] assms(3) by auto
  then show ?thesis
    using assms(1,2) unfolding keeps_pending_def fire_one_def
    by (fastforce split: Option.bind_splits)
qed

lemma firePending_empties:
  assumes keep: "keeps_pending call"
  shows "dll (heap s) pending_list ps \<Longrightarrow> foldM (fire_one call) ps s = Some s' \<Longrightarrow>
    dll (heap s') pending_list []"
proof (induction ps arbitrary: s)
  case Nil
  then show ?case by simp
next
  case (Cons x xs)
  then obtain s1 where s1: "fire_one call x s = Some s1" "foldM (fire_one call) xs s1 = Some s'"
    by (auto split: Option.bind_splits)
  from fire_one_pending [OF keep s1(1) Cons.prems(1)] s1(2) show ?case by (rule Cons.IH)
qed

end
