(* ===== verification/Ril_Event_Watch.thy ===== *)
theory Ril_Event_Watch
  imports Ril_Event_Timers
begin

text \<open>
  The table of watched descriptors: the invariant that ties the table, the \<open>index\<close> fields, the
  descriptor set handed to \<open>select\<close> and \<open>nfds\<close> together, and that \<open>ril_event_add\<close>,
  \<open>ril_event_del\<close> and \<open>processReadReadies\<close> keep it; what each of them does to the table.
\<close>

definition fd_of :: "'f ev_heap \<Rightarrow> addr \<Rightarrow> int" where
  "fd_of h a = ev_fd (the (h a))"

definition watch_inv :: "('f, 'z) event_state_scheme \<Rightarrow> bool" where
  "watch_inv s \<longleftrightarrow> length (watch_table s) = MAX_FD_EVENTS \<and>
     (\<forall>i < MAX_FD_EVENTS. watch_table s ! i \<noteq> NULL \<longrightarrow>
        (\<exists>e. heap s (watch_table s ! i) = Some e \<and> ev_index e = int i \<and> fd_ok (ev_fd e) \<and>
           ev_fd e \<in> readFds s \<and> ev_fd e < nfds s)) \<and>
     (\<forall>fd \<in> readFds s. \<exists>i < MAX_FD_EVENTS. watch_table s ! i \<noteq> NULL \<and>
        fd_of (heap s) (watch_table s ! i) = fd) \<and>
     (\<forall>i < MAX_FD_EVENTS. \<forall>j < MAX_FD_EVENTS. watch_table s ! i \<noteq> NULL \<longrightarrow> watch_table s ! j \<noteq> NULL \<longrightarrow>
        fd_of (heap s) (watch_table s ! i) = fd_of (heap s) (watch_table s ! j) \<longrightarrow> i = j)"

lemma watch_invD:
  assumes "watch_inv s" and "i < MAX_FD_EVENTS" and "watch_table s ! i = w" and "w \<noteq> NULL"
  shows "\<exists>e. heap s w = Some e \<and> ev_index e = int i \<and> fd_ok (ev_fd e) \<and>
    ev_fd e \<in> readFds s \<and> ev_fd e < nfds s"
  using assms by (auto simp: watch_inv_def)

lemma watch_inv_length: "watch_inv s \<Longrightarrow> length (watch_table s) = MAX_FD_EVENTS"
  by (simp add: watch_inv_def)

lemma watch_distinct:
  assumes "watch_inv s" and "i < MAX_FD_EVENTS" "j < MAX_FD_EVENTS"
    and "watch_table s ! i = watch_table s ! j" and "watch_table s ! i \<noteq> NULL"
  shows "i = j"
  using assms unfolding watch_inv_def by metis

lemma event_data_fields:
  assumes "event_data h' = event_data h" and "h a = Some e"
  shows "\<exists>e'. h' a = Some e' \<and> ev_fd e' = ev_fd e \<and> ev_index e' = ev_index e \<and>
    ev_persist e' = ev_persist e \<and> ev_func e' = ev_func e \<and> ev_param e' = ev_param e \<and>
    ev_timeout e' = ev_timeout e"
proof -
  have "event_data h' a = Some (strip e)" using assms by (simp add: event_data_def)
  then obtain e' where "h' a = Some e'" "strip e' = strip e" by (auto simp: event_data_def)
  then show ?thesis by (metis strip_fields)
qed

lemma event_data_fd: "event_data h' = event_data h \<Longrightarrow> fd_of h' = fd_of h"
proof
  fix a assume "event_data h' = event_data h"
  moreover have "ev_fd (the (event_data h b)) = fd_of h b" for h :: "'a ev_heap" and b
    by (cases "h b") (simp_all add: event_data_def fd_of_def)
  ultimately show "fd_of h' a = fd_of h a" by metis
qed

lemma watch_inv_links:
  assumes "watch_inv s" and "event_data h' = event_data (heap s)"
  shows "watch_inv (s\<lparr>heap := h'\<rparr>)"
  using assms event_data_fd [OF assms(2)] event_data_fields [OF assms(2)]
  unfolding watch_inv_def by (simp, metis)

section \<open>Removing an entry\<close>

lemma max_watched_ok:
  assumes "\<And>w. w \<in> set ws \<Longrightarrow> w \<noteq> NULL \<Longrightarrow> h w \<noteq> None"
  shows "\<exists>m. max_watched h ws n = Some m \<and> n \<le> m \<and> (\<forall>w \<in> set ws. w \<noteq> NULL \<longrightarrow> fd_of h w \<le> m)"
  using assms
proof (induction ws arbitrary: n)
  case Nil
  then show ?case by simp
next
  case (Cons w ws)
  show ?case
  proof (cases "w = NULL")
    case True
    then show ?thesis using Cons by auto
  next
    case False
    then obtain e where e: "h w = Some e" using Cons.prems by fastforce
    obtain m where "max_watched h ws (if ev_fd e > n then ev_fd e else n) = Some m"
        "(if ev_fd e > n then ev_fd e else n) \<le> m" "\<forall>w \<in> set ws. w \<noteq> NULL \<longrightarrow> fd_of h w \<le> m"
      using Cons.IH Cons.prems by (metis list.set_intros(2))
    then show ?thesis using False e by (auto simp: fd_of_def split: if_splits)
  qed
qed

lemma removeWatch_ok:
  assumes inv: "watch_inv s" and i: "i < MAX_FD_EVENTS" and w: "watch_table s ! i = w" "w \<noteq> NULL"
    and e: "heap s w = Some e"
  shows "\<exists>n. removeWatch w i s = Some (s\<lparr>watch_table := (watch_table s)[i := NULL],
      heap := (heap s)(w \<mapsto> e\<lparr>ev_index := -1\<rparr>), readFds := readFds s - {ev_fd e}, nfds := n\<rparr>) \<and>
    watch_inv (s\<lparr>watch_table := (watch_table s)[i := NULL],
      heap := (heap s)(w \<mapsto> e\<lparr>ev_index := -1\<rparr>), readFds := readFds s - {ev_fd e}, nfds := n\<rparr>)"
proof -
  let ?wt = "(watch_table s)[i := NULL]" and ?h = "(heap s)(w \<mapsto> e\<lparr>ev_index := -1\<rparr>)"
  have len: "length (watch_table s) = MAX_FD_EVENTS" by (rule watch_inv_length [OF inv])
  have ok: "fd_ok (ev_fd e)" using watch_invD [OF inv i w] e by auto
  have other: "?wt ! j = watch_table s ! j \<and> ?wt ! j \<noteq> w" if "j < MAX_FD_EVENTS" "?wt ! j \<noteq> NULL" for j
    using that i len w watch_distinct [OF inv, of j i] by (cases "j = i") auto
  have fd: "fd_of ?h a = fd_of (heap s) a" for a using e by (simp add: fd_of_def)
  have defd: "?h v \<noteq> None" if "v \<in> set ?wt" "v \<noteq> NULL" for v
    using that len other inv by (auto simp: in_set_conv_nth watch_inv_def dest!: spec)
  obtain m where m: "max_watched ?h ?wt 0 = Some m"
      "\<forall>v \<in> set ?wt. v \<noteq> NULL \<longrightarrow> fd_of ?h v \<le> m"
    using max_watched_ok [of ?wt ?h 0] defd by blast
  define n where "n = (if ev_fd e + 1 = nfds s then m + 1 else nfds s)"
  have rw: "removeWatch w i s =
      Some (s\<lparr>watch_table := ?wt, heap := ?h, readFds := readFds s - {ev_fd e}, nfds := n\<rparr>)"
    using i len e ok m(1) by (simp add: removeWatch_def upd_event_def FD_CLR_def n_def)
  have bound: "fd_of (heap s) (?wt ! j) < n" if "j < MAX_FD_EVENTS" "?wt ! j \<noteq> NULL" for j
  proof -
    have "?wt ! j \<in> set ?wt" using that(1) len by simp
    then have "fd_of ?h (?wt ! j) \<le> m" using m(2) that(2) by blast
    moreover have "fd_of (heap s) (watch_table s ! j) < nfds s"
      using watch_invD [OF inv that(1)] other [OF that] that(2) by (auto simp: fd_of_def)
    ultimately show ?thesis using other [OF that] fd by (auto simp: n_def)
  qed
  have fds: "fd_of (heap s) (?wt ! j) \<noteq> ev_fd e" if "j < MAX_FD_EVENTS" "?wt ! j \<noteq> NULL" for j
    using inv i w e other [OF that] that unfolding watch_inv_def fd_of_def
    by (metis len length_list_update nth_list_update_eq option.sel)
  have "watch_inv (s\<lparr>watch_table := ?wt, heap := ?h, readFds := readFds s - {ev_fd e}, nfds := n\<rparr>)"
    (is "watch_inv ?s'")
    unfolding watch_inv_def
  proof (intro conjI allI impI ballI)
    show "length (watch_table ?s') = MAX_FD_EVENTS" using len by simp
  next
    fix j assume j: "j < MAX_FD_EVENTS" "watch_table ?s' ! j \<noteq> NULL"
    then obtain e' where e': "heap s (?wt ! j) = Some e'" "ev_index e' = int j" "fd_ok (ev_fd e')"
        "ev_fd e' \<in> readFds s"
      using watch_invD [OF inv j(1)] other [of j] by auto
    then show "\<exists>e. heap ?s' (watch_table ?s' ! j) = Some e \<and> ev_index e = int j \<and> fd_ok (ev_fd e) \<and>
        ev_fd e \<in> readFds ?s' \<and> ev_fd e < nfds ?s'"
      using other [of j] bound [of j] fds [of j] j by (auto simp: fd_of_def)
  next
    fix fd' assume "fd' \<in> readFds ?s'"
    then obtain j where "j < MAX_FD_EVENTS" "watch_table s ! j \<noteq> NULL"
        "fd_of (heap s) (watch_table s ! j) = fd'" "fd' \<noteq> ev_fd e"
      using inv by (auto simp: watch_inv_def)
    moreover have "j \<noteq> i" using calculation w e by (auto simp: fd_of_def)
    ultimately show "\<exists>j < MAX_FD_EVENTS. watch_table ?s' ! j \<noteq> NULL \<and>
        fd_of (heap ?s') (watch_table ?s' ! j) = fd'"
      using fd by (intro exI [of _ j]) simp
  next
    fix j k assume "j < MAX_FD_EVENTS" "k < MAX_FD_EVENTS" "watch_table ?s' ! j \<noteq> NULL"
      "watch_table ?s' ! k \<noteq> NULL"
      "fd_of (heap ?s') (watch_table ?s' ! j) = fd_of (heap ?s') (watch_table ?s' ! k)"
    then show "j = k" using inv other [of j] other [of k] fd unfolding watch_inv_def by simp
  qed
  with rw show ?thesis by blast
qed

lemma ril_event_del_watched:
  assumes "watch_inv s" and "\<not> listLocked s" and "i < MAX_FD_EVENTS" and "watch_table s ! i = w"
    and "w \<noteq> NULL"
  shows "\<exists>s'. ril_event_del w s = Some s' \<and> watch_inv s' \<and> \<not> listLocked s' \<and>
    watch_table s' = (watch_table s)[i := NULL] \<and> readFds s' = readFds s - {fd_of (heap s) w}"
proof -
  obtain e where e: "heap s w = Some e" "ev_index e = int i"
    using watch_invD [OF assms(1,3,4,5)] by blast
  let ?t = "s\<lparr>listLocked := True\<rparr>"
  have "watch_inv ?t" using assms(1) by (simp add: watch_inv_def)
  then obtain n where n: "removeWatch w i ?t = Some (?t\<lparr>watch_table := (watch_table s)[i := NULL],
      heap := (heap s)(w \<mapsto> e\<lparr>ev_index := -1\<rparr>), readFds := readFds s - {ev_fd e}, nfds := n\<rparr>)"
      "watch_inv (?t\<lparr>watch_table := (watch_table s)[i := NULL],
      heap := (heap s)(w \<mapsto> e\<lparr>ev_index := -1\<rparr>), readFds := readFds s - {ev_fd e}, nfds := n\<rparr>)"
    using removeWatch_ok [of ?t i w e] assms e by auto
  then show ?thesis
    using assms(2,3) e by (auto simp: ril_event_del_def MUTEX_ACQUIRE_def MUTEX_RELEASE_def fd_of_def
        watch_inv_def)
qed

text \<open>An event that is not in the table: the mutex stays held, and whoever needs it next hangs.\<close>

lemma ril_event_del_unwatched:
  assumes "\<not> listLocked s" and "heap s w = Some e" and "ev_index e < 0"
  shows "ril_event_del w s = Some (s\<lparr>listLocked := True\<rparr>)"
  using assms by (simp add: ril_event_del_def MUTEX_ACQUIRE_def)

lemma listLocked_hangs:
  assumes "listLocked s"
  shows "ril_event_add ev s = None" "ril_event_del ev s = None" "ril_timer_add now ev tv s = None"
    "processTimeouts now s = None" "processReadReadies rfds n s = None"
  using assms
  by (simp_all add: ril_event_add_def ril_event_del_def ril_timer_add_def processTimeouts_def
      processReadReadies_def MUTEX_ACQUIRE_def)

section \<open>Adding an entry\<close>

lemma first_free_Some:
  "first_free ws k = Some i \<Longrightarrow> k \<le> i \<and> i - k < length ws \<and> ws ! (i - k) = NULL \<and>
     (\<forall>j < i - k. ws ! j \<noteq> NULL)"
proof (induction ws arbitrary: k)
  case Nil
  then show ?case by simp
next
  case (Cons w ws)
  show ?case
  proof (cases "w = NULL")
    case True
    then show ?thesis using Cons.prems by simp
  next
    case False
    then have "Suc k \<le> i \<and> i - Suc k < length ws \<and> ws ! (i - Suc k) = NULL \<and>
        (\<forall>j < i - Suc k. ws ! j \<noteq> NULL)"
      using Cons by simp
    moreover then obtain d where "i - k = Suc d" "i - Suc k = d" by (metis Suc_diff_Suc Suc_le_lessD)
    ultimately show ?thesis using False by (auto simp: nth_Cons split: nat.splits)
  qed
qed

lemma first_free_None: "first_free ws k = None \<longleftrightarrow> NULL \<notin> set ws"
  by (induction ws arbitrary: k) auto

lemma ril_event_add_full:
  assumes "\<not> listLocked s" and "NULL \<notin> set (watch_table s)"
  shows "ril_event_add ev s = Some s"
proof -
  have "first_free (watch_table s) 0 = None" using assms(2) first_free_None by blast
  then show ?thesis using assms(1) by (simp add: ril_event_add_def MUTEX_ACQUIRE_def MUTEX_RELEASE_def)
qed

lemma ril_event_add_ok:
  assumes inv: "watch_inv s" and lck: "\<not> listLocked s" and free: "first_free (watch_table s) 0 = Some i"
    and new: "ev \<notin> set (watch_table s)" "ev \<noteq> NULL" and e: "heap s ev = Some e"
    and fd: "fd_ok (ev_fd e)" "ev_fd e \<notin> readFds s"
  shows "\<exists>n. ril_event_add ev s = Some (s\<lparr>watch_table := (watch_table s)[i := ev],
      heap := (heap s)(ev \<mapsto> e\<lparr>ev_index := int i\<rparr>), readFds := insert (ev_fd e) (readFds s), nfds := n\<rparr>) \<and>
    watch_inv (s\<lparr>watch_table := (watch_table s)[i := ev],
      heap := (heap s)(ev \<mapsto> e\<lparr>ev_index := int i\<rparr>), readFds := insert (ev_fd e) (readFds s), nfds := n\<rparr>)"
proof -
  let ?wt = "(watch_table s)[i := ev]" and ?h = "(heap s)(ev \<mapsto> e\<lparr>ev_index := int i\<rparr>)"
  have len: "length (watch_table s) = MAX_FD_EVENTS" by (rule watch_inv_length [OF inv])
  have i: "i < MAX_FD_EVENTS" "watch_table s ! i = NULL"
    using first_free_Some [OF free] len by auto
  define n where "n = (if ev_fd e \<ge> nfds s then ev_fd e + 1 else nfds s)"
  have nn: "nfds s \<le> n" "ev_fd e < n" by (auto simp: n_def)
  have add: "ril_event_add ev s = Some (s\<lparr>watch_table := ?wt, heap := ?h,
      readFds := insert (ev_fd e) (readFds s), nfds := n\<rparr>)"
  proof (cases s)
    case (fields hp wt rf nf ll z)
    then show ?thesis using lck free i len e fd
      by (simp add: ril_event_add_def MUTEX_ACQUIRE_def MUTEX_RELEASE_def upd_event_def FD_SET_def n_def)
  qed
  have fdh: "fd_of ?h a = fd_of (heap s) a" for a using e by (simp add: fd_of_def)
  have other: "?wt ! j = watch_table s ! j \<and> ?wt ! j \<noteq> ev" if "j < MAX_FD_EVENTS" "j \<noteq> i" for j
    using that new len by (metis nth_list_update_neq nth_mem)
  have here: "?wt ! i = ev" using i len by simp
  have old: "fd_of (heap s) (watch_table s ! j) \<in> readFds s"
    if "j < MAX_FD_EVENTS" "watch_table s ! j \<noteq> NULL" for j
    using watch_invD [OF inv that(1) refl that(2)] by (auto simp: fd_of_def)
  have "watch_inv (s\<lparr>watch_table := ?wt, heap := ?h, readFds := insert (ev_fd e) (readFds s), nfds := n\<rparr>)"
    (is "watch_inv ?s'")
    unfolding watch_inv_def
  proof (intro conjI allI impI ballI)
    show "length (watch_table ?s') = MAX_FD_EVENTS" using len by simp
  next
    fix j assume j: "j < MAX_FD_EVENTS" "watch_table ?s' ! j \<noteq> NULL"
    show "\<exists>e. heap ?s' (watch_table ?s' ! j) = Some e \<and> ev_index e = int j \<and> fd_ok (ev_fd e) \<and>
        ev_fd e \<in> readFds ?s' \<and> ev_fd e < nfds ?s'"
    proof (cases "j = i")
      case True
      then show ?thesis using here fd nn by simp
    next
      case False
      then show ?thesis using other [OF j(1)] j watch_invD [OF inv j(1)] nn by fastforce
    qed
  next
    fix fd' assume f: "fd' \<in> readFds ?s'"
    show "\<exists>j < MAX_FD_EVENTS. watch_table ?s' ! j \<noteq> NULL \<and>
        fd_of (heap ?s') (watch_table ?s' ! j) = fd'"
    proof (cases "fd' = ev_fd e")
      case True
      then show ?thesis using here i new e by (intro exI [of _ i]) (simp add: fd_of_def)
    next
      case False
      then obtain j where j: "j < MAX_FD_EVENTS" "watch_table s ! j \<noteq> NULL"
          "fd_of (heap s) (watch_table s ! j) = fd'"
        using f inv by (auto simp: watch_inv_def)
      then have "j \<noteq> i" using i by auto
      then show ?thesis using j fdh other by (intro exI [of _ j]) simp
    qed
  next
    fix j k assume j: "j < MAX_FD_EVENTS" "k < MAX_FD_EVENTS" "watch_table ?s' ! j \<noteq> NULL"
      "watch_table ?s' ! k \<noteq> NULL"
      "fd_of (heap ?s') (watch_table ?s' ! j) = fd_of (heap ?s') (watch_table ?s' ! k)"
    have fe: "fd_of (heap s) ev = ev_fd e" using e by (simp add: fd_of_def)
    have ne: "fd_of (heap s) (watch_table s ! m) \<noteq> ev_fd e"
      if "m < MAX_FD_EVENTS" "watch_table s ! m \<noteq> NULL" for m using old [OF that] fd(2) by auto
    have key: False
      if "m < MAX_FD_EVENTS" "m \<noteq> i" "?wt ! m \<noteq> NULL" "fd_of (heap s) (?wt ! m) = ev_fd e" for m
      using ne [of m] other [OF that(1,2)] that by metis
    have eq: "fd_of (heap s) (?wt ! j) = fd_of (heap s) (?wt ! k)" using j(5) fdh by simp
    show "j = k"
    proof (cases "j = i \<or> k = i")
      case True
      have nz: "?wt ! j \<noteq> NULL" "?wt ! k \<noteq> NULL" using j(3,4) by simp_all
      show ?thesis
      proof (rule ccontr)
        assume "j \<noteq> k"
        then consider "j = i" "k \<noteq> i" | "k = i" "j \<noteq> i" using True by blast
        then show False
        proof cases
          case 1
          then have "fd_of (heap s) (?wt ! k) = ev_fd e" using eq here fe by metis
          then show False using key [OF j(2) 1(2) nz(2)] by simp
        next
          case 2
          then have "fd_of (heap s) (?wt ! j) = ev_fd e" using eq here fe by metis
          then show False using key [OF j(1) 2(2) nz(1)] by simp
        qed
      qed
    next
      case False
      then show ?thesis using j other fdh inv unfolding watch_inv_def by simp
    qed
  qed
  with add show ?thesis by blast
qed

section \<open>Ready descriptors\<close>

definition ready_slots :: "int set \<Rightarrow> nat list \<Rightarrow> ('f, 'z) event_state_scheme \<Rightarrow> nat list" where
  "ready_slots rfds is s =
     filter (\<lambda>i. watch_table s ! i \<noteq> NULL \<and> fd_of (heap s) (watch_table s ! i) \<in> rfds) is"

definition one_shot :: "('f, 'z) event_state_scheme \<Rightarrow> nat \<Rightarrow> bool" where
  "one_shot s i \<longleftrightarrow> \<not> ev_persist (the (heap s (watch_table s ! i)))"

lemma processReadReadies_step:
  assumes inv: "watch_inv s" and lists: "event_lists (heap s) ts ps"
    and i: "i < MAX_FD_EVENTS" and w: "watch_table s ! i = w" "w \<noteq> NULL"
    and out: "w \<notin> set (timer_list # pending_list # ts @ ps)" and e: "heap s w = Some e"
  shows "\<exists>h s'. addToList (heap s) w pending_list = Some h \<and>
    (if \<not> ev_persist e then removeWatch w i (s\<lparr>heap := h\<rparr>) else Some (s\<lparr>heap := h\<rparr>)) = Some s' \<and>
    watch_inv s' \<and> event_lists (heap s') ts (ps @ [w]) \<and>
    watch_table s' = (if ev_persist e then watch_table s else (watch_table s)[i := NULL]) \<and>
    listLocked s' = listLocked s \<and> timeout_of (heap s') = timeout_of (heap s) \<and>
    fd_of (heap s') = fd_of (heap s) \<and> (\<forall>a. ev_persist (the (heap s' a)) = ev_persist (the (heap s a)))"
proof -
  have d: "dll (heap s) pending_list (ps @ [])" "dll (heap s) timer_list ts"
    using lists by (auto simp: event_lists_def)
  obtain h where h: "addToList (heap s) w pending_list = Some h" "dll h pending_list (ps @ [w])"
      "event_data h = event_data (heap s)"
      "\<forall>m zs. dll (heap s) m zs \<longrightarrow> set (m # zs) \<inter> set (w # pending_list # ps) = {} \<longrightarrow> dll h m zs"
    using dll_link [OF d(1)] out e by fastforce
  have "set (timer_list # ts) \<inter> set (w # pending_list # ps) = {}"
    using lists out by (auto simp: event_lists_def)
  then have lh: "event_lists h ts (ps @ [w])"
    using h(2,4) d(2) lists out by (auto simp: event_lists_def)
  have inv': "watch_inv (s\<lparr>heap := h\<rparr>)" by (rule watch_inv_links [OF inv h(3)])
  have per: "ev_persist (the (h a)) = ev_persist (the (heap s a))" for a
  proof -
    have "ev_persist (the (event_data k a)) = ev_persist (the (k a))" for k :: "'a ev_heap"
      by (cases "k a") (simp_all add: event_data_def)
    then show ?thesis using h(3) by metis
  qed
  obtain e' where e': "h w = Some e'" "ev_persist e' = ev_persist e" "ev_fd e' = ev_fd e"
    using event_data_fields [OF h(3) e] by blast
  show ?thesis
  proof (cases "ev_persist e")
    case True
    then show ?thesis using h lh inv' per event_data_timeout [OF h(3)] event_data_fd [OF h(3)]
      by (intro exI [of _ h] exI [of _ "s\<lparr>heap := h\<rparr>"]) simp
  next
    case False
    let ?h' = "h(w \<mapsto> e'\<lparr>ev_index := -1\<rparr>)"
    define t where "t n = s\<lparr>heap := h, watch_table := (watch_table s)[i := NULL], heap := ?h',
        readFds := readFds s - {ev_fd e'}, nfds := n\<rparr>" for n
    obtain n where n: "removeWatch w i (s\<lparr>heap := h\<rparr>) = Some (t n)" "watch_inv (t n)"
      using removeWatch_ok [OF inv' i _ w(2), of e'] w(1) e'(1) unfolding t_def by auto
    have "upd_event h w (\<lambda>e. e\<lparr>ev_index := -1\<rparr>) = Some ?h'" using e' by (simp add: upd_event_def)
    then have "dll ?h' l xs = dll h l xs" for l xs by (rule upd_event_links) simp_all
    then have "event_lists ?h' ts (ps @ [w])" using lh by (simp add: event_lists_def)
    moreover have "timeout_of ?h' = timeout_of h" "fd_of ?h' = fd_of h"
        "ev_persist (the (?h' a)) = ev_persist (the (h a))" for a
      using e' by (auto simp: timeout_of_def fd_of_def)
    ultimately show ?thesis
      using h n False per event_data_timeout [OF h(3)] event_data_fd [OF h(3)]
      by (intro exI [of _ h] exI [of _ "t n"]) (simp add: t_def)
  qed
qed

abbreviation clear_slots :: "nat list \<Rightarrow> addr list \<Rightarrow> addr list" where
  "clear_slots is wt \<equiv> fold (\<lambda>i wt. wt[i := NULL]) is wt"

lemma processReadReadies_loop_ok:
  "distinct is \<Longrightarrow> set is \<subseteq> {..<MAX_FD_EVENTS} \<Longrightarrow> watch_inv s \<Longrightarrow> event_lists (heap s) ts ps \<Longrightarrow>
   (\<And>i. i \<in> set is \<Longrightarrow> watch_table s ! i \<notin> set (timer_list # pending_list # ts @ ps)) \<Longrightarrow>
   \<exists>s'. processReadReadies_loop rfds is n s = Some s' \<and> watch_inv s' \<and>
     event_lists (heap s') ts
       (ps @ map ((!) (watch_table s)) (take (nat n) (ready_slots rfds is s))) \<and>
     watch_table s' =
       clear_slots (filter (one_shot s) (take (nat n) (ready_slots rfds is s))) (watch_table s) \<and>
     listLocked s' = listLocked s \<and> timeout_of (heap s') = timeout_of (heap s)"
proof (induction "is" arbitrary: s ps n)
  case Nil
  then show ?case by (simp add: ready_slots_def)
next
  case (Cons i js)
  note P = Cons.prems
  have i: "i < MAX_FD_EVENTS" and js: "distinct js" "set js \<subseteq> {..<MAX_FD_EVENTS}" "i \<notin> set js"
    using P(1,2) by auto
  have len: "length (watch_table s) = MAX_FD_EVENTS" by (rule watch_inv_length [OF P(3)])
  let ?w = "watch_table s ! i"
  show ?case
  proof (cases "n > 0")
    case False
    then show ?thesis using P by simp
  next
    case n: True
    show ?thesis
    proof (cases "?w \<noteq> NULL \<and> fd_of (heap s) ?w \<in> rfds")
      case False
      then have skip: "processReadReadies_loop rfds (i # js) n s = processReadReadies_loop rfds js n s"
        using n i len watch_invD [OF P(3) i refl] by (auto simp: FD_ISSET_def fd_of_def)
      have "ready_slots rfds (i # js) s = ready_slots rfds js s" using False by (auto simp: ready_slots_def)
      then show ?thesis unfolding skip using Cons.IH [OF js(1,2) P(3,4)] P(5) by simp
    next
      case True
      obtain e where e: "heap s ?w = Some e" "fd_ok (ev_fd e)"
        using watch_invD [OF P(3) i refl] True by auto
      have out: "?w \<notin> set (timer_list # pending_list # ts @ ps)" using P(5) by simp
      obtain h s1 where s1: "addToList (heap s) ?w pending_list = Some h"
          "(if \<not> ev_persist e then removeWatch ?w i (s\<lparr>heap := h\<rparr>) else Some (s\<lparr>heap := h\<rparr>)) = Some s1"
          "watch_inv s1" "event_lists (heap s1) ts (ps @ [?w])"
          "watch_table s1 = (if ev_persist e then watch_table s else (watch_table s)[i := NULL])"
          "listLocked s1 = listLocked s" "timeout_of (heap s1) = timeout_of (heap s)"
          "fd_of (heap s1) = fd_of (heap s)"
          "\<forall>a. ev_persist (the (heap s1 a)) = ev_persist (the (heap s a))"
        using processReadReadies_step [OF P(3,4) i refl _ out e(1)] True by blast
      have run: "processReadReadies_loop rfds (i # js) n s = processReadReadies_loop rfds js (n - 1) s1"
        using n i len True e s1(1,2) by (auto simp: FD_ISSET_def fd_of_def)
      have same: "watch_table s1 ! j = watch_table s ! j" if "j \<in> set js" for j
        using s1(5) that js(3) by (metis nth_list_update_neq)
      have out1: "watch_table s1 ! j \<notin> set (timer_list # pending_list # ts @ (ps @ [?w]))"
        if j: "j \<in> set js" for j
      proof -
        have "watch_table s ! j \<noteq> ?w"
          using watch_distinct [OF P(3) i, of j] js j True by (metis lessThan_iff subsetD)
        then show ?thesis using P(5) [of j] j unfolding same [OF j] by auto
      qed
      obtain s' where s': "processReadReadies_loop rfds js (n - 1) s1 = Some s'" "watch_inv s'"
          "event_lists (heap s') ts
            ((ps @ [?w]) @ map ((!) (watch_table s1)) (take (nat (n - 1)) (ready_slots rfds js s1)))"
          "watch_table s' = clear_slots
            (filter (one_shot s1) (take (nat (n - 1)) (ready_slots rfds js s1))) (watch_table s1)"
          "listLocked s' = listLocked s1" "timeout_of (heap s') = timeout_of (heap s1)"
        using Cons.IH [OF js(1,2) s1(3,4) out1] by blast
      have rs: "ready_slots rfds js s1 = ready_slots rfds js s"
        using same s1(8) by (auto simp: ready_slots_def intro: filter_cong)
      have tk: "take (nat n) (ready_slots rfds (i # js) s) =
          i # take (nat (n - 1)) (ready_slots rfds js s)"
        using n True by (simp add: ready_slots_def take_Cons' nat_diff_distrib)
      have sub: "set (take (nat (n - 1)) (ready_slots rfds js s)) \<subseteq> set js"
        by (auto simp: ready_slots_def dest: in_set_takeD)
      let ?r = "take (nat (n - 1)) (ready_slots rfds js s)"
      have m1: "map ((!) (watch_table s1)) ?r = map ((!) (watch_table s)) ?r"
        using sub same by auto
      have m2: "filter (one_shot s1) ?r = filter (one_shot s) ?r"
        using sub same s1(9) by (intro filter_cong) (auto simp: one_shot_def)
      have m3: "one_shot s i \<longleftrightarrow> \<not> ev_persist e" using e by (simp add: one_shot_def)
      have "event_lists (heap s') ts ((ps @ [?w]) @ map ((!) (watch_table s)) ?r)"
        using s'(3) unfolding rs m1 .
      moreover have "watch_table s' = clear_slots (filter (one_shot s) ?r) (watch_table s1)"
        using s'(4) unfolding rs m2 .
      ultimately show ?thesis
        unfolding run tk using s'(1,2,5,6) s1(5,6,7) m3 by (intro exI [of _ s']) simp
    qed
  qed
qed

end
