(* ===== verification/Ril_Event_Correct.thy ===== *)
theory Ril_Event_Correct
  imports Ril_Event_Watch
begin

text \<open>
  What the event loop guarantees to the rest of the daemon, from the lemmas on its lists and its
  table, with an example state on which each guarantee is checked.
\<close>

section \<open>One turn of the loop\<close>

definition expired :: "timeval \<Rightarrow> ('f, 'z) event_state_scheme \<Rightarrow> addr list \<Rightarrow> addr list" where
  "expired now s ts = filter (\<lambda>t. timeout_of (heap s) t < now) ts"

definition ready :: "int \<Rightarrow> int set \<Rightarrow> ('f, 'z) event_state_scheme \<Rightarrow> addr list" where
  "ready n rfds s = map ((!) (watch_table s)) (take (nat n) (ready_slots rfds [0..<MAX_FD_EVENTS] s))"

text \<open>No watched event is on a list.\<close>

definition watched_apart :: "('f, 'z) event_state_scheme \<Rightarrow> addr list \<Rightarrow> addr list \<Rightarrow> bool" where
  "watched_apart s ts ps \<longleftrightarrow>
     (\<forall>i < MAX_FD_EVENTS. watch_table s ! i \<notin> set (timer_list # pending_list # ts @ ps))"

lemma calcNextTimeout_defined:
  "event_lists (heap s) ts ps \<Longrightarrow> \<exists>r. calcNextTimeout now s = Some r"
  by (cases ts) (use calcNextTimeout_empty calcNextTimeout_first in blast)+

lemma processReadReadies_lists:
  assumes "watch_inv s" and "\<not> listLocked s" and "event_lists (heap s) ts ps" and "watched_apart s ts ps"
  shows "\<exists>s'. processReadReadies rfds n s = Some s' \<and> watch_inv s' \<and> \<not> listLocked s' \<and>
    event_lists (heap s') ts (ps @ ready n rfds s) \<and> timeout_of (heap s') = timeout_of (heap s) \<and>
    watch_table s' = clear_slots
      (filter (one_shot s) (take (nat n) (ready_slots rfds [0..<MAX_FD_EVENTS] s))) (watch_table s)"
proof -
  let ?t = "s\<lparr>listLocked := True\<rparr>"
  have t: "watch_inv ?t" "event_lists (heap ?t) ts ps"
      "\<And>i. i \<in> set [0..<MAX_FD_EVENTS] \<Longrightarrow> watch_table ?t ! i \<notin> set (timer_list # pending_list # ts @ ps)"
    using assms by (auto simp: watch_inv_def watched_apart_def)
  have same: "ready_slots rfds [0..<MAX_FD_EVENTS] ?t = ready_slots rfds [0..<MAX_FD_EVENTS] s"
    "one_shot ?t = one_shot s" by (simp_all add: ready_slots_def one_shot_def fun_eq_iff)
  have sub: "set [0..<MAX_FD_EVENTS] \<subseteq> {..<MAX_FD_EVENTS}" by auto
  obtain u where u: "processReadReadies_loop rfds [0..<MAX_FD_EVENTS] n ?t = Some u" "watch_inv u"
      "event_lists (heap u) ts (ps @ ready n rfds s)" "timeout_of (heap u) = timeout_of (heap s)"
      "watch_table u = clear_slots
        (filter (one_shot s) (take (nat n) (ready_slots rfds [0..<MAX_FD_EVENTS] s))) (watch_table s)"
    using processReadReadies_loop_ok [where rfds = rfds and n = n, OF distinct_upt sub t]
    unfolding ready_def same by auto
  then show ?thesis
    using assms(2) by (intro exI [of _ "MUTEX_RELEASE u"])
      (simp add: processReadReadies_def MUTEX_ACQUIRE_def MUTEX_RELEASE_def watch_inv_def)
qed

lemma loop_turn:
  assumes inv: "watch_inv s" "\<not> listLocked s" "event_lists (heap s) ts []" "timers_sorted (heap s) ts"
    and apart: "watched_apart s ts []" and keep: "keeps_pending call"
  shows "\<exists>s1. ril_event_loop_turn call now (SelectReady n rfds) now' s =
      map_option Continue (foldM (fire_one call) (expired now' s ts @ ready n rfds s) s1) \<and>
    watch_inv s1 \<and> \<not> listLocked s1 \<and>
    event_lists (heap s1) (filter (\<lambda>t. \<not> timeout_of (heap s) t < now') ts)
      (expired now' s ts @ ready n rfds s) \<and>
    timers_sorted (heap s1) (filter (\<lambda>t. \<not> timeout_of (heap s) t < now') ts)"
proof -
  let ?ts = "filter (\<lambda>t. \<not> timeout_of (heap s) t < now') ts"
  obtain h where h: "processTimeouts now' s = Some (s\<lparr>heap := h\<rparr>)" "event_data h = event_data (heap s)"
      "timers_sorted h ?ts" "event_lists h ?ts (expired now' s ts)"
    using processTimeouts_lists [OF inv(2,3,4), of now'] by (auto simp: expired_def)
  let ?t = "s\<lparr>heap := h\<rparr>"
  have t: "watch_inv ?t" "\<not> listLocked ?t" "event_lists (heap ?t) ?ts (expired now' s ts)"
    using watch_inv_links [OF inv(1) h(2)] inv(2) h(4) by simp_all
  have "watched_apart ?t ?ts (expired now' s ts)"
    using apart by (auto simp: watched_apart_def expired_def)
  moreover have "ready n rfds ?t = ready n rfds s"
    using event_data_fd [OF h(2)] by (simp add: ready_def ready_slots_def)
  ultimately obtain u where u: "processReadReadies rfds n ?t = Some u" "watch_inv u" "\<not> listLocked u"
      "event_lists (heap u) ?ts (expired now' s ts @ ready n rfds s)" "timeout_of (heap u) = timeout_of h"
    using processReadReadies_lists [where rfds = rfds and n = n, OF t] by fastforce
  have "firePending call u = foldM (fire_one call) (expired now' s ts @ ready n rfds s) u"
    using firePending_eq [OF keep] u(4) by (simp add: event_lists_def)
  moreover have "timers_sorted (heap u) ?ts" using h(3) u(5) by (simp add: timers_sorted_def)
  moreover obtain r where "calcNextTimeout now s = Some r" using calcNextTimeout_defined [OF inv(3)] by blast
  ultimately show ?thesis
    using h(1) u by (intro exI [of _ u]) (simp add: ril_event_loop_turn_def map_conv_bind_option comp_def)
qed

section \<open>An example\<close>

text \<open>Two timers, at 1 s and at 5 s, and a one-shot event on descriptor 7.\<close>

definition demo_heap :: "nat ev_heap" where
  "demo_heap = [
     timer_list \<mapsto> zero_event\<lparr>ev_next := 10, ev_prev := 11, ev_fd := -1\<rparr>,
     pending_list \<mapsto> zero_event\<lparr>ev_next := pending_list, ev_prev := pending_list, ev_fd := -1\<rparr>,
     10 \<mapsto> zero_event\<lparr>ev_next := 11, ev_prev := timer_list, ev_fd := -1, ev_timeout := Timeval 1 0,
       ev_func := Some 1\<rparr>,
     11 \<mapsto> zero_event\<lparr>ev_next := timer_list, ev_prev := 10, ev_fd := -1, ev_timeout := Timeval 5 0,
       ev_func := Some 2\<rparr>,
     12 \<mapsto> zero_event\<lparr>ev_fd := 7, ev_index := 0, ev_func := Some 3\<rparr>,
     13 \<mapsto> zero_event\<lparr>ev_fd := 9, ev_index := -1, ev_func := Some 4\<rparr>]"

definition demo :: "nat event_state" where
  "demo = \<lparr>heap = demo_heap, watch_table = 12 # replicate 7 NULL, readFds = {7}, nfds = 8,
     listLocked = False\<rparr>"

lemma demo_lists: "event_lists (heap demo) [10, 11] []" "timers_sorted (heap demo) [10, 11]"
  by (simp_all add: demo_def demo_heap_def event_lists_def dll_def get_next_def get_prev_def
      timer_list_def pending_list_def timers_sorted_def timeout_of_def less_eq_timeval_def less_timeval_def
      timercmp_def zero_event_def)

lemma demo_state [simp]:
  "\<not> listLocked demo" "watch_table demo = [12, 0, 0, 0, 0, 0, 0, 0]" "readFds demo = {7}" "nfds demo = 8"
  by (simp_all add: demo_def numeral_eq_Suc)

lemma demo_heap_at:
  "heap demo 12 = Some (zero_event\<lparr>ev_fd := 7, ev_index := 0, ev_func := Some 3\<rparr>)"
  "heap demo 13 = Some (zero_event\<lparr>ev_fd := 9, ev_index := -1, ev_func := Some 4\<rparr>)"
  "timeout_of (heap demo) 10 = Timeval 1 0" "timeout_of (heap demo) 11 = Timeval 5 0"
  by (simp_all add: demo_def demo_heap_def timeout_of_def timer_list_def pending_list_def zero_event_def)

lemma less_slots: "(\<forall>i < MAX_FD_EVENTS. P i) \<longleftrightarrow> P 0 \<and> P 1 \<and> P 2 \<and> P 3 \<and> P 4 \<and> P 5 \<and> P 6 \<and> P 7"
  by (auto simp: MAX_FD_EVENTS_def numeral_eq_Suc All_less_Suc)

lemma demo_watch: "watch_inv demo"
  unfolding watch_inv_def less_slots
  by (simp add: demo_heap_at fd_ok_def fd_of_def zero_event_def MAX_FD_EVENTS_def)
    (auto intro: exI [of _ 0] simp: demo_heap_at fd_of_def)

lemma demo_apart: "watched_apart demo [10, 11] []"
  by (simp add: watched_apart_def less_slots timer_list_def pending_list_def)

section \<open>The guarantees\<close>

lemmas demo_ok = demo_state(1) demo_lists

lemma demo_call: "keeps_pending (\<lambda>f fd p s. Some s)"
  by (simp add: keeps_pending_def)



text \<open>\<open>ril_timer_add\<close> inserts the event behind all timers that expire earlier, so that the timer
  list stays sorted by expiry, and sets its expiry to the present time plus the interval; the
  contents of every other event and the pending list are unchanged.\<close>

theorem ril_timer_add_keeps_sorted:
  assumes "\<not> listLocked s" and "event_lists (heap s) ts ps" and "timers_sorted (heap s) ts"
    and "ev \<notin> set (timer_list # pending_list # ts @ ps)" and "heap s ev = Some e"
  shows "\<exists>h'. ril_timer_add now ev (Some tv) s = Some (s\<lparr>heap := h'\<rparr>) \<and>
    (let at = timeradd now tv; before = takeWhile (\<lambda>x. timeout_of (heap s) x < at) ts;
         after = dropWhile (\<lambda>x. timeout_of (heap s) x < at) ts
     in event_lists h' (before @ ev # after) ps \<and> timers_sorted h' (before @ ev # after) \<and>
        event_data h' = (event_data (heap s))(ev \<mapsto> strip (e\<lparr>ev_fd := -1, ev_timeout := at\<rparr>)))"
  by (rule ril_timer_add_lists [OF assms])

theorem ril_timer_add_keeps_sorted_witness:
  "\<exists>h'. ril_timer_add (Timeval 2 0) 13 (Some (Timeval 1 0)) demo = Some (demo\<lparr>heap := h'\<rparr>) \<and>
    event_lists h' [10, 13, 11] [] \<and> timers_sorted h' [10, 13, 11]"
  using ril_timer_add_keeps_sorted [OF demo_ok, of 13 _ "Timeval 2 0" "Timeval 1 0", OF _ demo_heap_at(2)]
  by (simp add: demo_heap_at timeradd_def Let_def less_timeval_def timercmp_def timer_list_def
      pending_list_def) blast

text \<open>\<open>processTimeouts\<close> moves the timers that expired before the time it is given, and only
  these, to the end of the pending list, in order of expiry.\<close>

theorem processTimeouts_moves_expired:
  assumes "\<not> listLocked s" and "event_lists (heap s) ts ps" and "timers_sorted (heap s) ts"
  shows "\<exists>h'. processTimeouts now s = Some (s\<lparr>heap := h'\<rparr>) \<and> event_data h' = event_data (heap s) \<and>
    timers_sorted h' (filter (\<lambda>t. \<not> timeout_of (heap s) t < now) ts) \<and>
    event_lists h' (filter (\<lambda>t. \<not> timeout_of (heap s) t < now) ts) (ps @ expired now s ts)"
  unfolding expired_def by (rule processTimeouts_lists [OF assms])

theorem processTimeouts_moves_expired_witness:
  "\<exists>h'. processTimeouts (Timeval 2 0) demo = Some (demo\<lparr>heap := h'\<rparr>) \<and> event_lists h' [11] [10]"
  using processTimeouts_moves_expired [OF demo_ok, of "Timeval 2 0"]
  by (auto simp: expired_def demo_heap_at less_timeval_def timercmp_def)

text \<open>The timeout that \<open>calcNextTimeout\<close> gives to \<open>select\<close> is normalised and not negative, and
  waiting for it ends exactly at the earliest expiry, or it is zero when that has passed; with no
  timer set the wait is unlimited.\<close>

theorem calcNextTimeout_is_first_expiry:
  assumes "event_lists (heap s) ts ps" and "timers_sorted (heap s) ts" and "tv_ok now"
    and "list_all (\<lambda>t. tv_ok (timeout_of (heap s) t)) ts"
  shows "case ts of
      [] \<Rightarrow> calcNextTimeout now s = Some None
    | _ \<Rightarrow> \<exists>w. calcNextTimeout now s = Some (Some w) \<and> tv_ok w \<and> 0 \<le> tv_sec w \<and>
        (let first = Min (timeout_of (heap s) ` set ts)
         in if now < first then timeradd now w = first else w = Timeval 0 0)"
proof (cases ts)
  case Nil
  then show ?thesis using assms(1) calcNextTimeout_empty by simp
next
  case (Cons t us)
  have min: "Min (timeout_of (heap s) ` set ts) = timeout_of (heap s) t"
    using assms(2) Cons by (intro Min_eqI) (auto simp: timers_sorted_def)
  have tv: "tv_ok (timeout_of (heap s) t)" using assms(4) Cons by simp
  show ?thesis
    using calcNextTimeout_first [of s t us ps now] assms(1,3) Cons timersub_ok [OF tv assms(3)]
      timeradd_timersub [OF tv assms(3)] timersub_nonneg [OF tv assms(3)] min
    by (auto simp: Let_def tv_ok_def)
qed

theorem calcNextTimeout_is_first_expiry_witness:
  "\<exists>w. calcNextTimeout (Timeval 0 5) demo = Some (Some w) \<and> timeradd (Timeval 0 5) w = Timeval 1 0"
  using calcNextTimeout_is_first_expiry [OF demo_lists, of "Timeval 0 5"]
  by (auto simp: demo_heap_at tv_ok_def less_timeval_def timercmp_def Let_def min_def
      less_eq_timeval_def)

text \<open>\<open>ril_event_add\<close> enters the event in the first free slot of the watch table, stores the
  slot in the event and its descriptor in the set for \<open>select\<close>; table, indices, set and \<open>nfds\<close> stay
  consistent. When the table is full the event is silently not watched.\<close>

theorem ril_event_add_watches:
  assumes "watch_inv s" and "\<not> listLocked s" and "ev \<notin> set (watch_table s)" and "ev \<noteq> NULL"
    and "heap s ev = Some e" and "fd_ok (ev_fd e)" and "ev_fd e \<notin> readFds s"
  shows "\<exists>s'. ril_event_add ev s = Some s' \<and> watch_inv s' \<and> \<not> listLocked s' \<and>
    (case first_free (watch_table s) 0 of
       None \<Rightarrow> s' = s
     | Some i \<Rightarrow> watch_table s' = (watch_table s)[i := ev] \<and>
         heap s' = (heap s)(ev \<mapsto> e\<lparr>ev_index := int i\<rparr>) \<and> readFds s' = insert (ev_fd e) (readFds s))"
proof (cases "first_free (watch_table s) 0")
  case None
  then have "NULL \<notin> set (watch_table s)" using first_free_None by blast
  from ril_event_add_full [OF assms(2) this] show ?thesis using None assms(1,2) by simp
next
  case (Some i)
  show ?thesis
    using ril_event_add_ok [OF assms(1,2) Some assms(3-7)] assms(2) Some by fastforce
qed

theorem ril_event_add_watches_witness:
  "\<exists>s'. ril_event_add 13 demo = Some s' \<and> watch_inv s' \<and> watch_table s' = [12, 13, 0, 0, 0, 0, 0, 0] \<and>
    readFds s' = {9, 7}"
  using ril_event_add_watches [OF demo_watch demo_state(1), of 13, OF _ _ demo_heap_at(2)]
  by (auto simp: fd_ok_def)

text \<open>\<open>ril_event_del\<close> on a watched event empties its slot, takes its descriptor out of the set and
  keeps the watch table consistent, with \<open>nfds\<close> above every descriptor still watched.\<close>

theorem ril_event_del_unwatches:
  assumes "watch_inv s" and "\<not> listLocked s" and "i < MAX_FD_EVENTS" and "watch_table s ! i = w"
    and "w \<noteq> NULL"
  shows "\<exists>s'. ril_event_del w s = Some s' \<and> watch_inv s' \<and> \<not> listLocked s' \<and>
    watch_table s' = (watch_table s)[i := NULL] \<and> readFds s' = readFds s - {fd_of (heap s) w}"
  by (rule ril_event_del_watched [OF assms])

theorem ril_event_del_unwatches_witness:
  "\<exists>s'. ril_event_del 12 demo = Some s' \<and> watch_inv s' \<and> readFds s' = {} \<and>
    watch_table s' = [0, 0, 0, 0, 0, 0, 0, 0]"
  using ril_event_del_unwatches [OF demo_watch demo_state(1), of 0 12]
  by (auto simp: MAX_FD_EVENTS_def fd_of_def demo_heap_at zero_event_def)

text \<open>C35: \<open>ril_event_del\<close> on an event that is not watched (its index is -1, as \<open>ril_event_set\<close> and
  \<open>removeWatch\<close> leave it) returns with the list mutex held: every operation of the loop that
  follows, on any event, waits for it for ever.\<close>

theorem ril_event_del_unwatched_hangs:
  assumes "\<not> listLocked s" and "heap s w = Some e" and "ev_index e = - 1"
  shows "\<exists>s'. ril_event_del w s = Some s' \<and> ril_event_add ev s' = None \<and> ril_event_del ev s' = None \<and>
    ril_timer_add now ev tv s' = None \<and> processTimeouts now s' = None \<and>
    processReadReadies rfds n s' = None"
  using ril_event_del_unwatched [OF assms(1,2)] assms(3)
    listLocked_hangs [of "s\<lparr>listLocked := True\<rparr>"] by simp

theorem ril_event_del_unwatched_hangs_witness:
  "\<exists>s'. ril_event_del 13 demo = Some s' \<and> processTimeouts (Timeval 9 0) s' = None"
  using ril_event_del_unwatched_hangs [OF demo_state(1) demo_heap_at(2), of 0 "Timeval 9 0" None "{}" 0]
  by auto

text \<open>\<open>processReadReadies\<close> appends the ready watched events to the pending list, in the order of
  the table and at most \<open>n\<close> of them, and takes exactly the one-shot ones among these out of the
  table, which stays consistent.\<close>

theorem processReadReadies_appends:
  assumes "watch_inv s" and "\<not> listLocked s" and "event_lists (heap s) ts ps" and "watched_apart s ts ps"
  shows "\<exists>s'. processReadReadies rfds n s = Some s' \<and> watch_inv s' \<and> \<not> listLocked s' \<and>
    event_lists (heap s') ts (ps @ ready n rfds s) \<and> timeout_of (heap s') = timeout_of (heap s) \<and>
    watch_table s' = clear_slots
      (filter (one_shot s) (take (nat n) (ready_slots rfds [0..<MAX_FD_EVENTS] s))) (watch_table s)"
  by (rule processReadReadies_lists [OF assms])

theorem processReadReadies_appends_witness:
  "\<exists>s'. processReadReadies {7} 1 demo = Some s' \<and> watch_inv s' \<and>
    event_lists (heap s') [10, 11] (ready 1 {7} demo)"
  using processReadReadies_appends [OF demo_watch demo_state(1) demo_lists(1) demo_apart, of "{7}" 1]
  by auto


text \<open>The callbacks of the example write down which function ran.\<close>

definition note_call :: "(nat, nat list) fire" where
  "note_call f fd p s = Some (event_state.more_update (\<lambda>fs. fs @ [f]) s)"

definition demo_pending :: "(nat, nat list) event_state_scheme" where
  "demo_pending = \<lparr>heap = [
     pending_list \<mapsto> zero_event\<lparr>ev_next := 10, ev_prev := 11, ev_fd := -1\<rparr>,
     10 \<mapsto> zero_event\<lparr>ev_next := 11, ev_prev := pending_list, ev_func := Some 1\<rparr>,
     11 \<mapsto> zero_event\<lparr>ev_next := pending_list, ev_prev := 10, ev_func := Some 2\<rparr>],
     watch_table = replicate 8 NULL, readFds = {}, nfds = 0, listLocked = False, \<dots> = []\<rparr>"

lemma note_call_keeps: "keeps_pending note_call"
  by (auto simp: keeps_pending_def note_call_def)

lemma demo_pending_list: "dll (heap demo_pending) pending_list [10, 11]"
  by (simp add: demo_pending_def dll_def get_next_def get_prev_def pending_list_def zero_event_def)


end
