(* ===== verification/Ril_Types.thy ===== *)
theory Ril_Types
  imports Ril_Prelude
begin

text \<open>
  The data of the radio interface, from \<open>include/telephony/ril.h\<close> and
  \<open>include/telephony/ril_cdma_sms.h\<close>.

  A struct is a record with the fields of the source in their order, and a constant
  \<open>sizeof_\<dots>\<close> that lays the same members out as the C ABI does (the marshalling code compares
  lengths with \<open>sizeof\<close>). A \<open>char *\<close> field is a \<open>cstr\<close>, an array of \<open>n\<close> bytes a list of that
  length. An enum whose values the vendor code passes by name is a datatype with its numeric
  values; an enum field that the code fills by casting an integer from the wire, or that it
  inspects with a \<open>default\<close> branch, is a 32-bit integer with the enumerators as constants.
\<close>

section \<open>Constants\<close>

definition RIL_VERSION :: i32 where "RIL_VERSION = 3"
definition CDMA_ALPHA_INFO_BUFFER_LENGTH :: nat where "CDMA_ALPHA_INFO_BUFFER_LENGTH = 64"
definition CDMA_NUMBER_INFO_BUFFER_LENGTH :: nat where "CDMA_NUMBER_INFO_BUFFER_LENGTH = 81"
definition RIL_CARD_MAX_APPS :: nat where "RIL_CARD_MAX_APPS = 8"
definition RIL_CDMA_MAX_NUMBER_OF_INFO_RECS :: nat where "RIL_CDMA_MAX_NUMBER_OF_INFO_RECS = 10"
definition RIL_CDMA_SMS_ADDRESS_MAX :: nat where "RIL_CDMA_SMS_ADDRESS_MAX = 36"
definition RIL_CDMA_SMS_SUBADDRESS_MAX :: nat where "RIL_CDMA_SMS_SUBADDRESS_MAX = 36"
definition RIL_CDMA_SMS_BEARER_DATA_MAX :: nat where "RIL_CDMA_SMS_BEARER_DATA_MAX = 255"

lemmas ril_limits =
  RIL_VERSION_def CDMA_ALPHA_INFO_BUFFER_LENGTH_def CDMA_NUMBER_INFO_BUFFER_LENGTH_def
  RIL_CARD_MAX_APPS_def RIL_CDMA_MAX_NUMBER_OF_INFO_RECS_def RIL_CDMA_SMS_ADDRESS_MAX_def
  RIL_CDMA_SMS_SUBADDRESS_MAX_def RIL_CDMA_SMS_BEARER_DATA_MAX_def

section \<open>Enumerations\<close>

datatype RIL_Errno =
    RIL_E_SUCCESS
  | RIL_E_RADIO_NOT_AVAILABLE
  | RIL_E_GENERIC_FAILURE
  | RIL_E_PASSWORD_INCORRECT
  | RIL_E_SIM_PIN2
  | RIL_E_SIM_PUK2
  | RIL_E_REQUEST_NOT_SUPPORTED
  | RIL_E_CANCELLED
  | RIL_E_OP_NOT_ALLOWED_DURING_VOICE_CALL
  | RIL_E_OP_NOT_ALLOWED_BEFORE_REG_TO_NW
  | RIL_E_SMS_SEND_FAIL_RETRY
  | RIL_E_SIM_ABSENT
  | RIL_E_SUBSCRIPTION_NOT_AVAILABLE
  | RIL_E_MODE_NOT_SUPPORTED
  | RIL_E_FDN_CHECK_FAILURE
  | RIL_E_ILLEGAL_SIM_OR_ME

primrec RIL_Errno_val :: "RIL_Errno \<Rightarrow> i32" where
  "RIL_Errno_val RIL_E_SUCCESS = 0"
| "RIL_Errno_val RIL_E_RADIO_NOT_AVAILABLE = 1"
| "RIL_Errno_val RIL_E_GENERIC_FAILURE = 2"
| "RIL_Errno_val RIL_E_PASSWORD_INCORRECT = 3"
| "RIL_Errno_val RIL_E_SIM_PIN2 = 4"
| "RIL_Errno_val RIL_E_SIM_PUK2 = 5"
| "RIL_Errno_val RIL_E_REQUEST_NOT_SUPPORTED = 6"
| "RIL_Errno_val RIL_E_CANCELLED = 7"
| "RIL_Errno_val RIL_E_OP_NOT_ALLOWED_DURING_VOICE_CALL = 8"
| "RIL_Errno_val RIL_E_OP_NOT_ALLOWED_BEFORE_REG_TO_NW = 9"
| "RIL_Errno_val RIL_E_SMS_SEND_FAIL_RETRY = 10"
| "RIL_Errno_val RIL_E_SIM_ABSENT = 11"
| "RIL_Errno_val RIL_E_SUBSCRIPTION_NOT_AVAILABLE = 12"
| "RIL_Errno_val RIL_E_MODE_NOT_SUPPORTED = 13"
| "RIL_Errno_val RIL_E_FDN_CHECK_FAILURE = 14"
| "RIL_Errno_val RIL_E_ILLEGAL_SIM_OR_ME = 15"

datatype RIL_CallState =
    RIL_CALL_ACTIVE
  | RIL_CALL_HOLDING
  | RIL_CALL_DIALING
  | RIL_CALL_ALERTING
  | RIL_CALL_INCOMING
  | RIL_CALL_WAITING

primrec RIL_CallState_val :: "RIL_CallState \<Rightarrow> i32" where
  "RIL_CallState_val RIL_CALL_ACTIVE = 0"
| "RIL_CallState_val RIL_CALL_HOLDING = 1"
| "RIL_CallState_val RIL_CALL_DIALING = 2"
| "RIL_CallState_val RIL_CALL_ALERTING = 3"
| "RIL_CallState_val RIL_CALL_INCOMING = 4"
| "RIL_CallState_val RIL_CALL_WAITING = 5"

datatype RIL_RadioState =
    RADIO_STATE_OFF
  | RADIO_STATE_UNAVAILABLE
  | RADIO_STATE_SIM_NOT_READY
  | RADIO_STATE_SIM_LOCKED_OR_ABSENT
  | RADIO_STATE_SIM_READY
  | RADIO_STATE_RUIM_NOT_READY
  | RADIO_STATE_RUIM_READY
  | RADIO_STATE_RUIM_LOCKED_OR_ABSENT
  | RADIO_STATE_NV_NOT_READY
  | RADIO_STATE_NV_READY

primrec RIL_RadioState_val :: "RIL_RadioState \<Rightarrow> i32" where
  "RIL_RadioState_val RADIO_STATE_OFF = 0"
| "RIL_RadioState_val RADIO_STATE_UNAVAILABLE = 1"
| "RIL_RadioState_val RADIO_STATE_SIM_NOT_READY = 2"
| "RIL_RadioState_val RADIO_STATE_SIM_LOCKED_OR_ABSENT = 3"
| "RIL_RadioState_val RADIO_STATE_SIM_READY = 4"
| "RIL_RadioState_val RADIO_STATE_RUIM_NOT_READY = 5"
| "RIL_RadioState_val RADIO_STATE_RUIM_READY = 6"
| "RIL_RadioState_val RADIO_STATE_RUIM_LOCKED_OR_ABSENT = 7"
| "RIL_RadioState_val RADIO_STATE_NV_NOT_READY = 8"
| "RIL_RadioState_val RADIO_STATE_NV_READY = 9"

datatype RIL_CardState = RIL_CARDSTATE_ABSENT | RIL_CARDSTATE_PRESENT | RIL_CARDSTATE_ERROR

primrec RIL_CardState_val :: "RIL_CardState \<Rightarrow> i32" where
  "RIL_CardState_val RIL_CARDSTATE_ABSENT = 0"
| "RIL_CardState_val RIL_CARDSTATE_PRESENT = 1"
| "RIL_CardState_val RIL_CARDSTATE_ERROR = 2"

datatype RIL_AppState =
    RIL_APPSTATE_UNKNOWN
  | RIL_APPSTATE_DETECTED
  | RIL_APPSTATE_PIN
  | RIL_APPSTATE_PUK
  | RIL_APPSTATE_SUBSCRIPTION_PERSO
  | RIL_APPSTATE_READY

primrec RIL_AppState_val :: "RIL_AppState \<Rightarrow> i32" where
  "RIL_AppState_val RIL_APPSTATE_UNKNOWN = 0"
| "RIL_AppState_val RIL_APPSTATE_DETECTED = 1"
| "RIL_AppState_val RIL_APPSTATE_PIN = 2"
| "RIL_AppState_val RIL_APPSTATE_PUK = 3"
| "RIL_AppState_val RIL_APPSTATE_SUBSCRIPTION_PERSO = 4"
| "RIL_AppState_val RIL_APPSTATE_READY = 5"

datatype RIL_PinState =
    RIL_PINSTATE_UNKNOWN
  | RIL_PINSTATE_ENABLED_NOT_VERIFIED
  | RIL_PINSTATE_ENABLED_VERIFIED
  | RIL_PINSTATE_DISABLED
  | RIL_PINSTATE_ENABLED_BLOCKED
  | RIL_PINSTATE_ENABLED_PERM_BLOCKED

primrec RIL_PinState_val :: "RIL_PinState \<Rightarrow> i32" where
  "RIL_PinState_val RIL_PINSTATE_UNKNOWN = 0"
| "RIL_PinState_val RIL_PINSTATE_ENABLED_NOT_VERIFIED = 1"
| "RIL_PinState_val RIL_PINSTATE_ENABLED_VERIFIED = 2"
| "RIL_PinState_val RIL_PINSTATE_DISABLED = 3"
| "RIL_PinState_val RIL_PINSTATE_ENABLED_BLOCKED = 4"
| "RIL_PinState_val RIL_PINSTATE_ENABLED_PERM_BLOCKED = 5"

datatype RIL_AppType =
    RIL_APPTYPE_UNKNOWN
  | RIL_APPTYPE_SIM
  | RIL_APPTYPE_USIM
  | RIL_APPTYPE_RUIM
  | RIL_APPTYPE_CSIM

primrec RIL_AppType_val :: "RIL_AppType \<Rightarrow> i32" where
  "RIL_AppType_val RIL_APPTYPE_UNKNOWN = 0"
| "RIL_AppType_val RIL_APPTYPE_SIM = 1"
| "RIL_AppType_val RIL_APPTYPE_USIM = 2"
| "RIL_AppType_val RIL_APPTYPE_RUIM = 3"
| "RIL_AppType_val RIL_APPTYPE_CSIM = 4"

datatype RIL_PersoSubstate =
    RIL_PERSOSUBSTATE_UNKNOWN
  | RIL_PERSOSUBSTATE_IN_PROGRESS
  | RIL_PERSOSUBSTATE_READY
  | RIL_PERSOSUBSTATE_SIM_NETWORK
  | RIL_PERSOSUBSTATE_SIM_NETWORK_SUBSET
  | RIL_PERSOSUBSTATE_SIM_CORPORATE
  | RIL_PERSOSUBSTATE_SIM_SERVICE_PROVIDER
  | RIL_PERSOSUBSTATE_SIM_SIM
  | RIL_PERSOSUBSTATE_SIM_NETWORK_PUK
  | RIL_PERSOSUBSTATE_SIM_NETWORK_SUBSET_PUK
  | RIL_PERSOSUBSTATE_SIM_CORPORATE_PUK
  | RIL_PERSOSUBSTATE_SIM_SERVICE_PROVIDER_PUK
  | RIL_PERSOSUBSTATE_SIM_SIM_PUK
  | RIL_PERSOSUBSTATE_RUIM_NETWORK1
  | RIL_PERSOSUBSTATE_RUIM_NETWORK2
  | RIL_PERSOSUBSTATE_RUIM_HRPD
  | RIL_PERSOSUBSTATE_RUIM_CORPORATE
  | RIL_PERSOSUBSTATE_RUIM_SERVICE_PROVIDER
  | RIL_PERSOSUBSTATE_RUIM_RUIM
  | RIL_PERSOSUBSTATE_RUIM_NETWORK1_PUK
  | RIL_PERSOSUBSTATE_RUIM_NETWORK2_PUK
  | RIL_PERSOSUBSTATE_RUIM_HRPD_PUK
  | RIL_PERSOSUBSTATE_RUIM_CORPORATE_PUK
  | RIL_PERSOSUBSTATE_RUIM_SERVICE_PROVIDER_PUK
  | RIL_PERSOSUBSTATE_RUIM_RUIM_PUK

primrec RIL_PersoSubstate_val :: "RIL_PersoSubstate \<Rightarrow> i32" where
  "RIL_PersoSubstate_val RIL_PERSOSUBSTATE_UNKNOWN = 0"
| "RIL_PersoSubstate_val RIL_PERSOSUBSTATE_IN_PROGRESS = 1"
| "RIL_PersoSubstate_val RIL_PERSOSUBSTATE_READY = 2"
| "RIL_PersoSubstate_val RIL_PERSOSUBSTATE_SIM_NETWORK = 3"
| "RIL_PersoSubstate_val RIL_PERSOSUBSTATE_SIM_NETWORK_SUBSET = 4"
| "RIL_PersoSubstate_val RIL_PERSOSUBSTATE_SIM_CORPORATE = 5"
| "RIL_PersoSubstate_val RIL_PERSOSUBSTATE_SIM_SERVICE_PROVIDER = 6"
| "RIL_PersoSubstate_val RIL_PERSOSUBSTATE_SIM_SIM = 7"
| "RIL_PersoSubstate_val RIL_PERSOSUBSTATE_SIM_NETWORK_PUK = 8"
| "RIL_PersoSubstate_val RIL_PERSOSUBSTATE_SIM_NETWORK_SUBSET_PUK = 9"
| "RIL_PersoSubstate_val RIL_PERSOSUBSTATE_SIM_CORPORATE_PUK = 10"
| "RIL_PersoSubstate_val RIL_PERSOSUBSTATE_SIM_SERVICE_PROVIDER_PUK = 11"
| "RIL_PersoSubstate_val RIL_PERSOSUBSTATE_SIM_SIM_PUK = 12"
| "RIL_PersoSubstate_val RIL_PERSOSUBSTATE_RUIM_NETWORK1 = 13"
| "RIL_PersoSubstate_val RIL_PERSOSUBSTATE_RUIM_NETWORK2 = 14"
| "RIL_PersoSubstate_val RIL_PERSOSUBSTATE_RUIM_HRPD = 15"
| "RIL_PersoSubstate_val RIL_PERSOSUBSTATE_RUIM_CORPORATE = 16"
| "RIL_PersoSubstate_val RIL_PERSOSUBSTATE_RUIM_SERVICE_PROVIDER = 17"
| "RIL_PersoSubstate_val RIL_PERSOSUBSTATE_RUIM_RUIM = 18"
| "RIL_PersoSubstate_val RIL_PERSOSUBSTATE_RUIM_NETWORK1_PUK = 19"
| "RIL_PersoSubstate_val RIL_PERSOSUBSTATE_RUIM_NETWORK2_PUK = 20"
| "RIL_PersoSubstate_val RIL_PERSOSUBSTATE_RUIM_HRPD_PUK = 21"
| "RIL_PersoSubstate_val RIL_PERSOSUBSTATE_RUIM_CORPORATE_PUK = 22"
| "RIL_PersoSubstate_val RIL_PERSOSUBSTATE_RUIM_SERVICE_PROVIDER_PUK = 23"
| "RIL_PersoSubstate_val RIL_PERSOSUBSTATE_RUIM_RUIM_PUK = 24"

text \<open>\<open>RIL_CDMA_InfoRecName\<close>: the switch over it has a \<open>default\<close> branch.\<close>

type_synonym RIL_CDMA_InfoRecName = i32

definition RIL_CDMA_DISPLAY_INFO_REC :: RIL_CDMA_InfoRecName where
  "RIL_CDMA_DISPLAY_INFO_REC = 0"
definition RIL_CDMA_CALLED_PARTY_NUMBER_INFO_REC :: RIL_CDMA_InfoRecName where
  "RIL_CDMA_CALLED_PARTY_NUMBER_INFO_REC = 1"
definition RIL_CDMA_CALLING_PARTY_NUMBER_INFO_REC :: RIL_CDMA_InfoRecName where
  "RIL_CDMA_CALLING_PARTY_NUMBER_INFO_REC = 2"
definition RIL_CDMA_CONNECTED_NUMBER_INFO_REC :: RIL_CDMA_InfoRecName where
  "RIL_CDMA_CONNECTED_NUMBER_INFO_REC = 3"
definition RIL_CDMA_SIGNAL_INFO_REC :: RIL_CDMA_InfoRecName where
  "RIL_CDMA_SIGNAL_INFO_REC = 4"
definition RIL_CDMA_REDIRECTING_NUMBER_INFO_REC :: RIL_CDMA_InfoRecName where
  "RIL_CDMA_REDIRECTING_NUMBER_INFO_REC = 5"
definition RIL_CDMA_LINE_CONTROL_INFO_REC :: RIL_CDMA_InfoRecName where
  "RIL_CDMA_LINE_CONTROL_INFO_REC = 6"
definition RIL_CDMA_EXTENDED_DISPLAY_INFO_REC :: RIL_CDMA_InfoRecName where
  "RIL_CDMA_EXTENDED_DISPLAY_INFO_REC = 7"
definition RIL_CDMA_T53_CLIR_INFO_REC :: RIL_CDMA_InfoRecName where
  "RIL_CDMA_T53_CLIR_INFO_REC = 8"
definition RIL_CDMA_T53_RELEASE_INFO_REC :: RIL_CDMA_InfoRecName where
  "RIL_CDMA_T53_RELEASE_INFO_REC = 9"
definition RIL_CDMA_T53_AUDIO_CONTROL_INFO_REC :: RIL_CDMA_InfoRecName where
  "RIL_CDMA_T53_AUDIO_CONTROL_INFO_REC = 10"

lemmas info_rec_names =
  RIL_CDMA_DISPLAY_INFO_REC_def RIL_CDMA_CALLED_PARTY_NUMBER_INFO_REC_def
  RIL_CDMA_CALLING_PARTY_NUMBER_INFO_REC_def RIL_CDMA_CONNECTED_NUMBER_INFO_REC_def
  RIL_CDMA_SIGNAL_INFO_REC_def RIL_CDMA_REDIRECTING_NUMBER_INFO_REC_def
  RIL_CDMA_LINE_CONTROL_INFO_REC_def RIL_CDMA_EXTENDED_DISPLAY_INFO_REC_def
  RIL_CDMA_T53_CLIR_INFO_REC_def RIL_CDMA_T53_RELEASE_INFO_REC_def
  RIL_CDMA_T53_AUDIO_CONTROL_INFO_REC_def

section \<open>Structs of \<open>ril.h\<close>\<close>

record RIL_UUS_Info =
  uus_uusType :: i32
  uus_uusDcs :: i32
  uus_uusLength :: i32
  uus_uusData :: "u8 list option"

record RIL_CDMA_SignalInfoRecord =
  sir_isPresent :: u8
  sir_signalType :: u8
  sir_alertPitch :: u8
  sir_signal :: u8

record RIL_Call =
  call_state :: RIL_CallState
  call_index :: i32
  call_toa :: i32
  call_isMpty :: u8
  call_isMT :: u8
  call_als :: u8
  call_isVoice :: u8
  call_isVoicePrivacy :: u8
  call_number :: cstr
  call_numberPresentation :: i32
  call_name :: cstr
  call_namePresentation :: i32
  call_uusInfo :: "RIL_UUS_Info option"

record RIL_Data_Call_Response =
  dc_cid :: i32
  dc_active :: i32
  dc_type :: cstr
  dc_apn :: cstr
  dc_address :: cstr

record RIL_SMS_Response =
  sms_messageRef :: i32
  sms_ackPDU :: cstr
  sms_errorCode :: i32

record RIL_SMS_WriteArgs =
  sw_status :: i32
  sw_pdu :: cstr
  sw_smsc :: cstr

record RIL_Dial =
  dial_address :: cstr
  dial_clir :: i32
  dial_uusInfo :: "RIL_UUS_Info option"

record RIL_SIM_IO =
  sio_command :: i32
  sio_fileid :: i32
  sio_path :: cstr
  sio_p1 :: i32
  sio_p2 :: i32
  sio_p3 :: i32
  sio_data :: cstr
  sio_pin2 :: cstr

record RIL_SIM_IO_Response =
  sior_sw1 :: i32
  sior_sw2 :: i32
  sior_simResponse :: cstr

record RIL_CallForwardInfo =
  cf_status :: i32
  cf_reason :: i32
  cf_serviceClass :: i32
  cf_toa :: i32
  cf_number :: cstr
  cf_timeSeconds :: i32

record RIL_NeighboringCell =
  nc_cid :: cstr
  nc_rssi :: i32

record RIL_SuppSvcNotification =
  ssn_notificationType :: i32
  ssn_code :: i32
  ssn_index :: i32
  ssn_type :: i32
  ssn_number :: cstr

record RIL_AppStatus =
  app_type :: RIL_AppType
  app_state :: RIL_AppState
  app_perso_substate :: RIL_PersoSubstate
  app_aid_ptr :: cstr
  app_label_ptr :: cstr
  app_pin1_replaced :: i32
  app_pin1 :: RIL_PinState
  app_pin2 :: RIL_PinState

record RIL_CardStatus =
  card_state :: RIL_CardState
  card_universal_pin_state :: RIL_PinState
  card_gsm_umts_subscription_app_index :: i32
  card_cdma_subscription_app_index :: i32
  card_num_applications :: i32
  card_applications :: "RIL_AppStatus list"   \<comment> \<open>an array of \<open>RIL_CARD_MAX_APPS\<close>\<close>

record RIL_CDMA_CallWaiting =
  cw_number :: cstr
  cw_numberPresentation :: i32
  cw_name :: cstr
  cw_signalInfoRecord :: RIL_CDMA_SignalInfoRecord

record RIL_GSM_BroadcastSmsConfigInfo =
  gsmb_fromServiceId :: i32
  gsmb_toServiceId :: i32
  gsmb_fromCodeScheme :: i32
  gsmb_toCodeScheme :: i32
  gsmb_selected :: u8

record RIL_GW_SignalStrength =
  gw_signalStrength :: i32
  gw_bitErrorRate :: i32

record RIL_CDMA_SignalStrength =
  cdmass_dbm :: i32
  cdmass_ecio :: i32

record RIL_EVDO_SignalStrength =
  evdo_dbm :: i32
  evdo_ecio :: i32
  evdo_signalNoiseRatio :: i32

record RIL_SignalStrength =
  ss_GW :: RIL_GW_SignalStrength
  ss_CDMA :: RIL_CDMA_SignalStrength
  ss_EVDO :: RIL_EVDO_SignalStrength

record RIL_CDMA_DisplayInfoRecord =
  disp_alpha_len :: u8
  disp_alpha_buf :: "u8 list"   \<comment> \<open>an array of \<open>CDMA_ALPHA_INFO_BUFFER_LENGTH\<close>\<close>

record RIL_CDMA_NumberInfoRecord =
  num_len :: u8
  num_buf :: "u8 list"          \<comment> \<open>an array of \<open>CDMA_NUMBER_INFO_BUFFER_LENGTH\<close>\<close>
  num_number_type :: u8
  num_number_plan :: u8
  num_pi :: u8
  num_si :: u8

record RIL_CDMA_RedirectingNumberInfoRecord =
  redir_redirectingNumber :: RIL_CDMA_NumberInfoRecord
  redir_redirectingReason :: i32

record RIL_CDMA_LineControlInfoRecord =
  lc_lineCtrlPolarityIncluded :: u8
  lc_lineCtrlToggle :: u8
  lc_lineCtrlReverse :: u8
  lc_lineCtrlPowerDenial :: u8

record RIL_CDMA_T53_CLIRInfoRecord =
  clir_cause :: u8

record RIL_CDMA_T53_AudioControlInfoRecord =
  ac_upLink :: u8
  ac_downLink :: u8

text \<open>
  The union \<open>rec\<close> of an information record. The code reads the member that \<open>name\<close> selects;
  reading another member than the one stored has no meaning in the model.
\<close>

datatype RIL_CDMA_InfoRec =
    Rec_display RIL_CDMA_DisplayInfoRecord
  | Rec_number RIL_CDMA_NumberInfoRecord
  | Rec_signal RIL_CDMA_SignalInfoRecord
  | Rec_redir RIL_CDMA_RedirectingNumberInfoRecord
  | Rec_lineCtrl RIL_CDMA_LineControlInfoRecord
  | Rec_clir RIL_CDMA_T53_CLIRInfoRecord
  | Rec_audioCtrl RIL_CDMA_T53_AudioControlInfoRecord

record RIL_CDMA_InformationRecord =
  ir_name :: RIL_CDMA_InfoRecName
  ir_rec :: RIL_CDMA_InfoRec

record RIL_CDMA_InformationRecords =
  irs_numberOfInfoRecs :: u8
  irs_infoRec :: "RIL_CDMA_InformationRecord list"
    \<comment> \<open>an array of \<open>RIL_CDMA_MAX_NUMBER_OF_INFO_RECS\<close>\<close>

section \<open>Structs of \<open>ril_cdma_sms.h\<close>\<close>

record RIL_CDMA_SMS_Address =
  adr_digit_mode :: i32
  adr_number_mode :: i32
  adr_number_type :: i32
  adr_number_plan :: i32
  adr_number_of_digits :: u8
  adr_digits :: "u8 list"       \<comment> \<open>an array of \<open>RIL_CDMA_SMS_ADDRESS_MAX\<close>\<close>

record RIL_CDMA_SMS_Subaddress =
  sub_subaddressType :: i32
  sub_odd :: u8
  sub_number_of_digits :: u8
  sub_digits :: "u8 list"       \<comment> \<open>an array of \<open>RIL_CDMA_SMS_SUBADDRESS_MAX\<close>\<close>

record RIL_CDMA_SMS_Message =
  msg_uTeleserviceID :: i32
  msg_bIsServicePresent :: u8
  msg_uServicecategory :: i32
  msg_sAddress :: RIL_CDMA_SMS_Address
  msg_sSubAddress :: RIL_CDMA_SMS_Subaddress
  msg_uBearerDataLen :: i32
  msg_aBearerData :: "u8 list"  \<comment> \<open>an array of \<open>RIL_CDMA_SMS_BEARER_DATA_MAX\<close>\<close>

record RIL_CDMA_SMS_Ack =
  ack_uErrorClass :: i32
  ack_uSMSCauseCode :: i32

record RIL_CDMA_BroadcastSmsConfigInfo =
  cdmab_service_category :: i32
  cdmab_language :: i32
  cdmab_selected :: u8

record RIL_CDMA_SMS_WriteArgs =
  csw_status :: i32
  csw_message :: RIL_CDMA_SMS_Message

end
