(* ===== verification/Ril_Layout.thy ===== *)
theory Ril_Layout
  imports Ril_Types
begin

text \<open>
  \<open>sizeof\<close> of the structs whose size the marshalling code compares or passes on, laid out from
  their members as declared in \<open>ril.h\<close> and \<open>ril_cdma_sms.h\<close>. An enum has the size of an \<open>int\<close>.
\<close>

definition RIL_UUS_Info_layout :: "abi \<Rightarrow> ctype" where
  "RIL_UUS_Info_layout a = c_struct [c_int, c_int, c_int, c_ptr a]"

definition RIL_CDMA_SignalInfoRecord_layout :: ctype where
  "RIL_CDMA_SignalInfoRecord_layout = c_struct [c_char, c_char, c_char, c_char]"

definition RIL_Data_Call_Response_layout :: "abi \<Rightarrow> ctype" where
  "RIL_Data_Call_Response_layout a = c_struct [c_int, c_int, c_ptr a, c_ptr a, c_ptr a]"

definition RIL_SMS_Response_layout :: "abi \<Rightarrow> ctype" where
  "RIL_SMS_Response_layout a = c_struct [c_int, c_ptr a, c_int]"

definition RIL_SMS_WriteArgs_layout :: "abi \<Rightarrow> ctype" where
  "RIL_SMS_WriteArgs_layout a = c_struct [c_int, c_ptr a, c_ptr a]"

definition RIL_Dial_layout :: "abi \<Rightarrow> ctype" where
  "RIL_Dial_layout a = c_struct [c_ptr a, c_int, c_ptr a]"

definition RIL_SIM_IO_layout :: "abi \<Rightarrow> ctype" where
  "RIL_SIM_IO_layout a =
     c_struct [c_int, c_int, c_ptr a, c_int, c_int, c_int, c_ptr a, c_ptr a]"

definition RIL_SIM_IO_Response_layout :: "abi \<Rightarrow> ctype" where
  "RIL_SIM_IO_Response_layout a = c_struct [c_int, c_int, c_ptr a]"

definition RIL_CallForwardInfo_layout :: "abi \<Rightarrow> ctype" where
  "RIL_CallForwardInfo_layout a = c_struct [c_int, c_int, c_int, c_int, c_ptr a, c_int]"

definition RIL_SuppSvcNotification_layout :: "abi \<Rightarrow> ctype" where
  "RIL_SuppSvcNotification_layout a = c_struct [c_int, c_int, c_int, c_int, c_ptr a]"

definition RIL_CDMA_CallWaiting_layout :: "abi \<Rightarrow> ctype" where
  "RIL_CDMA_CallWaiting_layout a =
     c_struct [c_ptr a, c_int, c_ptr a, RIL_CDMA_SignalInfoRecord_layout]"

definition RIL_GSM_BroadcastSmsConfigInfo_layout :: ctype where
  "RIL_GSM_BroadcastSmsConfigInfo_layout = c_struct [c_int, c_int, c_int, c_int, c_char]"

definition RIL_SignalStrength_layout :: ctype where
  "RIL_SignalStrength_layout =
     c_struct [c_struct [c_int, c_int], c_struct [c_int, c_int], c_struct [c_int, c_int, c_int]]"

definition RIL_CDMA_DisplayInfoRecord_layout :: ctype where
  "RIL_CDMA_DisplayInfoRecord_layout =
     c_struct [c_char, c_array CDMA_ALPHA_INFO_BUFFER_LENGTH c_char]"

definition RIL_CDMA_NumberInfoRecord_layout :: ctype where
  "RIL_CDMA_NumberInfoRecord_layout =
     c_struct [c_char, c_array CDMA_NUMBER_INFO_BUFFER_LENGTH c_char, c_char, c_char, c_char, c_char]"

definition RIL_CDMA_RedirectingNumberInfoRecord_layout :: ctype where
  "RIL_CDMA_RedirectingNumberInfoRecord_layout =
     c_struct [RIL_CDMA_NumberInfoRecord_layout, c_int]"

definition RIL_CDMA_LineControlInfoRecord_layout :: ctype where
  "RIL_CDMA_LineControlInfoRecord_layout = c_struct [c_char, c_char, c_char, c_char]"

definition RIL_CDMA_T53_CLIRInfoRecord_layout :: ctype where
  "RIL_CDMA_T53_CLIRInfoRecord_layout = c_struct [c_char]"

definition RIL_CDMA_T53_AudioControlInfoRecord_layout :: ctype where
  "RIL_CDMA_T53_AudioControlInfoRecord_layout = c_struct [c_char, c_char]"

definition RIL_CDMA_InformationRecord_layout :: ctype where
  "RIL_CDMA_InformationRecord_layout =
     c_struct [c_int,
       c_union [RIL_CDMA_DisplayInfoRecord_layout, RIL_CDMA_NumberInfoRecord_layout,
         RIL_CDMA_SignalInfoRecord_layout, RIL_CDMA_RedirectingNumberInfoRecord_layout,
         RIL_CDMA_LineControlInfoRecord_layout, RIL_CDMA_T53_CLIRInfoRecord_layout,
         RIL_CDMA_T53_AudioControlInfoRecord_layout]]"

definition RIL_CDMA_InformationRecords_layout :: ctype where
  "RIL_CDMA_InformationRecords_layout =
     c_struct [c_char, c_array RIL_CDMA_MAX_NUMBER_OF_INFO_RECS RIL_CDMA_InformationRecord_layout]"

definition RIL_CDMA_SMS_Address_layout :: ctype where
  "RIL_CDMA_SMS_Address_layout =
     c_struct [c_int, c_int, c_int, c_int, c_char, c_array RIL_CDMA_SMS_ADDRESS_MAX c_char]"

definition RIL_CDMA_SMS_Subaddress_layout :: ctype where
  "RIL_CDMA_SMS_Subaddress_layout =
     c_struct [c_int, c_char, c_char, c_array RIL_CDMA_SMS_SUBADDRESS_MAX c_char]"

definition RIL_CDMA_SMS_Message_layout :: ctype where
  "RIL_CDMA_SMS_Message_layout =
     c_struct [c_int, c_char, c_int, RIL_CDMA_SMS_Address_layout, RIL_CDMA_SMS_Subaddress_layout,
       c_int, c_array RIL_CDMA_SMS_BEARER_DATA_MAX c_char]"

definition RIL_CDMA_SMS_Ack_layout :: ctype where
  "RIL_CDMA_SMS_Ack_layout = c_struct [c_int, c_int]"

definition RIL_CDMA_BroadcastSmsConfigInfo_layout :: ctype where
  "RIL_CDMA_BroadcastSmsConfigInfo_layout = c_struct [c_int, c_int, c_char]"

definition RIL_CDMA_SMS_WriteArgs_layout :: ctype where
  "RIL_CDMA_SMS_WriteArgs_layout = c_struct [c_int, RIL_CDMA_SMS_Message_layout]"

abbreviation size_of :: "ctype \<Rightarrow> nat" where "size_of t \<equiv> fst t"

lemmas struct_layouts [size_simps] =
  RIL_UUS_Info_layout_def RIL_CDMA_SignalInfoRecord_layout_def RIL_Data_Call_Response_layout_def
  RIL_SMS_Response_layout_def RIL_SMS_WriteArgs_layout_def RIL_Dial_layout_def
  RIL_SIM_IO_layout_def RIL_SIM_IO_Response_layout_def RIL_CallForwardInfo_layout_def
  RIL_SuppSvcNotification_layout_def RIL_CDMA_CallWaiting_layout_def
  RIL_GSM_BroadcastSmsConfigInfo_layout_def RIL_SignalStrength_layout_def
  RIL_CDMA_DisplayInfoRecord_layout_def RIL_CDMA_NumberInfoRecord_layout_def
  RIL_CDMA_RedirectingNumberInfoRecord_layout_def RIL_CDMA_LineControlInfoRecord_layout_def
  RIL_CDMA_T53_CLIRInfoRecord_layout_def RIL_CDMA_T53_AudioControlInfoRecord_layout_def
  RIL_CDMA_InformationRecord_layout_def RIL_CDMA_InformationRecords_layout_def
  RIL_CDMA_SMS_Address_layout_def RIL_CDMA_SMS_Subaddress_layout_def
  RIL_CDMA_SMS_Message_layout_def RIL_CDMA_SMS_Ack_layout_def
  RIL_CDMA_BroadcastSmsConfigInfo_layout_def RIL_CDMA_SMS_WriteArgs_layout_def

text \<open>The sizes the 32-bit and 64-bit compilers give.\<close>

lemma sizes_32:
  "size_of (RIL_SMS_Response_layout abi32) = 12" "size_of (RIL_Dial_layout abi32) = 12"
  "size_of (RIL_SIM_IO_layout abi32) = 32" "size_of (RIL_CallForwardInfo_layout abi32) = 24"
  "size_of (RIL_CDMA_CallWaiting_layout abi32) = 16"
  by (simp_all add: size_simps abi32_def)

lemma sizes_64:
  "size_of (RIL_SMS_Response_layout abi64) = 24" "size_of (RIL_Dial_layout abi64) = 24"
  "size_of (RIL_SIM_IO_layout abi64) = 48" "size_of (RIL_CallForwardInfo_layout abi64) = 32"
  "size_of (RIL_CDMA_CallWaiting_layout abi64) = 32"
  by (simp_all add: size_simps abi64_def)

lemma sizes_fixed:
  "size_of RIL_CDMA_InformationRecords_layout = 964" "size_of RIL_SignalStrength_layout = 28"
  "size_of RIL_CDMA_SMS_Message_layout = 372" "size_of RIL_CDMA_SignalInfoRecord_layout = 4"
  by (simp_all add: size_simps ril_limits)

end
