(* ===== verification/Ril_Parcel.thy ===== *)
theory Ril_Parcel
  imports Ril_Prelude
begin

text \<open>
  The services of the platform that \<open>libril/ril.cpp\<close> uses and that are not part of this
  repository: the \<open>Parcel\<close> class of libbinder and the string conversions of libcutils. They are
  the record \<open>platform\<close> of functions over an abstract type \<open>'p\<close> of parcels, an argument of every
  definition that marshals or unmarshals. The locale \<open>parcel_stream\<close> states their documented
  behaviour: what was written is read back, in order and by the matching operations.

  At the end a byte buffer with the alignment and padding rules of libbinder is shown to be such a
  platform, so that the laws can hold and closed examples can be evaluated.
\<close>

section \<open>The interface\<close>

definition NO_ERROR :: i32 where "NO_ERROR = 0"

text \<open>
  A read that fails leaves its out parameter as it was, which the second argument of
  \<open>pf_readInt32\<close> and \<open>pf_read1\<close> (\<open>read (&ut, sizeof (ut))\<close> on a byte) stands for.
\<close>

record 'p platform =
  pf_empty :: 'p
  pf_setData :: "u8 list \<Rightarrow> 'p"
  pf_data :: "'p \<Rightarrow> u8 list"
  pf_dataPosition :: "'p \<Rightarrow> nat"
  pf_setDataPosition :: "'p \<Rightarrow> nat \<Rightarrow> 'p"
  pf_readInt32 :: "'p \<Rightarrow> i32 \<Rightarrow> i32 \<times> i32 \<times> 'p"
  pf_read1 :: "'p \<Rightarrow> u8 \<Rightarrow> i32 \<times> u8 \<times> 'p"
  pf_readInplace :: "'p \<Rightarrow> nat \<Rightarrow> u8 list option \<times> 'p"
  pf_readString16Inplace :: "'p \<Rightarrow> u16 list option \<times> 'p"
  pf_writeInt32 :: "'p \<Rightarrow> i32 \<Rightarrow> 'p"
  pf_writeInt64 :: "'p \<Rightarrow> i64 \<Rightarrow> 'p"
  pf_write :: "'p \<Rightarrow> u8 list \<Rightarrow> 'p"
  pf_writeString16 :: "'p \<Rightarrow> u16 list option \<Rightarrow> 'p"
  pf_strndup16to8 :: "u16 list option \<Rightarrow> cstr"
  pf_strdup8to16 :: "cstr \<Rightarrow> u16 list option"

section \<open>The string helpers of \<open>ril.cpp\<close>\<close>

definition strdupReadString :: "'p platform \<Rightarrow> 'p \<Rightarrow> cstr \<times> 'p" where
  "strdupReadString P p =
     (let (s16, p) = pf_readString16Inplace P p in (pf_strndup16to8 P s16, p))"

definition writeStringToParcel :: "'p platform \<Rightarrow> 'p \<Rightarrow> cstr \<Rightarrow> 'p" where
  "writeStringToParcel P p s = pf_writeString16 P p (pf_strdup8to16 P s)"

section \<open>The environment of the marshalling code\<close>

text \<open>
  What the dispatch and response functions take from outside: the ABI, the platform, the version
  that the vendor library registered, and the contents of variables that are not initialised.
\<close>

record 'p ril_env =
  env_abi :: abi
  env_parcel :: "'p platform"
  env_version :: int       \<comment> \<open>\<open>s_callbacks.version\<close>\<close>
  env_t :: i32
  env_ut :: u8

section \<open>Streams of items\<close>

text \<open>What the code puts into a parcel: integers, single bytes, byte arrays and strings.\<close>

datatype item = I32 i32 | Byte u8 | Bytes "u8 list" | S16 "u16 list option"

fun write_item :: "'p platform \<Rightarrow> item \<Rightarrow> 'p \<Rightarrow> 'p" where
  "write_item P (I32 v) p = pf_writeInt32 P p v"
| "write_item P (Byte b) p = pf_write P p [b]"
| "write_item P (Bytes bs) p = pf_write P p bs"
| "write_item P (S16 s) p = pf_writeString16 P p s"

definition write_items :: "'p platform \<Rightarrow> item list \<Rightarrow> 'p \<Rightarrow> 'p" where
  "write_items P its p = fold (write_item P) its p"

text \<open>\<open>reads P p its q\<close>: the matching reads on \<open>p\<close> succeed, return \<open>its\<close> and end in \<open>q\<close>.\<close>

fun reads :: "'p platform \<Rightarrow> 'p \<Rightarrow> item list \<Rightarrow> 'p \<Rightarrow> bool" where
  "reads P p [] q \<longleftrightarrow> q = p"
| "reads P p (I32 v # its) q \<longleftrightarrow>
     (\<exists>p'. (\<forall>t. pf_readInt32 P p t = (NO_ERROR, v, p')) \<and> reads P p' its q)"
| "reads P p (Byte b # its) q \<longleftrightarrow>
     (\<exists>p'. (\<forall>t. pf_read1 P p t = (NO_ERROR, b, p')) \<and> reads P p' its q)"
| "reads P p (Bytes bs # its) q \<longleftrightarrow>
     (\<exists>p'. pf_readInplace P p (length bs) = (Some bs, p') \<and> reads P p' its q)"
| "reads P p (S16 s # its) q \<longleftrightarrow>
     (\<exists>p'. pf_readString16Inplace P p = (s, p') \<and> reads P p' its q)"

text \<open>A parcel with nothing left: every read fails and changes nothing.\<close>

definition exhausted :: "'p platform \<Rightarrow> 'p \<Rightarrow> bool" where
  "exhausted P p \<longleftrightarrow>
     (\<exists>st. st \<noteq> NO_ERROR \<and> (\<forall>t. pf_readInt32 P p t = (st, t, p)) \<and> (\<forall>b. pf_read1 P p b = (st, b, p))) \<and>
     pf_readString16Inplace P p = (None, p) \<and> (\<forall>n > 0. pf_readInplace P p n = (None, p))"

text \<open>Strings of less than \<open>INT32_MAX\<close> units: the length field of the others is refused.\<close>

fun item_ok :: "item \<Rightarrow> bool" where
  "item_ok (S16 (Some ws)) \<longleftrightarrow> length ws < 2 ^ 31 - 1"
| "item_ok _ \<longleftrightarrow> True"

lemma reads_append: "reads P p (xs @ ys) r \<longleftrightarrow> (\<exists>q. reads P p xs q \<and> reads P q ys r)"
proof (induction xs arbitrary: p)
  case Nil
  then show ?case by simp
next
  case (Cons x xs)
  then show ?case by (cases x) auto
qed

lemma write_items_append: "write_items P (xs @ ys) p = write_items P ys (write_items P xs p)"
  by (simp add: write_items_def)

lemma write_items_simps [simp]:
  "write_items P [] p = p"
  "write_items P (x # xs) p = write_items P xs (write_item P x p)"
  by (simp_all add: write_items_def)

text \<open>The parcel whose contents are the bytes of the items, at its start.\<close>

definition parcel_of :: "'p platform \<Rightarrow> item list \<Rightarrow> 'p" where
  "parcel_of P its = pf_setData P (pf_data P (write_items P its (pf_empty P)))"

text \<open>A C string as \<open>writeStringToParcel\<close> writes it.\<close>

abbreviation str :: "'p platform \<Rightarrow> cstr \<Rightarrow> item" where
  "str P s \<equiv> S16 (pf_strdup8to16 P s)"

lemma writeStringToParcel_item: "writeStringToParcel P p s = write_item P (str P s) p"
  by (simp add: writeStringToParcel_def)

lemma strdupReadString_reads:
  "reads P p (S16 s # its) q \<longleftrightarrow> (\<exists>p'. strdupReadString P p = (pf_strndup16to8 P s, p') \<and>
     pf_readString16Inplace P p = (s, p') \<and> reads P p' its q)"
  by (auto simp: strdupReadString_def split: prod.splits)

text \<open>
  The contract of the platform: the bytes of a parcel, taken as the contents of another one, read
  back as what was written, and then the parcel is exhausted; strings of 7-bit characters survive
  the conversion to 16-bit units and back.
\<close>

definition ascii :: "u8 list \<Rightarrow> bool" where
  "ascii s \<longleftrightarrow> (\<forall>c \<in> set s. c \<noteq> 0 \<and> c < 128)"

definition ascii_opt :: "cstr \<Rightarrow> bool" where
  "ascii_opt s = pred_option (\<lambda>c. ascii c \<and> length c < 2 ^ 31 - 1) s"

locale parcel_stream =
  fixes P :: "'p platform"
  assumes transport: "list_all item_ok its \<Longrightarrow> \<exists>q. reads P (parcel_of P its) its q \<and> exhausted P q"
    and string_null: "pf_strdup8to16 P None = None" "pf_strndup16to8 P None = None"
    and string_some: "\<exists>ws. pf_strdup8to16 P (Some s) = Some ws \<and> length ws \<le> length s"
    and string_back: "ascii s \<Longrightarrow> pf_strndup16to8 P (pf_strdup8to16 P (Some s)) = Some s"
begin

lemma transport_reads:
  assumes "list_all item_ok its"
  obtains q where "reads P (parcel_of P its) its q" and "exhausted P q"
  using transport [OF assms] by blast

lemma str_back: "ascii_opt s \<Longrightarrow> pf_strndup16to8 P (pf_strdup8to16 P s) = s"
  by (cases s) (simp_all add: ascii_opt_def string_null string_back)

lemma str_ok: "ascii_opt s \<Longrightarrow> item_ok (str P s)"
proof (cases s)
  case None
  then show ?thesis by (simp add: string_null)
next
  case (Some c)
  obtain ws where "pf_strdup8to16 P (Some c) = Some ws" "length ws \<le> length c" using string_some by blast
  moreover assume "ascii_opt s"
  ultimately show ?thesis using Some by (simp add: ascii_opt_def)
qed

end

text \<open>
  Some code goes back to an integer it has written and writes another one over it; what follows it
  stays.
\<close>

locale parcel_rewind = parcel_stream +
  assumes rewind: "pf_data P (pf_writeInt32 P (pf_setDataPosition P
      (write_items P (its @ I32 v # js) (pf_empty P)) (pf_dataPosition P (write_items P its (pf_empty P)))) w) =
    pf_data P (write_items P (its @ I32 w # js) (pf_empty P))"

section \<open>A byte buffer that fulfils the contract\<close>

text \<open>The contents and the position. All values are aligned to, and padded to, four bytes.\<close>

type_synonym byte_parcel = "u8 list \<times> nat"

definition NOT_ENOUGH_DATA :: i32 where "NOT_ENOUGH_DATA = - 61"

definition pad4 :: "u8 list \<Rightarrow> u8 list" where
  "pad4 bs = bs @ replicate ((4 - length bs mod 4) mod 4) 0"

definition bp_write :: "byte_parcel \<Rightarrow> u8 list \<Rightarrow> byte_parcel" where
  "bp_write p bs = (take (snd p) (fst p) @ pad4 bs @ drop (snd p + length (pad4 bs)) (fst p),
     snd p + length (pad4 bs))"

definition bp_readInplace :: "byte_parcel \<Rightarrow> nat \<Rightarrow> u8 list option \<times> byte_parcel" where
  "bp_readInplace p n =
     (let m = (n + 3) div 4 * 4
      in if snd p + m \<le> length (fst p) then (Some (take n (drop (snd p) (fst p))), (fst p, snd p + m))
         else (None, p))"

definition bp_readInt32 :: "byte_parcel \<Rightarrow> i32 \<Rightarrow> i32 \<times> i32 \<times> byte_parcel" where
  "bp_readInt32 p t = (case bp_readInplace p 4 of
     (Some bs, q) \<Rightarrow> (NO_ERROR, from_be32 (rev bs), q) | (None, q) \<Rightarrow> (NOT_ENOUGH_DATA, t, q))"

definition bp_read1 :: "byte_parcel \<Rightarrow> u8 \<Rightarrow> i32 \<times> u8 \<times> byte_parcel" where
  "bp_read1 p t = (case bp_readInplace p 1 of
     (Some bs, q) \<Rightarrow> (NO_ERROR, hd bs, q) | (None, q) \<Rightarrow> (NOT_ENOUGH_DATA, t, q))"

definition bytes_of_u16 :: "u16 \<Rightarrow> u8 list" where
  "bytes_of_u16 w = [ucast w, ucast (drop_bit 8 w)]"

fun u16s_of_bytes :: "u8 list \<Rightarrow> u16 list" where
  "u16s_of_bytes (a # b # bs) = or (ucast a) (push_bit 8 (ucast b)) # u16s_of_bytes bs"
| "u16s_of_bytes _ = []"

definition bp_writeString16 :: "byte_parcel \<Rightarrow> u16 list option \<Rightarrow> byte_parcel" where
  "bp_writeString16 p s = (case s of
     None \<Rightarrow> bp_write p (le32 (- 1))
   | Some ws \<Rightarrow> bp_write (bp_write p (le32 (of_nat (length ws))))
       (concat (map bytes_of_u16 ws) @ [0, 0]))"

definition bp_readString16Inplace :: "byte_parcel \<Rightarrow> u16 list option \<times> byte_parcel" where
  "bp_readString16Inplace p =
     (let (st, size, q) = bp_readInt32 p 0
      in if 0 \<le> sint size \<and> sint size < 2 ^ 31 - 1 then
           (case bp_readInplace q (2 * (nat (sint size) + 1)) of
              (Some bs, r) \<Rightarrow> (Some (u16s_of_bytes (take (2 * nat (sint size)) bs)), r)
            | (None, r) \<Rightarrow> (None, r))
         else (None, q))"

definition byte_platform :: "byte_parcel platform" where
  "byte_platform = \<lparr>
     pf_empty = ([], 0),
     pf_setData = (\<lambda>bs. (bs, 0)),
     pf_data = fst,
     pf_dataPosition = snd,
     pf_setDataPosition = (\<lambda>p n. (fst p, n)),
     pf_readInt32 = bp_readInt32,
     pf_read1 = bp_read1,
     pf_readInplace = bp_readInplace,
     pf_readString16Inplace = bp_readString16Inplace,
     pf_writeInt32 = (\<lambda>p v. bp_write p (le32 v)),
     pf_writeInt64 = (\<lambda>p v. bp_write p (le32 (ucast v) @ le32 (ucast (drop_bit 32 v)))),
     pf_write = bp_write,
     pf_writeString16 = bp_writeString16,
     pf_strndup16to8 = map_option (map ucast),
     pf_strdup8to16 = map_option (map ucast)\<rparr>"

text \<open>The bytes of an item.\<close>

fun enc :: "item \<Rightarrow> u8 list" where
  "enc (I32 v) = le32 v"
| "enc (Byte b) = pad4 [b]"
| "enc (Bytes bs) = pad4 bs"
| "enc (S16 None) = le32 (- 1)"
| "enc (S16 (Some ws)) = le32 (of_nat (length ws)) @ pad4 (concat (map bytes_of_u16 ws) @ [0, 0])"

lemma pad4_length [simp]: "length (pad4 bs) = (length bs + 3) div 4 * 4"
proof -
  have "4 * q + r + (4 - (4 * q + r) mod 4) mod 4 = (4 * q + r + 3) div 4 * 4"
    if "r \<in> {0, 1, 2, 3}" for q r :: nat
    using that by auto
  from this [of "length bs mod 4" "length bs div 4"]
  have "length bs mod 4 \<in> {0, 1, 2, 3} \<Longrightarrow>
      length bs + (4 - length bs mod 4) mod 4 = (length bs + 3) div 4 * 4" by simp
  moreover have "length bs mod 4 \<in> {0, 1, 2, 3}"
    using mod_less_divisor [of 4 "length bs"] by auto
  ultimately have "length bs + (4 - length bs mod 4) mod 4 = (length bs + 3) div 4 * 4" by simp
  then show ?thesis by (simp add: pad4_def)
qed

lemma pad4_le32 [simp]: "pad4 (le32 v) = le32 v"
  by (simp add: pad4_def)

lemma bp_write_end: "bp_write (d, length d) bs = (d @ pad4 bs, length d + length (pad4 bs))"
  by (simp add: bp_write_def)

lemma write_item_end:
  "write_item byte_platform it (d, length d) = (d @ enc it, length (d @ enc it))"
proof (cases it)
  case (S16 s)
  show ?thesis
  proof (cases s)
    case None
    then show ?thesis using S16 by (simp add: byte_platform_def bp_writeString16_def bp_write_end)
  next
    case (Some ws)
    have "bp_write (d @ le32 v, length d + 4) bs = (d @ le32 v @ pad4 bs, length d + 4 + length (pad4 bs))"
      for v bs using bp_write_end [of "d @ le32 v" bs] by simp
    then show ?thesis using S16 Some
      by (simp add: byte_platform_def bp_writeString16_def bp_write_end)
  qed
qed (simp_all add: byte_platform_def bp_write_end)

lemma write_items_end:
  "write_items byte_platform its (d, length d) =
     (d @ concat (map enc its), length (d @ concat (map enc its)))"
proof (induction its arbitrary: d)
  case Nil
  then show ?case by simp
next
  case (Cons it its)
  then show ?case using Cons.IH [of "d @ enc it"] by (simp add: write_item_end)
qed

lemma readInplace_enc:
  "bp_readInplace (d @ pad4 bs @ rest, length d) (length bs) =
     (Some bs, (d @ pad4 bs @ rest, length d + length (pad4 bs)))"
  by (simp add: bp_readInplace_def) (simp add: pad4_def)

lemma readInt32_enc:
  "bp_readInt32 (d @ le32 v @ rest, length d) t = (NO_ERROR, v, (d @ le32 v @ rest, length d + 4))"
  using readInplace_enc [of d "le32 v" rest] by (simp add: bp_readInt32_def)

lemma u16_bytes_back:
  fixes w :: u16
  shows "or (ucast (ucast w :: u8)) (push_bit 8 (ucast (ucast (drop_bit 8 w) :: u8))) = w"
proof (rule bit_word_eqI)
  fix n assume "n < LENGTH(16)"
  then show "bit (or (ucast (ucast w :: u8)) (push_bit 8 (ucast (ucast (drop_bit 8 w) :: u8))) :: u16) n = bit w n"
    by (cases "n < 8") (auto simp: bit_simps)
qed

lemma u16s_of_bytes_back: "u16s_of_bytes (concat (map bytes_of_u16 ws)) = ws"
  by (induction ws) (simp_all add: bytes_of_u16_def u16_bytes_back)

lemma length_u16_bytes [simp]: "length (concat (map bytes_of_u16 ws)) = 2 * length ws"
  by (induction ws) (simp_all add: bytes_of_u16_def)

lemma readString16_enc:
  assumes "length ws < 2 ^ 31 - 1"
  shows "bp_readString16Inplace (d @ enc (S16 (Some ws)) @ rest, length d) =
    (Some ws, (d @ enc (S16 (Some ws)) @ rest, length d + length (enc (S16 (Some ws)))))"
proof -
  let ?len = "le32 (of_nat (length ws))" and ?bs = "concat (map bytes_of_u16 ws) @ [0, 0]"
  have s: "sint (of_nat (length ws) :: i32) = int (length ws)" using assms by (intro sint_small) simp
  have r1: "bp_readInt32 (d @ ?len @ pad4 ?bs @ rest, length d) 0 =
      (NO_ERROR, of_nat (length ws), (d @ ?len @ pad4 ?bs @ rest, length d + 4))"
    by (rule readInt32_enc)
  have r2: "bp_readInplace (d @ ?len @ pad4 ?bs @ rest, length d + 4) (2 * (length ws + 1)) =
      (Some ?bs, (d @ ?len @ pad4 ?bs @ rest, length d + 4 + length (pad4 ?bs)))"
    using readInplace_enc [of "d @ ?len" ?bs rest] by simp
  show ?thesis
    using assms r2 unfolding bp_readString16Inplace_def
    by (simp add: r1 s u16s_of_bytes_back)
qed

lemma readString16_null:
  "bp_readString16Inplace (d @ le32 (- 1) @ rest, length d) = (None, (d @ le32 (- 1) @ rest, length d + 4))"
  by (simp add: bp_readString16Inplace_def readInt32_enc)

lemma read1_enc:
  "bp_read1 (d @ pad4 [b] @ rest, length d) t = (NO_ERROR, b, (d @ pad4 [b] @ rest, length d + 4))"
  using readInplace_enc [of d "[b]" rest] by (simp add: bp_read1_def)

lemma reads_enc:
  "list_all item_ok its \<Longrightarrow>
   reads byte_platform (d @ concat (map enc its), length d) its
     (d @ concat (map enc its), length (d @ concat (map enc its)))"
proof (induction its arbitrary: d)
  case Nil
  then show ?case by simp
next
  case (Cons it its)
  let ?rest = "concat (map enc its)"
  have IH: "reads byte_platform (d @ enc it @ ?rest, length d + length (enc it)) its
      (d @ enc it @ ?rest, length d + length (enc it) + length ?rest)"
    using Cons.IH [of "d @ enc it"] Cons.prems by (simp add: add.assoc)
  show ?case
  proof (cases it rule: enc.cases)
    case (1 v)
    then show ?thesis using IH by (simp add: byte_platform_def readInt32_enc add.assoc)
  next
    case (2 b)
    then show ?thesis using IH by (simp add: byte_platform_def read1_enc add.assoc)
  next
    case (3 bs)
    then show ?thesis using IH readInplace_enc [of d bs ?rest] by (simp add: byte_platform_def add.assoc)
  next
    case 4
    then show ?thesis using IH by (simp add: byte_platform_def readString16_null add.assoc)
  next
    case (5 ws)
    then have "length ws < 2 ^ 31 - 1" using Cons.prems by simp
    from readString16_enc [OF this, of d ?rest] 5 IH show ?thesis
      by (simp add: byte_platform_def add.assoc)
  qed
qed

lemma exhausted_end: "exhausted byte_platform (d, length d)"
proof -
  have "bp_readInplace (d, length d) n = (None, (d, length d))" if "n > 0" for n
    using that by (simp add: bp_readInplace_def Let_def)
  then show ?thesis
    by (simp add: exhausted_def byte_platform_def bp_readInt32_def bp_read1_def
        bp_readString16Inplace_def NO_ERROR_def NOT_ENOUGH_DATA_def)
qed

lemma ucast_u16_u8 [simp]: "(ucast (ucast c :: u16) :: u8) = c"
  by (rule bit_word_eqI) (simp add: bit_simps)

interpretation bytes: parcel_stream byte_platform
proof
  fix its assume "list_all item_ok its"
  from reads_enc [OF this, of "[]"] exhausted_end write_items_end [of its "[]"]
  show "\<exists>q. reads byte_platform (parcel_of byte_platform its) its q \<and> exhausted byte_platform q"
    by (auto simp: byte_platform_def parcel_of_def)
qed (auto simp: byte_platform_def comp_def)

text \<open>Overwriting four bytes in the middle.\<close>

lemma bp_overwrite:
  "bp_write (d @ le32 v @ rest, length d) (le32 w) = (d @ le32 w @ rest, length d + 4)"
  by (simp add: bp_write_def)

interpretation bytes_rewind: parcel_rewind byte_platform
proof
  fix its js v w
  let ?e = "pf_empty byte_platform" and ?d = "concat (map enc its)"
  have w: "write_items byte_platform xs ?e = (concat (map enc xs), length (concat (map enc xs)))" for xs
    using write_items_end [of xs "[]"] by (simp add: byte_platform_def)
  show "pf_data byte_platform (pf_writeInt32 byte_platform (pf_setDataPosition byte_platform
      (write_items byte_platform (its @ I32 v # js) ?e)
      (pf_dataPosition byte_platform (write_items byte_platform its ?e))) w) =
    pf_data byte_platform (write_items byte_platform (its @ I32 w # js) ?e)"
    unfolding w using bp_overwrite [of ?d v "concat (map enc js)" w] by (simp add: byte_platform_def)
qed

end
