(* ===== verification/Ril_Tables.thy ===== *)
theory Ril_Tables
  imports Ril_Types
begin

text \<open>
  The request and unsolicited-response codes of \<open>telephony/ril.h\<close>, the two tables of
  \<open>libril\<close> that are indexed by them (\<open>ril_commands.h\<close> and \<open>ril_unsol_commands.h\<close>), and the
  functions of \<open>ril.cpp\<close> that give codes a name in the log.

  The tables hold pointers to functions; here they hold the functions' names, the datatypes
  \<open>dispatch_fn\<close> and \<open>response_fn\<close>, and the theories that model the functions map the names to them.
\<close>

section \<open>Codes\<close>

definition RIL_REQUEST_GET_SIM_STATUS :: i32 where [simp]: "RIL_REQUEST_GET_SIM_STATUS = 1"
definition RIL_REQUEST_ENTER_SIM_PIN :: i32 where [simp]: "RIL_REQUEST_ENTER_SIM_PIN = 2"
definition RIL_REQUEST_ENTER_SIM_PUK :: i32 where [simp]: "RIL_REQUEST_ENTER_SIM_PUK = 3"
definition RIL_REQUEST_ENTER_SIM_PIN2 :: i32 where [simp]: "RIL_REQUEST_ENTER_SIM_PIN2 = 4"
definition RIL_REQUEST_ENTER_SIM_PUK2 :: i32 where [simp]: "RIL_REQUEST_ENTER_SIM_PUK2 = 5"
definition RIL_REQUEST_CHANGE_SIM_PIN :: i32 where [simp]: "RIL_REQUEST_CHANGE_SIM_PIN = 6"
definition RIL_REQUEST_CHANGE_SIM_PIN2 :: i32 where [simp]: "RIL_REQUEST_CHANGE_SIM_PIN2 = 7"
definition RIL_REQUEST_ENTER_NETWORK_DEPERSONALIZATION :: i32 where [simp]: "RIL_REQUEST_ENTER_NETWORK_DEPERSONALIZATION = 8"
definition RIL_REQUEST_GET_CURRENT_CALLS :: i32 where [simp]: "RIL_REQUEST_GET_CURRENT_CALLS = 9"
definition RIL_REQUEST_DIAL :: i32 where [simp]: "RIL_REQUEST_DIAL = 10"
definition RIL_REQUEST_GET_IMSI :: i32 where [simp]: "RIL_REQUEST_GET_IMSI = 11"
definition RIL_REQUEST_HANGUP :: i32 where [simp]: "RIL_REQUEST_HANGUP = 12"
definition RIL_REQUEST_HANGUP_WAITING_OR_BACKGROUND :: i32 where [simp]: "RIL_REQUEST_HANGUP_WAITING_OR_BACKGROUND = 13"
definition RIL_REQUEST_HANGUP_FOREGROUND_RESUME_BACKGROUND :: i32 where [simp]: "RIL_REQUEST_HANGUP_FOREGROUND_RESUME_BACKGROUND = 14"
definition RIL_REQUEST_SWITCH_WAITING_OR_HOLDING_AND_ACTIVE :: i32 where [simp]: "RIL_REQUEST_SWITCH_WAITING_OR_HOLDING_AND_ACTIVE = 15"
definition RIL_REQUEST_SWITCH_HOLDING_AND_ACTIVE :: i32 where [simp]: "RIL_REQUEST_SWITCH_HOLDING_AND_ACTIVE = 15"
definition RIL_REQUEST_CONFERENCE :: i32 where [simp]: "RIL_REQUEST_CONFERENCE = 16"
definition RIL_REQUEST_UDUB :: i32 where [simp]: "RIL_REQUEST_UDUB = 17"
definition RIL_REQUEST_LAST_CALL_FAIL_CAUSE :: i32 where [simp]: "RIL_REQUEST_LAST_CALL_FAIL_CAUSE = 18"
definition RIL_REQUEST_SIGNAL_STRENGTH :: i32 where [simp]: "RIL_REQUEST_SIGNAL_STRENGTH = 19"
definition RIL_REQUEST_REGISTRATION_STATE :: i32 where [simp]: "RIL_REQUEST_REGISTRATION_STATE = 20"
definition RIL_REQUEST_GPRS_REGISTRATION_STATE :: i32 where [simp]: "RIL_REQUEST_GPRS_REGISTRATION_STATE = 21"
definition RIL_REQUEST_OPERATOR :: i32 where [simp]: "RIL_REQUEST_OPERATOR = 22"
definition RIL_REQUEST_RADIO_POWER :: i32 where [simp]: "RIL_REQUEST_RADIO_POWER = 23"
definition RIL_REQUEST_DTMF :: i32 where [simp]: "RIL_REQUEST_DTMF = 24"
definition RIL_REQUEST_SEND_SMS :: i32 where [simp]: "RIL_REQUEST_SEND_SMS = 25"
definition RIL_REQUEST_SEND_SMS_EXPECT_MORE :: i32 where [simp]: "RIL_REQUEST_SEND_SMS_EXPECT_MORE = 26"
definition RIL_REQUEST_SETUP_DATA_CALL :: i32 where [simp]: "RIL_REQUEST_SETUP_DATA_CALL = 27"
definition RIL_REQUEST_SIM_IO :: i32 where [simp]: "RIL_REQUEST_SIM_IO = 28"
definition RIL_REQUEST_SEND_USSD :: i32 where [simp]: "RIL_REQUEST_SEND_USSD = 29"
definition RIL_REQUEST_CANCEL_USSD :: i32 where [simp]: "RIL_REQUEST_CANCEL_USSD = 30"
definition RIL_REQUEST_GET_CLIR :: i32 where [simp]: "RIL_REQUEST_GET_CLIR = 31"
definition RIL_REQUEST_SET_CLIR :: i32 where [simp]: "RIL_REQUEST_SET_CLIR = 32"
definition RIL_REQUEST_QUERY_CALL_FORWARD_STATUS :: i32 where [simp]: "RIL_REQUEST_QUERY_CALL_FORWARD_STATUS = 33"
definition RIL_REQUEST_SET_CALL_FORWARD :: i32 where [simp]: "RIL_REQUEST_SET_CALL_FORWARD = 34"
definition RIL_REQUEST_QUERY_CALL_WAITING :: i32 where [simp]: "RIL_REQUEST_QUERY_CALL_WAITING = 35"
definition RIL_REQUEST_SET_CALL_WAITING :: i32 where [simp]: "RIL_REQUEST_SET_CALL_WAITING = 36"
definition RIL_REQUEST_SMS_ACKNOWLEDGE :: i32 where [simp]: "RIL_REQUEST_SMS_ACKNOWLEDGE = 37"
definition RIL_REQUEST_GET_IMEI :: i32 where [simp]: "RIL_REQUEST_GET_IMEI = 38"
definition RIL_REQUEST_GET_IMEISV :: i32 where [simp]: "RIL_REQUEST_GET_IMEISV = 39"
definition RIL_REQUEST_ANSWER :: i32 where [simp]: "RIL_REQUEST_ANSWER = 40"
definition RIL_REQUEST_DEACTIVATE_DATA_CALL :: i32 where [simp]: "RIL_REQUEST_DEACTIVATE_DATA_CALL = 41"
definition RIL_REQUEST_QUERY_FACILITY_LOCK :: i32 where [simp]: "RIL_REQUEST_QUERY_FACILITY_LOCK = 42"
definition RIL_REQUEST_SET_FACILITY_LOCK :: i32 where [simp]: "RIL_REQUEST_SET_FACILITY_LOCK = 43"
definition RIL_REQUEST_CHANGE_BARRING_PASSWORD :: i32 where [simp]: "RIL_REQUEST_CHANGE_BARRING_PASSWORD = 44"
definition RIL_REQUEST_QUERY_NETWORK_SELECTION_MODE :: i32 where [simp]: "RIL_REQUEST_QUERY_NETWORK_SELECTION_MODE = 45"
definition RIL_REQUEST_SET_NETWORK_SELECTION_AUTOMATIC :: i32 where [simp]: "RIL_REQUEST_SET_NETWORK_SELECTION_AUTOMATIC = 46"
definition RIL_REQUEST_SET_NETWORK_SELECTION_MANUAL :: i32 where [simp]: "RIL_REQUEST_SET_NETWORK_SELECTION_MANUAL = 47"
definition RIL_REQUEST_QUERY_AVAILABLE_NETWORKS :: i32 where [simp]: "RIL_REQUEST_QUERY_AVAILABLE_NETWORKS = 48"
definition RIL_REQUEST_DTMF_START :: i32 where [simp]: "RIL_REQUEST_DTMF_START = 49"
definition RIL_REQUEST_DTMF_STOP :: i32 where [simp]: "RIL_REQUEST_DTMF_STOP = 50"
definition RIL_REQUEST_BASEBAND_VERSION :: i32 where [simp]: "RIL_REQUEST_BASEBAND_VERSION = 51"
definition RIL_REQUEST_SEPARATE_CONNECTION :: i32 where [simp]: "RIL_REQUEST_SEPARATE_CONNECTION = 52"
definition RIL_REQUEST_SET_MUTE :: i32 where [simp]: "RIL_REQUEST_SET_MUTE = 53"
definition RIL_REQUEST_GET_MUTE :: i32 where [simp]: "RIL_REQUEST_GET_MUTE = 54"
definition RIL_REQUEST_QUERY_CLIP :: i32 where [simp]: "RIL_REQUEST_QUERY_CLIP = 55"
definition RIL_REQUEST_LAST_DATA_CALL_FAIL_CAUSE :: i32 where [simp]: "RIL_REQUEST_LAST_DATA_CALL_FAIL_CAUSE = 56"
definition RIL_REQUEST_DATA_CALL_LIST :: i32 where [simp]: "RIL_REQUEST_DATA_CALL_LIST = 57"
definition RIL_REQUEST_RESET_RADIO :: i32 where [simp]: "RIL_REQUEST_RESET_RADIO = 58"
definition RIL_REQUEST_OEM_HOOK_RAW :: i32 where [simp]: "RIL_REQUEST_OEM_HOOK_RAW = 59"
definition RIL_REQUEST_OEM_HOOK_STRINGS :: i32 where [simp]: "RIL_REQUEST_OEM_HOOK_STRINGS = 60"
definition RIL_REQUEST_SCREEN_STATE :: i32 where [simp]: "RIL_REQUEST_SCREEN_STATE = 61"
definition RIL_REQUEST_SET_SUPP_SVC_NOTIFICATION :: i32 where [simp]: "RIL_REQUEST_SET_SUPP_SVC_NOTIFICATION = 62"
definition RIL_REQUEST_WRITE_SMS_TO_SIM :: i32 where [simp]: "RIL_REQUEST_WRITE_SMS_TO_SIM = 63"
definition RIL_REQUEST_DELETE_SMS_ON_SIM :: i32 where [simp]: "RIL_REQUEST_DELETE_SMS_ON_SIM = 64"
definition RIL_REQUEST_SET_BAND_MODE :: i32 where [simp]: "RIL_REQUEST_SET_BAND_MODE = 65"
definition RIL_REQUEST_QUERY_AVAILABLE_BAND_MODE :: i32 where [simp]: "RIL_REQUEST_QUERY_AVAILABLE_BAND_MODE = 66"
definition RIL_REQUEST_STK_GET_PROFILE :: i32 where [simp]: "RIL_REQUEST_STK_GET_PROFILE = 67"
definition RIL_REQUEST_STK_SET_PROFILE :: i32 where [simp]: "RIL_REQUEST_STK_SET_PROFILE = 68"
definition RIL_REQUEST_STK_SEND_ENVELOPE_COMMAND :: i32 where [simp]: "RIL_REQUEST_STK_SEND_ENVELOPE_COMMAND = 69"
definition RIL_REQUEST_STK_SEND_TERMINAL_RESPONSE :: i32 where [simp]: "RIL_REQUEST_STK_SEND_TERMINAL_RESPONSE = 70"
definition RIL_REQUEST_STK_HANDLE_CALL_SETUP_REQUESTED_FROM_SIM :: i32 where [simp]: "RIL_REQUEST_STK_HANDLE_CALL_SETUP_REQUESTED_FROM_SIM = 71"
definition RIL_REQUEST_EXPLICIT_CALL_TRANSFER :: i32 where [simp]: "RIL_REQUEST_EXPLICIT_CALL_TRANSFER = 72"
definition RIL_REQUEST_SET_PREFERRED_NETWORK_TYPE :: i32 where [simp]: "RIL_REQUEST_SET_PREFERRED_NETWORK_TYPE = 73"
definition RIL_REQUEST_GET_PREFERRED_NETWORK_TYPE :: i32 where [simp]: "RIL_REQUEST_GET_PREFERRED_NETWORK_TYPE = 74"
definition RIL_REQUEST_GET_NEIGHBORING_CELL_IDS :: i32 where [simp]: "RIL_REQUEST_GET_NEIGHBORING_CELL_IDS = 75"
definition RIL_REQUEST_SET_LOCATION_UPDATES :: i32 where [simp]: "RIL_REQUEST_SET_LOCATION_UPDATES = 76"
definition RIL_REQUEST_CDMA_SET_SUBSCRIPTION :: i32 where [simp]: "RIL_REQUEST_CDMA_SET_SUBSCRIPTION = 77"
definition RIL_REQUEST_CDMA_SET_ROAMING_PREFERENCE :: i32 where [simp]: "RIL_REQUEST_CDMA_SET_ROAMING_PREFERENCE = 78"
definition RIL_REQUEST_CDMA_QUERY_ROAMING_PREFERENCE :: i32 where [simp]: "RIL_REQUEST_CDMA_QUERY_ROAMING_PREFERENCE = 79"
definition RIL_REQUEST_SET_TTY_MODE :: i32 where [simp]: "RIL_REQUEST_SET_TTY_MODE = 80"
definition RIL_REQUEST_QUERY_TTY_MODE :: i32 where [simp]: "RIL_REQUEST_QUERY_TTY_MODE = 81"
definition RIL_REQUEST_CDMA_SET_PREFERRED_VOICE_PRIVACY_MODE :: i32 where [simp]: "RIL_REQUEST_CDMA_SET_PREFERRED_VOICE_PRIVACY_MODE = 82"
definition RIL_REQUEST_CDMA_QUERY_PREFERRED_VOICE_PRIVACY_MODE :: i32 where [simp]: "RIL_REQUEST_CDMA_QUERY_PREFERRED_VOICE_PRIVACY_MODE = 83"
definition RIL_REQUEST_CDMA_FLASH :: i32 where [simp]: "RIL_REQUEST_CDMA_FLASH = 84"
definition RIL_REQUEST_CDMA_BURST_DTMF :: i32 where [simp]: "RIL_REQUEST_CDMA_BURST_DTMF = 85"
definition RIL_REQUEST_CDMA_VALIDATE_AND_WRITE_AKEY :: i32 where [simp]: "RIL_REQUEST_CDMA_VALIDATE_AND_WRITE_AKEY = 86"
definition RIL_REQUEST_CDMA_SEND_SMS :: i32 where [simp]: "RIL_REQUEST_CDMA_SEND_SMS = 87"
definition RIL_REQUEST_CDMA_SMS_ACKNOWLEDGE :: i32 where [simp]: "RIL_REQUEST_CDMA_SMS_ACKNOWLEDGE = 88"
definition RIL_REQUEST_GSM_GET_BROADCAST_SMS_CONFIG :: i32 where [simp]: "RIL_REQUEST_GSM_GET_BROADCAST_SMS_CONFIG = 89"
definition RIL_REQUEST_GSM_SET_BROADCAST_SMS_CONFIG :: i32 where [simp]: "RIL_REQUEST_GSM_SET_BROADCAST_SMS_CONFIG = 90"
definition RIL_REQUEST_GSM_SMS_BROADCAST_ACTIVATION :: i32 where [simp]: "RIL_REQUEST_GSM_SMS_BROADCAST_ACTIVATION = 91"
definition RIL_REQUEST_CDMA_GET_BROADCAST_SMS_CONFIG :: i32 where [simp]: "RIL_REQUEST_CDMA_GET_BROADCAST_SMS_CONFIG = 92"
definition RIL_REQUEST_CDMA_SET_BROADCAST_SMS_CONFIG :: i32 where [simp]: "RIL_REQUEST_CDMA_SET_BROADCAST_SMS_CONFIG = 93"
definition RIL_REQUEST_CDMA_SMS_BROADCAST_ACTIVATION :: i32 where [simp]: "RIL_REQUEST_CDMA_SMS_BROADCAST_ACTIVATION = 94"
definition RIL_REQUEST_CDMA_SUBSCRIPTION :: i32 where [simp]: "RIL_REQUEST_CDMA_SUBSCRIPTION = 95"
definition RIL_REQUEST_CDMA_WRITE_SMS_TO_RUIM :: i32 where [simp]: "RIL_REQUEST_CDMA_WRITE_SMS_TO_RUIM = 96"
definition RIL_REQUEST_CDMA_DELETE_SMS_ON_RUIM :: i32 where [simp]: "RIL_REQUEST_CDMA_DELETE_SMS_ON_RUIM = 97"
definition RIL_REQUEST_DEVICE_IDENTITY :: i32 where [simp]: "RIL_REQUEST_DEVICE_IDENTITY = 98"
definition RIL_REQUEST_EXIT_EMERGENCY_CALLBACK_MODE :: i32 where [simp]: "RIL_REQUEST_EXIT_EMERGENCY_CALLBACK_MODE = 99"
definition RIL_REQUEST_GET_SMSC_ADDRESS :: i32 where [simp]: "RIL_REQUEST_GET_SMSC_ADDRESS = 100"
definition RIL_REQUEST_SET_SMSC_ADDRESS :: i32 where [simp]: "RIL_REQUEST_SET_SMSC_ADDRESS = 101"
definition RIL_REQUEST_REPORT_SMS_MEMORY_STATUS :: i32 where [simp]: "RIL_REQUEST_REPORT_SMS_MEMORY_STATUS = 102"
definition RIL_REQUEST_REPORT_STK_SERVICE_IS_RUNNING :: i32 where [simp]: "RIL_REQUEST_REPORT_STK_SERVICE_IS_RUNNING = 103"
definition RIL_REQUEST_SUPPORT_PORTS :: i32 where [simp]: "RIL_REQUEST_SUPPORT_PORTS = 104"
definition RIL_REQUEST_PSCS_BIND_STATE :: i32 where [simp]: "RIL_REQUEST_PSCS_BIND_STATE = 105"
definition RIL_REQUEST_NDIS_DIAL :: i32 where [simp]: "RIL_REQUEST_NDIS_DIAL = 106"
definition RIL_REQUEST_PDP_ADDR :: i32 where [simp]: "RIL_REQUEST_PDP_ADDR = 107"
definition RIL_REQUEST_DHCP_INFO :: i32 where [simp]: "RIL_REQUEST_DHCP_INFO = 108"
definition RIL_UNSOL_RESPONSE_BASE :: i32 where [simp]: "RIL_UNSOL_RESPONSE_BASE = 1000"
definition RIL_UNSOL_RESPONSE_RADIO_STATE_CHANGED :: i32 where [simp]: "RIL_UNSOL_RESPONSE_RADIO_STATE_CHANGED = 1000"
definition RIL_UNSOL_RESPONSE_CALL_STATE_CHANGED :: i32 where [simp]: "RIL_UNSOL_RESPONSE_CALL_STATE_CHANGED = 1001"
definition RIL_UNSOL_RESPONSE_NETWORK_STATE_CHANGED :: i32 where [simp]: "RIL_UNSOL_RESPONSE_NETWORK_STATE_CHANGED = 1002"
definition RIL_UNSOL_RESPONSE_NEW_SMS :: i32 where [simp]: "RIL_UNSOL_RESPONSE_NEW_SMS = 1003"
definition RIL_UNSOL_RESPONSE_NEW_SMS_STATUS_REPORT :: i32 where [simp]: "RIL_UNSOL_RESPONSE_NEW_SMS_STATUS_REPORT = 1004"
definition RIL_UNSOL_RESPONSE_NEW_SMS_ON_SIM :: i32 where [simp]: "RIL_UNSOL_RESPONSE_NEW_SMS_ON_SIM = 1005"
definition RIL_UNSOL_ON_USSD :: i32 where [simp]: "RIL_UNSOL_ON_USSD = 1006"
definition RIL_UNSOL_ON_USSD_REQUEST :: i32 where [simp]: "RIL_UNSOL_ON_USSD_REQUEST = 1007"
definition RIL_UNSOL_NITZ_TIME_RECEIVED :: i32 where [simp]: "RIL_UNSOL_NITZ_TIME_RECEIVED = 1008"
definition RIL_UNSOL_SIGNAL_STRENGTH :: i32 where [simp]: "RIL_UNSOL_SIGNAL_STRENGTH = 1009"
definition RIL_UNSOL_DATA_CALL_LIST_CHANGED :: i32 where [simp]: "RIL_UNSOL_DATA_CALL_LIST_CHANGED = 1010"
definition RIL_UNSOL_SUPP_SVC_NOTIFICATION :: i32 where [simp]: "RIL_UNSOL_SUPP_SVC_NOTIFICATION = 1011"
definition RIL_UNSOL_STK_SESSION_END :: i32 where [simp]: "RIL_UNSOL_STK_SESSION_END = 1012"
definition RIL_UNSOL_STK_PROACTIVE_COMMAND :: i32 where [simp]: "RIL_UNSOL_STK_PROACTIVE_COMMAND = 1013"
definition RIL_UNSOL_STK_EVENT_NOTIFY :: i32 where [simp]: "RIL_UNSOL_STK_EVENT_NOTIFY = 1014"
definition RIL_UNSOL_STK_CALL_SETUP :: i32 where [simp]: "RIL_UNSOL_STK_CALL_SETUP = 1015"
definition RIL_UNSOL_SIM_SMS_STORAGE_FULL :: i32 where [simp]: "RIL_UNSOL_SIM_SMS_STORAGE_FULL = 1016"
definition RIL_UNSOL_SIM_REFRESH :: i32 where [simp]: "RIL_UNSOL_SIM_REFRESH = 1017"
definition RIL_UNSOL_CALL_RING :: i32 where [simp]: "RIL_UNSOL_CALL_RING = 1018"
definition RIL_UNSOL_RESPONSE_SIM_STATUS_CHANGED :: i32 where [simp]: "RIL_UNSOL_RESPONSE_SIM_STATUS_CHANGED = 1019"
definition RIL_UNSOL_RESPONSE_CDMA_NEW_SMS :: i32 where [simp]: "RIL_UNSOL_RESPONSE_CDMA_NEW_SMS = 1020"
definition RIL_UNSOL_RESPONSE_NEW_BROADCAST_SMS :: i32 where [simp]: "RIL_UNSOL_RESPONSE_NEW_BROADCAST_SMS = 1021"
definition RIL_UNSOL_CDMA_RUIM_SMS_STORAGE_FULL :: i32 where [simp]: "RIL_UNSOL_CDMA_RUIM_SMS_STORAGE_FULL = 1022"
definition RIL_UNSOL_RESTRICTED_STATE_CHANGED :: i32 where [simp]: "RIL_UNSOL_RESTRICTED_STATE_CHANGED = 1023"
definition RIL_UNSOL_ENTER_EMERGENCY_CALLBACK_MODE :: i32 where [simp]: "RIL_UNSOL_ENTER_EMERGENCY_CALLBACK_MODE = 1024"
definition RIL_UNSOL_CDMA_CALL_WAITING :: i32 where [simp]: "RIL_UNSOL_CDMA_CALL_WAITING = 1025"
definition RIL_UNSOL_CDMA_OTA_PROVISION_STATUS :: i32 where [simp]: "RIL_UNSOL_CDMA_OTA_PROVISION_STATUS = 1026"
definition RIL_UNSOL_CDMA_INFO_REC :: i32 where [simp]: "RIL_UNSOL_CDMA_INFO_REC = 1027"
definition RIL_UNSOL_OEM_HOOK_RAW :: i32 where [simp]: "RIL_UNSOL_OEM_HOOK_RAW = 1028"
definition RIL_UNSOL_RINGBACK_TONE :: i32 where [simp]: "RIL_UNSOL_RINGBACK_TONE = 1029"
definition RIL_UNSOL_RESEND_INCALL_MUTE :: i32 where [simp]: "RIL_UNSOL_RESEND_INCALL_MUTE = 1030"
definition RIL_UNSOL_NDIS_DIAL :: i32 where [simp]: "RIL_UNSOL_NDIS_DIAL = 1031"

section \<open>The tables\<close>

text \<open>The functions the tables point to, in the order \<open>ril.cpp\<close> declares them.\<close>

datatype dispatch_fn =
    DispatchVoid | DispatchString | DispatchStrings | DispatchInts | DispatchDial
  | DispatchSIM_IO | DispatchCallForward | DispatchRaw | DispatchSmsWrite | DispatchCdmaSms
  | DispatchCdmaSmsAck | DispatchGsmBrSmsCnf | DispatchCdmaBrSmsCnf
  | DispatchRilCdmaSmsWriteArgs

datatype response_fn =
    ResponseInts | ResponseStrings | ResponseString | ResponseVoid | ResponseCallList
  | ResponseSMS | ResponseSIM_IO | ResponseCallForwards | ResponseDataCallList | ResponseRaw
  | ResponseSsn | ResponseSimStatus | ResponseGsmBrSmsCnf | ResponseCdmaBrSmsCnf
  | ResponseCdmaSms | ResponseCellList | ResponseCdmaInformationRecords
  | ResponseRilSignalStrength | ResponseCallRing | ResponseCdmaSignalInfoRecord
  | ResponseCdmaCallWaiting

datatype WakeType = DONT_WAKE | WAKE_PARTIAL

text \<open>A null function pointer is \<open>None\<close>.\<close>

record CommandInfo =
  requestNumber :: i32
  dispatchFunction :: "dispatch_fn option"
  responseFunction :: "response_fn option"

record UnsolResponseInfo =
  unsolNumber :: i32
  unsolFunction :: response_fn
  wakeType :: WakeType

abbreviation command :: "i32 \<Rightarrow> dispatch_fn \<Rightarrow> response_fn \<Rightarrow> CommandInfo" where
  "command r d f \<equiv> \<lparr>requestNumber = r, dispatchFunction = Some d, responseFunction = Some f\<rparr>"

abbreviation unsol :: "i32 \<Rightarrow> response_fn \<Rightarrow> WakeType \<Rightarrow> UnsolResponseInfo" where
  "unsol r f w \<equiv> \<lparr>unsolNumber = r, unsolFunction = f, wakeType = w\<rparr>"

text \<open>\<open>ril_commands.h\<close>\<close>

definition s_commands :: "CommandInfo list" where
  "s_commands = [
    \<lparr>requestNumber = 0, dispatchFunction = None, responseFunction = None\<rparr>,
    command RIL_REQUEST_GET_SIM_STATUS DispatchVoid ResponseSimStatus,
    command RIL_REQUEST_ENTER_SIM_PIN DispatchStrings ResponseInts,
    command RIL_REQUEST_ENTER_SIM_PUK DispatchStrings ResponseInts,
    command RIL_REQUEST_ENTER_SIM_PIN2 DispatchStrings ResponseInts,
    command RIL_REQUEST_ENTER_SIM_PUK2 DispatchStrings ResponseInts,
    command RIL_REQUEST_CHANGE_SIM_PIN DispatchStrings ResponseInts,
    command RIL_REQUEST_CHANGE_SIM_PIN2 DispatchStrings ResponseInts,
    command RIL_REQUEST_ENTER_NETWORK_DEPERSONALIZATION DispatchStrings ResponseInts,
    command RIL_REQUEST_GET_CURRENT_CALLS DispatchVoid ResponseCallList,
    command RIL_REQUEST_DIAL DispatchDial ResponseVoid,
    command RIL_REQUEST_GET_IMSI DispatchVoid ResponseString,
    command RIL_REQUEST_HANGUP DispatchInts ResponseVoid,
    command RIL_REQUEST_HANGUP_WAITING_OR_BACKGROUND DispatchVoid ResponseVoid,
    command RIL_REQUEST_HANGUP_FOREGROUND_RESUME_BACKGROUND DispatchVoid ResponseVoid,
    command RIL_REQUEST_SWITCH_WAITING_OR_HOLDING_AND_ACTIVE DispatchVoid ResponseVoid,
    command RIL_REQUEST_CONFERENCE DispatchVoid ResponseVoid,
    command RIL_REQUEST_UDUB DispatchVoid ResponseVoid,
    command RIL_REQUEST_LAST_CALL_FAIL_CAUSE DispatchVoid ResponseInts,
    command RIL_REQUEST_SIGNAL_STRENGTH DispatchVoid ResponseRilSignalStrength,
    command RIL_REQUEST_REGISTRATION_STATE DispatchVoid ResponseStrings,
    command RIL_REQUEST_GPRS_REGISTRATION_STATE DispatchVoid ResponseStrings,
    command RIL_REQUEST_OPERATOR DispatchVoid ResponseStrings,
    command RIL_REQUEST_RADIO_POWER DispatchInts ResponseVoid,
    command RIL_REQUEST_DTMF DispatchString ResponseVoid,
    command RIL_REQUEST_SEND_SMS DispatchStrings ResponseSMS,
    command RIL_REQUEST_SEND_SMS_EXPECT_MORE DispatchStrings ResponseSMS,
    command RIL_REQUEST_SETUP_DATA_CALL DispatchStrings ResponseStrings,
    command RIL_REQUEST_SIM_IO DispatchSIM_IO ResponseSIM_IO,
    command RIL_REQUEST_SEND_USSD DispatchString ResponseVoid,
    command RIL_REQUEST_CANCEL_USSD DispatchVoid ResponseVoid,
    command RIL_REQUEST_GET_CLIR DispatchVoid ResponseInts,
    command RIL_REQUEST_SET_CLIR DispatchInts ResponseVoid,
    command RIL_REQUEST_QUERY_CALL_FORWARD_STATUS DispatchCallForward ResponseCallForwards,
    command RIL_REQUEST_SET_CALL_FORWARD DispatchCallForward ResponseVoid,
    command RIL_REQUEST_QUERY_CALL_WAITING DispatchInts ResponseInts,
    command RIL_REQUEST_SET_CALL_WAITING DispatchInts ResponseVoid,
    command RIL_REQUEST_SMS_ACKNOWLEDGE DispatchInts ResponseVoid,
    command RIL_REQUEST_GET_IMEI DispatchVoid ResponseString,
    command RIL_REQUEST_GET_IMEISV DispatchVoid ResponseString,
    command RIL_REQUEST_ANSWER DispatchVoid ResponseVoid,
    command RIL_REQUEST_DEACTIVATE_DATA_CALL DispatchStrings ResponseVoid,
    command RIL_REQUEST_QUERY_FACILITY_LOCK DispatchStrings ResponseInts,
    command RIL_REQUEST_SET_FACILITY_LOCK DispatchStrings ResponseInts,
    command RIL_REQUEST_CHANGE_BARRING_PASSWORD DispatchStrings ResponseVoid,
    command RIL_REQUEST_QUERY_NETWORK_SELECTION_MODE DispatchVoid ResponseInts,
    command RIL_REQUEST_SET_NETWORK_SELECTION_AUTOMATIC DispatchVoid ResponseVoid,
    command RIL_REQUEST_SET_NETWORK_SELECTION_MANUAL DispatchString ResponseVoid,
    command RIL_REQUEST_QUERY_AVAILABLE_NETWORKS DispatchVoid ResponseStrings,
    command RIL_REQUEST_DTMF_START DispatchString ResponseVoid,
    command RIL_REQUEST_DTMF_STOP DispatchVoid ResponseVoid,
    command RIL_REQUEST_BASEBAND_VERSION DispatchVoid ResponseString,
    command RIL_REQUEST_SEPARATE_CONNECTION DispatchInts ResponseVoid,
    command RIL_REQUEST_SET_MUTE DispatchInts ResponseVoid,
    command RIL_REQUEST_GET_MUTE DispatchVoid ResponseInts,
    command RIL_REQUEST_QUERY_CLIP DispatchVoid ResponseInts,
    command RIL_REQUEST_LAST_DATA_CALL_FAIL_CAUSE DispatchVoid ResponseInts,
    command RIL_REQUEST_DATA_CALL_LIST DispatchVoid ResponseDataCallList,
    command RIL_REQUEST_RESET_RADIO DispatchVoid ResponseVoid,
    command RIL_REQUEST_OEM_HOOK_RAW DispatchRaw ResponseRaw,
    command RIL_REQUEST_OEM_HOOK_STRINGS DispatchStrings ResponseStrings,
    command RIL_REQUEST_SCREEN_STATE DispatchInts ResponseVoid,
    command RIL_REQUEST_SET_SUPP_SVC_NOTIFICATION DispatchInts ResponseVoid,
    command RIL_REQUEST_WRITE_SMS_TO_SIM DispatchSmsWrite ResponseInts,
    command RIL_REQUEST_DELETE_SMS_ON_SIM DispatchInts ResponseVoid,
    command RIL_REQUEST_SET_BAND_MODE DispatchInts ResponseVoid,
    command RIL_REQUEST_QUERY_AVAILABLE_BAND_MODE DispatchVoid ResponseInts,
    command RIL_REQUEST_STK_GET_PROFILE DispatchVoid ResponseString,
    command RIL_REQUEST_STK_SET_PROFILE DispatchString ResponseVoid,
    command RIL_REQUEST_STK_SEND_ENVELOPE_COMMAND DispatchString ResponseString,
    command RIL_REQUEST_STK_SEND_TERMINAL_RESPONSE DispatchString ResponseVoid,
    command RIL_REQUEST_STK_HANDLE_CALL_SETUP_REQUESTED_FROM_SIM DispatchInts ResponseVoid,
    command RIL_REQUEST_EXPLICIT_CALL_TRANSFER DispatchVoid ResponseVoid,
    command RIL_REQUEST_SET_PREFERRED_NETWORK_TYPE DispatchInts ResponseVoid,
    command RIL_REQUEST_GET_PREFERRED_NETWORK_TYPE DispatchVoid ResponseInts,
    command RIL_REQUEST_GET_NEIGHBORING_CELL_IDS DispatchVoid ResponseCellList,
    command RIL_REQUEST_SET_LOCATION_UPDATES DispatchInts ResponseVoid,
    command RIL_REQUEST_CDMA_SET_SUBSCRIPTION DispatchInts ResponseVoid,
    command RIL_REQUEST_CDMA_SET_ROAMING_PREFERENCE DispatchInts ResponseVoid,
    command RIL_REQUEST_CDMA_QUERY_ROAMING_PREFERENCE DispatchVoid ResponseInts,
    command RIL_REQUEST_SET_TTY_MODE DispatchInts ResponseVoid,
    command RIL_REQUEST_QUERY_TTY_MODE DispatchVoid ResponseInts,
    command RIL_REQUEST_CDMA_SET_PREFERRED_VOICE_PRIVACY_MODE DispatchInts ResponseVoid,
    command RIL_REQUEST_CDMA_QUERY_PREFERRED_VOICE_PRIVACY_MODE DispatchVoid ResponseInts,
    command RIL_REQUEST_CDMA_FLASH DispatchString ResponseVoid,
    command RIL_REQUEST_CDMA_BURST_DTMF DispatchStrings ResponseVoid,
    command RIL_REQUEST_CDMA_VALIDATE_AND_WRITE_AKEY DispatchString ResponseVoid,
    command RIL_REQUEST_CDMA_SEND_SMS DispatchCdmaSms ResponseSMS,
    command RIL_REQUEST_CDMA_SMS_ACKNOWLEDGE DispatchCdmaSmsAck ResponseVoid,
    command RIL_REQUEST_GSM_GET_BROADCAST_SMS_CONFIG DispatchVoid ResponseGsmBrSmsCnf,
    command RIL_REQUEST_GSM_SET_BROADCAST_SMS_CONFIG DispatchGsmBrSmsCnf ResponseVoid,
    command RIL_REQUEST_GSM_SMS_BROADCAST_ACTIVATION DispatchInts ResponseVoid,
    command RIL_REQUEST_CDMA_GET_BROADCAST_SMS_CONFIG DispatchVoid ResponseCdmaBrSmsCnf,
    command RIL_REQUEST_CDMA_SET_BROADCAST_SMS_CONFIG DispatchCdmaBrSmsCnf ResponseVoid,
    command RIL_REQUEST_CDMA_SMS_BROADCAST_ACTIVATION DispatchInts ResponseVoid,
    command RIL_REQUEST_CDMA_SUBSCRIPTION DispatchVoid ResponseStrings,
    command RIL_REQUEST_CDMA_WRITE_SMS_TO_RUIM DispatchRilCdmaSmsWriteArgs ResponseInts,
    command RIL_REQUEST_CDMA_DELETE_SMS_ON_RUIM DispatchInts ResponseVoid,
    command RIL_REQUEST_DEVICE_IDENTITY DispatchVoid ResponseStrings,
    command RIL_REQUEST_EXIT_EMERGENCY_CALLBACK_MODE DispatchVoid ResponseVoid,
    command RIL_REQUEST_GET_SMSC_ADDRESS DispatchVoid ResponseString,
    command RIL_REQUEST_SET_SMSC_ADDRESS DispatchString ResponseVoid,
    command RIL_REQUEST_REPORT_SMS_MEMORY_STATUS DispatchInts ResponseVoid,
    command RIL_REQUEST_REPORT_STK_SERVICE_IS_RUNNING DispatchVoid ResponseVoid,
    command RIL_REQUEST_SUPPORT_PORTS DispatchStrings ResponseStrings,
    command RIL_REQUEST_PSCS_BIND_STATE DispatchStrings ResponseStrings,
    command RIL_REQUEST_NDIS_DIAL DispatchStrings ResponseVoid,
    command RIL_REQUEST_PDP_ADDR DispatchStrings ResponseStrings,
    command RIL_REQUEST_DHCP_INFO DispatchStrings ResponseStrings]"

text \<open>\<open>ril_unsol_commands.h\<close>\<close>

definition s_unsolResponses :: "UnsolResponseInfo list" where
  "s_unsolResponses = [
    unsol RIL_UNSOL_RESPONSE_RADIO_STATE_CHANGED ResponseVoid WAKE_PARTIAL,
    unsol RIL_UNSOL_RESPONSE_CALL_STATE_CHANGED ResponseVoid WAKE_PARTIAL,
    unsol RIL_UNSOL_RESPONSE_NETWORK_STATE_CHANGED ResponseVoid WAKE_PARTIAL,
    unsol RIL_UNSOL_RESPONSE_NEW_SMS ResponseString WAKE_PARTIAL,
    unsol RIL_UNSOL_RESPONSE_NEW_SMS_STATUS_REPORT ResponseString WAKE_PARTIAL,
    unsol RIL_UNSOL_RESPONSE_NEW_SMS_ON_SIM ResponseInts WAKE_PARTIAL,
    unsol RIL_UNSOL_ON_USSD ResponseStrings WAKE_PARTIAL,
    unsol RIL_UNSOL_ON_USSD_REQUEST ResponseVoid DONT_WAKE,
    unsol RIL_UNSOL_NITZ_TIME_RECEIVED ResponseString WAKE_PARTIAL,
    unsol RIL_UNSOL_SIGNAL_STRENGTH ResponseRilSignalStrength DONT_WAKE,
    unsol RIL_UNSOL_DATA_CALL_LIST_CHANGED ResponseDataCallList WAKE_PARTIAL,
    unsol RIL_UNSOL_SUPP_SVC_NOTIFICATION ResponseSsn WAKE_PARTIAL,
    unsol RIL_UNSOL_STK_SESSION_END ResponseVoid WAKE_PARTIAL,
    unsol RIL_UNSOL_STK_PROACTIVE_COMMAND ResponseString WAKE_PARTIAL,
    unsol RIL_UNSOL_STK_EVENT_NOTIFY ResponseString WAKE_PARTIAL,
    unsol RIL_UNSOL_STK_CALL_SETUP ResponseInts WAKE_PARTIAL,
    unsol RIL_UNSOL_SIM_SMS_STORAGE_FULL ResponseVoid WAKE_PARTIAL,
    unsol RIL_UNSOL_SIM_REFRESH ResponseInts WAKE_PARTIAL,
    unsol RIL_UNSOL_CALL_RING ResponseCallRing WAKE_PARTIAL,
    unsol RIL_UNSOL_RESPONSE_SIM_STATUS_CHANGED ResponseVoid WAKE_PARTIAL,
    unsol RIL_UNSOL_RESPONSE_CDMA_NEW_SMS ResponseCdmaSms WAKE_PARTIAL,
    unsol RIL_UNSOL_RESPONSE_NEW_BROADCAST_SMS ResponseString WAKE_PARTIAL,
    unsol RIL_UNSOL_CDMA_RUIM_SMS_STORAGE_FULL ResponseVoid WAKE_PARTIAL,
    unsol RIL_UNSOL_RESTRICTED_STATE_CHANGED ResponseInts WAKE_PARTIAL,
    unsol RIL_UNSOL_ENTER_EMERGENCY_CALLBACK_MODE ResponseVoid WAKE_PARTIAL,
    unsol RIL_UNSOL_CDMA_CALL_WAITING ResponseCdmaCallWaiting WAKE_PARTIAL,
    unsol RIL_UNSOL_CDMA_OTA_PROVISION_STATUS ResponseInts WAKE_PARTIAL,
    unsol RIL_UNSOL_CDMA_INFO_REC ResponseCdmaInformationRecords WAKE_PARTIAL,
    unsol RIL_UNSOL_OEM_HOOK_RAW ResponseRaw WAKE_PARTIAL,
    unsol RIL_UNSOL_RINGBACK_TONE ResponseInts WAKE_PARTIAL,
    unsol RIL_UNSOL_RESEND_INCALL_MUTE ResponseVoid WAKE_PARTIAL,
    unsol RIL_UNSOL_NDIS_DIAL ResponseStrings DONT_WAKE]"

section \<open>Names in the log\<close>

text \<open>A \<open>switch\<close> over the codes is a list of its cases; what no case names gets the default.\<close>

definition request_names :: "(i32 \<times> string) list" where
  "request_names = [
    (RIL_REQUEST_GET_SIM_STATUS, ''GET_SIM_STATUS''),
    (RIL_REQUEST_ENTER_SIM_PIN, ''ENTER_SIM_PIN''),
    (RIL_REQUEST_ENTER_SIM_PUK, ''ENTER_SIM_PUK''),
    (RIL_REQUEST_ENTER_SIM_PIN2, ''ENTER_SIM_PIN2''),
    (RIL_REQUEST_ENTER_SIM_PUK2, ''ENTER_SIM_PUK2''),
    (RIL_REQUEST_CHANGE_SIM_PIN, ''CHANGE_SIM_PIN''),
    (RIL_REQUEST_CHANGE_SIM_PIN2, ''CHANGE_SIM_PIN2''),
    (RIL_REQUEST_ENTER_NETWORK_DEPERSONALIZATION, ''ENTER_NETWORK_DEPERSONALIZATION''),
    (RIL_REQUEST_GET_CURRENT_CALLS, ''GET_CURRENT_CALLS''),
    (RIL_REQUEST_DIAL, ''DIAL''),
    (RIL_REQUEST_GET_IMSI, ''GET_IMSI''),
    (RIL_REQUEST_HANGUP, ''HANGUP''),
    (RIL_REQUEST_HANGUP_WAITING_OR_BACKGROUND, ''HANGUP_WAITING_OR_BACKGROUND''),
    (RIL_REQUEST_HANGUP_FOREGROUND_RESUME_BACKGROUND, ''HANGUP_FOREGROUND_RESUME_BACKGROUND''),
    (RIL_REQUEST_SWITCH_WAITING_OR_HOLDING_AND_ACTIVE, ''SWITCH_WAITING_OR_HOLDING_AND_ACTIVE''),
    (RIL_REQUEST_CONFERENCE, ''CONFERENCE''),
    (RIL_REQUEST_UDUB, ''UDUB''),
    (RIL_REQUEST_LAST_CALL_FAIL_CAUSE, ''LAST_CALL_FAIL_CAUSE''),
    (RIL_REQUEST_SIGNAL_STRENGTH, ''SIGNAL_STRENGTH''),
    (RIL_REQUEST_REGISTRATION_STATE, ''REGISTRATION_STATE''),
    (RIL_REQUEST_GPRS_REGISTRATION_STATE, ''GPRS_REGISTRATION_STATE''),
    (RIL_REQUEST_OPERATOR, ''OPERATOR''),
    (RIL_REQUEST_RADIO_POWER, ''RADIO_POWER''),
    (RIL_REQUEST_DTMF, ''DTMF''),
    (RIL_REQUEST_SEND_SMS, ''SEND_SMS''),
    (RIL_REQUEST_SEND_SMS_EXPECT_MORE, ''SEND_SMS_EXPECT_MORE''),
    (RIL_REQUEST_SETUP_DATA_CALL, ''SETUP_DATA_CALL''),
    (RIL_REQUEST_SIM_IO, ''SIM_IO''),
    (RIL_REQUEST_SEND_USSD, ''SEND_USSD''),
    (RIL_REQUEST_CANCEL_USSD, ''CANCEL_USSD''),
    (RIL_REQUEST_GET_CLIR, ''GET_CLIR''),
    (RIL_REQUEST_SET_CLIR, ''SET_CLIR''),
    (RIL_REQUEST_QUERY_CALL_FORWARD_STATUS, ''QUERY_CALL_FORWARD_STATUS''),
    (RIL_REQUEST_SET_CALL_FORWARD, ''SET_CALL_FORWARD''),
    (RIL_REQUEST_QUERY_CALL_WAITING, ''QUERY_CALL_WAITING''),
    (RIL_REQUEST_SET_CALL_WAITING, ''SET_CALL_WAITING''),
    (RIL_REQUEST_SMS_ACKNOWLEDGE, ''SMS_ACKNOWLEDGE''),
    (RIL_REQUEST_GET_IMEI, ''GET_IMEI''),
    (RIL_REQUEST_GET_IMEISV, ''GET_IMEISV''),
    (RIL_REQUEST_ANSWER, ''ANSWER''),
    (RIL_REQUEST_DEACTIVATE_DATA_CALL, ''DEACTIVATE_DATA_CALL''),
    (RIL_REQUEST_QUERY_FACILITY_LOCK, ''QUERY_FACILITY_LOCK''),
    (RIL_REQUEST_SET_FACILITY_LOCK, ''SET_FACILITY_LOCK''),
    (RIL_REQUEST_CHANGE_BARRING_PASSWORD, ''CHANGE_BARRING_PASSWORD''),
    (RIL_REQUEST_QUERY_NETWORK_SELECTION_MODE, ''QUERY_NETWORK_SELECTION_MODE''),
    (RIL_REQUEST_SET_NETWORK_SELECTION_AUTOMATIC, ''SET_NETWORK_SELECTION_AUTOMATIC''),
    (RIL_REQUEST_SET_NETWORK_SELECTION_MANUAL, ''SET_NETWORK_SELECTION_MANUAL''),
    (RIL_REQUEST_QUERY_AVAILABLE_NETWORKS, ''QUERY_AVAILABLE_NETWORKS ''),
    (RIL_REQUEST_DTMF_START, ''DTMF_START''),
    (RIL_REQUEST_DTMF_STOP, ''DTMF_STOP''),
    (RIL_REQUEST_BASEBAND_VERSION, ''BASEBAND_VERSION''),
    (RIL_REQUEST_SEPARATE_CONNECTION, ''SEPARATE_CONNECTION''),
    (RIL_REQUEST_SET_PREFERRED_NETWORK_TYPE, ''SET_PREFERRED_NETWORK_TYPE''),
    (RIL_REQUEST_GET_PREFERRED_NETWORK_TYPE, ''GET_PREFERRED_NETWORK_TYPE''),
    (RIL_REQUEST_GET_NEIGHBORING_CELL_IDS, ''GET_NEIGHBORING_CELL_IDS''),
    (RIL_REQUEST_SET_MUTE, ''SET_MUTE''),
    (RIL_REQUEST_GET_MUTE, ''GET_MUTE''),
    (RIL_REQUEST_QUERY_CLIP, ''QUERY_CLIP''),
    (RIL_REQUEST_LAST_DATA_CALL_FAIL_CAUSE, ''LAST_DATA_CALL_FAIL_CAUSE''),
    (RIL_REQUEST_DATA_CALL_LIST, ''DATA_CALL_LIST''),
    (RIL_REQUEST_RESET_RADIO, ''RESET_RADIO''),
    (RIL_REQUEST_OEM_HOOK_RAW, ''OEM_HOOK_RAW''),
    (RIL_REQUEST_OEM_HOOK_STRINGS, ''OEM_HOOK_STRINGS''),
    (RIL_REQUEST_SET_BAND_MODE, ''SET_BAND_MODE''),
    (RIL_REQUEST_QUERY_AVAILABLE_BAND_MODE, ''QUERY_AVAILABLE_BAND_MODE''),
    (RIL_REQUEST_STK_GET_PROFILE, ''STK_GET_PROFILE''),
    (RIL_REQUEST_STK_SET_PROFILE, ''STK_SET_PROFILE''),
    (RIL_REQUEST_STK_SEND_ENVELOPE_COMMAND, ''STK_SEND_ENVELOPE_COMMAND''),
    (RIL_REQUEST_STK_SEND_TERMINAL_RESPONSE, ''STK_SEND_TERMINAL_RESPONSE''),
    (RIL_REQUEST_STK_HANDLE_CALL_SETUP_REQUESTED_FROM_SIM, ''STK_HANDLE_CALL_SETUP_REQUESTED_FROM_SIM''),
    (RIL_REQUEST_SCREEN_STATE, ''SCREEN_STATE''),
    (RIL_REQUEST_EXPLICIT_CALL_TRANSFER, ''EXPLICIT_CALL_TRANSFER''),
    (RIL_REQUEST_SET_LOCATION_UPDATES, ''SET_LOCATION_UPDATES''),
    (RIL_REQUEST_CDMA_SET_SUBSCRIPTION, ''CDMA_SET_SUBSCRIPTION''),
    (RIL_REQUEST_CDMA_SET_ROAMING_PREFERENCE, ''CDMA_SET_ROAMING_PREFERENCE''),
    (RIL_REQUEST_CDMA_QUERY_ROAMING_PREFERENCE, ''CDMA_QUERY_ROAMING_PREFERENCE''),
    (RIL_REQUEST_SET_TTY_MODE, ''SET_TTY_MODE''),
    (RIL_REQUEST_QUERY_TTY_MODE, ''QUERY_TTY_MODE''),
    (RIL_REQUEST_CDMA_SET_PREFERRED_VOICE_PRIVACY_MODE, ''CDMA_SET_PREFERRED_VOICE_PRIVACY_MODE''),
    (RIL_REQUEST_CDMA_QUERY_PREFERRED_VOICE_PRIVACY_MODE, ''CDMA_QUERY_PREFERRED_VOICE_PRIVACY_MODE''),
    (RIL_REQUEST_CDMA_FLASH, ''CDMA_FLASH''),
    (RIL_REQUEST_CDMA_BURST_DTMF, ''CDMA_BURST_DTMF''),
    (RIL_REQUEST_CDMA_SEND_SMS, ''CDMA_SEND_SMS''),
    (RIL_REQUEST_CDMA_SMS_ACKNOWLEDGE, ''CDMA_SMS_ACKNOWLEDGE''),
    (RIL_REQUEST_GSM_GET_BROADCAST_SMS_CONFIG, ''GSM_GET_BROADCAST_SMS_CONFIG''),
    (RIL_REQUEST_GSM_SET_BROADCAST_SMS_CONFIG, ''GSM_SET_BROADCAST_SMS_CONFIG''),
    (RIL_REQUEST_CDMA_GET_BROADCAST_SMS_CONFIG, ''CDMA_GET_BROADCAST_SMS_CONFIG''),
    (RIL_REQUEST_CDMA_SET_BROADCAST_SMS_CONFIG, ''CDMA_SET_BROADCAST_SMS_CONFIG''),
    (RIL_REQUEST_CDMA_SMS_BROADCAST_ACTIVATION, ''CDMA_SMS_BROADCAST_ACTIVATION''),
    (RIL_REQUEST_CDMA_VALIDATE_AND_WRITE_AKEY, ''CDMA_VALIDATE_AND_WRITE_AKEY''),
    (RIL_REQUEST_CDMA_SUBSCRIPTION, ''CDMA_SUBSCRIPTION''),
    (RIL_REQUEST_CDMA_WRITE_SMS_TO_RUIM, ''CDMA_WRITE_SMS_TO_RUIM''),
    (RIL_REQUEST_CDMA_DELETE_SMS_ON_RUIM, ''CDMA_DELETE_SMS_ON_RUIM''),
    (RIL_REQUEST_DEVICE_IDENTITY, ''DEVICE_IDENTITY''),
    (RIL_REQUEST_EXIT_EMERGENCY_CALLBACK_MODE, ''EXIT_EMERGENCY_CALLBACK_MODE''),
    (RIL_REQUEST_GET_SMSC_ADDRESS, ''GET_SMSC_ADDRESS''),
    (RIL_REQUEST_SET_SMSC_ADDRESS, ''SET_SMSC_ADDRESS''),
    (RIL_REQUEST_REPORT_SMS_MEMORY_STATUS, ''REPORT_SMS_MEMORY_STATUS''),
    (RIL_REQUEST_REPORT_STK_SERVICE_IS_RUNNING, ''REPORT_STK_SERVICE_IS_RUNNING''),
    (RIL_REQUEST_SUPPORT_PORTS, ''RIL_REQUEST_SUPPORT_PORTS''),
    (RIL_REQUEST_PSCS_BIND_STATE, ''RIL_REQUEST_PSCS_BIND_STATE''),
    (RIL_REQUEST_NDIS_DIAL, ''RIL_REQUEST_NDIS_DIAL''),
    (RIL_REQUEST_PDP_ADDR, ''RIL_REQUEST_PDP_ADDR''),
    (RIL_REQUEST_DHCP_INFO, ''RIL_REQUEST_DHCP_INFO''),
    (RIL_UNSOL_RESPONSE_RADIO_STATE_CHANGED, ''UNSOL_RESPONSE_RADIO_STATE_CHANGED''),
    (RIL_UNSOL_RESPONSE_CALL_STATE_CHANGED, ''UNSOL_RESPONSE_CALL_STATE_CHANGED''),
    (RIL_UNSOL_RESPONSE_NETWORK_STATE_CHANGED, ''UNSOL_RESPONSE_NETWORK_STATE_CHANGED''),
    (RIL_UNSOL_RESPONSE_NEW_SMS, ''UNSOL_RESPONSE_NEW_SMS''),
    (RIL_UNSOL_RESPONSE_NEW_SMS_STATUS_REPORT, ''UNSOL_RESPONSE_NEW_SMS_STATUS_REPORT''),
    (RIL_UNSOL_RESPONSE_NEW_SMS_ON_SIM, ''UNSOL_RESPONSE_NEW_SMS_ON_SIM''),
    (RIL_UNSOL_ON_USSD, ''UNSOL_ON_USSD''),
    (RIL_UNSOL_ON_USSD_REQUEST, ''UNSOL_ON_USSD_REQUEST(obsolete)''),
    (RIL_UNSOL_NITZ_TIME_RECEIVED, ''UNSOL_NITZ_TIME_RECEIVED''),
    (RIL_UNSOL_SIGNAL_STRENGTH, ''UNSOL_SIGNAL_STRENGTH''),
    (RIL_UNSOL_STK_SESSION_END, ''UNSOL_STK_SESSION_END''),
    (RIL_UNSOL_STK_PROACTIVE_COMMAND, ''UNSOL_STK_PROACTIVE_COMMAND''),
    (RIL_UNSOL_STK_EVENT_NOTIFY, ''UNSOL_STK_EVENT_NOTIFY''),
    (RIL_UNSOL_STK_CALL_SETUP, ''UNSOL_STK_CALL_SETUP''),
    (RIL_UNSOL_SIM_SMS_STORAGE_FULL, ''UNSOL_SIM_SMS_STORAGE_FUL''),
    (RIL_UNSOL_SIM_REFRESH, ''UNSOL_SIM_REFRESH''),
    (RIL_UNSOL_DATA_CALL_LIST_CHANGED, ''UNSOL_DATA_CALL_LIST_CHANGED''),
    (RIL_UNSOL_CALL_RING, ''UNSOL_CALL_RING''),
    (RIL_UNSOL_RESPONSE_SIM_STATUS_CHANGED, ''UNSOL_RESPONSE_SIM_STATUS_CHANGED''),
    (RIL_UNSOL_RESPONSE_CDMA_NEW_SMS, ''UNSOL_NEW_CDMA_SMS''),
    (RIL_UNSOL_RESPONSE_NEW_BROADCAST_SMS, ''UNSOL_NEW_BROADCAST_SMS''),
    (RIL_UNSOL_CDMA_RUIM_SMS_STORAGE_FULL, ''UNSOL_CDMA_RUIM_SMS_STORAGE_FULL''),
    (RIL_UNSOL_RESTRICTED_STATE_CHANGED, ''UNSOL_RESTRICTED_STATE_CHANGED''),
    (RIL_UNSOL_ENTER_EMERGENCY_CALLBACK_MODE, ''UNSOL_ENTER_EMERGENCY_CALLBACK_MODE''),
    (RIL_UNSOL_CDMA_CALL_WAITING, ''UNSOL_CDMA_CALL_WAITING''),
    (RIL_UNSOL_CDMA_OTA_PROVISION_STATUS, ''UNSOL_CDMA_OTA_PROVISION_STATUS''),
    (RIL_UNSOL_CDMA_INFO_REC, ''UNSOL_CDMA_INFO_REC''),
    (RIL_UNSOL_OEM_HOOK_RAW, ''UNSOL_OEM_HOOK_RAW''),
    (RIL_UNSOL_RINGBACK_TONE, ''UNSOL_RINGBACK_TONE''),
    (RIL_UNSOL_RESEND_INCALL_MUTE, ''UNSOL_RESEND_INCALL_MUTE''),
    (RIL_UNSOL_NDIS_DIAL, ''RIL_UNSOL_NDIS_DIAL'')]"

definition requestToString :: "i32 \<Rightarrow> string" where
  "requestToString request =
     (case map_of request_names request of Some s \<Rightarrow> s | None \<Rightarrow> ''<unknown request>'')"

text \<open>Two cases are compiled in with \<open>FEATURE_MULTIMODE_ANDROID\<close> only, the flag \<open>multimode\<close>.\<close>

fun failCauseToString :: "bool \<Rightarrow> RIL_Errno \<Rightarrow> string" where
  "failCauseToString multimode RIL_E_SUCCESS = ''E_SUCCESS''"
| "failCauseToString multimode RIL_E_RADIO_NOT_AVAILABLE = ''E_RAIDO_NOT_AVAILABLE''"
| "failCauseToString multimode RIL_E_GENERIC_FAILURE = ''E_GENERIC_FAILURE''"
| "failCauseToString multimode RIL_E_PASSWORD_INCORRECT = ''E_PASSWORD_INCORRECT''"
| "failCauseToString multimode RIL_E_SIM_PIN2 = ''E_SIM_PIN2''"
| "failCauseToString multimode RIL_E_SIM_PUK2 = ''E_SIM_PUK2''"
| "failCauseToString multimode RIL_E_REQUEST_NOT_SUPPORTED = ''E_REQUEST_NOT_SUPPORTED''"
| "failCauseToString multimode RIL_E_CANCELLED = ''E_CANCELLED''"
| "failCauseToString multimode RIL_E_OP_NOT_ALLOWED_DURING_VOICE_CALL = ''E_OP_NOT_ALLOWED_DURING_VOICE_CALL''"
| "failCauseToString multimode RIL_E_OP_NOT_ALLOWED_BEFORE_REG_TO_NW = ''E_OP_NOT_ALLOWED_BEFORE_REG_TO_NW''"
| "failCauseToString multimode RIL_E_SMS_SEND_FAIL_RETRY = ''E_SMS_SEND_FAIL_RETRY''"
| "failCauseToString multimode RIL_E_SIM_ABSENT = ''E_SIM_ABSENT''"
| "failCauseToString multimode RIL_E_ILLEGAL_SIM_OR_ME = ''E_ILLEGAL_SIM_OR_ME''"
| "failCauseToString multimode RIL_E_SUBSCRIPTION_NOT_AVAILABLE =
     (if multimode then ''E_SUBSCRIPTION_NOT_AVAILABLE'' else ''<unknown error>'')"
| "failCauseToString multimode RIL_E_MODE_NOT_SUPPORTED =
     (if multimode then ''E_MODE_NOT_SUPPORTED'' else ''<unknown error>'')"
| "failCauseToString multimode _ = ''<unknown error>''"

fun radioStateToString :: "RIL_RadioState \<Rightarrow> string" where
  "radioStateToString RADIO_STATE_OFF = ''RADIO_OFF''"
| "radioStateToString RADIO_STATE_UNAVAILABLE = ''RADIO_UNAVAILABLE''"
| "radioStateToString RADIO_STATE_SIM_NOT_READY = ''RADIO_SIM_NOT_READY''"
| "radioStateToString RADIO_STATE_SIM_LOCKED_OR_ABSENT = ''RADIO_SIM_LOCKED_OR_ABSENT''"
| "radioStateToString RADIO_STATE_SIM_READY = ''RADIO_SIM_READY''"
| "radioStateToString RADIO_STATE_RUIM_NOT_READY = ''RADIO_RUIM_NOT_READY''"
| "radioStateToString RADIO_STATE_RUIM_READY = ''RADIO_RUIM_READY''"
| "radioStateToString RADIO_STATE_RUIM_LOCKED_OR_ABSENT = ''RADIO_RUIM_LOCKED_OR_ABSENT''"
| "radioStateToString RADIO_STATE_NV_NOT_READY = ''RADIO_NV_NOT_READY''"
| "radioStateToString RADIO_STATE_NV_READY = ''RADIO_NV_READY''"

fun callStateToString :: "RIL_CallState \<Rightarrow> string" where
  "callStateToString RIL_CALL_ACTIVE = ''ACTIVE''"
| "callStateToString RIL_CALL_HOLDING = ''HOLDING''"
| "callStateToString RIL_CALL_DIALING = ''DIALING''"
| "callStateToString RIL_CALL_ALERTING = ''ALERTING''"
| "callStateToString RIL_CALL_INCOMING = ''INCOMING''"
| "callStateToString RIL_CALL_WAITING = ''WAITING''"

section \<open>The shape of the tables\<close>

text \<open>
  The code finds a table entry by its position: \<open>&(s_commands[request])\<close> and
  \<open>s_unsolResponses[unsolResponse - RIL_UNSOL_RESPONSE_BASE]\<close>. These lemmas say what is there;
  proofs use them and never unfold a table.
\<close>

lemma length_s_commands [simp]: "length s_commands = 109"
  by (simp add: s_commands_def)

lemma length_s_unsolResponses [simp]: "length s_unsolResponses = 32"
  by (simp add: s_unsolResponses_def)

lemma s_commands_numbers: "map requestNumber s_commands = map of_nat [0..<109]"
  by (simp add: s_commands_def upt_rec)

lemma s_unsolResponses_numbers: "map unsolNumber s_unsolResponses = map (\<lambda>i. of_nat (1000 + i)) [0..<32]"
  by (simp add: s_unsolResponses_def upt_rec)

lemma s_commands_functions:
  "list_all (\<lambda>c. dispatchFunction c \<noteq> None \<and> responseFunction c \<noteq> None) (tl s_commands)"
  by (simp add: s_commands_def)

lemma map_upt_nth: "map f xs = map g [0..<n] \<Longrightarrow> i < n \<Longrightarrow> f (xs ! i) = g i"
  by (metis add_0 diff_zero length_map length_upt nth_map nth_upt)

lemma requestNumber_at: "i < 109 \<Longrightarrow> requestNumber (s_commands ! i) = of_nat i"
  by (rule map_upt_nth [OF s_commands_numbers])

lemma unsolNumber_at: "i < 32 \<Longrightarrow> unsolNumber (s_unsolResponses ! i) = of_nat (1000 + i)"
  by (rule map_upt_nth [OF s_unsolResponses_numbers])

lemma functions_at:
  assumes "0 < i" "i < 109"
  shows "dispatchFunction (s_commands ! i) \<noteq> None \<and> responseFunction (s_commands ! i) \<noteq> None"
proof -
  have e: "s_commands ! i = tl s_commands ! (i - 1)" using assms by (simp add: nth_tl)
  have l: "i - 1 < length (tl s_commands)" using assms by simp
  show ?thesis
    unfolding e by (rule s_commands_functions [unfolded list_all_length, rule_format, OF l])
qed

end
