(* ===== verification/Ril_Dispatch.thy ===== *)
theory Ril_Dispatch
  imports Ril_Layout Ril_Parcel Ril_Tables
begin

text \<open>
  The dispatch functions of \<open>libril/ril.cpp\<close>: each takes what is left of a request's parcel after
  the request code and the token, and either calls \<open>s_callbacks.onRequest\<close> or reports an invalid
  command block. \<open>None\<close> is undefined behaviour: an array on the stack that does not fit, or a
  write outside it.

  Variables that the code leaves uninitialised start with the values \<open>env_t\<close> and \<open>env_ut\<close> of the
  environment; a failed read leaves them, so the theorems that hold for every environment do not
  depend on them.
\<close>

section \<open>What the vendor library is called with\<close>

text \<open>The \<open>data\<close> argument of \<open>onRequest\<close>, one constructor per type the callee casts it to.\<close>

datatype req_data =
    DVoid
  | DString cstr
  | DStrings "cstr list option"   \<comment> \<open>\<open>None\<close>: a null array\<close>
  | DInts "i32 list"
  | DSmsWrite RIL_SMS_WriteArgs
  | DDial RIL_Dial
  | DSimIO RIL_SIM_IO
  | DCallForward RIL_CallForwardInfo
  | DRaw "u8 list option"
  | DCdmaSms RIL_CDMA_SMS_Message
  | DCdmaSmsAck RIL_CDMA_SMS_Ack
  | DGsmBrSmsCnf "RIL_GSM_BroadcastSmsConfigInfo list"
  | DCdmaBrSmsCnf "RIL_CDMA_BroadcastSmsConfigInfo list"
  | DCdmaSmsWriteArgs RIL_CDMA_SMS_WriteArgs

datatype dispatch_result = InvalidCommandBlock | OnRequest req_data nat

abbreviation readInt32 :: "'p ril_env \<Rightarrow> 'p \<Rightarrow> i32 \<Rightarrow> i32 \<times> i32 \<times> 'p" where
  "readInt32 E \<equiv> pf_readInt32 (env_parcel E)"

abbreviation read_u8 :: "'p ril_env \<Rightarrow> 'p \<Rightarrow> u8 \<Rightarrow> i32 \<times> u8 \<times> 'p" where
  "read_u8 E \<equiv> pf_read1 (env_parcel E)"

abbreviation readString8 :: "'p ril_env \<Rightarrow> 'p \<Rightarrow> cstr \<times> 'p" where
  "readString8 E \<equiv> strdupReadString (env_parcel E)"

section \<open>Strings and integers\<close>

definition dispatchVoid :: "'p ril_env \<Rightarrow> 'p \<Rightarrow> dispatch_result option" where
  "dispatchVoid E p = Some (OnRequest DVoid 0)"

definition dispatchString :: "'p ril_env \<Rightarrow> 'p \<Rightarrow> dispatch_result option" where
  "dispatchString E p =
     (let (string8, p) = readString8 E p
      in Some (OnRequest (DString string8) (ptr_size (env_abi E))))"

text \<open>The loop over \<open>pStrings\<close>, an array of as many pointers as \<open>datalen\<close> has room for.\<close>

definition dispatchStrings_step ::
    "'p ril_env \<Rightarrow> nat \<Rightarrow> cstr list \<times> 'p \<Rightarrow> (cstr list \<times> 'p) option" where
  "dispatchStrings_step E i s =
     (let (s8, p) = readString8 E (snd s)
      in do { pStrings \<leftarrow> aput (fst s) i s8; Some (pStrings, p) })"

definition dispatchStrings :: "'p ril_env \<Rightarrow> 'p \<Rightarrow> dispatch_result option" where
  "dispatchStrings E p =
     (let a = env_abi E; (status, countStrings, p) = readInt32 E p (env_t E)
      in if status \<noteq> NO_ERROR then Some InvalidCommandBlock
         else if countStrings = 0 then Some (OnRequest (DStrings (Some [])) 0)
         else if countStrings = - 1 then Some (OnRequest (DStrings None) 0)
         else
           (let datalen = to_size a (int (ptr_size a) * sint countStrings)
            in do {
              alloca a datalen;
              (pStrings, p) \<leftarrow> for_int countStrings (dispatchStrings_step E)
                 (replicate (datalen div ptr_size a) None, p);
              Some (OnRequest (DStrings (Some pStrings)) datalen)
            }))"

text \<open>The loop of \<open>dispatchInts\<close> stores an element before it looks at the status of its read.\<close>

fun dispatchInts_loop ::
    "'p ril_env \<Rightarrow> nat list \<Rightarrow> i32 list \<Rightarrow> 'p \<Rightarrow> i32 list option option" where
  "dispatchInts_loop E [] pInts p = Some (Some pInts)"
| "dispatchInts_loop E (i # is) pInts p =
     (let (status, t, p) = readInt32 E p (env_t E)
      in do {
        pInts \<leftarrow> aput pInts i t;
        if status \<noteq> NO_ERROR then Some None else dispatchInts_loop E is pInts p
      })"

definition dispatchInts :: "'p ril_env \<Rightarrow> 'p \<Rightarrow> dispatch_result option" where
  "dispatchInts E p =
     (let a = env_abi E; (status, count, p) = readInt32 E p (env_t E)
      in if status \<noteq> NO_ERROR \<or> count = 0 then Some InvalidCommandBlock
         else
           (let datalen = to_size a (4 * sint count)
            in do {
              alloca a datalen;
              r \<leftarrow> dispatchInts_loop E [0..<nat (sint count)] (replicate (datalen div 4) (env_t E)) p;
              Some (case r of None \<Rightarrow> InvalidCommandBlock
                    | Some pInts \<Rightarrow> OnRequest (DInts pInts) datalen)
            }))"

definition dispatchRaw :: "'p ril_env \<Rightarrow> 'p \<Rightarrow> dispatch_result option" where
  "dispatchRaw E p =
     (let a = env_abi E; (status, len, p) = readInt32 E p (env_t E)
      in if status \<noteq> NO_ERROR then Some InvalidCommandBlock
         else
           (let len = (if len = - 1 then 0 else len);
                (data, p) = pf_readInplace (env_parcel E) p (to_size a (sint len))
            in Some (OnRequest (DRaw data) (to_size a (sint len)))))"

section \<open>Structs of the GSM requests\<close>

definition dispatchSmsWrite :: "'p ril_env \<Rightarrow> 'p \<Rightarrow> dispatch_result option" where
  "dispatchSmsWrite E p =
     (let (status, t, p) = readInt32 E p (env_t E);
          (pdu, p) = readString8 E p
      in if status \<noteq> NO_ERROR \<or> pdu = None then Some InvalidCommandBlock
         else
           (let (smsc, p) = readString8 E p
            in Some (OnRequest (DSmsWrite \<lparr>sw_status = t, sw_pdu = pdu, sw_smsc = smsc\<rparr>)
                 (size_of (RIL_SMS_WriteArgs_layout (env_abi E))))))"

text \<open>The user-to-user information of a call, read when \<open>uusPresent\<close> is not zero.\<close>

definition dispatchDial_uus ::
    "'p ril_env \<Rightarrow> 'p \<Rightarrow> i32 \<Rightarrow> RIL_UUS_Info option \<times> 'p" where
  "dispatchDial_uus E p t =
     (let (status, t, p) = readInt32 E p t; uusType = t;
          (status, t, p) = readInt32 E p t; uusDcs = t;
          (status, len, p) = readInt32 E p (env_t E)
      in if status \<noteq> NO_ERROR then (None, p)
         else
           (let (uusData, len, p) =
                  (if len = - 1 then (None, 0, p)
                   else
                     (let (d, p) = pf_readInplace (env_parcel E) p (to_size (env_abi E) (sint len))
                      in (d, len, p)))
            in (Some \<lparr>uus_uusType = uusType, uus_uusDcs = uusDcs, uus_uusLength = len,
                  uus_uusData = uusData\<rparr>, p)))"

definition dispatchDial :: "'p ril_env \<Rightarrow> 'p \<Rightarrow> dispatch_result option" where
  "dispatchDial E p =
     (let a = env_abi E; sizeof_dial = size_of (RIL_Dial_layout a);
          (address, p) = readString8 E p;
          (status, t, p) = readInt32 E p (env_t E); clir = t;
          dial = (\<lambda>uus. DDial \<lparr>dial_address = address, dial_clir = clir, dial_uusInfo = uus\<rparr>)
      in if status \<noteq> NO_ERROR \<or> address = None then Some InvalidCommandBlock
         else if env_version E < 3 then Some (OnRequest (dial None) (sizeof_dial - ptr_size a))
         else
           (let (status, uusPresent, p) = readInt32 E p (env_t E)
            in if status \<noteq> NO_ERROR then Some InvalidCommandBlock
               else if uusPresent = 0 then Some (OnRequest (dial None) sizeof_dial)
               else
                 (case dispatchDial_uus E p t of
                    (None, _) \<Rightarrow> Some InvalidCommandBlock
                  | (Some uus, _) \<Rightarrow> Some (OnRequest (dial (Some uus)) sizeof_dial))))"

definition dispatchSIM_IO :: "'p ril_env \<Rightarrow> 'p \<Rightarrow> dispatch_result option" where
  "dispatchSIM_IO E p =
     (let (status, t, p) = readInt32 E p (env_t E); command = t;
          (status, t, p) = readInt32 E p t; fileid = t;
          (path, p) = readString8 E p;
          (status, t, p) = readInt32 E p t; p1 = t;
          (status, t, p) = readInt32 E p t; p2 = t;
          (status, t, p) = readInt32 E p t; p3 = t;
          (data, p) = readString8 E p;
          (pin2, p) = readString8 E p
      in if status \<noteq> NO_ERROR then Some InvalidCommandBlock
         else Some (OnRequest (DSimIO \<lparr>sio_command = command, sio_fileid = fileid, sio_path = path,
                sio_p1 = p1, sio_p2 = p2, sio_p3 = p3, sio_data = data, sio_pin2 = pin2\<rparr>)
              (size_of (RIL_SIM_IO_layout (env_abi E)))))"

definition dispatchCallForward :: "'p ril_env \<Rightarrow> 'p \<Rightarrow> dispatch_result option" where
  "dispatchCallForward E p =
     (let (status, t, p) = readInt32 E p (env_t E); cf_st = t;
          (status, t, p) = readInt32 E p t; reason = t;
          (status, t, p) = readInt32 E p t; serviceClass = t;
          (status, t, p) = readInt32 E p t; toa = t;
          (number, p) = readString8 E p;
          (status, t, p) = readInt32 E p t; timeSeconds = t
      in if status \<noteq> NO_ERROR then Some InvalidCommandBlock
         else
           (let number = (if number = Some [] then None else number)
            in Some (OnRequest (DCallForward \<lparr>cf_status = cf_st, cf_reason = reason,
                  cf_serviceClass = serviceClass, cf_toa = toa, cf_number = number,
                  cf_timeSeconds = timeSeconds\<rparr>)
                (size_of (RIL_CallForwardInfo_layout (env_abi E))))))"

section \<open>Structs of the CDMA requests\<close>

text \<open>One round of \<open>for (digitCount = 0; digitCount < digitLimit; digitCount++)\<close>.\<close>

definition read_digit ::
    "'p ril_env \<Rightarrow> nat \<Rightarrow> u8 list \<times> u8 \<times> i32 \<times> 'p \<Rightarrow> (u8 list \<times> u8 \<times> i32 \<times> 'p) option" where
  "read_digit E i s =
     (case s of (digits, ut, _, p) \<Rightarrow>
        (let (status, ut, p) = read_u8 E p ut
         in do { digits \<leftarrow> aput digits i ut; Some (digits, ut, status, p) }))"

definition read_digits ::
    "'p ril_env \<Rightarrow> int \<Rightarrow> nat \<Rightarrow> u8 \<Rightarrow> i32 \<Rightarrow> 'p \<Rightarrow> (u8 list \<times> u8 \<times> i32 \<times> 'p) option" where
  "read_digits E digitLimit array_len ut status p =
     foldM (read_digit E) [0..<nat digitLimit] (replicate array_len 0, ut, status, p)"

definition dispatchCdmaSms :: "'p ril_env \<Rightarrow> 'p \<Rightarrow> dispatch_result option" where
  "dispatchCdmaSms E p =
     (let (status, t, p) = readInt32 E p (env_t E); uTeleserviceID = t;
          (status, ut, p) = read_u8 E p (env_ut E); bIsServicePresent = ut;
          (status, t, p) = readInt32 E p t; uServicecategory = t;
          (status, t, p) = readInt32 E p t; digit_mode = t;
          (status, t, p) = readInt32 E p t; number_mode = t;
          (status, t, p) = readInt32 E p t; number_type = t;
          (status, t, p) = readInt32 E p t; number_plan = t;
          (status, ut, p) = read_u8 E p ut; number_of_digits = ut;
          digitLimit = min (uint number_of_digits) (int RIL_CDMA_SMS_ADDRESS_MAX)
      in do {
        (digits, ut, status, p) \<leftarrow> read_digits E digitLimit RIL_CDMA_SMS_ADDRESS_MAX ut status p;
        let (status, t, p) = readInt32 E p t;
        let subaddressType = t;
        let (status, ut, p) = read_u8 E p ut;
        let odd' = ut;
        let (status, ut, p) = read_u8 E p ut;
        let sub_number = ut;
        let digitLimit = min (uint sub_number) (int RIL_CDMA_SMS_SUBADDRESS_MAX);
        (sub_digs, ut, status, p) \<leftarrow> read_digits E digitLimit RIL_CDMA_SMS_SUBADDRESS_MAX ut status p;
        let (status, t, p) = readInt32 E p t;
        let uBearerDataLen = t;
        let digitLimit = min (sint uBearerDataLen) (int RIL_CDMA_SMS_BEARER_DATA_MAX);
        (bearer, ut, status, p) \<leftarrow> read_digits E digitLimit RIL_CDMA_SMS_BEARER_DATA_MAX ut status p;
        if status \<noteq> NO_ERROR then Some InvalidCommandBlock
        else Some (OnRequest (DCdmaSms
               \<lparr>msg_uTeleserviceID = uTeleserviceID, msg_bIsServicePresent = bIsServicePresent,
                msg_uServicecategory = uServicecategory,
                msg_sAddress = \<lparr>adr_digit_mode = digit_mode, adr_number_mode = number_mode,
                  adr_number_type = number_type, adr_number_plan = number_plan,
                  adr_number_of_digits = number_of_digits, adr_digits = digits\<rparr>,
                msg_sSubAddress = \<lparr>sub_subaddressType = subaddressType, sub_odd = odd',
                  sub_number_of_digits = sub_number, sub_digits = sub_digs\<rparr>,
                msg_uBearerDataLen = uBearerDataLen, msg_aBearerData = bearer\<rparr>)
             (size_of RIL_CDMA_SMS_Message_layout))
      })"

definition dispatchCdmaSmsAck :: "'p ril_env \<Rightarrow> 'p \<Rightarrow> dispatch_result option" where
  "dispatchCdmaSmsAck E p =
     (let (status, t, p) = readInt32 E p (env_t E); uErrorClass = t;
          (status, t, p) = readInt32 E p t; uSMSCauseCode = t
      in if status \<noteq> NO_ERROR then Some InvalidCommandBlock
         else Some (OnRequest
           (DCdmaSmsAck \<lparr>ack_uErrorClass = uErrorClass, ack_uSMSCauseCode = uSMSCauseCode\<rparr>)
           (size_of RIL_CDMA_SMS_Ack_layout)))"

text \<open>
  The arrays \<open>gsmBci[num]\<close> and \<open>gsmBciPtrs[num]\<close> of variable length: a negative \<open>num\<close> is
  undefined behaviour. Each round fills the next element.
\<close>

definition dispatchGsmBrSmsCnf_step ::
    "'p ril_env \<Rightarrow> nat \<Rightarrow> RIL_GSM_BroadcastSmsConfigInfo list \<times> i32 \<times> i32 \<times> 'p
     \<Rightarrow> (RIL_GSM_BroadcastSmsConfigInfo list \<times> i32 \<times> i32 \<times> 'p) option" where
  "dispatchGsmBrSmsCnf_step E i s =
     (case s of (gsmBci, t, _, p) \<Rightarrow>
        (let (status, t, p) = readInt32 E p t; fromServiceId = t;
             (status, t, p) = readInt32 E p t; toServiceId = t;
             (status, t, p) = readInt32 E p t; fromCodeScheme = t;
             (status, t, p) = readInt32 E p t; toCodeScheme = t;
             (status, t, p) = readInt32 E p t; selected = ucast t
         in Some (gsmBci @ [\<lparr>gsmb_fromServiceId = fromServiceId, gsmb_toServiceId = toServiceId,
                  gsmb_fromCodeScheme = fromCodeScheme, gsmb_toCodeScheme = toCodeScheme,
                  gsmb_selected = selected\<rparr>], t, status, p)))"

definition dispatchGsmBrSmsCnf :: "'p ril_env \<Rightarrow> 'p \<Rightarrow> dispatch_result option" where
  "dispatchGsmBrSmsCnf E p =
     (let a = env_abi E; (status, num, p) = readInt32 E p (env_t E)
      in if status \<noteq> NO_ERROR then Some InvalidCommandBlock
         else if sint num < 0 then None
         else do {
           alloca a (nat (sint num) * (size_of RIL_GSM_BroadcastSmsConfigInfo_layout + ptr_size a));
           (gsmBci, t, status, p) \<leftarrow> for_int num (dispatchGsmBrSmsCnf_step E) ([], env_t E, status, p);
           if status \<noteq> NO_ERROR then Some InvalidCommandBlock
           else Some (OnRequest (DGsmBrSmsCnf gsmBci) (to_size a (sint num * int (ptr_size a))))
         })"

definition dispatchCdmaBrSmsCnf_step ::
    "'p ril_env \<Rightarrow> nat \<Rightarrow> RIL_CDMA_BroadcastSmsConfigInfo list \<times> i32 \<times> i32 \<times> 'p
     \<Rightarrow> (RIL_CDMA_BroadcastSmsConfigInfo list \<times> i32 \<times> i32 \<times> 'p) option" where
  "dispatchCdmaBrSmsCnf_step E i s =
     (case s of (cdmaBci, t, _, p) \<Rightarrow>
        (let (status, t, p) = readInt32 E p t; service_category = t;
             (status, t, p) = readInt32 E p t; language = t;
             (status, t, p) = readInt32 E p t; selected = ucast t
         in Some (cdmaBci @ [\<lparr>cdmab_service_category = service_category,
                  cdmab_language = language, cdmab_selected = selected\<rparr>], t, status, p)))"

definition dispatchCdmaBrSmsCnf :: "'p ril_env \<Rightarrow> 'p \<Rightarrow> dispatch_result option" where
  "dispatchCdmaBrSmsCnf E p =
     (let a = env_abi E; (status, num, p) = readInt32 E p (env_t E)
      in if status \<noteq> NO_ERROR then Some InvalidCommandBlock
         else if sint num < 0 then None
         else do {
           alloca a (nat (sint num) * (size_of RIL_CDMA_BroadcastSmsConfigInfo_layout + ptr_size a));
           (cdmaBci, t, status, p) \<leftarrow> for_int num (dispatchCdmaBrSmsCnf_step E) ([], env_t E, status, p);
           if status \<noteq> NO_ERROR then Some InvalidCommandBlock
           else Some (OnRequest (DCdmaBrSmsCnf cdmaBci) (to_size a (sint num * int (ptr_size a))))
         })"

text \<open>
  Here the arrays are always read in full, whatever the counts before them say.
\<close>

definition dispatchRilCdmaSmsWriteArgs :: "'p ril_env \<Rightarrow> 'p \<Rightarrow> dispatch_result option" where
  "dispatchRilCdmaSmsWriteArgs E p =
     (let (status, t, p) = readInt32 E p (env_t E); st = t;
          (status, t, p) = readInt32 E p t; uTeleserviceID = t;
          (status, uct, p) = read_u8 E p (env_ut E); bIsServicePresent = uct;
          (status, t, p) = readInt32 E p t; uServicecategory = t;
          (status, t, p) = readInt32 E p t; digit_mode = t;
          (status, t, p) = readInt32 E p t; number_mode = t;
          (status, t, p) = readInt32 E p t; number_type = t;
          (status, t, p) = readInt32 E p t; number_plan = t;
          (status, uct, p) = read_u8 E p uct; number_of_digits = uct
      in do {
        (digits, uct, status, p) \<leftarrow>
          read_digits E (int RIL_CDMA_SMS_ADDRESS_MAX) RIL_CDMA_SMS_ADDRESS_MAX uct status p;
        let (status, t, p) = readInt32 E p t;
        let subaddressType = t;
        let (status, uct, p) = read_u8 E p uct;
        let odd' = uct;
        let (status, uct, p) = read_u8 E p uct;
        let sub_number = uct;
        (sub_digs, uct, status, p) \<leftarrow>
          read_digits E (int RIL_CDMA_SMS_SUBADDRESS_MAX) RIL_CDMA_SMS_SUBADDRESS_MAX uct status p;
        let (status, t, p) = readInt32 E p t;
        let uBearerDataLen = t;
        (bearer, uct, status, p) \<leftarrow>
          read_digits E (int RIL_CDMA_SMS_BEARER_DATA_MAX) RIL_CDMA_SMS_BEARER_DATA_MAX uct status p;
        if status \<noteq> NO_ERROR then Some InvalidCommandBlock
        else Some (OnRequest (DCdmaSmsWriteArgs
               \<lparr>csw_status = st,
                csw_message =
                  \<lparr>msg_uTeleserviceID = uTeleserviceID, msg_bIsServicePresent = bIsServicePresent,
                   msg_uServicecategory = uServicecategory,
                   msg_sAddress = \<lparr>adr_digit_mode = digit_mode, adr_number_mode = number_mode,
                     adr_number_type = number_type, adr_number_plan = number_plan,
                     adr_number_of_digits = number_of_digits, adr_digits = digits\<rparr>,
                   msg_sSubAddress = \<lparr>sub_subaddressType = subaddressType, sub_odd = odd',
                     sub_number_of_digits = sub_number, sub_digits = sub_digs\<rparr>,
                   msg_uBearerDataLen = uBearerDataLen, msg_aBearerData = bearer\<rparr>\<rparr>)
             (size_of RIL_CDMA_SMS_WriteArgs_layout))
      })"

section \<open>The function a table entry names\<close>

primrec dispatch :: "dispatch_fn \<Rightarrow> 'p ril_env \<Rightarrow> 'p \<Rightarrow> dispatch_result option" where
  "dispatch DispatchVoid = dispatchVoid"
| "dispatch DispatchString = dispatchString"
| "dispatch DispatchStrings = dispatchStrings"
| "dispatch DispatchInts = dispatchInts"
| "dispatch DispatchDial = dispatchDial"
| "dispatch DispatchSIM_IO = dispatchSIM_IO"
| "dispatch DispatchCallForward = dispatchCallForward"
| "dispatch DispatchRaw = dispatchRaw"
| "dispatch DispatchSmsWrite = dispatchSmsWrite"
| "dispatch DispatchCdmaSms = dispatchCdmaSms"
| "dispatch DispatchCdmaSmsAck = dispatchCdmaSmsAck"
| "dispatch DispatchGsmBrSmsCnf = dispatchGsmBrSmsCnf"
| "dispatch DispatchCdmaBrSmsCnf = dispatchCdmaBrSmsCnf"
| "dispatch DispatchRilCdmaSmsWriteArgs = dispatchRilCdmaSmsWriteArgs"

end
