(* ===== verification/Ril_Dispatch_Correct.thy ===== *)
theory Ril_Dispatch_Correct
  imports Ril_Dispatch
begin

text \<open>
  The dispatch functions decode what the telephony framework encodes. \<open>msg_X d\<close> is the sequence of
  values that the comment above \<open>dispatchX\<close> (\<open>Payload is\<close>) prescribes for the data \<open>d\<close>. The
  theorems start from a parcel with the bytes of such a sequence, or of a prefix of it.
\<close>

section \<open>Reading what was written\<close>

text \<open>The environment \<open>E\<close> has a platform that fulfils its contract.\<close>

abbreviation parcel :: "'p ril_env \<Rightarrow> item list \<Rightarrow> 'p" where
  "parcel E its \<equiv> parcel_of (env_parcel E) its"

abbreviation str8 :: "'p ril_env \<Rightarrow> cstr \<Rightarrow> item" where
  "str8 E s \<equiv> str (env_parcel E) s"

abbreviation good_env :: "'p ril_env \<Rightarrow> bool" where
  "good_env E \<equiv> parcel_stream (env_parcel E)"

lemma parcel_reads:
  assumes "good_env E" and "list_all item_ok its"
  obtains q where "reads (env_parcel E) (parcel E its) its q" and "exhausted (env_parcel E) q"
  using parcel_stream.transport [OF assms] by blast

text \<open>What is left to read of the parcel \<open>p\<close> is \<open>its\<close>.\<close>

definition holds :: "'p ril_env \<Rightarrow> 'p \<Rightarrow> item list \<Rightarrow> bool" where
  "holds E p its \<longleftrightarrow> (\<exists>q. reads (env_parcel E) p its q \<and> exhausted (env_parcel E) q)"

lemma parcel_holds: "good_env E \<Longrightarrow> list_all item_ok its \<Longrightarrow> holds E (parcel E its) its"
  using parcel_reads unfolding holds_def by blast

lemma str8_back: "good_env E \<Longrightarrow> ascii_opt s \<Longrightarrow>
    pf_strndup16to8 (env_parcel E) (pf_strdup8to16 (env_parcel E) s) = s"
  by (rule parcel_stream.str_back)

lemma str8_ok: "good_env E \<Longrightarrow> ascii_opt s \<Longrightarrow> item_ok (str8 E s)"
  by (rule parcel_stream.str_ok)

lemma null_string: "good_env E \<Longrightarrow> pf_strndup16to8 (env_parcel E) None = None"
  by (rule parcel_stream.string_null)

text \<open>An exhausted parcel stays so, and reading it changes no variable.\<close>

lemma exhausted_reads:
  assumes "good_env E" and "exhausted (env_parcel E) q"
  shows "\<exists>st. st \<noteq> NO_ERROR \<and> (\<forall>t. readInt32 E q t = (st, t, q)) \<and>
    (\<forall>b. read_u8 E q b = (st, b, q)) \<and> readString8 E q = (None, q)"
  using assms null_string [OF assms(1)] by (auto simp: exhausted_def strdupReadString_def)

lemma for_int_upto: "0 \<le> sint n \<Longrightarrow> nat (sint n) = m \<Longrightarrow> for_int n f s = foldM f [0..<m] s"
  by simp

lemma sint_of_length: "n < 2 ^ 31 \<Longrightarrow> nat (sint (of_nat n :: i32)) = n"
  by (simp add: signed_of_nat signed_take_bit_int_eq_self)

section \<open>Loops\<close>

lemma upt_split_at: "m \<le> n \<Longrightarrow> [0..<n] = [0..<m] @ [m..<n]"
  by (metis le_add_diff_inverse upt_add_eq_append zero_le)

lemma take_Suc_update: "k < length xs \<Longrightarrow> take (Suc k) (xs[k := x]) = take k xs @ [x]"
  by (simp add: take_Suc_conv_app_nth)

lemma upt_from: "[k..<k + Suc n] = k # [Suc k..<Suc k + n]"
  by (metis add_Suc_right add_Suc_shift less_add_Suc1 upt_conv_Cons)

lemma dispatchInts_loop_reads:
  "reads (env_parcel E) p (map I32 xs @ its) q \<Longrightarrow> k + length xs \<le> length pInts \<Longrightarrow>
   \<exists>p'. reads (env_parcel E) p' its q \<and>
     dispatchInts_loop E ([k..<k + length xs] @ is) pInts p =
     dispatchInts_loop E is (take k pInts @ xs @ drop (k + length xs) pInts) p'"
proof (induction xs arbitrary: p k pInts)
  case Nil
  then show ?case by auto
next
  case (Cons x xs)
  then obtain p1 where p1: "\<forall>t. readInt32 E p t = (NO_ERROR, x, p1)"
      "reads (env_parcel E) p1 (map I32 xs @ its) q" by auto
  let ?ps = "pInts[k := x]"
  have "Suc k + length xs \<le> length ?ps" using Cons.prems(2) by simp
  from Cons.IH [OF p1(2) this] obtain p' where p': "reads (env_parcel E) p' its q"
      "dispatchInts_loop E ([Suc k..<Suc k + length xs] @ is) ?ps p1 =
       dispatchInts_loop E is (take (Suc k) ?ps @ xs @ drop (Suc k + length xs) ?ps) p'" by blast
  have "[k..<k + length (x # xs)] = k # [Suc k..<Suc k + length xs]" using upt_from by simp
  moreover have "take (Suc k) ?ps = take k pInts @ [x]"
    using Cons.prems(2) by (simp add: take_Suc_conv_app_nth)
  ultimately show ?case
    using p' p1(1) Cons.prems(2) by (intro exI [of _ p']) simp
qed

lemma read_digits_reads:
  "reads (env_parcel E) p (map Byte bs @ its) q \<Longrightarrow> k + length bs \<le> length arr \<Longrightarrow>
   \<exists>p' ut'. reads (env_parcel E) p' its q \<and>
     foldM (read_digit E) [k..<k + length bs] (arr, ut, st, p) =
     Some (take k arr @ bs @ drop (k + length bs) arr, ut', if bs = [] then st else NO_ERROR, p')"
proof (induction bs arbitrary: p k arr ut st)
  case Nil
  then show ?case by auto
next
  case (Cons b bs)
  then obtain p1 where p1: "\<forall>t. read_u8 E p t = (NO_ERROR, b, p1)"
      "reads (env_parcel E) p1 (map Byte bs @ its) q" by auto
  let ?a = "arr[k := b]"
  have "Suc k + length bs \<le> length ?a" using Cons.prems(2) by simp
  from Cons.IH [OF p1(2) this, of b NO_ERROR] obtain p' ut' where p': "reads (env_parcel E) p' its q"
      "foldM (read_digit E) [Suc k..<Suc k + length bs] (?a, b, NO_ERROR, p1) =
       Some (take (Suc k) ?a @ bs @ drop (Suc k + length bs) ?a, ut',
         if bs = [] then NO_ERROR else NO_ERROR, p')" by blast
  have up: "[k..<k + length (b # bs)] = k # [Suc k..<Suc k + length bs]" using upt_from by simp
  have "take (Suc k) ?a = take k arr @ [b]"
    using Cons.prems(2) by (simp add: take_Suc_conv_app_nth)
  moreover have "read_digit E k (arr, ut, st, p) = Some (?a, b, NO_ERROR, p1)"
    using p1(1) Cons.prems(2) by (simp add: read_digit_def)
  ultimately show ?case unfolding up using p'
    by (intro exI [of _ p'] exI [of _ ut']) (simp del: upt_Suc)
qed

text \<open>The contents of an array of \<open>n\<close> bytes after \<open>bs\<close> was stored at its start.\<close>

definition padded :: "nat \<Rightarrow> u8 list \<Rightarrow> u8 list" where
  "padded n bs = bs @ replicate (n - length bs) 0"

lemma read_digits_padded:
  assumes "reads (env_parcel E) p (map Byte bs @ its) q" and "nat lim = length bs" and "length bs \<le> n"
  shows "\<exists>p' ut'. reads (env_parcel E) p' its q \<and>
    read_digits E lim n ut NO_ERROR p = Some (padded n bs, ut', NO_ERROR, p')"
  using read_digits_reads [OF assms(1), of 0 "replicate n 0" ut NO_ERROR] assms(2,3)
  by (auto simp: read_digits_def padded_def)

text \<open>The loop over digits stays inside its array, whatever the parcel holds.\<close>

lemma read_digits_defined:
  assumes "lim \<le> int n"
  shows "\<exists>r. read_digits E lim n ut st p = Some r"
proof -
  have "\<exists>r. foldM (read_digit E) [0..<nat lim] (replicate n 0, ut, st, p) = Some r \<and>
      (case r of (digits, _) \<Rightarrow> length digits = n)"
    by (rule foldM_defined) (use assms in \<open>auto simp: read_digit_def Let_def split: prod.splits\<close>)
  then show ?thesis by (auto simp: read_digits_def)
qed

section \<open>Integers and strings\<close>

text \<open>The stack has room for \<open>n\<close> elements of \<open>size\<close> bytes, and the product does not wrap.\<close>

definition fits :: "'p ril_env \<Rightarrow> nat \<Rightarrow> nat \<Rightarrow> bool" where
  "fits E elem n \<longleftrightarrow> elem * n \<le> stack_avail (env_abi E) \<and> elem * n < 2 ^ (8 * ptr_size (env_abi E))"

lemma fits_to_size: "fits E elem n \<Longrightarrow> 0 \<le> sint c \<Longrightarrow> nat (sint c) = n \<Longrightarrow>
    to_size (env_abi E) (int elem * sint c) = elem * n"
proof -
  assume a: "fits E elem n" "0 \<le> sint c" "nat (sint c) = n"
  then have "int elem * sint c = int (elem * n)" by (simp add: nat_eq_iff)
  moreover have "int (elem * n) < 2 ^ (8 * ptr_size (env_abi E))"
    using a(1) by (simp add: fits_def flip: of_nat_mult) 
  ultimately show ?thesis by (simp add: to_size_def flip: of_nat_mult)
qed

lemma dispatchInts_parcel:
  assumes good: "good_env E" and at: "holds E p0 (I32 n # map I32 xs)"
    and n: "0 \<le> sint n" "fits E 4 (nat (sint n))"
  shows "dispatchInts E p0 =
    (if n = 0 \<or> length xs < nat (sint n) then Some InvalidCommandBlock
     else Some (OnRequest (DInts (take (nat (sint n)) xs)) (4 * nat (sint n))))"
proof -
  let ?n = "nat (sint n)"
  obtain q where q: "reads (env_parcel E) p0 (I32 n # map I32 xs) q"
      "exhausted (env_parcel E) q" using at unfolding holds_def by blast
  obtain p1 where p1: "\<forall>t. readInt32 E p0 t = (NO_ERROR, n, p1)"
      "reads (env_parcel E) p1 (map I32 xs) q" using q(1) by auto
  let ?a0 = "replicate ?n (env_t E)"
  have al: "to_size (env_abi E) (4 * sint n) = 4 * ?n"
    using fits_to_size [OF n(2,1) refl] by simp
  show ?thesis
  proof (cases "length xs < ?n")
    case True
    have r: "reads (env_parcel E) p1 (map I32 xs @ []) q" using p1(2) by simp
    have l: "0 + length xs \<le> length ?a0" using True by simp
    obtain p' where p': "reads (env_parcel E) p' [] q"
        "dispatchInts_loop E ([0..<0 + length xs] @ [length xs..<?n]) ?a0 p1 =
         dispatchInts_loop E [length xs..<?n] (take 0 ?a0 @ xs @ drop (0 + length xs) ?a0) p'"
      using dispatchInts_loop_reads [OF r l] by blast
    have up: "[0..<?n] = [0..<0 + length xs] @ [length xs..<?n]"
      using True upt_split_at [of "length xs" ?n] by simp
    have us: "[length xs..<?n] = length xs # [Suc (length xs)..<?n]" using True by (rule upt_conv_Cons)
    obtain st where st: "st \<noteq> NO_ERROR" "\<forall>t. readInt32 E q t = (st, t, q)"
      using exhausted_reads [OF good q(2)] by blast
    have "dispatchInts_loop E [0..<?n] ?a0 p1 = Some None"
      unfolding up p'(2) unfolding us using p'(1) st True by simp
    then show ?thesis using True p1(1) al n by (simp add: dispatchInts_def alloca_def fits_def Let_def)
  next
    case False
    let ?ys = "take ?n xs" and ?zs = "drop ?n xs"
    have r: "reads (env_parcel E) p1 (map I32 ?ys @ map I32 ?zs) q"
      using p1(2) by (simp flip: map_append)
    have l: "0 + length ?ys \<le> length ?a0" by simp
    obtain p' where
        "dispatchInts_loop E ([0..<0 + length ?ys] @ []) ?a0 p1 =
         dispatchInts_loop E [] (take 0 ?a0 @ ?ys @ drop (0 + length ?ys) ?a0) p'"
      using dispatchInts_loop_reads [OF r l, of "[]"] by blast
    then have "dispatchInts_loop E [0..<?n] ?a0 p1 = Some (Some ?ys)" using False by (simp split: if_splits)
    then show ?thesis using False p1(1) al n by (simp add: dispatchInts_def alloca_def fits_def Let_def)
  qed
qed

lemma dispatchStrings_reads:
  assumes good: "good_env E"
  shows "reads (env_parcel E) p (map (str8 E) ss @ its) q \<Longrightarrow> list_all ascii_opt ss \<Longrightarrow>
   k + length ss \<le> length arr \<Longrightarrow>
   \<exists>p'. reads (env_parcel E) p' its q \<and>
     foldM (dispatchStrings_step E) [k..<k + length ss] (arr, p) =
     Some (take k arr @ ss @ drop (k + length ss) arr, p')"
proof (induction ss arbitrary: p k arr)
  case Nil
  then show ?case by auto
next
  case (Cons s ss)
  then obtain p1 where p1: "readString8 E p = (s, p1)"
      "reads (env_parcel E) p1 (map (str8 E) ss @ its) q"
    using str8_back [OF good, of s] by (auto simp: strdupReadString_def)
  let ?a = "arr[k := s]"
  have "Suc k + length ss \<le> length ?a" "list_all ascii_opt ss" using Cons.prems by simp_all
  from Cons.IH [OF p1(2) this(2,1)] obtain p' where p': "reads (env_parcel E) p' its q"
      "foldM (dispatchStrings_step E) [Suc k..<Suc k + length ss] (?a, p1) =
       Some (take (Suc k) ?a @ ss @ drop (Suc k + length ss) ?a, p')" by blast
  have up: "[k..<k + length (s # ss)] = k # [Suc k..<Suc k + length ss]" using upt_from by simp
  have "take (Suc k) ?a = take k arr @ [s]" using Cons.prems(3) by (simp add: take_Suc_update)
  moreover have "dispatchStrings_step E k (arr, p) = Some (?a, p1)"
    using p1(1) Cons.prems(3) by (simp add: dispatchStrings_step_def)
  ultimately show ?case unfolding up using p'
    by (intro exI [of _ p']) (simp del: upt_Suc)
qed

lemma dispatchStrings_nulls:
  assumes "readString8 E q = (None, q)"
  shows "k + n \<le> length arr \<Longrightarrow> foldM (dispatchStrings_step E) [k..<k + n] (arr, q) =
    Some (take k arr @ replicate n None @ drop (k + n) arr, q)"
proof (induction n arbitrary: k arr)
  case 0
  then show ?case by simp
next
  case (Suc n)
  have "take (Suc k) (arr[k := None]) = take k arr @ [None]" using Suc.prems by (simp add: take_Suc_update)
  then show ?case unfolding upt_from
    using Suc.IH [of "Suc k" "arr[k := None]"] Suc.prems assms
    by (simp add: dispatchStrings_step_def del: upt_Suc)
qed

text \<open>
  A list of strings comes out as it was put in; strings that the count announces and the parcel
  does not have come out as null pointers.
\<close>

lemma dispatchStrings_parcel:
  assumes good: "good_env E" and at: "holds E p0 (I32 n # map (str8 E) ss)"
    and n: "0 < sint n" "fits E (ptr_size (env_abi E)) (nat (sint n))"
    and ptr: "0 < ptr_size (env_abi E)" and ss: "list_all ascii_opt ss"
  shows "dispatchStrings E p0 =
    Some (OnRequest (DStrings (Some (take (nat (sint n)) ss @ replicate (nat (sint n) - length ss) None)))
      (ptr_size (env_abi E) * nat (sint n)))"
proof -
  let ?n = "nat (sint n)" and ?ps = "ptr_size (env_abi E)" and ?its = "I32 n # map (str8 E) ss"
  let ?a0 = "replicate ?n None :: cstr list"
  obtain q where q: "reads (env_parcel E) p0 ?its q" "exhausted (env_parcel E) q"
    using at unfolding holds_def by blast
  obtain p1 where p1: "\<forall>t. readInt32 E p0 t = (NO_ERROR, n, p1)"
      "reads (env_parcel E) p1 (map (str8 E) ss) q" using q(1) by auto
  have nn: "n \<noteq> 0" "n \<noteq> - 1" using n(1) by auto
  have al: "to_size (env_abi E) (int ?ps * sint n) = ?ps * ?n" using n fits_to_size by force
  have "\<exists>r. foldM (dispatchStrings_step E) [0..<?n] (?a0, p1) =
      Some (take ?n ss @ replicate (?n - length ss) None, r)"
  proof (cases "length ss \<le> ?n")
    case True
    have r: "reads (env_parcel E) p1 (map (str8 E) ss @ []) q" using p1(2) by simp
    have "foldM (dispatchStrings_step E) [0..<0 + length ss] (?a0, p1) =
        Some (ss @ drop (length ss) ?a0, q)"
      using dispatchStrings_reads [OF good r ss, of 0 ?a0] True by auto
    moreover have "readString8 E q = (None, q)" using exhausted_reads [OF good q(2)] by blast
    ultimately show ?thesis
      unfolding upt_split_at [OF True]
      using dispatchStrings_nulls [of E q "length ss" "?n - length ss" "ss @ drop (length ss) ?a0"] True
      by (simp add: foldM_append)
  next
    case False
    have r: "reads (env_parcel E) p1 (map (str8 E) (take ?n ss) @ map (str8 E) (drop ?n ss)) q"
      using p1(2) by (simp flip: map_append)
    have "list_all ascii_opt (take ?n ss)" using ss by (auto simp: list_all_iff dest: in_set_takeD)
    from dispatchStrings_reads [OF good r this, of 0 ?a0] False show ?thesis by auto
  qed
  then show ?thesis using p1(1) nn al n(2) ptr
    by (auto simp: dispatchStrings_def alloca_def fits_def Let_def)
qed

section \<open>Structs\<close>

definition msg_sim_io :: "'p ril_env \<Rightarrow> RIL_SIM_IO \<Rightarrow> item list" where
  "msg_sim_io E d = [I32 (sio_command d), I32 (sio_fileid d), str8 E (sio_path d), I32 (sio_p1 d),
     I32 (sio_p2 d), I32 (sio_p3 d), str8 E (sio_data d), str8 E (sio_pin2 d)]"

definition msg_call_forward :: "'p ril_env \<Rightarrow> RIL_CallForwardInfo \<Rightarrow> item list" where
  "msg_call_forward E d = [I32 (cf_status d), I32 (cf_reason d), I32 (cf_serviceClass d),
     I32 (cf_toa d), str8 E (cf_number d), I32 (cf_timeSeconds d)]"

definition msg_sms_write :: "'p ril_env \<Rightarrow> RIL_SMS_WriteArgs \<Rightarrow> item list" where
  "msg_sms_write E d = [I32 (sw_status d), str8 E (sw_pdu d), str8 E (sw_smsc d)]"

definition msg_uus :: "RIL_UUS_Info option \<Rightarrow> item list" where
  "msg_uus uus = (case uus of None \<Rightarrow> [I32 0]
     | Some u \<Rightarrow> [I32 1, I32 (uus_uusType u), I32 (uus_uusDcs u)] @
         (case uus_uusData u of None \<Rightarrow> [I32 (- 1)] | Some bs \<Rightarrow> [I32 (uus_uusLength u), Bytes bs]))"

definition msg_dial :: "'p ril_env \<Rightarrow> RIL_Dial \<Rightarrow> item list" where
  "msg_dial E d = [str8 E (dial_address d), I32 (dial_clir d)] @ msg_uus (dial_uusInfo d)"

definition uus_ok :: "RIL_UUS_Info \<Rightarrow> bool" where
  "uus_ok u = (case uus_uusData u of None \<Rightarrow> uus_uusLength u = 0
     | Some bs \<Rightarrow> length bs < 2 ^ 31 \<and> uus_uusLength u = of_nat (length bs))"

definition sim_io_ok :: "RIL_SIM_IO \<Rightarrow> bool" where
  "sim_io_ok d \<longleftrightarrow> ascii_opt (sio_path d) \<and> ascii_opt (sio_data d) \<and> ascii_opt (sio_pin2 d)"

lemma dispatchSIM_IO_parcel:
  assumes good: "good_env E" and at: "holds E p (take k (msg_sim_io E d))"
    and d: "sim_io_ok d" and k: "k \<le> 8"
  shows "dispatchSIM_IO E p =
    (if k < 6 then Some InvalidCommandBlock
     else Some (OnRequest (DSimIO (d\<lparr>sio_data := (if k < 7 then None else sio_data d),
            sio_pin2 := (if k < 8 then None else sio_pin2 d)\<rparr>))
          (size_of (RIL_SIM_IO_layout (env_abi E)))))"
proof -
  obtain q where q: "reads (env_parcel E) p (take k (msg_sim_io E d)) q"
      "exhausted (env_parcel E) q" using at unfolding holds_def by blast
  obtain st where st: "st \<noteq> NO_ERROR" "\<forall>t. readInt32 E q t = (st, t, q)" "readString8 E q = (None, q)"
    using exhausted_reads [OF good q(2)] by blast
  have b: "pf_strndup16to8 (env_parcel E) (pf_strdup8to16 (env_parcel E) s) = s"
    if "s \<in> {sio_path d, sio_data d, sio_pin2 d}" for s
    using that d str8_back [OF good] by (auto simp: sim_io_ok_def)
  have "k = 0 \<or> k = 1 \<or> k = 2 \<or> k = 3 \<or> k = 4 \<or> k = 5 \<or> k = 6 \<or> k = 7 \<or> k = 8"
    using k by linarith
  then show ?thesis
    using q(1) st b
    by (elim disjE) (auto simp: msg_sim_io_def dispatchSIM_IO_def strdupReadString_def)
qed

lemma take_ok: "list_all P xs \<Longrightarrow> list_all P (take k xs)"
  by (auto simp: list_all_iff dest: in_set_takeD)

lemma dispatchCallForward_parcel:
  assumes good: "good_env E" and at: "holds E p (take k (msg_call_forward E d))"
    and d: "ascii_opt (cf_number d)" and k: "k \<le> 6"
  shows "dispatchCallForward E p =
    (if k < 6 then Some InvalidCommandBlock
     else Some (OnRequest (DCallForward (d\<lparr>cf_number := (if cf_number d = Some [] then None else cf_number d)\<rparr>))
          (size_of (RIL_CallForwardInfo_layout (env_abi E)))))"
proof -
  obtain q where
      q: "reads (env_parcel E) p (take k (msg_call_forward E d)) q"
      "exhausted (env_parcel E) q" using at unfolding holds_def by blast
  obtain st where st: "st \<noteq> NO_ERROR" "\<forall>t. readInt32 E q t = (st, t, q)" "readString8 E q = (None, q)"
    using exhausted_reads [OF good q(2)] by blast
  note b = str8_back [OF good d]
  have "k = 0 \<or> k = 1 \<or> k = 2 \<or> k = 3 \<or> k = 4 \<or> k = 5 \<or> k = 6" using k by linarith
  then show ?thesis
    using q(1) st b
    by (elim disjE) (auto simp: msg_call_forward_def dispatchCallForward_def strdupReadString_def)
qed

lemma dispatchSmsWrite_parcel:
  assumes good: "good_env E" and at: "holds E p (take k (msg_sms_write E d))"
    and d: "ascii_opt (sw_pdu d)" "ascii_opt (sw_smsc d)" and k: "k \<le> 3"
  shows "dispatchSmsWrite E p =
    (if k < 2 \<or> sw_pdu d = None then Some InvalidCommandBlock
     else Some (OnRequest (DSmsWrite (d\<lparr>sw_smsc := (if k < 3 then None else sw_smsc d)\<rparr>))
          (size_of (RIL_SMS_WriteArgs_layout (env_abi E)))))"
proof -
  obtain q where
      q: "reads (env_parcel E) p (take k (msg_sms_write E d)) q"
      "exhausted (env_parcel E) q" using at unfolding holds_def by blast
  obtain st where st: "st \<noteq> NO_ERROR" "\<forall>t. readInt32 E q t = (st, t, q)" "readString8 E q = (None, q)"
    using exhausted_reads [OF good q(2)] by blast
  note b = str8_back [OF good d(1)] str8_back [OF good d(2)]
  have "k = 0 \<or> k = 1 \<or> k = 2 \<or> k = 3" using k by linarith
  then show ?thesis
    using q(1) st b
    by (elim disjE) (auto simp: msg_sms_write_def dispatchSmsWrite_def strdupReadString_def)
qed

text \<open>Lengths of less than \<open>2\<^sup>3\<^sup>1\<close> are what they are as \<open>int32_t\<close> and as \<open>size_t\<close>.\<close>

lemma small_length:
  assumes "n < 2 ^ 31" and "4 \<le> ptr_size a"
  shows "sint (of_nat n :: i32) = int n" and "to_size a (int n) = n" and "(of_nat n :: i32) \<noteq> - 1"
proof -
  show s: "sint (of_nat n :: i32) = int n" using assms(1) by (rule sint_small)
  have "(2::int) ^ 32 \<le> 2 ^ (8 * ptr_size a)" using assms(2) by (intro power_increasing) auto
  moreover have "int n < 2 ^ 32" using assms(1) by simp
  ultimately have "int n < 2 ^ (8 * ptr_size a)" by (rule less_le_trans [rotated])
  then show "to_size a (int n) = n" by (simp add: to_size_def)
  show "(of_nat n :: i32) \<noteq> - 1" using s by auto
qed

lemma dispatchRaw_parcel:
  assumes good: "good_env E" and at: "holds E p0 [I32 (of_nat (length bs)), Bytes bs]"
    and len: "length bs < 2 ^ 31" and ptr: "4 \<le> ptr_size (env_abi E)"
  shows "dispatchRaw E p0 =
    Some (OnRequest (DRaw (Some bs)) (length bs))"
proof -
  obtain q where "reads (env_parcel E) p0
      [I32 (of_nat (length bs)), Bytes bs] q" using at unfolding holds_def by blast
  then show ?thesis using small_length [OF len ptr] by (auto simp: dispatchRaw_def Let_def)
qed

lemma dispatchDial_uus_reads:
  assumes "reads (env_parcel E) p (tl (msg_uus (Some u))) q" and "uus_ok u" and "4 \<le> ptr_size (env_abi E)"
  shows "\<exists>r. dispatchDial_uus E p t = (Some u, r)"
proof (cases "uus_uusData u")
  case None
  then show ?thesis using assms by (auto simp: msg_uus_def uus_ok_def dispatchDial_uus_def)
next
  case (Some bs)
  then show ?thesis using assms small_length [of "length bs" "env_abi E"]
    by (auto simp: msg_uus_def uus_ok_def dispatchDial_uus_def)
qed

lemma dispatchDial_parcel:
  assumes good: "good_env E" and at: "holds E p (msg_dial E d)"
    and d: "dial_address d \<noteq> None" "ascii_opt (dial_address d)"
      "pred_option uus_ok (dial_uusInfo d)" and ptr: "4 \<le> ptr_size (env_abi E)"
  shows "dispatchDial E p = Some
    (if env_version E < 3
     then OnRequest (DDial (d\<lparr>dial_uusInfo := None\<rparr>)) (size_of (RIL_Dial_layout (env_abi E)) - ptr_size (env_abi E))
     else OnRequest (DDial d) (size_of (RIL_Dial_layout (env_abi E))))"
proof -
  obtain q where q: "reads (env_parcel E) p (msg_dial E d) q"
    using at unfolding holds_def by blast
  from q obtain p1 p2 where p1: "readString8 E p = (dial_address d, p1)"
      "\<forall>t. readInt32 E p1 t = (NO_ERROR, dial_clir d, p2)"
      "reads (env_parcel E) p2 (msg_uus (dial_uusInfo d)) q"
    using str8_back [OF good d(2)]
    by (auto simp: msg_dial_def strdupReadString_def)
  show ?thesis
  proof (cases "dial_uusInfo d")
    case None
    then show ?thesis using p1 d(1)
      by (auto simp: dispatchDial_def msg_uus_def Let_def)
  next
    case (Some u)
    then obtain p3 where p3: "\<forall>t. readInt32 E p2 t = (NO_ERROR, 1, p3)"
        "reads (env_parcel E) p3 (tl (msg_uus (Some u))) q"
      using p1(3) by (auto simp: msg_uus_def)
    obtain r where "dispatchDial_uus E p3 (dial_clir d) = (Some u, r)"
      using dispatchDial_uus_reads [OF p3(2) _ ptr] d(3) Some by auto
    then show ?thesis using p1(1,2) p3(1) d(1) Some
      by (auto simp: dispatchDial_def Let_def)
  qed
qed

section \<open>CDMA messages\<close>

definition adr_count :: "RIL_CDMA_SMS_Address \<Rightarrow> nat" where
  "adr_count a = min (unat (adr_number_of_digits a)) RIL_CDMA_SMS_ADDRESS_MAX"

definition sub_count :: "RIL_CDMA_SMS_Subaddress \<Rightarrow> nat" where
  "sub_count a = min (unat (sub_number_of_digits a)) RIL_CDMA_SMS_SUBADDRESS_MAX"

definition bearer_count :: "RIL_CDMA_SMS_Message \<Rightarrow> nat" where
  "bearer_count m = nat (min (sint (msg_uBearerDataLen m)) (int RIL_CDMA_SMS_BEARER_DATA_MAX))"

text \<open>Only as many digits travel as the counts say, and no more than the arrays hold.\<close>

definition msg_cdma_sms :: "RIL_CDMA_SMS_Message \<Rightarrow> item list" where
  "msg_cdma_sms m =
     (let a = msg_sAddress m; s = msg_sSubAddress m
      in [I32 (msg_uTeleserviceID m), Byte (msg_bIsServicePresent m), I32 (msg_uServicecategory m),
          I32 (adr_digit_mode a), I32 (adr_number_mode a), I32 (adr_number_type a),
          I32 (adr_number_plan a), Byte (adr_number_of_digits a)] @
         map Byte (take (adr_count a) (adr_digits a)) @
         [I32 (sub_subaddressType s), Byte (sub_odd s), Byte (sub_number_of_digits s)] @
         map Byte (take (sub_count s) (sub_digits s)) @
         [I32 (msg_uBearerDataLen m)] @ map Byte (take (bearer_count m) (msg_aBearerData m)))"

text \<open>The arrays have their declared lengths.\<close>

definition cdma_sms_ok :: "RIL_CDMA_SMS_Message \<Rightarrow> bool" where
  "cdma_sms_ok m \<longleftrightarrow> length (adr_digits (msg_sAddress m)) = RIL_CDMA_SMS_ADDRESS_MAX \<and>
     length (sub_digits (msg_sSubAddress m)) = RIL_CDMA_SMS_SUBADDRESS_MAX \<and>
     length (msg_aBearerData m) = RIL_CDMA_SMS_BEARER_DATA_MAX"

text \<open>The message with what lies behind the counted digits cleared.\<close>

definition cdma_sms_clear :: "RIL_CDMA_SMS_Message \<Rightarrow> RIL_CDMA_SMS_Message" where
  "cdma_sms_clear m = m\<lparr>
     msg_sAddress := (msg_sAddress m)\<lparr>adr_digits := padded RIL_CDMA_SMS_ADDRESS_MAX
       (take (adr_count (msg_sAddress m)) (adr_digits (msg_sAddress m)))\<rparr>,
     msg_sSubAddress := (msg_sSubAddress m)\<lparr>sub_digits := padded RIL_CDMA_SMS_SUBADDRESS_MAX
       (take (sub_count (msg_sSubAddress m)) (sub_digits (msg_sSubAddress m)))\<rparr>,
     msg_aBearerData := padded RIL_CDMA_SMS_BEARER_DATA_MAX (take (bearer_count m) (msg_aBearerData m))\<rparr>"

lemma min_uint: "nat (min (uint (w :: u8)) (int n)) = min (unat w) n"
proof -
  have "nat (min a (int n)) = min (nat a) n" for a :: int by (auto simp: min_def)
  then show ?thesis by (simp only: unat_eq_nat_uint)
qed

lemma dispatchCdmaSms_reads:
  assumes r: "reads (env_parcel E) p (msg_cdma_sms m) q" and ok: "cdma_sms_ok m"
  shows "dispatchCdmaSms E p =
    Some (OnRequest (DCdmaSms (cdma_sms_clear m)) (size_of RIL_CDMA_SMS_Message_layout))"
proof -
  let ?a = "msg_sAddress m" and ?s = "msg_sSubAddress m"
  let ?ad = "take (adr_count ?a) (adr_digits ?a)" and ?sd = "take (sub_count ?s) (sub_digits ?s)"
    and ?bd = "take (bearer_count m) (msg_aBearerData m)"
  let ?r3 = "I32 (msg_uBearerDataLen m) # map Byte ?bd @ []"
  let ?r2 = "[I32 (sub_subaddressType ?s), Byte (sub_odd ?s), Byte (sub_number_of_digits ?s)] @
      map Byte ?sd @ ?r3"
  obtain p1 p2 p3 p4 p5 p6 p7 p8 where h: "\<forall>t. readInt32 E p t = (NO_ERROR, msg_uTeleserviceID m, p1)"
      "\<forall>b. read_u8 E p1 b = (NO_ERROR, msg_bIsServicePresent m, p2)"
      "\<forall>t. readInt32 E p2 t = (NO_ERROR, msg_uServicecategory m, p3)"
      "\<forall>t. readInt32 E p3 t = (NO_ERROR, adr_digit_mode ?a, p4)"
      "\<forall>t. readInt32 E p4 t = (NO_ERROR, adr_number_mode ?a, p5)"
      "\<forall>t. readInt32 E p5 t = (NO_ERROR, adr_number_type ?a, p6)"
      "\<forall>t. readInt32 E p6 t = (NO_ERROR, adr_number_plan ?a, p7)"
      "\<forall>b. read_u8 E p7 b = (NO_ERROR, adr_number_of_digits ?a, p8)"
      "reads (env_parcel E) p8 (map Byte ?ad @ ?r2) q"
    using r by (auto simp: msg_cdma_sms_def Let_def)
  have la: "nat (min (uint (adr_number_of_digits ?a)) (int RIL_CDMA_SMS_ADDRESS_MAX)) = length ?ad"
      "length ?ad \<le> RIL_CDMA_SMS_ADDRESS_MAX"
    using ok by (auto simp: min_uint cdma_sms_ok_def adr_count_def)
  have ls: "nat (min (uint (sub_number_of_digits ?s)) (int RIL_CDMA_SMS_SUBADDRESS_MAX)) = length ?sd"
      "length ?sd \<le> RIL_CDMA_SMS_SUBADDRESS_MAX"
    using ok by (auto simp: min_uint cdma_sms_ok_def sub_count_def)
  have lb: "nat (min (sint (msg_uBearerDataLen m)) (int RIL_CDMA_SMS_BEARER_DATA_MAX)) = length ?bd"
      "length ?bd \<le> RIL_CDMA_SMS_BEARER_DATA_MAX"
    using ok by (auto simp: cdma_sms_ok_def bearer_count_def)
  obtain p9 u9 where d1: "reads (env_parcel E) p9 ?r2 q"
      "read_digits E (min (uint (adr_number_of_digits ?a)) (int RIL_CDMA_SMS_ADDRESS_MAX))
        RIL_CDMA_SMS_ADDRESS_MAX (adr_number_of_digits ?a) NO_ERROR p8 =
       Some (padded RIL_CDMA_SMS_ADDRESS_MAX ?ad, u9, NO_ERROR, p9)"
    using read_digits_padded [OF h(9) la] by blast
  obtain p10 p11 p12 where g: "\<forall>t. readInt32 E p9 t = (NO_ERROR, sub_subaddressType ?s, p10)"
      "\<forall>b. read_u8 E p10 b = (NO_ERROR, sub_odd ?s, p11)"
      "\<forall>b. read_u8 E p11 b = (NO_ERROR, sub_number_of_digits ?s, p12)"
      "reads (env_parcel E) p12 (map Byte ?sd @ ?r3) q"
    using d1(1) by auto
  obtain p13 u13 where d2: "reads (env_parcel E) p13 ?r3 q"
      "read_digits E (min (uint (sub_number_of_digits ?s)) (int RIL_CDMA_SMS_SUBADDRESS_MAX))
        RIL_CDMA_SMS_SUBADDRESS_MAX (sub_number_of_digits ?s) NO_ERROR p12 =
       Some (padded RIL_CDMA_SMS_SUBADDRESS_MAX ?sd, u13, NO_ERROR, p13)"
    using read_digits_padded [OF g(4) ls] by blast
  obtain p14 where f: "\<forall>t. readInt32 E p13 t = (NO_ERROR, msg_uBearerDataLen m, p14)"
      "reads (env_parcel E) p14 (map Byte ?bd @ []) q" using d2(1) by auto
  obtain p15 u15 where d3: "read_digits E (min (sint (msg_uBearerDataLen m)) (int RIL_CDMA_SMS_BEARER_DATA_MAX))
        RIL_CDMA_SMS_BEARER_DATA_MAX u13 NO_ERROR p14 =
       Some (padded RIL_CDMA_SMS_BEARER_DATA_MAX ?bd, u15, NO_ERROR, p15)"
    using read_digits_padded [OF f(2) lb] by blast
  show ?thesis
    using h(1-8) d1(2) g(1-3) d2(2) f(1) d3
    by (simp add: dispatchCdmaSms_def Let_def cdma_sms_clear_def)
qed

lemma msg_cdma_sms_ok: "list_all item_ok (msg_cdma_sms m)"
  by (auto simp: list_all_iff msg_cdma_sms_def Let_def)

lemma dispatchCdmaSms_holds: "holds E p (msg_cdma_sms m) \<Longrightarrow> cdma_sms_ok m \<Longrightarrow>
    dispatchCdmaSms E p = Some (OnRequest (DCdmaSms (cdma_sms_clear m)) (size_of RIL_CDMA_SMS_Message_layout))"
  by (auto simp: holds_def dest: dispatchCdmaSms_reads)

section \<open>Broadcast configurations\<close>

definition msg_gsm_entry :: "RIL_GSM_BroadcastSmsConfigInfo \<Rightarrow> item list" where
  "msg_gsm_entry c = [I32 (gsmb_fromServiceId c), I32 (gsmb_toServiceId c), I32 (gsmb_fromCodeScheme c),
     I32 (gsmb_toCodeScheme c), I32 (ucast (gsmb_selected c))]"

definition msg_cdma_entry :: "RIL_CDMA_BroadcastSmsConfigInfo \<Rightarrow> item list" where
  "msg_cdma_entry c = [I32 (cdmab_service_category c), I32 (cdmab_language c),
     I32 (ucast (cdmab_selected c))]"

definition msg_list :: "('a \<Rightarrow> item list) \<Rightarrow> 'a list \<Rightarrow> item list" where
  "msg_list f cs = I32 (of_nat (length cs)) # concat (map f cs)"

lemma ucast_i32_u8 [simp]: "(ucast (ucast c :: i32) :: u8) = c"
  by (rule bit_word_eqI) (simp add: bit_simps)

text \<open>A loop whose rounds read one entry each and append it.\<close>

lemma append_loop:
  assumes step: "\<And>i p c cs its acc t st. reads P p (f c @ its) q \<Longrightarrow>
      \<exists>p' t'. reads P p' its q \<and> body i (acc, t, st, p) = Some (acc @ [c], t', NO_ERROR, p')"
  shows "reads P p (concat (map f cs)) q \<Longrightarrow> length is = length cs \<Longrightarrow>
    \<exists>p' t'. foldM body is (acc, t, NO_ERROR, p) = Some (acc @ cs, t', NO_ERROR, p')"
proof (induction cs arbitrary: p "is" acc t)
  case Nil
  then show ?case by simp
next
  case (Cons c cs)
  then obtain i js where js: "is = i # js" "length js = length cs" by (cases "is") auto
  obtain p1 t1 where p1: "reads P p1 (concat (map f cs)) q"
      "body i (acc, t, NO_ERROR, p) = Some (acc @ [c], t1, NO_ERROR, p1)"
    using step [of p c "concat (map f cs)" i acc t NO_ERROR] Cons.prems(1) by auto
  from Cons.IH [OF p1(1) js(2), of "acc @ [c]" t1] show ?case using p1(2) js(1) by simp
qed

lemma dispatchGsmBrSmsCnf_parcel:
  assumes good: "good_env E" and at: "holds E p0 (msg_list msg_gsm_entry cs)"
    and ptr: "4 \<le> ptr_size (env_abi E)" and len: "length cs < 2 ^ 27"
    and stack: "length cs * (size_of RIL_GSM_BroadcastSmsConfigInfo_layout + ptr_size (env_abi E))
      \<le> stack_avail (env_abi E)"
    and wrap: "ptr_size (env_abi E) * length cs < 2 ^ (8 * ptr_size (env_abi E))"
  shows "dispatchGsmBrSmsCnf E p0 =
    Some (OnRequest (DGsmBrSmsCnf cs) (ptr_size (env_abi E) * length cs))"
proof -
  obtain q where "reads (env_parcel E) p0 (msg_list msg_gsm_entry cs) q"
    using at unfolding holds_def by blast
  then obtain p1 where p1: "\<forall>t. readInt32 E p0 t = (NO_ERROR, of_nat (length cs), p1)"
      "reads (env_parcel E) p1 (concat (map msg_gsm_entry cs)) q" by (auto simp: msg_list_def)
  have n: "sint (of_nat (length cs) :: i32) = int (length cs)"
    using small_length(1) [of "length cs" "env_abi E"] len ptr by simp
  have "\<exists>p' t'. dispatchGsmBrSmsCnf_step E i (acc, t, st, p) = Some (acc @ [c], t', NO_ERROR, p') \<and>
      reads (env_parcel E) p' its q" if "reads (env_parcel E) p (msg_gsm_entry c @ its) q" for i p c its acc t st
    using that by (auto simp: msg_gsm_entry_def dispatchGsmBrSmsCnf_step_def)
  then obtain p' t' where "foldM (dispatchGsmBrSmsCnf_step E) [0..<length cs] ([], env_t E, NO_ERROR, p1) =
      Some ([] @ cs, t', NO_ERROR, p')"
    using append_loop [of "env_parcel E" msg_gsm_entry q "dispatchGsmBrSmsCnf_step E" p1 cs "[0..<length cs]"]
      p1(2) by (metis diff_zero length_upt)
  moreover have "to_size (env_abi E) (int (length cs) * int (ptr_size (env_abi E))) = ptr_size (env_abi E) * length cs"
    using wrap by (simp add: to_size_def mult.commute flip: of_nat_mult)
  ultimately show ?thesis
    using p1(1) n stack by (simp add: dispatchGsmBrSmsCnf_def Let_def alloca_def)
qed

lemma dispatchCdmaBrSmsCnf_parcel:
  assumes good: "good_env E" and at: "holds E p0 (msg_list msg_cdma_entry cs)"
    and ptr: "4 \<le> ptr_size (env_abi E)" and len: "length cs < 2 ^ 27"
    and stack: "length cs * (size_of RIL_CDMA_BroadcastSmsConfigInfo_layout + ptr_size (env_abi E))
      \<le> stack_avail (env_abi E)"
    and wrap: "ptr_size (env_abi E) * length cs < 2 ^ (8 * ptr_size (env_abi E))"
  shows "dispatchCdmaBrSmsCnf E p0 =
    Some (OnRequest (DCdmaBrSmsCnf cs) (ptr_size (env_abi E) * length cs))"
proof -
  obtain q where "reads (env_parcel E) p0 (msg_list msg_cdma_entry cs) q"
    using at unfolding holds_def by blast
  then obtain p1 where p1: "\<forall>t. readInt32 E p0 t = (NO_ERROR, of_nat (length cs), p1)"
      "reads (env_parcel E) p1 (concat (map msg_cdma_entry cs)) q" by (auto simp: msg_list_def)
  have n: "sint (of_nat (length cs) :: i32) = int (length cs)"
    using small_length(1) [of "length cs" "env_abi E"] len ptr by simp
  have "\<exists>p' t'. dispatchCdmaBrSmsCnf_step E i (acc, t, st, p) = Some (acc @ [c], t', NO_ERROR, p') \<and>
      reads (env_parcel E) p' its q" if "reads (env_parcel E) p (msg_cdma_entry c @ its) q" for i p c its acc t st
    using that by (auto simp: msg_cdma_entry_def dispatchCdmaBrSmsCnf_step_def)
  then obtain p' t' where "foldM (dispatchCdmaBrSmsCnf_step E) [0..<length cs] ([], env_t E, NO_ERROR, p1) =
      Some ([] @ cs, t', NO_ERROR, p')"
    using append_loop [of "env_parcel E" msg_cdma_entry q "dispatchCdmaBrSmsCnf_step E" p1 cs "[0..<length cs]"]
      p1(2) by (metis diff_zero length_upt)
  moreover have "to_size (env_abi E) (int (length cs) * int (ptr_size (env_abi E))) = ptr_size (env_abi E) * length cs"
    using wrap by (simp add: to_size_def mult.commute flip: of_nat_mult)
  ultimately show ?thesis
    using p1(1) n stack by (simp add: dispatchCdmaBrSmsCnf_def Let_def alloca_def)
qed

section \<open>Memory safety\<close>

text \<open>
  The dispatch functions that allocate by a count of the parcel. All others have a defined result
  on every parcel, however malformed.
\<close>

definition counted :: "dispatch_fn list" where
  "counted = [DispatchStrings, DispatchInts, DispatchGsmBrSmsCnf, DispatchCdmaBrSmsCnf]"

lemma Some_bind_ex: "\<exists>r. m = Some r \<Longrightarrow> (\<And>r. m = Some r \<Longrightarrow> \<exists>x. f r = Some x) \<Longrightarrow> \<exists>x. Option.bind m f = Some x"
  by auto

lemma dispatchCdmaSms_defined: "\<exists>r. dispatchCdmaSms E p = Some r"
  unfolding dispatchCdmaSms_def Let_def split_def
  by (intro Some_bind_ex read_digits_defined) simp_all

lemma dispatchRilCdmaSmsWriteArgs_defined: "\<exists>r. dispatchRilCdmaSmsWriteArgs E p = Some r"
  unfolding dispatchRilCdmaSmsWriteArgs_def Let_def split_def
  by (intro Some_bind_ex read_digits_defined) simp_all

lemma dispatch_defined: "f \<notin> set counted \<Longrightarrow> \<exists>r. dispatch f E p = Some r"
  using dispatchCdmaSms_defined [of E p] dispatchRilCdmaSmsWriteArgs_defined [of E p]
  by (cases f) (auto simp: counted_def dispatchVoid_def dispatchString_def dispatchRaw_def
      dispatchSmsWrite_def dispatchDial_def dispatchSIM_IO_def dispatchCallForward_def
      dispatchCdmaSmsAck_def Let_def split: prod.splits option.splits)

text \<open>With 64-bit pointers, every negative count of integers or configurations is undefined.\<close>

lemma negative_size: "ptr_size a = 8 \<Longrightarrow> - (2 ^ 35) \<le> x \<Longrightarrow> x < 0 \<Longrightarrow> 2 ^ 63 \<le> to_size a x"
proof -
  assume a: "ptr_size a = 8" "- (2 ^ 35) \<le> x" "x < 0"
  have "x mod 2 ^ 64 = (x + 2 ^ 64) mod 2 ^ 64" by simp
  also have "\<dots> = x + 2 ^ 64" using a(2,3) by (intro mod_pos_pos_trivial) auto
  finally show ?thesis using a by (simp add: to_size_def)
qed

lemma sint_lower: "- (2 ^ 31) \<le> sint (n :: i32)"
  using sint_ge [of n] by simp

lemma negative_count:
  assumes good: "good_env E" and at: "holds E p0 (I32 n # its)"
    and ptr: "ptr_size (env_abi E) = 8"
    and stack: "stack_avail (env_abi E) < 2 ^ 63" and n: "sint n < 0"
    and f: "f \<in> set counted" "f = DispatchStrings \<Longrightarrow> n \<noteq> - 1"
  shows "dispatch f E p0 = None"
proof -
  obtain q where "reads (env_parcel E) p0 (I32 n # its) q"
    using at unfolding holds_def by blast
  then obtain p1 where p1: "\<forall>t. readInt32 E p0 t = (NO_ERROR, n, p1)" by auto
  have nz: "n \<noteq> 0" using n by auto
  have "\<not> to_size (env_abi E) (k * sint n) \<le> stack_avail (env_abi E)" if "k = 4 \<or> k = 8" for k
    using negative_size [OF ptr, of "k * sint n"] stack n sint_lower [of n] that by auto
  from this [of 4] this [of 8] show ?thesis
    using p1 n nz f ptr
    by (auto simp: counted_def dispatchInts_def dispatchStrings_def dispatchGsmBrSmsCnf_def
        dispatchCdmaBrSmsCnf_def Let_def alloca_def)
qed

section \<open>The guarantees\<close>

definition demo_env :: "byte_parcel ril_env" where
  "demo_env = \<lparr>env_abi = abi64, env_parcel = byte_platform, env_version = 3, env_t = 7, env_ut = 9\<rparr>"

lemma demo_env_simps [simp]:
  "env_abi demo_env = abi64" "env_parcel demo_env = byte_platform" "env_version demo_env = 3"
  "env_t demo_env = 7" "env_ut demo_env = 9"
  "ptr_size abi64 = 8" "stack_avail abi64 = 65536" "char_signed abi64 = True"
  by (simp_all add: demo_env_def abi64_def)

lemma demo_env_good: "good_env demo_env"
  by (simp add: bytes.parcel_stream_axioms)

lemma demo_holds: "list_all item_ok its \<Longrightarrow> holds demo_env (parcel demo_env its) its"
  by (rule parcel_holds [OF demo_env_good])

text \<open>C37: A short-message request for CDMA that carries the message \<open>m\<close> calls the vendor library with
  exactly \<open>m\<close>, the arrays filled up to the counts, which are cut off at the size of the arrays, and
  cleared behind them.\<close>

theorem dispatchCdmaSms_decodes:
  assumes "holds E p (msg_cdma_sms m)" and "cdma_sms_ok m"
  shows "dispatchCdmaSms E p =
    Some (OnRequest (DCdmaSms (cdma_sms_clear m)) (size_of RIL_CDMA_SMS_Message_layout))"
  by (rule dispatchCdmaSms_holds [OF assms])

text \<open>An address that claims more digits than there are places, and a negative length of data.\<close>

definition demo_cdma_sms :: RIL_CDMA_SMS_Message where
  "demo_cdma_sms = \<lparr>msg_uTeleserviceID = 4098, msg_bIsServicePresent = 1, msg_uServicecategory = 2,
     msg_sAddress = \<lparr>adr_digit_mode = 0, adr_number_mode = 1, adr_number_type = 2, adr_number_plan = 3,
       adr_number_of_digits = 200, adr_digits = replicate 36 5\<rparr>,
     msg_sSubAddress = \<lparr>sub_subaddressType = 0, sub_odd = 1, sub_number_of_digits = 0,
       sub_digits = replicate 36 6\<rparr>,
     msg_uBearerDataLen = - 1, msg_aBearerData = replicate 255 7\<rparr>"

lemma demo_cdma_sms_ok: "cdma_sms_ok demo_cdma_sms"
  by (simp add: cdma_sms_ok_def demo_cdma_sms_def ril_limits)

theorem dispatchCdmaSms_decodes_witness:
  "dispatchCdmaSms demo_env (parcel demo_env (msg_cdma_sms demo_cdma_sms)) =
    Some (OnRequest (DCdmaSms (cdma_sms_clear demo_cdma_sms)) 372) \<and>
   sub_digits (msg_sSubAddress (cdma_sms_clear demo_cdma_sms)) = replicate 36 0"
  using dispatchCdmaSms_decodes [OF demo_holds [OF msg_cdma_sms_ok] demo_cdma_sms_ok] sizes_fixed(3)
  by (simp add: cdma_sms_clear_def padded_def demo_cdma_sms_def sub_count_def ril_limits)

text \<open>A dial request calls the vendor library with the address, the CLIR mode and, from version 3
  of the interface on, the user-to-user information it carries; for an older vendor library this
  part is left out and the struct is one pointer shorter.\<close>

theorem dispatchDial_decodes:
  assumes "good_env E" and "holds E p (msg_dial E d)"
    and "dial_address d \<noteq> None" and "ascii_opt (dial_address d)"
    and "pred_option uus_ok (dial_uusInfo d)" and "4 \<le> ptr_size (env_abi E)"
  shows "dispatchDial E p = Some
    (if env_version E < 3
     then OnRequest (DDial (d\<lparr>dial_uusInfo := None\<rparr>)) (size_of (RIL_Dial_layout (env_abi E)) - ptr_size (env_abi E))
     else OnRequest (DDial d) (size_of (RIL_Dial_layout (env_abi E))))"
  by (rule dispatchDial_parcel [OF assms])

definition demo_dial :: RIL_Dial where
  "demo_dial = \<lparr>dial_address = Some [49, 49, 50], dial_clir = 0, dial_uusInfo =
     Some \<lparr>uus_uusType = 1, uus_uusDcs = 2, uus_uusLength = 3, uus_uusData = Some [1, 2, 3]\<rparr>\<rparr>"

theorem dispatchDial_decodes_witness:
  "dispatchDial demo_env (parcel demo_env (msg_dial demo_env demo_dial)) =
    Some (OnRequest (DDial demo_dial) 24)"
  using dispatchDial_decodes [OF demo_env_good demo_holds, of demo_dial] sizes_64(2)
  by (simp add: demo_dial_def msg_dial_def msg_uus_def byte_platform_def ascii_opt_def ascii_def uus_ok_def)

text \<open>A SIM I/O request is decoded field by field. Cut off before the last integer it is reported as
  an invalid command block, but cut off later it still reaches the vendor library, with null
  pointers for the missing \<open>data\<close> and \<open>pin2\<close>: the status is that of the last integer only.\<close>

theorem dispatchSIM_IO_decodes:
  assumes "good_env E" and "holds E p (take k (msg_sim_io E d))"
    and "sim_io_ok d" and "k \<le> 8"
  shows "dispatchSIM_IO E p =
    (if k < 6 then Some InvalidCommandBlock
     else Some (OnRequest (DSimIO (d\<lparr>sio_data := (if k < 7 then None else sio_data d),
            sio_pin2 := (if k < 8 then None else sio_pin2 d)\<rparr>))
          (size_of (RIL_SIM_IO_layout (env_abi E)))))"
  by (rule dispatchSIM_IO_parcel [OF assms])

definition demo_sim_io :: RIL_SIM_IO where
  "demo_sim_io = \<lparr>sio_command = 176, sio_fileid = 28474, sio_path = Some [51, 70], sio_p1 = 0, sio_p2 = 0,
     sio_p3 = 15, sio_data = None, sio_pin2 = Some [49]\<rparr>"

theorem dispatchSIM_IO_decodes_witness:
  "dispatchSIM_IO demo_env (parcel demo_env (take 7 (msg_sim_io demo_env demo_sim_io))) =
    Some (OnRequest (DSimIO (demo_sim_io\<lparr>sio_pin2 := None\<rparr>)) 48)"
  using dispatchSIM_IO_decodes [OF demo_env_good demo_holds, where d = demo_sim_io and k = 7] sizes_64(3)
  by (simp add: demo_sim_io_def msg_sim_io_def byte_platform_def sim_io_ok_def ascii_opt_def ascii_def)

text \<open>A request with integers is passed on when all the integers its count announces are there, and
  exactly these; a count of zero or a missing integer makes it an invalid command block. This holds
  for counts that the stack has room for.\<close>

theorem dispatchInts_decodes:
  assumes "good_env E" and "holds E p (I32 n # map I32 xs)"
    and "0 \<le> sint n" and "fits E 4 (nat (sint n))"
  shows "dispatchInts E p =
    (if n = 0 \<or> length xs < nat (sint n) then Some InvalidCommandBlock
     else Some (OnRequest (DInts (take (nat (sint n)) xs)) (4 * nat (sint n))))"
  by (rule dispatchInts_parcel [OF assms])

theorem dispatchInts_decodes_witness:
  "dispatchInts demo_env (parcel demo_env (I32 2 # map I32 [7, 8, 9])) = Some (OnRequest (DInts [7, 8]) 8) \<and>
   dispatchInts demo_env (parcel demo_env (I32 2 # map I32 [7])) = Some InvalidCommandBlock"
  using dispatchInts_decodes [OF demo_env_good demo_holds, of 2 "[7, 8, 9]"]
    dispatchInts_decodes [OF demo_env_good demo_holds, of 2 "[7]"]
  by (simp add: fits_def)

text \<open>A request with strings passes them on in order; strings that the count announces but the
  parcel does not hold are passed on as null pointers, not reported.\<close>

theorem dispatchStrings_decodes:
  assumes "good_env E" and "holds E p (I32 n # map (str8 E) ss)"
    and "0 < sint n" and "fits E (ptr_size (env_abi E)) (nat (sint n))"
    and "0 < ptr_size (env_abi E)" and "list_all ascii_opt ss"
  shows "dispatchStrings E p =
    Some (OnRequest (DStrings (Some (take (nat (sint n)) ss @ replicate (nat (sint n) - length ss) None)))
      (ptr_size (env_abi E) * nat (sint n)))"
  by (rule dispatchStrings_parcel [OF assms])

theorem dispatchStrings_decodes_witness:
  "dispatchStrings demo_env (parcel demo_env (I32 3 # map (str8 demo_env) [Some [49], None])) =
    Some (OnRequest (DStrings (Some [Some [49], None, None])) 24)"
  using dispatchStrings_decodes [OF demo_env_good demo_holds, of 3 "[Some [49], None]"]
  by (simp add: fits_def ascii_opt_def ascii_def byte_platform_def)

text \<open>A call-forwarding request is decoded field by field, an empty number as a null pointer; cut off
  anywhere it is an invalid command block.\<close>

theorem dispatchCallForward_decodes:
  assumes "good_env E" and "holds E p (take k (msg_call_forward E d))"
    and "ascii_opt (cf_number d)" and "k \<le> 6"
  shows "dispatchCallForward E p =
    (if k < 6 then Some InvalidCommandBlock
     else Some (OnRequest (DCallForward (d\<lparr>cf_number := (if cf_number d = Some [] then None else cf_number d)\<rparr>))
          (size_of (RIL_CallForwardInfo_layout (env_abi E)))))"
  by (rule dispatchCallForward_parcel [OF assms])

definition demo_forward :: RIL_CallForwardInfo where
  "demo_forward = \<lparr>cf_status = 1, cf_reason = 2, cf_serviceClass = 1, cf_toa = 129, cf_number = Some [],
     cf_timeSeconds = 20\<rparr>"

theorem dispatchCallForward_decodes_witness:
  "dispatchCallForward demo_env (parcel demo_env (msg_call_forward demo_env demo_forward)) =
    Some (OnRequest (DCallForward (demo_forward\<lparr>cf_number := None\<rparr>)) 32)"
  using dispatchCallForward_decodes [OF demo_env_good demo_holds, where d = demo_forward and k = 6] sizes_64(4)
  by (simp add: demo_forward_def byte_platform_def ascii_opt_def ascii_def msg_call_forward_def)



text \<open>C39: The four dispatch functions that allocate by a count do not check it: on a 64-bit platform a
  request with a negative count (other than -1 for strings) is undefined behaviour.\<close>

theorem dispatch_negative_count:
  assumes "good_env E" and "holds E p (I32 n # its)"
    and "ptr_size (env_abi E) = 8"
    and "stack_avail (env_abi E) < 2 ^ 63" and "sint n < 0"
    and "f \<in> set counted" and "f = DispatchStrings \<Longrightarrow> n \<noteq> - 1"
  shows "dispatch f E p = None"
  by (rule negative_count [OF assms])

theorem dispatch_negative_count_witness:
  "dispatch DispatchInts demo_env (parcel demo_env (I32 (- 1) # [])) = None"
  using dispatch_negative_count [OF demo_env_good demo_holds, of "- 1" "[]" DispatchInts] by (simp add: counted_def)

end
