(* ===== verification/Ril_Response.thy ===== *)
theory Ril_Response
  imports Ril_Layout Ril_Parcel Ril_Tables
begin

text \<open>
  The response functions of \<open>libril/ril.cpp\<close>: each checks a response of the vendor library and
  marshals it into a parcel. The result is the function's return value and the parcel, which
  keeps what was written before an error was found.

  The vendor passes a pointer and a length. \<open>resp_data\<close> is the memory the pointer leads to, with
  its type; what the code reads outside it, or through a null pointer, is undefined (\<open>None\<close>).
  A null string given to \<open>printf ("%s")\<close> is printed, as the C libraries of the platform do.
\<close>

definition RIL_ERRNO_INVALID_RESPONSE :: i32 where "RIL_ERRNO_INVALID_RESPONSE = - 1"

section \<open>What the vendor library passes\<close>

datatype resp_data =
    RInts "i32 list"
  | RStrings "cstr list"
  | RString "u8 list"
  | RCallList "RIL_Call list"            \<comment> \<open>an array of pointers\<close>
  | RSMS RIL_SMS_Response
  | RDataCallList "RIL_Data_Call_Response list"
  | RRaw "u8 list"
  | RSIM_IO RIL_SIM_IO_Response
  | RCallForwards "RIL_CallForwardInfo list"   \<comment> \<open>an array of pointers\<close>
  | RSsn RIL_SuppSvcNotification
  | RCellList "RIL_NeighboringCell list"       \<comment> \<open>an array of pointers\<close>
  | RInformationRecords RIL_CDMA_InformationRecords
  | RSignalStrength RIL_SignalStrength
  | RSignalInfo RIL_CDMA_SignalInfoRecord
  | RCallWaiting RIL_CDMA_CallWaiting
  | RCardStatus RIL_CardStatus
  | RGsmBrSmsCnf "RIL_GSM_BroadcastSmsConfigInfo list"    \<comment> \<open>an array of pointers\<close>
  | RCdmaBrSmsCnf "RIL_CDMA_BroadcastSmsConfigInfo list"  \<comment> \<open>an array of pointers\<close>
  | RCdmaSms RIL_CDMA_SMS_Message

text \<open>The casts. Through a pointer to something else there is nothing to read.\<close>

fun as_ints :: "resp_data option \<Rightarrow> i32 list" where
  "as_ints (Some (RInts xs)) = xs" | "as_ints _ = []"

fun as_strings :: "resp_data option \<Rightarrow> cstr list" where
  "as_strings (Some (RStrings xs)) = xs" | "as_strings _ = []"

fun as_calls :: "resp_data option \<Rightarrow> RIL_Call list" where
  "as_calls (Some (RCallList xs)) = xs" | "as_calls _ = []"

fun as_data_calls :: "resp_data option \<Rightarrow> RIL_Data_Call_Response list" where
  "as_data_calls (Some (RDataCallList xs)) = xs" | "as_data_calls _ = []"

fun as_forwards :: "resp_data option \<Rightarrow> RIL_CallForwardInfo list" where
  "as_forwards (Some (RCallForwards xs)) = xs" | "as_forwards _ = []"

fun as_cells :: "resp_data option \<Rightarrow> RIL_NeighboringCell list" where
  "as_cells (Some (RCellList xs)) = xs" | "as_cells _ = []"

fun as_gsm_cnf :: "resp_data option \<Rightarrow> RIL_GSM_BroadcastSmsConfigInfo list" where
  "as_gsm_cnf (Some (RGsmBrSmsCnf xs)) = xs" | "as_gsm_cnf _ = []"

fun as_cdma_cnf :: "resp_data option \<Rightarrow> RIL_CDMA_BroadcastSmsConfigInfo list" where
  "as_cdma_cnf (Some (RCdmaBrSmsCnf xs)) = xs" | "as_cdma_cnf _ = []"

abbreviation writeInt32 :: "'p ril_env \<Rightarrow> 'p \<Rightarrow> i32 \<Rightarrow> 'p" where
  "writeInt32 E \<equiv> pf_writeInt32 (env_parcel E)"

abbreviation writeString8 :: "'p ril_env \<Rightarrow> 'p \<Rightarrow> cstr \<Rightarrow> 'p" where
  "writeString8 E \<equiv> writeStringToParcel (env_parcel E)"

abbreviation writeChar :: "'p ril_env \<Rightarrow> 'p \<Rightarrow> u8 \<Rightarrow> 'p" where
  "writeChar E p c \<equiv> writeInt32 E p (char_to_int (env_abi E) c)"

abbreviation write_u8 :: "'p ril_env \<Rightarrow> 'p \<Rightarrow> u8 \<Rightarrow> 'p" where
  "write_u8 E p b \<equiv> pf_write (env_parcel E) p [b]"

text \<open>
  \<open>p.write (data, len)\<close> reads \<open>len\<close> bytes of \<open>data\<close>.
\<close>

definition write_bytes :: "'p ril_env \<Rightarrow> 'p \<Rightarrow> u8 list \<Rightarrow> nat \<Rightarrow> 'p option" where
  "write_bytes E p data len =
     (if len \<le> length data then Some (pf_write (env_parcel E) p (take len data)) else None)"

type_synonym 'p response_result = "(i32 \<times> 'p) option"

abbreviation response_ok :: "'p \<Rightarrow> 'p response_result" where
  "response_ok p \<equiv> Some (0, p)"

abbreviation invalid_response :: "'p \<Rightarrow> 'p response_result" where
  "invalid_response p \<equiv> Some (RIL_ERRNO_INVALID_RESPONSE, p)"

section \<open>Integers, strings and raw bytes\<close>

text \<open>The count divides by \<open>sizeof (int *)\<close>, not by \<open>sizeof (int)\<close>.\<close>

definition responseInts :: "'p ril_env \<Rightarrow> 'p \<Rightarrow> resp_data option \<Rightarrow> nat \<Rightarrow> 'p response_result" where
  "responseInts E p response responselen =
     (if response = None \<and> responselen \<noteq> 0 then invalid_response p
      else if responselen mod 4 \<noteq> 0 then invalid_response p
      else
        (let p_int = as_ints response;
             numInts = of_nat (responselen div ptr_size (env_abi E));
             p = writeInt32 E p numInts
         in do {
           p \<leftarrow> for_int numInts (\<lambda>i p. do { x \<leftarrow> aget p_int i; Some (writeInt32 E p x) }) p;
           response_ok p
         }))"

definition responseStrings :: "'p ril_env \<Rightarrow> 'p \<Rightarrow> resp_data option \<Rightarrow> nat \<Rightarrow> 'p response_result" where
  "responseStrings E p response responselen =
     (if response = None \<and> responselen \<noteq> 0 then invalid_response p
      else if responselen mod ptr_size (env_abi E) \<noteq> 0 then invalid_response p
      else if response = None then response_ok (writeInt32 E p 0)
      else
        (let p_cur = as_strings response;
             numStrings = of_nat (responselen div ptr_size (env_abi E));
             p = writeInt32 E p numStrings
         in do {
           p \<leftarrow> for_int numStrings (\<lambda>i p. do { s \<leftarrow> aget p_cur i; Some (writeString8 E p s) }) p;
           response_ok p
         }))"

definition responseString :: "'p ril_env \<Rightarrow> 'p \<Rightarrow> resp_data option \<Rightarrow> nat \<Rightarrow> 'p response_result" where
  "responseString E p response responselen =
     (case response of
        None \<Rightarrow> response_ok (writeString8 E p None)
      | Some (RString s) \<Rightarrow> response_ok (writeString8 E p (Some s))
      | _ \<Rightarrow> None)"

definition responseVoid :: "'p ril_env \<Rightarrow> 'p \<Rightarrow> resp_data option \<Rightarrow> nat \<Rightarrow> 'p response_result" where
  "responseVoid E p response responselen = response_ok p"

definition responseRaw :: "'p ril_env \<Rightarrow> 'p \<Rightarrow> resp_data option \<Rightarrow> nat \<Rightarrow> 'p response_result" where
  "responseRaw E p response responselen =
     (case response of
        None \<Rightarrow> if responselen \<noteq> 0 then invalid_response p else response_ok (writeInt32 E p (- 1))
      | Some (RRaw data) \<Rightarrow>
          do { p \<leftarrow> write_bytes E (writeInt32 E p (of_nat responselen)) data responselen; response_ok p }
      | _ \<Rightarrow> None)"

section \<open>Calls, messages and lists of records\<close>

definition write_uus :: "'p ril_env \<Rightarrow> RIL_UUS_Info option \<Rightarrow> 'p \<Rightarrow> 'p option" where
  "write_uus E uusInfo p =
     (case (if env_version E < 3 then None else uusInfo) of
        None \<Rightarrow> Some (writeInt32 E p 0)
      | Some uus \<Rightarrow>
          (case uus_uusData uus of
             None \<Rightarrow> Some (writeInt32 E p 0)
           | Some uusData \<Rightarrow>
               (let p = writeInt32 E p 1;
                    p = writeInt32 E p (uus_uusType uus);
                    p = writeInt32 E p (uus_uusDcs uus);
                    p = writeInt32 E p (uus_uusLength uus)
                in write_bytes E p uusData (to_size (env_abi E) (sint (uus_uusLength uus))))))"

definition responseCallList_each :: "'p ril_env \<Rightarrow> RIL_Call \<Rightarrow> 'p \<Rightarrow> 'p option" where
  "responseCallList_each E p_cur p =
     (let p = writeInt32 E p (RIL_CallState_val (call_state p_cur));
          p = writeInt32 E p (call_index p_cur);
          p = writeInt32 E p (call_toa p_cur);
          p = writeChar E p (call_isMpty p_cur);
          p = writeChar E p (call_isMT p_cur);
          p = writeChar E p (call_als p_cur);
          p = writeChar E p (call_isVoice p_cur);
          p = writeChar E p (call_isVoicePrivacy p_cur);
          p = writeString8 E p (call_number p_cur);
          p = writeInt32 E p (call_numberPresentation p_cur);
          p = writeString8 E p (call_name p_cur);
          p = writeInt32 E p (call_namePresentation p_cur)
      in write_uus E (call_uusInfo p_cur) p)"

text \<open>The lists of pointers: a count, then the records.\<close>

definition respond_list ::
    "'p ril_env \<Rightarrow> nat \<Rightarrow> 'a list \<Rightarrow> ('a \<Rightarrow> 'p \<Rightarrow> 'p option) \<Rightarrow> nat \<Rightarrow> 'p \<Rightarrow> 'p response_result" where
  "respond_list E elem_size elems each responselen p =
     (let num = of_nat (responselen div elem_size);
          p = writeInt32 E p num
      in do {
        p \<leftarrow> for_int num (\<lambda>i p. do { p_cur \<leftarrow> aget elems i; each p_cur p }) p;
        response_ok p
      })"

definition responseCallList :: "'p ril_env \<Rightarrow> 'p \<Rightarrow> resp_data option \<Rightarrow> nat \<Rightarrow> 'p response_result" where
  "responseCallList E p response responselen =
     (if response = None \<and> responselen \<noteq> 0 then invalid_response p
      else if responselen mod ptr_size (env_abi E) \<noteq> 0 then invalid_response p
      else respond_list E (ptr_size (env_abi E)) (as_calls response) (responseCallList_each E)
             responselen p)"

definition responseSMS :: "'p ril_env \<Rightarrow> 'p \<Rightarrow> resp_data option \<Rightarrow> nat \<Rightarrow> 'p response_result" where
  "responseSMS E p response responselen =
     (if response = None then invalid_response p
      else if responselen \<noteq> size_of (RIL_SMS_Response_layout (env_abi E)) then invalid_response p
      else case response of
        Some (RSMS p_cur) \<Rightarrow>
          (let p = writeInt32 E p (sms_messageRef p_cur);
               p = writeString8 E p (sms_ackPDU p_cur);
               p = writeInt32 E p (sms_errorCode p_cur)
           in response_ok p)
      | _ \<Rightarrow> None)"

definition responseDataCallList_each :: "'p ril_env \<Rightarrow> RIL_Data_Call_Response \<Rightarrow> 'p \<Rightarrow> 'p option" where
  "responseDataCallList_each E p_cur p =
     (let p = writeInt32 E p (dc_cid p_cur);
          p = writeInt32 E p (dc_active p_cur);
          p = writeString8 E p (dc_type p_cur);
          p = writeString8 E p (dc_apn p_cur);
          p = writeString8 E p (dc_address p_cur)
      in Some p)"

definition responseDataCallList :: "'p ril_env \<Rightarrow> 'p \<Rightarrow> resp_data option \<Rightarrow> nat \<Rightarrow> 'p response_result" where
  "responseDataCallList E p response responselen =
     (let sizeof_call = size_of (RIL_Data_Call_Response_layout (env_abi E))
      in if response = None \<and> responselen \<noteq> 0 then invalid_response p
         else if responselen mod sizeof_call \<noteq> 0 then invalid_response p
         else respond_list E sizeof_call (as_data_calls response) (responseDataCallList_each E)
                responselen p)"

definition responseSIM_IO :: "'p ril_env \<Rightarrow> 'p \<Rightarrow> resp_data option \<Rightarrow> nat \<Rightarrow> 'p response_result" where
  "responseSIM_IO E p response responselen =
     (if response = None then invalid_response p
      else if responselen \<noteq> size_of (RIL_SIM_IO_Response_layout (env_abi E)) then invalid_response p
      else case response of
        Some (RSIM_IO p_cur) \<Rightarrow>
          (let p = writeInt32 E p (sior_sw1 p_cur);
               p = writeInt32 E p (sior_sw2 p_cur);
               p = writeString8 E p (sior_simResponse p_cur)
           in response_ok p)
      | _ \<Rightarrow> None)"

definition responseCallForwards_each :: "'p ril_env \<Rightarrow> RIL_CallForwardInfo \<Rightarrow> 'p \<Rightarrow> 'p option" where
  "responseCallForwards_each E p_cur p =
     (let p = writeInt32 E p (cf_status p_cur);
          p = writeInt32 E p (cf_reason p_cur);
          p = writeInt32 E p (cf_serviceClass p_cur);
          p = writeInt32 E p (cf_toa p_cur);
          p = writeString8 E p (cf_number p_cur);
          p = writeInt32 E p (cf_timeSeconds p_cur)
      in Some p)"

definition responseCallForwards :: "'p ril_env \<Rightarrow> 'p \<Rightarrow> resp_data option \<Rightarrow> nat \<Rightarrow> 'p response_result" where
  "responseCallForwards E p response responselen =
     (if response = None \<and> responselen \<noteq> 0 then invalid_response p
      else if responselen mod ptr_size (env_abi E) \<noteq> 0 then invalid_response p
      else respond_list E (ptr_size (env_abi E)) (as_forwards response) (responseCallForwards_each E)
             responselen p)"

definition responseSsn :: "'p ril_env \<Rightarrow> 'p \<Rightarrow> resp_data option \<Rightarrow> nat \<Rightarrow> 'p response_result" where
  "responseSsn E p response responselen =
     (if response = None then invalid_response p
      else if responselen \<noteq> size_of (RIL_SuppSvcNotification_layout (env_abi E)) then invalid_response p
      else case response of
        Some (RSsn p_cur) \<Rightarrow>
          (let p = writeInt32 E p (ssn_notificationType p_cur);
               p = writeInt32 E p (ssn_code p_cur);
               p = writeInt32 E p (ssn_index p_cur);
               p = writeInt32 E p (ssn_type p_cur);
               p = writeString8 E p (ssn_number p_cur)
           in response_ok p)
      | _ \<Rightarrow> None)"

definition responseCellList_each :: "'p ril_env \<Rightarrow> RIL_NeighboringCell \<Rightarrow> 'p \<Rightarrow> 'p option" where
  "responseCellList_each E p_cur p =
     (let p = writeInt32 E p (nc_rssi p_cur);
          p = writeString8 E p (nc_cid p_cur)
      in Some p)"

definition responseCellList :: "'p ril_env \<Rightarrow> 'p \<Rightarrow> resp_data option \<Rightarrow> nat \<Rightarrow> 'p response_result" where
  "responseCellList E p response responselen =
     (if response = None \<and> responselen \<noteq> 0 then invalid_response p
      else if responselen mod ptr_size (env_abi E) \<noteq> 0 then invalid_response p
      else respond_list E (ptr_size (env_abi E)) (as_cells response) (responseCellList_each E)
             responselen p)"

section \<open>CDMA information records\<close>

text \<open>
  The string an information record carries: \<open>len\<close> characters of \<open>buf\<close> copied into a new buffer of
  \<open>len + 1\<close>, which ends it. A \<open>len\<close> that is negative as a \<open>char\<close> passes the check against the
  maximum, and \<open>string8[len]\<close> is then outside the buffer.
\<close>

definition info_string :: "'p ril_env \<Rightarrow> u8 \<Rightarrow> u8 list \<Rightarrow> u8 list option" where
  "info_string E len buf =
     (let n = sint (char_to_int (env_abi E) len)
      in if n < 0 then None
         else do {
           string8 \<leftarrow> foldM (\<lambda>i s. do { c \<leftarrow> aget buf i; Some (s @ [c]) }) [0..<nat n] [];
           Some (takeWhile (\<lambda>c. c \<noteq> 0) string8)
         })"

definition info_number :: "'p ril_env \<Rightarrow> RIL_CDMA_NumberInfoRecord \<Rightarrow> 'p \<Rightarrow> 'p response_result" where
  "info_number E number p =
     (if sint (char_to_int (env_abi E) (num_len number)) > int CDMA_NUMBER_INFO_BUFFER_LENGTH
      then invalid_response p
      else do {
        string8 \<leftarrow> info_string E (num_len number) (num_buf number);
        let p = writeString8 E p (Some string8);
        let p = writeChar E p (num_number_type number);
        let p = writeChar E p (num_number_plan number);
        let p = writeChar E p (num_pi number);
        let p = writeChar E p (num_si number);
        response_ok p
      })"

definition marshallSignalInfoRecord :: "'p ril_env \<Rightarrow> RIL_CDMA_SignalInfoRecord \<Rightarrow> 'p \<Rightarrow> 'p" where
  "marshallSignalInfoRecord E r p =
     (let p = writeChar E p (sir_isPresent r);
          p = writeChar E p (sir_signalType r);
          p = writeChar E p (sir_alertPitch r)
      in writeChar E p (sir_signal r))"

text \<open>One round of the loop over the records: \<open>switch (infoRec->name)\<close>.\<close>

definition write_infoRec :: "'p ril_env \<Rightarrow> RIL_CDMA_InformationRecord \<Rightarrow> 'p \<Rightarrow> 'p response_result" where
  "write_infoRec E infoRec p =
     (let name = ir_name infoRec;
          p = writeInt32 E p name
      in if name = RIL_CDMA_DISPLAY_INFO_REC \<or> name = RIL_CDMA_EXTENDED_DISPLAY_INFO_REC then
           (case ir_rec infoRec of Rec_display display \<Rightarrow>
              if sint (char_to_int (env_abi E) (disp_alpha_len display)) > int CDMA_ALPHA_INFO_BUFFER_LENGTH
              then invalid_response p
              else do {
                string8 \<leftarrow> info_string E (disp_alpha_len display) (disp_alpha_buf display);
                response_ok (writeString8 E p (Some string8))
              }
            | _ \<Rightarrow> None)
         else if name = RIL_CDMA_CALLED_PARTY_NUMBER_INFO_REC
           \<or> name = RIL_CDMA_CALLING_PARTY_NUMBER_INFO_REC
           \<or> name = RIL_CDMA_CONNECTED_NUMBER_INFO_REC then
           (case ir_rec infoRec of Rec_number number \<Rightarrow> info_number E number p | _ \<Rightarrow> None)
         else if name = RIL_CDMA_SIGNAL_INFO_REC then
           (case ir_rec infoRec of
              Rec_signal sig \<Rightarrow> response_ok (marshallSignalInfoRecord E sig p) | _ \<Rightarrow> None)
         else if name = RIL_CDMA_REDIRECTING_NUMBER_INFO_REC then
           (case ir_rec infoRec of Rec_redir redir \<Rightarrow> do {
                (ret, p) \<leftarrow> info_number E (redir_redirectingNumber redir) p;
                if ret \<noteq> 0 then Some (ret, p)
                else response_ok (writeInt32 E p (redir_redirectingReason redir))
              }
            | _ \<Rightarrow> None)
         else if name = RIL_CDMA_LINE_CONTROL_INFO_REC then
           (case ir_rec infoRec of Rec_lineCtrl l \<Rightarrow>
              (let p = writeChar E p (lc_lineCtrlPolarityIncluded l);
                   p = writeChar E p (lc_lineCtrlToggle l);
                   p = writeChar E p (lc_lineCtrlReverse l)
               in response_ok (writeChar E p (lc_lineCtrlPowerDenial l)))
            | _ \<Rightarrow> None)
         else if name = RIL_CDMA_T53_CLIR_INFO_REC then
           (case ir_rec infoRec of
              Rec_clir clir \<Rightarrow> response_ok (writeChar E p (clir_cause clir)) | _ \<Rightarrow> None)
         else if name = RIL_CDMA_T53_AUDIO_CONTROL_INFO_REC then
           (case ir_rec infoRec of Rec_audioCtrl a \<Rightarrow>
              response_ok (writeChar E (writeChar E p (ac_upLink a)) (ac_downLink a))
            | _ \<Rightarrow> None)
         else invalid_response p)"

fun write_infoRecs ::
    "'p ril_env \<Rightarrow> RIL_CDMA_InformationRecord list \<Rightarrow> nat list \<Rightarrow> 'p \<Rightarrow> 'p response_result" where
  "write_infoRecs E infoRec [] p = response_ok p"
| "write_infoRecs E infoRec (i # is) p = do {
     r \<leftarrow> aget infoRec i;
     (ret, p) \<leftarrow> write_infoRec E r p;
     if ret \<noteq> 0 then Some (ret, p) else write_infoRecs E infoRec is p
   }"

definition responseCdmaInformationRecords ::
    "'p ril_env \<Rightarrow> 'p \<Rightarrow> resp_data option \<Rightarrow> nat \<Rightarrow> 'p response_result" where
  "responseCdmaInformationRecords E p response responselen =
     (if response = None \<and> responselen \<noteq> 0 then invalid_response p
      else if responselen \<noteq> size_of RIL_CDMA_InformationRecords_layout then invalid_response p
      else case response of
        Some (RInformationRecords p_cur) \<Rightarrow>
          (let num = min (sint (char_to_int (env_abi E) (irs_numberOfInfoRecs p_cur)))
                         (int RIL_CDMA_MAX_NUMBER_OF_INFO_RECS);
               p = writeInt32 E p (of_int num)
           in write_infoRecs E (irs_infoRec p_cur) [0..<nat num] p)
      | _ \<Rightarrow> None)"

section \<open>Signal strength, rings and waiting calls\<close>

definition responseRilSignalStrength ::
    "'p ril_env \<Rightarrow> 'p \<Rightarrow> resp_data option \<Rightarrow> nat \<Rightarrow> 'p response_result" where
  "responseRilSignalStrength E p response responselen =
     (if response = None \<and> responselen \<noteq> 0 then invalid_response p
      else if responselen = size_of RIL_SignalStrength_layout then
        (case response of
           Some (RSignalStrength p_cur) \<Rightarrow>
             (let p = writeInt32 E p (gw_signalStrength (ss_GW p_cur));
                  p = writeInt32 E p (gw_bitErrorRate (ss_GW p_cur));
                  p = writeInt32 E p (cdmass_dbm (ss_CDMA p_cur));
                  p = writeInt32 E p (cdmass_ecio (ss_CDMA p_cur));
                  p = writeInt32 E p (evdo_dbm (ss_EVDO p_cur));
                  p = writeInt32 E p (evdo_ecio (ss_EVDO p_cur));
                  p = writeInt32 E p (evdo_signalNoiseRatio (ss_EVDO p_cur))
              in response_ok p)
         | _ \<Rightarrow> None)
      else if responselen mod 4 = 0 then
        (let num = responselen div 4; totalIntegers = 7; p_cur = as_ints response
         in do {
           p \<leftarrow> foldM (\<lambda>i p. do { x \<leftarrow> aget p_cur i; Some (writeInt32 E p x) }) [0..<num] p;
           p \<leftarrow> foldM (\<lambda>i p. Some (writeInt32 E p 0)) [num..<totalIntegers] p;
           response_ok p
         })
      else invalid_response p)"

definition responseCdmaSignalInfoRecord ::
    "'p ril_env \<Rightarrow> 'p \<Rightarrow> resp_data option \<Rightarrow> nat \<Rightarrow> 'p response_result" where
  "responseCdmaSignalInfoRecord E p response responselen =
     (if response = None \<or> responselen = 0 then invalid_response p
      else if responselen \<noteq> size_of RIL_CDMA_SignalInfoRecord_layout then invalid_response p
      else case response of
        Some (RSignalInfo p_cur) \<Rightarrow> response_ok (marshallSignalInfoRecord E p_cur p)
      | _ \<Rightarrow> None)"

definition responseCallRing :: "'p ril_env \<Rightarrow> 'p \<Rightarrow> resp_data option \<Rightarrow> nat \<Rightarrow> 'p response_result" where
  "responseCallRing E p response responselen =
     (if response = None \<or> responselen = 0 then responseVoid E p response responselen
      else responseCdmaSignalInfoRecord E p response responselen)"

definition responseCdmaCallWaiting ::
    "'p ril_env \<Rightarrow> 'p \<Rightarrow> resp_data option \<Rightarrow> nat \<Rightarrow> 'p response_result" where
  "responseCdmaCallWaiting E p response responselen =
     (if response = None \<and> responselen \<noteq> 0 then invalid_response p
      else if responselen \<noteq> size_of (RIL_CDMA_CallWaiting_layout (env_abi E)) then invalid_response p
      else case response of
        Some (RCallWaiting p_cur) \<Rightarrow>
          (let p = writeString8 E p (cw_number p_cur);
               p = writeInt32 E p (cw_numberPresentation p_cur);
               p = writeString8 E p (cw_name p_cur)
           in response_ok (marshallSignalInfoRecord E (cw_signalInfoRecord p_cur) p))
      | _ \<Rightarrow> None)"

section \<open>SIM status\<close>

definition responseSimStatus_each :: "'p ril_env \<Rightarrow> RIL_AppStatus \<Rightarrow> 'p \<Rightarrow> 'p option" where
  "responseSimStatus_each E app p =
     (let p = writeInt32 E p (RIL_AppType_val (app_type app));
          p = writeInt32 E p (RIL_AppState_val (app_state app));
          p = writeInt32 E p (RIL_PersoSubstate_val (app_perso_substate app));
          p = writeString8 E p (app_aid_ptr app);
          p = writeString8 E p (app_label_ptr app);
          p = writeInt32 E p (app_pin1_replaced app);
          p = writeInt32 E p (RIL_PinState_val (app_pin1 app));
          p = writeInt32 E p (RIL_PinState_val (app_pin2 app))
      in Some p)"

text \<open>
  The length is compared with the size of a pointer only, and a null response of length 0 passes
  the checks. The loop goes up to \<open>num_applications\<close>; the array has \<open>RIL_CARD_MAX_APPS\<close> elements.
\<close>

definition responseSimStatus :: "'p ril_env \<Rightarrow> 'p \<Rightarrow> resp_data option \<Rightarrow> nat \<Rightarrow> 'p response_result" where
  "responseSimStatus E p response responselen =
     (if response = None \<and> responselen \<noteq> 0 then invalid_response p
      else if responselen mod ptr_size (env_abi E) \<noteq> 0 then invalid_response p
      else case response of
        Some (RCardStatus p_cur) \<Rightarrow>
          (let p = writeInt32 E p (RIL_CardState_val (card_state p_cur));
               p = writeInt32 E p (RIL_PinState_val (card_universal_pin_state p_cur));
               p = writeInt32 E p (card_gsm_umts_subscription_app_index p_cur);
               p = writeInt32 E p (card_cdma_subscription_app_index p_cur);
               p = writeInt32 E p (card_num_applications p_cur)
           in do {
             p \<leftarrow> for_int (card_num_applications p_cur)
               (\<lambda>i p. do { app \<leftarrow> aget (card_applications p_cur) i; responseSimStatus_each E app p }) p;
             response_ok p
           })
      | _ \<Rightarrow> None)"

section \<open>Broadcast configurations and CDMA messages\<close>

definition responseGsmBrSmsCnf_each ::
    "'p ril_env \<Rightarrow> RIL_GSM_BroadcastSmsConfigInfo \<Rightarrow> 'p \<Rightarrow> 'p option" where
  "responseGsmBrSmsCnf_each E p_cur p =
     (let p = writeInt32 E p (gsmb_fromServiceId p_cur);
          p = writeInt32 E p (gsmb_toServiceId p_cur);
          p = writeInt32 E p (gsmb_fromCodeScheme p_cur);
          p = writeInt32 E p (gsmb_toCodeScheme p_cur);
          p = writeInt32 E p (ucast (gsmb_selected p_cur))
      in Some p)"

definition responseGsmBrSmsCnf :: "'p ril_env \<Rightarrow> 'p \<Rightarrow> resp_data option \<Rightarrow> nat \<Rightarrow> 'p response_result" where
  "responseGsmBrSmsCnf E p response responselen =
     respond_list E (ptr_size (env_abi E)) (as_gsm_cnf response) (responseGsmBrSmsCnf_each E)
       responselen p"

definition responseCdmaBrSmsCnf_each ::
    "'p ril_env \<Rightarrow> RIL_CDMA_BroadcastSmsConfigInfo \<Rightarrow> 'p \<Rightarrow> 'p option" where
  "responseCdmaBrSmsCnf_each E p_cur p =
     (let p = writeInt32 E p (cdmab_service_category p_cur);
          p = writeInt32 E p (cdmab_language p_cur);
          p = writeInt32 E p (ucast (cdmab_selected p_cur))
      in Some p)"

definition responseCdmaBrSmsCnf :: "'p ril_env \<Rightarrow> 'p \<Rightarrow> resp_data option \<Rightarrow> nat \<Rightarrow> 'p response_result" where
  "responseCdmaBrSmsCnf E p response responselen =
     respond_list E (ptr_size (env_abi E)) (as_cdma_cnf response) (responseCdmaBrSmsCnf_each E)
       responselen p"

text \<open>\<open>for (digitCount = 0; digitCount < digitLimit; digitCount++) p.write (&digits[digitCount], 1)\<close>\<close>

definition write_digits :: "'p ril_env \<Rightarrow> u8 list \<Rightarrow> int \<Rightarrow> 'p \<Rightarrow> 'p option" where
  "write_digits E digits digitLimit p =
     foldM (\<lambda>i p. do { d \<leftarrow> aget digits i; Some (write_u8 E p d) }) [0..<nat digitLimit] p"

definition responseCdmaSms :: "'p ril_env \<Rightarrow> 'p \<Rightarrow> resp_data option \<Rightarrow> nat \<Rightarrow> 'p response_result" where
  "responseCdmaSms E p response responselen =
     (if response = None \<and> responselen \<noteq> 0 then invalid_response p
      else if responselen \<noteq> size_of RIL_CDMA_SMS_Message_layout then invalid_response p
      else case response of
        Some (RCdmaSms p_cur) \<Rightarrow>
          (let adr = msg_sAddress p_cur; sub = msg_sSubAddress p_cur;
               p = writeInt32 E p (msg_uTeleserviceID p_cur);
               p = write_u8 E p (msg_bIsServicePresent p_cur);
               p = writeInt32 E p (msg_uServicecategory p_cur);
               p = writeInt32 E p (adr_digit_mode adr);
               p = writeInt32 E p (adr_number_mode adr);
               p = writeInt32 E p (adr_number_type adr);
               p = writeInt32 E p (adr_number_plan adr);
               p = write_u8 E p (adr_number_of_digits adr);
               digitLimit = min (uint (adr_number_of_digits adr)) (int RIL_CDMA_SMS_ADDRESS_MAX)
           in do {
             p \<leftarrow> write_digits E (adr_digits adr) digitLimit p;
             let p = writeInt32 E p (sub_subaddressType sub);
             let p = write_u8 E p (sub_odd sub);
             let p = write_u8 E p (sub_number_of_digits sub);
             let digitLimit = min (uint (sub_number_of_digits sub)) (int RIL_CDMA_SMS_SUBADDRESS_MAX);
             p \<leftarrow> write_digits E (sub_digits sub) digitLimit p;
             let digitLimit = min (sint (msg_uBearerDataLen p_cur)) (int RIL_CDMA_SMS_BEARER_DATA_MAX);
             let p = writeInt32 E p (msg_uBearerDataLen p_cur);
             p \<leftarrow> write_digits E (msg_aBearerData p_cur) digitLimit p;
             response_ok p
           })
      | _ \<Rightarrow> None)"

section \<open>The function a table entry names\<close>

primrec respond :: "response_fn \<Rightarrow> 'p ril_env \<Rightarrow> 'p \<Rightarrow> resp_data option \<Rightarrow> nat \<Rightarrow> 'p response_result" where
  "respond ResponseInts = responseInts"
| "respond ResponseStrings = responseStrings"
| "respond ResponseString = responseString"
| "respond ResponseVoid = responseVoid"
| "respond ResponseCallList = responseCallList"
| "respond ResponseSMS = responseSMS"
| "respond ResponseSIM_IO = responseSIM_IO"
| "respond ResponseCallForwards = responseCallForwards"
| "respond ResponseDataCallList = responseDataCallList"
| "respond ResponseRaw = responseRaw"
| "respond ResponseSsn = responseSsn"
| "respond ResponseSimStatus = responseSimStatus"
| "respond ResponseGsmBrSmsCnf = responseGsmBrSmsCnf"
| "respond ResponseCdmaBrSmsCnf = responseCdmaBrSmsCnf"
| "respond ResponseCdmaSms = responseCdmaSms"
| "respond ResponseCellList = responseCellList"
| "respond ResponseCdmaInformationRecords = responseCdmaInformationRecords"
| "respond ResponseRilSignalStrength = responseRilSignalStrength"
| "respond ResponseCallRing = responseCallRing"
| "respond ResponseCdmaSignalInfoRecord = responseCdmaSignalInfoRecord"
| "respond ResponseCdmaCallWaiting = responseCdmaCallWaiting"

end
