(* ===== verification/Ril_Response_Correct.thy ===== *)
theory Ril_Response_Correct
  imports Ril_Response Ril_Dispatch_Correct
begin

text \<open>
  What the response functions put into the parcel: for data of the right length, exactly the values
  that the telephony framework reads, in its order. Where a dispatch function reads the same format,
  the two are inverse to each other.
\<close>

section \<open>Loops over elements\<close>

lemma foldM_writes:
  assumes "\<And>x p. x \<in> set xs \<Longrightarrow> each x p = Some (write_items P (f x) p)"
  shows "foldM each xs p = Some (write_items P (concat (map f xs)) p)"
  using assms by (induction xs arbitrary: p) (simp_all add: write_items_append)

lemma loop_writes:
  assumes "\<And>x p. x \<in> set (take n xs) \<Longrightarrow> each x p = Some (write_items P (f x) p)" and "n \<le> length xs"
  shows "foldM (\<lambda>i p. do { x \<leftarrow> aget xs i; each x p }) [0..<n] p =
    Some (write_items P (concat (map f (take n xs))) p)"
  using assms by (simp add: foldM_aget foldM_writes)

lemma nat_sint_length: "n < 2 ^ 31 \<Longrightarrow> nat (sint (of_nat n :: i32)) = n"
  by (simp only: sint_small nat_int)

lemma respond_list_writes:
  assumes each: "\<And>x p. x \<in> set xs \<Longrightarrow> each x p = Some (write_items (env_parcel E) (f x) p)"
    and size: "0 < n" "length xs < 2 ^ 31"
  shows "respond_list E n xs each (length xs * n) p = Some (0, write_items (env_parcel E) (msg_list f xs) p)"
proof -
  have "foldM (\<lambda>i p. do { x \<leftarrow> aget xs i; each x p }) [0..<length xs] q =
      Some (write_items (env_parcel E) (concat (map f xs)) q)" for q
    using loop_writes [of "length xs" xs each "env_parcel E" f q] each by simp
  then show ?thesis
    using size by (simp add: respond_list_def nat_sint_length msg_list_def)
qed

section \<open>The formats\<close>

definition msg_call_uus :: "'p ril_env \<Rightarrow> RIL_UUS_Info option \<Rightarrow> item list" where
  "msg_call_uus E uus = (case (if env_version E < 3 then None else uus) of
       Some u \<Rightarrow> (case uus_uusData u of
           Some bs \<Rightarrow> [I32 1, I32 (uus_uusType u), I32 (uus_uusDcs u), I32 (uus_uusLength u), Bytes bs]
         | None \<Rightarrow> [I32 0])
     | None \<Rightarrow> [I32 0])"

definition msg_call :: "'p ril_env \<Rightarrow> RIL_Call \<Rightarrow> item list" where
  "msg_call E c =
     (let ch = (\<lambda>x. I32 (char_to_int (env_abi E) x))
      in [I32 (RIL_CallState_val (call_state c)), I32 (call_index c), I32 (call_toa c),
          ch (call_isMpty c), ch (call_isMT c), ch (call_als c), ch (call_isVoice c),
          ch (call_isVoicePrivacy c), str8 E (call_number c), I32 (call_numberPresentation c),
          str8 E (call_name c), I32 (call_namePresentation c)] @ msg_call_uus E (call_uusInfo c))"

definition msg_data_call :: "'p ril_env \<Rightarrow> RIL_Data_Call_Response \<Rightarrow> item list" where
  "msg_data_call E d = [I32 (dc_cid d), I32 (dc_active d), str8 E (dc_type d), str8 E (dc_apn d),
     str8 E (dc_address d)]"

definition msg_cell :: "'p ril_env \<Rightarrow> RIL_NeighboringCell \<Rightarrow> item list" where
  "msg_cell E c = [I32 (nc_rssi c), str8 E (nc_cid c)]"

definition msg_app :: "'p ril_env \<Rightarrow> RIL_AppStatus \<Rightarrow> item list" where
  "msg_app E a = [I32 (RIL_AppType_val (app_type a)), I32 (RIL_AppState_val (app_state a)),
     I32 (RIL_PersoSubstate_val (app_perso_substate a)), str8 E (app_aid_ptr a), str8 E (app_label_ptr a),
     I32 (app_pin1_replaced a), I32 (RIL_PinState_val (app_pin1 a)), I32 (RIL_PinState_val (app_pin2 a))]"

definition msg_card :: "'p ril_env \<Rightarrow> RIL_CardStatus \<Rightarrow> item list" where
  "msg_card E c = [I32 (RIL_CardState_val (card_state c)), I32 (RIL_PinState_val (card_universal_pin_state c)),
     I32 (card_gsm_umts_subscription_app_index c), I32 (card_cdma_subscription_app_index c),
     I32 (card_num_applications c)] @
     concat (map (msg_app E) (take (nat (sint (card_num_applications c))) (card_applications c)))"

text \<open>The length field of the user data is the length of the data.\<close>

definition call_ok :: "'p ril_env \<Rightarrow> RIL_Call \<Rightarrow> bool" where
  "call_ok E c \<longleftrightarrow> pred_option uus_ok (call_uusInfo c) \<and> 4 \<le> ptr_size (env_abi E)"

lemma write_uus_writes:
  assumes "pred_option uus_ok uus" and "4 \<le> ptr_size (env_abi E)"
  shows "write_uus E uus p = Some (write_items (env_parcel E) (msg_call_uus E uus) p)"
  using assms small_length [of "length (the (uus_uusData (the uus)))" "env_abi E"]
  by (auto simp: write_uus_def msg_call_uus_def uus_ok_def write_bytes_def split: option.splits)

lemma responseCallList_each_writes:
  "call_ok E c \<Longrightarrow> responseCallList_each E c p = Some (write_items (env_parcel E) (msg_call E c) p)"
  by (simp add: responseCallList_each_def msg_call_def Let_def call_ok_def write_uus_writes
      write_items_append writeStringToParcel_def)

lemma each_writes:
  "responseDataCallList_each E d p = Some (write_items (env_parcel E) (msg_data_call E d) p)"
  "responseCallForwards_each E f p = Some (write_items (env_parcel E) (msg_call_forward E f) p)"
  "responseCellList_each E c p = Some (write_items (env_parcel E) (msg_cell E c) p)"
  "responseSimStatus_each E a p = Some (write_items (env_parcel E) (msg_app E a) p)"
  "responseGsmBrSmsCnf_each E g p = Some (write_items (env_parcel E) (msg_gsm_entry g) p)"
  "responseCdmaBrSmsCnf_each E h p = Some (write_items (env_parcel E) (msg_cdma_entry h) p)"
  by (simp_all add: responseDataCallList_each_def responseCallForwards_each_def responseCellList_each_def
      responseSimStatus_each_def responseGsmBrSmsCnf_each_def responseCdmaBrSmsCnf_each_def
      msg_data_call_def msg_call_forward_def msg_cell_def msg_app_def msg_gsm_entry_def
      msg_cdma_entry_def writeStringToParcel_def)

section \<open>Whole responses\<close>

lemma responseInts_writes:
  assumes "length xs < 2 ^ 29" and "4 \<le> ptr_size (env_abi E)"
  shows "responseInts E p (Some (RInts xs)) (4 * length xs) =
    Some (0, write_items (env_parcel E) (msg_list (\<lambda>x. [I32 x]) (take (4 * length xs div ptr_size (env_abi E)) xs)) p)"
proof -
  let ?n = "4 * length xs div ptr_size (env_abi E)"
  have "?n \<le> 4 * length xs div 4" using assms(2) by (intro div_le_mono2) auto
  then have n: "?n \<le> length xs" by simp
  then have s: "nat (sint (of_nat ?n :: i32)) = ?n" using assms(1) by (intro nat_sint_length) simp
  have "foldM (\<lambda>i p. do { x \<leftarrow> aget xs i; Some (writeInt32 E p x) }) [0..<?n] q =
      Some (write_items (env_parcel E) (concat (map (\<lambda>x. [I32 x]) (take ?n xs))) q)" for q
    using n by (intro loop_writes) simp_all
  then show ?thesis using n s by (simp add: responseInts_def msg_list_def min_def Let_def)
qed

lemma responseStrings_writes:
  assumes "length ss < 2 ^ 31" and "0 < ptr_size (env_abi E)"
  shows "responseStrings E p (Some (RStrings ss)) (ptr_size (env_abi E) * length ss) =
    Some (0, write_items (env_parcel E) (I32 (of_nat (length ss)) # map (str8 E) ss) p)"
proof -
  have "foldM (\<lambda>i p. do { s \<leftarrow> aget ss i; Some (writeString8 E p s) }) [0..<length ss] q =
      Some (write_items (env_parcel E) (concat (map (\<lambda>s. [str8 E s]) (take (length ss) ss))) q)" for q
    by (intro loop_writes) (simp_all add: writeStringToParcel_def)
  moreover have "concat (map (\<lambda>s. [str8 E s]) ss) = map (str8 E) ss" by (induction ss) auto
  ultimately show ?thesis
    using assms nat_sint_length [of "length ss"] by (simp add: responseStrings_def)
qed

lemma list_responses_writes:
  assumes ptr: "4 \<le> ptr_size (env_abi E)"
  shows "length cs < 2 ^ 31 \<Longrightarrow> list_all (call_ok E) cs \<Longrightarrow>
      responseCallList E p (Some (RCallList cs)) (length cs * ptr_size (env_abi E)) =
      Some (0, write_items (env_parcel E) (msg_list (msg_call E) cs) p)"
    and "length fs < 2 ^ 31 \<Longrightarrow>
      responseCallForwards E p (Some (RCallForwards fs)) (length fs * ptr_size (env_abi E)) =
      Some (0, write_items (env_parcel E) (msg_list (msg_call_forward E) fs) p)"
    and "length ns < 2 ^ 31 \<Longrightarrow>
      responseCellList E p (Some (RCellList ns)) (length ns * ptr_size (env_abi E)) =
      Some (0, write_items (env_parcel E) (msg_list (msg_cell E) ns) p)"
    and "length gs < 2 ^ 31 \<Longrightarrow>
      responseGsmBrSmsCnf E p (Some (RGsmBrSmsCnf gs)) (length gs * ptr_size (env_abi E)) =
      Some (0, write_items (env_parcel E) (msg_list msg_gsm_entry gs) p)"
    and "length hs < 2 ^ 31 \<Longrightarrow>
      responseCdmaBrSmsCnf E p (Some (RCdmaBrSmsCnf hs)) (length hs * ptr_size (env_abi E)) =
      Some (0, write_items (env_parcel E) (msg_list msg_cdma_entry hs) p)"
  using ptr
  by (simp_all add: responseCallList_def responseCallForwards_def responseCellList_def
      responseGsmBrSmsCnf_def responseCdmaBrSmsCnf_def respond_list_writes each_writes
      responseCallList_each_writes list_all_iff)

lemma write_digits_writes:
  "nat lim \<le> length ds \<Longrightarrow>
   write_digits E ds lim p = Some (write_items (env_parcel E) (map Byte (take (nat lim) ds)) p)"
  using loop_writes [of "nat lim" ds "\<lambda>d p. Some (write_u8 E p d)" "env_parcel E" "\<lambda>d. [Byte d]" p]
  by (simp add: write_digits_def)

lemma responseCdmaSms_writes:
  assumes "cdma_sms_ok m"
  shows "responseCdmaSms E p (Some (RCdmaSms m)) (size_of RIL_CDMA_SMS_Message_layout) =
    Some (0, write_items (env_parcel E) (msg_cdma_sms m) p)"
proof -
  let ?a = "msg_sAddress m" and ?s = "msg_sSubAddress m"
  have a: "write_digits E (adr_digits ?a) (min (uint (adr_number_of_digits ?a)) (int RIL_CDMA_SMS_ADDRESS_MAX)) q =
      Some (write_items (env_parcel E) (map Byte (take (adr_count ?a) (adr_digits ?a))) q)" for q
    using assms by (simp add: write_digits_writes min_uint adr_count_def cdma_sms_ok_def)
  have s: "write_digits E (sub_digits ?s) (min (uint (sub_number_of_digits ?s)) (int RIL_CDMA_SMS_SUBADDRESS_MAX)) q =
      Some (write_items (env_parcel E) (map Byte (take (sub_count ?s) (sub_digits ?s))) q)" for q
    using assms by (simp add: write_digits_writes min_uint sub_count_def cdma_sms_ok_def)
  have b: "write_digits E (msg_aBearerData m) (min (sint (msg_uBearerDataLen m)) (int RIL_CDMA_SMS_BEARER_DATA_MAX)) q =
      Some (write_items (env_parcel E) (map Byte (take (bearer_count m) (msg_aBearerData m))) q)" for q
    using assms by (simp add: write_digits_writes bearer_count_def cdma_sms_ok_def)
  show ?thesis
    by (simp add: responseCdmaSms_def Let_def a s b msg_cdma_sms_def write_items_append)
qed

lemma responseSimStatus_writes:
  assumes "0 \<le> sint (card_num_applications c)"
    and "nat (sint (card_num_applications c)) \<le> length (card_applications c)"
    and "n mod ptr_size (env_abi E) = 0"
  shows "responseSimStatus E p (Some (RCardStatus c)) n =
    Some (0, write_items (env_parcel E) (msg_card E c) p)"
  using assms loop_writes [OF _ assms(2), of "responseSimStatus_each E" "env_parcel E" "msg_app E"]
  by (simp add: responseSimStatus_def Let_def each_writes msg_card_def write_items_append)

section \<open>CDMA information records\<close>

lemma char_small: "c < 128 \<Longrightarrow> sint (char_to_int a c) = uint c"
proof -
  assume "c < 128"
  then have "uint c < 128" by (simp add: word_less_def)
  moreover have "sint c = uint c" unfolding sint_uint
    by (rule signed_take_bit_int_eq_self)
      (use calculation in \<open>simp_all add: order_trans [OF _ uint_ge_0]\<close>)
  moreover have "(scast c :: i32) = ucast c" 
    using calculation by (metis of_int_uint scast_eq ucast_eq)
  moreover have "sint (ucast c :: i32) = uint c"
    unfolding ucast_eq signed_of_int
    by (simp, rule signed_take_bit_int_eq_self)
      (use calculation in \<open>simp_all add: order_trans [OF _ uint_ge_0]\<close>)
  ultimately show ?thesis by (simp add: char_to_int_def)
qed

text \<open>The characters of an information record, up to the first zero.\<close>

definition info_chars :: "u8 \<Rightarrow> u8 list \<Rightarrow> u8 list" where
  "info_chars len buf = takeWhile (\<lambda>c. c \<noteq> 0) (take (unat len) buf)"

lemma info_string_ok:
  assumes "len < 128" and "unat len \<le> length buf"
  shows "info_string E len buf = Some (info_chars len buf)"
proof -
  have "foldM (\<lambda>c s. Some (s @ [c])) xs s = Some (s @ xs)" for xs s :: "u8 list"
    by (induction xs arbitrary: s) simp_all
  then have "foldM (\<lambda>i s. do { c \<leftarrow> aget buf i; Some (s @ [c]) }) [0..<unat len] [] = Some (take (unat len) buf)"
    using assms(2) by (simp add: foldM_aget)
  then show ?thesis using assms(1) by (simp add: info_string_def char_small info_chars_def flip: unat_eq_nat_uint)
qed

definition msg_number :: "'p ril_env \<Rightarrow> RIL_CDMA_NumberInfoRecord \<Rightarrow> item list" where
  "msg_number E n =
     (let ch = (\<lambda>x. I32 (char_to_int (env_abi E) x))
      in [str8 E (Some (info_chars (num_len n) (num_buf n))), ch (num_number_type n),
          ch (num_number_plan n), ch (num_pi n), ch (num_si n)])"

definition msg_signal_info :: "'p ril_env \<Rightarrow> RIL_CDMA_SignalInfoRecord \<Rightarrow> item list" where
  "msg_signal_info E r = map (\<lambda>x. I32 (char_to_int (env_abi E) x))
     [sir_isPresent r, sir_signalType r, sir_alertPitch r, sir_signal r]"

definition msg_infoRec :: "'p ril_env \<Rightarrow> RIL_CDMA_InformationRecord \<Rightarrow> item list" where
  "msg_infoRec E r =
     (let ch = (\<lambda>x. I32 (char_to_int (env_abi E) x))
      in I32 (ir_name r) # (case ir_rec r of
           Rec_display d \<Rightarrow> [str8 E (Some (info_chars (disp_alpha_len d) (disp_alpha_buf d)))]
         | Rec_number n \<Rightarrow> msg_number E n
         | Rec_signal s \<Rightarrow> msg_signal_info E s
         | Rec_redir d \<Rightarrow> msg_number E (redir_redirectingNumber d) @ [I32 (redir_redirectingReason d)]
         | Rec_lineCtrl l \<Rightarrow> map ch [lc_lineCtrlPolarityIncluded l, lc_lineCtrlToggle l,
             lc_lineCtrlReverse l, lc_lineCtrlPowerDenial l]
         | Rec_clir c \<Rightarrow> [ch (clir_cause c)]
         | Rec_audioCtrl a \<Rightarrow> [ch (ac_upLink a), ch (ac_downLink a)]))"

definition number_ok :: "RIL_CDMA_NumberInfoRecord \<Rightarrow> bool" where
  "number_ok n \<longleftrightarrow> num_len n \<le> 81 \<and> length (num_buf n) = CDMA_NUMBER_INFO_BUFFER_LENGTH"

text \<open>The member of the union that the name selects is stored, with lengths that fit its buffers.\<close>

definition infoRec_ok :: "RIL_CDMA_InformationRecord \<Rightarrow> bool" where
  "infoRec_ok r = (case ir_rec r of
       Rec_display d \<Rightarrow> ir_name r \<in> {RIL_CDMA_DISPLAY_INFO_REC, RIL_CDMA_EXTENDED_DISPLAY_INFO_REC} \<and>
         disp_alpha_len d \<le> 64 \<and> length (disp_alpha_buf d) = CDMA_ALPHA_INFO_BUFFER_LENGTH
     | Rec_number n \<Rightarrow> ir_name r \<in> {RIL_CDMA_CALLED_PARTY_NUMBER_INFO_REC,
         RIL_CDMA_CALLING_PARTY_NUMBER_INFO_REC, RIL_CDMA_CONNECTED_NUMBER_INFO_REC} \<and> number_ok n
     | Rec_signal s \<Rightarrow> ir_name r = RIL_CDMA_SIGNAL_INFO_REC
     | Rec_redir d \<Rightarrow> ir_name r = RIL_CDMA_REDIRECTING_NUMBER_INFO_REC \<and> number_ok (redir_redirectingNumber d)
     | Rec_lineCtrl l \<Rightarrow> ir_name r = RIL_CDMA_LINE_CONTROL_INFO_REC
     | Rec_clir c \<Rightarrow> ir_name r = RIL_CDMA_T53_CLIR_INFO_REC
     | Rec_audioCtrl a \<Rightarrow> ir_name r = RIL_CDMA_T53_AUDIO_CONTROL_INFO_REC)"

lemma len_small:
  assumes "l \<le> (n :: u8)" and "n < 128"
  shows "l < 128" and "unat l \<le> unat n" and "uint l \<le> uint n"
proof -
  show "l < 128" using assms by (rule le_less_trans)
  show "unat l \<le> unat n" using assms(1) by (simp add: word_le_nat_alt)
  show "uint l \<le> uint n" using assms(1) unfolding word_le_def .
qed

lemma info_number_writes:
  assumes "number_ok n"
  shows "info_number E n p = Some (0, write_items (env_parcel E) (msg_number E n) p)"
proof -
  have l: "num_len n < 128" "unat (num_len n) \<le> length (num_buf n)" "uint (num_len n) \<le> 81"
    using assms len_small [of "num_len n" 81] by (simp_all add: number_ok_def ril_limits)
  show ?thesis
    using l(3) by (simp add: info_number_def char_small [OF l(1)] info_string_ok [OF l(1,2)] msg_number_def
        writeStringToParcel_def ril_limits Let_def)
qed

lemma write_infoRec_writes:
  assumes "infoRec_ok r"
  shows "write_infoRec E r p = Some (0, write_items (env_parcel E) (msg_infoRec E r) p)"
proof (cases "ir_rec r")
  case (Rec_display d)
  then have l: "disp_alpha_len d < 128" "unat (disp_alpha_len d) \<le> length (disp_alpha_buf d)"
      "uint (disp_alpha_len d) \<le> 64"
    using assms len_small [of "disp_alpha_len d" 64] by (simp_all add: infoRec_ok_def ril_limits)
  have "ir_name r = RIL_CDMA_DISPLAY_INFO_REC \<or> ir_name r = RIL_CDMA_EXTENDED_DISPLAY_INFO_REC"
    using assms Rec_display by (simp add: infoRec_ok_def)
  then show ?thesis
    using Rec_display l(3) char_small [OF l(1), of "env_abi E"] info_string_ok [OF l(1,2), of E]
    by (auto simp: write_infoRec_def msg_infoRec_def Let_def ril_limits writeStringToParcel_def)
qed (use assms in \<open>auto simp: infoRec_ok_def write_infoRec_def msg_infoRec_def msg_signal_info_def
    marshallSignalInfoRecord_def Let_def info_rec_names info_number_writes write_items_append\<close>)

lemma write_infoRecs_writes:
  assumes "list_all infoRec_ok rs"
  shows "k + n \<le> length rs \<Longrightarrow> write_infoRecs E rs [k..<k + n] p =
    Some (0, write_items (env_parcel E) (concat (map (msg_infoRec E) (take n (drop k rs)))) p)"
proof (induction n arbitrary: k p)
  case 0
  then show ?case by simp
next
  case (Suc n)
  have "infoRec_ok (rs ! k)" using assms Suc.prems by (simp add: list_all_length)
  moreover have "take (Suc n) (drop k rs) = rs ! k # take n (drop (Suc k) rs)"
    using Suc.prems by (subst Cons_nth_drop_Suc [symmetric]) simp_all
  ultimately show ?case
    unfolding upt_from using Suc.IH [of "Suc k"] Suc.prems
    by (simp add: write_infoRec_writes write_items_append del: upt_Suc)
qed

lemma responseCdmaInformationRecords_writes:
  assumes "irs_numberOfInfoRecs r < 128" and "list_all infoRec_ok (irs_infoRec r)"
    and "length (irs_infoRec r) = RIL_CDMA_MAX_NUMBER_OF_INFO_RECS"
  shows "responseCdmaInformationRecords E p (Some (RInformationRecords r))
      (size_of RIL_CDMA_InformationRecords_layout) =
    Some (0, write_items (env_parcel E)
      (msg_list (msg_infoRec E) (take (unat (irs_numberOfInfoRecs r)) (irs_infoRec r))) p)"
proof -
  let ?n = "min (unat (irs_numberOfInfoRecs r)) 10"
  have n: "min (sint (char_to_int (env_abi E) (irs_numberOfInfoRecs r))) 10 = int ?n"
  proof -
    have "uint (irs_numberOfInfoRecs r) = int (unat (irs_numberOfInfoRecs r))" by simp
    then show ?thesis unfolding char_small [OF assms(1)] by linarith
  qed
  have "take (unat (irs_numberOfInfoRecs r)) (irs_infoRec r) = take ?n (irs_infoRec r)"
    using assms(3) by (simp add: ril_limits min_def)
  moreover have "length (take ?n (irs_infoRec r)) = ?n" using assms(3) by (simp add: ril_limits)
  ultimately show ?thesis
    using write_infoRecs_writes [OF assms(2), of 0 ?n E] assms(3)
    by (simp add: responseCdmaInformationRecords_def Let_def ril_limits n msg_list_def)
qed

section \<open>Signal strength\<close>

lemma zeros_written:
  "foldM (\<lambda>i p. Some (writeInt32 E p 0)) is p =
    Some (write_items (env_parcel E) (replicate (length is) (I32 0)) p)"
  by (induction "is" arbitrary: p) simp_all

lemma responseRilSignalStrength_old:
  assumes "length xs \<noteq> 7"
  shows "responseRilSignalStrength E p (Some (RInts xs)) (4 * length xs) =
    Some (0, write_items (env_parcel E) (map I32 xs @ replicate (7 - length xs) (I32 0)) p)"
proof -
  have "foldM (\<lambda>i p. do { x \<leftarrow> aget xs i; Some (writeInt32 E p x) }) [0..<length xs] q =
      Some (write_items (env_parcel E) (concat (map (\<lambda>x. [I32 x]) (take (length xs) xs))) q)" for q
    by (intro loop_writes) simp_all
  moreover have "concat (map (\<lambda>x. [I32 x]) xs) = map I32 xs" by (induction xs) auto
  ultimately show ?thesis
    using assms by (simp add: responseRilSignalStrength_def sizes_fixed zeros_written write_items_append)
qed

section \<open>Responses only append\<close>

definition appends :: "'p ril_env \<Rightarrow> 'p \<Rightarrow> 'p \<Rightarrow> bool" where
  "appends E p p' \<longleftrightarrow> (\<exists>its. p' = write_items (env_parcel E) its p)"

lemma appends_refl [simp]: "appends E p p"
  unfolding appends_def by (rule exI [of _ "[]"]) simp

lemma appends_trans: "appends E p q \<Longrightarrow> appends E q r \<Longrightarrow> appends E p r"
  unfolding appends_def by (metis write_items_append)

lemma appends_item: "appends E p q \<Longrightarrow> appends E p (write_item (env_parcel E) it q)"
  unfolding appends_def by (metis write_items_append write_items_simps)

lemma appends_steps [simp]:
  "appends E p q \<Longrightarrow> appends E p (writeInt32 E q v)"
  "appends E p q \<Longrightarrow> appends E p (write_u8 E q b)"
  "appends E p q \<Longrightarrow> appends E p (writeString8 E q s)"
  "appends E p q \<Longrightarrow> appends E p (pf_write (env_parcel E) q bs)"
  using appends_item [of E p q "I32 v"] appends_item [of E p q "Byte b"]
    appends_item [of E p q "Bytes bs"] appends_item [of E p q "str8 E s"]
  by (simp_all add: writeStringToParcel_def)

lemma appends_foldM:
  assumes "foldM f xs q = Some r" and "appends E p q"
    and "\<And>x p' q'. f x p' = Some q' \<Longrightarrow> appends E p' q'"
  shows "appends E p r"
  by (rule foldM_invariant [of f xs q r "appends E p", OF assms(1,2)])
    (rule appends_trans, assumption, rule assms(3))

lemma foldM_aget_appends:
  assumes "foldM (\<lambda>i p. do { x \<leftarrow> aget xs i; each x p }) is q = Some r" and "appends E p q"
    and "\<And>x p' q'. each x p' = Some q' \<Longrightarrow> appends E p' q'"
  shows "appends E p r"
  by (rule appends_foldM [OF assms(1,2)]) (auto split: Option.bind_splits intro: assms(3))

lemma respond_list_appends:
  assumes "respond_list E n xs each len p = Some (ret, p')"
    and "\<And>x p q. each x p = Some q \<Longrightarrow> appends E p q"
  shows "appends E p p'"
proof -
  have "foldM (\<lambda>i p. do { x \<leftarrow> aget xs i; each x p }) [0..<nat (sint (of_nat (len div n) :: i32))]
      (writeInt32 E p (of_nat (len div n))) = Some p'"
    using assms(1) by (auto simp: respond_list_def Let_def split: Option.bind_splits)
  then show ?thesis by (rule foldM_aget_appends) (simp_all add: assms(2))
qed

lemma write_bytes_appends: "write_bytes E p data n = Some q \<Longrightarrow> appends E p q"
  by (auto simp: write_bytes_def split: if_splits)

lemma each_appends:
  "responseCallList_each E c p = Some q \<Longrightarrow> appends E p q"
  "responseDataCallList_each E d p = Some q \<Longrightarrow> appends E p q"
  "responseCallForwards_each E f p = Some q \<Longrightarrow> appends E p q"
  "responseCellList_each E n p = Some q \<Longrightarrow> appends E p q"
  "responseSimStatus_each E a p = Some q \<Longrightarrow> appends E p q"
  "responseGsmBrSmsCnf_each E g p = Some q \<Longrightarrow> appends E p q"
  "responseCdmaBrSmsCnf_each E h p = Some q \<Longrightarrow> appends E p q"
  by (auto simp: responseCallList_each_def write_uus_def responseDataCallList_each_def
      responseCallForwards_each_def responseCellList_each_def responseSimStatus_each_def
      responseGsmBrSmsCnf_each_def responseCdmaBrSmsCnf_each_def Let_def
      split: option.splits if_splits dest!: write_bytes_appends elim!: appends_trans [rotated])

lemma list_responses_append:
  "responseCallList E p r n = Some (ret, p') \<Longrightarrow> appends E p p'"
  "responseDataCallList E p r n = Some (ret, p') \<Longrightarrow> appends E p p'"
  "responseCallForwards E p r n = Some (ret, p') \<Longrightarrow> appends E p p'"
  "responseCellList E p r n = Some (ret, p') \<Longrightarrow> appends E p p'"
  "responseGsmBrSmsCnf E p r n = Some (ret, p') \<Longrightarrow> appends E p p'"
  "responseCdmaBrSmsCnf E p r n = Some (ret, p') \<Longrightarrow> appends E p p'"
  by (auto simp: responseCallList_def responseDataCallList_def responseCallForwards_def
      responseCellList_def responseGsmBrSmsCnf_def responseCdmaBrSmsCnf_def Let_def
      split: if_splits dest: respond_list_appends [OF _ each_appends(1)]
        respond_list_appends [OF _ each_appends(2)] respond_list_appends [OF _ each_appends(3)]
        respond_list_appends [OF _ each_appends(4)] respond_list_appends [OF _ each_appends(6)]
        respond_list_appends [OF _ each_appends(7)])

lemma scalar_responses_append:
  "responseSMS E p r n = Some (ret, p') \<Longrightarrow> appends E p p'"
  "responseSIM_IO E p r n = Some (ret, p') \<Longrightarrow> appends E p p'"
  "responseSsn E p r n = Some (ret, p') \<Longrightarrow> appends E p p'"
  "responseString E p r n = Some (ret, p') \<Longrightarrow> appends E p p'"
  "responseVoid E p r n = Some (ret, p') \<Longrightarrow> appends E p p'"
  "responseCdmaSignalInfoRecord E p r n = Some (ret, p') \<Longrightarrow> appends E p p'"
  "responseCallRing E p r n = Some (ret, p') \<Longrightarrow> appends E p p'"
  "responseCdmaCallWaiting E p r n = Some (ret, p') \<Longrightarrow> appends E p p'"
  by (auto simp: responseSMS_def responseSIM_IO_def responseSsn_def responseString_def responseVoid_def
      responseCdmaSignalInfoRecord_def responseCallRing_def responseCdmaCallWaiting_def
      marshallSignalInfoRecord_def Let_def split: if_splits option.splits resp_data.splits)

lemma responseRaw_appends: "responseRaw E p r n = Some (ret, p') \<Longrightarrow> appends E p p'"
  by (auto simp: responseRaw_def split: if_splits option.splits resp_data.splits Option.bind_splits
      dest!: write_bytes_appends elim!: appends_trans [rotated])

lemma responseInts_appends: "responseInts E p r n = Some (ret, p') \<Longrightarrow> appends E p p'"
  by (auto simp: responseInts_def Let_def split: if_splits Option.bind_splits
      elim!: foldM_aget_appends)

lemma responseStrings_appends: "responseStrings E p r n = Some (ret, p') \<Longrightarrow> appends E p p'"
  by (auto simp: responseStrings_def Let_def split: if_splits Option.bind_splits
      elim!: foldM_aget_appends)

lemma responseSimStatus_appends: "responseSimStatus E p r n = Some (ret, p') \<Longrightarrow> appends E p p'"
  by (auto simp: responseSimStatus_def Let_def
      split: if_splits option.splits resp_data.splits Option.bind_splits
      elim!: foldM_aget_appends intro: each_appends)

lemma appends_items [simp]: "appends E p q \<Longrightarrow> appends E p (write_items (env_parcel E) its q)"
  unfolding appends_def by (metis write_items_append)

lemma responseRilSignalStrength_appends:
  "responseRilSignalStrength E p r n = Some (ret, p') \<Longrightarrow> appends E p p'"
  unfolding responseRilSignalStrength_def Let_def zeros_written
  by (auto split: if_splits option.splits resp_data.splits Option.bind_splits
      elim!: foldM_aget_appends intro!: appends_items)

lemma write_digits_appends:
  "write_digits E ds lim q = Some r \<Longrightarrow> appends E p q \<Longrightarrow> appends E p r"
  unfolding write_digits_def by (rule foldM_aget_appends) auto

lemma responseCdmaSms_appends: "responseCdmaSms E p r n = Some (ret, p') \<Longrightarrow> appends E p p'"
  by (auto simp: responseCdmaSms_def Let_def
      split: if_splits option.splits resp_data.splits Option.bind_splits
      elim!: write_digits_appends intro!: appends_steps)

lemma info_number_appends: "info_number E n q = Some (ret, r) \<Longrightarrow> appends E p q \<Longrightarrow> appends E p r"
  by (auto simp: info_number_def Let_def split: if_splits Option.bind_splits)

lemma write_infoRec_appends: "write_infoRec E r p = Some (ret, q) \<Longrightarrow> appends E p q"
  by (auto simp: write_infoRec_def Let_def marshallSignalInfoRecord_def
      split: if_splits RIL_CDMA_InfoRec.splits Option.bind_splits
      elim!: info_number_appends intro!: appends_steps)

lemma write_infoRecs_appends:
  "write_infoRecs E rs is q = Some (ret, r) \<Longrightarrow> appends E p q \<Longrightarrow> appends E p r"
proof (induction "is" arbitrary: q)
  case Nil
  then show ?case by simp
next
  case (Cons i js)
  then obtain rc ret1 q1 where "aget rs i = Some rc" "write_infoRec E rc q = Some (ret1, q1)"
      "if ret1 \<noteq> 0 then q1 = r else write_infoRecs E rs js q1 = Some (ret, r)"
    by (auto split: Option.bind_splits if_splits)
  then show ?case using Cons.IH [of q1] Cons.prems(2) write_infoRec_appends appends_trans
    by (metis (full_types))
qed

lemma responseCdmaInformationRecords_appends:
  "responseCdmaInformationRecords E p r n = Some (ret, p') \<Longrightarrow> appends E p p'"
  by (auto simp: responseCdmaInformationRecords_def Let_def
      split: if_splits option.splits resp_data.splits elim!: write_infoRecs_appends)

lemma respond_appends: "respond f E p r n = Some (ret, p') \<Longrightarrow> appends E p p'"
  by (cases f) (simp_all add: list_responses_append scalar_responses_append responseRaw_appends
      responseInts_appends responseStrings_appends responseSimStatus_appends
      responseRilSignalStrength_appends responseCdmaSms_appends responseCdmaInformationRecords_appends)

section \<open>The guarantees\<close>

text \<open>The parcel that receives a response, and the parcel on the other side of the socket.\<close>

abbreviation fresh :: "'p ril_env \<Rightarrow> 'p" where "fresh E \<equiv> pf_empty (env_parcel E)"

definition received :: "'p ril_env \<Rightarrow> 'p \<Rightarrow> 'p" where
  "received E p = pf_setData (env_parcel E) (pf_data (env_parcel E) p)"

lemma received_items: "received E (write_items (env_parcel E) its (fresh E)) = parcel E its"
  by (simp add: received_def parcel_of_def)

text \<open>The unsolicited response for a new CDMA message and the request that sends one are inverse:
  a message that \<open>responseCdmaSms\<close> marshals is the message that \<open>dispatchCdmaSms\<close> gives to the
  vendor library, except that what lies behind the counted digits is cleared.\<close>

theorem cdma_sms_round_trip:
  assumes "good_env E" and "cdma_sms_ok m"
  shows "\<exists>p. responseCdmaSms E (fresh E) (Some (RCdmaSms m)) (size_of RIL_CDMA_SMS_Message_layout) = Some (0, p) \<and>
    dispatchCdmaSms E (received E p) =
      Some (OnRequest (DCdmaSms (cdma_sms_clear m)) (size_of RIL_CDMA_SMS_Message_layout))"
  using dispatchCdmaSms_holds [OF parcel_holds [OF assms(1) msg_cdma_sms_ok] assms(2)]
    responseCdmaSms_writes [OF assms(2), of E "fresh E"]
  by (simp add: received_items)

theorem cdma_sms_round_trip_witness:
  "\<exists>p. responseCdmaSms demo_env (fresh demo_env) (Some (RCdmaSms demo_cdma_sms)) 372 = Some (0, p) \<and>
    dispatchCdmaSms demo_env (received demo_env p) = Some (OnRequest (DCdmaSms (cdma_sms_clear demo_cdma_sms)) 372)"
  using cdma_sms_round_trip [OF demo_env_good demo_cdma_sms_ok] by (simp add: sizes_fixed)

lemma entries_ok:
  "list_all item_ok (msg_list msg_gsm_entry gs)" "list_all item_ok (msg_list msg_cdma_entry cs)"
  by (auto simp: list_all_iff msg_list_def msg_gsm_entry_def msg_cdma_entry_def)

definition cnf_fits :: "'p ril_env \<Rightarrow> ctype \<Rightarrow> 'a list \<Rightarrow> bool" where
  "cnf_fits E t cs \<longleftrightarrow> length cs < 2 ^ 27 \<and>
     length cs * (size_of t + ptr_size (env_abi E)) \<le> stack_avail (env_abi E) \<and>
     ptr_size (env_abi E) * length cs < 2 ^ (8 * ptr_size (env_abi E))"

text \<open>Broadcast configurations, GSM and CDMA, that the vendor library reports come back to it
  unchanged when they are set again.\<close>

theorem broadcast_config_round_trip:
  assumes "good_env E" and "4 \<le> ptr_size (env_abi E)"
    and "cnf_fits E RIL_GSM_BroadcastSmsConfigInfo_layout gs"
    and "cnf_fits E RIL_CDMA_BroadcastSmsConfigInfo_layout cs"
  shows "\<exists>p q.
    responseGsmBrSmsCnf E (fresh E) (Some (RGsmBrSmsCnf gs)) (length gs * ptr_size (env_abi E)) = Some (0, p) \<and>
    dispatchGsmBrSmsCnf E (received E p) = Some (OnRequest (DGsmBrSmsCnf gs) (ptr_size (env_abi E) * length gs)) \<and>
    responseCdmaBrSmsCnf E (fresh E) (Some (RCdmaBrSmsCnf cs)) (length cs * ptr_size (env_abi E)) = Some (0, q) \<and>
    dispatchCdmaBrSmsCnf E (received E q) = Some (OnRequest (DCdmaBrSmsCnf cs) (ptr_size (env_abi E) * length cs))"
  using list_responses_writes(4) [OF assms(2), of gs "fresh E"] list_responses_writes(5) [OF assms(2), of cs "fresh E"]
    dispatchGsmBrSmsCnf_parcel [OF assms(1) parcel_holds [OF assms(1) entries_ok(1)] assms(2), of gs]
    dispatchCdmaBrSmsCnf_parcel [OF assms(1) parcel_holds [OF assms(1) entries_ok(2)] assms(2), of cs] assms(3,4)
  by (simp add: cnf_fits_def received_items)

definition demo_gsm :: RIL_GSM_BroadcastSmsConfigInfo where
  "demo_gsm = \<lparr>gsmb_fromServiceId = 4352, gsmb_toServiceId = 4359, gsmb_fromCodeScheme = 0,
     gsmb_toCodeScheme = 255, gsmb_selected = 1\<rparr>"

theorem broadcast_config_round_trip_witness:
  "\<exists>p q.
    responseGsmBrSmsCnf demo_env (fresh demo_env) (Some (RGsmBrSmsCnf [demo_gsm, demo_gsm])) 16 = Some (0, p) \<and>
    dispatchGsmBrSmsCnf demo_env (received demo_env p) = Some (OnRequest (DGsmBrSmsCnf [demo_gsm, demo_gsm]) 16) \<and>
    responseCdmaBrSmsCnf demo_env (fresh demo_env) (Some (RCdmaBrSmsCnf [])) 0 = Some (0, q) \<and>
    dispatchCdmaBrSmsCnf demo_env (received demo_env q) = Some (OnRequest (DCdmaBrSmsCnf []) 0)"
  using broadcast_config_round_trip [OF demo_env_good, of "[demo_gsm, demo_gsm]" "[]"]
  by (simp add: cnf_fits_def size_simps)

text \<open>A response of strings is read by \<open>dispatchStrings\<close> as the same strings, null pointers
  included.\<close>

theorem strings_round_trip:
  assumes "good_env E" and "ss \<noteq> []" and "list_all ascii_opt ss" and "length ss < 2 ^ 31"
    and "0 < ptr_size (env_abi E)" and "fits E (ptr_size (env_abi E)) (length ss)"
  shows "\<exists>p. responseStrings E (fresh E) (Some (RStrings ss)) (ptr_size (env_abi E) * length ss) = Some (0, p) \<and>
    dispatchStrings E (received E p) = Some (OnRequest (DStrings (Some ss)) (ptr_size (env_abi E) * length ss))"
proof -
  let ?n = "of_nat (length ss) :: i32"
  have n: "sint ?n = int (length ss)" using assms(4) by (rule sint_small)
  have "0 < sint ?n" "nat (sint ?n) = length ss" using assms(2) unfolding n by simp_all
  moreover have "list_all item_ok (I32 ?n # map (str8 E) ss)"
    using assms(3) str8_ok [OF assms(1)] by (auto simp: list_all_iff)
  ultimately have "dispatchStrings E (parcel E (I32 ?n # map (str8 E) ss)) =
      Some (OnRequest (DStrings (Some ss)) (ptr_size (env_abi E) * length ss))"
    using dispatchStrings_parcel [OF assms(1) parcel_holds [OF assms(1)], of ?n ss] assms(3,5,6) by simp
  then show ?thesis
    using responseStrings_writes [OF assms(4,5), of "fresh E"]
    by (simp only: received_items) (metis received_items)
qed

theorem strings_round_trip_witness:
  "\<exists>p. responseStrings demo_env (fresh demo_env) (Some (RStrings [Some [79, 75], None])) 16 = Some (0, p) \<and>
    dispatchStrings demo_env (received demo_env p) = Some (OnRequest (DStrings (Some [Some [79, 75], None])) 16)"
  using strings_round_trip [OF demo_env_good, of "[Some [79, 75], None]"]
  by (simp add: ascii_opt_def ascii_def fits_def)

text \<open>\<open>responseInts\<close> computes the number of integers with the size of a pointer: where pointers have 4
  bytes it marshals all the integers, where they have 8 only the first half.\<close>

theorem responseInts_marshals:
  assumes "length xs < 2 ^ 29" and "4 \<le> ptr_size (env_abi E)"
  shows "responseInts E p (Some (RInts xs)) (4 * length xs) = Some (0, write_items (env_parcel E)
      (msg_list (\<lambda>x. [I32 x]) (take (4 * length xs div ptr_size (env_abi E)) xs)) p)"
  by (rule responseInts_writes [OF assms])

theorem responseInts_marshals_witness:
  "responseInts demo_env (fresh demo_env) (Some (RInts [5, 6])) 8 =
    Some (0, write_items byte_platform [I32 1, I32 5] (fresh demo_env))"
  using responseInts_marshals [of "[5, 6]" demo_env "fresh demo_env"] by (simp add: msg_list_def)

text \<open>The list of current calls is marshalled call by call in the order of the framework's parcel,
  with the user-to-user information of a call when the vendor library has version 3 and gives it.\<close>

theorem responseCallList_marshals:
  assumes "4 \<le> ptr_size (env_abi E)" and "length cs < 2 ^ 31" and "list_all (call_ok E) cs"
  shows "responseCallList E p (Some (RCallList cs)) (length cs * ptr_size (env_abi E)) =
    Some (0, write_items (env_parcel E) (msg_list (msg_call E) cs) p)"
  by (rule list_responses_writes(1) [OF assms])

definition demo_call :: RIL_Call where
  "demo_call = \<lparr>call_state = RIL_CALL_INCOMING, call_index = 1, call_toa = 129, call_isMpty = 0, call_isMT = 1,
     call_als = 0, call_isVoice = 1, call_isVoicePrivacy = 0, call_number = Some [49, 50], call_numberPresentation = 0,
     call_name = None, call_namePresentation = 2, call_uusInfo =
       Some \<lparr>uus_uusType = 0, uus_uusDcs = 0, uus_uusLength = 2, uus_uusData = Some [8, 9]\<rparr>\<rparr>"

theorem responseCallList_marshals_witness:
  "responseCallList demo_env (fresh demo_env) (Some (RCallList [demo_call])) 8 =
    Some (0, write_items byte_platform (msg_list (msg_call demo_env) [demo_call]) (fresh demo_env))"
  using responseCallList_marshals [of demo_env "[demo_call]" "fresh demo_env"]
  by (simp add: demo_call_def call_ok_def uus_ok_def)

text \<open>C40: The status of the SIM card is marshalled with as many applications as \<open>num_applications\<close>
  says, whatever multiple of the size of a pointer the length is; when it says more than there are,
  the loop reads behind the array.\<close>

theorem responseSimStatus_marshals:
  assumes "n mod ptr_size (env_abi E) = 0" and "0 \<le> sint (card_num_applications c)"
  shows "responseSimStatus E p (Some (RCardStatus c)) n =
    (if nat (sint (card_num_applications c)) \<le> length (card_applications c)
     then Some (0, write_items (env_parcel E) (msg_card E c) p) else None)"
proof (cases "nat (sint (card_num_applications c)) \<le> length (card_applications c)")
  case True
  then show ?thesis using responseSimStatus_writes [OF assms(2) True assms(1), of p] by simp
next
  case False
  let ?k = "length (card_applications c)"
  have up: "[0..<nat (sint (card_num_applications c))] =
      [0..<?k] @ ?k # [Suc ?k..<nat (sint (card_num_applications c))]"
    using False upt_split_at [of ?k "nat (sint (card_num_applications c))"] by (simp add: upt_conv_Cons)
  have "foldM (\<lambda>i p. do { app \<leftarrow> aget (card_applications c) i; responseSimStatus_each E app p })
      [0..<nat (sint (card_num_applications c))] q = None" for q
    unfolding up foldM_append by (auto split: Option.bind_splits)
  then show ?thesis using False assms(1) by (simp add: responseSimStatus_def Let_def)
qed

definition demo_card :: RIL_CardStatus where
  "demo_card = \<lparr>card_state = RIL_CARDSTATE_PRESENT, card_universal_pin_state = RIL_PINSTATE_UNKNOWN,
     card_gsm_umts_subscription_app_index = 0, card_cdma_subscription_app_index = - 1,
     card_num_applications = 1,
     card_applications = replicate 8 \<lparr>app_type = RIL_APPTYPE_SIM, app_state = RIL_APPSTATE_READY,
       app_perso_substate = RIL_PERSOSUBSTATE_READY, app_aid_ptr = None, app_label_ptr = None,
       app_pin1_replaced = 0, app_pin1 = RIL_PINSTATE_UNKNOWN, app_pin2 = RIL_PINSTATE_UNKNOWN\<rparr>\<rparr>"

theorem responseSimStatus_marshals_witness:
  "responseSimStatus demo_env (fresh demo_env) (Some (RCardStatus demo_card)) 8 =
     Some (0, write_items byte_platform (msg_card demo_env demo_card) (fresh demo_env)) \<and>
   responseSimStatus demo_env (fresh demo_env) (Some (RCardStatus (demo_card\<lparr>card_num_applications := 9\<rparr>))) 8 = None"
  using responseSimStatus_marshals [of 8 demo_env demo_card "fresh demo_env"]
    responseSimStatus_marshals [of 8 demo_env "demo_card\<lparr>card_num_applications := 9\<rparr>" "fresh demo_env"]
  by (simp add: demo_card_def)

text \<open>CDMA information records are marshalled in order, at most ten of them, each with its name, its
  characters up to the first zero and its other fields.\<close>

theorem responseCdmaInformationRecords_marshals:
  assumes "irs_numberOfInfoRecs r < 128" and "list_all infoRec_ok (irs_infoRec r)"
    and "length (irs_infoRec r) = RIL_CDMA_MAX_NUMBER_OF_INFO_RECS"
  shows "responseCdmaInformationRecords E p (Some (RInformationRecords r))
      (size_of RIL_CDMA_InformationRecords_layout) =
    Some (0, write_items (env_parcel E)
      (msg_list (msg_infoRec E) (take (unat (irs_numberOfInfoRecs r)) (irs_infoRec r))) p)"
  by (rule responseCdmaInformationRecords_writes [OF assms])

definition demo_records :: RIL_CDMA_InformationRecords where
  "demo_records = \<lparr>irs_numberOfInfoRecs = 1, irs_infoRec = replicate 10
     \<lparr>ir_name = 0, ir_rec = Rec_display \<lparr>disp_alpha_len = 3, disp_alpha_buf = [72, 105, 0] @ replicate 61 0\<rparr>\<rparr>\<rparr>"

theorem responseCdmaInformationRecords_marshals_witness:
  "responseCdmaInformationRecords demo_env (fresh demo_env) (Some (RInformationRecords demo_records)) 964 =
    Some (0, write_items byte_platform [I32 1, I32 0, S16 (Some [72, 105])] (fresh demo_env))"
  using responseCdmaInformationRecords_marshals [of demo_records demo_env "fresh demo_env"]
  by (simp add: demo_records_def ril_limits infoRec_ok_def info_rec_names sizes_fixed msg_list_def
      msg_infoRec_def info_chars_def byte_platform_def list_all_iff)

text \<open>The deprecated form of the signal strength, some integers, is filled up with zeros to the seven
  integers that the framework reads.\<close>

theorem signal_strength_old_form:
  assumes "length xs \<noteq> 7"
  shows "responseRilSignalStrength E p (Some (RInts xs)) (4 * length xs) =
    Some (0, write_items (env_parcel E) (map I32 xs @ replicate (7 - length xs) (I32 0)) p)"
  by (rule responseRilSignalStrength_old [OF assms])

theorem signal_strength_old_form_witness:
  "responseRilSignalStrength demo_env (fresh demo_env) (Some (RInts [18, 99])) 8 =
    Some (0, write_items byte_platform [I32 18, I32 99, I32 0, I32 0, I32 0, I32 0, I32 0] (fresh demo_env))"
  using signal_strength_old_form [of "[18, 99]" demo_env "fresh demo_env"] by (simp add: numeral_eq_Suc)

text \<open>A response function only appends to the parcel, also when it finds an error half-way: what
  was written before it, the header of the message, stays as it is.\<close>

theorem respond_only_appends:
  assumes "respond f E p r n = Some (ret, p')"
  shows "\<exists>its. p' = write_items (env_parcel E) its p"
  using respond_appends [OF assms] by (simp add: appends_def)

theorem respond_only_appends_witness:
  "\<exists>its. write_items byte_platform [I32 1, I32 5] (fresh demo_env) =
    write_items (env_parcel demo_env) its (fresh demo_env)"
  by (rule respond_only_appends [of ResponseInts demo_env "fresh demo_env" "Some (RInts [5, 6])" 8 0])
    (use responseInts_writes [of "[5, 6]" demo_env "fresh demo_env"] in \<open>simp add: msg_list_def\<close>)

end
