(* ===== verification/Ril_Core.thy ===== *)
theory Ril_Core
  imports Ril_Event Ril_Dispatch Ril_Response
begin

text \<open>
  The daemon itself, the rest of \<open>libril/ril.cpp\<close>: the pending requests, the command socket with its
  framing, solicited and unsolicited responses, timed callbacks, and the callbacks of the event loop.

  The state extends the state of the event loop, so that callbacks run on the whole. What the
  daemon gets from the operating system and from the vendor library is the record \<open>world\<close>: the
  results of system calls as functions of the number of the call, and the vendor's functions as
  functions of the state, so that they may call back into the daemon.

  The sections protected by \<open>s_pendingRequestsMutex\<close> and \<open>s_writeMutex\<close> call nothing that could take
  these mutexes again and release them on every path; they are atomic steps here.
\<close>

section \<open>State\<close>

definition MAX_COMMAND_BYTES :: nat where "MAX_COMMAND_BYTES = 8 * 1024"
definition RESPONSE_SOLICITED :: i32 where "RESPONSE_SOLICITED = 0"
definition RESPONSE_UNSOLICITED :: i32 where "RESPONSE_UNSOLICITED = 1"
definition TIMEVAL_WAKE_TIMEOUT :: timeval where "TIMEVAL_WAKE_TIMEOUT = Timeval 1 0"

text \<open>The functions stored in events, and the functions stored in user callbacks.\<close>

datatype ril_func =
  ProcessCommandsCallback | ProcessWakeupCallback | ListenCallback | UserTimerCallback

datatype timed_callback = WakeTimeoutCallback | VendorCallback nat

record RequestInfo =
  ri_token :: i32
  ri_pCI :: CommandInfo
  ri_next :: addr
  ri_cancelled :: bool
  ri_local :: bool

text \<open>The \<open>event\<close> inside a \<open>UserCallbackInfo\<close> is in the heap of events, at the same address.\<close>

record UserCallbackInfo =
  uc_callback :: timed_callback
  uc_param :: addr

text \<open>What others can see of the daemon.\<close>

datatype effect =
    Sent int "u8 list"       \<comment> \<open>bytes written to a descriptor\<close>
  | Closed int
  | StreamNew addr int nat   \<comment> \<open>\<open>record_stream_new\<close>\<close>
  | StreamFree addr
  | Requested i32 req_data nat addr   \<comment> \<open>a call of \<open>onRequest\<close>\<close>
  | PropertySet cstr         \<comment> \<open>the property \<open>gsm.version.ril-impl\<close>\<close>
  | Exited

text \<open>The addresses of the static events.\<close>

definition s_commands_event :: addr where "s_commands_event = 3"
definition s_wakeupfd_event :: addr where "s_wakeupfd_event = 4"
definition s_listen_event :: addr where "s_listen_event = 5"

record ril_state = "ril_func event_state" +
  s_registerCalled :: bool
  s_version :: int                 \<comment> \<open>\<open>s_callbacks.version\<close>\<close>
  s_started :: bool
  s_fdListen :: int
  s_fdCommand :: int
  s_fdWakeupRead :: int
  s_fdWakeupWrite :: int
  s_pendingRequests :: addr
  requests :: "addr \<rightharpoonup> RequestInfo"  \<comment> \<open>the allocated requests\<close>
  s_last_wake_timeout_info :: addr
  users :: "addr \<rightharpoonup> UserCallbackInfo" \<comment> \<open>the allocated user callbacks\<close>
  s_lastNITZTimeData :: "u8 list option"
  on_dispatch :: bool              \<comment> \<open>the running thread is \<open>s_tid_dispatch\<close>\<close>
  tick :: nat                      \<comment> \<open>system calls so far\<close>
  trace :: "effect list"

text \<open>The state before anything runs: static variables are zero or have their initialisers.\<close>

definition initial_state :: ril_state where
  "initial_state = \<lparr>
     heap = [timer_list \<mapsto> zero_event, pending_list \<mapsto> zero_event, s_commands_event \<mapsto> zero_event,
       s_wakeupfd_event \<mapsto> zero_event, s_listen_event \<mapsto> zero_event],
     watch_table = replicate MAX_FD_EVENTS NULL, readFds = {}, nfds = 0, listLocked = False,
     s_registerCalled = False, s_version = 0, s_started = False, s_fdListen = - 1, s_fdCommand = - 1,
     s_fdWakeupRead = 0, s_fdWakeupWrite = 0, s_pendingRequests = NULL, requests = (\<lambda>_. None),
     s_last_wake_timeout_info = NULL, users = (\<lambda>_. None), s_lastNITZTimeData = None,
     on_dispatch = False, tick = 0, trace = []\<rparr>"

section \<open>The world outside\<close>

datatype write_result = Wrote nat | WriteError bool      \<comment> \<open>\<open>True\<close>: \<open>errno\<close> is \<open>EINTR\<close>\<close>
datatype read_result = ReadBytes nat | ReadError bool    \<comment> \<open>\<open>True\<close>: \<open>errno\<close> is \<open>EINTR\<close>\<close>

text \<open>\<open>record_stream_get_next\<close>: a record, the end of the stream, or an error, \<open>EAGAIN\<close> and \<open>EINTR\<close> or not.\<close>

datatype record_result = Record "u8 list" | EndOfStream | RecordError bool

record ('p, 'z) world =
  w_env :: "'p ril_env"
  w_write :: "nat \<Rightarrow> write_result"
  w_read :: "nat \<Rightarrow> read_result"
  w_malloc :: "nat \<Rightarrow> (addr \<Rightarrow> bool) \<Rightarrow> addr"   \<comment> \<open>given the addresses in use\<close>
  w_now :: "nat \<Rightarrow> timeval"
  w_elapsedRealtime :: "nat \<Rightarrow> i64"
  w_accept :: "nat \<Rightarrow> int"
  w_server :: "nat \<Rightarrow> int"
  w_pipe :: "nat \<Rightarrow> (int \<times> int) option"
  w_thread :: "nat \<Rightarrow> bool"        \<comment> \<open>whether \<open>pthread_create\<close> starts the thread\<close>
  w_record :: "addr \<Rightarrow> nat \<Rightarrow> record_result"
  w_onRequest :: "i32 \<Rightarrow> req_data \<Rightarrow> nat \<Rightarrow> addr \<Rightarrow> 'z ril_state_scheme \<Rightarrow> 'z ril_state_scheme option"
  w_onStateRequest :: "nat \<Rightarrow> RIL_RadioState"
  w_getVersion :: "(nat \<Rightarrow> cstr) option"    \<comment> \<open>\<open>None\<close>: the function pointer is null\<close>
  w_timed :: "nat \<Rightarrow> addr \<Rightarrow> 'z ril_state_scheme \<Rightarrow> 'z ril_state_scheme option"

text \<open>A call whose result the world determines.\<close>

definition sys :: "(nat \<Rightarrow> 'a) \<Rightarrow> 'z ril_state_scheme \<Rightarrow> 'a \<times> 'z ril_state_scheme" where
  "sys f s = (f (tick s), s\<lparr>tick := Suc (tick s)\<rparr>)"

definition emit :: "effect \<Rightarrow> 'z ril_state_scheme \<Rightarrow> 'z ril_state_scheme" where
  "emit e s = s\<lparr>trace := trace s @ [e]\<rparr>"

definition live :: "'z ril_state_scheme \<Rightarrow> addr \<Rightarrow> bool" where
  "live s a \<longleftrightarrow> requests s a \<noteq> None \<or> users s a \<noteq> None \<or> heap s a \<noteq> None"

text \<open>A null pointer from \<open>malloc\<close> is dereferenced at once, by every caller.\<close>

definition ril_malloc :: "('p, 'z) world \<Rightarrow> 'z ril_state_scheme \<Rightarrow> (addr \<times> 'z ril_state_scheme) option" where
  "ril_malloc W s = (let (a, s) = sys (\<lambda>n. w_malloc W n (live s)) s in if a = NULL then None else Some (a, s))"

definition run_env :: "('p, 'z) world \<Rightarrow> 'z ril_state_scheme \<Rightarrow> 'p ril_env" where
  "run_env W s = (w_env W)\<lparr>env_version := s_version s\<rparr>"

definition onRequest :: "('p, 'z) world \<Rightarrow> i32 \<Rightarrow> req_data \<Rightarrow> nat \<Rightarrow> addr \<Rightarrow> 'z ril_state_scheme \<Rightarrow> 'z ril_state_scheme option" where
  "onRequest W request data datalen t s =
     w_onRequest W request data datalen t (emit (Requested request data datalen t) s)"

section \<open>Requests\<close>

text \<open>Both callers allocate a \<open>RequestInfo\<close> and put it in front of the pending requests.\<close>

definition push_request :: "addr \<Rightarrow> i32 \<Rightarrow> CommandInfo \<Rightarrow> bool \<Rightarrow> 'z ril_state_scheme \<Rightarrow> 'z ril_state_scheme" where
  "push_request pRI token pCI loc s = s\<lparr>
     requests := (requests s)(pRI \<mapsto> \<lparr>ri_token = token, ri_pCI = pCI, ri_next = s_pendingRequests s,
       ri_cancelled = False, ri_local = loc\<rparr>),
     s_pendingRequests := pRI\<rparr>"

definition issueLocalRequest ::
    "('p, 'z) world \<Rightarrow> i32 \<Rightarrow> req_data \<Rightarrow> nat \<Rightarrow> 'z ril_state_scheme \<Rightarrow> 'z ril_state_scheme option" where
  "issueLocalRequest W request data len s = do {
     (pRI, s) \<leftarrow> ril_malloc W s;
     pCI \<leftarrow> aget s_commands (nat (sint request));
     onRequest W request data len pRI (push_request pRI (- 1) pCI True s)
   }"

definition processCommandBuffer ::
    "('p, 'z) world \<Rightarrow> u8 list \<Rightarrow> 'z ril_state_scheme \<Rightarrow> 'z ril_state_scheme option" where
  "processCommandBuffer W buffer s =
     (let E = run_env W s;
          p = pf_setData (env_parcel E) buffer;
          (status, request, p) = readInt32 E p (env_t E);
          (status, token, p) = readInt32 E p (env_t E)
      in if status \<noteq> NO_ERROR then Some s
         else if sint request < 1 \<or> sint request \<ge> int (length s_commands) then Some s
         else do {
           (pRI, s) \<leftarrow> ril_malloc W s;
           pCI \<leftarrow> aget s_commands (nat (sint request));
           let s = push_request pRI token pCI False s;
           f \<leftarrow> dispatchFunction pCI;
           r \<leftarrow> dispatch f E p;
           (case r of
              InvalidCommandBlock \<Rightarrow> Some s
            | OnRequest data datalen \<Rightarrow> onRequest W (requestNumber pCI) data datalen pRI s)
         })"

text \<open>
  \<open>ppCur\<close> points to \<open>s_pendingRequests\<close> or to the \<open>p_next\<close> of a request.
\<close>

datatype link = ListHead | NextOf addr

definition get_link :: "link \<Rightarrow> 'z ril_state_scheme \<Rightarrow> addr option" where
  "get_link l s = (case l of ListHead \<Rightarrow> Some (s_pendingRequests s)
     | NextOf a \<Rightarrow> map_option ri_next (requests s a))"

definition set_link :: "link \<Rightarrow> addr \<Rightarrow> 'z ril_state_scheme \<Rightarrow> 'z ril_state_scheme option" where
  "set_link l v s = (case l of ListHead \<Rightarrow> Some (s\<lparr>s_pendingRequests := v\<rparr>)
     | NextOf a \<Rightarrow> map_option (\<lambda>r. s\<lparr>requests := (requests s)(a \<mapsto> r\<lparr>ri_next := v\<rparr>)\<rparr>) (requests s a))"

partial_function (option) dequeue_loop ::
    "addr \<Rightarrow> link \<Rightarrow> 'z ril_state_scheme \<Rightarrow> (bool \<times> 'z ril_state_scheme) option" where
  "dequeue_loop pRI ppCur s = do {
     cur \<leftarrow> get_link ppCur s;
     if cur = NULL then Some (False, s)
     else if pRI = cur then do {
       r \<leftarrow> requests s cur;
       s \<leftarrow> set_link ppCur (ri_next r) s;
       Some (True, s)
     }
     else dequeue_loop pRI (NextOf cur) s
   }"

definition checkAndDequeueRequestInfo :: "addr \<Rightarrow> 'z ril_state_scheme \<Rightarrow> (bool \<times> 'z ril_state_scheme) option" where
  "checkAndDequeueRequestInfo pRI s =
     (if pRI = NULL then Some (False, s) else dequeue_loop pRI ListHead s)"

partial_function (option) cancel_loop ::
    "addr \<Rightarrow> (addr \<rightharpoonup> RequestInfo) \<Rightarrow> (addr \<rightharpoonup> RequestInfo) option" where
  "cancel_loop p_cur rs =
     (if p_cur = NULL then Some rs
      else do {
        r \<leftarrow> rs p_cur;
        cancel_loop (ri_next r) (rs(p_cur \<mapsto> r\<lparr>ri_cancelled := True\<rparr>))
      })"

definition onCommandsSocketClosed :: "'z ril_state_scheme \<Rightarrow> 'z ril_state_scheme option" where
  "onCommandsSocketClosed s = do {
     rs \<leftarrow> cancel_loop (s_pendingRequests s) (requests s);
     Some (s\<lparr>requests := rs\<rparr>)
   }"

section \<open>Sending\<close>

text \<open>
  \<open>write\<close> takes at most what it is given. The loop ends with the last byte or with an error other
  than \<open>EINTR\<close>, after which the descriptor is closed.
\<close>

partial_function (option) blockingWrite_loop ::
    "('p, 'z) world \<Rightarrow> int \<Rightarrow> u8 list \<Rightarrow> nat \<Rightarrow> 'z ril_state_scheme \<Rightarrow> (int \<times> 'z ril_state_scheme) option" where
  "blockingWrite_loop W fd buffer writeOffset s =
     (if writeOffset < length buffer then
        (let (r, s) = sys (w_write W) s
         in case r of
              Wrote k \<Rightarrow>
                (let n = min k (length buffer - writeOffset)
                 in blockingWrite_loop W fd buffer (writeOffset + n)
                      (emit (Sent fd (take n (drop writeOffset buffer))) s))
            | WriteError eintr \<Rightarrow>
                if eintr then blockingWrite_loop W fd buffer writeOffset s
                else Some (- 1, emit (Closed fd) s))
      else Some (0, s))"

definition blockingWrite ::
    "('p, 'z) world \<Rightarrow> int \<Rightarrow> u8 list \<Rightarrow> 'z ril_state_scheme \<Rightarrow> (int \<times> 'z ril_state_scheme) option" where
  "blockingWrite W fd buffer s = blockingWrite_loop W fd buffer 0 s"

definition sendResponseRaw ::
    "('p, 'z) world \<Rightarrow> u8 list \<Rightarrow> 'z ril_state_scheme \<Rightarrow> (int \<times> 'z ril_state_scheme) option" where
  "sendResponseRaw W data s =
     (let fd = s_fdCommand s
      in if s_fdCommand s < 0 then Some (- 1, s)
         else if length data > MAX_COMMAND_BYTES then Some (- 1, s)
         else do {
           (ret, s) \<leftarrow> blockingWrite W fd (be32 (of_nat (length data))) s;
           if ret < 0 then Some (ret, s)
           else do {
             (ret, s) \<leftarrow> blockingWrite W fd data s;
             if ret < 0 then Some (ret, s) else Some (0, s)
           }
         })"

definition sendResponse ::
    "('p, 'z) world \<Rightarrow> 'p \<Rightarrow> 'z ril_state_scheme \<Rightarrow> (int \<times> 'z ril_state_scheme) option" where
  "sendResponse W p s = sendResponseRaw W (pf_data (env_parcel (w_env W)) p) s"

section \<open>Waking up the event loop\<close>

text \<open>The event loop sleeps in \<open>select\<close>; a byte in the pipe of \<open>s_wakeupfd_event\<close> wakes it up.\<close>

partial_function (option) processWakeupCallback ::
    "('p, 'z) world \<Rightarrow> 'z ril_state_scheme \<Rightarrow> 'z ril_state_scheme option" where
  "processWakeupCallback W s =
     (let (r, s) = sys (w_read W) s
      in case r of
           ReadBytes n \<Rightarrow> if n > 0 then processWakeupCallback W s else Some s
         | ReadError eintr \<Rightarrow> if eintr then processWakeupCallback W s else Some s)"

partial_function (option) triggerEvLoop_loop ::
    "('p, 'z) world \<Rightarrow> 'z ril_state_scheme \<Rightarrow> 'z ril_state_scheme option" where
  "triggerEvLoop_loop W s =
     (let (r, s) = sys (w_write W) s
      in case r of
           Wrote k \<Rightarrow> Some (emit (Sent (s_fdWakeupWrite s) (take k [32])) s)
         | WriteError eintr \<Rightarrow> if eintr then triggerEvLoop_loop W s else Some s)"

definition triggerEvLoop :: "('p, 'z) world \<Rightarrow> 'z ril_state_scheme \<Rightarrow> 'z ril_state_scheme option" where
  "triggerEvLoop W s = (if \<not> on_dispatch s then triggerEvLoop_loop W s else Some s)"

definition rilEventAddWakeup :: "('p, 'z) world \<Rightarrow> addr \<Rightarrow> 'z ril_state_scheme \<Rightarrow> 'z ril_state_scheme option" where
  "rilEventAddWakeup W ev s = do {
     s \<leftarrow> ril_event_add ev s;
     triggerEvLoop W s
   }"

text \<open>\<open>ril_event_set\<close> on the heap of the state.\<close>

definition event_set ::
    "addr \<Rightarrow> int \<Rightarrow> bool \<Rightarrow> ril_func \<Rightarrow> addr \<Rightarrow> 'z ril_state_scheme \<Rightarrow> 'z ril_state_scheme option" where
  "event_set ev fd persist func param s =
     map_option (\<lambda>h. s\<lparr>heap := h\<rparr>) (ril_event_set ev fd persist func param (heap s))"

section \<open>Timed callbacks\<close>

text \<open>The bodies of the next two are commented out in the source.\<close>

definition grabPartialWakeLock :: "'z ril_state_scheme \<Rightarrow> 'z ril_state_scheme" where
  "grabPartialWakeLock s = s"

definition releaseWakeLock :: "'z ril_state_scheme \<Rightarrow> 'z ril_state_scheme" where
  "releaseWakeLock s = s"

definition wakeTimeoutCallback :: "addr \<Rightarrow> 'z ril_state_scheme \<Rightarrow> 'z ril_state_scheme" where
  "wakeTimeoutCallback param s = (if param = NULL then releaseWakeLock s else s)"

definition internalRequestTimedCallback ::
    "('p, 'z) world \<Rightarrow> timed_callback \<Rightarrow> addr \<Rightarrow> timeval option \<Rightarrow> 'z ril_state_scheme \<Rightarrow>
     (addr \<times> 'z ril_state_scheme) option" where
  "internalRequestTimedCallback W callback param relativeTime s = do {
     (p_info, s) \<leftarrow> ril_malloc W s;
     let s = s\<lparr>users := (users s)(p_info \<mapsto> \<lparr>uc_callback = callback, uc_param = param\<rparr>),
               heap := (heap s)(p_info \<mapsto> zero_event)\<rparr>;
     let myRelativeTime = (case relativeTime of None \<Rightarrow> Timeval 0 0 | Some t \<Rightarrow> t);
     s \<leftarrow> event_set p_info (- 1) False UserTimerCallback p_info s;
     let (now, s) = sys (w_now W) s;
     s \<leftarrow> ril_timer_add now p_info (Some myRelativeTime) s;
     s \<leftarrow> triggerEvLoop W s;
     Some (p_info, s)
   }"

definition RIL_requestTimedCallback ::
    "('p, 'z) world \<Rightarrow> timed_callback \<Rightarrow> addr \<Rightarrow> timeval option \<Rightarrow> 'z ril_state_scheme \<Rightarrow>
     'z ril_state_scheme option" where
  "RIL_requestTimedCallback W callback param relativeTime s =
     map_option snd (internalRequestTimedCallback W callback param relativeTime s)"

definition call_timed ::
    "('p, 'z) world \<Rightarrow> timed_callback \<Rightarrow> addr \<Rightarrow> 'z ril_state_scheme \<Rightarrow> 'z ril_state_scheme option" where
  "call_timed W callback param s = (case callback of
       WakeTimeoutCallback \<Rightarrow> Some (wakeTimeoutCallback param s)
     | VendorCallback n \<Rightarrow> w_timed W n param s)"

text \<open>Freeing the user callback frees the event inside it.\<close>

definition userTimerCallback ::
    "('p, 'z) world \<Rightarrow> addr \<Rightarrow> 'z ril_state_scheme \<Rightarrow> 'z ril_state_scheme option" where
  "userTimerCallback W p_info s = do {
     i \<leftarrow> users s p_info;
     s \<leftarrow> call_timed W (uc_callback i) (uc_param i) s;
     let s = (if s_last_wake_timeout_info s \<noteq> NULL \<and> s_last_wake_timeout_info s = p_info
              then s\<lparr>s_last_wake_timeout_info := NULL\<rparr> else s);
     Some (s\<lparr>users := (users s)(p_info := None), heap := (heap s)(p_info := None)\<rparr>)
   }"

section \<open>Responses\<close>

text \<open>
  The end of a request. The response function may fail after it has written a part of its output;
  then the error field is overwritten, and the rest of the parcel stays.
\<close>

definition solicited_parcel ::
    "('p, 'z) world \<Rightarrow> RequestInfo \<Rightarrow> RIL_Errno \<Rightarrow> resp_data option \<Rightarrow> nat \<Rightarrow> 'z ril_state_scheme \<Rightarrow> 'p option" where
  "solicited_parcel W r e response responselen s =
     (let E = run_env W s;
          P = env_parcel E;
          p = pf_writeInt32 P (pf_empty P) RESPONSE_SOLICITED;
          p = pf_writeInt32 P p (requestNumber (ri_pCI r));
          p = pf_writeInt32 P p (ri_token r);
          errorOffset = pf_dataPosition P p;
          p = pf_writeInt32 P p (RIL_Errno_val e)
      in if response \<noteq> None then do {
           f \<leftarrow> responseFunction (ri_pCI r);
           (ret, p) \<leftarrow> respond f E p response responselen;
           Some (if ret \<noteq> 0 then pf_writeInt32 P (pf_setDataPosition P p errorOffset) ret else p)
         }
         else Some (pf_writeInt32 P (pf_writeInt32 P p 0) 0))"

definition RIL_onRequestComplete ::
    "('p, 'z) world \<Rightarrow> addr \<Rightarrow> RIL_Errno \<Rightarrow> resp_data option \<Rightarrow> nat \<Rightarrow> 'z ril_state_scheme \<Rightarrow>
     'z ril_state_scheme option" where
  "RIL_onRequestComplete W t e response responselen s = do {
     (found, s) \<leftarrow> checkAndDequeueRequestInfo t s;
     if \<not> found then Some s
     else do {
       r \<leftarrow> requests s t;
       s \<leftarrow> (if ri_local r then Some s
            else if \<not> ri_cancelled r then do {
              p \<leftarrow> solicited_parcel W r e response responselen s;
              (ret, s) \<leftarrow> sendResponse W p s;
              Some s
            }
            else Some s);
       Some (s\<lparr>requests := (requests s)(t := None)\<rparr>)
     }
   }"

text \<open>What two of the unsolicited responses add to what the response function writes.\<close>

definition unsol_payload ::
    "('p, 'z) world \<Rightarrow> i32 \<Rightarrow> i64 \<Rightarrow> 'p \<Rightarrow> 'z ril_state_scheme \<Rightarrow> 'p \<times> 'z ril_state_scheme" where
  "unsol_payload W unsolResponse timeReceived p s =
     (if unsolResponse = RIL_UNSOL_RESPONSE_RADIO_STATE_CHANGED then
        (let (st, s) = sys (w_onStateRequest W) s
         in (pf_writeInt32 (env_parcel (w_env W)) p (RIL_RadioState_val st), s))
      else if unsolResponse = RIL_UNSOL_NITZ_TIME_RECEIVED then
        (pf_writeInt64 (env_parcel (w_env W)) p timeReceived, s)
      else (p, s))"

definition schedule_wake_timeout :: "('p, 'z) world \<Rightarrow> 'z ril_state_scheme \<Rightarrow> 'z ril_state_scheme option" where
  "schedule_wake_timeout W s = do {
     s \<leftarrow> (if s_last_wake_timeout_info s \<noteq> NULL then do {
            i \<leftarrow> users s (s_last_wake_timeout_info s);
            Some (s\<lparr>users := (users s)(s_last_wake_timeout_info s \<mapsto> i\<lparr>uc_param := 1\<rparr>)\<rparr>)
          }
          else Some s);
     (a, s) \<leftarrow> internalRequestTimedCallback W WakeTimeoutCallback NULL (Some TIMEVAL_WAKE_TIMEOUT) s;
     Some (s\<lparr>s_last_wake_timeout_info := a\<rparr>)
   }"

definition RIL_onUnsolicitedResponse ::
    "('p, 'z) world \<Rightarrow> i32 \<Rightarrow> resp_data option \<Rightarrow> nat \<Rightarrow> 'z ril_state_scheme \<Rightarrow> 'z ril_state_scheme option" where
  "RIL_onUnsolicitedResponse W unsolResponse data datalen s =
     (let unsolResponseIndex = sint (unsolResponse - RIL_UNSOL_RESPONSE_BASE)
      in if \<not> s_registerCalled s then Some s
         else if unsolResponseIndex < 0 \<or> unsolResponseIndex \<ge> int (length s_unsolResponses) then Some s
         else do {
           info \<leftarrow> aget s_unsolResponses (nat unsolResponseIndex);
           let shouldScheduleTimeout = (wakeType info = WAKE_PARTIAL);
           let s = (if shouldScheduleTimeout then grabPartialWakeLock s else s);
           let (timeReceived, s) = (if unsolResponse = RIL_UNSOL_NITZ_TIME_RECEIVED
                                    then sys (w_elapsedRealtime W) s else (0, s));
           let P = env_parcel (w_env W);
           let p = pf_writeInt32 P (pf_writeInt32 P (pf_empty P) RESPONSE_UNSOLICITED) unsolResponse;
           (ret, p) \<leftarrow> respond (unsolFunction info) (run_env W s) p data datalen;
           if ret \<noteq> 0 then Some (if shouldScheduleTimeout then releaseWakeLock s else s)
           else do {
             let (p, s) = unsol_payload W unsolResponse timeReceived p s;
             (ret, s) \<leftarrow> sendResponse W p s;
             let s = (if ret \<noteq> 0 \<and> unsolResponse = RIL_UNSOL_NITZ_TIME_RECEIVED
                      then s\<lparr>s_lastNITZTimeData := Some (pf_data P p)\<rparr> else s);
             if shouldScheduleTimeout then schedule_wake_timeout W s else Some s
           }
         })"

section \<open>Connections\<close>

definition onNewCommandConnect :: "('p, 'z) world \<Rightarrow> 'z ril_state_scheme \<Rightarrow> 'z ril_state_scheme option" where
  "onNewCommandConnect W s = do {
     s \<leftarrow> RIL_onUnsolicitedResponse W RIL_UNSOL_RESPONSE_RADIO_STATE_CHANGED None 0 s;
     s \<leftarrow> (case s_lastNITZTimeData s of
            Some d \<Rightarrow> do {
              (ret, s) \<leftarrow> sendResponseRaw W d s;
              Some (s\<lparr>s_lastNITZTimeData := None\<rparr>)
            }
          | None \<Rightarrow> Some s);
     Some (case w_getVersion W of
         Some getVersion \<Rightarrow> (let (version, s) = sys getVersion s in emit (PropertySet version) s)
       | None \<Rightarrow> emit (PropertySet (Some (map of_char ''unavailable''))) s)
   }"

text \<open>
  The credentials of the peer are looked up and then ignored: the code that would refuse a peer is
  commented out. A failing \<open>fcntl\<close> is only printed.
\<close>

definition listenCallback :: "('p, 'z) world \<Rightarrow> int \<Rightarrow> 'z ril_state_scheme \<Rightarrow> 'z ril_state_scheme option" where
  "listenCallback W fd s =
     (if \<not> s_fdCommand s < 0 \<or> fd \<noteq> s_fdListen s then None
      else do {
        let (a, s) = sys (w_accept W) s;
        let s = s\<lparr>s_fdCommand := a\<rparr>;
        if s_fdCommand s < 0 then rilEventAddWakeup W s_listen_event s
        else do {
          let (p_rs, s) = sys (\<lambda>n. w_malloc W n (live s)) s;
          let s = emit (StreamNew p_rs (s_fdCommand s) MAX_COMMAND_BYTES) s;
          s \<leftarrow> event_set s_commands_event (s_fdCommand s) True ProcessCommandsCallback p_rs s;
          s \<leftarrow> rilEventAddWakeup W s_commands_event s;
          onNewCommandConnect W s
        }
      })"

text \<open>
  The records of a connection, until there is none for now or the stream ends. \<open>True\<close> is the end of
  the connection.
\<close>

partial_function (option) processCommands_loop ::
    "('p, 'z) world \<Rightarrow> addr \<Rightarrow> 'z ril_state_scheme \<Rightarrow> (bool \<times> 'z ril_state_scheme) option" where
  "processCommands_loop W p_rs s =
     (let (r, s) = sys (w_record W p_rs) s
      in case r of
           Record buffer \<Rightarrow> do {
             s \<leftarrow> processCommandBuffer W buffer s;
             processCommands_loop W p_rs s
           }
         | EndOfStream \<Rightarrow> Some (True, s)
         | RecordError again \<Rightarrow> Some (\<not> again, s))"

definition processCommandsCallback ::
    "('p, 'z) world \<Rightarrow> int \<Rightarrow> addr \<Rightarrow> 'z ril_state_scheme \<Rightarrow> 'z ril_state_scheme option" where
  "processCommandsCallback W fd p_rs s =
     (if fd \<noteq> s_fdCommand s then None
      else do {
        (ended, s) \<leftarrow> processCommands_loop W p_rs s;
        if ended then do {
          let s = emit (Closed (s_fdCommand s)) s;
          let s = s\<lparr>s_fdCommand := - 1\<rparr>;
          s \<leftarrow> ril_event_del s_commands_event s;
          let s = emit (StreamFree p_rs) s;
          s \<leftarrow> rilEventAddWakeup W s_listen_event s;
          onCommandsSocketClosed s
        }
        else Some s
      })"

section \<open>The event loop and the registration\<close>

text \<open>The functions stored in events, with the arguments that \<open>firePending\<close> passes.\<close>

definition call_back :: "('p, 'z) world \<Rightarrow> (ril_func, 'z ril_state_ext) fire" where
  "call_back W f fd param s = (case f of
       ProcessCommandsCallback \<Rightarrow> processCommandsCallback W fd param s
     | ProcessWakeupCallback \<Rightarrow> processWakeupCallback W s
     | ListenCallback \<Rightarrow> listenCallback W fd s
     | UserTimerCallback \<Rightarrow> userTimerCallback W param s)"

text \<open>
  The thread of the event loop: its first part ends when \<open>RIL_startEventLoop\<close> may go on, the second
  creates the pipe, and then \<open>ril_event_loop\<close> runs, unless there is no pipe.
\<close>

definition eventLoop_started :: "'z ril_state_scheme \<Rightarrow> 'z ril_state_scheme" where
  "eventLoop_started s = (ril_event_init s)\<lparr>s_started := True\<rparr>"

definition eventLoop_pipe :: "('p, 'z) world \<Rightarrow> 'z ril_state_scheme \<Rightarrow> (bool \<times> 'z ril_state_scheme) option" where
  "eventLoop_pipe W s =
     (let (filedes, s) = sys (w_pipe W) s
      in case filedes of
           None \<Rightarrow> Some (False, s)
         | Some (r, w) \<Rightarrow> do {
             let s = s\<lparr>s_fdWakeupRead := r, s_fdWakeupWrite := w\<rparr>;
             s \<leftarrow> event_set s_wakeupfd_event (s_fdWakeupRead s) True ProcessWakeupCallback NULL s;
             s \<leftarrow> rilEventAddWakeup W s_wakeupfd_event s;
             Some (True, s)
           })"

definition eventLoop ::
    "('p, 'z) world \<Rightarrow> (timeval \<times> select_result \<times> timeval) list \<Rightarrow> 'z ril_state_scheme \<Rightarrow>
     'z ril_state_scheme loop_result option" where
  "eventLoop W turns s = do {
     (piped, s) \<leftarrow> eventLoop_pipe W (eventLoop_started s);
     if piped then ril_event_loop (call_back W) turns s else Some (Returned s)
   }"

text \<open>Without a thread nobody sets \<open>s_started\<close>, and the caller waits for ever.\<close>

definition RIL_startEventLoop :: "('p, 'z) world \<Rightarrow> 'z ril_state_scheme \<Rightarrow> 'z ril_state_scheme option" where
  "RIL_startEventLoop W s =
     (let s = s\<lparr>s_started := False\<rparr>;
          (started, s) = sys (w_thread W) s
      in if started then Some (eventLoop_started s) else None)"

definition RIL_setcallbacks :: "int \<Rightarrow> 'z ril_state_scheme \<Rightarrow> 'z ril_state_scheme" where
  "RIL_setcallbacks version s = s\<lparr>s_version := version\<rparr>"

definition tables_ok :: bool where
  "tables_ok \<longleftrightarrow>
     (\<forall>i \<in> set [0..<length s_commands]. of_nat i = requestNumber (s_commands ! i)) \<and>
     (\<forall>i \<in> set [0..<length s_unsolResponses].
        of_nat i + RIL_UNSOL_RESPONSE_BASE = unsolNumber (s_unsolResponses ! i))"

text \<open>The argument is the version in \<open>callbacks\<close>, or \<open>None\<close> for a null pointer.\<close>

definition RIL_register :: "('p, 'z) world \<Rightarrow> int option \<Rightarrow> 'z ril_state_scheme \<Rightarrow> 'z ril_state_scheme option" where
  "RIL_register W callbacks s =
     (case callbacks of
        None \<Rightarrow> Some s
      | Some version \<Rightarrow>
          if version \<noteq> sint RIL_VERSION \<and> version \<noteq> 2 then Some s
          else if s_registerCalled s then Some s
          else do {
            let s = (RIL_setcallbacks version s)\<lparr>s_registerCalled := True\<rparr>;
            if \<not> tables_ok then None
            else do {
              s \<leftarrow> (if \<not> s_started s then RIL_startEventLoop W s else Some s);
              let (ret, s) = sys (w_server W) s;
              if ret < 0 then Some (emit Exited s)
              else do {
                let s = s\<lparr>s_fdListen := ret\<rparr>;
                s \<leftarrow> event_set s_listen_event (s_fdListen s) False ListenCallback NULL s;
                rilEventAddWakeup W s_listen_event s
              }
            }
          })"

end
