(* ===== verification/Ril_Send.thy ===== *)
theory Ril_Send
  imports Ril_Core
begin

text \<open>
  Lemmas on the sending part of the daemon: what \<open>blockingWrite\<close> puts on a descriptor, whatever the
  sizes of the partial writes, when it ends, and what \<open>sendResponseRaw\<close> makes of it. Sending
  changes nothing in the state but the number of system calls and the trace, which the relation
  \<open>io\<close> says; its rules are collected in \<open>io_intros\<close>.
\<close>

named_theorems io_intros "effects on the outside only"

section \<open>Effects\<close>

definition io :: "effect list \<Rightarrow> 'z ril_state_scheme \<Rightarrow> 'z ril_state_scheme \<Rightarrow> bool" where
  "io es s s' \<longleftrightarrow> (\<exists>t \<ge> tick s. s' = s\<lparr>tick := t, trace := trace s @ es\<rparr>)"

lemma io_refl [io_intros]: "io [] s s"
  unfolding io_def by (rule exI [of _ "tick s"]) simp

lemma io_trans:
  assumes "io es s s'" and "io fs s' s''"
  shows "io (es @ fs) s s''"
proof -
  obtain t u where "tick s \<le> t" "s' = s\<lparr>tick := t, trace := trace s @ es\<rparr>"
      "t \<le> u" "s'' = s\<lparr>tick := u, trace := trace s @ es @ fs\<rparr>"
    using assms by (auto simp: io_def)
  then show ?thesis unfolding io_def by (intro exI [of _ u]) simp
qed

lemma io_emit1 [io_intros]: "io [e] s (emit e s)"
  unfolding io_def emit_def by (rule exI [of _ "tick s"]) simp

lemma io_sys: "sys f s = (r, s') \<Longrightarrow> io [] s s'"
  unfolding io_def sys_def by (rule exI [of _ "Suc (tick s)"]) auto

lemma io_Nil_trans: "io [] s s' \<Longrightarrow> io fs s' s'' \<Longrightarrow> io fs s s''"
  using io_trans [of "[]" s s' fs s''] by simp

lemma io_fields:
  assumes "io es s s'"
  shows "heap s' = heap s" "watch_table s' = watch_table s" "readFds s' = readFds s" "nfds s' = nfds s"
    "listLocked s' = listLocked s" "s_registerCalled s' = s_registerCalled s" "s_version s' = s_version s"
    "s_started s' = s_started s" "s_fdListen s' = s_fdListen s" "s_fdCommand s' = s_fdCommand s"
    "s_fdWakeupRead s' = s_fdWakeupRead s" "s_fdWakeupWrite s' = s_fdWakeupWrite s"
    "s_pendingRequests s' = s_pendingRequests s" "requests s' = requests s"
    "s_last_wake_timeout_info s' = s_last_wake_timeout_info s" "users s' = users s"
    "s_lastNITZTimeData s' = s_lastNITZTimeData s" "on_dispatch s' = on_dispatch s"
    "trace s' = trace s @ es" "tick s \<le> tick s'"
  using assms by (auto simp: io_def)

text \<open>The bytes that went to a descriptor.\<close>

fun wire :: "int \<Rightarrow> effect list \<Rightarrow> u8 list" where
  "wire fd [] = []"
| "wire fd (Sent fd' bs # es) = (if fd' = fd then bs else []) @ wire fd es"
| "wire fd (_ # es) = wire fd es"

lemma wire_append [simp]: "wire fd (es @ fs) = wire fd es @ wire fd fs"
  by (induction fd es rule: wire.induct) auto

section \<open>\<open>blockingWrite\<close>\<close>

text \<open>Only writes to one descriptor.\<close>

definition writes_to :: "int \<Rightarrow> effect list \<Rightarrow> bool" where
  "writes_to fd es \<longleftrightarrow> (\<forall>e \<in> set es. \<exists>bs. e = Sent fd bs)"

lemma writes_to_simps [simp]:
  "writes_to fd []"
  "writes_to fd (e # es) \<longleftrightarrow> (\<exists>bs. e = Sent fd bs) \<and> writes_to fd es"
  "writes_to fd (es @ fs) \<longleftrightarrow> writes_to fd es \<and> writes_to fd fs"
  by (auto simp: writes_to_def)

text \<open>A result of 0 comes with all the bytes, a result of \<open>-1\<close> with a proper beginning and a close.\<close>

definition written :: "int \<Rightarrow> u8 list \<Rightarrow> int \<Rightarrow> effect list \<Rightarrow> bool" where
  "written fd bs ret es \<longleftrightarrow>
     ret = 0 \<and> writes_to fd es \<and> wire fd es = bs \<or>
     ret = - 1 \<and> (\<exists>ws n. es = ws @ [Closed fd] \<and> writes_to fd ws \<and> n < length bs \<and> wire fd ws = take n bs)"

lemma written_Cons:
  assumes "written fd (drop (off + k) bs) ret es" and "off < length bs" and "k \<le> length bs - off"
  shows "written fd (drop off bs) ret (Sent fd (take k (drop off bs)) # es)"
proof -
  have d: "take k (drop off bs) @ drop (off + k) bs = drop off bs"
    by (metis append_take_drop_id drop_drop add.commute)
  show ?thesis
  proof (cases "ret = 0 \<and> writes_to fd es \<and> wire fd es = drop (off + k) bs")
    case True
    then show ?thesis using d by (simp add: written_def)
  next
    case False
    then obtain ws n where w: "ret = - 1" "es = ws @ [Closed fd]" "writes_to fd ws"
        "n < length (drop (off + k) bs)" "wire fd ws = take n (drop (off + k) bs)"
      using assms(1) by (auto simp: written_def)
    have "wire fd (Sent fd (take k (drop off bs)) # ws) = take (k + n) (drop off bs)"
      using w(5) by (simp add: take_add drop_drop add.commute)
    moreover have "k + n < length (drop off bs)" using w(4) assms by simp
    ultimately show ?thesis
      unfolding written_def using w(1,2,3)
      by (intro disjI2 conjI exI [of _ "Sent fd (take k (drop off bs)) # ws"] exI [of _ "k + n"]) auto
  qed
qed

lemma written_prefix:
  assumes "written fd bs ret es" and "ret < 0"
  shows "written fd (bs @ cs) ret es"
proof -
  obtain ws n where w: "es = ws @ [Closed fd]" "writes_to fd ws" "n < length bs" "wire fd ws = take n bs" "ret = - 1"
    using assms by (auto simp: written_def)
  then have "wire fd ws = take n (bs @ cs)" "n < length (bs @ cs)" by simp_all
  then show ?thesis unfolding written_def using w by blast
qed

lemma written_append:
  assumes "written fd as r es" and "\<not> r < 0" and "written fd bs q fs"
  shows "written fd (as @ bs) (if q < 0 then q else 0) (es @ fs)"
proof -
  have es: "writes_to fd es" "wire fd es = as" using assms(1,2) by (auto simp: written_def)
  show ?thesis
  proof (cases "q < 0")
    case False
    then show ?thesis using assms(3) es by (auto simp: written_def)
  next
    case True
    then obtain ws n where w: "q = - 1" "fs = ws @ [Closed fd]" "writes_to fd ws" "n < length bs"
        "wire fd ws = take n bs"
      using assms(3) by (auto simp: written_def)
    then show ?thesis
      unfolding written_def using es
      by (intro disjI2 conjI exI [of _ "es @ ws"] exI [of _ "length as + n"]) auto
  qed
qed

lemma blockingWrite_loop_written:
  "blockingWrite_loop W fd bs off s = Some y \<Longrightarrow> off \<le> length bs \<longrightarrow>
     (\<exists>es. io es s (snd y) \<and> written fd (drop off bs) (fst y) es)"
proof (erule blockingWrite_loop.raw_induct [rotated, where P = "\<lambda>W fd bs off s y. off \<le> length bs \<longrightarrow>
     (\<exists>es. io es s (snd y) \<and> written fd (drop off bs) (fst y) es)"], goal_cases)
  case (1 bw W fd bs off s y)
  obtain r u where r: "sys (w_write W) s = (r, u)" "io [] s u" by (metis io_sys surj_pair)
  show ?case
  proof (cases "off < length bs")
    case False
    then have "y = (0, s)" using 1(2) by simp
    then show ?thesis using False by (intro impI exI [of _ "[]"]) (simp add: io_refl written_def)
  next
    case True
    then have step: "(case r of Wrote k \<Rightarrow> bw W fd bs (off + min k (length bs - off))
            (emit (Sent fd (take (min k (length bs - off)) (drop off bs))) u)
        | WriteError eintr \<Rightarrow> if eintr then bw W fd bs off u else Some (- 1, emit (Closed fd) u)) = Some y"
      using 1(2) r(1) unfolding Let_def by (simp only: if_True prod.case)
    show ?thesis
    proof (cases r)
      case (Wrote k)
      let ?k = "min k (length bs - off)"
      obtain es where es: "io es (emit (Sent fd (take ?k (drop off bs))) u) (snd y)"
          "written fd (drop (off + ?k) bs) (fst y) es"
        using 1(1) [of W fd bs "off + ?k" "emit (Sent fd (take ?k (drop off bs))) u" y] step Wrote True
        by fastforce
      have "io (Sent fd (take ?k (drop off bs)) # es) s (snd y)"
        using io_Nil_trans [OF r(2) io_trans [OF io_emit1 es(1)]] by simp
      moreover have "written fd (drop off bs) (fst y) (Sent fd (take ?k (drop off bs)) # es)"
        by (rule written_Cons [OF es(2) True]) simp
      ultimately show ?thesis by blast
    next
      case (WriteError eintr)
      show ?thesis
      proof (cases eintr)
        case True
        then show ?thesis using 1(1) [of W fd bs off u y] step WriteError io_Nil_trans [OF r(2)] by auto
      next
        case False
        then have "y = (- 1, emit (Closed fd) u)" using step WriteError by simp
        moreover have "written fd (drop off bs) (- 1) [Closed fd]"
          using True by (auto simp: written_def intro: exI [of _ "0"])
        ultimately show ?thesis using io_Nil_trans [OF r(2) io_emit1] by auto
      qed
    qed
  qed
qed

lemma blockingWrite_written:
  assumes "blockingWrite W fd bs s = Some (ret, s')"
  shows "\<exists>es. io es s s' \<and> written fd bs ret es"
  using blockingWrite_loop_written [of W fd bs 0 s "(ret, s')"] assms by (simp add: blockingWrite_def)

text \<open>A peer that keeps reading, or an error: the writes that do neither are finitely many in a row.\<close>

definition writes_progress :: "('p, 'z) world \<Rightarrow> bool" where
  "writes_progress W \<longleftrightarrow> (\<forall>n. \<exists>m \<ge> n. w_write W m \<notin> {Wrote 0, WriteError True})"

lemma blockingWrite_loop_total:
  fixes s :: "'b ril_state_scheme"
  assumes "writes_progress W"
  shows "\<exists>y. blockingWrite_loop W fd bs off s = Some y"
proof (induction "length bs - off" arbitrary: off s rule: less_induct)
  case less
  note outer = less
  obtain m where "m \<ge> tick s" "w_write W m \<notin> {Wrote 0, WriteError True}"
    using assms by (auto simp: writes_progress_def)
  then show ?case
  proof (induction "m - tick s" arbitrary: s rule: less_induct)
    case (less s)
    show ?case
    proof (cases "off < length bs")
      case True
      have again: "\<exists>y. blockingWrite_loop W fd bs off u = Some y"
        if "w_write W (tick s) \<in> {Wrote 0, WriteError True}" "tick u = Suc (tick s)" for u :: "'b ril_state_scheme"
      proof -
        have "tick s < m" using that(1) less.prems by (metis le_neq_implies_less)
        then show ?thesis using less.hyps [of u] less.prems that(2) by simp
      qed
      show ?thesis
      proof (cases "w_write W (tick s)")
        case (Wrote k)
        show ?thesis
        proof (cases "k = 0")
          case True
          then show ?thesis
            using again Wrote by (subst blockingWrite_loop.simps) (simp add: sys_def emit_def)
        next
          case False
          have "length bs - (off + min k (length bs - off)) < length bs - off" using True False by simp
          then show ?thesis
            using outer Wrote True by (subst blockingWrite_loop.simps) (simp add: sys_def Let_def)
        qed
      next
        case (WriteError eintr)
        then show ?thesis
          using again True by (subst blockingWrite_loop.simps) (cases eintr; simp add: sys_def)
      qed
    qed (simp add: blockingWrite_loop.simps)
  qed
qed

lemma blockingWrite_total: "writes_progress W \<Longrightarrow> \<exists>ret s'. blockingWrite W fd bs s = Some (ret, s')"
  using blockingWrite_loop_total [of W fd bs 0 s] by (auto simp: blockingWrite_def)

section \<open>Frames\<close>

definition frame :: "u8 list \<Rightarrow> u8 list" where
  "frame data = be32 (of_nat (length data)) @ data"

text \<open>What a call of \<open>sendResponseRaw\<close> on an open descriptor does to the outside.\<close>

lemma sendResponseRaw_cases:
  assumes "sendResponseRaw W d s = Some (ret, s')"
  obtains (refused) "s_fdCommand s < 0 \<or> MAX_COMMAND_BYTES < length d" "ret = - 1" "s' = s"
    | (sent) es where "0 \<le> s_fdCommand s" "length d \<le> MAX_COMMAND_BYTES" "io es s s'"
        "written (s_fdCommand s) (frame d) ret es"
proof (cases "s_fdCommand s < 0 \<or> MAX_COMMAND_BYTES < length d")
  case True
  then show ?thesis using assms refused by (auto simp: sendResponseRaw_def Let_def split: if_splits)
next
  case False
  let ?fd = "s_fdCommand s" and ?h = "be32 (of_nat (length d))"
  obtain r u where u: "blockingWrite W ?fd ?h s = Some (r, u)"
      "(if r < 0 then Some (r, u) else do {
          (ret, s) \<leftarrow> blockingWrite W ?fd d u; if ret < 0 then Some (ret, s) else Some (0, s) }) = Some (ret, s')"
    using assms False by (cases "blockingWrite W ?fd ?h s") (auto simp: sendResponseRaw_def Let_def)
  obtain es where es: "io es s u" "written ?fd ?h r es" using blockingWrite_written [OF u(1)] by blast
  show ?thesis
  proof (cases "r < 0")
    case True
    then have "written ?fd (frame d) ret es"
      using u(2) written_prefix [OF es(2)] by (simp add: frame_def)
    then show ?thesis using sent es(1) u(2) True False by force
  next
    case rf: False
    obtain q where q: "blockingWrite W ?fd d u = Some (q, s')" "ret = (if q < 0 then q else 0)"
      using u(2) rf by (cases "blockingWrite W ?fd d u") (auto split: if_splits)
    obtain fs where fs: "io fs u s'" "written ?fd d q fs" using blockingWrite_written [OF q(1)] by blast
    have "written ?fd (frame d) ret (es @ fs)"
      using es(2) fs(2) rf q(2) written_append by (auto simp: frame_def)
    then show ?thesis using sent io_trans [OF es(1) fs(1)] False by force
  qed
qed

end
