(* ===== verification/Ril_Pending.thy ===== *)
theory Ril_Pending
  imports Ril_Send "HOL-Library.AList"
begin

text \<open>
  The pending requests. The locale \<open>request_store\<close> is the contract between the daemon and its list
  of requests: a store of requests by token with three operations, as an association list shows
  them. What follows from the contract alone, that a token is taken at most once for each time it
  was put, is proved in it. The rest of the theory shows that the linked list of \<open>ril.cpp\<close>, with its
  pointer to a pointer that walks the list, honours the contract.
\<close>

section \<open>The contract\<close>

datatype 'k store_op = Put addr 'k | Take addr | CancelAll

definition abs_op ::
    "('k \<Rightarrow> 'd) \<Rightarrow> ('d \<Rightarrow> 'd) \<Rightarrow> 'k store_op \<Rightarrow> (addr \<times> 'd) list \<Rightarrow> (addr \<times> 'd) list" where
  "abs_op new cancel op R = (case op of Put a k \<Rightarrow> (a, new k) # R | Take a \<Rightarrow> AList.delete a R
     | CancelAll \<Rightarrow> map (\<lambda>(a, d). (a, cancel d)) R)"

text \<open>What taking a token returns: whether it was there.\<close>

definition abs_found :: "'k store_op \<Rightarrow> (addr \<times> 'd) list \<Rightarrow> bool" where
  "abs_found op R = (case op of Take a \<Rightarrow> a \<in> set (map fst R) | _ \<Rightarrow> False)"

lemma keys_abs_op: "map fst (abs_op new c op R) = (case op of Put a k \<Rightarrow> a # map fst R
    | Take a \<Rightarrow> filter (\<lambda>x. x \<noteq> a) (map fst R) | CancelAll \<Rightarrow> map fst R)"
  by (auto simp: abs_op_def AList.delete_eq filter_map comp_def case_prod_unfold eq_commute split: store_op.splits)

text \<open>A token in the store is not put again.\<close>

definition op_ok :: "'k store_op \<Rightarrow> (addr \<times> 'd) list \<Rightarrow> bool" where
  "op_ok op R = (case op of Put a k \<Rightarrow> a \<noteq> NULL \<and> a \<notin> set (map fst R) | _ \<Rightarrow> True)"

fun ops_ok :: "('k \<Rightarrow> 'd) \<Rightarrow> ('d \<Rightarrow> 'd) \<Rightarrow> 'k store_op list \<Rightarrow> (addr \<times> 'd) list \<Rightarrow> bool" where
  "ops_ok new c [] R \<longleftrightarrow> True"
| "ops_ok new c (op # ops) R \<longleftrightarrow> op_ok op R \<and> ops_ok new c ops (abs_op new c op R)"

fun abs_run :: "('k \<Rightarrow> 'd) \<Rightarrow> ('d \<Rightarrow> 'd) \<Rightarrow> 'k store_op list \<Rightarrow> (addr \<times> 'd) list \<Rightarrow> (addr \<times> 'd) list" where
  "abs_run new c [] R = R"
| "abs_run new c (op # ops) R = abs_run new c ops (abs_op new c op R)"

text \<open>How often a token is taken while it is there, and how often it is put.\<close>

fun taken :: "('k \<Rightarrow> 'd) \<Rightarrow> ('d \<Rightarrow> 'd) \<Rightarrow> addr \<Rightarrow> 'k store_op list \<Rightarrow> (addr \<times> 'd) list \<Rightarrow> nat" where
  "taken new c a [] R = 0"
| "taken new c a (op # ops) R =
     (if op = Take a \<and> abs_found op R then 1 else 0) + taken new c a ops (abs_op new c op R)"

fun puts :: "addr \<Rightarrow> 'k store_op list \<Rightarrow> nat" where
  "puts a [] = 0"
| "puts a (op # ops) = (case op of Put b k \<Rightarrow> if a = b then 1 else 0 | _ \<Rightarrow> 0) + puts a ops"

lemma taken_le_puts:
  assumes "ops_ok new c ops R" and "distinct (map fst R)"
  shows "taken new c a ops R \<le> puts a ops + (if a \<in> set (map fst R) then 1 else 0)"
  using assms
proof (induction ops arbitrary: R)
  case Nil
  then show ?case by simp
next
  case (Cons op ops)
  have "distinct (map fst (abs_op new c op R))"
    using Cons.prems by (auto simp: keys_abs_op op_ok_def split: store_op.splits)
  then have "taken new c a ops (abs_op new c op R) \<le>
      puts a ops + (if a \<in> set (map fst (abs_op new c op R)) then 1 else 0)"
    using Cons by simp
  moreover have "(if a \<in> set (map fst (abs_op new c op R)) then 1 else 0) +
        (if op = Take a \<and> abs_found op R then 1 else 0)
      \<le> (case op of Put b k \<Rightarrow> if a = b then 1 else 0 | _ \<Rightarrow> 0) + (if a \<in> set (map fst R) then 1 else (0::nat))"
    by (auto simp: keys_abs_op abs_found_def split: store_op.splits)
  ultimately show ?case by simp
qed

text \<open>What was cancelled stays cancelled until it is taken.\<close>

lemma abs_run_stale:
  assumes "\<forall>d. P (c d)" and "\<forall>d. P d \<longrightarrow> P (c d)" and "\<forall>d. (a, d) \<in> set R \<longrightarrow> P d" and "puts a ops = 0"
  shows "(a, d) \<in> set (abs_run new c ops R) \<Longrightarrow> P d"
  using assms(3,4)
proof (induction ops arbitrary: R)
  case Nil
  then show ?case by simp
next
  case (Cons op ops)
  have "\<forall>d. (a, d) \<in> set (abs_op new c op R) \<longrightarrow> P d"
    using Cons.prems(2,3) assms(1)
    by (auto simp: abs_op_def AList.delete_eq split: store_op.splits if_splits)
  then show ?case using Cons.IH [of "abs_op new c op R"] Cons.prems(1,3) by simp
qed

locale request_store =
  fixes rep :: "'s \<Rightarrow> (addr \<times> 'd) list \<Rightarrow> bool"
    and put :: "addr \<Rightarrow> 'k \<Rightarrow> 's \<Rightarrow> 's"
    and take_req :: "addr \<Rightarrow> 's \<Rightarrow> (bool \<times> 's) option"
    and cancel_all :: "'s \<Rightarrow> 's option"
    and new :: "'k \<Rightarrow> 'd"
    and cancel :: "'d \<Rightarrow> 'd"
  assumes put_rep: "rep s R \<Longrightarrow> a \<noteq> NULL \<Longrightarrow> a \<notin> set (map fst R) \<Longrightarrow> rep (put a k s) ((a, new k) # R)"
    and take_rep: "rep s R \<Longrightarrow> \<exists>s'. take_req a s = Some (a \<in> set (map fst R), s') \<and> rep s' (AList.delete a R)"
    and cancel_rep: "rep s R \<Longrightarrow> \<exists>s'. cancel_all s = Some s' \<and> rep s' (map (\<lambda>(a, d). (a, cancel d)) R)"
begin

fun run_op :: "'k store_op \<Rightarrow> 's \<Rightarrow> (bool \<times> 's) option" where
  "run_op (Put a k) s = Some (False, put a k s)"
| "run_op (Take a) s = take_req a s"
| "run_op CancelAll s = map_option (Pair False) (cancel_all s)"

fun run_ops :: "'k store_op list \<Rightarrow> 's \<Rightarrow> 's option" where
  "run_ops [] s = Some s"
| "run_ops (op # ops) s = do { (found, s) \<leftarrow> run_op op s; run_ops ops s }"

lemma run_op_rep:
  assumes "rep s R" and "op_ok op R"
  shows "\<exists>s'. run_op op s = Some (abs_found op R, s') \<and> rep s' (abs_op new cancel op R)"
  using assms put_rep take_rep [OF assms(1)] cancel_rep [OF assms(1)]
  by (cases op) (auto simp: abs_found_def abs_op_def op_ok_def)

lemma run_ops_rep:
  "rep s R \<Longrightarrow> ops_ok new cancel ops R \<Longrightarrow>
   \<exists>s'. run_ops ops s = Some s' \<and> rep s' (abs_run new cancel ops R)"
proof (induction ops arbitrary: s R)
  case Nil
  then show ?case by simp
next
  case (Cons op ops)
  then obtain u where "run_op op s = Some (abs_found op R, u)" "rep u (abs_op new cancel op R)"
    using run_op_rep [OF Cons.prems(1), of op] by auto
  then show ?case using Cons.IH [of u "abs_op new cancel op R"] Cons.prems(2) by simp
qed

end

section \<open>The list of \<open>ril.cpp\<close>\<close>

text \<open>What a request is besides its place in the list.\<close>

definition req_data :: "RequestInfo \<Rightarrow> RequestInfo" where
  "req_data r = r\<lparr>ri_next := NULL\<rparr>"

lemma req_data_simps [simp]:
  "req_data (r\<lparr>ri_next := a\<rparr>) = req_data r"
  "ri_token (req_data r) = ri_token r" "ri_pCI (req_data r) = ri_pCI r"
  "ri_cancelled (req_data r) = ri_cancelled r" "ri_local (req_data r) = ri_local r"
  "req_data (r\<lparr>ri_cancelled := b\<rparr>) = (req_data r)\<lparr>ri_cancelled := b\<rparr>"
  by (simp_all add: req_data_def)

fun chain :: "(addr \<rightharpoonup> RequestInfo) \<Rightarrow> addr \<Rightarrow> (addr \<times> RequestInfo) list \<Rightarrow> bool" where
  "chain rs a [] \<longleftrightarrow> a = NULL"
| "chain rs a ((x, d) # R) \<longleftrightarrow>
     a = x \<and> x \<noteq> NULL \<and> (\<exists>r. rs x = Some r \<and> req_data r = d \<and> chain rs (ri_next r) R)"

definition pending :: "'z ril_state_scheme \<Rightarrow> (addr \<times> RequestInfo) list \<Rightarrow> bool" where
  "pending s R \<longleftrightarrow> chain (requests s) (s_pendingRequests s) R \<and> distinct (map fst R)"

lemma chain_frame: "(\<forall>x \<in> set (map fst R). rs' x = rs x) \<Longrightarrow> chain rs' a R = chain rs a R"
  by (induction R arbitrary: a) auto

lemma chain_update [simp]: "x \<notin> fst ` set R \<Longrightarrow> chain (rs(x := v)) a R = chain rs a R"
  by (rule chain_frame) auto

lemma chain_request: "chain rs a R \<Longrightarrow> (x, d) \<in> set R \<Longrightarrow> x \<noteq> NULL \<and> (\<exists>r. rs x = Some r \<and> req_data r = d)"
  by (induction R arbitrary: a) auto

definition new_request :: "i32 \<times> CommandInfo \<times> bool \<Rightarrow> RequestInfo" where
  "new_request = (\<lambda>(token, pCI, loc).
     \<lparr>ri_token = token, ri_pCI = pCI, ri_next = NULL, ri_cancelled = False, ri_local = loc\<rparr>)"

lemma pending_push:
  assumes "pending s R" and "a \<noteq> NULL" and "a \<notin> set (map fst R)"
  shows "pending (push_request a token pCI loc s) ((a, new_request (token, pCI, loc)) # R)"
  using assms by (simp add: pending_def push_request_def req_data_def new_request_def)

lemma pending_free:
  "pending s R \<Longrightarrow> a \<notin> set (map fst R) \<Longrightarrow> pending (s\<lparr>requests := (requests s)(a := None)\<rparr>) R"
  by (simp add: pending_def)

text \<open>
  The walk with \<open>ppCur\<close>, from a link outside the rest of the list. Only links change, those of the
  rest and the one it started from.
\<close>

definition link_ok :: "link \<Rightarrow> addr list \<Rightarrow> bool" where
  "link_ok l xs \<longleftrightarrow> (case l of ListHead \<Rightarrow> True | NextOf b \<Rightarrow> b \<notin> set xs)"

definition only_links :: "link \<Rightarrow> addr list \<Rightarrow> 'z ril_state_scheme \<Rightarrow> 'z ril_state_scheme \<Rightarrow> bool" where
  "only_links l xs s s' \<longleftrightarrow>
     (\<exists>h rs. s' = s\<lparr>s_pendingRequests := h, requests := rs\<rparr> \<and> (l \<noteq> ListHead \<longrightarrow> h = s_pendingRequests s) \<and>
       (\<forall>x. map_option req_data (rs x) = map_option req_data (requests s x)) \<and>
       (\<forall>x. x \<notin> set xs \<longrightarrow> l \<noteq> NextOf x \<longrightarrow> rs x = requests s x))"

lemma only_links_here:
  assumes "get_link l s = Some a" and "requests s a = Some r"
  shows "\<exists>s'. set_link l v s = Some s' \<and> get_link l s' = Some v \<and> only_links l xs s s'"
proof (cases l)
  case ListHead
  then show ?thesis
    by (auto simp: set_link_def get_link_def only_links_def
        intro!: exI [of _ v] exI [of _ "requests s"])
next
  case (NextOf b)
  then obtain rb where "requests s b = Some rb" using assms(1) by (auto simp: get_link_def)
  then show ?thesis using NextOf
    by (auto simp: set_link_def get_link_def only_links_def
        intro!: exI [of _ "s_pendingRequests s"] exI [of _ "(requests s)(b \<mapsto> rb\<lparr>ri_next := v\<rparr>)"])
qed

lemma only_links_mono: "only_links l xs s s' \<Longrightarrow> set xs \<subseteq> set ys \<Longrightarrow> only_links l ys s s'"
  unfolding only_links_def by blast

lemma only_links_data:
  "only_links l xs s s' \<Longrightarrow> map_option req_data (requests s' x) = map_option req_data (requests s x)"
  by (auto simp: only_links_def)

lemma only_links_same_link:
  assumes "only_links (NextOf x) xs s s'" and "link_ok l (x # xs)" and "get_link l s = Some x"
    and "x \<in> set (map fst R)" and "set xs \<subseteq> set (map fst R)"
  shows "get_link l s' = Some x \<and> only_links l (map fst R) s s'"
proof -
  obtain h rs where s': "s' = s\<lparr>s_pendingRequests := h, requests := rs\<rparr>" "h = s_pendingRequests s"
      "\<forall>y. map_option req_data (rs y) = map_option req_data (requests s y)"
      "\<forall>y. y \<notin> set xs \<longrightarrow> x \<noteq> y \<longrightarrow> rs y = requests s y"
    using assms(1) by (auto simp: only_links_def)
  have "get_link l s' = Some x"
    using assms(2,3) s' by (cases l) (auto simp: get_link_def link_ok_def)
  moreover have "only_links l (map fst R) s s'"
    unfolding only_links_def using s' assms(4,5)
    by (intro exI [of _ h] exI [of _ rs]) auto
  ultimately show ?thesis ..
qed

lemma dequeue_loop_chain:
  assumes "get_link l s = Some a" and "chain (requests s) a R" and "distinct (map fst R)"
    and "link_ok l (map fst R)"
  shows "\<exists>s' b. dequeue_loop pRI l s = Some (pRI \<in> set (map fst R), s') \<and> get_link l s' = Some b \<and>
    chain (requests s') b (AList.delete pRI R) \<and> only_links l (map fst R) s s'"
  using assms
proof (induction R arbitrary: l s a)
  case Nil
  then show ?case
    by (subst dequeue_loop.simps)
      (auto simp: only_links_def intro!: exI [of _ "s_pendingRequests s"] exI [of _ "requests s"])
next
  case (Cons xd R)
  obtain x d where xd: "xd = (x, d)" by force
  obtain r where r: "a = x" "x \<noteq> NULL" "requests s x = Some r" "req_data r = d" "chain (requests s) (ri_next r) R"
    using Cons.prems(2) xd by auto
  show ?case
  proof (cases "pRI = x")
    case True
    obtain s' where s': "set_link l (ri_next r) s = Some s'" "get_link l s' = Some (ri_next r)"
        "only_links l [] s s'"
      using only_links_here [of l s x r "ri_next r" "[]"] Cons.prems(1) r by blast
    have "\<forall>y \<in> set (map fst R). requests s' y = requests s y"
      using s'(3) Cons.prems(4) xd by (auto simp: only_links_def link_ok_def split: link.splits)
    then have "chain (requests s') (ri_next r) R" using r(5) chain_frame by blast
    moreover have "only_links l (map fst (xd # R)) s s'" by (rule only_links_mono [OF s'(3)]) simp
    moreover have "AList.delete pRI (xd # R) = R" using Cons.prems(3) xd True by simp
    ultimately show ?thesis
      using Cons.prems(1) r s' True xd by (subst dequeue_loop.simps) auto
  next
    case False
    have l': "get_link (NextOf x) s = Some (ri_next r)" "link_ok (NextOf x) (map fst R)"
      using r(3) Cons.prems(3) xd by (simp_all add: get_link_def link_ok_def)
    obtain s' b where s': "dequeue_loop pRI (NextOf x) s = Some (pRI \<in> set (map fst R), s')"
        "get_link (NextOf x) s' = Some b" "chain (requests s') b (AList.delete pRI R)"
        "only_links (NextOf x) (map fst R) s s'"
      using Cons.IH [OF l'(1) r(5) _ l'(2)] Cons.prems(3) by auto
    have same: "get_link l s' = Some x" "only_links l (map fst (xd # R)) s s'"
      using only_links_same_link [OF s'(4), of l "xd # R"] Cons.prems(1,4) r(1) xd by auto
    have "chain (requests s') x (AList.delete pRI (xd # R))"
      using False xd r(2,3,4) s'(2,3) only_links_data [OF s'(4), of x] by (auto simp: get_link_def)
    then show ?thesis
      using Cons.prems(1) r s'(1) same False xd by (subst dequeue_loop.simps) auto
  qed
qed

text \<open>\<open>s'\<close> is \<open>s\<close> but for the requests, and all requests are there with what they hold.\<close>

definition same_requests :: "'z ril_state_scheme \<Rightarrow> 'z ril_state_scheme \<Rightarrow> bool" where
  "same_requests s s' \<longleftrightarrow>
     (\<exists>h rs. s' = s\<lparr>s_pendingRequests := h, requests := rs\<rparr> \<and>
       (\<forall>x. map_option req_data (rs x) = map_option req_data (requests s x)))"

lemma checkAndDequeueRequestInfo_pending:
  assumes "pending s R"
  shows "\<exists>s'. checkAndDequeueRequestInfo a s = Some (a \<in> set (map fst R), s') \<and>
    pending s' (AList.delete a R) \<and> same_requests s s'"
proof (cases "a = NULL")
  case True
  have "a \<notin> set (map fst R)"
    using assms chain_request [of "requests s" "s_pendingRequests s" R] True by (fastforce simp: pending_def)
  moreover have "same_requests s s"
    unfolding same_requests_def by (intro exI [of _ "s_pendingRequests s"] exI [of _ "requests s"]) simp
  ultimately show ?thesis
    using assms True by (intro exI [of _ s]) (auto simp: checkAndDequeueRequestInfo_def)
next
  case False
  obtain s' b where s': "dequeue_loop a ListHead s = Some (a \<in> set (map fst R), s')"
      "get_link ListHead s' = Some b" "chain (requests s') b (AList.delete a R)"
      "only_links ListHead (map fst R) s s'"
    using dequeue_loop_chain [of ListHead s "s_pendingRequests s" R a] assms
    by (auto simp: get_link_def pending_def link_ok_def)
  have "same_requests s s'" using s'(4) by (auto simp: only_links_def same_requests_def)
  moreover have "distinct (map fst (AList.delete a R))"
    using assms by (simp add: pending_def distinct_delete)
  ultimately show ?thesis using s' False by (auto simp: checkAndDequeueRequestInfo_def pending_def get_link_def)
qed

abbreviation cancelled :: "RequestInfo \<Rightarrow> RequestInfo" where
  "cancelled d \<equiv> d\<lparr>ri_cancelled := True\<rparr>"

lemma cancel_loop_chain:
  assumes "chain rs a R" and "distinct (map fst R)"
  shows "\<exists>rs'. cancel_loop a rs = Some rs' \<and> chain rs' a (map (\<lambda>(x, d). (x, cancelled d)) R) \<and>
    (\<forall>x. x \<notin> set (map fst R) \<longrightarrow> rs' x = rs x)"
  using assms
proof (induction R arbitrary: a rs)
  case Nil
  then show ?case by (subst cancel_loop.simps) simp
next
  case (Cons xd R)
  obtain x d where xd: "xd = (x, d)" by force
  obtain r where r: "a = x" "x \<noteq> NULL" "rs x = Some r" "req_data r = d" "chain rs (ri_next r) R"
    using Cons.prems(1) xd by auto
  have "chain (rs(x \<mapsto> cancelled r)) (ri_next r) R" "distinct (map fst R)"
    using r(5) Cons.prems(2) xd by simp_all
  then obtain rs' where rs': "cancel_loop (ri_next r) (rs(x \<mapsto> cancelled r)) = Some rs'"
      "chain rs' (ri_next r) (map (\<lambda>(x, d). (x, cancelled d)) R)"
      "\<forall>y. y \<notin> set (map fst R) \<longrightarrow> rs' y = (rs(x \<mapsto> cancelled r)) y"
    using Cons.IH by blast
  have "rs' x = Some (cancelled r)" using rs'(3) Cons.prems(2) xd by auto
  then show ?case using r rs' xd by (subst cancel_loop.simps) (auto simp: req_data_def)
qed

lemma onCommandsSocketClosed_pending:
  assumes "pending s R"
  shows "\<exists>rs. onCommandsSocketClosed s = Some (s\<lparr>requests := rs\<rparr>) \<and>
    pending (s\<lparr>requests := rs\<rparr>) (map (\<lambda>(x, d). (x, cancelled d)) R) \<and>
    (\<forall>x. x \<notin> set (map fst R) \<longrightarrow> rs x = requests s x)"
proof -
  have k: "map fst (map (\<lambda>(x, d). (x, cancelled d)) R) = map fst R" by (simp add: comp_def case_prod_unfold)
  show ?thesis
    using assms cancel_loop_chain [of "requests s" "s_pendingRequests s" R]
    unfolding pending_def onCommandsSocketClosed_def k by auto
qed

interpretation pend: request_store pending "\<lambda>a (token, pCI, loc). push_request a token pCI loc"
    checkAndDequeueRequestInfo onCommandsSocketClosed new_request cancelled
proof
  fix s :: "'a ril_state_scheme" and R a k
  assume "pending s R" "a \<noteq> NULL" "a \<notin> set (map fst R)"
  then show "pending ((case k of (token, pCI, loc) \<Rightarrow> push_request a token pCI loc) s) ((a, new_request k) # R)"
    by (cases k) (simp add: pending_push)
next
  fix s :: "'a ril_state_scheme" and R a
  assume "pending s R"
  then show "\<exists>s'. checkAndDequeueRequestInfo a s = Some (a \<in> set (map fst R), s') \<and> pending s' (AList.delete a R)"
    using checkAndDequeueRequestInfo_pending by blast
next
  fix s :: "'a ril_state_scheme" and R
  assume "pending s R"
  then show "\<exists>s'. onCommandsSocketClosed s = Some s' \<and> pending s' (map (\<lambda>(a, d). (a, cancelled d)) R)"
    using onCommandsSocketClosed_pending by blast
qed

end
