(* ===== verification/Ril_Complete.thy ===== *)
theory Ril_Complete
  imports Ril_Pending Ril_Response_Correct
begin

text \<open>
  What \<open>RIL_onRequestComplete\<close> and \<open>RIL_onUnsolicitedResponse\<close> do with the pending requests and with
  the command socket, from the lemmas on the list of requests, on sending, and on marshalling.
\<close>

lemma run_env_simps [simp]:
  "env_parcel (run_env W s) = env_parcel (w_env W)" "env_abi (run_env W s) = env_abi (w_env W)"
  "env_version (run_env W s) = s_version s" "env_t (run_env W s) = env_t (w_env W)"
  by (simp_all add: run_env_def)

abbreviation parcel_items :: "('p, 'z) world \<Rightarrow> item list \<Rightarrow> 'p" where
  "parcel_items W its \<equiv> write_items (env_parcel (w_env W)) its (pf_empty (env_parcel (w_env W)))"

abbreviation bytes_of :: "('p, 'z) world \<Rightarrow> item list \<Rightarrow> u8 list" where
  "bytes_of W its \<equiv> pf_data (env_parcel (w_env W)) (parcel_items W its)"

section \<open>The parcel of a response\<close>

definition reply_header :: "RequestInfo \<Rightarrow> i32 \<Rightarrow> item list" where
  "reply_header d e = [I32 RESPONSE_SOLICITED, I32 (requestNumber (ri_pCI d)), I32 (ri_token d), I32 e]"

text \<open>
  \<open>reply W s d e resp n its\<close>: the response to \<open>d\<close> is \<open>its\<close>. A null pointer gives two zeros; otherwise
  the body is what the response function appends, and its error, if any, replaces \<open>e\<close>.
\<close>

definition reply ::
    "('p, 'z) world \<Rightarrow> 'z ril_state_scheme \<Rightarrow> RequestInfo \<Rightarrow> RIL_Errno \<Rightarrow> resp_data option \<Rightarrow> nat \<Rightarrow> item list \<Rightarrow> bool" where
  "reply W s d e resp n its \<longleftrightarrow>
     (if resp = None then its = reply_header d (RIL_Errno_val e) @ [I32 0, I32 0]
      else \<exists>f ret body. responseFunction (ri_pCI d) = Some f \<and>
        respond f (run_env W s) (parcel_items W (reply_header d (RIL_Errno_val e))) resp n =
          Some (ret, parcel_items W (reply_header d (RIL_Errno_val e) @ body)) \<and>
        its = reply_header d (if ret = 0 then RIL_Errno_val e else ret) @ body)"

lemma solicited_parcel_reply:
  assumes "parcel_rewind (env_parcel (w_env W))" and "reply W s d e resp n its"
  shows "\<exists>p. solicited_parcel W d e resp n s = Some p \<and> pf_data (env_parcel (w_env W)) p = bytes_of W its"
proof -
  let ?P = "env_parcel (w_env W)"
  let ?h = "[I32 RESPONSE_SOLICITED, I32 (requestNumber (ri_pCI d)), I32 (ri_token d)]"
  have start: "solicited_parcel W d e resp n s =
      (if resp \<noteq> None then do {
         f \<leftarrow> responseFunction (ri_pCI d);
         (ret, p) \<leftarrow> respond f (run_env W s) (parcel_items W (reply_header d (RIL_Errno_val e))) resp n;
         Some (if ret \<noteq> 0 then pf_writeInt32 ?P (pf_setDataPosition ?P p (pf_dataPosition ?P (parcel_items W ?h))) ret
               else p)
       }
       else Some (parcel_items W (reply_header d (RIL_Errno_val e) @ [I32 0, I32 0])))"
    by (simp add: solicited_parcel_def Let_def reply_header_def cong del: if_weak_cong)
  show ?thesis
  proof (cases "resp = None")
    case True
    then show ?thesis using assms(2) start by (simp add: reply_def)
  next
    case False
    then obtain f ret body where b: "responseFunction (ri_pCI d) = Some f"
        "respond f (run_env W s) (parcel_items W (reply_header d (RIL_Errno_val e))) resp n =
          Some (ret, parcel_items W (reply_header d (RIL_Errno_val e) @ body))"
        "its = reply_header d (if ret = 0 then RIL_Errno_val e else ret) @ body"
      using assms(2) by (auto simp: reply_def)
    have h: "reply_header d v @ body = ?h @ I32 v # body" for v by (simp add: reply_header_def)
    show ?thesis
      using start b False parcel_rewind.rewind [OF assms(1), of ?h "RIL_Errno_val e" body ret]
      unfolding h by (cases "ret = 0") (simp_all add: h)
  qed
qed

text \<open>Whenever the response function has a result there is such a response.\<close>

lemma reply_exists:
  assumes "responseFunction (ri_pCI d) = Some f"
    and "respond f (run_env W s) (parcel_items W (reply_header d (RIL_Errno_val e))) resp n \<noteq> None"
  shows "\<exists>its. reply W s d e resp n its"
proof (cases "resp = None")
  case True
  then show ?thesis by (simp add: reply_def)
next
  case False
  obtain ret p where r: "respond f (run_env W s) (parcel_items W (reply_header d (RIL_Errno_val e))) resp n = Some (ret, p)"
    using assms(2) by auto
  from respond_appends [OF this] obtain body where "p = parcel_items W (reply_header d (RIL_Errno_val e) @ body)"
    by (auto simp: appends_def write_items_append)
  then show ?thesis using False r assms(1) by (auto simp: reply_def)
qed

section \<open>Completing a request\<close>

text \<open>The data of a response on the command socket: nothing, or a frame, or a part of it and a close.\<close>

definition delivered :: "'z ril_state_scheme \<Rightarrow> u8 list \<Rightarrow> int \<Rightarrow> effect list \<Rightarrow> bool" where
  "delivered s data ret es \<longleftrightarrow>
     (if s_fdCommand s < 0 \<or> MAX_COMMAND_BYTES < length data then ret = - 1 \<and> es = []
      else written (s_fdCommand s) (frame data) ret es)"

lemma sendResponseRaw_delivers:
  assumes "sendResponseRaw W data s = Some (ret, s')"
  shows "\<exists>es. io es s s' \<and> delivered s data ret es"
  using assms
proof (cases rule: sendResponseRaw_cases)
  case refused
  then show ?thesis by (intro exI [of _ "[]"]) (auto simp: delivered_def io_refl)
next
  case (sent es)
  then show ?thesis by (intro exI [of _ es]) (auto simp: delivered_def)
qed

lemma sendResponseRaw_total: "writes_progress W \<Longrightarrow> \<exists>ret s'. sendResponseRaw W data s = Some (ret, s')"
proof -
  assume W: "writes_progress W"
  obtain r u where u: "blockingWrite W (s_fdCommand s) (be32 (of_nat (length data))) s = Some (r, u)"
    using blockingWrite_total [OF W] by blast
  obtain q v where "blockingWrite W (s_fdCommand s) data u = Some (q, v)"
    using blockingWrite_total [OF W] by blast
  then show ?thesis using u by (simp add: sendResponseRaw_def Let_def)
qed

lemma dequeue_loop_missing:
  "dequeue_loop a l s = Some y \<Longrightarrow> \<not> fst y \<longrightarrow> snd y = s"
  by (erule dequeue_loop.raw_induct [rotated, where P = "\<lambda>a l s y. \<not> fst y \<longrightarrow> snd y = s"])
    (auto split: Option.bind_splits if_splits)

lemma checkAndDequeueRequestInfo_missing:
  "pending s R \<Longrightarrow> t \<notin> set (map fst R) \<Longrightarrow> checkAndDequeueRequestInfo t s = Some (False, s)"
  using checkAndDequeueRequestInfo_pending [of s R t] dequeue_loop_missing [of t ListHead s]
  by (auto simp: checkAndDequeueRequestInfo_def)

lemma RIL_onRequestComplete_missing:
  "pending s R \<Longrightarrow> t \<notin> set (map fst R) \<Longrightarrow> RIL_onRequestComplete W t e resp n s = Some s"
  by (simp add: RIL_onRequestComplete_def checkAndDequeueRequestInfo_missing)

text \<open>\<open>s'\<close> is \<open>s\<close> but for the requests and the outside.\<close>

definition completes_to :: "effect list \<Rightarrow> 'z ril_state_scheme \<Rightarrow> 'z ril_state_scheme \<Rightarrow> bool" where
  "completes_to es s s' \<longleftrightarrow>
     (\<exists>h rs k. s' = s\<lparr>s_pendingRequests := h, requests := rs, tick := k, trace := trace s @ es\<rparr>)"

lemma same_requests_update:
  assumes "same_requests s u" and "io es u v"
  shows "completes_to es s (v\<lparr>requests := rs\<rparr>)" "requests v = requests u"
    "s_pendingRequests v = s_pendingRequests u"
proof -
  obtain h rs' k where uv: "u = s\<lparr>s_pendingRequests := h, requests := rs'\<rparr>"
      "v = s\<lparr>s_pendingRequests := h, requests := rs', tick := k, trace := trace s @ es\<rparr>"
    using assms by (auto simp: same_requests_def io_def)
  then show "completes_to es s (v\<lparr>requests := rs\<rparr>)"
    unfolding completes_to_def by (intro exI [of _ h] exI [of _ rs] exI [of _ k]) simp
  show "requests v = requests u" "s_pendingRequests v = s_pendingRequests u" using uv by simp_all
qed

lemma map_of_delete_request:
  assumes "pending s R" and "map_of R t = Some d" and "same_requests s u"
  shows "\<exists>r. requests u t = Some r \<and> req_data r = d"
proof -
  have "(t, d) \<in> set R" using assms(2) by (rule map_of_SomeD)
  then obtain r where "requests s t = Some r" "req_data r = d"
    using chain_request assms(1) by (fastforce simp: pending_def)
  then show ?thesis using assms(3) by (auto simp: same_requests_def dest!: spec [of _ t])
qed

lemma solicited_parcel_cong:
  assumes "req_data r = d" and "s_version u = s_version s"
  shows "solicited_parcel W r e resp n u = solicited_parcel W d e resp n s"
proof -
  have "run_env W u = run_env W s" using assms(2) by (simp add: run_env_def)
  then show ?thesis
    using assms(1) unfolding solicited_parcel_def Let_def by (auto cong del: if_weak_cong)
qed

lemma not_in_delete: "t \<notin> set (map fst (AList.delete t R))"
  by (auto simp: AList.delete_eq)

text \<open>A pending token is removed and freed, whatever happens to the response.\<close>

lemma RIL_onRequestComplete_silent:
  assumes "pending s R" and "map_of R t = Some d" and "ri_local d \<or> ri_cancelled d"
  shows "\<exists>s'. RIL_onRequestComplete W t e resp n s = Some s' \<and> pending s' (AList.delete t R) \<and>
    requests s' t = None \<and> completes_to [] s s'"
proof -
  have "t \<in> set (map fst R)" using assms(2) by (force dest: map_of_SomeD)
  then obtain u where u: "checkAndDequeueRequestInfo t s = Some (True, u)" "pending u (AList.delete t R)"
      "same_requests s u"
    using checkAndDequeueRequestInfo_pending [OF assms(1), of t] by auto
  obtain r where r: "requests u t = Some r" "req_data r = d"
    using map_of_delete_request [OF assms(1,2) u(3)] by blast
  have "RIL_onRequestComplete W t e resp n s = Some (u\<lparr>requests := (requests u)(t := None)\<rparr>)"
    using u(1) r assms(3) by (auto simp: RIL_onRequestComplete_def)
  moreover have "pending (u\<lparr>requests := (requests u)(t := None)\<rparr>) (AList.delete t R)"
    by (rule pending_free [OF u(2)]) (rule not_in_delete)
  ultimately show ?thesis using same_requests_update(1) [OF u(3) io_refl] by auto
qed

lemma RIL_onRequestComplete_sends:
  assumes "pending s R" and "map_of R t = Some d" and "\<not> ri_local d" "\<not> ri_cancelled d"
    and p: "solicited_parcel W d e resp n s = Some p" and "writes_progress W"
  shows "\<exists>s' ret es. RIL_onRequestComplete W t e resp n s = Some s' \<and> pending s' (AList.delete t R) \<and>
    requests s' t = None \<and> completes_to es s s' \<and>
    delivered s (pf_data (env_parcel (w_env W)) p) ret es"
proof -
  have "t \<in> set (map fst R)" using assms(2) by (force dest: map_of_SomeD)
  then obtain u where u: "checkAndDequeueRequestInfo t s = Some (True, u)" "pending u (AList.delete t R)"
      "same_requests s u"
    using checkAndDequeueRequestInfo_pending [OF assms(1), of t] by auto
  obtain r where r: "requests u t = Some r" "req_data r = d"
    using map_of_delete_request [OF assms(1,2) u(3)] by blast
  have fields: "s_fdCommand u = s_fdCommand s" "s_version u = s_version s"
    using u(3) by (auto simp: same_requests_def)
  obtain ret v where v: "sendResponse W p u = Some (ret, v)"
    using sendResponseRaw_total [OF assms(6)] by (fastforce simp: sendResponse_def)
  obtain es where es: "io es u v" "delivered u (pf_data (env_parcel (w_env W)) p) ret es"
    using sendResponseRaw_delivers [of W _ u ret v] v by (auto simp: sendResponse_def)
  have q: "solicited_parcel W r e resp n u = Some p"
    by (rule trans [OF solicited_parcel_cong [OF r(2) fields(2)] p])
  have "RIL_onRequestComplete W t e resp n s = Some (v\<lparr>requests := (requests v)(t := None)\<rparr>)"
    using u(1) r assms(3,4) q v by (auto simp: RIL_onRequestComplete_def)
  moreover have "pending v (AList.delete t R)"
    using u(2) same_requests_update(2,3) [OF u(3) es(1)] by (simp add: pending_def)
  then have "pending (v\<lparr>requests := (requests v)(t := None)\<rparr>) (AList.delete t R)"
    by (rule pending_free) (rule not_in_delete)
  moreover have "delivered s (pf_data (env_parcel (w_env W)) p) ret es"
    using es(2) unfolding delivered_def fields(1) .
  ultimately show ?thesis using same_requests_update(1) [OF u(3) es(1)] by auto
qed

end
