(* ===== verification/Ril_Unsolicited.thy ===== *)
theory Ril_Unsolicited
  imports Ril_Complete Ril_Event_Timers
begin

text \<open>
  Unsolicited responses and the timed callbacks they schedule. Every unsolicited response that wakes
  the system cancels the wake timeout of the one before it and adds a timer of its own.
\<close>

section \<open>Waking up the event loop\<close>

lemma triggerEvLoop_loop_total:
  assumes "writes_progress W"
  shows "\<exists>s' es. triggerEvLoop_loop W s = Some s' \<and> io es s s' \<and> writes_to (s_fdWakeupWrite s) es"
proof -
  obtain m where "m \<ge> tick s" "w_write W m \<notin> {Wrote 0, WriteError True}"
    using assms by (auto simp: writes_progress_def)
  then show ?thesis
  proof (induction "m - tick s" arbitrary: s rule: less_induct)
    case less
    let ?u = "s\<lparr>tick := Suc (tick s)\<rparr>"
    have u: "io [] s ?u" by (rule io_sys) (simp add: sys_def)
    show ?case
    proof (cases "w_write W (tick s)")
      case (Wrote k)
      have "triggerEvLoop_loop W s = Some (emit (Sent (s_fdWakeupWrite s) (take k [32])) ?u)"
        using Wrote by (subst triggerEvLoop_loop.simps) (simp add: sys_def)
      then show ?thesis using io_Nil_trans [OF u io_emit1]
        by (auto intro!: exI [of _ "[Sent (s_fdWakeupWrite s) (take k [32])]"])
    next
      case (WriteError eintr)
      show ?thesis
      proof (cases eintr)
        case True
        then have "tick s \<noteq> m" using WriteError less.prems by auto
        then have "m - tick ?u < m - tick s" "m \<ge> tick ?u" using less.prems by simp_all
        from less.hyps [OF this less.prems(2)] obtain s' es where
            "triggerEvLoop_loop W ?u = Some s'" "io es ?u s'" "writes_to (s_fdWakeupWrite s) es"
          by auto
        then show ?thesis using WriteError True io_Nil_trans [OF u]
          by (subst triggerEvLoop_loop.simps) (auto simp: sys_def)
      next
        case False
        then show ?thesis using WriteError u
          by (subst triggerEvLoop_loop.simps) (auto simp: sys_def intro!: exI [of _ "[]"])
      qed
    qed
  qed
qed

lemma triggerEvLoop_total:
  assumes "writes_progress W"
  shows "\<exists>s' es. triggerEvLoop W s = Some s' \<and> io es s s' \<and> writes_to (s_fdWakeupWrite s) es"
proof (cases "on_dispatch s")
  case True
  then show ?thesis by (intro exI [of _ s] exI [of _ "[]"]) (simp add: triggerEvLoop_def io_refl)
next
  case False
  then show ?thesis using triggerEvLoop_loop_total [OF assms, of s] by (simp add: triggerEvLoop_def)
qed

section \<open>Timed callbacks\<close>

text \<open>What \<open>malloc\<close> promises: a null pointer, or an address that is not in use.\<close>

definition malloc_ok :: "('p, 'z) world \<Rightarrow> bool" where
  "malloc_ok W \<longleftrightarrow> (\<forall>n L. w_malloc W n L = NULL \<or> \<not> L (w_malloc W n L))"

definition fresh_addr :: "('p, 'z) world \<Rightarrow> 'z ril_state_scheme \<Rightarrow> addr" where
  "fresh_addr W s = w_malloc W (tick s) (live s)"

text \<open>The lists of the event loop and the last wake timeout.\<close>

definition timers_ok :: "'z ril_state_scheme \<Rightarrow> addr list \<Rightarrow> addr list \<Rightarrow> bool" where
  "timers_ok s ts ps \<longleftrightarrow> event_lists (heap s) ts ps \<and> timers_sorted (heap s) ts \<and> \<not> listLocked s \<and>
     (s_last_wake_timeout_info s \<noteq> NULL \<longrightarrow> users s (s_last_wake_timeout_info s) \<noteq> None)"

text \<open>Where a timer that expires at \<open>at\<close> goes.\<close>

definition insert_timer :: "'f ev_heap \<Rightarrow> timeval \<Rightarrow> addr \<Rightarrow> addr list \<Rightarrow> addr list" where
  "insert_timer h at a ts = takeWhile (\<lambda>x. timeout_of h x < at) ts @ a # dropWhile (\<lambda>x. timeout_of h x < at) ts"

lemma event_lists_frame:
  assumes "event_lists h ts ps" and "a \<notin> set (timer_list # pending_list # ts @ ps)"
  shows "event_lists (h(a := v)) ts ps"
proof -
  have "get_next (h(a := v)) x = get_next h x" "get_prev (h(a := v)) x = get_prev h x"
    if "x \<in> set (timer_list # pending_list # ts @ ps)" for x
    using assms(2) that by (auto simp: get_next_def get_prev_def)
  then have "dll (h(a := v)) timer_list ts" "dll (h(a := v)) pending_list ps"
    using assms(1) by (auto simp: event_lists_def elim!: dll_frame)
  then show ?thesis using assms(1) by (simp add: event_lists_def)
qed

lemma event_lists_new:
  assumes "event_lists h ts ps" and "h a = None"
  shows "a \<notin> set (timer_list # pending_list # ts @ ps)"
  using assms dll_heap [of h timer_list ts a] dll_heap [of h pending_list ps a]
  by (auto simp: event_lists_def)

text \<open>The event of a user callback at \<open>a\<close>.\<close>

definition timer_event :: "addr \<Rightarrow> timeval \<Rightarrow> ril_func ril_event" where
  "timer_event a at = \<lparr>ev_next = NULL, ev_prev = NULL, ev_fd = -1, ev_index = -1, ev_persist = False,
     ev_timeout = at, ev_func = Some UserTimerCallback, ev_param = a\<rparr>"

text \<open>The result, with the new user callback at \<open>a\<close>.\<close>

lemma internalRequestTimedCallback_ok:
  assumes ok: "timers_ok s ts ps" and W: "writes_progress W"
    and a: "fresh_addr W s = a" "a \<noteq> NULL" "\<not> live s a"
  shows "\<exists>s' h k es. internalRequestTimedCallback W cb param tv s = Some (a, s') \<and>
    s' = s\<lparr>users := (users s)(a \<mapsto> \<lparr>uc_callback = cb, uc_param = param\<rparr>), heap := h, tick := k,
      trace := trace s @ es\<rparr> \<and>
    writes_to (s_fdWakeupWrite s) es \<and>
    (let at = timeradd (w_now W (Suc (tick s))) (case tv of None \<Rightarrow> Timeval 0 0 | Some t \<Rightarrow> t)
     in event_lists h (insert_timer (heap s) at a ts) ps \<and> timers_sorted h (insert_timer (heap s) at a ts) \<and>
        event_data h = (event_data (heap s))(a \<mapsto> timer_event a at))"
proof -
  let ?tv = "case tv of None \<Rightarrow> Timeval 0 0 | Some t \<Rightarrow> t" and ?now = "w_now W (Suc (tick s))"
  let ?e = "zero_event\<lparr>ev_fd := -1, ev_index := -1, ev_persist := False, ev_func := Some UserTimerCallback,
      ev_param := a\<rparr>"
  let ?s1 = "s\<lparr>users := (users s)(a \<mapsto> \<lparr>uc_callback = cb, uc_param = param\<rparr>),
      heap := (heap s)(a \<mapsto> ?e), tick := Suc (Suc (tick s))\<rparr>"
  have none: "heap s a = None" using a(3) by (simp add: live_def)
  have new: "a \<notin> set (timer_list # pending_list # ts @ ps)"
    using event_lists_new [of "heap s" ts ps a] none ok unfolding timers_ok_def by blast
  have lists: "event_lists (heap ?s1) ts ps"
    using event_lists_frame [of "heap s" ts ps a] new ok by (simp add: timers_ok_def)
  have t: "timeout_of ((heap s)(a \<mapsto> ?e)) x = timeout_of (heap s) x" if "x \<in> set ts" for x
    using new that by (auto simp: timeout_of_def)
  have sorted: "timers_sorted (heap ?s1) ts"
    using ok t by (auto simp: timers_ok_def timers_sorted_def cong: map_cong)
  have at: "heap ?s1 a = Some ?e" "\<not> listLocked ?s1" using ok by (simp_all add: timers_ok_def)
  define at where "at = timeradd ?now ?tv"
  obtain h where h: "ril_timer_add ?now a (Some ?tv) ?s1 = Some (?s1\<lparr>heap := h\<rparr>)"
      "event_lists h (insert_timer (heap ?s1) at a ts) ps" "timers_sorted h (insert_timer (heap ?s1) at a ts)"
      "event_data h = (event_data (heap ?s1))(a \<mapsto> strip (?e\<lparr>ev_fd := -1, ev_timeout := at\<rparr>))"
    using ril_timer_add_lists [OF at(2) lists sorted new at(1), of ?now ?tv]
    by (auto simp: Let_def insert_timer_def at_def)
  have same: "insert_timer (heap ?s1) at a ts = insert_timer (heap s) at a ts"
    using t by (auto simp: insert_timer_def cong: takeWhile_cong dropWhile_cong)
  have "strip (?e\<lparr>ev_fd := -1, ev_timeout := at\<rparr>) = timer_event a at"
    by (simp add: timer_event_def strip_def zero_event_def)
  then have data: "event_data h = (event_data (heap s))(a \<mapsto> timer_event a at)"
    using h(4) by (auto simp: event_data_def fun_eq_iff)
  obtain s' es where s': "triggerEvLoop W (?s1\<lparr>heap := h\<rparr>) = Some s'" "io es (?s1\<lparr>heap := h\<rparr>) s'"
      "writes_to (s_fdWakeupWrite s) es"
    using triggerEvLoop_total [OF W, of "?s1\<lparr>heap := h\<rparr>"] by auto
  have "internalRequestTimedCallback W cb param tv s = Some (a, s')"
    using a(1,2) h(1) s'(1)
    by (simp add: internalRequestTimedCallback_def ril_malloc_def sys_def fresh_addr_def event_set_def
        ril_event_set_def upd_event_def)
  moreover obtain k where "s' = s\<lparr>users := (users s)(a \<mapsto> \<lparr>uc_callback = cb, uc_param = param\<rparr>), heap := h,
      tick := k, trace := trace s @ es\<rparr>"
    using s'(2) by (auto simp: io_def)
  moreover note h(2,3) [unfolded same] data s'(3)
  ultimately show ?thesis
    unfolding Let_def at_def [symmetric] by (intro exI [of _ s'] exI [of _ h] exI [of _ k] exI [of _ es]) simp
qed

section \<open>The wake timeout\<close>

text \<open>There is memory for one more object, whenever it is asked for.\<close>

definition has_memory :: "('p, 'z) world \<Rightarrow> 'z ril_state_scheme \<Rightarrow> bool" where
  "has_memory W s \<longleftrightarrow> (\<forall>n. w_malloc W n (live s) \<noteq> NULL \<and> \<not> live s (w_malloc W n (live s)))"

text \<open>The user callbacks after the last wake timeout is cancelled.\<close>

definition users_cancelled :: "'z ril_state_scheme \<Rightarrow> addr \<rightharpoonup> UserCallbackInfo" where
  "users_cancelled s =
     (if s_last_wake_timeout_info s = NULL then users s
      else (users s)(s_last_wake_timeout_info s \<mapsto> (the (users s (s_last_wake_timeout_info s)))\<lparr>uc_param := 1\<rparr>))"

lemma schedule_wake_timeout_ok:
  assumes ok: "timers_ok s ts ps" and W: "writes_progress W" and mem: "has_memory W s"
  shows "\<exists>s' h k a es at. schedule_wake_timeout W s = Some s' \<and> heap s a = None \<and> a \<noteq> NULL \<and>
    s' = s\<lparr>users := (users_cancelled s)(a \<mapsto> \<lparr>uc_callback = WakeTimeoutCallback, uc_param = NULL\<rparr>), heap := h,
      tick := k, trace := trace s @ es, s_last_wake_timeout_info := a\<rparr> \<and>
    writes_to (s_fdWakeupWrite s) es \<and> timers_ok s' (insert_timer (heap s) at a ts) ps \<and>
    event_data h = (event_data (heap s))(a \<mapsto> timer_event a at)"
proof -
  let ?s1 = "s\<lparr>users := users_cancelled s\<rparr>"
  have ok1: "timers_ok ?s1 ts ps" using ok by (auto simp: timers_ok_def users_cancelled_def)
  have live: "live ?s1 = live s"
    using ok by (auto simp: live_def users_cancelled_def timers_ok_def fun_eq_iff)
  define a where "a = fresh_addr W ?s1"
  have a: "fresh_addr W ?s1 = a" "a \<noteq> NULL" "\<not> live ?s1 a" "heap s a = None"
    using mem live by (auto simp: a_def fresh_addr_def has_memory_def live_def)
  have first: "schedule_wake_timeout W s = do {
      (a, s) \<leftarrow> internalRequestTimedCallback W WakeTimeoutCallback NULL (Some TIMEVAL_WAKE_TIMEOUT) ?s1;
      Some (s\<lparr>s_last_wake_timeout_info := a\<rparr>) }"
    using ok by (auto simp: schedule_wake_timeout_def users_cancelled_def timers_ok_def)
  obtain s2 h k es at where s2: "internalRequestTimedCallback W WakeTimeoutCallback NULL
        (Some TIMEVAL_WAKE_TIMEOUT) ?s1 = Some (a, s2)"
      "s2 = ?s1\<lparr>users := (users ?s1)(a \<mapsto> \<lparr>uc_callback = WakeTimeoutCallback, uc_param = NULL\<rparr>), heap := h,
        tick := k, trace := trace ?s1 @ es\<rparr>"
      "writes_to (s_fdWakeupWrite ?s1) es"
      "event_lists h (insert_timer (heap ?s1) at a ts) ps" "timers_sorted h (insert_timer (heap ?s1) at a ts)"
      "event_data h = (event_data (heap ?s1))(a \<mapsto> timer_event a at)"
    using internalRequestTimedCallback_ok [OF ok1 W a(1,2,3), of WakeTimeoutCallback NULL "Some TIMEVAL_WAKE_TIMEOUT"]
    unfolding Let_def by blast
  let ?s' = "s2\<lparr>s_last_wake_timeout_info := a\<rparr>"
  have "timers_ok ?s' (insert_timer (heap s) at a ts) ps"
    using s2 ok by (simp add: timers_ok_def)
  moreover have "schedule_wake_timeout W s = Some ?s'" using first s2(1) by simp
  ultimately show ?thesis
    using s2 a by (intro exI [of _ ?s'] exI [of _ h] exI [of _ k] exI [of _ a] exI [of _ es] exI [of _ at]) simp
qed

text \<open>
  A wake timeout that is not cancelled is the last one; so at most one of the timers that are set
  releases the wake lock.
\<close>

definition one_wake_timeout :: "'z ril_state_scheme \<Rightarrow> bool" where
  "one_wake_timeout s \<longleftrightarrow> (\<forall>a i. users s a = Some i \<longrightarrow> uc_callback i = WakeTimeoutCallback \<longrightarrow>
     uc_param i = NULL \<longrightarrow> a = s_last_wake_timeout_info s)"

lemma schedule_keeps_one_at:
  assumes "one_wake_timeout s" and "users s' = (users_cancelled s)(a \<mapsto> i)"
    and "s_last_wake_timeout_info s' = a"
    and "s_last_wake_timeout_info s \<noteq> NULL \<longrightarrow> users s (s_last_wake_timeout_info s) \<noteq> None"
    and "users s NULL = None"
  shows "one_wake_timeout s'"
  unfolding one_wake_timeout_def
proof (intro allI impI)
  fix b j
  assume b: "users s' b = Some j" "uc_callback j = WakeTimeoutCallback" "uc_param j = NULL"
  show "b = s_last_wake_timeout_info s'"
  proof (rule ccontr)
    assume "b \<noteq> s_last_wake_timeout_info s'"
    then have u: "users_cancelled s b = Some j" using b(1) assms(2,3) by simp
    then have "b \<noteq> s_last_wake_timeout_info s \<and> users s b = Some j"
      using b(3) assms(4,5) by (cases "b = NULL") (auto simp: users_cancelled_def split: if_splits)
    then show False using b(2,3) assms(1) by (auto simp: one_wake_timeout_def)
  qed
qed

section \<open>Unsolicited responses\<close>

abbreviation unsol_header :: "i32 \<Rightarrow> item list" where
  "unsol_header num \<equiv> [I32 RESPONSE_UNSOLICITED, I32 num]"

text \<open>The codes of the table, and the entry of a code.\<close>

definition unsol_index :: "i32 \<Rightarrow> int" where
  "unsol_index num = sint (num - RIL_UNSOL_RESPONSE_BASE)"

abbreviation unsol_known :: "i32 \<Rightarrow> bool" where
  "unsol_known num \<equiv> 0 \<le> unsol_index num \<and> unsol_index num < 32"

abbreviation unsol_entry :: "i32 \<Rightarrow> UnsolResponseInfo" where
  "unsol_entry num \<equiv> s_unsolResponses ! nat (unsol_index num)"

text \<open>The bytes of the response with the body \<open>body\<close>, at the system call \<open>k\<close>.\<close>

definition unsol_bytes :: "('p, 'z) world \<Rightarrow> nat \<Rightarrow> i32 \<Rightarrow> item list \<Rightarrow> u8 list" where
  "unsol_bytes W k num body =
     (let P = env_parcel (w_env W); p = parcel_items W (unsol_header num @ body)
      in pf_data P
        (if num = RIL_UNSOL_RESPONSE_RADIO_STATE_CHANGED
         then pf_writeInt32 P p (RIL_RadioState_val (w_onStateRequest W k))
         else if num = RIL_UNSOL_NITZ_TIME_RECEIVED then pf_writeInt64 P p (w_elapsedRealtime W k)
         else p))"

lemma RIL_onUnsolicitedResponse_ignored:
  "\<not> s_registerCalled s \<or> \<not> unsol_known num \<Longrightarrow> RIL_onUnsolicitedResponse W num data n s = Some s"
  by (auto simp: RIL_onUnsolicitedResponse_def unsol_index_def Let_def)

lemma unsol_entry_at:
  assumes "unsol_known num"
  shows "aget s_unsolResponses (nat (unsol_index num)) = Some (unsol_entry num)"
    "\<not> unsol_index num < 0" "\<not> int (length s_unsolResponses) \<le> unsol_index num"
  using assms by (simp_all add: aget_def nat_less_iff)

lemma wake_locks: "(if b then grabPartialWakeLock s else s) = s" "(if b then releaseWakeLock s else s) = s"
  by (simp_all add: grabPartialWakeLock_def releaseWakeLock_def)

lemma run_env_tick [simp]: "run_env W (s\<lparr>tick := k\<rparr>) = run_env W s"
  by (simp add: run_env_def)

lemma RIL_onUnsolicitedResponse_refused:
  assumes "s_registerCalled s" and "unsol_known num"
    and "respond (unsolFunction (unsol_entry num)) (run_env W s) (parcel_items W (unsol_header num)) data n =
      Some (ret, p)" and "ret \<noteq> 0"
  shows "\<exists>k \<ge> tick s. RIL_onUnsolicitedResponse W num data n s = Some (s\<lparr>tick := k\<rparr>)"
proof -
  have "RIL_onUnsolicitedResponse W num data n s =
      Some (if num = RIL_UNSOL_NITZ_TIME_RECEIVED then s\<lparr>tick := Suc (tick s)\<rparr> else s)"
    using assms unsol_entry_at [OF assms(2)]
    unfolding RIL_onUnsolicitedResponse_def Let_def wake_locks unsol_index_def [symmetric] sys_def
    by (cases "num = RIL_UNSOL_NITZ_TIME_RECEIVED") simp_all
  then show ?thesis
    by (cases "num = RIL_UNSOL_NITZ_TIME_RECEIVED") (auto intro: exI [of _ "tick s"] exI [of _ "Suc (tick s)"])
qed

text \<open>The number of system calls after the payload is complete.\<close>

definition unsol_tick :: "i32 \<Rightarrow> nat \<Rightarrow> nat" where
  "unsol_tick num k = (if num = RIL_UNSOL_RESPONSE_RADIO_STATE_CHANGED \<or> num = RIL_UNSOL_NITZ_TIME_RECEIVED
     then Suc k else k)"

lemma RIL_onUnsolicitedResponse_accepted:
  assumes "s_registerCalled s" and "unsol_known num"
    and "respond (unsolFunction (unsol_entry num)) (run_env W s) (parcel_items W (unsol_header num)) data n =
      Some (0, parcel_items W (unsol_header num @ body))"
    and "sendResponseRaw W (unsol_bytes W (tick s) num body) (s\<lparr>tick := unsol_tick num (tick s)\<rparr>) = Some (ret, u)"
    and v: "v = (if ret \<noteq> 0 \<and> num = RIL_UNSOL_NITZ_TIME_RECEIVED
      then u\<lparr>s_lastNITZTimeData := Some (unsol_bytes W (tick s) num body)\<rparr> else u)"
  shows "RIL_onUnsolicitedResponse W num data n s =
    (if wakeType (unsol_entry num) = WAKE_PARTIAL then schedule_wake_timeout W v else Some v)"
proof -
  note start = assms(1,3) unsol_entry_at [OF assms(2)]
  note defs = RIL_onUnsolicitedResponse_def Let_def wake_locks unsol_index_def [symmetric] sys_def
    unsol_payload_def sendResponse_def
  note sent = assms(4) [unfolded unsol_bytes_def Let_def unsol_tick_def]
  consider "num = RIL_UNSOL_NITZ_TIME_RECEIVED" | "num = RIL_UNSOL_RESPONSE_RADIO_STATE_CHANGED"
    | "num \<noteq> RIL_UNSOL_NITZ_TIME_RECEIVED" "num \<noteq> RIL_UNSOL_RESPONSE_RADIO_STATE_CHANGED" by blast
  then show ?thesis
    using start sent unfolding v defs unsol_bytes_def
    by cases simp_all
qed

lemma delivered_tick [simp]: "delivered (s\<lparr>tick := k\<rparr>) = delivered s"
  by (intro ext) (simp add: delivered_def cong del: if_weak_cong)

text \<open>What an unsolicited response leaves alone, whatever it is.\<close>

definition unsol_frame :: "'z ril_state_scheme \<Rightarrow> 'z ril_state_scheme \<Rightarrow> bool" where
  "unsol_frame s s' \<longleftrightarrow> s' = s\<lparr>heap := heap s', users := users s', tick := tick s', trace := trace s',
     s_last_wake_timeout_info := s_last_wake_timeout_info s', s_lastNITZTimeData := s_lastNITZTimeData s'\<rparr>"

text \<open>The wake timeout is set anew: the last one is cancelled, and a new one is at \<open>a\<close>.\<close>

definition wake_scheduled :: "'z ril_state_scheme \<Rightarrow> 'z ril_state_scheme \<Rightarrow> addr list \<Rightarrow> addr list \<Rightarrow> bool" where
  "wake_scheduled s s' ts ps \<longleftrightarrow> (\<exists>a at. a \<noteq> NULL \<and> heap s a = None \<and> s_last_wake_timeout_info s' = a \<and>
     users s' = (users_cancelled s)(a \<mapsto> \<lparr>uc_callback = WakeTimeoutCallback, uc_param = NULL\<rparr>) \<and>
     timers_ok s' (insert_timer (heap s) at a ts) ps \<and>
     event_data (heap s') = (event_data (heap s))(a \<mapsto> timer_event a at))"

lemma same_NITZ: "s\<lparr>s_lastNITZTimeData := s_lastNITZTimeData s\<rparr> = s"
  by simp

lemma has_memory_cong: "live s' = live s \<Longrightarrow> has_memory W s' = has_memory W s"
  by (simp add: has_memory_def)

lemma RIL_onUnsolicitedResponse_sends:
  assumes reg: "s_registerCalled s" "unsol_known num"
    and resp: "respond (unsolFunction (unsol_entry num)) (run_env W s) (parcel_items W (unsol_header num)) data n =
      Some (0, parcel_items W (unsol_header num @ body))"
    and W: "writes_progress W" "has_memory W s" and ok: "timers_ok s ts ps"
  shows "\<exists>s' ret es ws. RIL_onUnsolicitedResponse W num data n s = Some s' \<and> unsol_frame s s' \<and>
    trace s' = trace s @ es @ ws \<and> delivered s (unsol_bytes W (tick s) num body) ret es \<and>
    writes_to (s_fdWakeupWrite s) ws \<and>
    s_lastNITZTimeData s' = (if ret \<noteq> 0 \<and> num = RIL_UNSOL_NITZ_TIME_RECEIVED
      then Some (unsol_bytes W (tick s) num body) else s_lastNITZTimeData s) \<and>
    (if wakeType (unsol_entry num) = WAKE_PARTIAL then wake_scheduled s s' ts ps
     else heap s' = heap s \<and> users s' = users s \<and> s_last_wake_timeout_info s' = s_last_wake_timeout_info s)"
proof -
  let ?d = "unsol_bytes W (tick s) num body" and ?t = "s\<lparr>tick := unsol_tick num (tick s)\<rparr>"
  obtain ret u where u: "sendResponseRaw W ?d ?t = Some (ret, u)" using sendResponseRaw_total [OF W(1)] by blast
  obtain es where es: "io es ?t u" "delivered ?t ?d ret es" using sendResponseRaw_delivers [OF u] by blast
  have d: "delivered s ?d ret es" using es(2) by simp
  define nitz where "nitz = (if ret \<noteq> 0 \<and> num = RIL_UNSOL_NITZ_TIME_RECEIVED then Some ?d else s_lastNITZTimeData s)"
  define v where "v = (if ret \<noteq> 0 \<and> num = RIL_UNSOL_NITZ_TIME_RECEIVED then u\<lparr>s_lastNITZTimeData := Some ?d\<rparr> else u)"
  obtain k where k: "u = s\<lparr>tick := k, trace := trace s @ es\<rparr>" using es(1) by (auto simp: io_def)
  have v: "v = s\<lparr>tick := k, trace := trace s @ es, s_lastNITZTimeData := nitz\<rparr>"
  proof (cases "ret \<noteq> 0 \<and> num = RIL_UNSOL_NITZ_TIME_RECEIVED")
    case True
    then show ?thesis unfolding v_def nitz_def k by (simp only: if_P simp_thms)
  next
    case False
    then have "v = u" "nitz = s_lastNITZTimeData s" unfolding v_def nitz_def by (simp_all only: if_not_P if_False)
    moreover have "s_lastNITZTimeData u = s_lastNITZTimeData s" by (simp add: k)
    ultimately show ?thesis using same_NITZ [of u] k by (simp only:)
  qed
  have run: "RIL_onUnsolicitedResponse W num data n s =
      (if wakeType (unsol_entry num) = WAKE_PARTIAL then schedule_wake_timeout W v else Some v)"
    by (rule RIL_onUnsolicitedResponse_accepted [OF reg resp u v_def])
  show ?thesis
  proof (cases "wakeType (unsol_entry num) = WAKE_PARTIAL")
    case False
    show ?thesis
    proof (rule exI [of _ v], rule exI [of _ ret], rule exI [of _ es], rule exI [of _ "[]"])
      show "RIL_onUnsolicitedResponse W num data n s = Some v \<and> unsol_frame s v \<and>
        trace v = trace s @ es @ [] \<and> delivered s ?d ret es \<and> writes_to (s_fdWakeupWrite s) [] \<and>
        s_lastNITZTimeData v = (if ret \<noteq> 0 \<and> num = RIL_UNSOL_NITZ_TIME_RECEIVED then Some ?d
          else s_lastNITZTimeData s) \<and>
        (if wakeType (unsol_entry num) = WAKE_PARTIAL then wake_scheduled s v ts ps
         else heap v = heap s \<and> users v = users s \<and> s_last_wake_timeout_info v = s_last_wake_timeout_info s)"
        unfolding nitz_def [symmetric] using False run d v by (simp add: unsol_frame_def)
    qed
  next
    case True
    have "timers_ok v ts ps" using ok v by (simp add: timers_ok_def)
    moreover have "has_memory W v"
      using W(2) has_memory_cong [of v s W] v by (simp add: live_def fun_eq_iff)
    ultimately obtain s' h j a ws at where s': "schedule_wake_timeout W v = Some s'" "heap v a = None" "a \<noteq> NULL"
        "s' = v\<lparr>users := (users_cancelled v)(a \<mapsto> \<lparr>uc_callback = WakeTimeoutCallback, uc_param = NULL\<rparr>), heap := h,
          tick := j, trace := trace v @ ws, s_last_wake_timeout_info := a\<rparr>"
        "writes_to (s_fdWakeupWrite v) ws" "timers_ok s' (insert_timer (heap v) at a ts) ps"
        "event_data h = (event_data (heap v))(a \<mapsto> timer_event a at)"
      using schedule_wake_timeout_ok [OF _ W(1)] by blast
    have "wake_scheduled s s' ts ps"
      unfolding wake_scheduled_def using s' v
      by (intro exI [of _ a] exI [of _ at]) (simp add: users_cancelled_def)
    moreover have "unsol_frame s s'" using s'(4) v by (simp add: unsol_frame_def)
    ultimately have "RIL_onUnsolicitedResponse W num data n s = Some s' \<and> unsol_frame s s' \<and>
        trace s' = trace s @ es @ ws \<and> delivered s ?d ret es \<and> writes_to (s_fdWakeupWrite s) ws \<and>
        s_lastNITZTimeData s' = (if ret \<noteq> 0 \<and> num = RIL_UNSOL_NITZ_TIME_RECEIVED then Some ?d
          else s_lastNITZTimeData s) \<and>
        (if wakeType (unsol_entry num) = WAKE_PARTIAL then wake_scheduled s s' ts ps
         else heap s' = heap s \<and> users s' = users s \<and> s_last_wake_timeout_info s' = s_last_wake_timeout_info s)"
      unfolding nitz_def [symmetric] using run d v s' True by simp
    then show ?thesis by blast
  qed
qed

end
