(* ===== verification/Ril_Command.thy ===== *)
theory Ril_Command
  imports Ril_Unsolicited
begin

text \<open>
  What \<open>processCommandBuffer\<close> makes of a record from the command socket: it is ignored, it becomes a
  pending request and a call of the vendor library, or, when its payload is malformed, a pending
  request only.
\<close>

abbreviation good_world :: "('p, 'z) world \<Rightarrow> bool" where
  "good_world W \<equiv> good_env (w_env W)"

lemma good_run_env: "good_world W \<Longrightarrow> good_env (run_env W s)"
  by simp

text \<open>The bytes of a command, as the telephony framework writes them.\<close>

definition command_bytes :: "('p, 'z) world \<Rightarrow> i32 \<Rightarrow> i32 \<Rightarrow> item list \<Rightarrow> u8 list" where
  "command_bytes W request token its = bytes_of W (I32 request # I32 token # its)"

lemma command_holds:
  assumes "good_world W" and "list_all item_ok its"
  shows "holds (run_env W s) (pf_setData (env_parcel (w_env W)) (command_bytes W request token its))
    (I32 request # I32 token # its)"
  using parcel_holds [OF good_run_env [OF assms(1)], of "I32 request # I32 token # its" s] assms(2)
  by (simp add: parcel_of_def command_bytes_def)

lemma holds_I32:
  assumes "holds E p (I32 v # its)"
  shows "\<exists>p'. (\<forall>t. readInt32 E p t = (NO_ERROR, v, p')) \<and> holds E p' its"
  using assms by (auto simp: holds_def)

lemma holds_Nil:
  assumes "holds E p []"
  shows "\<exists>st. st \<noteq> NO_ERROR \<and> (\<forall>t. readInt32 E p t = (st, t, p))"
  using assms by (auto simp: holds_def exhausted_def)

section \<open>Commands that are ignored\<close>

text \<open>Commands without a number and a token, and commands with a number that is not in the table.\<close>

fun ignorable :: "item list \<Rightarrow> bool" where
  "ignorable [] = True"
| "ignorable [I32 v] = True"
| "ignorable (I32 request # I32 token # its) = (sint request < 1 \<or> 109 \<le> sint request)"
| "ignorable _ = False"

lemma processCommandBuffer_ignored:
  assumes at: "holds (run_env W s) (pf_setData (env_parcel (w_env W)) buffer) its" and its: "ignorable its"
  shows "processCommandBuffer W buffer s = Some s"
proof -
  let ?E = "run_env W s" and ?p = "pf_setData (env_parcel (w_env W)) buffer"
  show ?thesis
  proof (cases its rule: ignorable.cases)
    case 1
    then obtain st where "st \<noteq> NO_ERROR" "\<forall>t. readInt32 ?E ?p t = (st, t, ?p)"
      using holds_Nil [OF at [unfolded 1]] by blast
    then show ?thesis by (simp add: processCommandBuffer_def)
  next
    case (2 v)
    then obtain p' where p': "\<forall>t. readInt32 ?E ?p t = (NO_ERROR, v, p')" "holds ?E p' []"
      using holds_I32 [OF at [unfolded 2]] by blast
    obtain st where "st \<noteq> NO_ERROR" "\<forall>t. readInt32 ?E p' t = (st, t, p')"
      using holds_Nil [OF p'(2)] by blast
    then show ?thesis using p'(1) by (simp add: processCommandBuffer_def)
  next
    case (3 request token js)
    then obtain p' where p': "\<forall>t. readInt32 ?E ?p t = (NO_ERROR, request, p')" "holds ?E p' (I32 token # js)"
      using holds_I32 [OF at [unfolded 3]] by blast
    obtain q where "\<forall>t. readInt32 ?E p' t = (NO_ERROR, token, q)"
      using holds_I32 [OF p'(2)] by blast
    then show ?thesis using p'(1) its 3 by (simp add: processCommandBuffer_def)
  qed (use its in simp_all)
qed

section \<open>Commands that become requests\<close>

abbreviation known :: "i32 \<Rightarrow> bool" where
  "known request \<equiv> 1 \<le> sint request \<and> sint request < 109"

abbreviation command_info :: "i32 \<Rightarrow> CommandInfo" where
  "command_info request \<equiv> s_commands ! nat (sint request)"

lemma known_functions:
  assumes "known request"
  shows "\<exists>f. dispatchFunction (command_info request) = Some f"
    and "\<exists>f. responseFunction (command_info request) = Some f"
    and "requestNumber (command_info request) = request"
    and "aget s_commands (nat (sint request)) = Some (command_info request)"
proof -
  let ?n = "nat (sint request)"
  have n: "0 < ?n" "?n < 109" using assms by (simp_all add: nat_less_iff)
  from functions_at [OF n] show "\<exists>f. dispatchFunction (command_info request) = Some f"
    "\<exists>f. responseFunction (command_info request) = Some f" by auto
  have "of_nat ?n = request"
    using assms by (simp add: of_nat_nat)
  then show "requestNumber (command_info request) = request" using requestNumber_at [OF n(2)] by simp
  show "aget s_commands ?n = Some (command_info request)" using n(2) by (simp add: aget_def)
qed

text \<open>The state in which the vendor library is called, with the new request at \<open>a\<close>.\<close>

definition received_request :: "addr \<Rightarrow> i32 \<Rightarrow> i32 \<Rightarrow> 'z ril_state_scheme \<Rightarrow> 'z ril_state_scheme" where
  "received_request a request token s =
     push_request a token (command_info request) False (s\<lparr>tick := Suc (tick s)\<rparr>)"

lemma processCommandBuffer_received:
  assumes good: "good_world W" and its: "list_all item_ok its" and req: "known request"
    and f: "dispatchFunction (command_info request) = Some f"
    and malloc: "fresh_addr W s \<noteq> NULL"
    and r: "\<And>p. holds (run_env W s) p its \<Longrightarrow> dispatch f (run_env W s) p = Some r"
  shows "processCommandBuffer W (command_bytes W request token its) s =
    (let a = fresh_addr W s; s1 = received_request a request token s
     in case r of InvalidCommandBlock \<Rightarrow> Some s1
        | OnRequest d len \<Rightarrow> onRequest W request d len a s1)"
proof -
  let ?E = "run_env W s" and ?p = "pf_setData (env_parcel (w_env W)) (command_bytes W request token its)"
  obtain p1 where p1: "\<forall>t. readInt32 ?E ?p t = (NO_ERROR, request, p1)" "holds ?E p1 (I32 token # its)"
    using holds_I32 [OF command_holds [OF good its]] by blast
  obtain p2 where p2: "\<forall>t. readInt32 ?E p1 t = (NO_ERROR, token, p2)" "holds ?E p2 its"
    using holds_I32 [OF p1(2)] by blast
  show ?thesis
    using p1(1) p2(1) r [OF p2(2)] req f malloc known_functions(3,4) [OF req]
    by (simp add: processCommandBuffer_def ril_malloc_def sys_def fresh_addr_def received_request_def
        NO_ERROR_def Let_def split: dispatch_result.splits)
qed

end
