(* ===== verification/Ril_Connect.thy ===== *)
theory Ril_Connect
  imports Ril_Command Ril_Event_Watch
begin

text \<open>
  The life of a connection: \<open>listenCallback\<close> accepts it, \<open>processCommandsCallback\<close> ends it. One
  connection is served at a time: the listening event is not persistent and is watched again only
  when the connection has ended.
\<close>

section \<open>The watch table\<close>

lemma unlocked_same: "\<not> listLocked s \<Longrightarrow> s\<lparr>listLocked := False\<rparr> = s"
  by (cases s) simp

lemma ril_event_del_result:
  assumes "watch_inv s" and "\<not> listLocked s" and "i < MAX_FD_EVENTS" and "watch_table s ! i = w" "w \<noteq> NULL"
  shows "\<exists>e n. heap s w = Some e \<and> (let s' = s\<lparr>watch_table := (watch_table s)[i := NULL],
      heap := (heap s)(w \<mapsto> e\<lparr>ev_index := -1\<rparr>), readFds := readFds s - {ev_fd e}, nfds := n\<rparr>
    in ril_event_del w s = Some s' \<and> watch_inv s')"
proof -
  obtain e where e: "heap s w = Some e" "ev_index e = int i"
    using watch_invD [OF assms(1,3,4,5)] by blast
  let ?t = "s\<lparr>listLocked := True\<rparr>"
  have "watch_inv ?t" using assms(1) by (simp add: watch_inv_def)
  then obtain n where n: "removeWatch w i ?t = Some (?t\<lparr>watch_table := (watch_table s)[i := NULL],
      heap := (heap s)(w \<mapsto> e\<lparr>ev_index := -1\<rparr>), readFds := readFds s - {ev_fd e}, nfds := n\<rparr>)"
      "watch_inv (?t\<lparr>watch_table := (watch_table s)[i := NULL],
      heap := (heap s)(w \<mapsto> e\<lparr>ev_index := -1\<rparr>), readFds := readFds s - {ev_fd e}, nfds := n\<rparr>)"
    using removeWatch_ok [of ?t i w e] assms e by auto
  let ?s' = "s\<lparr>watch_table := (watch_table s)[i := NULL],
      heap := (heap s)(w \<mapsto> e\<lparr>ev_index := -1\<rparr>), readFds := readFds s - {ev_fd e}, nfds := n\<rparr>"
  have "ril_event_del w s = Some (?s'\<lparr>listLocked := False\<rparr>)"
    using assms(2,3) e n(1) by (simp add: ril_event_del_def MUTEX_ACQUIRE_def MUTEX_RELEASE_def)
  moreover have "?s'\<lparr>listLocked := False\<rparr> = ?s'" by (rule unlocked_same) (use assms(2) in simp)
  moreover have "watch_inv ?s'" using n(2) by (simp add: watch_inv_def)
  ultimately show ?thesis using e(1) by (intro exI [of _ e] exI [of _ n]) (simp add: Let_def)
qed

lemma free_slot: "i < length ws \<Longrightarrow> ws ! i = NULL \<Longrightarrow> \<exists>j. first_free ws 0 = Some j"
  using first_free_None [of ws 0] nth_mem [of i ws] by (cases "first_free ws 0") auto

lemma add_result:
  assumes "watch_inv s" and "\<not> listLocked s" and "NULL \<in> set (watch_table s)"
    and "ev \<notin> set (watch_table s)" "ev \<noteq> NULL" and "heap s ev = Some e"
    and "fd_ok (ev_fd e)" "ev_fd e \<notin> readFds s"
  shows "\<exists>i n. i < MAX_FD_EVENTS \<and> watch_table s ! i = NULL \<and> (let s' = s\<lparr>watch_table := (watch_table s)[i := ev],
      heap := (heap s)(ev \<mapsto> e\<lparr>ev_index := int i\<rparr>), readFds := insert (ev_fd e) (readFds s), nfds := n\<rparr>
    in ril_event_add ev s = Some s' \<and> watch_inv s')"
proof -
  obtain i where i: "first_free (watch_table s) 0 = Some i"
    using assms(3) free_slot by (metis in_set_conv_nth)
  then have "i < MAX_FD_EVENTS" "watch_table s ! i = NULL"
    using first_free_Some [OF i] watch_inv_length [OF assms(1)] by auto
  then show ?thesis
    using ril_event_add_ok [OF assms(1,2) i assms(4,5,6,7,8)] unfolding Let_def by blast
qed

text \<open>An event is in the table once.\<close>

lemma watch_entry_once:
  assumes "watch_inv s" and "i < MAX_FD_EVENTS" and "watch_table s ! i = w" and "w \<noteq> NULL"
  shows "w \<notin> set ((watch_table s)[i := NULL])"
proof
  assume "w \<in> set ((watch_table s)[i := NULL])"
  then obtain j where j: "j < length (watch_table s)" "(watch_table s)[i := NULL] ! j = w"
    by (auto simp: in_set_conv_nth)
  then have "j \<noteq> i" using assms(4) by (metis nth_list_update_eq)
  with j(2) have "j \<noteq> i" "watch_table s ! j = w" by simp_all
  then show False
    using watch_distinct [OF assms(1), of j i] j(1) watch_inv_length [OF assms(1)] assms(2,3,4) by simp
qed

lemma event_data_at:
  assumes "event_data h' a = event_data h a" and "h a = Some e"
  shows "\<exists>e'. h' a = Some e' \<and> ev_fd e' = ev_fd e \<and> ev_index e' = ev_index e"
proof -
  have "map_option strip (h' a) = Some (strip e)" using assms by (simp add: event_data_def)
  then obtain e' where "h' a = Some e'" "strip e' = strip e" by auto
  then show ?thesis by (metis strip_fields(1,2))
qed

text \<open>The table depends on the contents of the events in it only.\<close>

lemma watch_inv_contents:
  assumes inv: "watch_inv s" and same: "\<forall>w \<in> set (watch_table s). w \<noteq> NULL \<longrightarrow> event_data h' w = event_data (heap s) w"
  shows "watch_inv (s\<lparr>heap := h'\<rparr>)"
proof -
  have len: "length (watch_table s) = MAX_FD_EVENTS" by (rule watch_inv_length [OF inv])
  have at: "\<exists>e e'. heap s (watch_table s ! i) = Some e \<and> h' (watch_table s ! i) = Some e' \<and> ev_fd e' = ev_fd e \<and>
      ev_index e' = ev_index e \<and> ev_index e = int i \<and> fd_ok (ev_fd e) \<and> ev_fd e \<in> readFds s \<and> ev_fd e < nfds s"
    if i: "i < MAX_FD_EVENTS" "watch_table s ! i \<noteq> NULL" for i
  proof -
    obtain e where e: "heap s (watch_table s ! i) = Some e" "ev_index e = int i" "fd_ok (ev_fd e)"
        "ev_fd e \<in> readFds s" "ev_fd e < nfds s" using watch_invD [OF inv i(1) refl i(2)] by blast
    have "event_data h' (watch_table s ! i) = event_data (heap s) (watch_table s ! i)"
      using same i len by simp
    from event_data_at [OF this e(1)] e show ?thesis by blast
  qed
  have fd: "fd_of h' (watch_table s ! i) = fd_of (heap s) (watch_table s ! i)"
    if "i < MAX_FD_EVENTS" "watch_table s ! i \<noteq> NULL" for i
    using at [OF that] by (auto simp: fd_of_def)
  have "\<exists>e. h' (watch_table s ! i) = Some e \<and> ev_index e = int i \<and> fd_ok (ev_fd e) \<and>
      ev_fd e \<in> readFds s \<and> ev_fd e < nfds s" if "i < MAX_FD_EVENTS" "watch_table s ! i \<noteq> NULL" for i
    using at [OF that] by auto
  moreover have "\<forall>fd \<in> readFds s. \<exists>i < MAX_FD_EVENTS. watch_table s ! i \<noteq> NULL \<and> fd_of h' (watch_table s ! i) = fd"
    using inv fd unfolding watch_inv_def by metis
  moreover have "i = j" if "i < MAX_FD_EVENTS" "j < MAX_FD_EVENTS" "watch_table s ! i \<noteq> NULL" "watch_table s ! j \<noteq> NULL"
      "fd_of h' (watch_table s ! i) = fd_of h' (watch_table s ! j)" for i j
    using inv that fd [OF that(1,3)] fd [OF that(2,4)] unfolding watch_inv_def by metis
  ultimately show ?thesis using len unfolding watch_inv_def by simp
qed

lemma watched_in_heap: "watch_inv s \<Longrightarrow> w \<in> set (watch_table s) \<Longrightarrow> w \<noteq> NULL \<Longrightarrow> heap s w \<noteq> None"
  using watch_invD [of s] watch_inv_length [of s] by (metis in_set_conv_nth option.distinct(1))

lemma watch_inv_new:
  assumes "watch_inv s" and "event_data h' = (event_data (heap s))(a \<mapsto> v)" and "heap s a = None"
  shows "watch_inv (s\<lparr>heap := h'\<rparr>)"
  using watch_inv_contents [OF assms(1)] assms(2,3) watched_in_heap [OF assms(1)] by (metis fun_upd_other)

lemma static_events [simp]:
  "s_commands_event \<noteq> s_listen_event" "s_listen_event \<noteq> s_commands_event"
  "s_wakeupfd_event \<noteq> NULL" "s_commands_event \<noteq> NULL" "s_listen_event \<noteq> NULL"
  by (simp_all add: s_commands_event_def s_listen_event_def s_wakeupfd_event_def)

section \<open>The end of a connection\<close>

text \<open>A static event that is not watched, and can be.\<close>

definition can_watch :: "'z ril_state_scheme \<Rightarrow> addr \<Rightarrow> bool" where
  "can_watch s ev \<longleftrightarrow> ev \<notin> set (watch_table s) \<and> ev \<noteq> NULL \<and>
     (\<exists>e. heap s ev = Some e \<and> fd_ok (ev_fd e) \<and> ev_fd e \<notin> readFds s)"

lemma set_list_update_NULL: "x \<in> set (xs[i := NULL]) \<Longrightarrow> x = NULL \<or> x \<in> set xs"
  using set_update_subset_insert [of xs i NULL] by auto

text \<open>All that changes is the connection, its events, the requests and the outside.\<close>

definition closes_to :: "'z ril_state_scheme \<Rightarrow> 'z ril_state_scheme \<Rightarrow> bool" where
  "closes_to s s' \<longleftrightarrow> s' = s\<lparr>watch_table := watch_table s', heap := heap s', readFds := readFds s', nfds := nfds s',
     s_fdCommand := -1, requests := requests s', tick := tick s', trace := trace s'\<rparr>"

lemma processCommandsCallback_ended:
  assumes loop: "processCommands_loop W p_rs s = Some (True, u)" and fd: "fd = s_fdCommand s"
    and inv: "watch_inv u" "\<not> listLocked u" and pend: "pending u R"
    and i: "i < MAX_FD_EVENTS" "watch_table u ! i = s_commands_event"
    and listen: "can_watch u s_listen_event" and W: "writes_progress W"
  shows "\<exists>s' ws. processCommandsCallback W fd p_rs s = Some s' \<and> closes_to u s' \<and>
    watch_inv s' \<and> s_listen_event \<in> set (watch_table s') \<and> s_commands_event \<notin> set (watch_table s') \<and>
    pending s' (map (\<lambda>(x, d). (x, cancelled d)) R) \<and>
    trace s' = trace u @ [Closed (s_fdCommand u), StreamFree p_rs] @ ws \<and> writes_to (s_fdWakeupWrite u) ws"
proof -
  let ?u0 = "emit (Closed (s_fdCommand u)) u\<lparr>s_fdCommand := -1\<rparr>"
  have inv0: "watch_inv ?u0" "\<not> listLocked ?u0" "watch_table ?u0 ! i = s_commands_event"
    using inv i by (simp_all add: watch_inv_def emit_def)
  obtain e n where e: "heap u s_commands_event = Some e" "ril_event_del s_commands_event ?u0 =
      Some (?u0\<lparr>watch_table := (watch_table u)[i := NULL], heap := (heap u)(s_commands_event \<mapsto> e\<lparr>ev_index := -1\<rparr>),
        readFds := readFds u - {ev_fd e}, nfds := n\<rparr>)"
      "watch_inv (?u0\<lparr>watch_table := (watch_table u)[i := NULL],
        heap := (heap u)(s_commands_event \<mapsto> e\<lparr>ev_index := -1\<rparr>),
        readFds := readFds u - {ev_fd e}, nfds := n\<rparr>)"
    using ril_event_del_result [OF inv0(1,2) i(1) inv0(3) static_events(4)] by (auto simp: Let_def emit_def)
  let ?wt = "(watch_table u)[i := NULL]" and ?h = "(heap u)(s_commands_event \<mapsto> e\<lparr>ev_index := -1\<rparr>)"
  let ?u2 = "emit (StreamFree p_rs) (?u0\<lparr>watch_table := ?wt, heap := ?h,
      readFds := readFds u - {ev_fd e}, nfds := n\<rparr>)"
  have len: "length (watch_table u) = MAX_FD_EVENTS" by (rule watch_inv_length [OF inv(1)])
  have inv2: "watch_inv ?u2" "\<not> listLocked ?u2" "NULL \<in> set (watch_table ?u2)"
    using e(3) inv(2) i(1) len by (simp_all add: watch_inv_def emit_def set_update_memI)
  obtain l where l: "heap u s_listen_event = Some l" "fd_ok (ev_fd l)" "ev_fd l \<notin> readFds u"
      "s_listen_event \<notin> set (watch_table u)" using listen by (auto simp: can_watch_def)
  have new: "s_listen_event \<notin> set (watch_table ?u2)" "heap ?u2 s_listen_event = Some l"
      "ev_fd l \<notin> readFds ?u2"
    using l set_list_update_NULL [of s_listen_event "watch_table u" i] static_events by (auto simp: emit_def)
  obtain j m where j: "j < MAX_FD_EVENTS" "ril_event_add s_listen_event ?u2 = Some (?u2\<lparr>
        watch_table := ?wt[j := s_listen_event], heap := ?h(s_listen_event \<mapsto> l\<lparr>ev_index := int j\<rparr>),
        readFds := insert (ev_fd l) (readFds u - {ev_fd e}), nfds := m\<rparr>)"
      "watch_inv (?u2\<lparr>watch_table := ?wt[j := s_listen_event],
        heap := ?h(s_listen_event \<mapsto> l\<lparr>ev_index := int j\<rparr>),
        readFds := insert (ev_fd l) (readFds u - {ev_fd e}), nfds := m\<rparr>)"
    using add_result [OF inv2 new(1) static_events(5) new(2) l(2) new(3)] by (auto simp: Let_def emit_def)
  let ?u3 = "?u2\<lparr>watch_table := ?wt[j := s_listen_event], heap := ?h(s_listen_event \<mapsto> l\<lparr>ev_index := int j\<rparr>),
        readFds := insert (ev_fd l) (readFds u - {ev_fd e}), nfds := m\<rparr>"
  obtain u4 ws where u4: "triggerEvLoop W ?u3 = Some u4" "io ws ?u3 u4" "writes_to (s_fdWakeupWrite u) ws"
    using triggerEvLoop_total [OF W, of ?u3] by (auto simp: emit_def)
  note f = io_fields [OF u4(2)]
  have "pending u4 R" using pend f(13,14) by (simp add: pending_def emit_def)
  then obtain rs where rs: "onCommandsSocketClosed u4 = Some (u4\<lparr>requests := rs\<rparr>)"
      "pending (u4\<lparr>requests := rs\<rparr>) (map (\<lambda>(x, d). (x, cancelled d)) R)"
    using onCommandsSocketClosed_pending by blast
  let ?s' = "u4\<lparr>requests := rs\<rparr>"
  have "processCommandsCallback W fd p_rs s = Some ?s'"
    using loop fd e(2) j(2) u4(1) rs(1)
    by (simp add: processCommandsCallback_def rilEventAddWakeup_def Let_def emit_def)
  moreover have "watch_inv ?s'" using j(3) f(1-4) by (simp add: watch_inv_def emit_def)
  moreover have "s_listen_event \<in> set (watch_table ?s')"
    using f(2) j(1) len by (simp add: emit_def set_update_memI)
  moreover have "s_commands_event \<notin> set (?wt[j := s_listen_event])"
    using watch_entry_once [OF inv(1) i static_events(4)] static_events
      set_update_subset_insert [of ?wt j s_listen_event] by auto
  then have "s_commands_event \<notin> set (watch_table ?s')" using f(2) by simp
  moreover have "closes_to u ?s'" using u4(2) by (auto simp: closes_to_def io_def emit_def)
  moreover have "trace ?s' = trace u @ [Closed (s_fdCommand u), StreamFree p_rs] @ ws"
    using f(19) by (simp add: emit_def)
  ultimately show ?thesis using rs(2) u4(3) by blast
qed

section \<open>A new connection\<close>

text \<open>The version of the vendor library, as the property shows it.\<close>

definition shown_version :: "('p, 'z) world \<Rightarrow> nat \<Rightarrow> cstr" where
  "shown_version W k = (case w_getVersion W of Some getVersion \<Rightarrow> getVersion k
     | None \<Rightarrow> Some (map of_char ''unavailable''))"

lemma radio_state_entry:
  "unsol_known RIL_UNSOL_RESPONSE_RADIO_STATE_CHANGED"
  "unsolFunction (unsol_entry RIL_UNSOL_RESPONSE_RADIO_STATE_CHANGED) = ResponseVoid"
  "wakeType (unsol_entry RIL_UNSOL_RESPONSE_RADIO_STATE_CHANGED) = WAKE_PARTIAL"
  by (simp_all add: unsol_index_def s_unsolResponses_def)

text \<open>The bytes that announce the state of the radio, and the time stored while nobody listened.\<close>

definition connect_bytes :: "('p, 'z) world \<Rightarrow> nat \<Rightarrow> u8 list" where
  "connect_bytes W k = unsol_bytes W k RIL_UNSOL_RESPONSE_RADIO_STATE_CHANGED []"

lemma unsol_frame_fields:
  assumes "unsol_frame s s'"
  shows "s_fdCommand s' = s_fdCommand s" "s_pendingRequests s' = s_pendingRequests s" "requests s' = requests s"
    "watch_table s' = watch_table s" "readFds s' = readFds s" "nfds s' = nfds s" "listLocked s' = listLocked s"
    "s_registerCalled s' = s_registerCalled s" "s_version s' = s_version s" "s_fdListen s' = s_fdListen s"
    "s_fdWakeupWrite s' = s_fdWakeupWrite s" "on_dispatch s' = on_dispatch s"
proof -
  obtain h us k tr l n where "s' = s\<lparr>heap := h, users := us, tick := k, trace := tr,
     s_last_wake_timeout_info := l, s_lastNITZTimeData := n\<rparr>"
    using assms unfolding unsol_frame_def by blast
  then show "s_fdCommand s' = s_fdCommand s" "s_pendingRequests s' = s_pendingRequests s" "requests s' = requests s"
    "watch_table s' = watch_table s" "readFds s' = readFds s" "nfds s' = nfds s" "listLocked s' = listLocked s"
    "s_registerCalled s' = s_registerCalled s" "s_version s' = s_version s" "s_fdListen s' = s_fdListen s"
    "s_fdWakeupWrite s' = s_fdWakeupWrite s" "on_dispatch s' = on_dispatch s"
    by simp_all
qed

lemma unsol_frame_step:
  assumes "unsol_frame s t" and "t' = t\<lparr>s_lastNITZTimeData := n, tick := k, trace := tr\<rparr>"
  shows "unsol_frame s t'"
proof -
  obtain h us k' tr' l n' where "t = s\<lparr>heap := h, users := us, tick := k', trace := tr',
     s_last_wake_timeout_info := l, s_lastNITZTimeData := n'\<rparr>"
    using assms(1) unfolding unsol_frame_def by blast
  then show ?thesis using assms(2) unfolding unsol_frame_def by (cases s) simp
qed

lemma wake_scheduled_cong:
  assumes "wake_scheduled s t ts ps" and "heap t' = heap t" "users t' = users t" "listLocked t' = listLocked t"
    "s_last_wake_timeout_info t' = s_last_wake_timeout_info t"
  shows "wake_scheduled s t' ts ps"
  using assms(1) unfolding wake_scheduled_def timers_ok_def assms(2-5) .

lemma delivered_cong: "s_fdCommand s = s_fdCommand t \<Longrightarrow> delivered s = delivered t"
  by (intro ext) (simp add: delivered_def)

lemma onNewCommandConnect_sends:
  assumes reg: "s_registerCalled s" and W: "writes_progress W" "has_memory W s" and ok: "timers_ok s ts ps"
  shows "\<exists>s' ret es ws ns k. onNewCommandConnect W s = Some s' \<and> unsol_frame s s' \<and>
    trace s' = trace s @ es @ ws @ ns @ [PropertySet (shown_version W k)] \<and>
    delivered s (connect_bytes W (tick s)) ret es \<and> writes_to (s_fdWakeupWrite s) ws \<and>
    (case s_lastNITZTimeData s of None \<Rightarrow> ns = [] | Some d \<Rightarrow> \<exists>r. delivered s d r ns) \<and>
    s_lastNITZTimeData s' = None \<and> wake_scheduled s s' ts ps"
proof -
  let ?num = "RIL_UNSOL_RESPONSE_RADIO_STATE_CHANGED"
  have void: "respond (unsolFunction (unsol_entry ?num)) (run_env W s) (parcel_items W (unsol_header ?num)) None 0 =
      Some (0, parcel_items W (unsol_header ?num @ []))"
    unfolding radio_state_entry(2) by (simp add: responseVoid_def)
  obtain s1 ret es ws where s1: "RIL_onUnsolicitedResponse W ?num None 0 s = Some s1" "unsol_frame s s1"
      "trace s1 = trace s @ es @ ws" "delivered s (connect_bytes W (tick s)) ret es"
      "writes_to (s_fdWakeupWrite s) ws" "s_lastNITZTimeData s1 = s_lastNITZTimeData s" "wake_scheduled s s1 ts ps"
    using RIL_onUnsolicitedResponse_sends [OF reg radio_state_entry(1) void W ok]
    unfolding radio_state_entry(3) by (simp add: connect_bytes_def) blast
  have "\<exists>s2 ns. (case s_lastNITZTimeData s1 of Some d \<Rightarrow> do {
        (ret, s) \<leftarrow> sendResponseRaw W d s1; Some (s\<lparr>s_lastNITZTimeData := None\<rparr>) } | None \<Rightarrow> Some s1) = Some s2 \<and>
      io ns (s1\<lparr>s_lastNITZTimeData := None\<rparr>) s2 \<and>
      (case s_lastNITZTimeData s of None \<Rightarrow> ns = [] | Some d \<Rightarrow> \<exists>r. delivered s d r ns)"
  proof (cases "s_lastNITZTimeData s")
    case None
    have "s1\<lparr>s_lastNITZTimeData := None\<rparr> = s1" using same_NITZ [of s1] unfolding s1(6) None .
    then have "io [] (s1\<lparr>s_lastNITZTimeData := None\<rparr>) s1" by (simp only: io_refl)
    then show ?thesis using None s1(6) by (intro exI [of _ s1] exI [of _ "[]"]) simp
  next
    case (Some d)
    obtain r u where u: "sendResponseRaw W d s1 = Some (r, u)" using sendResponseRaw_total [OF W(1)] by blast
    obtain ns where ns: "io ns s1 u" "delivered s1 d r ns" using sendResponseRaw_delivers [OF u] by blast
    have "delivered s d r ns" using ns(2) delivered_cong unsol_frame_fields(1) [OF s1(2)] by metis
    then show ?thesis using Some s1(6) u ns(1)
      by (intro exI [of _ "u\<lparr>s_lastNITZTimeData := None\<rparr>"] exI [of _ ns]) (auto simp: io_def)
  qed
  then obtain s2 ns where s2: "(case s_lastNITZTimeData s1 of Some d \<Rightarrow> do {
        (ret, s) \<leftarrow> sendResponseRaw W d s1; Some (s\<lparr>s_lastNITZTimeData := None\<rparr>) } | None \<Rightarrow> Some s1) = Some s2"
      "io ns (s1\<lparr>s_lastNITZTimeData := None\<rparr>) s2"
      "case s_lastNITZTimeData s of None \<Rightarrow> ns = [] | Some d \<Rightarrow> \<exists>r. delivered s d r ns" by blast
  obtain k where k: "s2 = s1\<lparr>s_lastNITZTimeData := None, tick := k, trace := trace s1 @ ns\<rparr>"
    using s2(2) by (auto simp: io_def)
  define s3 where "s3 = emit (PropertySet (shown_version W k))
      (case w_getVersion W of None \<Rightarrow> s2 | Some _ \<Rightarrow> s2\<lparr>tick := Suc (tick s2)\<rparr>)"
  obtain j where j: "s3 = s1\<lparr>s_lastNITZTimeData := None, tick := j,
      trace := trace s1 @ ns @ [PropertySet (shown_version W k)]\<rparr>"
    using k by (cases "w_getVersion W") (simp_all add: s3_def emit_def)
  have "tick s2 = k" using k by simp
  then have "onNewCommandConnect W s = Some s3"
    using s1(1) s2(1) unfolding onNewCommandConnect_def s3_def
    by (cases "w_getVersion W") (simp_all add: sys_def shown_version_def)
  moreover have "unsol_frame s s3" by (rule unsol_frame_step [OF s1(2) j])
  moreover have "trace s3 = trace s @ es @ ws @ ns @ [PropertySet (shown_version W k)]"
    using s1(3) j by simp
  moreover have "s_lastNITZTimeData s3 = None" using j by simp
  moreover have "wake_scheduled s s3 ts ps"
    by (rule wake_scheduled_cong [OF s1(7)]) (simp_all add: j)
  ultimately show ?thesis using s1(4,5) s2(3) by blast
qed

lemma timers_ok_frame:
  assumes "timers_ok s ts ps" and "a \<notin> set (timer_list # pending_list # ts @ ps)"
    and "heap t = (heap s)(a := v)" and "listLocked t = listLocked s" and "users t = users s"
    and "s_last_wake_timeout_info t = s_last_wake_timeout_info s"
  shows "timers_ok t ts ps"
proof -
  have "event_lists (heap t) ts ps"
    using event_lists_frame [of "heap s" ts ps a v] assms unfolding timers_ok_def by simp
  moreover have "timeout_of (heap t) x = timeout_of (heap s) x" if "x \<in> set ts" for x
    using assms(2,3) that by (auto simp: timeout_of_def)
  then have "timers_sorted (heap t) ts"
    using assms(1) by (auto simp: timers_ok_def timers_sorted_def cong: map_cong)
  ultimately show ?thesis using assms(1,4,5,6) by (simp add: timers_ok_def)
qed

text \<open>The event of a connection on \<open>fd\<close>, in the slot \<open>i\<close> of the table.\<close>

definition commands_event :: "int \<Rightarrow> addr \<Rightarrow> int \<Rightarrow> ril_func ril_event" where
  "commands_event fd p_rs i = zero_event\<lparr>ev_fd := fd, ev_index := i, ev_persist := True,
     ev_func := Some ProcessCommandsCallback, ev_param := p_rs\<rparr>"

lemma event_set_result:
  "heap s a \<noteq> None \<Longrightarrow> event_set a fd True ProcessCommandsCallback p s =
     Some (s\<lparr>heap := (heap s)(a \<mapsto> commands_event fd p (-1))\<rparr>)"
  by (auto simp: event_set_def ril_event_set_def upd_event_def commands_event_def)

lemma commands_event_simps [simp]:
  "ev_fd (commands_event fd p i) = fd"
  "(commands_event fd p i)\<lparr>ev_index := j\<rparr> = commands_event fd p j"
  by (simp_all add: commands_event_def)

text \<open>\<open>t\<close> is \<open>s\<close> with the connection set up and nothing sent yet.\<close>

lemma listenCallback_watches:
  assumes fd: "s_fdCommand s < 0" "fd = s_fdListen s"
    and a: "w_accept W (tick s) = a" "fd_ok a" "a \<notin> readFds s"
    and inv: "watch_inv s" "\<not> listLocked s" "NULL \<in> set (watch_table s)"
    and ev: "s_commands_event \<notin> set (watch_table s)" "heap s s_commands_event \<noteq> None"
    and W: "writes_progress W"
  shows "\<exists>t p ws i n. listenCallback W fd s = onNewCommandConnect W t \<and> watch_inv t \<and>
    s_commands_event \<in> set (watch_table t) \<and> writes_to (s_fdWakeupWrite s) ws \<and>
    (\<exists>k. t = s\<lparr>s_fdCommand := a, watch_table := (watch_table s)[i := s_commands_event],
      heap := (heap s)(s_commands_event \<mapsto> commands_event a p (int i)), readFds := insert a (readFds s),
      nfds := n, tick := k, trace := trace s @ [StreamNew p a MAX_COMMAND_BYTES] @ ws\<rparr>)"
proof -
  define p where "p = w_malloc W (Suc (tick s)) (live s)"
  let ?e = "commands_event a p (-1)"
  let ?s1 = "s\<lparr>s_fdCommand := a, tick := Suc (Suc (tick s)),
      trace := trace s @ [StreamNew p a MAX_COMMAND_BYTES], heap := (heap s)(s_commands_event \<mapsto> ?e)\<rparr>"
  have pos: "\<not> a < 0" using a(2) by (simp add: fd_ok_def)
  have "\<forall>w \<in> set (watch_table s). w \<noteq> NULL \<longrightarrow>
      event_data ((heap s)(s_commands_event \<mapsto> ?e)) w = event_data (heap s) w"
    using ev(1) by (auto simp: event_data_def)
  from watch_inv_contents [OF inv(1) this] have inv1: "watch_inv ?s1" by (simp add: watch_inv_def)
  obtain i n where i: "i < MAX_FD_EVENTS" "ril_event_add s_commands_event ?s1 = Some (?s1\<lparr>
        watch_table := (watch_table s)[i := s_commands_event],
        heap := (heap ?s1)(s_commands_event \<mapsto> ?e\<lparr>ev_index := int i\<rparr>), readFds := insert a (readFds s), nfds := n\<rparr>)"
      "watch_inv (?s1\<lparr>watch_table := (watch_table s)[i := s_commands_event],
        heap := (heap ?s1)(s_commands_event \<mapsto> ?e\<lparr>ev_index := int i\<rparr>), readFds := insert a (readFds s), nfds := n\<rparr>)"
    using add_result [of ?s1 s_commands_event ?e] inv inv1 ev a by (auto simp: Let_def)
  let ?s2 = "?s1\<lparr>watch_table := (watch_table s)[i := s_commands_event],
      heap := (heap s)(s_commands_event \<mapsto> commands_event a p (int i)), readFds := insert a (readFds s), nfds := n\<rparr>"
  obtain t ws where t: "triggerEvLoop W ?s2 = Some t" "io ws ?s2 t" "writes_to (s_fdWakeupWrite s) ws"
    using triggerEvLoop_total [OF W, of ?s2] by auto
  have s2: "ril_event_add s_commands_event ?s1 = Some ?s2" "watch_inv ?s2" using i(2,3) by simp_all
  have l: "live (s\<lparr>tick := k, s_fdCommand := a\<rparr>) = live s" for k by (simp add: live_def fun_eq_iff)
  obtain k where k: "t = ?s2\<lparr>tick := k, trace := trace ?s2 @ ws\<rparr>" using t(2) by (auto simp: io_def)
  have "listenCallback W fd s = onNewCommandConnect W t"
    using fd a(1) pos ev(2) s2(1) t(1) l
    by (simp add: listenCallback_def sys_def Let_def rilEventAddWakeup_def event_set_result emit_def p_def)
  moreover have "watch_inv t" using s2(2) k by (simp add: watch_inv_def)
  moreover have "s_commands_event \<in> set (watch_table t)"
    using k i(1) watch_inv_length [OF inv(1)] by (simp add: set_update_memI)
  moreover have "\<exists>k. t = s\<lparr>s_fdCommand := a, watch_table := (watch_table s)[i := s_commands_event],
      heap := (heap s)(s_commands_event \<mapsto> commands_event a p (int i)), readFds := insert a (readFds s),
      nfds := n, tick := k, trace := trace s @ [StreamNew p a MAX_COMMAND_BYTES] @ ws\<rparr>"
    using k by (intro exI [of _ k]) (cases s, simp)
  ultimately show ?thesis using t(3) by blast
qed

lemma listenCallback_connects:
  assumes fd: "s_fdCommand s < 0" "fd = s_fdListen s"
    and a: "w_accept W (tick s) = a" "fd_ok a" "a \<notin> readFds s"
    and inv: "watch_inv s" "NULL \<in> set (watch_table s)"
    and ev: "s_commands_event \<notin> set (watch_table s)" "heap s s_commands_event \<noteq> None"
      "s_commands_event \<notin> set (timer_list # pending_list # ts @ ps)"
    and reg: "s_registerCalled s" and W: "writes_progress W" "has_memory W s" and ok: "timers_ok s ts ps"
  shows "\<exists>s' p ret es ws ws' ns k j. listenCallback W fd s = Some s' \<and> s_fdCommand s' = a \<and> watch_inv s' \<and>
    s_commands_event \<in> set (watch_table s') \<and> (\<exists>ts'. timers_ok s' ts' ps) \<and>
    requests s' = requests s \<and> s_pendingRequests s' = s_pendingRequests s \<and> s_lastNITZTimeData s' = None \<and>
    trace s' = trace s @ [StreamNew p a MAX_COMMAND_BYTES] @ ws @ es @ ws' @ ns @ [PropertySet (shown_version W k)] \<and>
    writes_to (s_fdWakeupWrite s) (ws @ ws') \<and> delivered s' (connect_bytes W j) ret es \<and>
    (case s_lastNITZTimeData s of None \<Rightarrow> ns = [] | Some d \<Rightarrow> \<exists>r. delivered s' d r ns)"
proof -
  have "\<not> listLocked s" using ok by (simp add: timers_ok_def)
  then obtain t p ws i n k where t: "listenCallback W fd s = onNewCommandConnect W t" "watch_inv t"
      "s_commands_event \<in> set (watch_table t)" "writes_to (s_fdWakeupWrite s) ws"
      "t = s\<lparr>s_fdCommand := a, watch_table := (watch_table s)[i := s_commands_event],
        heap := (heap s)(s_commands_event \<mapsto> commands_event a p (int i)), readFds := insert a (readFds s),
        nfds := n, tick := k, trace := trace s @ [StreamNew p a MAX_COMMAND_BYTES] @ ws\<rparr>"
    using listenCallback_watches [OF fd a inv(1) _ inv(2) ev(1,2) W(1)] by blast
  have ok': "timers_ok t ts ps"
    by (rule timers_ok_frame [OF ok ev(3), where v = "Some (commands_event a p (int i))"]) (simp_all add: t(5))
  have "live t = live s" using ev(2) by (simp add: live_def fun_eq_iff t(5))
  then have mem: "has_memory W t" using W(2) has_memory_cong by metis
  have reg': "s_registerCalled t" using reg by (simp add: t(5))
  obtain s' ret es ws' ns j where s': "onNewCommandConnect W t = Some s'" "unsol_frame t s'"
      "trace s' = trace t @ es @ ws' @ ns @ [PropertySet (shown_version W j)]"
      "delivered t (connect_bytes W (tick t)) ret es" "writes_to (s_fdWakeupWrite t) ws'"
      "case s_lastNITZTimeData t of None \<Rightarrow> ns = [] | Some d \<Rightarrow> \<exists>r. delivered t d r ns"
      "s_lastNITZTimeData s' = None" "wake_scheduled t s' ts ps"
    using onNewCommandConnect_sends [OF reg' W(1) mem ok'] by blast
  note f = unsol_frame_fields [OF s'(2)]
  have d: "delivered t = delivered s'" by (rule delivered_cong) (simp add: f(1))
  obtain b at where b: "heap t b = None" "event_data (heap s') = (event_data (heap t))(b \<mapsto> timer_event b at)"
      "timers_ok s' (insert_timer (heap t) at b ts) ps"
    using s'(8) unfolding wake_scheduled_def by blast
  have "watch_inv (t\<lparr>heap := heap s'\<rparr>)" by (rule watch_inv_new [OF t(2) b(2,1)])
  then have "watch_inv s'" using f(4-6) by (simp add: watch_inv_def)
  moreover have "trace s' = trace s @ [StreamNew p a MAX_COMMAND_BYTES] @ ws @ es @ ws' @ ns @
      [PropertySet (shown_version W j)]" using s'(3) by (simp add: t(5))
  moreover have "s_fdCommand s' = a" "requests s' = requests s" "s_pendingRequests s' = s_pendingRequests s"
    "s_commands_event \<in> set (watch_table s')" "writes_to (s_fdWakeupWrite s) (ws @ ws')"
    using f(1,2,3,4) t(3,4) s'(5) by (simp_all add: t(5))
  moreover have "case s_lastNITZTimeData s of None \<Rightarrow> ns = [] | Some d \<Rightarrow> \<exists>r. delivered s' d r ns"
    using s'(6) unfolding d by (simp add: t(5))
  moreover have "listenCallback W fd s = Some s'" using t(1) s'(1) by simp
  ultimately show ?thesis using b(3) s'(4,7) unfolding d by blast
qed

end
