(* ===== verification/Ril_Daemon.thy ===== *)
theory Ril_Daemon
  imports Ril_Connect
begin

text \<open>
  Runs of the daemon as a whole. A step is what one of its handlers does to the pending requests: a
  request is received, completed, or all are cancelled because the connection ended; every other
  handler leaves them alone. Runs refine the abstract store of \<open>Ril_Pending\<close>. What the vendor library
  may do is the locale \<open>vendor_library\<close>: it acts on the daemon through the functions of the daemon only.
\<close>

section \<open>Steps and runs\<close>

definition quiet :: "'z ril_state_scheme \<Rightarrow> 'z ril_state_scheme \<Rightarrow> bool" where
  "quiet s s' \<longleftrightarrow> requests s' = requests s \<and> s_pendingRequests s' = s_pendingRequests s"

type_synonym request_op = "(i32 \<times> CommandInfo \<times> bool) store_op"

inductive daemon_step ::
    "('p, 'z) world \<Rightarrow> 'z ril_state_scheme \<Rightarrow> request_op option \<Rightarrow> 'z ril_state_scheme \<Rightarrow> bool" for W where
  other: "quiet s s' \<Longrightarrow> daemon_step W s None s'"
| receive: "a \<noteq> NULL \<Longrightarrow> requests s a = None \<Longrightarrow>
    daemon_step W s (Some (Put a (token, pCI, loc))) (push_request a token pCI loc s)"
| complete: "RIL_onRequestComplete W t e resp n s = Some s' \<Longrightarrow> daemon_step W s (Some (Take t)) s'"
| closed: "onCommandsSocketClosed s = Some s' \<Longrightarrow> daemon_step W s (Some CancelAll) s'"

inductive daemon_run ::
    "('p, 'z) world \<Rightarrow> 'z ril_state_scheme \<Rightarrow> request_op list \<Rightarrow> 'z ril_state_scheme \<Rightarrow> bool" for W where
  stop: "daemon_run W s [] s"
| quiet_step: "daemon_step W s None u \<Longrightarrow> daemon_run W u ops s' \<Longrightarrow> daemon_run W s ops s'"
| request_step: "daemon_step W s (Some op) u \<Longrightarrow> daemon_run W u ops s' \<Longrightarrow> daemon_run W s (op # ops) s'"

definition reaches :: "('p, 'z) world \<Rightarrow> 'z ril_state_scheme \<Rightarrow> 'z ril_state_scheme \<Rightarrow> bool" where
  "reaches W s s' \<longleftrightarrow> (\<exists>ops. daemon_run W s ops s')"

lemma daemon_run_append:
  "daemon_run W s ops u \<Longrightarrow> daemon_run W u ops' s' \<Longrightarrow> daemon_run W s (ops @ ops') s'"
  by (induction rule: daemon_run.induct) (auto intro: daemon_run.intros)

lemma reaches_refl [intro, simp]: "reaches W s s"
  by (auto simp: reaches_def intro: daemon_run.intros)

lemma reaches_trans: "reaches W s u \<Longrightarrow> reaches W u s' \<Longrightarrow> reaches W s s'"
  by (auto simp: reaches_def intro: daemon_run_append)

lemma reaches_step: "daemon_step W s l s' \<Longrightarrow> reaches W s s'"
  using daemon_run.quiet_step [OF _ daemon_run.stop] daemon_run.request_step [OF _ daemon_run.stop]
  unfolding reaches_def by (cases l) blast+

lemma reaches_quiet [intro]: "quiet s s' \<Longrightarrow> reaches W s s'"
  by (rule reaches_step) (rule other)

section \<open>Runs refine the store\<close>

lemma pending_fresh: "pending s R \<Longrightarrow> requests s a = None \<Longrightarrow> a \<notin> set (map fst R)"
  using chain_request [of "requests s" "s_pendingRequests s" R a] by (fastforce simp: pending_def)

lemma sendResponse_quiet: "sendResponse W p s = Some (ret, s') \<Longrightarrow> quiet s s'"
  using sendResponseRaw_delivers [of W "pf_data (env_parcel (w_env W)) p" s ret s'] io_fields(13,14)
  by (auto simp: sendResponse_def quiet_def)

lemma quiet_pending: "quiet s s' \<Longrightarrow> pending s' R = pending s R"
  by (simp add: quiet_def pending_def)

lemma RIL_onRequestComplete_pending:
  assumes "RIL_onRequestComplete W t e resp n s = Some s'" and "pending s R"
  shows "pending s' (AList.delete t R)"
proof -
  obtain u where u: "checkAndDequeueRequestInfo t s = Some (t \<in> set (map fst R), u)"
      "pending u (AList.delete t R)"
    using checkAndDequeueRequestInfo_pending [OF assms(2), of t] by auto
  have free: "pending (v\<lparr>requests := (requests v)(t := None)\<rparr>) (AList.delete t R)" if "quiet u v" for v
    using pending_free [of v, OF _ not_in_delete] u(2) quiet_pending [OF that] by blast
  have "quiet u u" by (simp add: quiet_def)
  then show ?thesis
    using assms(1) u free
    by (auto simp: RIL_onRequestComplete_def dest!: sendResponse_quiet split: if_splits Option.bind_splits)
qed

lemma daemon_step_refines:
  assumes "daemon_step W s l s'" and "pending s R"
  shows "case l of None \<Rightarrow> pending s' R
    | Some op \<Rightarrow> op_ok op R \<and> pending s' (abs_op new_request cancelled op R)"
  using assms
  by (cases rule: daemon_step.cases)
    (use pending_fresh [OF assms(2)] pending_push [OF assms(2)] RIL_onRequestComplete_pending [OF _ assms(2)]
      onCommandsSocketClosed_pending [OF assms(2)] in \<open>auto simp: quiet_pending op_ok_def abs_op_def\<close>)

lemma daemon_run_refines_store:
  assumes "daemon_run W s ops s'" and "pending s R"
  shows "ops_ok new_request cancelled ops R \<and> pending s' (abs_run new_request cancelled ops R)"
  using assms
  by (induction arbitrary: R rule: daemon_run.induct) (auto dest!: daemon_step_refines)

lemma daemon_run_takes_once:
  assumes "daemon_run W s ops s'" and "pending s R"
  shows "taken new_request cancelled a ops R \<le> puts a ops + (if a \<in> set (map fst R) then 1 else 0)"
  using taken_le_puts daemon_run_refines_store [OF assms] assms(2) unfolding pending_def by blast

lemma cancelled_stays:
  assumes "daemon_run W s ops s'" and "pending s R" and "\<forall>d. (a, d) \<in> set R \<longrightarrow> ri_cancelled d"
    and "puts a ops = 0"
  shows "\<exists>R'. pending s' R' \<and> (\<forall>d. map_of R' a = Some d \<longrightarrow> ri_cancelled d)"
  using daemon_run_refines_store [OF assms(1,2)]
    abs_run_stale [of ri_cancelled cancelled a R ops _ new_request] assms(3,4)
  by (intro exI [of _ "abs_run new_request cancelled ops R"]) (auto dest: map_of_SomeD)

lemma completes_to_refl: "completes_to [] s s"
  unfolding completes_to_def
  by (intro exI [of _ "s_pendingRequests s"] exI [of _ "requests s"] exI [of _ "tick s"]) simp

text \<open>Completions that send nothing: of other tokens, of requests of the library, of cancelled ones.\<close>

lemma RIL_onRequestComplete_dropped:
  assumes "pending s R" and "\<forall>d. map_of R t = Some d \<longrightarrow> ri_local d \<or> ri_cancelled d"
  shows "\<exists>s'. RIL_onRequestComplete W t e resp n s = Some s' \<and> pending s' (AList.delete t R) \<and> completes_to [] s s'"
proof (cases "map_of R t")
  case None
  then have t: "t \<notin> set (map fst R)" by (simp add: map_of_eq_None_iff)
  then have "AList.delete t R = R" by (simp add: delete_idem)
  then show ?thesis using RIL_onRequestComplete_missing [OF assms(1) t] assms(1) completes_to_refl by metis
next
  case (Some d)
  then show ?thesis using RIL_onRequestComplete_silent [OF assms(1) Some] assms(2) by blast
qed

lemma no_stale_response:
  assumes "pending s R" and "onCommandsSocketClosed s = Some u" and "daemon_run W u ops v"
    and "a \<in> set (map fst R)" and "puts a ops = 0"
  shows "\<exists>s'. RIL_onRequestComplete W a e resp n v = Some s' \<and> trace s' = trace v"
proof -
  have "pending u (map (\<lambda>(x, d). (x, cancelled d)) R)"
    using onCommandsSocketClosed_pending [OF assms(1)] assms(2) by auto
  moreover have "\<forall>d. (a, d) \<in> set (map (\<lambda>(x, d). (x, cancelled d)) R) \<longrightarrow> ri_cancelled d" by auto
  ultimately obtain R' where "pending v R'" "\<forall>d. map_of R' a = Some d \<longrightarrow> ri_cancelled d"
    using cancelled_stays [OF assms(3) _ _ assms(5)] by blast
  then obtain s' where "RIL_onRequestComplete W a e resp n v = Some s'" "completes_to [] v s'"
    using RIL_onRequestComplete_dropped by metis
  then show ?thesis by (auto simp: completes_to_def)
qed

lemma absent_stays:
  "a \<notin> set (map fst R) \<Longrightarrow> puts a ops = 0 \<Longrightarrow> a \<notin> set (map fst (abs_run new c ops R))"
proof (induction ops arbitrary: R)
  case (Cons op ops)
  have "a \<notin> set (map fst (abs_op new c op R))"
    using Cons.prems by (cases op) (auto simp: keys_abs_op split: if_splits)
  then show ?case using Cons.IH [of "abs_op new c op R"] Cons.prems(2) by simp
qed simp

text \<open>A second completion of a token has no effect, unless the token was put again.\<close>

lemma completed_twice:
  assumes "pending s R" and "RIL_onRequestComplete W a e resp n s = Some u" and "daemon_run W u ops v"
    and "puts a ops = 0"
  shows "RIL_onRequestComplete W a e' resp' n' v = Some v"
proof -
  have "pending u (AList.delete a R)" by (rule RIL_onRequestComplete_pending [OF assms(2,1)])
  then have v: "pending v (abs_run new_request cancelled ops (AList.delete a R))"
    using daemon_run_refines_store [OF assms(3)] by blast
  show ?thesis
    by (rule RIL_onRequestComplete_missing [OF v absent_stays [OF not_in_delete assms(4)]])
qed

section \<open>What leaves the requests alone\<close>

lemma quiet_refl [intro, simp]: "quiet s s"
  by (simp add: quiet_def)

lemma quiet_trans: "quiet s u \<Longrightarrow> quiet u s' \<Longrightarrow> quiet s s'"
  by (simp add: quiet_def)

lemma quiet_updates [simp]:
  "quiet s (u\<lparr>heap := h\<rparr>) = quiet s u" "quiet s (u\<lparr>tick := k\<rparr>) = quiet s u"
  "quiet s (u\<lparr>users := us\<rparr>) = quiet s u" "quiet s (u\<lparr>s_fdCommand := fd\<rparr>) = quiet s u"
  "quiet s (u\<lparr>s_last_wake_timeout_info := a\<rparr>) = quiet s u"
  "quiet s (u\<lparr>s_lastNITZTimeData := d\<rparr>) = quiet s u" "quiet s (emit e u) = quiet s u"
  "quiet s (u\<lparr>listLocked := b\<rparr>) = quiet s u" "quiet s (u\<lparr>nfds := n\<rparr>) = quiet s u"
  "quiet s (u\<lparr>readFds := fds\<rparr>) = quiet s u" "quiet s (u\<lparr>watch_table := wt\<rparr>) = quiet s u"
  by (simp_all add: quiet_def emit_def)

lemma quiet_from [simp]:
  "quiet (s\<lparr>heap := h\<rparr>) u = quiet s u" "quiet (s\<lparr>tick := k\<rparr>) u = quiet s u"
  "quiet (s\<lparr>users := us\<rparr>) u = quiet s u" "quiet (s\<lparr>s_fdCommand := fd\<rparr>) u = quiet s u"
  "quiet (s\<lparr>s_last_wake_timeout_info := a\<rparr>) u = quiet s u"
  "quiet (s\<lparr>s_lastNITZTimeData := d\<rparr>) u = quiet s u" "quiet (emit e s) u = quiet s u"
  "quiet (s\<lparr>listLocked := b\<rparr>) u = quiet s u"
  by (simp_all add: quiet_def emit_def)

lemma mutex_quiet: "MUTEX_ACQUIRE s = Some s' \<Longrightarrow> quiet s s'" "quiet s (MUTEX_RELEASE u) = quiet s u"
  by (auto simp: MUTEX_ACQUIRE_def MUTEX_RELEASE_def split: if_splits)

lemma removeWatch_quiet: "removeWatch ev i s = Some s' \<Longrightarrow> quiet s s'"
  by (auto simp: removeWatch_def split: Option.bind_splits)

lemma ril_event_add_quiet: "ril_event_add ev s = Some s' \<Longrightarrow> quiet s s'"
  by (auto simp: ril_event_add_def MUTEX_ACQUIRE_def MUTEX_RELEASE_def
      split: Option.bind_splits option.splits if_splits)

lemma ril_event_del_quiet: "ril_event_del ev s = Some s' \<Longrightarrow> quiet s s'"
  by (auto simp: ril_event_del_def MUTEX_ACQUIRE_def MUTEX_RELEASE_def
      split: Option.bind_splits if_splits dest!: removeWatch_quiet)

lemma ril_timer_add_quiet: "ril_timer_add now ev tv s = Some s' \<Longrightarrow> quiet s s'"
  by (auto simp: ril_timer_add_def MUTEX_ACQUIRE_def MUTEX_RELEASE_def
      split: Option.bind_splits option.splits if_splits)

lemma processTimeouts_quiet: "processTimeouts now s = Some s' \<Longrightarrow> quiet s s'"
  by (auto simp: processTimeouts_def MUTEX_ACQUIRE_def MUTEX_RELEASE_def
      split: Option.bind_splits if_splits)

lemma processReadReadies_loop_quiet: "processReadReadies_loop rfds is n s = Some s' \<Longrightarrow> quiet s s'"
proof (induction rfds "is" n s rule: processReadReadies_loop.induct)
  case (2 rfds i "is" n s)
  show ?case
  proof (cases "n > 0")
    case True
    then obtain re where re: "aget (watch_table s) i = Some re" using 2(4) by (auto split: Option.bind_splits)
    show ?thesis
    proof (cases "re = NULL")
      case True
      then show ?thesis using 2(1) [OF \<open>n > 0\<close> re] 2(4) re \<open>n > 0\<close> by simp
    next
      case False
      then obtain e ready where e: "heap s re = Some e" "FD_ISSET (ev_fd e) rfds = Some ready"
        using 2(4) re True by (auto split: Option.bind_splits)
      show ?thesis
      proof (cases ready)
        case False
        then show ?thesis using 2(3) [OF \<open>n > 0\<close> re \<open>re \<noteq> NULL\<close> e] 2(4) re e \<open>re \<noteq> NULL\<close> \<open>n > 0\<close> by simp
      next
        case True
        then obtain h u where u: "addToList (heap s) re pending_list = Some h"
            "(if \<not> ev_persist e then removeWatch re i (s\<lparr>heap := h\<rparr>) else Some (s\<lparr>heap := h\<rparr>)) = Some u"
            "processReadReadies_loop rfds is (n - 1) u = Some s'"
          using 2(4) re e \<open>re \<noteq> NULL\<close> \<open>n > 0\<close> by (simp split: Option.bind_splits)
        have "quiet s u" using u(2) by (auto split: if_splits dest: removeWatch_quiet)
        moreover have "quiet u s'" using 2(2) [OF \<open>n > 0\<close> re \<open>re \<noteq> NULL\<close> e True u(1,2,3)] .
        ultimately show ?thesis by (rule quiet_trans)
      qed
    qed
  qed (use 2(4) in simp)
qed simp

lemma processReadReadies_quiet: "processReadReadies rfds n s = Some s' \<Longrightarrow> quiet s s'"
  by (auto simp: processReadReadies_def MUTEX_ACQUIRE_def MUTEX_RELEASE_def
      split: Option.bind_splits if_splits dest!: processReadReadies_loop_quiet)

lemma event_set_quiet: "event_set ev fd b f p s = Some s' \<Longrightarrow> quiet s s'"
  by (auto simp: event_set_def)

lemma processWakeupCallback_quiet: "processWakeupCallback W s = Some s' \<Longrightarrow> quiet s s'"
  by (erule processWakeupCallback.raw_induct [rotated, where P = "\<lambda>W s s'. quiet s s'"])
    (auto simp: sys_def split: read_result.splits if_splits, (metis quiet_from(2))+)

lemma triggerEvLoop_quiet: "triggerEvLoop W s = Some s' \<Longrightarrow> quiet s s'"
proof -
  have "triggerEvLoop_loop W s = Some s' \<Longrightarrow> quiet s s'"
    by (erule triggerEvLoop_loop.raw_induct [rotated, where P = "\<lambda>W s s'. quiet s s'"])
      (auto simp: sys_def split: write_result.splits if_splits, metis quiet_from(2))
  then show "triggerEvLoop W s = Some s' \<Longrightarrow> quiet s s'"
    by (auto simp: triggerEvLoop_def split: if_splits)
qed

text \<open>Timed callbacks, unsolicited responses and connections.\<close>

lemma ril_malloc_quiet: "ril_malloc W s = Some (a, s') \<Longrightarrow> quiet s s'"
  by (auto simp: ril_malloc_def sys_def Let_def split: if_splits)

lemma internalRequestTimedCallback_quiet:
  assumes "internalRequestTimedCallback W cb param tv s = Some (a, s')"
  shows "quiet s s'"
  using assms unfolding internalRequestTimedCallback_def
  by (fastforce simp: sys_def split: Option.bind_splits
      dest!: ril_malloc_quiet event_set_quiet ril_timer_add_quiet triggerEvLoop_quiet elim: quiet_trans)

lemma rilEventAddWakeup_quiet: "rilEventAddWakeup W ev s = Some s' \<Longrightarrow> quiet s s'"
  by (auto simp: rilEventAddWakeup_def split: Option.bind_splits
      dest!: ril_event_add_quiet triggerEvLoop_quiet elim: quiet_trans)

lemma schedule_wake_timeout_quiet: "schedule_wake_timeout W s = Some s' \<Longrightarrow> quiet s s'"
  by (auto simp: schedule_wake_timeout_def split: Option.bind_splits if_splits
      dest!: internalRequestTimedCallback_quiet)

lemma unsol_payload_quiet: "unsol_payload W num t p s = (q, s') \<Longrightarrow> quiet s s'"
  by (auto simp: unsol_payload_def sys_def Let_def split: if_splits)

lemma RIL_onUnsolicitedResponse_quiet:
  "RIL_onUnsolicitedResponse W num data n s = Some s' \<Longrightarrow> quiet s s'"
  unfolding RIL_onUnsolicitedResponse_def Let_def
  by (auto simp: sys_def grabPartialWakeLock_def releaseWakeLock_def
      split: Option.bind_splits if_splits prod.splits
      dest!: schedule_wake_timeout_quiet sendResponse_quiet unsol_payload_quiet, simp_all add: quiet_def)

end
