(* ===== verification/Ril_Vendor.thy ===== *)
theory Ril_Vendor
  imports Ril_Daemon
begin

text \<open>
  The contract with the vendor library and the run of the event loop under it. The vendor library is
  called when a request is received and when one of its timers expires; it may call the functions of
  \<open>ril.h\<close> at once or later. Under this contract all that the event loop does is a run of the daemon.
\<close>

section \<open>Connections\<close>

lemma sendResponseRaw_quiet: "sendResponseRaw W d s = Some (ret, s') \<Longrightarrow> quiet s s'"
  using sendResponseRaw_delivers [of W d s ret s'] io_fields(13,14) by (auto simp: quiet_def)

lemma onNewCommandConnect_quiet: "onNewCommandConnect W s = Some s' \<Longrightarrow> quiet s s'"
  by (auto simp: onNewCommandConnect_def sys_def split: Option.bind_splits option.splits
      dest!: RIL_onUnsolicitedResponse_quiet sendResponseRaw_quiet, simp_all add: quiet_def)

lemma listenCallback_quiet: "listenCallback W fd s = Some s' \<Longrightarrow> quiet s s'"
  by (auto simp: listenCallback_def sys_def Let_def split: Option.bind_splits if_splits
      dest!: rilEventAddWakeup_quiet event_set_quiet onNewCommandConnect_quiet, simp_all add: quiet_def)

section \<open>The contract\<close>

locale vendor_library =
  fixes W :: "('p, 'z) world"
  assumes onRequest_reaches: "w_onRequest W request d n a s = Some s' \<Longrightarrow> reaches W s s'"
    and timed_reaches: "w_timed W k param s = Some s' \<Longrightarrow> reaches W s s'"
    and malloc: "malloc_ok W"
begin

lemma receive_reaches:
  "ril_malloc W s = Some (a, u) \<Longrightarrow> reaches W s (push_request a token pCI loc u)"
proof -
  assume a: "ril_malloc W s = Some (a, u)"
  then have "a \<noteq> NULL" "a = w_malloc W (tick s) (live s)" "u = s\<lparr>tick := Suc (tick s)\<rparr>"
    by (auto simp: ril_malloc_def sys_def Let_def split: if_splits)
  moreover have "\<not> live s a" using calculation malloc unfolding malloc_ok_def by metis
  ultimately have "daemon_step W u (Some (Put a (token, pCI, loc))) (push_request a token pCI loc u)"
    by (intro receive) (auto simp: live_def)
  then show ?thesis using reaches_step reaches_trans [OF reaches_quiet [OF ril_malloc_quiet [OF a]]] by blast
qed

lemma called_reaches: "onRequest W request d n a s = Some s' \<Longrightarrow> reaches W s s'"
  using reaches_trans [OF reaches_quiet onRequest_reaches [of request d n a "emit (Requested request d n a) s"]]
  by (simp add: onRequest_def)

lemma processCommandBuffer_reaches:
  assumes "processCommandBuffer W buffer s = Some s'"
  shows "reaches W s s'"
proof -
  note run = assms [unfolded processCommandBuffer_def Let_def]
  then consider "s' = s" | a u pCI token r where "ril_malloc W s = Some (a, u)"
      "(case r of InvalidCommandBlock \<Rightarrow> Some (push_request a token pCI False u)
        | OnRequest data datalen \<Rightarrow>
            onRequest W (requestNumber pCI) data datalen a (push_request a token pCI False u)) = Some s'"
    by (fastforce split: prod.splits if_splits Option.bind_splits)
  then show ?thesis
  proof cases
    case 1
    then show ?thesis by simp
  next
    case (2 a u pCI token r)
    have "reaches W (push_request a token pCI False u) s'"
      using 2(2) called_reaches by (auto split: dispatch_result.splits)
    then show ?thesis using reaches_trans receive_reaches [OF 2(1)] by blast
  qed
qed

lemma issueLocalRequest_reaches:
  "issueLocalRequest W request d n s = Some s' \<Longrightarrow> reaches W s s'"
  by (auto simp: issueLocalRequest_def split: Option.bind_splits
      dest!: called_reaches intro: reaches_trans [OF receive_reaches])

lemma processCommands_loop_reaches:
  "processCommands_loop W p_rs s = Some (ended, s') \<Longrightarrow> reaches W s s'"
proof -
  have "processCommands_loop V p_rs s = Some y \<Longrightarrow> V = W \<longrightarrow> reaches W s (snd y)" for V y
  proof (erule processCommands_loop.raw_induct [rotated, where P = "\<lambda>V p s y. V = W \<longrightarrow> reaches W s (snd y)"],
      intro impI, goal_cases)
    case (1 loop V p s y)
    have first: "reaches W s (s\<lparr>tick := Suc (tick s)\<rparr>)" by (intro reaches_quiet) simp
    show ?case
    proof (cases "w_record W p (tick s)")
      case (Record buffer)
      then obtain u where u: "processCommandBuffer W buffer (s\<lparr>tick := Suc (tick s)\<rparr>) = Some u" "loop W p u = Some y"
        using 1(2,3) by (auto simp: sys_def split: Option.bind_splits)
      have "reaches W u (snd y)" using 1(1) [OF u(2)] by simp
      then show ?thesis using first processCommandBuffer_reaches [OF u(1)] reaches_trans by blast
    qed (use 1(2,3) first in \<open>auto simp: sys_def\<close>)
  qed
  then show "processCommands_loop W p_rs s = Some (ended, s') \<Longrightarrow> reaches W s s'" by fastforce
qed

lemma processCommandsCallback_reaches:
  assumes "processCommandsCallback W fd p_rs s = Some s'"
  shows "reaches W s s'"
proof -
  obtain ended u where u: "processCommands_loop W p_rs s = Some (ended, u)"
    using assms by (auto simp: processCommandsCallback_def split: if_splits Option.bind_splits)
  have "reaches W u s'"
  proof (cases ended)
    case True
    then obtain v w where v: "ril_event_del s_commands_event (emit (Closed (s_fdCommand u)) u\<lparr>s_fdCommand := -1\<rparr>) = Some v"
        "rilEventAddWakeup W s_listen_event (emit (StreamFree p_rs) v) = Some w" "onCommandsSocketClosed w = Some s'"
      using assms u by (simp add: processCommandsCallback_def split: if_splits Option.bind_splits)
    have "quiet u w"
      using ril_event_del_quiet [OF v(1)] rilEventAddWakeup_quiet [OF v(2)] by (simp add: quiet_trans)
    then show ?thesis using reaches_trans [OF reaches_quiet reaches_step [OF closed [OF v(3)]]] by blast
  next
    case False
    then show ?thesis using assms u by (simp add: processCommandsCallback_def split: if_splits)
  qed
  then show ?thesis using processCommands_loop_reaches [OF u] reaches_trans by blast
qed

lemma call_timed_reaches: "call_timed W cb param s = Some s' \<Longrightarrow> reaches W s s'"
  by (auto simp: call_timed_def wakeTimeoutCallback_def releaseWakeLock_def timed_reaches
      split: timed_callback.splits if_splits)

lemma userTimerCallback_reaches:
  assumes "userTimerCallback W p_info s = Some s'"
  shows "reaches W s s'"
proof -
  obtain i u where u: "users s p_info = Some i" "call_timed W (uc_callback i) (uc_param i) s = Some u"
    using assms by (auto simp: userTimerCallback_def split: Option.bind_splits)
  then have "quiet u s'" using assms by (auto simp: userTimerCallback_def Let_def)
  then show ?thesis using reaches_trans [OF call_timed_reaches [OF u(2)] reaches_quiet] by blast
qed

lemma call_back_reaches: "call_back W f fd param s = Some s' \<Longrightarrow> reaches W s s'"
  by (cases f) (auto simp: call_back_def processCommandsCallback_reaches userTimerCallback_reaches
      dest: processWakeupCallback_quiet listenCallback_quiet)

section \<open>The event loop\<close>

lemma firePending_reaches: "firePending (call_back W) s = Some s' \<Longrightarrow> reaches W s s'"
proof -
  have loop: "firePending_loop call s ev = Some s' \<Longrightarrow> call = call_back W \<longrightarrow> reaches W s s'" for call s ev s'
  proof (erule firePending_loop.raw_induct [rotated, where P = "\<lambda>call s ev s'. call = call_back W \<longrightarrow> reaches W s s'"],
      intro impI, goal_cases)
    case (1 loop call s ev s')
    show ?case
    proof (cases "ev = pending_list")
      case False
      then obtain h f fd param u nx where u: "call_back W f fd param (s\<lparr>heap := h\<rparr>) = Some u"
          "loop call u nx = Some s'"
        using 1(2,3) by (auto split: Option.bind_splits)
      have "reaches W s (s\<lparr>heap := h\<rparr>)" by (intro reaches_quiet) simp
      moreover have "reaches W u s'" using 1(1) [OF u(2)] 1(3) by simp
      ultimately show ?thesis using call_back_reaches [OF u(1)] reaches_trans by blast
    qed (use 1(2) in simp)
  qed
  show "firePending (call_back W) s = Some s' \<Longrightarrow> reaches W s s'"
    using loop [of "call_back W"] by (auto simp: firePending_def split: Option.bind_splits)
qed

lemma turn_reaches:
  "ril_event_loop_turn (call_back W) now sel now' s = Some r \<Longrightarrow> (case r of Continue s' \<Rightarrow> reaches W s s'
    | Returned s' \<Rightarrow> reaches W s s')"
  unfolding ril_event_loop_turn_def
  by (auto split: Option.bind_splits select_result.splits if_splits
      dest!: processTimeouts_quiet processReadReadies_quiet firePending_reaches 
      intro: reaches_trans [OF reaches_quiet [OF quiet_trans]])

lemma ril_event_loop_reaches:
  "ril_event_loop (call_back W) turns s = Some r \<Longrightarrow> (case r of Continue s' \<Rightarrow> reaches W s s'
    | Returned s' \<Rightarrow> reaches W s s')"
proof (induction turns arbitrary: s)
  case (Cons t turns)
  obtain now sel now' where t: "t = (now, sel, now')" by (cases t)
  obtain q where q: "ril_event_loop_turn (call_back W) now sel now' s = Some q"
    "(case q of Continue s' \<Rightarrow> ril_event_loop (call_back W) turns s' | Returned s' \<Rightarrow> Some (Returned s')) = Some r"
    using Cons.prems t by (auto split: Option.bind_splits)
  show ?case
  proof (cases q)
    case (Continue u)
    then show ?thesis using Cons.IH [of u] q(2) turn_reaches [OF q(1)]
      by (auto split: loop_result.splits intro: reaches_trans)
  next
    case (Returned u)
    then show ?thesis using q(2) turn_reaches [OF q(1)] by auto
  qed
qed auto

end

section \<open>Vendor libraries\<close>

text \<open>
  A vendor library as far as the daemon can tell: for each call it gets, the calls it makes before it
  returns, of the functions that \<open>RIL_Init\<close> gave to it, in a choice that may depend on the state.
\<close>

datatype vendor_call =
    Complete addr RIL_Errno "resp_data option" nat
  | Unsolicited i32 "resp_data option" nat
  | RequestTimed nat addr "timeval option"

fun vendor_run ::
    "('p, 'z) world \<Rightarrow> vendor_call list \<Rightarrow> 'z ril_state_scheme \<Rightarrow> 'z ril_state_scheme option" where
  "vendor_run W [] s = Some s"
| "vendor_run W (c # cs) s = do {
     s \<leftarrow> (case c of
            Complete t e resp n \<Rightarrow> RIL_onRequestComplete W t e resp n s
          | Unsolicited num data n \<Rightarrow> RIL_onUnsolicitedResponse W num data n s
          | RequestTimed k param tv \<Rightarrow> RIL_requestTimedCallback W (VendorCallback k) param tv s);
     vendor_run W cs s
   }"

record 'z vendor =
  v_onRequest :: "i32 \<Rightarrow> req_data \<Rightarrow> nat \<Rightarrow> addr \<Rightarrow> 'z ril_state_scheme \<Rightarrow> vendor_call list"
  v_timed :: "nat \<Rightarrow> addr \<Rightarrow> 'z ril_state_scheme \<Rightarrow> vendor_call list"

text \<open>The world with this vendor library, and with an allocator that returns no address twice.\<close>

definition vendor_world :: "('p, 'z) world \<Rightarrow> 'z vendor \<Rightarrow> ('p, 'z) world" where
  "vendor_world W V = (let W = W\<lparr>w_malloc := \<lambda>k L. if L (w_malloc W k L) then NULL else w_malloc W k L\<rparr> in
     W\<lparr>w_onRequest := \<lambda>request d n a s. vendor_run W (v_onRequest V request d n a s) s,
       w_timed := \<lambda>k param s. vendor_run W (v_timed V k param s) s\<rparr>)"

text \<open>Responses do not depend on how the world handles requests.\<close>

lemma blockingWrite_loop_cong:
  fixes V W :: "('p, 'z) world"
  assumes "w_write V = w_write W"
  shows "blockingWrite_loop V fd bs off s = blockingWrite_loop W fd bs off s"
proof -
  have one: "blockingWrite_loop A fd bs off s = Some y \<Longrightarrow> w_write A = w_write B \<longrightarrow>
      blockingWrite_loop B fd bs off s = Some y" for A B :: "('p, 'z) world" and fd bs off s y
  proof (erule blockingWrite_loop.raw_induct [rotated, where P = "\<lambda>A fd bs off s y. w_write A = w_write B \<longrightarrow>
      blockingWrite_loop B fd bs off s = Some y"], intro impI, goal_cases)
    case (1 loop A fd bs off s y)
    then show ?case
      by (subst blockingWrite_loop.simps) (auto simp: sys_def Let_def split: write_result.splits if_splits)
  qed
  show ?thesis
    using one [of V fd bs off s _ W] one [of W fd bs off s _ V] assms
    by (cases "blockingWrite_loop V fd bs off s"; cases "blockingWrite_loop W fd bs off s") auto
qed

lemma sendResponse_cong:
  "w_write V = w_write W \<Longrightarrow> w_env V = w_env W \<Longrightarrow> sendResponse V p s = sendResponse W p s"
  by (simp add: sendResponse_def sendResponseRaw_def blockingWrite_def Let_def
      blockingWrite_loop_cong [of V W] cong del: if_weak_cong)

lemma RIL_onRequestComplete_cong:
  assumes "w_write V = w_write W" and "w_env V = w_env W"
  shows "RIL_onRequestComplete V t e resp n s = RIL_onRequestComplete W t e resp n s"
  unfolding RIL_onRequestComplete_def solicited_parcel_def run_env_def assms(2) sendResponse_cong [OF assms] ..

lemma complete_reaches: "RIL_onRequestComplete W t e resp n s = Some s' \<Longrightarrow> reaches W s s'"
  by (rule reaches_step) (rule complete)

lemma vendor_run_reaches:
  fixes V W :: "('p, 'z) world"
  assumes "w_write V = w_write W" and "w_env V = w_env W"
  shows "vendor_run W cs s = Some s' \<Longrightarrow> reaches V s s'"
proof (induction cs arbitrary: s)
  case (Cons c cs)
  obtain u where u: "vendor_run W [c] s = Some u" "vendor_run W cs u = Some s'"
    using Cons.prems by (auto split: Option.bind_splits)
  have "reaches V s u"
  proof (cases c)
    case (Complete t e resp n)
    then show ?thesis
      using u(1) RIL_onRequestComplete_cong [OF assms] by (auto split: Option.bind_splits intro: complete_reaches)
  next
    case (Unsolicited num data n)
    then show ?thesis using u(1) by (auto split: Option.bind_splits dest: RIL_onUnsolicitedResponse_quiet)
  next
    case (RequestTimed k param tv)
    then show ?thesis using u(1)
      by (auto simp: RIL_requestTimedCallback_def split: Option.bind_splits
          dest: internalRequestTimedCallback_quiet)
  qed
  then show ?case using Cons.IH [OF u(2)] reaches_trans by blast
qed simp

interpretation vendor: vendor_library "vendor_world W V" for W :: "('p, 'z) world" and V :: "'z vendor"
proof
  fix request d n a k param and s s' :: "'z ril_state_scheme"
  let ?W = "W\<lparr>w_malloc := \<lambda>k L. if L (w_malloc W k L) then NULL else w_malloc W k L\<rparr>"
  have same: "w_write (vendor_world W V) = w_write ?W" "w_env (vendor_world W V) = w_env ?W"
    by (simp_all add: vendor_world_def Let_def)
  show "w_onRequest (vendor_world W V) request d n a s = Some s' \<Longrightarrow> reaches (vendor_world W V) s s'"
    using vendor_run_reaches [OF same] by (simp add: vendor_world_def Let_def)
  show "w_timed (vendor_world W V) k param s = Some s' \<Longrightarrow> reaches (vendor_world W V) s s'"
    using vendor_run_reaches [OF same] by (simp add: vendor_world_def Let_def)
next
  show "malloc_ok (vendor_world W V)" by (simp add: malloc_ok_def vendor_world_def Let_def)
qed

text \<open>Whatever happens in the event loop, the pending requests are a list.\<close>

lemma event_loop_keeps_pending:
  assumes "ril_event_loop (call_back (vendor_world W V)) turns s = Some r" and "pending s R"
    and "r = Continue s' \<or> r = Returned s'"
  shows "\<exists>ops. daemon_run (vendor_world W V) s ops s' \<and> ops_ok new_request cancelled ops R \<and>
    pending s' (abs_run new_request cancelled ops R)"
proof -
  obtain ops where "daemon_run (vendor_world W V) s ops s'"
    using vendor.ril_event_loop_reaches [OF assms(1)] assms(3) by (auto simp: reaches_def)
  then show ?thesis using daemon_run_refines_store assms(2) by blast
qed

end
