(* ===== verification/Ril_Start.thy ===== *)
theory Ril_Start
  imports Ril_Connect
begin

text \<open>
  The start of the daemon: what \<open>RIL_register\<close> makes of the static state. The event loop is
  initialised with an empty watch table and empty lists, the tables of commands and of unsolicited
  responses pass their self-check, and the listening socket is watched.
\<close>

lemma ril_event_init_lists: "event_lists (heap (ril_event_init s)) [] []" "timers_sorted (heap (ril_event_init s)) []"
  by (simp_all add: ril_event_init_def init_list_def event_lists_def dll_def get_next_def get_prev_def timers_sorted_def)

lemma ril_event_init_watch:
  "watch_inv (ril_event_init s)" "NULL \<in> set (watch_table (ril_event_init s))"
  "readFds (ril_event_init s) = {}" "\<not> listLocked (ril_event_init s)"
  by (simp_all add: ril_event_init_def watch_inv_def MAX_FD_EVENTS_def)

lemma ril_event_init_heap:
  "a \<notin> {timer_list, pending_list} \<Longrightarrow> heap (ril_event_init s) a = heap s a"
  by (simp add: ril_event_init_def init_list_def)

lemma tables_ok: tables_ok
proof -
  have "of_nat i = requestNumber (s_commands ! i)" if "i < 109" for i using requestNumber_at [OF that] by simp
  moreover have "of_nat i + RIL_UNSOL_RESPONSE_BASE = unsolNumber (s_unsolResponses ! i)" if "i < 32" for i
    using map_upt_nth [OF s_unsolResponses_numbers that] by simp
  ultimately show ?thesis by (simp add: tables_ok_def)
qed

text \<open>The event of the listening socket \<open>fd\<close>, in the slot \<open>i\<close> of the table.\<close>

definition listen_event :: "int \<Rightarrow> int \<Rightarrow> ril_func ril_event" where
  "listen_event fd i = zero_event\<lparr>ev_fd := fd, ev_index := i, ev_persist := False, ev_func := Some ListenCallback,
     ev_param := NULL\<rparr>"

text \<open>The state of the daemon when the listening socket is added.\<close>

definition registered :: "int \<Rightarrow> int \<Rightarrow> 'z ril_state_scheme \<Rightarrow> 'z ril_state_scheme" where
  "registered version fd s = s\<lparr>s_version := version, s_registerCalled := True, listLocked := False, readFds := {},
     watch_table := replicate MAX_FD_EVENTS NULL, s_started := True, tick := Suc (Suc (tick s)), s_fdListen := fd,
     heap := (heap (ril_event_init s))(s_listen_event \<mapsto> listen_event fd (-1))\<rparr>"

lemma static_not_lists [simp]:
  "s_listen_event \<noteq> timer_list" "s_listen_event \<noteq> pending_list"
  by (simp_all add: s_listen_event_def timer_list_def pending_list_def)

lemma RIL_register_first:
  assumes "version = sint RIL_VERSION \<or> version = 2" and "\<not> s_registerCalled s" and "\<not> s_started s"
    and "w_thread W (tick s)" and "w_server W (Suc (tick s)) = fd" and "0 \<le> fd" and "heap s s_listen_event \<noteq> None"
  shows "RIL_register W (Some version) s = rilEventAddWakeup W s_listen_event (registered version fd s)"
  using assms tables_ok
  by (auto simp: RIL_register_def RIL_setcallbacks_def RIL_startEventLoop_def sys_def Let_def eventLoop_started_def
      event_set_def ril_event_set_def upd_event_def registered_def ril_event_init_def init_list_def listen_event_def)

lemma RIL_register_listens:
  assumes "version = sint RIL_VERSION \<or> version = 2" and "\<not> s_registerCalled s" and "\<not> s_started s"
    and "w_thread W (tick s)" and fd: "w_server W (Suc (tick s)) = fd" "fd_ok fd"
    and "heap s s_listen_event \<noteq> None" and W: "writes_progress W"
  shows "\<exists>s' ws. RIL_register W (Some version) s = Some s' \<and> s_registerCalled s' \<and> s_started s' \<and>
    s_version s' = version \<and> s_fdListen s' = fd \<and> watch_inv s' \<and> s_listen_event \<in> set (watch_table s') \<and>
    event_lists (heap s') [] [] \<and> requests s' = requests s \<and> s_pendingRequests s' = s_pendingRequests s \<and>
    trace s' = trace s @ ws \<and> writes_to (s_fdWakeupWrite s) ws"
proof -
  let ?u = "registered version fd s"
  have "watch_inv ?u"
    using ril_event_init_watch(1) [of s] by (simp add: registered_def watch_inv_def ril_event_init_def MAX_FD_EVENTS_def)
  moreover have u: "\<not> listLocked ?u" "NULL \<in> set (watch_table ?u)" "s_listen_event \<notin> set (watch_table ?u)"
      "heap ?u s_listen_event = Some (listen_event fd (-1))" "ev_fd (listen_event fd (-1)) \<notin> readFds ?u"
    by (simp_all add: registered_def ril_event_init_def MAX_FD_EVENTS_def)
  moreover have e: "ev_fd (listen_event fd (-1)) = fd" by (simp add: listen_event_def)
  ultimately obtain i n where i: "i < MAX_FD_EVENTS" "ril_event_add s_listen_event ?u = Some (?u\<lparr>
        watch_table := (watch_table ?u)[i := s_listen_event],
        heap := (heap ?u)(s_listen_event \<mapsto> (listen_event fd (-1))\<lparr>ev_index := int i\<rparr>),
        readFds := insert fd (readFds ?u), nfds := n\<rparr>)"
      "watch_inv (?u\<lparr>watch_table := (watch_table ?u)[i := s_listen_event],
        heap := (heap ?u)(s_listen_event \<mapsto> (listen_event fd (-1))\<lparr>ev_index := int i\<rparr>),
        readFds := insert fd (readFds ?u), nfds := n\<rparr>)"
    using add_result [of ?u s_listen_event "listen_event fd (-1)"] fd(2) by (auto simp: Let_def)
  let ?v = "?u\<lparr>watch_table := (watch_table ?u)[i := s_listen_event],
        heap := (heap ?u)(s_listen_event \<mapsto> (listen_event fd (-1))\<lparr>ev_index := int i\<rparr>),
        readFds := insert fd (readFds ?u), nfds := n\<rparr>"
  obtain s' ws where s': "triggerEvLoop W ?v = Some s'" "io ws ?v s'" "writes_to (s_fdWakeupWrite ?v) ws"
    using triggerEvLoop_total [OF W] by blast
  have "RIL_register W (Some version) s = Some s'"
    using RIL_register_first [OF assms(1-4) fd(1) _ assms(7)] fd(2) i(2) s'(1)
    by (simp add: fd_ok_def rilEventAddWakeup_def)
  moreover have "event_lists (heap ?u) [] []"
    using event_lists_frame [OF ril_event_init_lists(1), of s_listen_event s] by (simp add: registered_def)
  then have "event_lists (heap s') [] []"
    using event_lists_frame [of "heap ?u" "[]" "[]" s_listen_event] io_fields(1) [OF s'(2)] by simp
  moreover have "watch_inv s'" using i(3) io_fields(1-4) [OF s'(2)] by (simp add: watch_inv_def)
  moreover have "s_listen_event \<in> set (watch_table s')"
    using io_fields(2) [OF s'(2)] i(1) by (simp add: registered_def ril_event_init_def set_update_memI)
  ultimately show ?thesis
    using io_fields [OF s'(2)] s'(3) by (auto simp: registered_def ril_event_init_def)
qed

lemma RIL_register_again: "s_registerCalled s \<Longrightarrow> RIL_register W callbacks s = Some s"
  by (simp add: RIL_register_def split: option.splits)

lemma RIL_register_refused:
  "version \<noteq> sint RIL_VERSION \<Longrightarrow> version \<noteq> 2 \<Longrightarrow> RIL_register W (Some version) s = Some s"
  by (simp add: RIL_register_def)

end
