(* ===== verification/Ril_Core_Correct.thy ===== *)
theory Ril_Core_Correct
  imports Ril_Vendor Ril_Start
begin

text \<open>
  The properties of the daemon, with an instance of each in a concrete world: a byte stream for
  parcels, writes that take three bytes at a time, and an allocator that counts.
\<close>

section \<open>A concrete world\<close>

definition demo_world :: "(byte_parcel, unit) world" where
  "demo_world = \<lparr>w_env = demo_env, w_write = (\<lambda>n. Wrote 3), w_read = (\<lambda>n. ReadBytes 0),
     w_malloc = (\<lambda>n L. if L (100 + n) then NULL else 100 + n), w_now = (\<lambda>n. Timeval (int n) 0),
     w_elapsedRealtime = (\<lambda>n. of_nat n), w_accept = (\<lambda>n. 9), w_server = (\<lambda>n. 8),
     w_pipe = (\<lambda>n. Some (10, 11)), w_thread = (\<lambda>n. True), w_record = (\<lambda>p n. EndOfStream),
     w_onRequest = (\<lambda>request d n a s. Some s), w_onStateRequest = (\<lambda>n. RADIO_STATE_OFF),
     w_getVersion = None, w_timed = (\<lambda>k param s. Some s)\<rparr>"

lemma demo_world_simps [simp]:
  "w_env demo_world = demo_env" "w_write demo_world n = Wrote 3" "w_now demo_world n = Timeval (int n) 0"
  "w_malloc demo_world n L = (if L (100 + n) then NULL else 100 + n)"
  "w_accept demo_world n = 9" "w_server demo_world n = 8" "w_thread demo_world n = True"
  "w_record demo_world p n = EndOfStream" "w_onRequest demo_world request d len a s = Some s"
  by (simp_all add: demo_world_def)

text \<open>The daemon has started, and a telephony process is connected on descriptor 9.\<close>

definition demo_state :: ril_state where
  "demo_state = \<lparr>
     heap = [timer_list \<mapsto> zero_event\<lparr>ev_next := timer_list, ev_prev := timer_list, ev_fd := -1\<rparr>,
       pending_list \<mapsto> zero_event\<lparr>ev_next := pending_list, ev_prev := pending_list, ev_fd := -1\<rparr>,
       s_commands_event \<mapsto> zero_event, s_wakeupfd_event \<mapsto> zero_event, s_listen_event \<mapsto> zero_event],
     watch_table = replicate MAX_FD_EVENTS NULL, readFds = {}, nfds = 0, listLocked = False,
     s_registerCalled = True, s_version = 3, s_started = True, s_fdListen = 8, s_fdCommand = 9,
     s_fdWakeupRead = 10, s_fdWakeupWrite = 11, s_pendingRequests = NULL, requests = (\<lambda>_. None),
     s_last_wake_timeout_info = NULL, users = (\<lambda>_. None), s_lastNITZTimeData = None,
     on_dispatch = True, tick = 0, trace = []\<rparr>"

lemma demo_state_simps [simp]:
  "s_registerCalled demo_state" "s_version demo_state = 3" "s_fdCommand demo_state = 9" "s_fdListen demo_state = 8"
  "s_pendingRequests demo_state = NULL" "requests demo_state a = None" "users demo_state a = None"
  "s_last_wake_timeout_info demo_state = NULL" "s_lastNITZTimeData demo_state = None" "tick demo_state = 0"
  "trace demo_state = []" "\<not> listLocked demo_state" "on_dispatch demo_state" "readFds demo_state = {}"
  "watch_table demo_state = replicate MAX_FD_EVENTS NULL" "s_fdWakeupWrite demo_state = 11"
  "s_started demo_state"
  by (simp_all add: demo_state_def)

lemma demo_heap_none: "100 \<le> a \<Longrightarrow> heap demo_state a = None"
  by (simp add: demo_state_def timer_list_def pending_list_def s_commands_event_def s_wakeupfd_event_def
      s_listen_event_def)

lemma demo_progress: "writes_progress demo_world"
  by (auto simp: writes_progress_def)

lemma demo_memory: "has_memory demo_world demo_state"
  by (simp add: has_memory_def live_def demo_heap_none)

lemma demo_timers: "timers_ok demo_state [] []"
  by (simp add: timers_ok_def event_lists_def dll_def demo_state_def timers_sorted_def get_next_def get_prev_def
      timer_list_def pending_list_def s_commands_event_def s_wakeupfd_event_def s_listen_event_def)

lemma demo_table: "watch_inv demo_state"
  by (simp add: watch_inv_def demo_state_def MAX_FD_EVENTS_def)

lemma demo_pending: "pending demo_state []"
  by (simp add: pending_def)

text \<open>One request is pending, a \<open>RIL_REQUEST_RADIO_POWER\<close> with the token 77.\<close>

abbreviation demo_request :: RequestInfo where
  "demo_request \<equiv> new_request (77, s_commands ! 23, False)"

abbreviation demo_busy :: ril_state where
  "demo_busy \<equiv> push_request 100 77 (s_commands ! 23) False demo_state"

lemma demo_busy_pending: "pending demo_busy [(100, demo_request)]"
  using pending_push [OF demo_pending] by simp

section \<open>Requests\<close>

text \<open>C1: A well-formed command from the socket becomes a pending request at a fresh address, in front
  of the others, and then the vendor library is called with the data that the dispatch function of
  the command decodes from its payload and with the request as the token; when the payload is
  refused, the vendor library is not called and the request stays pending.\<close>

theorem command_is_dispatched:
  assumes "good_world W" and "list_all item_ok its" and "known request"
    and "dispatchFunction (command_info request) = Some f" and "fresh_addr W s \<noteq> NULL"
    and "\<And>p. holds (run_env W s) p its \<Longrightarrow> dispatch f (run_env W s) p = Some r"
  shows "processCommandBuffer W (command_bytes W request token its) s =
    (let a = fresh_addr W s; s1 = received_request a request token s
     in case r of InvalidCommandBlock \<Rightarrow> Some s1
        | OnRequest d len \<Rightarrow> onRequest W request d len a s1)"
  by (rule processCommandBuffer_received [OF assms])

lemma radio_power_command:
  "known 23" "s_commands ! 23 = command 23 DispatchInts ResponseVoid"
  by (simp_all add: s_commands_def)

lemma demo_good: "good_world demo_world"
  using demo_env_good by simp

lemma demo_fresh: "fresh_addr demo_world demo_state = 100"
  by (simp add: fresh_addr_def live_def demo_heap_none)

lemma radio_power_payload:
  "holds (run_env demo_world s) p (I32 1 # map I32 xs) \<Longrightarrow> dispatch DispatchInts (run_env demo_world s) p =
     Some (if xs = [] then InvalidCommandBlock else OnRequest (DInts (take 1 xs)) 4)"
  using dispatchInts_parcel [of "run_env demo_world s" p 1 xs] demo_good by (auto simp: fits_def)

theorem command_is_dispatched_witness:
  "processCommandBuffer demo_world (command_bytes demo_world 23 77 [I32 1, I32 0]) demo_state =
     onRequest demo_world 23 (DInts [0]) 4 100 (received_request 100 23 77 demo_state) \<and>
   processCommandBuffer demo_world (command_bytes demo_world 23 77 [I32 1]) demo_state =
     Some (received_request 100 23 77 demo_state)"
  using command_is_dispatched [OF demo_good _ radio_power_command(1), of "[I32 1, I32 0]" DispatchInts demo_state
      "OnRequest (DInts [0]) 4" 77] radio_power_payload [of demo_state _ "[0]"]
    command_is_dispatched [OF demo_good _ radio_power_command(1), of "[I32 1]" DispatchInts demo_state
      InvalidCommandBlock 77] radio_power_payload [of demo_state _ "[]"]
  by (simp add: radio_power_command demo_fresh)

text \<open>A command is ignored, without an answer, when it is too short to hold a request number and a
  token or when its number is not in the table of commands.\<close>

theorem command_is_ignored:
  assumes "holds (run_env W s) (pf_setData (env_parcel (w_env W)) buffer) its" and "ignorable its"
  shows "processCommandBuffer W buffer s = Some s"
  by (rule processCommandBuffer_ignored [OF assms])

theorem command_is_ignored_witness:
  "processCommandBuffer demo_world (command_bytes demo_world 109 77 []) demo_state = Some demo_state"
  using command_is_ignored [OF command_holds [OF demo_good, of "[]"], of 109 77 demo_state] by simp

text \<open>C2: The answer to a pending request is the frame of a parcel with the kind of response, the number
  and the token of the request, the error and the body that the response function of the request
  writes; an error of the response function replaces the error in place. The request is removed from
  the list, only this one, and freed. What reaches the socket is nothing, when it is closed or the
  parcel is too long, or the whole frame, or a proper beginning of it and the closing of the socket.\<close>

theorem response_is_sent:
  assumes "pending s R" and "map_of R t = Some d" and "\<not> ri_local d" and "\<not> ri_cancelled d"
    and "parcel_rewind (env_parcel (w_env W))" and "reply W s d e resp n its" and "writes_progress W"
  shows "\<exists>s' ret es. RIL_onRequestComplete W t e resp n s = Some s' \<and> pending s' (AList.delete t R) \<and>
    requests s' t = None \<and> completes_to es s s' \<and> delivered s (bytes_of W its) ret es"
proof -
  obtain p where "solicited_parcel W d e resp n s = Some p" "pf_data (env_parcel (w_env W)) p = bytes_of W its"
    using solicited_parcel_reply [OF assms(5,6)] by blast
  then show ?thesis using RIL_onRequestComplete_sends [OF assms(1-4) _ assms(7)] by metis
qed

lemma demo_reply:
  "reply demo_world demo_busy demo_request RIL_E_SUCCESS None 0 [I32 0, I32 23, I32 77, I32 0, I32 0, I32 0]"
  by (simp add: reply_def reply_header_def new_request_def radio_power_command s_commands_def RESPONSE_SOLICITED_def)

lemma demo_reply_bytes:
  "bytes_of demo_world [I32 0, I32 23, I32 77, I32 0, I32 0, I32 0] = concat (map le32 [0, 23, 77, 0, 0, 0])"
  by (simp add: byte_platform_def bp_write_def)

lemma demo_delivered: "length data \<le> MAX_COMMAND_BYTES \<Longrightarrow> delivered demo_state data ret es = written 9 (frame data) ret es"
  by (simp add: delivered_def)

theorem response_is_sent_witness:
  "\<exists>s' ret es. RIL_onRequestComplete demo_world 100 RIL_E_SUCCESS None 0 demo_busy = Some s' \<and> pending s' [] \<and>
    written 9 (frame (concat (map le32 [0, 23, 77, 0, 0, 0]))) ret es"
proof -
  have "delivered demo_busy = delivered demo_state" by (rule delivered_cong) (simp add: push_request_def)
  moreover have "length (concat (map le32 [0, 23, 77, 0, 0, 0])) \<le> MAX_COMMAND_BYTES"
    by (simp add: MAX_COMMAND_BYTES_def)
  ultimately show ?thesis
    using response_is_sent [OF demo_busy_pending _ _ _ _ demo_reply demo_progress, of 100]
      bytes_rewind.parcel_rewind_axioms demo_delivered
    unfolding demo_reply_bytes by (fastforce simp: new_request_def)
qed

text \<open>Completing a token that is not pending, that belongs to a request of the library itself, or that
  was cancelled because its connection ended sends nothing; the token is taken out of the list.\<close>

theorem response_is_dropped:
  assumes "pending s R" and "\<forall>d. map_of R t = Some d \<longrightarrow> ri_local d \<or> ri_cancelled d"
  shows "\<exists>s'. RIL_onRequestComplete W t e resp n s = Some s' \<and> pending s' (AList.delete t R) \<and> completes_to [] s s'"
  by (rule RIL_onRequestComplete_dropped [OF assms])

theorem response_is_dropped_witness:
  "\<exists>s'. RIL_onRequestComplete demo_world 101 RIL_E_SUCCESS None 0 demo_busy = Some s' \<and>
    pending s' [(100, demo_request)]"
  using response_is_dropped [OF demo_busy_pending, of 101 demo_world RIL_E_SUCCESS None 0] by auto

section \<open>The pending requests\<close>

text \<open>Taking a token out of the linked list refines deletion from an association list: it is found
  exactly if it is pending, the others stay in order, and no other request changes.\<close>

theorem dequeue_refines_delete:
  assumes "pending s R"
  shows "\<exists>s'. checkAndDequeueRequestInfo a s = Some (a \<in> set (map fst R), s') \<and>
    pending s' (AList.delete a R) \<and> same_requests s s'"
  by (rule checkAndDequeueRequestInfo_pending [OF assms])

theorem dequeue_refines_delete_witness:
  "\<exists>s'. checkAndDequeueRequestInfo 100 demo_busy = Some (True, s') \<and> pending s' []"
  using dequeue_refines_delete [OF demo_busy_pending, of 100] by auto

text \<open>When the connection ends every pending request is cancelled, and nothing else changes.\<close>

theorem close_cancels_pending:
  assumes "pending s R"
  shows "\<exists>rs. onCommandsSocketClosed s = Some (s\<lparr>requests := rs\<rparr>) \<and>
    pending (s\<lparr>requests := rs\<rparr>) (map (\<lambda>(x, d). (x, cancelled d)) R) \<and>
    (\<forall>x. x \<notin> set (map fst R) \<longrightarrow> rs x = requests s x)"
  by (rule onCommandsSocketClosed_pending [OF assms])

theorem close_cancels_pending_witness:
  "\<exists>s'. onCommandsSocketClosed demo_busy = Some s' \<and> pending s' [(100, cancelled demo_request)]"
  using close_cancels_pending [OF demo_busy_pending] by auto

section \<open>Runs of the daemon\<close>


text \<open>A request is received and completed, and completed once more.\<close>

lemma demo_run:
  "\<exists>s'. daemon_run demo_world demo_state [Put 100 (77, s_commands ! 23, False), Take 100, Take 100] s'"
proof -
  obtain u where u: "RIL_onRequestComplete demo_world 100 RIL_E_SUCCESS None 0 demo_busy = Some u" "pending u []"
    using RIL_onRequestComplete_sends [OF demo_busy_pending, of 100 demo_request demo_world RIL_E_SUCCESS None 0]
      solicited_parcel_reply [OF _ demo_reply] bytes_rewind.parcel_rewind_axioms demo_progress
    by (fastforce simp: new_request_def)
  have "RIL_onRequestComplete demo_world 100 RIL_E_SUCCESS None 0 u = Some u"
    by (rule RIL_onRequestComplete_missing [OF u(2)]) simp
  then show ?thesis
    using daemon_run.request_step [OF receive daemon_run.request_step [OF complete [OF u(1)]
        daemon_run.request_step [OF complete daemon_run.stop]]] by fastforce
qed




text \<open>C3: After the connection ended, a request that was pending then is never answered, whatever the
  daemon does in between, as long as its token is not used for a new request: a new connection gets
  no answer to a request of an old one.\<close>

theorem no_stale_response_sent:
  assumes "pending s R" and "onCommandsSocketClosed s = Some u" and "daemon_run W u ops v"
    and "a \<in> set (map fst R)" and "puts a ops = 0"
  shows "\<exists>s'. RIL_onRequestComplete W a e resp n v = Some s' \<and> trace s' = trace v"
  by (rule no_stale_response [OF assms])

theorem no_stale_response_sent_witness:
  "\<exists>u s'. onCommandsSocketClosed demo_busy = Some u \<and>
    RIL_onRequestComplete demo_world 100 RIL_E_SUCCESS None 0 u = Some s' \<and> trace s' = []"
proof -
  obtain rs where "onCommandsSocketClosed demo_busy = Some (demo_busy\<lparr>requests := rs\<rparr>)"
    using onCommandsSocketClosed_pending [OF demo_busy_pending] by blast
  then show ?thesis
    using no_stale_response_sent [OF demo_busy_pending _ daemon_run.stop, of _ 100]
    by (fastforce simp: push_request_def)
qed

text \<open>A second completion of a token has no effect at all, whatever the daemon does in between, as
  long as the token is not used for a new request.\<close>

theorem second_completion_ignored:
  assumes "pending s R" and "RIL_onRequestComplete W a e resp n s = Some u" and "daemon_run W u ops v"
    and "puts a ops = 0"
  shows "RIL_onRequestComplete W a e' resp' n' v = Some v"
  by (rule completed_twice [OF assms])

theorem second_completion_ignored_witness:
  "\<exists>u. RIL_onRequestComplete demo_world 100 RIL_E_SUCCESS None 0 demo_busy = Some u \<and>
    RIL_onRequestComplete demo_world 100 RIL_E_GENERIC_FAILURE None 0 u = Some u"
proof -
  obtain u where "RIL_onRequestComplete demo_world 100 RIL_E_SUCCESS None 0 demo_busy = Some u"
    using RIL_onRequestComplete_sends [OF demo_busy_pending, of 100 demo_request demo_world RIL_E_SUCCESS None 0]
      solicited_parcel_reply [OF _ demo_reply] bytes_rewind.parcel_rewind_axioms demo_progress
    by (fastforce simp: new_request_def)
  then show ?thesis using second_completion_ignored [OF demo_busy_pending _ daemon_run.stop] by fastforce
qed


definition demo_vendor :: "unit vendor" where
  "demo_vendor = \<lparr>v_onRequest = (\<lambda>request d n a s. [Complete a RIL_E_SUCCESS None 0]), v_timed = (\<lambda>k param s. [])\<rparr>"


section \<open>The socket\<close>

text \<open>C7: Whatever the sizes of the partial writes and the interruptions, \<open>blockingWrite\<close> writes the bytes in
  order and without gaps or repetition: all of them with the result 0, or a proper beginning of
  them, after which it closes the descriptor and returns \<open>-1\<close>.\<close>

theorem blockingWrite_writes_in_order:
  assumes "blockingWrite W fd bs s = Some (ret, s')"
  shows "\<exists>es. io es s s' \<and> written fd bs ret es"
  by (rule blockingWrite_written [OF assms])

lemma demo_write: "\<exists>s'. blockingWrite demo_world 9 [1, 2, 3, 4, 5] demo_state = Some (0, s')"
  unfolding blockingWrite_def by (simp add: blockingWrite_loop.simps sys_def emit_def)

theorem blockingWrite_writes_in_order_witness:
  "\<exists>es s'. blockingWrite demo_world 9 [1, 2, 3, 4, 5] demo_state = Some (0, s') \<and> wire 9 es = [1, 2, 3, 4, 5] \<and>
    trace s' = es"
proof -
  obtain s' where s': "blockingWrite demo_world 9 [1, 2, 3, 4, 5] demo_state = Some (0, s')" using demo_write by blast
  obtain es where "io es demo_state s'" "written 9 [1, 2, 3, 4, 5] 0 es"
    using blockingWrite_writes_in_order [OF s'] by blast
  then show ?thesis using s' by (auto simp: written_def io_def)
qed

text \<open>\<open>blockingWrite\<close> returns, when the descriptor does not answer with empty writes or
  interruptions only for ever.\<close>

theorem blockingWrite_returns:
  assumes "writes_progress W"
  shows "\<exists>ret s'. blockingWrite W fd bs s = Some (ret, s')"
  by (rule blockingWrite_total [OF assms])

theorem blockingWrite_returns_witness: "\<exists>ret s'. blockingWrite demo_world 9 [1, 2, 3, 4, 5] demo_state = Some (ret, s')"
  by (rule blockingWrite_returns [OF demo_progress])

section \<open>Unsolicited responses\<close>

text \<open>C8: An unsolicited response whose data is acceptable is sent at once as one frame: the kind of
  response, its number, what its response function writes, and for a change of the radio state and
  for a network time the state or the time of arrival. A network time that could not be sent is kept.
  A response that wakes the system cancels the wake timeout before it and sets its own; nothing else
  of the daemon changes.\<close>

theorem unsolicited_is_sent:
  assumes "s_registerCalled s" and "unsol_known num"
    and "respond (unsolFunction (unsol_entry num)) (run_env W s) (parcel_items W (unsol_header num)) data n =
      Some (0, parcel_items W (unsol_header num @ body))"
    and "writes_progress W" and "has_memory W s" and "timers_ok s ts ps"
  shows "\<exists>s' ret es ws. RIL_onUnsolicitedResponse W num data n s = Some s' \<and> unsol_frame s s' \<and>
    trace s' = trace s @ es @ ws \<and> delivered s (unsol_bytes W (tick s) num body) ret es \<and>
    writes_to (s_fdWakeupWrite s) ws \<and>
    s_lastNITZTimeData s' = (if ret \<noteq> 0 \<and> num = RIL_UNSOL_NITZ_TIME_RECEIVED
      then Some (unsol_bytes W (tick s) num body) else s_lastNITZTimeData s) \<and>
    (if wakeType (unsol_entry num) = WAKE_PARTIAL then wake_scheduled s s' ts ps
     else heap s' = heap s \<and> users s' = users s \<and> s_last_wake_timeout_info s' = s_last_wake_timeout_info s)"
  by (rule RIL_onUnsolicitedResponse_sends [OF assms])

lemma demo_void:
  "respond (unsolFunction (unsol_entry RIL_UNSOL_RESPONSE_RADIO_STATE_CHANGED)) (run_env demo_world s)
     (parcel_items demo_world (unsol_header RIL_UNSOL_RESPONSE_RADIO_STATE_CHANGED)) None 0 =
   Some (0, parcel_items demo_world (unsol_header RIL_UNSOL_RESPONSE_RADIO_STATE_CHANGED @ []))"
  unfolding radio_state_entry(2) by (simp add: responseVoid_def)

theorem unsolicited_is_sent_witness:
  "\<exists>s' ret es. RIL_onUnsolicitedResponse demo_world RIL_UNSOL_RESPONSE_RADIO_STATE_CHANGED None 0 demo_state = Some s' \<and>
    trace s' = es \<and> s_lastNITZTimeData s' = None \<and> s_last_wake_timeout_info s' \<noteq> NULL \<and>
    users s' (s_last_wake_timeout_info s') = Some \<lparr>uc_callback = WakeTimeoutCallback, uc_param = NULL\<rparr>"
  using unsolicited_is_sent [OF _ radio_state_entry(1) demo_void demo_progress demo_memory demo_timers]
  unfolding radio_state_entry(3) by (auto simp: wake_scheduled_def)

text \<open>Unsolicited responses keep the invariant of the wake timeout: a wake timeout that is not
  cancelled is the last one that was set, so that only one timer ever releases the wake lock.\<close>

theorem one_wake_timeout_at_a_time:
  assumes "one_wake_timeout s" and "users s NULL = None"
    and "s_registerCalled s" and "unsol_known num"
    and "respond (unsolFunction (unsol_entry num)) (run_env W s) (parcel_items W (unsol_header num)) data n =
      Some (0, parcel_items W (unsol_header num @ body))"
    and "writes_progress W" and "has_memory W s" and "timers_ok s ts ps"
    and "RIL_onUnsolicitedResponse W num data n s = Some s'"
  shows "one_wake_timeout s' \<and> users s' NULL = None"
proof (cases "wakeType (unsol_entry num) = WAKE_PARTIAL")
  case True
  have "wake_scheduled s s' ts ps"
    using RIL_onUnsolicitedResponse_sends [OF assms(3-8)] assms(9) True by auto
  then obtain a where a: "a \<noteq> NULL" "s_last_wake_timeout_info s' = a"
      "users s' = (users_cancelled s)(a \<mapsto> \<lparr>uc_callback = WakeTimeoutCallback, uc_param = NULL\<rparr>)"
    unfolding wake_scheduled_def by blast
  have l: "s_last_wake_timeout_info s \<noteq> NULL \<longrightarrow> users s (s_last_wake_timeout_info s) \<noteq> None"
    using assms(8) by (simp add: timers_ok_def)
  have "one_wake_timeout s'" by (rule schedule_keeps_one_at [OF assms(1) a(3,2) l assms(2)])
  then show ?thesis using a assms(2) by (auto simp: users_cancelled_def)
next
  case False
  have "users s' = users s \<and> s_last_wake_timeout_info s' = s_last_wake_timeout_info s"
    using RIL_onUnsolicitedResponse_sends [OF assms(3-8)] assms(9) False by auto
  then show ?thesis using assms(1,2) by (simp add: one_wake_timeout_def)
qed

theorem one_wake_timeout_at_a_time_witness:
  "\<exists>s'. RIL_onUnsolicitedResponse demo_world RIL_UNSOL_RESPONSE_RADIO_STATE_CHANGED None 0 demo_state = Some s' \<and>
    one_wake_timeout s'"
proof -
  obtain s' where s': "RIL_onUnsolicitedResponse demo_world RIL_UNSOL_RESPONSE_RADIO_STATE_CHANGED None 0 demo_state = Some s'"
    using RIL_onUnsolicitedResponse_sends [OF _ radio_state_entry(1) demo_void demo_progress demo_memory demo_timers] by auto
  have "one_wake_timeout demo_state" by (simp add: one_wake_timeout_def)
  then show ?thesis
    using one_wake_timeout_at_a_time [OF _ _ _ radio_state_entry(1) demo_void demo_progress demo_memory demo_timers s'] s'
    by simp
qed

section \<open>Connections\<close>

text \<open>A new connection is accepted when the listening socket is ready: its descriptor is watched, and
  the telephony process gets at once the state of the radio and the network time that was kept while
  nobody was connected. The pending requests and the invariants of the event loop are kept.\<close>

theorem connection_is_accepted:
  assumes "s_fdCommand s < 0" and "fd = s_fdListen s"
    and "w_accept W (tick s) = a" and "fd_ok a" and "a \<notin> readFds s"
    and "watch_inv s" and "NULL \<in> set (watch_table s)"
    and "s_commands_event \<notin> set (watch_table s)" and "heap s s_commands_event \<noteq> None"
    and "s_commands_event \<notin> set (timer_list # pending_list # ts @ ps)"
    and "s_registerCalled s" and "writes_progress W" and "has_memory W s" and "timers_ok s ts ps"
  shows "\<exists>s' p ret es ws ws' ns k j. listenCallback W fd s = Some s' \<and> s_fdCommand s' = a \<and> watch_inv s' \<and>
    s_commands_event \<in> set (watch_table s') \<and> (\<exists>ts'. timers_ok s' ts' ps) \<and>
    requests s' = requests s \<and> s_pendingRequests s' = s_pendingRequests s \<and> s_lastNITZTimeData s' = None \<and>
    trace s' = trace s @ [StreamNew p a MAX_COMMAND_BYTES] @ ws @ es @ ws' @ ns @ [PropertySet (shown_version W k)] \<and>
    writes_to (s_fdWakeupWrite s) (ws @ ws') \<and> delivered s' (connect_bytes W j) ret es \<and>
    (case s_lastNITZTimeData s of None \<Rightarrow> ns = [] | Some d \<Rightarrow> \<exists>r. delivered s' d r ns)"
  by (rule listenCallback_connects [OF assms])

definition demo_listening :: ril_state where
  "demo_listening = demo_state\<lparr>s_fdCommand := -1\<rparr>"

lemma demo_commands_event:
  "heap demo_state s_commands_event = Some zero_event" "heap demo_state s_listen_event = Some zero_event"
  "s_commands_event \<notin> set (timer_list # pending_list # [] @ [])"
  by (simp_all add: demo_state_def timer_list_def pending_list_def s_commands_event_def s_wakeupfd_event_def
      s_listen_event_def)

lemma demo_listening_ok:
  "watch_inv demo_listening" "timers_ok demo_listening [] []" "has_memory demo_world demo_listening"
  using demo_table demo_timers demo_memory has_memory_cong [of demo_listening demo_state demo_world]
  by (simp_all add: demo_listening_def watch_inv_def timers_ok_def live_def fun_eq_iff)

theorem connection_is_accepted_witness:
  "\<exists>s' p tr. listenCallback demo_world 8 demo_listening = Some s' \<and> s_fdCommand s' = 9 \<and>
    s_commands_event \<in> set (watch_table s') \<and> trace s' = [StreamNew p 9 MAX_COMMAND_BYTES] @ tr"
proof -
  note at = connection_is_accepted [of demo_listening 8 demo_world 9 "[]" "[]", OF _ _ _ _ _ demo_listening_ok(1) _ _ _
      demo_commands_event(3) _ demo_progress demo_listening_ok(3,2)]
  have "s_fdCommand demo_listening < 0" "8 = s_fdListen demo_listening" "fd_ok 9" "9 \<notin> readFds demo_listening"
    "NULL \<in> set (watch_table demo_listening)" "s_commands_event \<notin> set (watch_table demo_listening)"
    "heap demo_listening s_commands_event \<noteq> None" "s_registerCalled demo_listening" "trace demo_listening = []"
    by (simp_all add: demo_listening_def fd_ok_def MAX_FD_EVENTS_def demo_commands_event)
  then show ?thesis using at by fastforce
qed

text \<open>C9: When the stream of commands ends, the socket is closed and no longer watched, the stream is
  freed, all pending requests are cancelled, and the listening socket is watched again for the next
  connection.\<close>

theorem connection_is_ended:
  assumes "processCommands_loop W p_rs s = Some (True, u)" and "fd = s_fdCommand s"
    and "watch_inv u" and "\<not> listLocked u" and "pending u R"
    and "i < MAX_FD_EVENTS" and "watch_table u ! i = s_commands_event"
    and "can_watch u s_listen_event" and "writes_progress W"
  shows "\<exists>s' ws. processCommandsCallback W fd p_rs s = Some s' \<and> closes_to u s' \<and>
    watch_inv s' \<and> s_listen_event \<in> set (watch_table s') \<and> s_commands_event \<notin> set (watch_table s') \<and>
    pending s' (map (\<lambda>(x, d). (x, cancelled d)) R) \<and>
    trace s' = trace u @ [Closed (s_fdCommand u), StreamFree p_rs] @ ws \<and> writes_to (s_fdWakeupWrite u) ws"
  by (rule processCommandsCallback_ended [OF assms])

definition demo_connected :: ril_state where
  "demo_connected = demo_busy\<lparr>watch_table := s_commands_event # replicate 7 NULL, readFds := {9}, nfds := 10,
     heap := (heap demo_state)(s_commands_event \<mapsto> zero_event\<lparr>ev_fd := 9, ev_index := 0\<rparr>)\<rparr>"

lemma demo_connected_ok:
  "watch_inv demo_connected" "pending demo_connected [(100, demo_request)]" "can_watch demo_connected s_listen_event"
proof -
  show "pending demo_connected [(100, demo_request)]"
    using demo_busy_pending by (simp add: pending_def demo_connected_def)
  show "can_watch demo_connected s_listen_event"
    by (simp add: can_watch_def demo_connected_def fd_ok_def demo_commands_event zero_event_def)
  have table: "watch_table demo_connected ! i = (if i = 0 then s_commands_event else NULL)" if "i < MAX_FD_EVENTS" for i
    using that by (cases i) (simp_all add: demo_connected_def MAX_FD_EVENTS_def)
  have other: "length (watch_table demo_connected) = MAX_FD_EVENTS" "readFds demo_connected = {9}"
      "nfds demo_connected = 10"
      "heap demo_connected s_commands_event = Some (zero_event\<lparr>ev_fd := 9, ev_index := 0\<rparr>)" "0 < MAX_FD_EVENTS"
      "0 < s_commands_event"
    by (simp_all add: demo_connected_def MAX_FD_EVENTS_def s_commands_event_def)
  show "watch_inv demo_connected"
    unfolding watch_inv_def using table other by (auto simp: fd_of_def fd_ok_def intro!: exI [of _ "0"])
qed

theorem connection_is_ended_witness:
  "\<exists>s'. processCommandsCallback demo_world 9 50 demo_connected = Some s' \<and> s_listen_event \<in> set (watch_table s') \<and>
    pending s' [(100, cancelled demo_request)]"
proof -
  let ?u = "demo_connected\<lparr>tick := Suc (tick demo_connected)\<rparr>"
  have loop: "processCommands_loop demo_world 50 demo_connected = Some (True, ?u)"
    by (subst processCommands_loop.simps) (simp add: sys_def)
  have fields: "9 = s_fdCommand demo_connected" "\<not> listLocked ?u" "0 < MAX_FD_EVENTS"
      "watch_table ?u ! 0 = s_commands_event"
    by (simp_all add: demo_connected_def push_request_def MAX_FD_EVENTS_def)
  have ok: "watch_inv ?u" "pending ?u [(100, demo_request)]" "can_watch ?u s_listen_event"
    using demo_connected_ok by (simp_all add: watch_inv_def pending_def can_watch_def)
  have "map (\<lambda>(x, d). (x, cancelled d)) [(100 :: addr, demo_request)] = [(100, cancelled demo_request)]" by simp
  then show ?thesis
    using connection_is_ended [OF loop fields(1) ok(1) fields(2) ok(2) fields(3,4) ok(3) demo_progress] by metis
qed

section \<open>The registration\<close>

text \<open>The first call of \<open>RIL_register\<close>, with a version of the interface that it knows, passes the
  self-check of the tables, starts the event loop with empty lists and watches the listening socket;
  every further call changes nothing.\<close>

theorem register_listens:
  assumes "version = sint RIL_VERSION \<or> version = 2" and "\<not> s_registerCalled s" and "\<not> s_started s"
    and "w_thread W (tick s)" and "w_server W (Suc (tick s)) = fd" and "fd_ok fd"
    and "heap s s_listen_event \<noteq> None" and "writes_progress W"
  shows "\<exists>s' ws. RIL_register W (Some version) s = Some s' \<and> s_started s' \<and> s_version s' = version \<and>
    s_fdListen s' = fd \<and> watch_inv s' \<and> s_listen_event \<in> set (watch_table s') \<and> event_lists (heap s') [] [] \<and>
    trace s' = trace s @ ws \<and> writes_to (s_fdWakeupWrite s) ws \<and> (\<forall>again. RIL_register W again s' = Some s')"
  using RIL_register_listens [OF assms] RIL_register_again by metis

theorem register_listens_witness:
  "\<exists>s'. RIL_register demo_world (Some 3) initial_state = Some s' \<and> s_fdListen s' = 8 \<and> s_started s' \<and>
    RIL_register demo_world (Some 2) s' = Some s'"
proof -
  have "3 = sint RIL_VERSION" "heap initial_state s_listen_event \<noteq> None" "\<not> s_registerCalled initial_state"
    "\<not> s_started initial_state" by (simp_all add: RIL_VERSION_def initial_state_def s_listen_event_def)
  then show ?thesis
    using register_listens [of 3 initial_state demo_world 8, OF _ _ _ _ _ _ _ demo_progress]
    by (fastforce simp: fd_ok_def)
qed

end
