(* ===== verification/At_Tok.thy ===== *)
theory At_Tok
  imports Ril_Prelude
begin

text \<open>
  \<open>reference-ril/at_tok.c\<close> and \<open>reference-ril/misc.c\<close>: the tokenizer of the lines of an AT modem.

  A position in a line is the \<open>char *\<close> that the functions update: null, or the characters from there to
  the end of the line. The tokenizer overwrites delimiters with zeros behind the position only, so a
  token is the string up to the delimiter. Every function returns its result and the new position.
\<close>

section \<open>Characters and numbers of the C library\<close>

definition isspace :: "u8 \<Rightarrow> bool" where
  "isspace c \<longleftrightarrow> c = 32 \<or> 9 \<le> c \<and> c \<le> 13"

definition isdigit :: "u8 \<Rightarrow> bool" where
  "isdigit c \<longleftrightarrow> 48 \<le> c \<and> c \<le> 57"

text \<open>The value of a digit in a base up to 36; 36 and more for other characters.\<close>

definition digit_value :: "u8 \<Rightarrow> nat" where
  "digit_value c = (if isdigit c then unat c - 48
     else if 97 \<le> c \<and> c \<le> 122 then unat c - 87
     else if 65 \<le> c \<and> c \<le> 90 then unat c - 55
     else 36)"

definition digits_value :: "nat \<Rightarrow> u8 list \<Rightarrow> int" where
  "digits_value base ds = foldl (\<lambda>a c. a * int base + int (digit_value c)) 0 ds"

text \<open>
  What \<open>strtol\<close> and \<open>strtoul\<close> read: leading white space, a sign, for base 16 an optional \<open>0x\<close>, and digits.
  The result is the sign and the digits; no digits mean that nothing was converted.
\<close>

definition strto_digits :: "nat \<Rightarrow> u8 list \<Rightarrow> bool \<times> u8 list" where
  "strto_digits base s =
     (let s = dropWhile isspace s;
          (neg, s) = (case s of c # cs \<Rightarrow> if c = 45 then (True, cs) else if c = 43 then (False, cs) else (False, s)
                      | [] \<Rightarrow> (False, s));
          s = (case s of z # x # d # cs \<Rightarrow>
                 if base = 16 \<and> z = 48 \<and> (x = 120 \<or> x = 88) \<and> digit_value d < 16 then d # cs else s
               | _ \<Rightarrow> s)
      in (neg, takeWhile (\<lambda>c. digit_value c < base) s))"

text \<open>
  The value as a \<open>long\<close> of \<open>bits\<close> bits: \<open>strtol\<close> stops at the ends of the range; \<open>strtoul\<close> stops at
  \<open>ULONG_MAX\<close>, negates modulo the range, and its result is converted to \<open>long\<close>.
\<close>

definition strto_value :: "nat \<Rightarrow> bool \<Rightarrow> bool \<Rightarrow> int \<Rightarrow> int" where
  "strto_value bits uns neg v =
     (if uns then (if v \<ge> 2 ^ bits then -1 else if neg then - v else v)
      else if neg then max (- (2 ^ (bits - 1))) (- v)
      else min (2 ^ (bits - 1) - 1) v)"

text \<open>\<open>strsep\<close>: the token, and the position behind the delimiter, null when there is none.\<close>

definition strsep :: "u8 \<Rightarrow> cstr \<Rightarrow> cstr \<times> cstr" where
  "strsep d p = (case p of
       None \<Rightarrow> (None, None)
     | Some s \<Rightarrow> (Some (takeWhile (\<lambda>c. c \<noteq> d) s),
         case dropWhile (\<lambda>c. c \<noteq> d) s of [] \<Rightarrow> None | _ # rest \<Rightarrow> Some rest))"

section \<open>The tokenizer\<close>

definition at_tok_start :: "cstr \<Rightarrow> int \<times> cstr" where
  "at_tok_start p = (case p of
       None \<Rightarrow> (-1, None)
     | Some s \<Rightarrow> (case dropWhile (\<lambda>c. c \<noteq> 58) s of
         [] \<Rightarrow> (-1, None)
       | _ # rest \<Rightarrow> (0, Some rest)))"

definition skipWhiteSpace :: "cstr \<Rightarrow> cstr" where
  "skipWhiteSpace p = map_option (dropWhile isspace) p"

definition skipNextComma :: "cstr \<Rightarrow> cstr" where
  "skipNextComma p = map_option (\<lambda>s. case dropWhile (\<lambda>c. c \<noteq> 44) s of [] \<Rightarrow> [] | _ # rest \<Rightarrow> rest) p"

definition nextTok :: "cstr \<Rightarrow> cstr \<times> cstr" where
  "nextTok p =
     (let p = skipWhiteSpace p
      in case p of
           None \<Rightarrow> (None, p)
         | Some s \<Rightarrow>
             if s \<noteq> [] \<and> hd s = 34 then
               (let (ret, p) = strsep 34 (Some (tl s)) in (ret, skipNextComma p))
             else strsep 44 p)"

text \<open>
  The result, the integer stored through \<open>p_out\<close> if one is stored, and the position. The integer is
  stored also when the token holds none, as 0.
\<close>

definition at_tok_nextint_base :: "nat \<Rightarrow> cstr \<Rightarrow> nat \<Rightarrow> bool \<Rightarrow> int \<times> i32 option \<times> cstr" where
  "at_tok_nextint_base bits p base uns =
     (if p = None then (-1, None, p)
      else
        (let (ret, p) = nextTok p
         in case ret of
              None \<Rightarrow> (-1, None, p)
            | Some tok \<Rightarrow>
                (let (neg, ds) = strto_digits base tok;
                     l = strto_value bits uns neg (digits_value base ds)
                 in (if ds = [] then -1 else 0, Some (word_of_int l), p))))"

definition at_tok_nextint :: "nat \<Rightarrow> cstr \<Rightarrow> int \<times> i32 option \<times> cstr" where
  "at_tok_nextint bits p = at_tok_nextint_base bits p 10 False"

definition at_tok_nexthexint :: "nat \<Rightarrow> cstr \<Rightarrow> int \<times> i32 option \<times> cstr" where
  "at_tok_nexthexint bits p = at_tok_nextint_base bits p 16 True"

definition at_tok_nextbool :: "nat \<Rightarrow> cstr \<Rightarrow> int \<times> u8 option \<times> cstr" where
  "at_tok_nextbool bits p =
     (let (ret, result, p) = at_tok_nextint bits p
      in if ret < 0 then (-1, None, p)
         else case result of
                Some r \<Rightarrow> if r = 0 \<or> r = 1 then (ret, Some (ucast r), p) else (-1, None, p)
              | None \<Rightarrow> (-1, None, p))"

definition at_tok_nextstr :: "cstr \<Rightarrow> int \<times> cstr option \<times> cstr" where
  "at_tok_nextstr p =
     (if p = None then (-1, None, p)
      else (let (tok, p) = nextTok p in (0, Some tok, p)))"

definition at_tok_hasmore :: "cstr \<Rightarrow> bool" where
  "at_tok_hasmore p \<longleftrightarrow> \<not> (p = None \<or> p = Some [])"

section \<open>\<open>misc.c\<close>\<close>

fun strStartsWith :: "u8 list \<Rightarrow> u8 list \<Rightarrow> bool" where
  "strStartsWith (c # line) (d # prefix) = (if c \<noteq> d then False else strStartsWith line prefix)"
| "strStartsWith line prefix = (prefix = [])"

end
