(* ===== verification/At_Channel.thy ===== *)
theory At_Channel
  imports At_Tok
begin

text \<open>
  \<open>reference-ril/atchannel.c\<close>: the channel to an AT modem. A reader thread splits the input into lines and
  hands them to the pending command or to the handler of unsolicited responses; the command threads
  send a command and wait for its final response. \<open>s_commandmutex\<close> protects the pending command: the
  functions called with it are atomic steps, and it is released only where a command waits, so what
  the others do meanwhile is a list of events there.

  The input is what the modem has sent and nobody has read; how many bytes a \<open>read\<close> or a \<open>write\<close>
  moves is up to the world. Debug output and the power management of one phone
  (\<open>HAVE_ANDROID_OS\<close>) are left out. \<open>None\<close> says that behaviour is undefined, as before.
\<close>

section \<open>State\<close>

definition MAX_AT_RESPONSE :: nat where "MAX_AT_RESPONSE = 8 * 1024"
definition HANDSHAKE_RETRY_COUNT :: nat where "HANDSHAKE_RETRY_COUNT = 8"

definition AT_ERROR_GENERIC :: int where [simp]: "AT_ERROR_GENERIC = -1"
definition AT_ERROR_COMMAND_PENDING :: int where [simp]: "AT_ERROR_COMMAND_PENDING = -2"
definition AT_ERROR_CHANNEL_CLOSED :: int where [simp]: "AT_ERROR_CHANNEL_CLOSED = -3"
definition AT_ERROR_TIMEOUT :: int where [simp]: "AT_ERROR_TIMEOUT = -4"
definition AT_ERROR_INVALID_THREAD :: int where [simp]: "AT_ERROR_INVALID_THREAD = -5"
definition AT_ERROR_INVALID_RESPONSE :: int where [simp]: "AT_ERROR_INVALID_RESPONSE = -6"

datatype ATCommandType = NO_RESULT | NUMERIC | SINGLELINE | MULTILINE

record ATResponse =
  success :: bool
  finalResponse :: cstr
  p_intermediates :: "u8 list list"    \<comment> \<open>the lines of the linked list, from its head\<close>

text \<open>What others can see of the channel.\<close>

datatype at_effect =
    Unsolicited_line "u8 list" cstr    \<comment> \<open>a call of the handler\<close>
  | Wrote_modem "u8 list"
  | Called_onTimeout
  | Called_onReaderClosed

record at_channel =
  s_fd :: int
  s_unsolHandler :: bool               \<comment> \<open>whether there is a handler; so for the next two\<close>
  s_onTimeout :: bool
  s_onReaderClosed :: bool
  s_ATBuffer :: "u8 list"
  s_ATBufferCur :: nat
  s_type :: ATCommandType
  s_responsePrefix :: cstr
  s_smsPDU :: cstr
  sp_response :: "ATResponse option"
  s_readerClosed :: bool
  on_reader :: bool                    \<comment> \<open>the running thread is \<open>s_tid_reader\<close>\<close>
  at_input :: "u8 list"
  at_tick :: nat
  at_trace :: "at_effect list"

text \<open>At most so many bytes, or an error, \<open>EINTR\<close> or not.\<close>

datatype at_result = Moved nat | Failed bool

record at_world =
  aw_read :: "nat \<Rightarrow> at_result"
  aw_write :: "nat \<Rightarrow> at_result"

definition at_sys :: "(nat \<Rightarrow> 'a) \<Rightarrow> at_channel \<Rightarrow> 'a \<times> at_channel" where
  "at_sys f s = (f (at_tick s), s\<lparr>at_tick := Suc (at_tick s)\<rparr>)"

definition at_emit :: "at_effect \<Rightarrow> at_channel \<Rightarrow> at_channel" where
  "at_emit e s = s\<lparr>at_trace := at_trace s @ [e]\<rparr>"

section \<open>Lines and responses\<close>

definition chars :: "string \<Rightarrow> u8 list" where
  "chars s = map of_char s"

definition s_finalResponsesError :: "u8 list list" where
  "s_finalResponsesError = map chars
     [''ERROR'', ''+CMS ERROR:'', ''+CME ERROR:'', ''NO CARRIER'', ''NO ANSWER'', ''NO DIALTONE'']"

definition s_finalResponsesSuccess :: "u8 list list" where
  "s_finalResponsesSuccess = map chars [''OK'', ''CONNECT'']"

definition isFinalResponseError :: "u8 list \<Rightarrow> bool" where
  "isFinalResponseError line = list_ex (strStartsWith line) s_finalResponsesError"

definition isFinalResponseSuccess :: "u8 list \<Rightarrow> bool" where
  "isFinalResponseSuccess line = list_ex (strStartsWith line) s_finalResponsesSuccess"

definition isFinalResponse :: "u8 list \<Rightarrow> bool" where
  "isFinalResponse line \<longleftrightarrow> isFinalResponseSuccess line \<or> isFinalResponseError line"

text \<open>The loop that looks for the prefixes is under \<open>#if 0\<close>.\<close>

definition isSMSUnsolicited :: "u8 list \<Rightarrow> bool" where
  "isSMSUnsolicited line = False"

definition at_response_new :: ATResponse where
  "at_response_new = \<lparr>success = False, finalResponse = None, p_intermediates = []\<rparr>"

definition set_response :: "(ATResponse \<Rightarrow> ATResponse) \<Rightarrow> at_channel \<Rightarrow> at_channel option" where
  "set_response f s = map_option (\<lambda>r. s\<lparr>sp_response := Some (f r)\<rparr>) (sp_response s)"

definition addIntermediate :: "u8 list \<Rightarrow> at_channel \<Rightarrow> at_channel option" where
  "addIntermediate line = set_response (\<lambda>r. r\<lparr>p_intermediates := line # p_intermediates r\<rparr>)"

definition handleFinalResponse :: "u8 list \<Rightarrow> at_channel \<Rightarrow> at_channel option" where
  "handleFinalResponse line = set_response (\<lambda>r. r\<lparr>finalResponse := Some line\<rparr>)"

definition handleUnsolicited :: "u8 list \<Rightarrow> at_channel \<Rightarrow> at_channel" where
  "handleUnsolicited line s = (if s_unsolHandler s then at_emit (Unsolicited_line line None) s else s)"

text \<open>The list is turned over in place, link by link.\<close>

fun reverse_loop :: "u8 list list \<Rightarrow> u8 list list \<Rightarrow> u8 list list" where
  "reverse_loop [] done_lines = done_lines"
| "reverse_loop (pcur # pnext) done_lines = reverse_loop pnext (pcur # done_lines)"

definition reverseIntermediates :: "ATResponse \<Rightarrow> ATResponse" where
  "reverseIntermediates r = r\<lparr>p_intermediates := reverse_loop (p_intermediates r) []\<rparr>"

definition clearPendingCommand :: "at_channel \<Rightarrow> at_channel" where
  "clearPendingCommand s = s\<lparr>s_responsePrefix := None, s_smsPDU := None, sp_response := None\<rparr>"

section \<open>Writing\<close>

text \<open>The loops of \<open>writeline\<close> and \<open>writeCtrlZ\<close>: the string, and the character behind it.\<close>

partial_function (option) write_string ::
    "at_world \<Rightarrow> u8 list \<Rightarrow> nat \<Rightarrow> at_channel \<Rightarrow> (bool \<times> at_channel) option" where
  "write_string W str cur s =
     (if cur < length str then
        (let (r, s) = at_sys (aw_write W) s
         in case r of
              Moved k \<Rightarrow>
                (let n = min k (length str - cur)
                 in write_string W str (cur + n) (at_emit (Wrote_modem (take n (drop cur str))) s))
            | Failed eintr \<Rightarrow> if eintr then write_string W str cur s else Some (False, s))
      else Some (True, s))"

partial_function (option) write_char ::
    "at_world \<Rightarrow> u8 \<Rightarrow> at_channel \<Rightarrow> (bool \<times> at_channel) option" where
  "write_char W c s =
     (let (r, s) = at_sys (aw_write W) s
      in case r of
           Moved k \<Rightarrow> if k = 0 then write_char W c s else Some (True, at_emit (Wrote_modem [c]) s)
         | Failed eintr \<Rightarrow> if eintr then write_char W c s else Some (False, s))"

definition write_terminated ::
    "at_world \<Rightarrow> u8 \<Rightarrow> u8 list \<Rightarrow> at_channel \<Rightarrow> (int \<times> at_channel) option" where
  "write_terminated W c str s =
     (if s_fd s < 0 \<or> s_readerClosed s then Some (AT_ERROR_CHANNEL_CLOSED, s)
      else do {
        (ok, s) \<leftarrow> write_string W str 0 s;
        if \<not> ok then Some (AT_ERROR_GENERIC, s)
        else do {
          (ok, s) \<leftarrow> write_char W c s;
          Some (if ok then 0 else AT_ERROR_GENERIC, s) } })"

definition writeline :: "at_world \<Rightarrow> u8 list \<Rightarrow> at_channel \<Rightarrow> (int \<times> at_channel) option" where
  "writeline W str s = write_terminated W 13 str s"

definition writeCtrlZ :: "at_world \<Rightarrow> u8 list \<Rightarrow> at_channel \<Rightarrow> (int \<times> at_channel) option" where
  "writeCtrlZ W str s = write_terminated W 26 str s"

section \<open>Input\<close>

text \<open>The prompt for the text of a short message, which ends no line.\<close>

definition sms_prompt :: "u8 list" where "sms_prompt = [62, 32]"

definition processLine :: "at_world \<Rightarrow> u8 list \<Rightarrow> at_channel \<Rightarrow> at_channel option" where
  "processLine W line s =
     (case sp_response s of
        None \<Rightarrow> Some (handleUnsolicited line s)
      | Some resp \<Rightarrow>
          if isFinalResponseSuccess line then do {
            s \<leftarrow> set_response (\<lambda>r. r\<lparr>success := True\<rparr>) s;
            handleFinalResponse line s }
          else if isFinalResponseError line then do {
            s \<leftarrow> set_response (\<lambda>r. r\<lparr>success := False\<rparr>) s;
            handleFinalResponse line s }
          else if s_smsPDU s \<noteq> None \<and> line = sms_prompt then do {
            (err, s) \<leftarrow> writeCtrlZ W (the (s_smsPDU s)) s;
            Some (s\<lparr>s_smsPDU := None\<rparr>) }
          else (case s_type s of
              NO_RESULT \<Rightarrow> Some (handleUnsolicited line s)
            | NUMERIC \<Rightarrow>
                if p_intermediates resp = [] \<and> line \<noteq> [] \<and> isdigit (hd line) then addIntermediate line s
                else Some (handleUnsolicited line s)
            | SINGLELINE \<Rightarrow>
                if p_intermediates resp = [] then do {
                  prefix \<leftarrow> s_responsePrefix s;
                  if strStartsWith line prefix then addIntermediate line s
                  else Some (handleUnsolicited line s) }
                else Some (handleUnsolicited line s)
            | MULTILINE \<Rightarrow> do {
                prefix \<leftarrow> s_responsePrefix s;
                if strStartsWith line prefix then addIntermediate line s
                else Some (handleUnsolicited line s) }))"

text \<open>
  \<open>findNextEOL\<close>: \<open>Some None\<close> is the null pointer. Characters outside the buffer cannot be read.
\<close>

definition is_eol :: "u8 \<Rightarrow> bool" where "is_eol c \<longleftrightarrow> c = 13 \<or> c = 10"

text \<open>The first position from \<open>cur\<close> on whose character does not satisfy \<open>P\<close>.\<close>

partial_function (option) scan :: "(u8 \<Rightarrow> bool) \<Rightarrow> u8 list \<Rightarrow> nat \<Rightarrow> nat option" where
  "scan P buf cur = do {
     c \<leftarrow> aget buf cur;
     if P c then scan P buf (Suc cur) else Some cur }"

definition skip_newlines :: "u8 list \<Rightarrow> nat \<Rightarrow> nat option" where
  "skip_newlines = scan is_eol"

definition at_prompt :: "u8 list \<Rightarrow> nat \<Rightarrow> bool option" where
  "at_prompt buf cur = do {
     c0 \<leftarrow> aget buf cur;
     if c0 \<noteq> 62 then Some False
     else do {
       c1 \<leftarrow> aget buf (cur + 1);
       if c1 \<noteq> 32 then Some False
       else do { c2 \<leftarrow> aget buf (cur + 2); Some (c2 = 0) } } }"

definition findNextEOL :: "u8 list \<Rightarrow> nat \<Rightarrow> nat option option" where
  "findNextEOL buf cur = do {
     prompt \<leftarrow> at_prompt buf cur;
     if prompt then Some (Some (cur + 2))
     else do {
       cur \<leftarrow> scan (\<lambda>c. c \<noteq> 0 \<and> \<not> is_eol c) buf cur;
       c \<leftarrow> aget buf cur;
       Some (if c = 0 then None else Some cur) } }"

text \<open>\<open>memmove\<close> inside the buffer, and the bytes that \<open>read\<close> stores.\<close>

definition buf_copy :: "u8 list \<Rightarrow> nat \<Rightarrow> u8 list \<Rightarrow> u8 list option" where
  "buf_copy buf pos bs =
     (if pos + length bs \<le> length buf then Some (take pos buf @ bs @ drop (pos + length bs) buf) else None)"

text \<open>
  The loop of \<open>readline\<close>, with \<open>p_read\<close> as an index. The bytes read are taken from the input; at most
  as many as fit behind \<open>p_read\<close>.
\<close>

partial_function (option) readline_loop ::
    "at_world \<Rightarrow> nat \<Rightarrow> nat option \<Rightarrow> at_channel \<Rightarrow> (nat option \<times> at_channel) option" where
  "readline_loop W p_read p_eol s =
     (case p_eol of
        Some e \<Rightarrow> Some (Some e, s)
      | None \<Rightarrow> do {
          (p_read, s) \<leftarrow>
            (if MAX_AT_RESPONSE - p_read = 0 then
               map_option (\<lambda>buf. (0, s\<lparr>s_ATBuffer := buf, s_ATBufferCur := 0\<rparr>)) (aput (s_ATBuffer s) 0 0)
             else Some (p_read, s));
          let (r, s) = at_sys (aw_read W) s;
          case r of
            Failed eintr \<Rightarrow> if eintr then readline_loop W p_read None s else Some (None, s)
          | Moved k \<Rightarrow>
              (let bs = take (min k (MAX_AT_RESPONSE - p_read)) (at_input s)
               in if bs = [] then Some (None, s)
                  else do {
                    buf \<leftarrow> buf_copy (s_ATBuffer s) p_read bs;
                    buf \<leftarrow> aput buf (p_read + length bs) 0;
                    cur \<leftarrow> skip_newlines buf (s_ATBufferCur s);
                    e \<leftarrow> findNextEOL buf cur;
                    readline_loop W (p_read + length bs) e
                      (s\<lparr>s_ATBuffer := buf, s_ATBufferCur := cur, at_input := drop (length bs) (at_input s)\<rparr>) }) })"

text \<open>\<open>None\<close> inside is the end of the input.\<close>

definition readline :: "at_world \<Rightarrow> at_channel \<Rightarrow> (u8 list option \<times> at_channel) option" where
  "readline W s = do {
     c \<leftarrow> aget (s_ATBuffer s) (s_ATBufferCur s);
     (p_read, p_eol, s) \<leftarrow>
       (if c = 0 then
          map_option (\<lambda>buf. (0, None, s\<lparr>s_ATBuffer := buf, s_ATBufferCur := 0\<rparr>)) (aput (s_ATBuffer s) 0 0)
        else do {
          cur \<leftarrow> skip_newlines (s_ATBuffer s) (s_ATBufferCur s);
          e \<leftarrow> findNextEOL (s_ATBuffer s) cur;
          case e of
            Some e \<Rightarrow> Some (0, Some e, s\<lparr>s_ATBufferCur := cur\<rparr>)
          | None \<Rightarrow> do {
              end_cur \<leftarrow> scan (\<lambda>c. c \<noteq> 0) (s_ATBuffer s) cur;
              let len = end_cur - cur;
              buf \<leftarrow> buf_copy (s_ATBuffer s) 0 (take (len + 1) (drop cur (s_ATBuffer s)));
              Some (len, None, s\<lparr>s_ATBuffer := buf, s_ATBufferCur := 0\<rparr>) } });
     (p_eol, s) \<leftarrow> readline_loop W p_read p_eol s;
     case p_eol of
       None \<Rightarrow> Some (None, s)
     | Some e \<Rightarrow> do {
         let ret = takeWhile (\<lambda>c. c \<noteq> 0) (take (e - s_ATBufferCur s) (drop (s_ATBufferCur s) (s_ATBuffer s)));
         buf \<leftarrow> aput (s_ATBuffer s) e 0;
         Some (Some ret, s\<lparr>s_ATBuffer := buf, s_ATBufferCur := e + 1\<rparr>) } }"

definition onReaderClosed :: "at_channel \<Rightarrow> at_channel" where
  "onReaderClosed s =
     (if s_onReaderClosed s \<and> \<not> s_readerClosed s
      then at_emit Called_onReaderClosed (s\<lparr>s_readerClosed := True\<rparr>) else s)"

partial_function (option) readerLoop :: "at_world \<Rightarrow> at_channel \<Rightarrow> at_channel option" where
  "readerLoop W s = do {
     (line, s) \<leftarrow> readline W s;
     case line of
       None \<Rightarrow> Some (onReaderClosed s)
     | Some line \<Rightarrow>
         if isSMSUnsolicited line then do {
           (line2, s) \<leftarrow> readline W s;
           case line2 of
             None \<Rightarrow> Some (onReaderClosed s)
           | Some line2 \<Rightarrow>
               readerLoop W (if s_unsolHandler s then at_emit (Unsolicited_line line (Some line2)) s else s) }
         else do {
           s \<leftarrow> processLine W line s;
           readerLoop W s } }"

end
