(* ===== verification/At_Command.thy ===== *)
theory At_Command
  imports At_Channel
begin

text \<open>
  Commands on the channel of \<open>At_Channel\<close>, the second half of \<open>reference-ril/atchannel.c\<close>. While a
  command waits for its final response it does not hold \<open>s_commandmutex\<close>; what other threads do then,
  and when the waiting thread runs again, is a list of events.
\<close>

section \<open>Opening and closing\<close>

text \<open>
  \<open>thread\<close> is what \<open>pthread_create\<close> returns: 0, or a positive number for an error, which the code, that
  looks for a negative one, does not notice.
\<close>

definition at_open :: "(nat \<Rightarrow> int) \<Rightarrow> int \<Rightarrow> bool \<Rightarrow> at_channel \<Rightarrow> int \<times> at_channel" where
  "at_open thread fd h s =
     (let s = s\<lparr>s_fd := fd, s_unsolHandler := h, s_readerClosed := False, s_responsePrefix := None,
            s_smsPDU := None, sp_response := None\<rparr>;
          (ret, s) = at_sys thread s
      in (if ret < 0 then -1 else 0, s))"

definition at_close :: "at_channel \<Rightarrow> at_channel" where
  "at_close s = s\<lparr>s_fd := -1, s_readerClosed := True\<rparr>"

definition at_set_on_timeout :: "bool \<Rightarrow> at_channel \<Rightarrow> at_channel" where
  "at_set_on_timeout f s = s\<lparr>s_onTimeout := f\<rparr>"

definition at_set_on_reader_closed :: "bool \<Rightarrow> at_channel \<Rightarrow> at_channel" where
  "at_set_on_reader_closed f s = s\<lparr>s_onReaderClosed := f\<rparr>"

section \<open>Waiting\<close>

text \<open>
  \<open>Other_command\<close> is another thread that enters \<open>at_send_command_full_nolock\<close> while this one waits.
  \<open>Wake\<close> lets the waiting thread run; \<open>Expire\<close> lets it run because its time is over.
\<close>

datatype at_event =
    Reader_line "u8 list"
  | Reader_end
  | Channel_close
  | Other_command "u8 list"
  | Wake
  | Expire

datatype at_outcome =
    Still_waiting at_channel
  | Done int "ATResponse option" "at_event list" at_channel

text \<open>
  The part of \<open>at_send_command_full_nolock\<close> before it waits: an error, or 0 with the command pending.
\<close>

definition send_begin ::
    "at_world \<Rightarrow> u8 list \<Rightarrow> ATCommandType \<Rightarrow> cstr \<Rightarrow> cstr \<Rightarrow> at_channel \<Rightarrow> (int \<times> at_channel) option" where
  "send_begin W command type responsePrefix smspdu s =
     (if sp_response s \<noteq> None then Some (AT_ERROR_COMMAND_PENDING, clearPendingCommand s)
      else do {
        (err, s) \<leftarrow> writeline W command s;
        if err < 0 then Some (err, clearPendingCommand s)
        else Some (0, s\<lparr>s_type := type, s_responsePrefix := responsePrefix, s_smsPDU := smspdu,
               sp_response := Some at_response_new\<rparr>) })"

text \<open>The condition of the loop dereferences \<open>sp_response\<close>.\<close>

definition send_waits :: "at_channel \<Rightarrow> bool option" where
  "send_waits s = do {
     resp \<leftarrow> sp_response s;
     Some (finalResponse resp = None \<and> \<not> s_readerClosed s) }"

text \<open>What the other threads do. Another command is refused here, since one is pending.\<close>

definition at_other :: "at_world \<Rightarrow> at_event \<Rightarrow> at_channel \<Rightarrow> at_channel option" where
  "at_other W e s = (case e of
       Reader_line line \<Rightarrow> processLine W line s
     | Reader_end \<Rightarrow> Some (onReaderClosed s)
     | Channel_close \<Rightarrow> Some (at_close s)
     | Other_command command \<Rightarrow> map_option snd (send_begin W command NO_RESULT None None s)
     | _ \<Rightarrow> Some s)"

text \<open>The part after the loop, and the label \<open>error\<close>.\<close>

definition send_end :: "bool \<Rightarrow> at_event list \<Rightarrow> at_channel \<Rightarrow> at_outcome option" where
  "send_end wanted es s = do {
     resp \<leftarrow> sp_response s;
     Some (Done (if s_readerClosed s then AT_ERROR_CHANNEL_CLOSED else 0)
       (if wanted then Some (reverseIntermediates resp) else None) es (clearPendingCommand s)) }"

fun send_sleep :: "at_world \<Rightarrow> bool \<Rightarrow> bool \<Rightarrow> at_event list \<Rightarrow> at_channel \<Rightarrow> at_outcome option" where
  "send_sleep W timed wanted [] s = Some (Still_waiting s)"
| "send_sleep W timed wanted (e # es) s =
     (if e = Wake then do {
        again \<leftarrow> send_waits s;
        if again then send_sleep W timed wanted es s else send_end wanted es s }
      else if e = Expire \<and> timed then Some (Done AT_ERROR_TIMEOUT None es (clearPendingCommand s))
      else do {
        s \<leftarrow> at_other W e s;
        send_sleep W timed wanted es s })"

definition at_send_command_full_nolock ::
    "at_world \<Rightarrow> u8 list \<Rightarrow> ATCommandType \<Rightarrow> cstr \<Rightarrow> cstr \<Rightarrow> bool \<Rightarrow> bool \<Rightarrow> at_event list \<Rightarrow> at_channel \<Rightarrow>
     at_outcome option" where
  "at_send_command_full_nolock W command type responsePrefix smspdu timed wanted es s = do {
     (err, s) \<leftarrow> send_begin W command type responsePrefix smspdu s;
     if err < 0 then Some (Done err None es s)
     else do {
       again \<leftarrow> send_waits s;
       if again then send_sleep W timed wanted es s else send_end wanted es s } }"

definition at_send_command_full ::
    "at_world \<Rightarrow> u8 list \<Rightarrow> ATCommandType \<Rightarrow> cstr \<Rightarrow> cstr \<Rightarrow> bool \<Rightarrow> bool \<Rightarrow> at_event list \<Rightarrow> at_channel \<Rightarrow>
     at_outcome option" where
  "at_send_command_full W command type responsePrefix smspdu timed wanted es s =
     (if on_reader s then Some (Done AT_ERROR_INVALID_THREAD None es s)
      else map_option (\<lambda>out. case out of
           Done err resp es s \<Rightarrow>
             Done err resp es (if err = AT_ERROR_TIMEOUT \<and> s_onTimeout s then at_emit Called_onTimeout s else s)
         | Still_waiting s \<Rightarrow> Still_waiting s)
        (at_send_command_full_nolock W command type responsePrefix smspdu timed wanted es s))"

section \<open>The commands\<close>

text \<open>A successful command that must have an intermediate response and has none becomes an error.\<close>

definition need_intermediate :: "at_outcome \<Rightarrow> at_outcome" where
  "need_intermediate out = (case out of
       Done err (Some resp) es s \<Rightarrow>
         if err = 0 \<and> success resp \<and> p_intermediates resp = [] then Done AT_ERROR_INVALID_RESPONSE None es s else out
     | _ \<Rightarrow> out)"

definition at_send_command :: "at_world \<Rightarrow> u8 list \<Rightarrow> bool \<Rightarrow> at_event list \<Rightarrow> at_channel \<Rightarrow> at_outcome option" where
  "at_send_command W command wanted = at_send_command_full W command NO_RESULT None None False wanted"

definition at_send_command_singleline ::
    "at_world \<Rightarrow> u8 list \<Rightarrow> u8 list \<Rightarrow> bool \<Rightarrow> at_event list \<Rightarrow> at_channel \<Rightarrow> at_outcome option" where
  "at_send_command_singleline W command responsePrefix wanted es s = map_option need_intermediate
     (at_send_command_full W command SINGLELINE (Some responsePrefix) None False wanted es s)"

definition at_send_command_numeric ::
    "at_world \<Rightarrow> u8 list \<Rightarrow> bool \<Rightarrow> at_event list \<Rightarrow> at_channel \<Rightarrow> at_outcome option" where
  "at_send_command_numeric W command wanted es s = map_option need_intermediate
     (at_send_command_full W command NUMERIC None None False wanted es s)"

definition at_send_command_sms ::
    "at_world \<Rightarrow> u8 list \<Rightarrow> u8 list \<Rightarrow> u8 list \<Rightarrow> bool \<Rightarrow> at_event list \<Rightarrow> at_channel \<Rightarrow> at_outcome option" where
  "at_send_command_sms W command pdu responsePrefix wanted es s = map_option need_intermediate
     (at_send_command_full W command SINGLELINE (Some responsePrefix) (Some pdu) False wanted es s)"

definition at_send_command_multiline ::
    "at_world \<Rightarrow> u8 list \<Rightarrow> u8 list \<Rightarrow> bool \<Rightarrow> at_event list \<Rightarrow> at_channel \<Rightarrow> at_outcome option" where
  "at_send_command_multiline W command responsePrefix wanted =
     at_send_command_full W command MULTILINE (Some responsePrefix) None False wanted"

text \<open>The attempts of \<open>at_handshake\<close>, each with a timeout.\<close>

fun handshake_loop :: "at_world \<Rightarrow> nat \<Rightarrow> int \<Rightarrow> at_event list \<Rightarrow> at_channel \<Rightarrow> at_outcome option" where
  "handshake_loop W 0 err es s = Some (Done err None es s)"
| "handshake_loop W (Suc n) err es s = do {
     out \<leftarrow> at_send_command_full_nolock W (chars ''ATE0Q0V1'') NO_RESULT None None True False es s;
     case out of
       Done err resp es s \<Rightarrow> if err = 0 then Some (Done 0 None es s) else handshake_loop W n err es s
     | Still_waiting s \<Rightarrow> Some (Still_waiting s) }"

definition at_handshake :: "at_world \<Rightarrow> at_event list \<Rightarrow> at_channel \<Rightarrow> at_outcome option" where
  "at_handshake W es s =
     (if on_reader s then Some (Done AT_ERROR_INVALID_THREAD None es s)
      else handshake_loop W HANDSHAKE_RETRY_COUNT 0 es s)"

definition CME_ERROR_NON_CME :: i32 where "CME_ERROR_NON_CME = -1"
definition CME_SUCCESS :: i32 where "CME_SUCCESS = 0"

definition at_get_cme_error :: "nat \<Rightarrow> ATResponse \<Rightarrow> i32" where
  "at_get_cme_error bits p_response =
     (if success p_response then CME_SUCCESS
      else case finalResponse p_response of
        None \<Rightarrow> CME_ERROR_NON_CME
      | Some line \<Rightarrow>
          if \<not> strStartsWith line (chars ''+CME ERROR:'') then CME_ERROR_NON_CME
          else (let (err, p_cur) = at_tok_start (Some line)
                in if err < 0 then CME_ERROR_NON_CME
                   else (let (err, ret, p_cur) = at_tok_nextint bits p_cur
                         in if err < 0 then CME_ERROR_NON_CME
                            else case ret of Some r \<Rightarrow> r | None \<Rightarrow> CME_ERROR_NON_CME)))"

end
