(* ===== verification/At_Reader.thy ===== *)
theory At_Reader
  imports At_Command "HOL-Library.Sublist"
begin

text \<open>
  The reader of the AT channel splits its input into lines: however the bytes arrive, the lines are
  those of a reference definition on the whole text. What the buffer holds is the text between
  \<open>s_ATBufferCur\<close> and the next zero.
\<close>

section \<open>Texts and lines\<close>

text \<open>The first complete line of a text that is not empty, and the text behind it.\<close>

definition first_line :: "u8 list \<Rightarrow> (u8 list \<times> u8 list) option" where
  "first_line t = (let t = dropWhile is_eol t in
     case dropWhile (\<lambda>c. \<not> is_eol c) t of
       [] \<Rightarrow> None
     | _ # rest \<Rightarrow> Some (takeWhile (\<lambda>c. \<not> is_eol c) t, rest))"

lemma first_line_split:
  assumes "first_line t = Some (l, rest)"
  shows "\<exists>nl c. t = nl @ l @ c # rest \<and> nl = takeWhile is_eol t \<and> is_eol c \<and> (\<forall>x \<in> set l. \<not> is_eol x) \<and>
    dropWhile is_eol t = l @ c # rest"
proof -
  let ?t = "dropWhile is_eol t"
  obtain c where c: "dropWhile (\<lambda>c. \<not> is_eol c) ?t = c # rest" "l = takeWhile (\<lambda>c. \<not> is_eol c) ?t"
    using assms by (auto simp: first_line_def Let_def split: list.splits)
  have "is_eol c" using c(1) hd_dropWhile [of "\<lambda>c. \<not> is_eol c" ?t] by simp
  moreover have "?t = l @ c # rest" using c takeWhile_dropWhile_id [of "\<lambda>c. \<not> is_eol c" ?t] by simp
  moreover have "t = takeWhile is_eol t @ ?t" by simp
  moreover have "\<forall>x \<in> set l. \<not> is_eol x" using c(2) by (auto dest: set_takeWhileD)
  ultimately show ?thesis by metis
qed

lemma first_line_shorter:
  assumes "first_line t = Some (l, rest)"
  shows "length rest < length t"
proof -
  obtain c where "dropWhile is_eol t = l @ c # rest" using first_line_split [OF assms] by blast
  then have "length rest < length (dropWhile is_eol t)" by simp
  then show ?thesis using length_dropWhile_le [of is_eol t] by simp
qed

lemma first_line_skip: "\<forall>x \<in> set nl. is_eol x \<Longrightarrow> first_line (nl @ t) = first_line t"
  by (simp add: first_line_def dropWhile_append2)

function lines_of :: "u8 list \<Rightarrow> u8 list list" where
  "lines_of t = (case first_line t of None \<Rightarrow> [] | Some (l, rest) \<Rightarrow> l # lines_of rest)"
  by auto
termination by (relation "measure length") (auto dest: first_line_shorter)

declare lines_of.simps [simp del]

text \<open>
  Texts that the reader can take apart: no zeros; no line that starts like the prompt for a short
  message; and no line, with the line ends before it, that fills the buffer.
\<close>

definition line_start_ok :: "u8 list \<Rightarrow> bool" where
  "line_start_ok t \<longleftrightarrow> \<not> prefix sms_prompt (dropWhile is_eol t) \<and>
     length (takeWhile is_eol t) + length (takeWhile (\<lambda>c. \<not> is_eol c) (dropWhile is_eol t)) < MAX_AT_RESPONSE"

function readable :: "u8 list \<Rightarrow> bool" where
  "readable t \<longleftrightarrow> 0 \<notin> set t \<and> line_start_ok t \<and>
     (case first_line t of None \<Rightarrow> True | Some (l, rest) \<Rightarrow> readable rest)"
  by auto
termination by (relation "measure length") (auto dest: first_line_shorter)

declare readable.simps [simp del]

section \<open>The buffer\<close>

definition text_at :: "u8 list \<Rightarrow> nat \<Rightarrow> u8 list \<Rightarrow> bool" where
  "text_at buf cur u \<longleftrightarrow> length buf = MAX_AT_RESPONSE + 1 \<and> 0 \<notin> set u \<and> (\<exists>junk. drop cur buf = u @ 0 # junk)"

lemma text_at_bound: "text_at buf cur u \<Longrightarrow> cur + length u \<le> MAX_AT_RESPONSE"
proof -
  assume t: "text_at buf cur u"
  then obtain junk where "drop cur buf = u @ 0 # junk" by (auto simp: text_at_def)
  then have "length (drop cur buf) = length u + 1 + length junk" by simp
  then show ?thesis using t by (simp add: text_at_def)
qed

lemma text_at_drop:
  assumes "text_at buf cur u" and "n \<le> length u"
  shows "text_at buf (cur + n) (drop n u)"
proof -
  obtain junk where "drop cur buf = u @ 0 # junk" using assms(1) by (auto simp: text_at_def)
  moreover have "drop (cur + n) buf = drop n (drop cur buf)" by (simp add: add.commute)
  ultimately have "drop (cur + n) buf = drop n u @ 0 # junk" using assms(2) by simp
  then show ?thesis using assms(1) by (auto simp: text_at_def dest: in_set_dropD)
qed

lemma text_at_nth:
  assumes "text_at buf cur u" and "n \<le> length u"
  shows "aget buf (cur + n) = Some ((u @ [0]) ! n)"
proof -
  obtain junk where j: "drop cur buf = u @ 0 # junk" using assms(1) by (auto simp: text_at_def)
  have "cur + n < length buf" using text_at_bound [OF assms(1)] assms by (simp add: text_at_def)
  moreover have "buf ! (cur + n) = (drop cur buf) ! n" using calculation by simp
  moreover have "(drop cur buf) ! n = (u @ [0]) ! n" using j assms(2) by (auto simp: nth_append)
  ultimately show ?thesis by (simp add: aget_def)
qed

lemma scan_text:
  assumes "text_at buf cur u" and "\<not> P 0"
  shows "scan P buf cur = Some (cur + length (takeWhile P u))"
  using assms(1)
proof (induction u arbitrary: cur)
  case Nil
  then show ?case using text_at_nth [OF Nil, of 0] assms(2) by (subst scan.simps) simp
next
  case (Cons c u)
  have "aget buf cur = Some c" using text_at_nth [OF Cons.prems, of 0] by simp
  moreover have "text_at buf (Suc cur) u" using text_at_drop [OF Cons.prems, of 1] by simp
  ultimately show ?case using Cons.IH by (subst scan.simps) simp
qed

lemma skip_newlines_text:
  assumes "text_at buf cur u"
  shows "skip_newlines buf cur = Some (cur + length (takeWhile is_eol u))"
    "text_at buf (cur + length (takeWhile is_eol u)) (dropWhile is_eol u)"
  using scan_text [OF assms, of is_eol] text_at_drop [OF assms, of "length (takeWhile is_eol u)"]
  by (simp_all add: skip_newlines_def is_eol_def length_takeWhile_le dropWhile_eq_drop)

lemma at_prompt_text:
  assumes "text_at buf cur u"
  shows "at_prompt buf cur = Some (u = sms_prompt)"
proof -
  note at = text_at_nth [OF assms]
  show ?thesis
  proof (cases u)
    case Nil
    then show ?thesis using at [of 0] by (simp add: at_prompt_def sms_prompt_def)
  next
    case (Cons a v)
    then have v: "a \<noteq> 0" "0 \<notin> set v" using assms by (auto simp: text_at_def)
    show ?thesis
    proof (cases v)
      case Nil
      then show ?thesis using at [of 0] at [of 1] Cons by (simp add: at_prompt_def sms_prompt_def)
    next
      case (Cons b w)
      then show ?thesis using at [of 0] at [of 1] at [of 2] \<open>u = a # v\<close> v
        by (cases w) (simp_all add: at_prompt_def sms_prompt_def)
    qed
  qed
qed

lemma findNextEOL_text:
  assumes "text_at buf cur u" and "u \<noteq> sms_prompt"
  shows "findNextEOL buf cur =
    Some (if dropWhile (\<lambda>c. \<not> is_eol c) u = [] then None else Some (cur + length (takeWhile (\<lambda>c. \<not> is_eol c) u)))"
proof -
  let ?n = "length (takeWhile (\<lambda>c. \<not> is_eol c) u)"
  have "0 \<notin> set u" using assms(1) by (simp add: text_at_def)
  then have "takeWhile (\<lambda>c. c \<noteq> 0 \<and> \<not> is_eol c) u = takeWhile (\<lambda>c. \<not> is_eol c) u"
    by (intro takeWhile_cong) auto
  then have "scan (\<lambda>c. c \<noteq> 0 \<and> \<not> is_eol c) buf cur = Some (cur + ?n)"
    using scan_text [OF assms(1), of "\<lambda>c. c \<noteq> 0 \<and> \<not> is_eol c"] by simp
  moreover have "aget buf (cur + ?n) = Some ((u @ [0]) ! ?n)"
    by (rule text_at_nth [OF assms(1)]) (rule length_takeWhile_le)
  moreover have "(u @ [0]) ! ?n = 0 \<longleftrightarrow> dropWhile (\<lambda>c. \<not> is_eol c) u = []"
  proof (cases "dropWhile (\<lambda>c. \<not> is_eol c) u")
    case Nil
    then have "takeWhile (\<lambda>c. \<not> is_eol c) u = u" by (metis append_Nil2 takeWhile_dropWhile_id)
    then have "(u @ [0]) ! ?n = 0" by (simp only: nth_append_length)
    then show ?thesis using Nil by simp
  next
    case (Cons c rest)
    have "u = takeWhile (\<lambda>c. \<not> is_eol c) u @ c # rest" using Cons by (metis takeWhile_dropWhile_id)
    then have "u ! ?n = c" "?n < length u" by (metis nth_append_length, metis length_append_singleton add_Suc_right length_append length_Cons less_add_Suc1)
    moreover have "c \<noteq> 0" using \<open>0 \<notin> set u\<close> Cons by (metis list.set_intros(1) set_dropWhileD)
    ultimately show ?thesis using Cons by (simp add: nth_append)
  qed
  ultimately show ?thesis
    using at_prompt_text [OF assms(1)] assms(2) by (simp add: findNextEOL_def)
qed

text \<open>The bytes of a \<open>read\<close> go behind the text that is at the start of the buffer.\<close>

lemma text_at_store:
  assumes "text_at buf 0 x" and "0 \<notin> set bs" and "length x + length bs \<le> MAX_AT_RESPONSE"
  shows "\<exists>b1 b2. buf_copy buf (length x) bs = Some b1 \<and> aput b1 (length x + length bs) 0 = Some b2 \<and> text_at b2 0 (x @ bs)"
proof -
  obtain junk where j: "buf = x @ 0 # junk" "length buf = MAX_AT_RESPONSE + 1" "0 \<notin> set x"
    using assms(1) by (auto simp: text_at_def)
  let ?b1 = "x @ bs @ drop (length x + length bs) buf"
  have b1: "buf_copy buf (length x) bs = Some ?b1" "length ?b1 = MAX_AT_RESPONSE + 1"
    using j assms(3) by (simp_all add: buf_copy_def)
  obtain d ds where d: "drop (length x + length bs) buf = d # ds"
    using j(2) assms(3) by (cases "drop (length x + length bs) buf") auto
  have e: "?b1[length x + length bs := 0] = x @ bs @ 0 # ds"
    unfolding d by (simp add: list_update_append)
  then have "length (x @ bs @ 0 # ds) = MAX_AT_RESPONSE + 1" using b1(2) by (metis length_list_update)
  then have "text_at (?b1[length x + length bs := 0]) 0 (x @ bs)"
    unfolding e using j(3) assms(2) by (simp add: text_at_def)
  moreover have "aput ?b1 (length x + length bs) 0 = Some (?b1[length x + length bs := 0])"
    using b1(2) assms(3) by (simp add: aput_def)
  ultimately show ?thesis using b1(1) by blast
qed

lemma text_at_empty: "length buf = MAX_AT_RESPONSE + 1 \<Longrightarrow> \<exists>b. aput buf 0 0 = Some b \<and> text_at b 0 []"
  by (cases buf) (simp_all add: aput_def text_at_def)

text \<open>A partial line moves to the start of the buffer.\<close>

lemma text_at_move:
  assumes "text_at buf cur u"
  shows "\<exists>b. buf_copy buf 0 (take (length u + 1) (drop cur buf)) = Some b \<and> text_at b 0 u"
proof -
  obtain junk where "drop cur buf = u @ 0 # junk" using assms by (auto simp: text_at_def)
  then have t: "take (length u + 1) (drop cur buf) = u @ [0]" by simp
  have "length u + 1 \<le> length buf" using text_at_bound [OF assms] assms by (simp add: text_at_def)
  then show ?thesis using assms unfolding t by (simp add: buf_copy_def text_at_def)
qed

text \<open>A line is taken out: its end becomes a zero.\<close>

lemma text_at_take:
  assumes "text_at buf cur (l @ c # u)"
  shows "\<exists>b. aput buf (cur + length l) 0 = Some b \<and> text_at b (cur + length l + 1) u"
    "takeWhile (\<lambda>c. c \<noteq> 0) (take (cur + length l - cur) (drop cur buf)) = l"
proof -
  obtain junk where j: "drop cur buf = l @ c # u @ 0 # junk" "0 \<notin> set l" using assms by (auto simp: text_at_def)
  then show "takeWhile (\<lambda>c. c \<noteq> 0) (take (cur + length l - cur) (drop cur buf)) = l"
    by (auto simp: takeWhile_eq_all_conv)
  have "text_at buf (cur + length l + 1) u" using text_at_drop [OF assms, of "length l + 1"] by simp
  moreover have "cur + length l < length buf" using text_at_bound [OF assms] assms by (simp add: text_at_def)
  ultimately show "\<exists>b. aput buf (cur + length l) 0 = Some b \<and> text_at b (cur + length l + 1) u"
    by (simp add: aput_def text_at_def)
qed

section \<open>Reading\<close>

text \<open>A modem that delivers its bytes in parts, with interruptions, but does not fail.\<close>

definition reads_ok :: "at_world \<Rightarrow> bool" where
  "reads_ok W \<longleftrightarrow> (\<forall>n. aw_read W n \<notin> {Moved 0, Failed False} \<and> (\<exists>m \<ge> n. aw_read W m \<noteq> Failed True))"

text \<open>\<open>s'\<close> is \<open>s\<close> but for the input and its buffer.\<close>

definition only_input :: "at_channel \<Rightarrow> at_channel \<Rightarrow> bool" where
  "only_input s s' \<longleftrightarrow> s_fd s' = s_fd s \<and> s_unsolHandler s' = s_unsolHandler s \<and> s_onTimeout s' = s_onTimeout s \<and>
     s_onReaderClosed s' = s_onReaderClosed s \<and> s_type s' = s_type s \<and> s_responsePrefix s' = s_responsePrefix s \<and>
     s_smsPDU s' = s_smsPDU s \<and> sp_response s' = sp_response s \<and> s_readerClosed s' = s_readerClosed s \<and>
     on_reader s' = on_reader s \<and> at_trace s' = at_trace s"

lemma only_input_refl [simp]: "only_input s s"
  by (simp add: only_input_def)

lemma only_input_trans: "only_input s u \<Longrightarrow> only_input u s' \<Longrightarrow> only_input s s'"
  by (simp add: only_input_def)

lemma only_input_step [simp]:
  "only_input s (u\<lparr>at_tick := t\<rparr>) = only_input s u" "only_input s (u\<lparr>s_ATBuffer := buf\<rparr>) = only_input s u"
  "only_input s (u\<lparr>s_ATBufferCur := cur\<rparr>) = only_input s u" "only_input s (u\<lparr>at_input := inp\<rparr>) = only_input s u"
  by (simp_all add: only_input_def)

text \<open>
  The text \<open>x\<close> from the start of the buffer, with the cursor behind its leading line ends and no
  complete line in it.
\<close>

definition partial_text :: "at_channel \<Rightarrow> u8 list \<Rightarrow> bool" where
  "partial_text s x \<longleftrightarrow> text_at (s_ATBuffer s) 0 x \<and> s_ATBufferCur s = length (takeWhile is_eol x) \<and> first_line x = None"

text \<open>The line \<open>l\<close> from the cursor to \<open>e\<close>, and \<open>rest\<close> behind it, in the buffer and then in the input.\<close>

definition line_found :: "at_channel \<Rightarrow> nat \<Rightarrow> u8 list \<Rightarrow> u8 list \<Rightarrow> bool" where
  "line_found s e l rest \<longleftrightarrow> (\<exists>c u. text_at (s_ATBuffer s) (s_ATBufferCur s) (l @ c # u) \<and>
     e = s_ATBufferCur s + length l \<and> u @ at_input s = rest)"

lemma first_line_None: "first_line t = None \<longleftrightarrow> (\<forall>x \<in> set (dropWhile is_eol t). \<not> is_eol x)"
  by (auto simp: first_line_def Let_def dropWhile_eq_Nil_conv split: list.splits)
    (metis dropWhile_eq_Nil_conv list.distinct(1))

lemma dropWhile_more:
  "dropWhile P t \<noteq> [] \<Longrightarrow> dropWhile P (t @ v) = dropWhile P t @ v \<and> takeWhile P (t @ v) = takeWhile P t"
  by (induction t) auto

lemma first_line_append:
  assumes "first_line t = Some (l, r)"
  shows "first_line (t @ v) = Some (l, r @ v)"
proof -
  obtain c where c: "dropWhile is_eol t = l @ c # r" "is_eol c" "\<forall>x \<in> set l. \<not> is_eol x"
    using first_line_split [OF assms] by blast
  then have "dropWhile is_eol (t @ v) = l @ c # r @ v" using dropWhile_more [of is_eol t v] by simp
  then show ?thesis using c by (simp add: first_line_def dropWhile_append2 takeWhile_append2)
qed

lemma takeWhile_more:
  assumes "n = length (takeWhile P x)"
  shows "n + length (takeWhile P (drop n (x @ y))) = length (takeWhile P (x @ y))"
    "dropWhile P (drop n (x @ y)) = dropWhile P (x @ y)"
proof -
  obtain z where z: "x @ y = takeWhile P x @ z" by (metis append.assoc takeWhile_dropWhile_id)
  then have d: "drop n (x @ y) = z" unfolding assms by simp
  have all: "\<forall>c \<in> set (takeWhile P x). P c" by (auto dest: set_takeWhileD)
  then have "takeWhile P (x @ y) = takeWhile P x @ takeWhile P z" "dropWhile P (x @ y) = dropWhile P z"
    unfolding z by (simp_all add: takeWhile_append2 dropWhile_append2)
  then show "n + length (takeWhile P (drop n (x @ y))) = length (takeWhile P (x @ y))"
    "dropWhile P (drop n (x @ y)) = dropWhile P (x @ y)" unfolding d [unfolded assms] assms by simp_all
qed

lemma partial_short:
  assumes "first_line x = None" and "line_start_ok (x @ v)"
  shows "length x < MAX_AT_RESPONSE"
proof (cases "dropWhile is_eol x = []")
  case True
  then have "takeWhile is_eol (x @ v) = x @ takeWhile is_eol v"
    by (auto simp: dropWhile_eq_Nil_conv takeWhile_append2)
  then show ?thesis using assms(2) by (simp add: line_start_ok_def)
next
  case False
  then have d: "dropWhile is_eol (x @ v) = dropWhile is_eol x @ v" "takeWhile is_eol (x @ v) = takeWhile is_eol x"
    using dropWhile_more [of is_eol x v] by simp_all
  have "takeWhile (\<lambda>c. \<not> is_eol c) (dropWhile is_eol x @ v) = dropWhile is_eol x @ takeWhile (\<lambda>c. \<not> is_eol c) v"
    using assms(1) by (intro takeWhile_append2) (auto simp: first_line_None)
  then have "length (takeWhile is_eol x) + length (dropWhile is_eol x) < MAX_AT_RESPONSE"
    using assms(2) d by (simp add: line_start_ok_def)
  then show ?thesis by (metis length_append takeWhile_dropWhile_id)
qed

text \<open>One \<open>read\<close> that moves bytes.\<close>

lemma readline_loop_moved:
  assumes x: "partial_text s x" and k: "aw_read W (at_tick s) = Moved k" "0 < k" "at_input s \<noteq> []"
    and t: "line_start_ok (x @ at_input s)" "0 \<notin> set (at_input s)"
  shows "\<exists>bs e s1. bs \<noteq> [] \<and> at_input s = bs @ at_input s1 \<and> only_input s s1 \<and>
    readline_loop W (length x) None s = readline_loop W (length (x @ bs)) e s1 \<and>
    (case first_line (x @ bs) of None \<Rightarrow> e = None \<and> partial_text s1 (x @ bs)
     | Some (l, r) \<Rightarrow> \<exists>i. e = Some i \<and> line_found s1 i l (r @ at_input s1))"
proof -
  let ?P = "\<lambda>c. \<not> is_eol c"
  have short: "length x < MAX_AT_RESPONSE" using partial_short t(1) x by (simp add: partial_text_def)
  define bs where "bs = take (min k (MAX_AT_RESPONSE - length x)) (at_input s)"
  define inp where "inp = drop (length bs) (at_input s)"
  have bs: "bs \<noteq> []" "length x + length bs \<le> MAX_AT_RESPONSE" "at_input s = bs @ inp" "0 \<notin> set bs"
    using k(2,3) short t(2) by (auto simp: bs_def inp_def dest: in_set_takeD)
      (metis append_take_drop_id length_take min.cobounded2 min.commute take_all_iff nat_le_linear take_take)
  obtain b1 b2 where b: "buf_copy (s_ATBuffer s) (length x) bs = Some b1" "aput b1 (length x + length bs) 0 = Some b2"
      "text_at b2 0 (x @ bs)"
    using text_at_store [of "s_ATBuffer s" x bs] bs(2,4) x by (auto simp: partial_text_def)
  define cur where "cur = length (takeWhile is_eol (x @ bs))"
  have cur: "s_ATBufferCur s = length (takeWhile is_eol x)" using x by (simp add: partial_text_def)
  have "text_at b2 (s_ATBufferCur s) (drop (s_ATBufferCur s) (x @ bs))"
    using text_at_drop [OF b(3), of "s_ATBufferCur s"] cur length_takeWhile_le [of is_eol x] by simp
  note skip = skip_newlines_text [OF this, unfolded takeWhile_more [OF cur] cur_def [symmetric]]
  have "dropWhile is_eol (x @ bs) \<noteq> sms_prompt"
  proof
    assume p: "dropWhile is_eol (x @ bs) = sms_prompt"
    then have "dropWhile is_eol ((x @ bs) @ inp) = sms_prompt @ inp"
      using dropWhile_more [of is_eol "x @ bs" inp] by (simp only: p) (simp add: sms_prompt_def)
    then show False using t(1) bs(3) by (simp add: line_start_ok_def)
  qed
  note eol = findNextEOL_text [OF skip(2) this]
  define e where "e = (if dropWhile ?P (dropWhile is_eol (x @ bs)) = [] then None
      else Some (cur + length (takeWhile ?P (dropWhile is_eol (x @ bs)))))"
  define s1 where "s1 = s\<lparr>at_tick := Suc (at_tick s), s_ATBuffer := b2, s_ATBufferCur := cur, at_input := inp\<rparr>"
  have s1: "s_ATBuffer s1 = b2" "s_ATBufferCur s1 = cur" "at_input s1 = inp" "only_input s s1"
    by (simp_all add: s1_def)
  have "readline_loop W (length x) None s = readline_loop W (length (x @ bs)) e s1"
    using k(1) short bs(1) b(1,2) skip(1) eol
    by (subst readline_loop.simps)
      (simp add: at_sys_def Let_def bs_def [symmetric] inp_def [symmetric] e_def cur_def s1_def)
  moreover have "case first_line (x @ bs) of None \<Rightarrow> e = None \<and> partial_text s1 (x @ bs)
     | Some (l, r) \<Rightarrow> \<exists>i. e = Some i \<and> line_found s1 i l (r @ at_input s1)"
  proof (cases "first_line (x @ bs)")
    case None
    then have "dropWhile ?P (dropWhile is_eol (x @ bs)) = []"
      unfolding first_line_None by (simp only: dropWhile_eq_Nil_conv)
    then have "e = None" by (simp only: e_def if_True simp_thms)
    then show ?thesis using None b(3) by (simp add: partial_text_def s1 cur_def)
  next
    case (Some lr)
    obtain l r where lr: "lr = (l, r)" by force
    obtain c where c: "dropWhile is_eol (x @ bs) = l @ c # r" "is_eol c" "\<forall>x \<in> set l. \<not> is_eol x"
      using first_line_split [of "x @ bs" l r] Some lr by blast
    then have "e = Some (cur + length l)"
      by (simp add: e_def takeWhile_append2 dropWhile_append2)
    moreover have "line_found s1 (cur + length l) l (r @ at_input s1)"
      using skip(2) c(1) by (auto simp: line_found_def s1)
    ultimately show ?thesis using Some lr by simp
  qed
  moreover have "at_input s = bs @ at_input s1" using bs(3) s1(3) by simp
  ultimately show ?thesis using bs(1) s1(4) by blast
qed

text \<open>A \<open>read\<close> that is interrupted, and one at the end of the input.\<close>

lemma readline_loop_waits:
  assumes "length x < MAX_AT_RESPONSE"
  shows "aw_read W (at_tick s) = Failed True \<Longrightarrow>
      readline_loop W (length x) None s = readline_loop W (length x) None (s\<lparr>at_tick := Suc (at_tick s)\<rparr>)"
    "aw_read W (at_tick s) = Moved k \<Longrightarrow> at_input s = [] \<Longrightarrow>
      readline_loop W (length x) None s = Some (None, s\<lparr>at_tick := Suc (at_tick s)\<rparr>)"
  using assms by (subst readline_loop.simps, simp add: at_sys_def Let_def)+

lemma readline_loop_found: "readline_loop W p (Some e) s = Some (Some e, s)"
  by (simp add: readline_loop.simps)

lemma readline_loop_reads:
  assumes W: "reads_ok W" and "partial_text s x" and "line_start_ok (x @ at_input s)" "0 \<notin> set (at_input s)"
  shows "\<exists>r s'. readline_loop W (length x) None s = Some (r, s') \<and> only_input s s' \<and>
    (case first_line (x @ at_input s) of None \<Rightarrow> r = None
     | Some (l, rest) \<Rightarrow> \<exists>e. r = Some e \<and> line_found s' e l rest)"
  using assms(2-)
proof (induction "length (at_input s)" arbitrary: s x rule: less_induct)
  case less
  note outer = less.hyps
  obtain m where "m \<ge> at_tick s" "aw_read W m \<noteq> Failed True" using W by (auto simp: reads_ok_def)
  then show ?case using less.prems outer
  proof (induction "m - at_tick s" arbitrary: s rule: less_induct)
    case (less s)
    note prems = less.prems(3-5) and shorter = less.prems(6)
    have short: "length x < MAX_AT_RESPONSE" using partial_short prems(1,2) by (simp add: partial_text_def)
    let ?u = "s\<lparr>at_tick := Suc (at_tick s)\<rparr>"
    have W': "aw_read W (at_tick s) \<notin> {Moved 0, Failed False}" using W by (simp add: reads_ok_def)
    show ?case
    proof (cases "aw_read W (at_tick s)")
      case (Failed eintr)
      then have eintr: "aw_read W (at_tick s) = Failed True" using W' by (cases eintr) auto
      then have "at_tick s \<noteq> m" using less.prems(2) by auto
      then have m: "m - at_tick ?u < m - at_tick s" "at_tick ?u \<le> m" using less.prems(1) by simp_all
      have "partial_text ?u x" using prems(1) by (simp add: partial_text_def)
      from less.hyps [OF m less.prems(2) this] prems(2,3) shorter
      obtain r s' where "readline_loop W (length x) None ?u = Some (r, s')" "only_input ?u s'"
          "case first_line (x @ at_input s) of None \<Rightarrow> r = None | Some (l, rest) \<Rightarrow> \<exists>e. r = Some e \<and> line_found s' e l rest"
        by (auto simp del: split_paired_Ex)
      then show ?thesis using readline_loop_waits(1) [OF short eintr] only_input_trans [of s ?u s'] by auto
    next
      case (Moved k)
      show ?thesis
      proof (cases "at_input s = []")
        case True
        moreover have "first_line x = None" using prems(1) by (simp add: partial_text_def)
        ultimately show ?thesis using readline_loop_waits(2) [OF short Moved True] by simp
      next
        case False
        have "0 < k" using W' Moved by auto
        then obtain bs e s1 where r: "bs \<noteq> []" "at_input s = bs @ at_input s1" "only_input s s1"
            "readline_loop W (length x) None s = readline_loop W (length (x @ bs)) e s1"
            "case first_line (x @ bs) of None \<Rightarrow> e = None \<and> partial_text s1 (x @ bs)
             | Some (l, r) \<Rightarrow> \<exists>i. e = Some i \<and> line_found s1 i l (r @ at_input s1)"
          using readline_loop_moved [OF prems(1) Moved _ False prems(2,3)] by blast
        show ?thesis
        proof (cases "first_line (x @ bs)")
          case None
          then have p: "e = None" "partial_text s1 (x @ bs)" using r(5) by simp_all
          have "length (at_input s1) < length (at_input s)" "line_start_ok ((x @ bs) @ at_input s1)"
              "0 \<notin> set (at_input s1)"
            using r(1,2) prems(2,3) by simp_all
          from shorter [OF this(1) p(2) this(2,3)] p(1) r(2,3,4) show ?thesis
            using only_input_trans by auto
        next
          case (Some lr)
          obtain l v where lr: "lr = (l, v)" by force
          then obtain i where i: "e = Some i" "line_found s1 i l (v @ at_input s1)" using r(5) Some by auto
          have "first_line (x @ at_input s) = Some (l, v @ at_input s1)"
            using first_line_append [of "x @ bs" l v "at_input s1"] Some lr r(2) by simp
          then show ?thesis using i r(3,4) readline_loop_found by simp
        qed
      qed
    qed
  qed
qed

section \<open>Lines\<close>

text \<open>\<open>u\<close> is what is left to read in the buffer.\<close>

definition unread :: "at_channel \<Rightarrow> u8 list \<Rightarrow> bool" where
  "unread s u \<longleftrightarrow> text_at (s_ATBuffer s) (s_ATBufferCur s) u"

lemma line_taken:
  assumes "line_found s e l rest"
  shows "\<exists>buf u. aput (s_ATBuffer s) e 0 = Some buf \<and> text_at buf (e + 1) u \<and> u @ at_input s = rest \<and>
    takeWhile (\<lambda>c. c \<noteq> 0) (take (e - s_ATBufferCur s) (drop (s_ATBufferCur s) (s_ATBuffer s))) = l"
  using assms text_at_take unfolding line_found_def by blast

text \<open>How \<open>readline\<close> begins: with a line in the buffer, or with a part of one.\<close>

definition readline_from :: "at_world \<Rightarrow> nat \<times> nat option \<times> at_channel \<Rightarrow> (u8 list option \<times> at_channel) option" where
  "readline_from W = (\<lambda>(p_read, p_eol, s). do {
     (p_eol, s) \<leftarrow> readline_loop W p_read p_eol s;
     case p_eol of
       None \<Rightarrow> Some (None, s)
     | Some e \<Rightarrow> do {
         let ret = takeWhile (\<lambda>c. c \<noteq> 0) (take (e - s_ATBufferCur s) (drop (s_ATBufferCur s) (s_ATBuffer s)));
         buf \<leftarrow> aput (s_ATBuffer s) e 0;
         Some (Some ret, s\<lparr>s_ATBuffer := buf, s_ATBufferCur := e + 1\<rparr>) } })"

lemma no_leading: "\<forall>c \<in> set y. \<not> P c \<Longrightarrow> takeWhile P y = [] \<and> dropWhile P y = y"
  by (cases y) auto

lemma readline_start:
  assumes u: "unread s u" and t: "line_start_ok (u @ at_input s)"
  shows "\<exists>p e s1. readline W s = readline_from W (p, e, s1) \<and> only_input s s1 \<and> at_input s1 = at_input s \<and>
    (case first_line u of
       None \<Rightarrow> \<exists>nl x. e = None \<and> u = nl @ x \<and> (\<forall>c \<in> set nl. is_eol c) \<and> partial_text s1 x \<and> p = length x
     | Some (l, r) \<Rightarrow> \<exists>i. e = Some i \<and> line_found s1 i l (r @ at_input s))"
proof -
  let ?P = "\<lambda>c. \<not> is_eol c" and ?x = "dropWhile is_eol u"
  have at: "text_at (s_ATBuffer s) (s_ATBufferCur s) u" using u by (simp add: unread_def)
  have first: "aget (s_ATBuffer s) (s_ATBufferCur s) = Some ((u @ [0]) ! 0)" using text_at_nth [OF at, of 0] by simp
  show ?thesis
  proof (cases "u = []")
    case True
    obtain b where b: "aput (s_ATBuffer s) 0 0 = Some b" "text_at b 0 []"
      using text_at_empty at by (auto simp: text_at_def)
    have "readline W s = readline_from W (0, None, s\<lparr>s_ATBuffer := b, s_ATBufferCur := 0\<rparr>)"
      using first b(1) True by (simp add: readline_def readline_from_def)
    moreover have "partial_text (s\<lparr>s_ATBuffer := b, s_ATBufferCur := 0\<rparr>) []"
      using b(2) by (simp add: partial_text_def first_line_def)
    moreover have "first_line u = None" using True by (simp add: first_line_def)
    ultimately show ?thesis using True
      by (intro exI [of _ 0] exI [of _ None] exI [of _ "s\<lparr>s_ATBuffer := b, s_ATBufferCur := 0\<rparr>"]) auto
  next
    case False
    then have c: "(u @ [0]) ! 0 \<noteq> 0" using at by (cases u) (auto simp: text_at_def)
    define cur where "cur = s_ATBufferCur s + length (takeWhile is_eol u)"
    note skip = skip_newlines_text [OF at, folded cur_def]
    have "?x \<noteq> sms_prompt"
    proof
      assume p: "?x = sms_prompt"
      then have "dropWhile is_eol (u @ at_input s) = sms_prompt @ at_input s"
        using dropWhile_more [of is_eol u "at_input s"] by (simp only: p) (simp add: sms_prompt_def)
      then show False using t by (simp add: line_start_ok_def)
    qed
    note eol = findNextEOL_text [OF skip(2) this]
    show ?thesis
    proof (cases "first_line u")
      case None
      then have "dropWhile ?P ?x = []" unfolding first_line_None by (simp only: dropWhile_eq_Nil_conv)
      then have eol': "findNextEOL (s_ATBuffer s) cur = Some None" using eol by (simp only: if_True simp_thms)
      have end_cur: "scan (\<lambda>c. c \<noteq> 0) (s_ATBuffer s) cur = Some (cur + length ?x)"
      proof -
        have tw: "takeWhile (\<lambda>c. c \<noteq> 0) ?x = ?x"
          using skip(2) by (auto simp: text_at_def takeWhile_eq_all_conv)
        show ?thesis using scan_text [OF skip(2), of "\<lambda>c. c \<noteq> 0", unfolded tw] by simp
      qed
      obtain b where b: "buf_copy (s_ATBuffer s) 0 (take (length ?x + 1) (drop cur (s_ATBuffer s))) = Some b"
          "text_at b 0 ?x" using text_at_move [OF skip(2)] by blast
      define s1 where "s1 = s\<lparr>s_ATBuffer := b, s_ATBufferCur := 0\<rparr>"
      have s1: "s_ATBuffer s1 = b" "s_ATBufferCur s1 = 0" "at_input s1 = at_input s" "only_input s s1"
        by (simp_all add: s1_def)
      have "readline W s = readline_from W (length ?x, None, s1)"
        using first c skip(1) eol' end_cur b(1) by (simp add: readline_def readline_from_def s1_def)
      moreover have "partial_text s1 ?x"
      proof -
        have "\<forall>c \<in> set ?x. \<not> is_eol c" using None by (simp add: first_line_None)
        from no_leading [OF this] have "takeWhile is_eol ?x = []" "first_line ?x = None"
          using None by (simp_all add: first_line_None)
        then show ?thesis using b(2) s1 by (simp add: partial_text_def)
      qed
      moreover have "u = takeWhile is_eol u @ ?x" "\<forall>c \<in> set (takeWhile is_eol u). is_eol c"
        by (simp, auto dest: set_takeWhileD)
      ultimately show ?thesis unfolding None option.case using s1(3,4) by metis
    next
      case (Some lr)
      obtain l r where lr: "lr = (l, r)" by force
      obtain e where e: "?x = l @ e # r" "is_eol e" "\<forall>x \<in> set l. \<not> is_eol x"
        using first_line_split [of u l r] Some lr by blast
      then have "findNextEOL (s_ATBuffer s) cur = Some (Some (cur + length l))"
        using eol by (simp add: takeWhile_append2 dropWhile_append2)
      then have "readline W s = readline_from W (0, Some (cur + length l), s\<lparr>s_ATBufferCur := cur\<rparr>)"
        using first c skip(1) by (simp add: readline_def readline_from_def)
      moreover have "line_found (s\<lparr>s_ATBufferCur := cur\<rparr>) (cur + length l) l (r @ at_input s)"
        using skip(2) e(1) by (auto simp: line_found_def)
      ultimately show ?thesis unfolding Some lr
        by (intro exI [of _ 0] exI [of _ "Some (cur + length l)"] exI [of _ "s\<lparr>s_ATBufferCur := cur\<rparr>"]) simp
    qed
  qed
qed

lemma readline_reads:
  assumes W: "reads_ok W" and u: "unread s u" and t: "line_start_ok (u @ at_input s)" "0 \<notin> set (at_input s)"
  shows "\<exists>r s'. readline W s = Some (r, s') \<and> only_input s s' \<and>
    (case first_line (u @ at_input s) of None \<Rightarrow> r = None
     | Some (l, rest) \<Rightarrow> r = Some l \<and> (\<exists>v. unread s' v \<and> v @ at_input s' = rest))"
proof -
  obtain p e s1 where s1: "readline W s = readline_from W (p, e, s1)" "only_input s s1" "at_input s1 = at_input s"
      "case first_line u of
         None \<Rightarrow> \<exists>nl x. e = None \<and> u = nl @ x \<and> (\<forall>c \<in> set nl. is_eol c) \<and> partial_text s1 x \<and> p = length x
       | Some (l, r) \<Rightarrow> \<exists>i. e = Some i \<and> line_found s1 i l (r @ at_input s)"
    using readline_start [OF u t(1)] by blast
  have found: "\<exists>s'. readline_from W (p, e, s1) = Some (Some l, s') \<and> only_input s s' \<and>
      (\<exists>v. unread s' v \<and> v @ at_input s' = rest)"
    if f: "readline_loop W p e s1 = Some (Some i, s2)" "line_found s2 i l rest" "only_input s s2" for i l rest s2
  proof -
    obtain buf v where "aput (s_ATBuffer s2) i 0 = Some buf" "text_at buf (i + 1) v" "v @ at_input s2 = rest"
        "takeWhile (\<lambda>c. c \<noteq> 0) (take (i - s_ATBufferCur s2) (drop (s_ATBufferCur s2) (s_ATBuffer s2))) = l"
      using line_taken [OF f(2)] by blast
    then show ?thesis using f(1,3) by (auto simp: readline_from_def unread_def)
  qed
  show ?thesis
  proof (cases "first_line u")
    case (Some lr)
    obtain l r where lr: "lr = (l, r)" by force
    then obtain i where i: "e = Some i" "line_found s1 i l (r @ at_input s)" using s1(4) Some by auto
    have "first_line (u @ at_input s) = Some (l, r @ at_input s)" using first_line_append Some lr by simp
    then show ?thesis using found [OF _ i(2) s1(2)] i(1) readline_loop_found s1(1) by auto
  next
    case None
    then obtain nl x where x: "e = None" "u = nl @ x" "\<forall>c \<in> set nl. is_eol c" "partial_text s1 x" "p = length x"
      using s1(4) by auto
    have "line_start_ok (x @ at_input s1)"
      using t(1) x(2,3) s1(3) by (simp add: line_start_ok_def dropWhile_append2 takeWhile_append2)
    then obtain r s2 where r: "readline_loop W (length x) None s1 = Some (r, s2)" "only_input s1 s2"
        "case first_line (x @ at_input s1) of None \<Rightarrow> r = None
         | Some (l, rest) \<Rightarrow> \<exists>e. r = Some e \<and> line_found s2 e l rest"
      using readline_loop_reads [OF W x(4)] t(2) s1(3) by auto
    have same: "first_line (u @ at_input s) = first_line (x @ at_input s1)"
      using first_line_skip [OF x(3)] x(2) s1(3) by simp
    have io: "only_input s s2" by (rule only_input_trans [OF s1(2) r(2)])
    show ?thesis
    proof (cases "first_line (x @ at_input s1)")
      case None
      then have "readline W s = Some (None, s2)" using r(1,3) x(1,5) s1(1) by (simp add: readline_from_def)
      then show ?thesis using None same io by simp
    next
      case (Some lr)
      obtain l rest where "lr = (l, rest)" by force
      then obtain i where "r = Some i" "line_found s2 i l rest" using r(3) Some by auto
      then show ?thesis using found [of i s2 l rest] io r(1) x(1,5) s1(1) same Some \<open>lr = (l, rest)\<close> by auto
    qed
  qed
qed

section \<open>The reader thread\<close>

text \<open>Processing a line without a waiting text message depends on the command and the trace only.\<close>

lemma processLine_other_input:
  "s_smsPDU a = None \<Longrightarrow>
   processLine W line (a\<lparr>s_ATBuffer := buf, s_ATBufferCur := cur, at_input := inp, at_tick := t\<rparr>) =
   map_option (\<lambda>a'. a'\<lparr>s_ATBuffer := buf, s_ATBufferCur := cur, at_input := inp, at_tick := t\<rparr>) (processLine W line a)"
  by (cases a; cases "sp_response a"; cases "s_responsePrefix a"; cases "s_type a")
    (simp_all add: processLine_def set_response_def handleFinalResponse_def addIntermediate_def
      handleUnsolicited_def at_emit_def)

lemma processLine_keeps_no_PDU: "processLine W line a = Some a' \<Longrightarrow> s_smsPDU a = None \<Longrightarrow> s_smsPDU a' = None"
  by (auto simp: processLine_def set_response_def handleFinalResponse_def addIntermediate_def
      handleUnsolicited_def at_emit_def split: option.splits ATCommandType.splits if_splits Option.bind_splits)

lemma only_input_update:
  "only_input a b \<Longrightarrow> b = a\<lparr>s_ATBuffer := s_ATBuffer b, s_ATBufferCur := s_ATBufferCur b, at_input := at_input b,
     at_tick := at_tick b\<rparr>"
  by (cases a, cases b) (simp add: only_input_def)

lemma processLine_same:
  assumes "only_input a b" and "s_smsPDU a = None" and "processLine W line a = Some a'"
  shows "\<exists>b'. processLine W line b = Some b' \<and> only_input a' b' \<and> s_smsPDU a' = None \<and> s_ATBuffer b' = s_ATBuffer b \<and>
    s_ATBufferCur b' = s_ATBufferCur b \<and> at_input b' = at_input b"
proof -
  let ?f = "\<lambda>a. a\<lparr>s_ATBuffer := s_ATBuffer b, s_ATBufferCur := s_ATBufferCur b, at_input := at_input b,
     at_tick := at_tick b\<rparr>"
  have "processLine W line b = processLine W line (?f a)"
    by (rule arg_cong [OF only_input_update [OF assms(1)]])
  then have "processLine W line b = Some (?f a')" using processLine_other_input [OF assms(2)] assms(3) by simp
  then show ?thesis using processLine_keeps_no_PDU [OF assms(3,2)] by simp
qed

text \<open>The lines of the whole text go to \<open>processLine\<close> one by one, and then the channel is closed.\<close>

lemma readerLoop_splits:
  assumes W: "reads_ok W" and "unread b u" and "readable (u @ at_input b)" and "only_input a b" and "s_smsPDU a = None"
    and "foldM (processLine W) (lines_of (u @ at_input b)) a = Some v"
  shows "\<exists>b'. readerLoop W b = Some (onReaderClosed b') \<and> only_input v b'"
  using assms(2-)
proof (induction "length (u @ at_input b)" arbitrary: a b u rule: less_induct)
  case less
  let ?t = "u @ at_input b"
  have t: "line_start_ok ?t" "0 \<notin> set (at_input b)" using less.prems(2) by (subst (asm) readable.simps, simp)+
  obtain r s' where r: "readline W b = Some (r, s')" "only_input b s'"
      "case first_line ?t of None \<Rightarrow> r = None
       | Some (l, rest) \<Rightarrow> r = Some l \<and> (\<exists>v. unread s' v \<and> v @ at_input s' = rest)"
    using readline_reads [OF W less.prems(1) t] by blast
  show ?case
  proof (cases "first_line ?t")
    case None
    then have "v = a" using less.prems(5) by (subst (asm) lines_of.simps) simp
    moreover have "readerLoop W b = Some (onReaderClosed s')" using r(1,3) None by (subst readerLoop.simps) simp
    ultimately show ?thesis using only_input_trans [OF less.prems(3) r(2)] by blast
  next
    case (Some lr)
    obtain l rest where lr: "lr = (l, rest)" by force
    then obtain w where w: "r = Some l" "unread s' w" "w @ at_input s' = rest" using r(3) Some by auto
    obtain a' where a': "processLine W l a = Some a'" "foldM (processLine W) (lines_of rest) a' = Some v"
      using less.prems(5) Some lr by (subst (asm) lines_of.simps) (auto split: Option.bind_splits)
    obtain b' where b': "processLine W l s' = Some b'" "only_input a' b'" "s_smsPDU a' = None"
        "s_ATBuffer b' = s_ATBuffer s'" "s_ATBufferCur b' = s_ATBufferCur s'" "at_input b' = at_input s'"
      using processLine_same [OF only_input_trans [OF less.prems(3) r(2)] less.prems(4) a'(1)] by blast
    have u': "unread b' w" "w @ at_input b' = rest" using w b' by (simp_all add: unread_def)
    have "length (w @ at_input b') < length ?t" using first_line_shorter Some lr u'(2) by metis
    moreover have "readable (w @ at_input b')"
      using less.prems(2) Some lr u'(2) by (subst (asm) readable.simps) simp
    moreover have "foldM (processLine W) (lines_of (w @ at_input b')) a' = Some v" using a'(2) u'(2) by simp
    ultimately obtain c where "readerLoop W b' = Some (onReaderClosed c)" "only_input v c"
      using less.hyps [OF _ u'(1) _ b'(2,3)] by blast
    moreover have "readerLoop W b = readerLoop W b'"
      using r(1) w(1) b'(1) by (subst readerLoop.simps) (simp add: isSMSUnsolicited_def)
    ultimately show ?thesis by auto
  qed
qed

end
