(* ===== verification/At_Tok_Correct.thy ===== *)
theory At_Tok_Correct
  imports At_Tok "HOL-Library.Sublist"
begin

text \<open>
  The tokenizer reads back what a modem writes: a line of integers and quoted strings, separated by
  commas and with white space before the fields. \<open>strStartsWith\<close> is the prefix order.
\<close>

lemma strStartsWith_prefix: "strStartsWith line pre \<longleftrightarrow> prefix pre line"
  by (induction line pre rule: strStartsWith.induct) (auto simp: Cons_prefix_Cons)

section \<open>Decimal numbers\<close>

fun decimal :: "nat \<Rightarrow> u8 list" where
  "decimal n = (if n < 10 then [word_of_nat (48 + n)] else decimal (n div 10) @ [word_of_nat (48 + n mod 10)])"

declare decimal.simps [simp del]

lemma digit_char:
  assumes "n < 10"
  shows "isdigit (word_of_nat (48 + n))" "digit_value (word_of_nat (48 + n)) = n"
proof -
  have u: "unat (word_of_nat (48 + n) :: u8) = 48 + n" using assms by (simp only: unat_of_nat) simp
  then show "isdigit (word_of_nat (48 + n))" using assms by (simp add: isdigit_def word_le_nat_alt)
  then show "digit_value (word_of_nat (48 + n)) = n" using u by (simp add: digit_value_def)
qed

lemma decimal_digits: "\<forall>c \<in> set (decimal n). isdigit c \<and> digit_value c < 10"
proof (induction n rule: decimal.induct)
  case (1 n)
  then show ?case using digit_char by (subst decimal.simps) auto
qed

lemma decimal_nonempty: "decimal n \<noteq> []"
  by (subst decimal.simps) simp

lemma decimal_value: "digits_value 10 (decimal n) = int n"
proof (induction n rule: decimal.induct)
  case (1 n)
  show ?case
  proof (cases "n < 10")
    case True
    then show ?thesis using digit_char(2) [OF True] by (subst decimal.simps) (simp add: digits_value_def)
  next
    case False
    have d: "digit_value (word_of_nat (48 + n mod 10)) = n mod 10" by (rule digit_char) simp
    have "digits_value 10 (decimal n) = digits_value 10 (decimal (n div 10)) * 10 + int (n mod 10)"
      using False d by (subst decimal.simps) (simp add: digits_value_def)
    also have "\<dots> = int n" using 1 False by (simp add: zdiv_int zmod_int)
    finally show ?thesis .
  qed
qed

lemma digit_not_special: "isdigit c \<Longrightarrow> \<not> isspace c \<and> c \<noteq> 34 \<and> c \<noteq> 43 \<and> c \<noteq> 44 \<and> c \<noteq> 45"
  by (auto simp: isdigit_def isspace_def word_le_nat_alt)

section \<open>Fields\<close>

datatype at_value = AtInt int | AtStr "u8 list"

fun at_render :: "at_value \<Rightarrow> u8 list" where
  "at_render (AtInt n) = (if n < 0 then [45] else []) @ decimal (nat \<bar>n\<bar>)"
| "at_render (AtStr s) = 34 # s @ [34]"

text \<open>Integers have 32 bits, and strings hold no quotation marks.\<close>

fun at_value_ok :: "at_value \<Rightarrow> bool" where
  "at_value_ok (AtInt n) \<longleftrightarrow> - (2 ^ 31) \<le> n \<and> n < 2 ^ 31"
| "at_value_ok (AtStr s) \<longleftrightarrow> 34 \<notin> set s"

text \<open>The fields, each behind a number of blanks.\<close>

fun at_fields :: "(nat \<times> at_value) list \<Rightarrow> u8 list" where
  "at_fields [] = []"
| "at_fields [(k, v)] = replicate k 32 @ at_render v"
| "at_fields ((k, v) # fs) = replicate k 32 @ at_render v @ 44 # at_fields fs"

text \<open>Reading a field, with the function for its type.\<close>

definition at_read :: "nat \<Rightarrow> at_value \<Rightarrow> cstr \<Rightarrow> (at_value \<times> cstr) option" where
  "at_read bits v p = (case v of
       AtInt _ \<Rightarrow> (let (ret, r, p) = at_tok_nextint bits p
         in if ret = 0 then map_option (\<lambda>r. (AtInt (sint r), p)) r else None)
     | AtStr _ \<Rightarrow> (let (ret, s, p) = at_tok_nextstr p
         in if ret = 0 then (case s of Some (Some s) \<Rightarrow> Some (AtStr s, p) | _ \<Rightarrow> None) else None))"

fun at_read_all :: "nat \<Rightarrow> at_value list \<Rightarrow> cstr \<Rightarrow> (at_value list \<times> cstr) option" where
  "at_read_all bits [] p = Some ([], p)"
| "at_read_all bits (v # vs) p = do {
     (w, p) \<leftarrow> at_read bits v p;
     (ws, p) \<leftarrow> at_read_all bits vs p;
     Some (w # ws, p) }"

lemma skip_blanks: "skipWhiteSpace (Some (replicate k 32 @ s)) = skipWhiteSpace (Some s)"
  by (induction k) (simp_all add: skipWhiteSpace_def isspace_def)

lemma nextTok_blanks: "nextTok (Some (replicate k 32 @ s)) = nextTok (Some s)"
  by (simp add: nextTok_def skip_blanks)

lemma strsep_found: "d \<notin> set s \<Longrightarrow> strsep d (Some (s @ d # rest)) = (Some s, Some rest)"
proof -
  assume "d \<notin> set s"
  then have "\<forall>c \<in> set s. c \<noteq> d" by auto
  then show ?thesis by (simp add: strsep_def takeWhile_append2 dropWhile_append2)
qed

lemma strsep_last: "d \<notin> set s \<Longrightarrow> strsep d (Some s) = (Some s, None)"
proof -
  assume "d \<notin> set s"
  then have "takeWhile (\<lambda>c. c \<noteq> d) s = s" "dropWhile (\<lambda>c. c \<noteq> d) s = []"
    by (auto simp: takeWhile_eq_all_conv dropWhile_eq_Nil_conv)
  then show ?thesis by (simp only: strsep_def option.case list.case)
qed

lemma nextTok_quoted:
  assumes "34 \<notin> set s"
  shows "nextTok (Some (34 # s @ 34 # rest)) = (Some s, skipNextComma (Some rest))"
  using strsep_found [OF assms, of rest] by (simp add: nextTok_def skipWhiteSpace_def isspace_def)

lemma nextTok_plain:
  assumes "s \<noteq> []" and "44 \<notin> set s" and "\<not> isspace (hd s)" and "hd s \<noteq> 34"
  shows "nextTok (Some s) = (Some s, None)" "nextTok (Some (s @ 44 # rest)) = (Some s, Some rest)"
  using assms strsep_last [OF assms(2)] strsep_found [OF assms(2), of rest]
  by (cases s; simp add: nextTok_def skipWhiteSpace_def)+

text \<open>An integer field is a token.\<close>

lemma minus_sign: "\<not> isspace 45" "(45 :: u8) \<noteq> 34" "(45 :: u8) \<noteq> 44"
  by (simp_all add: isspace_def)

lemma render_int_token:
  "at_render (AtInt n) \<noteq> []" "44 \<notin> set (at_render (AtInt n))" "\<not> isspace (hd (at_render (AtInt n)))"
  "hd (at_render (AtInt n)) \<noteq> 34"
proof -
  have d: "\<forall>c \<in> set (at_render (AtInt n)). c \<noteq> 44 \<and> c \<noteq> 34 \<and> \<not> isspace c"
    using decimal_digits [of "nat \<bar>n\<bar>"] digit_not_special minus_sign by (cases "n < 0") auto
  show nonempty: "at_render (AtInt n) \<noteq> []" using decimal_nonempty by simp
  show "44 \<notin> set (at_render (AtInt n))" using d by blast
  show "\<not> isspace (hd (at_render (AtInt n)))" "hd (at_render (AtInt n)) \<noteq> 34"
    using d hd_in_set [OF nonempty] by blast+
qed

lemma no_hex_prefix:
  "(case s of z # x # d # cs \<Rightarrow> if (10::nat) = 16 \<and> P z x d then d # cs else s | _ \<Rightarrow> s) = s"
  by (cases s rule: list.exhaust; cases "tl s"; cases "tl (tl s)") simp_all

lemma strto_digits_decimal:
  "strto_digits 10 (decimal n) = (False, decimal n)" "strto_digits 10 (45 # decimal n) = (True, decimal n)"
proof -
  obtain c cs where c: "decimal n = c # cs" using decimal_nonempty by (cases "decimal n") auto
  then have "isdigit c" using decimal_digits [of n] by auto
  then have h: "\<not> isspace c" "c \<noteq> 43" "c \<noteq> 45" using digit_not_special by auto
  then have s: "dropWhile isspace (decimal n) = decimal n" "dropWhile isspace (45 # decimal n) = 45 # decimal n"
    using c by (simp, simp add: isspace_def)
  have t: "takeWhile (\<lambda>c. digit_value c < 10) (decimal n) = decimal n"
    using decimal_digits [of n] by (simp add: takeWhile_eq_all_conv)
  have sign: "(case decimal n of c # cs \<Rightarrow> if c = 45 then (True, cs) else if c = 43 then (False, cs)
      else (False, decimal n) | [] \<Rightarrow> (False, decimal n)) = (False, decimal n)" using h c by simp
  show "strto_digits 10 (decimal n) = (False, decimal n)"
    by (simp only: strto_digits_def Let_def s sign prod.case no_hex_prefix t)
  show "strto_digits 10 (45 # decimal n) = (True, decimal n)"
    by (simp only: strto_digits_def Let_def s list.case if_True simp_thms prod.case no_hex_prefix t)
qed

lemma strto_value_int:
  assumes "- (2 ^ 31) \<le> n" "n < 2 ^ 31" "32 \<le> bits"
  shows "strto_value bits False (n < 0) \<bar>n\<bar> = n"
proof -
  have "(2::int) ^ 31 \<le> 2 ^ (bits - 1)" using assms(3) by (intro power_increasing) auto
  then show ?thesis using assms(1,2) by (auto simp: strto_value_def)
qed

lemma at_read_int:
  assumes "at_value_ok (AtInt n)" and "32 \<le> bits" and "nextTok p = (Some (at_render (AtInt n)), q)" and "p \<noteq> None"
  shows "at_read bits (AtInt n) p = Some (AtInt n, q)"
proof -
  have "strto_digits 10 (at_render (AtInt n)) = (n < 0, decimal (nat \<bar>n\<bar>))"
    using strto_digits_decimal by simp
  moreover have "strto_value bits False (n < 0) (digits_value 10 (decimal (nat \<bar>n\<bar>))) = n"
    using strto_value_int [of n bits] assms(1,2) by (simp add: decimal_value)
  moreover have "sint (word_of_int n :: i32) = n"
    using assms(1) by (simp add: sint_sbintrunc' signed_take_bit_int_eq_self)
  ultimately show ?thesis
    using assms(3,4) decimal_nonempty
    by (simp add: at_read_def at_tok_nextint_def at_tok_nextint_base_def del: at_render.simps)
qed

lemma at_read_str:
  assumes "nextTok p = (Some s, q)" and "p \<noteq> None"
  shows "at_read bits (AtStr s) p = Some (AtStr s, q)"
  using assms by (simp add: at_read_def at_tok_nextstr_def)

lemma at_read_field:
  assumes "at_value_ok v" and "32 \<le> bits"
  shows "\<exists>p. at_read bits v (Some (replicate k 32 @ at_render v)) = Some (v, p) \<and> \<not> at_tok_hasmore p"
    "at_read bits v (Some (replicate k 32 @ at_render v @ 44 # rest)) = Some (v, Some rest)"
proof -
  show "\<exists>p. at_read bits v (Some (replicate k 32 @ at_render v)) = Some (v, p) \<and> \<not> at_tok_hasmore p"
  proof (cases v)
    case (AtInt n)
    then show ?thesis
      using at_read_int [of n bits _ None] assms nextTok_plain(1) [OF render_int_token]
      by (simp add: nextTok_blanks at_tok_hasmore_def del: at_render.simps)
  next
    case (AtStr s)
    then show ?thesis
      using at_read_str [of _ s] assms nextTok_quoted [of s "[]"]
      by (simp add: nextTok_blanks at_tok_hasmore_def skipNextComma_def)
  qed
  show "at_read bits v (Some (replicate k 32 @ at_render v @ 44 # rest)) = Some (v, Some rest)"
  proof (cases v)
    case (AtInt n)
    then show ?thesis
      using at_read_int [of n bits _ "Some rest"] assms nextTok_plain(2) [OF render_int_token]
      by (simp add: nextTok_blanks del: at_render.simps)
  next
    case (AtStr s)
    then show ?thesis
      using at_read_str [of _ s] assms nextTok_quoted [of s "44 # rest"]
      by (simp add: nextTok_blanks skipNextComma_def)
  qed
qed

lemma at_read_fields:
  assumes "\<forall>(k, v) \<in> set fs. at_value_ok v" and "32 \<le> bits" and "fs \<noteq> []"
  shows "\<exists>p. at_read_all bits (map snd fs) (Some (at_fields fs)) = Some (map snd fs, p) \<and> \<not> at_tok_hasmore p"
  using assms
proof (induction fs rule: at_fields.induct)
  case (2 k v)
  then show ?case using at_read_field(1) [of v bits k] by auto
next
  case (3 k v f fs)
  then obtain p where p: "at_read_all bits (map snd (f # fs)) (Some (at_fields (f # fs))) = Some (map snd (f # fs), p)"
      "\<not> at_tok_hasmore p" by auto
  have "at_read bits v (Some (at_fields ((k, v) # f # fs))) = Some (v, Some (at_fields (f # fs)))"
    using at_read_field(2) [of v bits k] 3(2,3) by simp
  then have "at_read_all bits (v # map snd (f # fs)) (Some (at_fields ((k, v) # f # fs))) =
      Some (v # map snd (f # fs), p)"
    unfolding at_read_all.simps(2) [of bits v] by (simp only: p(1) bind.bind_lunit prod.case)
  then show ?case using p(2) by auto
qed simp

end
