(* ===== verification/At_Collect.thy ===== *)
theory At_Collect
  imports At_Reader At_Tok_Correct
begin

text \<open>
  What a command gets: the lines that arrive while it waits, sorted into its response and into
  unsolicited lines, as a reference definition on the list of lines says it; and the state in which
  a command leaves the channel.
\<close>

section \<open>Writing\<close>

text \<open>Writing changes nothing but the trace and the number of system calls.\<close>

definition only_trace :: "at_channel \<Rightarrow> at_channel \<Rightarrow> bool" where
  "only_trace s s' \<longleftrightarrow> (\<exists>t es. s' = s\<lparr>at_tick := t, at_trace := at_trace s @ es\<rparr>)"

lemma only_trace_refl [simp]: "only_trace s s"
  unfolding only_trace_def by (intro exI [of _ "at_tick s"] exI [of _ "[]"]) simp

lemma only_trace_trans:
  assumes "only_trace s u" and "only_trace u s'"
  shows "only_trace s s'"
proof -
  obtain t es k fs where u: "u = s\<lparr>at_tick := t, at_trace := at_trace s @ es\<rparr>"
      "s' = u\<lparr>at_tick := k, at_trace := at_trace u @ fs\<rparr>"
    using assms by (auto simp: only_trace_def)
  then show ?thesis unfolding only_trace_def by (intro exI [of _ k] exI [of _ "es @ fs"]) simp
qed

lemma only_trace_tick: "only_trace s (s\<lparr>at_tick := t\<rparr>)"
  unfolding only_trace_def by (intro exI [of _ t] exI [of _ "[]"]) simp

lemma only_trace_emit: "only_trace s (at_emit e (s\<lparr>at_tick := t\<rparr>))"
  unfolding only_trace_def at_emit_def by (intro exI [of _ t] exI [of _ "[e]"]) simp

lemma write_string_trace: "write_string W str cur s = Some (ok, s') \<Longrightarrow> only_trace s s'"
proof -
  have "write_string W str cur s = Some y \<Longrightarrow> only_trace s (snd y)" for y
  proof (erule write_string.raw_induct [rotated, where P = "\<lambda>W str cur s y. only_trace s (snd y)"], goal_cases)
    case (1 ws W str cur s y)
    then show ?case
      by (auto simp: at_sys_def Let_def split: if_splits at_result.splits
          dest!: 1(1) intro: only_trace_trans [OF only_trace_emit] only_trace_trans [OF only_trace_tick] only_trace_tick)
  qed
  then show "write_string W str cur s = Some (ok, s') \<Longrightarrow> only_trace s s'" by fastforce
qed

lemma write_char_trace: "write_char W c s = Some (ok, s') \<Longrightarrow> only_trace s s'"
proof -
  have "write_char W c s = Some y \<Longrightarrow> only_trace s (snd y)" for y
  proof (erule write_char.raw_induct [rotated, where P = "\<lambda>W c s y. only_trace s (snd y)"], goal_cases)
    case (1 wc W c s y)
    then show ?case
      by (auto simp: at_sys_def Let_def split: if_splits at_result.splits
          dest!: 1(1) intro: only_trace_emit only_trace_trans [OF only_trace_tick] only_trace_tick)
  qed
  then show "write_char W c s = Some (ok, s') \<Longrightarrow> only_trace s s'" by fastforce
qed

lemma write_terminated_trace: "write_terminated W c str s = Some (err, s') \<Longrightarrow> only_trace s s'"
  by (auto simp: write_terminated_def split: if_splits Option.bind_splits
      dest!: write_string_trace write_char_trace elim: only_trace_trans)

lemma writeline_trace: "writeline W str s = Some (err, s') \<Longrightarrow> only_trace s s'"
  by (simp add: writeline_def write_terminated_trace)

section \<open>The reference\<close>

text \<open>
  Which lines a command takes for its response, all of them or only the first: those with its prefix,
  or those that start with a digit.
\<close>

fun takes :: "ATCommandType \<Rightarrow> cstr \<Rightarrow> u8 list \<Rightarrow> bool" where
  "takes NO_RESULT p line = False"
| "takes NUMERIC p line = (line \<noteq> [] \<and> isdigit (hd line))"
| "takes SINGLELINE p line = (case p of Some pre \<Rightarrow> prefix pre line | None \<Rightarrow> False)"
| "takes MULTILINE p line = (case p of Some pre \<Rightarrow> prefix pre line | None \<Rightarrow> False)"

definition response_lines :: "ATCommandType \<Rightarrow> cstr \<Rightarrow> u8 list list \<Rightarrow> u8 list list" where
  "response_lines type p ls =
     (if type = MULTILINE then filter (takes type p) ls else take 1 (filter (takes type p) ls))"

definition other_lines :: "ATCommandType \<Rightarrow> cstr \<Rightarrow> u8 list list \<Rightarrow> u8 list list" where
  "other_lines type p ls =
     (if type = MULTILINE then filter (\<lambda>l. \<not> takes type p l) ls
      else takeWhile (\<lambda>l. \<not> takes type p l) ls @ tl (dropWhile (\<lambda>l. \<not> takes type p l) ls))"

text \<open>Commands with a prefix have one.\<close>

definition prefix_ok :: "ATCommandType \<Rightarrow> cstr \<Rightarrow> bool" where
  "prefix_ok type p \<longleftrightarrow> type \<in> {SINGLELINE, MULTILINE} \<longrightarrow> p \<noteq> None"

lemma response_lines_snoc:
  "response_lines type p (ls @ [l]) =
    (if takes type p l \<and> (type = MULTILINE \<or> response_lines type p ls = []) then response_lines type p ls @ [l]
     else response_lines type p ls)"
  by (cases "filter (takes type p) ls") (auto simp: response_lines_def)

lemma other_lines_snoc:
  "other_lines type p (ls @ [l]) =
    (if takes type p l \<and> (type = MULTILINE \<or> response_lines type p ls = []) then other_lines type p ls
     else other_lines type p ls @ [l])"
proof (cases "type = MULTILINE")
  case True
  then show ?thesis by (simp add: other_lines_def)
next
  case False
  show ?thesis
  proof (cases "\<forall>k \<in> set ls. \<not> takes type p k")
    case True
    then have "takeWhile (\<lambda>l. \<not> takes type p l) ls = ls" "dropWhile (\<lambda>l. \<not> takes type p l) ls = []"
      by (auto simp: takeWhile_eq_all_conv dropWhile_eq_Nil_conv)
    then have "other_lines type p ls = ls" using False by (simp only: other_lines_def if_False append_Nil2 list.sel(2))
    then show ?thesis using True False by (simp add: other_lines_def response_lines_def takeWhile_append2 dropWhile_append2)
  next
    case no: False
    then have "dropWhile (\<lambda>l. \<not> takes type p l) ls \<noteq> []" by (auto simp: dropWhile_eq_Nil_conv)
    then have "other_lines type p (ls @ [l]) = other_lines type p ls @ [l]"
      using False dropWhile_more [of "\<lambda>l. \<not> takes type p l" ls "[l]"] by (simp add: other_lines_def)
    then show ?thesis using no False by (simp add: response_lines_def filter_empty_conv)
  qed
qed

section \<open>The lines of a command\<close>

text \<open>Lines that are neither final nor the prompt for a text message that waits.\<close>

definition plain_line :: "u8 list \<Rightarrow> bool" where
  "plain_line line \<longleftrightarrow> \<not> isFinalResponse line \<and> line \<noteq> sms_prompt"

definition unsolicited_lines :: "at_channel \<Rightarrow> u8 list list \<Rightarrow> at_effect list" where
  "unsolicited_lines s ls = (if s_unsolHandler s then map (\<lambda>l. Unsolicited_line l None) ls else [])"

text \<open>The channel with a pending command that has got the lines \<open>ls\<close>.\<close>

definition with_lines :: "at_channel \<Rightarrow> u8 list list \<Rightarrow> at_channel" where
  "with_lines s ls = s\<lparr>sp_response := Some (at_response_new\<lparr>p_intermediates :=
       rev (response_lines (s_type s) (s_responsePrefix s) ls)\<rparr>),
     at_trace := at_trace s @ unsolicited_lines s (other_lines (s_type s) (s_responsePrefix s) ls)\<rparr>"

lemma processLine_plain:
  assumes "plain_line l" and "prefix_ok (s_type s) (s_responsePrefix s)"
  shows "processLine W l (with_lines s ls) = Some (with_lines s (ls @ [l]))"
proof -
  have not_final: "\<not> isFinalResponseSuccess l" "\<not> isFinalResponseError l" "l \<noteq> sms_prompt"
    using assms(1) by (simp_all add: plain_line_def isFinalResponse_def)
  let ?R = "response_lines (s_type s) (s_responsePrefix s) ls"
  have "processLine W l (with_lines s ls) =
      (if takes (s_type s) (s_responsePrefix s) l \<and> (s_type s = MULTILINE \<or> ?R = [])
       then addIntermediate l (with_lines s ls) else Some (handleUnsolicited l (with_lines s ls)))"
    using not_final assms(2)
    by (cases "s_type s"; cases "s_responsePrefix s")
      (auto simp: processLine_def with_lines_def at_response_new_def prefix_ok_def strStartsWith_prefix)
  then show ?thesis
    by (simp add: with_lines_def response_lines_snoc other_lines_snoc addIntermediate_def set_response_def
        handleUnsolicited_def at_emit_def unsolicited_lines_def)
qed

lemma processLines_plain:
  assumes "\<forall>l \<in> set ls. plain_line l" and "prefix_ok (s_type s) (s_responsePrefix s)"
  shows "foldM (processLine W) ls (with_lines s done) = Some (with_lines s (done @ ls))"
  using assms(1)
proof (induction ls arbitrary: "done")
  case (Cons l ls)
  then show ?case using processLine_plain [OF _ assms(2)] by simp
qed simp

lemma send_sleep_lines:
  "send_sleep W timed wanted (map Reader_line ls @ es) s =
   foldM (processLine W) ls s \<bind> send_sleep W timed wanted es"
proof (induction ls arbitrary: s)
  case (Cons l ls)
  then show ?case by (cases "processLine W l s") (simp_all add: at_other_def)
qed simp

lemma processLine_final:
  assumes "isFinalResponse f"
  shows "processLine W f (with_lines s ls) = Some ((with_lines s ls)\<lparr>sp_response := Some \<lparr>
    success = isFinalResponseSuccess f, finalResponse = Some f,
    p_intermediates = rev (response_lines (s_type s) (s_responsePrefix s) ls)\<rparr>\<rparr>)"
  using assms
  by (auto simp: processLine_def with_lines_def isFinalResponse_def set_response_def handleFinalResponse_def
      at_response_new_def)

lemma reverse_loop: "reverse_loop xs ys = rev xs @ ys"
  by (induction xs ys rule: reverse_loop.induct) simp_all

lemma command_collects:
  assumes "sp_response s = None" and "writeline W command s = Some (0, s1)" and "\<not> s_readerClosed s"
    and "prefix_ok type p" and ls: "\<forall>l \<in> set ls. plain_line l" and f: "isFinalResponse f"
  shows "at_send_command_full_nolock W command type p pdu timed wanted (map Reader_line (ls @ [f]) @ Wake # es) s =
    Some (Done 0 (if wanted then Some \<lparr>success = isFinalResponseSuccess f, finalResponse = Some f,
        p_intermediates = response_lines type p ls\<rparr> else None) es
      (clearPendingCommand (s1\<lparr>s_type := type, at_trace := at_trace s1 @ unsolicited_lines s1 (other_lines type p ls)\<rparr>)))"
proof -
  let ?b = "s1\<lparr>s_type := type, s_responsePrefix := p, s_smsPDU := pdu, sp_response := Some at_response_new\<rparr>"
  let ?resp = "\<lparr>success = isFinalResponseSuccess f, finalResponse = Some f,
      p_intermediates = rev (response_lines type p ls)\<rparr>"
  have open_channel: "\<not> s_readerClosed s1"
    using writeline_trace [OF assms(2)] assms(3) by (auto simp: only_trace_def)
  have b: "?b = with_lines ?b []" by (simp add: with_lines_def response_lines_def other_lines_def unsolicited_lines_def
      at_response_new_def)
  have "foldM (processLine W) (ls @ [f]) ?b = Some ((with_lines ?b ls)\<lparr>sp_response := Some ?resp\<rparr>)"
    using processLines_plain [OF ls, of ?b W "[]"] processLine_final [OF f, of W ?b ls] assms(4)
    by (subst b) (simp add: foldM_append)
  moreover have "send_sleep W timed wanted (Wake # es) ((with_lines ?b ls)\<lparr>sp_response := Some ?resp\<rparr>) =
      send_end wanted es ((with_lines ?b ls)\<lparr>sp_response := Some ?resp\<rparr>)"
    by (simp add: send_waits_def)
  moreover have "send_end wanted es ((with_lines ?b ls)\<lparr>sp_response := Some ?resp\<rparr>) =
    Some (Done 0 (if wanted then Some (reverseIntermediates ?resp) else None) es
      (clearPendingCommand (s1\<lparr>s_type := type, at_trace := at_trace s1 @ unsolicited_lines s1 (other_lines type p ls)\<rparr>)))"
    using open_channel by (simp add: send_end_def with_lines_def clearPendingCommand_def unsolicited_lines_def)
  ultimately show ?thesis
    using assms(1,2) open_channel send_sleep_lines [of W timed wanted "ls @ [f]" "Wake # es" ?b]
    by (simp add: at_send_command_full_nolock_def send_begin_def send_waits_def at_response_new_def
        reverseIntermediates_def reverse_loop)
qed

section \<open>After a command\<close>

definition no_command :: "at_channel \<Rightarrow> bool" where
  "no_command s \<longleftrightarrow> sp_response s = None \<and> s_responsePrefix s = None \<and> s_smsPDU s = None"

lemma no_command_cleared [simp]: "no_command (clearPendingCommand s)"
  by (simp add: no_command_def clearPendingCommand_def)

lemma send_sleep_clears: "send_sleep W timed wanted es s = Some (Done err resp fs s') \<Longrightarrow> no_command s'"
  by (induction W timed wanted es s rule: send_sleep.induct)
    (auto simp: send_end_def split: if_splits Option.bind_splits)

lemma nolock_clears:
  "at_send_command_full_nolock W command type p pdu timed wanted es s = Some (Done err resp fs s') \<Longrightarrow> no_command s'"
  by (auto simp: at_send_command_full_nolock_def send_begin_def send_end_def
      split: if_splits Option.bind_splits dest!: send_sleep_clears)

lemma no_command_emit [simp]: "no_command (at_emit e s) = no_command s"
  by (simp add: no_command_def at_emit_def)

lemma full_clears:
  assumes "at_send_command_full W command type p pdu timed wanted es s = Some (Done err resp fs s')" and "\<not> on_reader s"
  shows "no_command s'"
proof -
  obtain out where out: "at_send_command_full_nolock W command type p pdu timed wanted es s = Some out"
    using assms by (auto simp: at_send_command_full_def)
  then show ?thesis
    using assms nolock_clears [of W command type p pdu timed wanted es s]
    by (cases out) (auto simp: at_send_command_full_def split: if_splits)
qed

text \<open>A wanted response that is returned without an error has a final line, or the channel was closed.\<close>

lemma send_sleep_final:
  "send_sleep W timed wanted es s = Some (Done 0 (Some resp) fs s') \<Longrightarrow> finalResponse resp \<noteq> None"
  by (induction W timed wanted es s rule: send_sleep.induct)
    (auto simp: send_end_def send_waits_def reverseIntermediates_def split: if_splits Option.bind_splits)

section \<open>The prompt for a text message\<close>

text \<open>
  After the prompt \<open>readline\<close> puts the cursor one place behind the zero that ends the text, so that
  what an earlier line has left there counts as input.
\<close>

lemma prompt_skips_end:
  assumes at: "text_at (s_ATBuffer s) (s_ATBufferCur s) sms_prompt"
    and old: "text_at (s_ATBuffer s) (s_ATBufferCur s + 3) v"
  shows "\<exists>s'. readline W s = Some (Some sms_prompt, s') \<and> unread s' v \<and> at_input s' = at_input s"
proof -
  let ?cur = "s_ATBufferCur s"
  have first: "aget (s_ATBuffer s) ?cur = Some 62" using text_at_nth [OF at, of 0] by (simp add: sms_prompt_def)
  have "takeWhile is_eol sms_prompt = []" by (simp add: sms_prompt_def is_eol_def)
  then have skip: "skip_newlines (s_ATBuffer s) ?cur = Some ?cur" using skip_newlines_text(1) [OF at] by simp
  have eol: "findNextEOL (s_ATBuffer s) ?cur = Some (Some (?cur + 2))"
    using at_prompt_text [OF at] by (simp add: findNextEOL_def)
  have len: "?cur + 2 < length (s_ATBuffer s)" "s_ATBuffer s ! (?cur + 2) = 0"
    using text_at_nth [OF at, of 2] by (auto simp: aget_def sms_prompt_def split: if_splits)
  obtain junk where j: "drop ?cur (s_ATBuffer s) = sms_prompt @ 0 # junk" using at by (auto simp: text_at_def)
  have "takeWhile (\<lambda>c. c \<noteq> 0) (take (?cur + 2 - ?cur) (drop ?cur (s_ATBuffer s))) = sms_prompt"
    unfolding j by (simp add: sms_prompt_def)
  moreover have "(s_ATBuffer s)[?cur + 2 := 0] = s_ATBuffer s" using len(2) by (metis list_update_id)
  moreover have "aput (s_ATBuffer s) (?cur + 2) 0 = Some ((s_ATBuffer s)[?cur + 2 := 0])" using len(1) by (simp add: aput_def)
  ultimately have "readline W s = Some (Some sms_prompt, s\<lparr>s_ATBufferCur := ?cur + 3\<rparr>)"
    using first skip eol by (simp add: readline_def readline_loop_found)
  then show ?thesis using old by (simp add: unread_def)
qed

text \<open>A second command, from another thread, takes the response of the first one away.\<close>

lemma second_command_breaks_first:
  assumes "sp_response s \<noteq> None"
  shows "send_sleep W timed wanted (Other_command c # Wake # es) s = None"
  using assms by (simp add: at_other_def send_begin_def send_waits_def clearPendingCommand_def)

end
