(* ===== verification/At_Correct.thy ===== *)
theory At_Correct
  imports At_Collect
begin

text \<open>
  The properties of the AT channel and its tokenizer, with an instance of each in a concrete world: a
  modem whose bytes arrive three at a time.
\<close>

section \<open>A concrete world\<close>

definition demo_modem :: at_world where
  "demo_modem = \<lparr>aw_read = (\<lambda>n. if even n then Moved 3 else Failed True), aw_write = (\<lambda>n. Moved 2)\<rparr>"

definition demo_channel :: "u8 list \<Rightarrow> at_channel" where
  "demo_channel inp = \<lparr>s_fd = 5, s_unsolHandler = True, s_onTimeout = False, s_onReaderClosed = False,
     s_ATBuffer = replicate (MAX_AT_RESPONSE + 1) 0, s_ATBufferCur = 0, s_type = NO_RESULT, s_responsePrefix = None,
     s_smsPDU = None, sp_response = None, s_readerClosed = False, on_reader = False, at_input = inp, at_tick = 0,
     at_trace = []\<rparr>"

lemma demo_modem_reads: "reads_ok demo_modem"
proof -
  have "\<exists>m \<ge> n. aw_read demo_modem m \<noteq> Failed True" for n
    by (intro exI [of _ "2 * n"]) (simp add: demo_modem_def)
  then show ?thesis by (auto simp: reads_ok_def) (auto simp: demo_modem_def split: if_splits)
qed

lemma demo_unread: "unread (demo_channel inp) []"
  by (simp add: unread_def text_at_def demo_channel_def)

section \<open>Lines\<close>

text \<open>C16: However the bytes of the modem arrive, the reader thread hands exactly the lines of the whole
  text, in order, to \<open>processLine\<close>, and then closes the channel: empty lines are skipped, and a line
  that does not end is not delivered. This is so for texts without the prompt for a short message and
  without lines that fill the buffer.\<close>

theorem reader_splits_lines:
  assumes "reads_ok W" and "unread s u" and "readable (u @ at_input s)" and "s_smsPDU s = None"
    and "foldM (processLine W) (lines_of (u @ at_input s)) s = Some v"
  shows "\<exists>s'. readerLoop W s = Some (onReaderClosed s') \<and> only_input v s'"
  by (rule readerLoop_splits [OF assms(1-3) only_input_refl assms(4,5)])

lemma demo_text:
  "lines_of [13, 10, 79, 75, 13, 10, 43, 65] = [[79, 75]]" "readable [13, 10, 79, 75, 13, 10, 43, 65]"
proof -
  have l: "first_line [13, 10, 79, 75, 13, 10, 43, 65] = Some ([79, 75], [10, 43, 65])" "first_line [10, 43, 65] = None"
    by (simp_all add: first_line_def is_eol_def)
  show "lines_of [13, 10, 79, 75, 13, 10, 43, 65] = [[79, 75]]"
    by (subst lines_of.simps, simp add: l, subst lines_of.simps, simp add: l)
  have "line_start_ok [13, 10, 79, 75, 13, 10, 43, 65]" "line_start_ok [10, 43, 65]"
    by (simp_all add: line_start_ok_def is_eol_def sms_prompt_def MAX_AT_RESPONSE_def)
  then show "readable [13, 10, 79, 75, 13, 10, 43, 65]"
    by (subst readable.simps, simp add: l, subst readable.simps, simp add: l)
qed

theorem reader_splits_lines_witness:
  "\<exists>s'. readerLoop demo_modem (demo_channel [13, 10, 79, 75, 13, 10, 43, 65]) = Some s' \<and>
    at_trace s' = [Unsolicited_line [79, 75] None]"
proof -
  let ?s = "demo_channel [13, 10, 79, 75, 13, 10, 43, 65]"
  have "at_input ?s = [13, 10, 79, 75, 13, 10, 43, 65]" "s_smsPDU ?s = None" "\<not> s_onReaderClosed ?s" "at_trace ?s = []"
    by (simp_all add: demo_channel_def)
  moreover have "processLine demo_modem [79, 75] ?s = Some (at_emit (Unsolicited_line [79, 75] None) ?s)"
    by (simp add: processLine_def demo_channel_def handleUnsolicited_def)
  ultimately show ?thesis
    using reader_splits_lines [OF demo_modem_reads demo_unread, of "[13, 10, 79, 75, 13, 10, 43, 65]"] demo_text
    by (force simp: only_input_def onReaderClosed_def at_emit_def)
qed


lemma demo_writeline: "\<exists>s1. writeline demo_modem [65, 84] (demo_channel []) = Some (0, s1) \<and> s_unsolHandler s1"
  unfolding writeline_def write_terminated_def
  by (simp add: write_string.simps write_char.simps demo_channel_def demo_modem_def at_sys_def at_emit_def)


text \<open>However a command ends, with a response, an error, a timeout or a closed channel, no command is
  pending after it: there is no response, prefix or text message left for the next one.\<close>

theorem command_leaves_none_pending:
  assumes "at_send_command_full W command type p pdu timed wanted es s = Some (Done err resp fs s')"
    and "\<not> on_reader s"
  shows "no_command s'"
  by (rule full_clears [OF assms])

theorem command_leaves_none_pending_witness:
  "\<exists>s'. at_send_command_full demo_modem [65, 84] NO_RESULT None None True True [Expire] (demo_channel []) =
    Some (Done AT_ERROR_TIMEOUT None [] s') \<and> no_command s'"
proof -
  obtain s1 where s1: "writeline demo_modem [65, 84] (demo_channel []) = Some (0, s1)" using demo_writeline by blast
  have frame: "only_trace (demo_channel []) s1" by (rule writeline_trace [OF s1])
  then have "\<not> s_readerClosed s1" "\<not> s_onTimeout s1" by (auto simp: only_trace_def demo_channel_def)
  then have "\<exists>s'. at_send_command_full demo_modem [65, 84] NO_RESULT None None True True [Expire] (demo_channel []) =
      Some (Done AT_ERROR_TIMEOUT None [] s')"
    using s1 by (simp add: at_send_command_full_def at_send_command_full_nolock_def send_begin_def send_waits_def
        at_response_new_def demo_channel_def clearPendingCommand_def)
  then show ?thesis using command_leaves_none_pending [where s = "demo_channel []"] by (fastforce simp: demo_channel_def)
qed

text \<open>C19: A command of another thread, sent while a command waits, takes the response of the waiting
  command away before it is refused: the waiting thread then follows a null pointer when it wakes up.\<close>

theorem second_command_destroys_response:
  assumes "sp_response s \<noteq> None"
  shows "send_sleep W timed wanted (Other_command c # Wake # es) s = None"
  by (rule second_command_breaks_first [OF assms])

theorem second_command_destroys_response_witness:
  "send_sleep demo_modem False True [Other_command [65, 84], Wake] ((demo_channel [])\<lparr>sp_response := Some at_response_new\<rparr>) = None"
  by (rule second_command_destroys_response) simp

text \<open>After the prompt for a short message the next line may be one that the modem never sent: what
  an earlier, longer line has left in the buffer behind the prompt counts as input that is left to
  read, since the cursor is set one place behind the zero that ends the text.\<close>

theorem prompt_revives_old_text:
  assumes "text_at (s_ATBuffer s) (s_ATBufferCur s) sms_prompt"
    and "text_at (s_ATBuffer s) (s_ATBufferCur s + 3) v"
  shows "\<exists>s'. readline W s = Some (Some sms_prompt, s') \<and> unread s' v \<and> at_input s' = at_input s"
  by (rule prompt_skips_end [OF assms])

text \<open>The prompt has overwritten the start of the line \<open>+CMGW: 12\<close>.\<close>

definition demo_prompt :: at_channel where
  "demo_prompt = (demo_channel [])\<lparr>s_ATBuffer := [62, 32, 0] @ chars ''GW: 12'' @ 0 # replicate (MAX_AT_RESPONSE - 9) 0\<rparr>"

lemma demo_prompt_text:
  "text_at (s_ATBuffer demo_prompt) (s_ATBufferCur demo_prompt) sms_prompt"
  "text_at (s_ATBuffer demo_prompt) (s_ATBufferCur demo_prompt + 3) (chars ''GW: 12'')"
proof -
  have buf: "s_ATBuffer demo_prompt = sms_prompt @ 0 # chars ''GW: 12'' @ 0 # replicate (MAX_AT_RESPONSE - 9) 0"
    "s_ATBufferCur demo_prompt = 0"
    by (simp_all add: demo_prompt_def demo_channel_def sms_prompt_def)
  have len: "length (s_ATBuffer demo_prompt) = MAX_AT_RESPONSE + 1"
    unfolding buf by (simp add: sms_prompt_def chars_def MAX_AT_RESPONSE_def)
  have zero: "0 \<notin> set sms_prompt" "0 \<notin> set (chars ''GW: 12'')" by (simp_all add: sms_prompt_def chars_def)
  show "text_at (s_ATBuffer demo_prompt) (s_ATBufferCur demo_prompt) sms_prompt"
    using len zero(1) unfolding text_at_def buf(2) by (auto simp: buf(1))
  have "drop 3 (s_ATBuffer demo_prompt) = chars ''GW: 12'' @ 0 # replicate (MAX_AT_RESPONSE - 9) 0"
    unfolding buf by (simp add: sms_prompt_def eval_nat_numeral)
  then show "text_at (s_ATBuffer demo_prompt) (s_ATBufferCur demo_prompt + 3) (chars ''GW: 12'')"
    using len zero(2) unfolding text_at_def buf(2) by auto
qed

theorem prompt_revives_old_text_witness:
  "\<exists>s'. readline demo_modem demo_prompt = Some (Some sms_prompt, s') \<and> unread s' (chars ''GW: 12'')"
  using prompt_revives_old_text [OF demo_prompt_text, of demo_modem] by blast

section \<open>Tokens\<close>

text \<open>C18: The tokenizer reads back the fields of a response: a line of integers and quoted strings, with
  blanks before them and commas between them, behind a prefix and a colon, gives these integers and
  strings when each field is read with the function for its type, and then there are no more.\<close>

theorem tokens_round_trip:
  assumes "\<forall>(k, v) \<in> set fs. at_value_ok v" and "32 \<le> bits" and "fs \<noteq> []" and "58 \<notin> set pre"
  shows "\<exists>p q. at_tok_start (Some (pre @ 58 # at_fields fs)) = (0, p) \<and>
    at_read_all bits (map snd fs) p = Some (map snd fs, q) \<and> \<not> at_tok_hasmore q"
proof -
  have "\<forall>c \<in> set pre. c \<noteq> 58" using assms(4) by auto
  then have "at_tok_start (Some (pre @ 58 # at_fields fs)) = (0, Some (at_fields fs))"
    by (simp add: at_tok_start_def dropWhile_append2)
  then show ?thesis using at_read_fields [OF assms(1-3)] by auto
qed

theorem tokens_round_trip_witness:
  "\<exists>p q. at_tok_start (Some (chars ''+COPS:'' @ at_fields [(1, AtInt (- 7)), (0, AtStr (chars ''A,B''))])) = (0, p) \<and>
    at_read_all 32 [AtInt (- 7), AtStr (chars ''A,B'')] p = Some ([AtInt (- 7), AtStr (chars ''A,B'')], q)"
proof -
  have "\<forall>(k, v) \<in> set [(1 :: nat, AtInt (- 7)), (0, AtStr (chars ''A,B''))]. at_value_ok v" "58 \<notin> set (chars ''+COPS'')"
    "chars ''+COPS:'' = chars ''+COPS'' @ [58]" by (simp_all add: chars_def)
  then show ?thesis
    using tokens_round_trip [of "[(1, AtInt (- 7)), (0, AtStr (chars ''A,B''))]" 32 "chars ''+COPS''"]
    by (simp del: at_fields.simps) blast
qed

end
