(* ===== verification/Ref_State.thy ===== *)
theory Ref_State
  imports Ril_Vendor At_Collect
begin

text \<open>
  The state of \<open>reference-ril/reference-ril.c\<close>, a vendor library that drives an AT modem: what its
  handlers do to the outside, the radio state, unsolicited lines, and how a handler sends a command.
  The code is that of its makefile: \<open>RIL_SHLIB\<close> is defined, \<open>USE_TI_COMMANDS\<close> and
  \<open>POLL_CALL_STATE\<close> are not.

  The calls of the functions of \<open>ril.h\<close> are collected in \<open>calls\<close>; \<open>Ref_Vendor\<close> hands them to the
  daemon. A command runs on the channel of \<open>At_Command\<close>; what the reader thread does meanwhile is a
  list of events. The callbacks that the channel makes are listed in its trace and run when the command
  has ended: nothing on the way looks at what they change.
\<close>

section \<open>State\<close>

datatype ref_effect = Wrote_qmi "u8 list" | Ran "u8 list"

record ref_ril =
  sState :: RIL_RadioState
  s_closed :: bool
  s_port :: i32
  s_device_path :: cstr
  s_device_socket :: bool
  chan :: at_channel
  script :: "at_event list"      \<comment> \<open>what the other threads will do on the channel\<close>
  calls :: "vendor_call list"
  ref_tick :: nat
  ref_trace :: "ref_effect list"

datatype ref_read = Got "u8 list" | Read_error bool      \<comment> \<open>\<open>True\<close>: \<open>errno\<close> is \<open>EINTR\<close>\<close>

record ref_world =
  rw_abi :: abi
  rw_at :: at_world
  rw_open :: "nat \<Rightarrow> int"        \<comment> \<open>a descriptor, or a negative number\<close>
  rw_write :: "nat \<Rightarrow> at_result"
  rw_read :: "nat \<Rightarrow> ref_read"
  rw_system :: "nat \<Rightarrow> int"
  rw_thread :: "nat \<Rightarrow> int"

definition ref_sys :: "(nat \<Rightarrow> 'a) \<Rightarrow> ref_ril \<Rightarrow> 'a \<times> ref_ril" where
  "ref_sys f s = (f (ref_tick s), s\<lparr>ref_tick := Suc (ref_tick s)\<rparr>)"

definition ref_emit :: "ref_effect \<Rightarrow> ref_ril \<Rightarrow> ref_ril" where
  "ref_emit e s = s\<lparr>ref_trace := ref_trace s @ [e]\<rparr>"

definition psize :: "ref_world \<Rightarrow> nat" where "psize W = ptr_size (rw_abi W)"

text \<open>The bits of a \<open>long\<close>, which has the size of a pointer.\<close>

definition long_bits :: "ref_world \<Rightarrow> nat" where "long_bits W = 8 * psize W"

section \<open>Calls of the daemon\<close>

definition complete :: "addr \<Rightarrow> RIL_Errno \<Rightarrow> resp_data option \<Rightarrow> nat \<Rightarrow> ref_ril \<Rightarrow> ref_ril" where
  "complete t e response responselen s = s\<lparr>calls := calls s @ [Complete t e response responselen]\<rparr>"

definition unsolicited :: "i32 \<Rightarrow> resp_data option \<Rightarrow> nat \<Rightarrow> ref_ril \<Rightarrow> ref_ril" where
  "unsolicited code data datalen s = s\<lparr>calls := calls s @ [Unsolicited code data datalen]\<rparr>"

definition request_timed :: "nat \<Rightarrow> timeval option \<Rightarrow> ref_ril \<Rightarrow> ref_ril" where
  "request_timed callback tv s = s\<lparr>calls := calls s @ [RequestTimed callback NULL tv]\<rparr>"

text \<open>The functions that are passed to \<open>RIL_requestTimedCallback\<close>.\<close>

definition cb_sendCallStateChanged :: nat where "cb_sendCallStateChanged = 0"
definition cb_onDataCallListChanged :: nat where "cb_onDataCallListChanged = 1"
definition cb_initializeCallback :: nat where "cb_initializeCallback = 2"

definition TIMEVAL_CALLSTATEPOLL :: timeval where "TIMEVAL_CALLSTATEPOLL = Timeval 0 500000"
definition TIMEVAL_0 :: timeval where "TIMEVAL_0 = Timeval 0 0"

section \<open>The radio state\<close>

definition onSIMReady :: "ref_ril \<Rightarrow> ref_ril" where "onSIMReady s = s"

text \<open>The section of \<open>setRadioState\<close> protected by \<open>s_state_mutex\<close>.\<close>

definition store_state :: "RIL_RadioState \<Rightarrow> ref_ril \<Rightarrow> ref_ril" where
  "store_state newState s =
     (let newState = (if s_closed s then RADIO_STATE_UNAVAILABLE else newState)
      in if sState s \<noteq> newState \<or> s_closed s then s\<lparr>sState := newState\<rparr> else s)"

text \<open>
  \<open>setRadioState\<close> calls \<open>onRadioPowerOn\<close>, that calls \<open>pollSIMState\<close>, that calls \<open>setRadioState\<close> again,
  with \<open>RADIO_STATE_SIM_READY\<close>.
\<close>

function setRadioState :: "RIL_RadioState \<Rightarrow> ref_ril \<Rightarrow> ref_ril" where
  "setRadioState newState s =
     (let oldState = sState s;
          s = store_state newState s
      in if sState s \<noteq> oldState then
           (let s = unsolicited RIL_UNSOL_RESPONSE_RADIO_STATE_CHANGED None 0 s
            in if sState s = RADIO_STATE_SIM_READY then onSIMReady s
               else if sState s = RADIO_STATE_SIM_NOT_READY then setRadioState RADIO_STATE_SIM_READY s
               else s)
         else s)"
  by pat_completeness auto
termination
  by (relation "measure (\<lambda>(newState, s). if newState = RADIO_STATE_SIM_NOT_READY then 1 else 0)")
    (auto simp: store_state_def unsolicited_def Let_def split: if_splits)

declare setRadioState.simps [simp del]

definition pollSIMState :: "ref_ril \<Rightarrow> ref_ril" where
  "pollSIMState s = setRadioState RADIO_STATE_SIM_READY s"

definition onRadioPowerOn :: "ref_ril \<Rightarrow> ref_ril" where
  "onRadioPowerOn s = pollSIMState s"

text \<open>The query of the modem is under \<open>#if 0\<close>.\<close>

definition isRadioOn :: "ref_ril \<Rightarrow> int" where "isRadioOn s = 1"

definition initializeCallback :: "ref_ril \<Rightarrow> ref_ril" where
  "initializeCallback s =
     (let s = setRadioState RADIO_STATE_OFF s
      in if isRadioOn s > 0 then setRadioState RADIO_STATE_SIM_NOT_READY s else s)"

section \<open>Callbacks of the channel\<close>

text \<open>\<open>strlen\<close> of a null pointer is undefined.\<close>

definition strlen :: "cstr \<Rightarrow> nat option" where "strlen p = map_option length p"

definition onUnsolicited :: "ref_world \<Rightarrow> u8 list \<Rightarrow> cstr \<Rightarrow> ref_ril \<Rightarrow> ref_ril option" where
  "onUnsolicited W line sms_pdu s =
     (if sState s = RADIO_STATE_UNAVAILABLE then Some s
      else if strStartsWith line (chars ''^DCONN:'') then
        Some (unsolicited RIL_UNSOL_NDIS_DIAL (Some (RStrings [Some line])) (psize W) s)
      else if strStartsWith line (chars ''%CTZV:'') then
        (let (_, p) = at_tok_start (Some line);
             (err, response, p) = at_tok_nextstr p
         in if err \<noteq> 0 then Some s
            else do {
              response \<leftarrow> response;
              n \<leftarrow> strlen response;
              Some (unsolicited RIL_UNSOL_NITZ_TIME_RECEIVED (map_option RString response) n s) })
      else if strStartsWith line (chars ''+CRING:'') \<or> strStartsWith line (chars ''RING'')
          \<or> strStartsWith line (chars ''NO CARRIER'') \<or> strStartsWith line (chars ''+CCWA'') then
        Some (unsolicited RIL_UNSOL_RESPONSE_CALL_STATE_CHANGED None 0 s)
      else if strStartsWith line (chars ''+CREG:'') \<or> strStartsWith line (chars ''+CGREG:'') then
        Some (unsolicited RIL_UNSOL_RESPONSE_NETWORK_STATE_CHANGED None 0 s)
      else if strStartsWith line (chars ''+CMT:'') then do {
        n \<leftarrow> strlen sms_pdu;
        Some (unsolicited RIL_UNSOL_RESPONSE_NEW_SMS (map_option RString sms_pdu) n s) }
      else if strStartsWith line (chars ''+CDS:'') then do {
        n \<leftarrow> strlen sms_pdu;
        Some (unsolicited RIL_UNSOL_RESPONSE_NEW_SMS_STATUS_REPORT (map_option RString sms_pdu) n s) }
      else if strStartsWith line (chars ''+CGEV:'') then
        Some (request_timed cb_onDataCallListChanged None s)
      else if strStartsWith line (chars ''%CDCONN:'') then do {
        n \<leftarrow> strlen sms_pdu;
        Some (unsolicited RIL_UNSOL_NDIS_DIAL (map_option RString sms_pdu) n s) }
      else Some s)"

text \<open>\<open>onATReaderClosed\<close> and \<open>onATTimeout\<close> differ only in what they print.\<close>

definition onATReaderClosed :: "ref_ril \<Rightarrow> ref_ril" where
  "onATReaderClosed s =
     (let s = s\<lparr>chan := at_close (chan s)\<rparr>;
          s = s\<lparr>s_closed := True\<rparr>
      in setRadioState RADIO_STATE_UNAVAILABLE s)"

definition onATTimeout :: "ref_ril \<Rightarrow> ref_ril" where
  "onATTimeout s =
     (let s = s\<lparr>chan := at_close (chan s)\<rparr>;
          s = s\<lparr>s_closed := True\<rparr>
      in setRadioState RADIO_STATE_UNAVAILABLE s)"

text \<open>The callbacks that the channel made, in order.\<close>

definition called_back :: "ref_world \<Rightarrow> at_effect \<Rightarrow> ref_ril \<Rightarrow> ref_ril option" where
  "called_back W e s = (case e of
       Unsolicited_line line pdu \<Rightarrow> onUnsolicited W line pdu s
     | Wrote_modem bs \<Rightarrow> Some s
     | Called_onTimeout \<Rightarrow> Some (onATTimeout s)
     | Called_onReaderClosed \<Rightarrow> Some (onATReaderClosed s))"

text \<open>The channel goes on to \<open>c\<close>, and its callbacks run.\<close>

definition channel_moves :: "ref_world \<Rightarrow> at_channel \<Rightarrow> ref_ril \<Rightarrow> ref_ril option" where
  "channel_moves W c s =
     foldM (called_back W) (drop (length (at_trace (chan s))) (at_trace c)) (s\<lparr>chan := c\<rparr>)"

section \<open>Commands\<close>

text \<open>
  A handler returns, or it still waits for the modem when the list of events is over. It is written with
  the rest of its code as an argument of every call that may wait: the error, the response if one is
  stored through \<open>pp_outResponse\<close>, and the state.
\<close>

datatype ref_result = Returns ref_ril | Waits ref_ril

type_synonym ref_cont = "int \<Rightarrow> ATResponse option \<Rightarrow> ref_ril \<Rightarrow> ref_result option"

definition at_call ::
    "ref_world \<Rightarrow> (at_event list \<Rightarrow> at_channel \<Rightarrow> at_outcome option) \<Rightarrow> ref_cont \<Rightarrow> ref_ril \<Rightarrow> ref_result option" where
  "at_call W f k s = do {
     out \<leftarrow> f (script s) (chan s);
     case out of
       Done err p_response es c \<Rightarrow> do {
         s \<leftarrow> channel_moves W c s;
         k err p_response (s\<lparr>script := es\<rparr>) }
     | Still_waiting c \<Rightarrow> do {
         s \<leftarrow> channel_moves W c s;
         Some (Waits (s\<lparr>script := []\<rparr>)) } }"

definition command :: "ref_world \<Rightarrow> u8 list \<Rightarrow> ref_cont \<Rightarrow> ref_ril \<Rightarrow> ref_result option" where
  "command W cmd = at_call W (at_send_command (rw_at W) cmd True)"

text \<open>A command whose response nobody wants.\<close>

definition command_only :: "ref_world \<Rightarrow> u8 list \<Rightarrow> (ref_ril \<Rightarrow> ref_result option) \<Rightarrow> ref_ril \<Rightarrow> ref_result option" where
  "command_only W cmd k = at_call W (at_send_command (rw_at W) cmd False) (\<lambda>_ _. k)"

definition command_singleline :: "ref_world \<Rightarrow> u8 list \<Rightarrow> u8 list \<Rightarrow> ref_cont \<Rightarrow> ref_ril \<Rightarrow> ref_result option" where
  "command_singleline W cmd responsePrefix = at_call W (at_send_command_singleline (rw_at W) cmd responsePrefix True)"

definition command_numeric :: "ref_world \<Rightarrow> u8 list \<Rightarrow> ref_cont \<Rightarrow> ref_ril \<Rightarrow> ref_result option" where
  "command_numeric W cmd = at_call W (at_send_command_numeric (rw_at W) cmd True)"

definition command_sms :: "ref_world \<Rightarrow> u8 list \<Rightarrow> u8 list \<Rightarrow> u8 list \<Rightarrow> ref_cont \<Rightarrow> ref_ril \<Rightarrow> ref_result option" where
  "command_sms W cmd pdu responsePrefix = at_call W (at_send_command_sms (rw_at W) cmd pdu responsePrefix True)"

definition command_multiline :: "ref_world \<Rightarrow> u8 list \<Rightarrow> u8 list \<Rightarrow> ref_cont \<Rightarrow> ref_ril \<Rightarrow> ref_result option" where
  "command_multiline W cmd responsePrefix = at_call W (at_send_command_multiline (rw_at W) cmd responsePrefix True)"

text \<open>\<open>bad || p_response->success == 0\<close>.\<close>

definition failed :: "bool \<Rightarrow> ATResponse option \<Rightarrow> bool option" where
  "failed bad p_response = (if bad then Some True else map_option (\<lambda>r. \<not> success r) p_response)"

text \<open>\<open>p_response->p_intermediates\<close>, and the line of the first of them.\<close>

definition lines :: "ATResponse option \<Rightarrow> u8 list list option" where
  "lines p_response = map_option p_intermediates p_response"

definition the_line :: "ATResponse option \<Rightarrow> u8 list option" where
  "the_line p_response = do { ls \<leftarrow> lines p_response; aget ls 0 }"

section \<open>Tokens, with \<open>goto error\<close> as \<open>None\<close>\<close>

definition tok_start :: "u8 list \<Rightarrow> cstr option" where
  "tok_start line = (let (err, p) = at_tok_start (Some line) in if err < 0 then None else Some p)"

definition tok_int :: "nat \<Rightarrow> cstr \<Rightarrow> (i32 \<times> cstr) option" where
  "tok_int bits p = (let (err, out, p) = at_tok_nextint bits p
     in if err < 0 then None else map_option (\<lambda>x. (x, p)) out)"

definition tok_hex :: "nat \<Rightarrow> cstr \<Rightarrow> (i32 \<times> cstr) option" where
  "tok_hex bits p = (let (err, out, p) = at_tok_nexthexint bits p
     in if err < 0 then None else map_option (\<lambda>x. (x, p)) out)"

definition tok_str :: "cstr \<Rightarrow> (cstr \<times> cstr) option" where
  "tok_str p = (let (err, out, p) = at_tok_nextstr p
     in if err < 0 then None else map_option (\<lambda>x. (x, p)) out)"

definition commas :: "u8 list \<Rightarrow> nat" where
  "commas line = length (filter (\<lambda>c. c = 44) line)"

section \<open>\<open>printf\<close>\<close>

fun digits_in :: "nat \<Rightarrow> nat \<Rightarrow> u8 list" where
  "digits_in base n =
     (let d = n mod base; c = word_of_nat (if d < 10 then 48 + d else 87 + d)
      in if base < 2 \<or> n < base then [c] else digits_in base (n div base) @ [c])"

declare digits_in.simps [simp del]

definition fmt_d :: "i32 \<Rightarrow> u8 list" where
  "fmt_d x = (if sint x < 0 then [45] else []) @ digits_in 10 (nat \<bar>sint x\<bar>)"

definition fmt_x :: "i32 \<Rightarrow> u8 list" where
  "fmt_x x = digits_in 16 (unat x)"

text \<open>The C libraries of the platform print a null string so.\<close>

definition fmt_s :: "cstr \<Rightarrow> u8 list" where
  "fmt_s p = (case p of None \<Rightarrow> chars ''(null)'' | Some s \<Rightarrow> s)"

end
