(* ===== verification/Ref_Requests.thy ===== *)
theory Ref_Requests
  imports Ref_State
begin

text \<open>
  The handlers of requests of \<open>reference-ril/reference-ril.c\<close>. The label \<open>error\<close> of a handler is the
  local definition \<open>failure\<close> of its model. \<open>None\<close> is undefined behaviour: a null pointer that is
  followed, or a write beyond the end of an array on the stack.
\<close>

section \<open>Arguments\<close>

text \<open>\<open>((int *)data)[i]\<close> and \<open>((const char **)data)[i]\<close>.\<close>

definition int_at :: "req_data \<Rightarrow> nat \<Rightarrow> i32 option" where
  "int_at d i = (case d of DInts xs \<Rightarrow> aget xs i | _ \<Rightarrow> None)"

definition string_at :: "req_data \<Rightarrow> nat \<Rightarrow> cstr option" where
  "string_at d i = (case d of DStrings (Some xs) \<Rightarrow> aget xs i | _ \<Rightarrow> None)"

section \<open>Radio power\<close>

definition requestRadioPower :: "ref_world \<Rightarrow> req_data \<Rightarrow> nat \<Rightarrow> addr \<Rightarrow> ref_ril \<Rightarrow> ref_result option" where
  "requestRadioPower W d datalen t s =
     (let failure = (\<lambda>s. Some (Returns (complete t RIL_E_GENERIC_FAILURE None 0 s)));
          finish = (\<lambda>s. Some (Returns (complete t RIL_E_SUCCESS None 0 s)))
      in if datalen < psize W then None        \<comment> \<open>the assertion\<close>
         else do {
           onOff \<leftarrow> int_at d 0;
           if onOff = 0 \<and> sState s \<noteq> RADIO_STATE_OFF then
             command W (chars ''AT+CFUN=0'') (\<lambda>err p_response s. do {
               bad \<leftarrow> failed (err < 0) p_response;
               if bad then failure s else finish (setRadioState RADIO_STATE_OFF s) }) s
           else if sint onOff > 0 \<and> sState s = RADIO_STATE_OFF then
             command W (chars ''AT+CFUN=1'') (\<lambda>err p_response s. do {
               bad \<leftarrow> failed (err < 0) p_response;
               if bad \<and> isRadioOn s \<noteq> 1 then failure s
               else finish (setRadioState RADIO_STATE_SIM_NOT_READY s) }) s
           else finish s })"

section \<open>Answers that are a list of strings\<close>

text \<open>
  The loop that stores \<open>n\<close> tokens into an array with room for \<open>room\<close> of them. Inside, \<open>None\<close> is the
  jump to \<open>error\<close>.
\<close>

fun next_strings :: "nat \<Rightarrow> nat \<Rightarrow> cstr \<Rightarrow> cstr list option option" where
  "next_strings room 0 p = Some (Some [])"
| "next_strings room (Suc n) p =
     (case tok_str p of
        None \<Rightarrow> Some None
      | Some (tok, p) \<Rightarrow>
          if room = 0 then None
          else map_option (map_option (\<lambda>toks. tok # toks)) (next_strings (room - 1) n p))"

text \<open>Counting commas, and the tokens between them, up to the completion.\<close>

definition line_strings :: "nat \<Rightarrow> u8 list \<Rightarrow> cstr list option option" where
  "line_strings room line =
     (case tok_start line of
        None \<Rightarrow> Some None
      | Some p \<Rightarrow> next_strings room (commas line + 1) p)"

definition complete_strings :: "ref_world \<Rightarrow> addr \<Rightarrow> cstr list \<Rightarrow> ref_ril \<Rightarrow> ref_ril" where
  "complete_strings W t xs = complete t RIL_E_SUCCESS (Some (RStrings xs)) (length xs * psize W)"

definition requestPortList :: "ref_world \<Rightarrow> req_data \<Rightarrow> nat \<Rightarrow> addr \<Rightarrow> ref_ril \<Rightarrow> ref_result option" where
  "requestPortList W d datalen t s = do {
     cmd \<leftarrow> (if datalen = psize W then map_option (\<lambda>x. chars ''AT^SETPORT'' @ fmt_s x) (string_at d 0)
            else Some (chars ''AT^SETPORT=?''));
     let failure = (\<lambda>s. Some (Returns (complete t RIL_E_GENERIC_FAILURE None 0 s)));
     command_multiline W cmd (chars ''^SETPORT:'') (\<lambda>err p_response s. do {
       bad \<leftarrow> failed (err < 0) p_response;
       if bad then failure (complete t RIL_E_GENERIC_FAILURE None 0 s)
       else do {
         ls \<leftarrow> lines p_response;
         if length ls > 20 then None
         else Some (Returns (complete_strings W t (map Some ls) s)) } }) s }"

definition requestPsCsStat :: "ref_world \<Rightarrow> req_data \<Rightarrow> nat \<Rightarrow> addr \<Rightarrow> ref_ril \<Rightarrow> ref_result option" where
  "requestPsCsStat W d datalen t s = do {
     cmd \<leftarrow> (if datalen = psize W then Some (chars ''AT^CGCATT?'')
            else if datalen = 2 * psize W then do {
              x \<leftarrow> string_at d 0;
              y \<leftarrow> string_at d 1;
              Some (chars ''AT^CGCATT='' @ fmt_s x @ chars '','' @ fmt_s y) }
            else Some (chars ''AT^CGCATT=?''));
     let failure = (\<lambda>s. Some (Returns (complete t RIL_E_GENERIC_FAILURE None 0 s)));
     command_singleline W cmd (chars ''^CGCATT:'') (\<lambda>err p_response s.
       if p_response = None then
         command W cmd (\<lambda>err p_response s. do {
           bad \<leftarrow> failed (err < 0) p_response;
           printed \<leftarrow> map_option success p_response;     \<comment> \<open>\<open>p_response->success\<close> is printed on both paths\<close>
           if bad then failure s
           else Some (Returns (complete_strings W t [Some (chars ''N'')] s)) }) s
       else do {
         bad \<leftarrow> failed (err < 0) p_response;
         if bad then failure (complete t RIL_E_GENERIC_FAILURE None 0 s)
         else do {
           line \<leftarrow> the_line p_response;
           r \<leftarrow> line_strings 10 line;
           case r of
             None \<Rightarrow> failure s
           | Some response \<Rightarrow> Some (Returns (complete_strings W t response s)) } }) s }"

definition requestNdisDial :: "ref_world \<Rightarrow> req_data \<Rightarrow> nat \<Rightarrow> addr \<Rightarrow> ref_ril \<Rightarrow> ref_result option" where
  "requestNdisDial W d datalen t s = do {
     cmd \<leftarrow> (if datalen = psize W then map_option (\<lambda>x. chars ''AT^NDISDUP'' @ fmt_s x) (string_at d 0)
            else Some (chars ''AT^NDISDUP=1,1,\"CMNET\"''));
     command_only W cmd (\<lambda>s. Some (Returns (complete t RIL_E_SUCCESS None 0 s))) s }"

text \<open>
  The common part of \<open>requestPdpAddr\<close> and \<open>requestDhcpInfo\<close>. The first of them prints \<open>cmd\<close>, which it
  has freed, when there is no line.
\<close>

definition request_one_line ::
    "ref_world \<Rightarrow> u8 list \<Rightarrow> u8 list \<Rightarrow> bool \<Rightarrow> addr \<Rightarrow> ref_ril \<Rightarrow> ref_result option" where
  "request_one_line W cmd responsePrefix prints_cmd t s =
     (let failure = (\<lambda>s. Some (Returns (complete t RIL_E_GENERIC_FAILURE None 0 s)))
      in command_singleline W cmd responsePrefix (\<lambda>err p_response s. do {
           bad \<leftarrow> failed (err < 0) p_response;
           if bad then failure (complete t RIL_E_GENERIC_FAILURE None 0 s)
           else do {
             ls \<leftarrow> lines p_response;
             case ls of
               [] \<Rightarrow> if prints_cmd then None else Some (Returns (complete t RIL_E_SUCCESS None 0 s))
             | line # _ \<Rightarrow> do {
                 r \<leftarrow> line_strings 10 line;
                 case r of
                   None \<Rightarrow> failure s
                 | Some response \<Rightarrow> Some (Returns (complete_strings W t response s)) } } }) s)"

definition requestPdpAddr :: "ref_world \<Rightarrow> req_data \<Rightarrow> nat \<Rightarrow> addr \<Rightarrow> ref_ril \<Rightarrow> ref_result option" where
  "requestPdpAddr W d datalen t s = do {
     cmd \<leftarrow> (if datalen = psize W then map_option (\<lambda>x. chars ''AT+CGPADDR'' @ fmt_s x) (string_at d 0)
            else Some (chars ''AT+CGPADDR''));
     request_one_line W cmd (chars ''+CGPADDR:'') True t s }"

definition requestDhcpInfo :: "ref_world \<Rightarrow> req_data \<Rightarrow> nat \<Rightarrow> addr \<Rightarrow> ref_ril \<Rightarrow> ref_result option" where
  "requestDhcpInfo W d datalen t s = do {
     cmd \<leftarrow> (if datalen = psize W then map_option (\<lambda>x. chars ''AT^DHCP'' @ fmt_s x) (string_at d 0)
            else Some (chars ''AT^DHCP=?''));
     request_one_line W cmd (chars ''^DHCP:'') False t s }"

section \<open>Data calls\<close>

definition no_data_call :: RIL_Data_Call_Response where
  "no_data_call = \<lparr>dc_cid = -1, dc_active = -1, dc_type = Some [], dc_apn = Some [], dc_address = Some []\<rparr>"

text \<open>The contexts that \<open>AT+CGACT?\<close> lists; \<open>None\<close> is the jump to \<open>error\<close>.\<close>

definition cgact_line :: "nat \<Rightarrow> u8 list \<Rightarrow> RIL_Data_Call_Response option" where
  "cgact_line bits line = do {
     p \<leftarrow> tok_start line;
     (cid, p) \<leftarrow> tok_int bits p;
     (active, p) \<leftarrow> tok_int bits p;
     Some (no_data_call\<lparr>dc_cid := cid, dc_active := active\<rparr>) }"

fun cgact_lines :: "nat \<Rightarrow> u8 list list \<Rightarrow> RIL_Data_Call_Response list option" where
  "cgact_lines bits [] = Some []"
| "cgact_lines bits (line # ls) = do {
     r \<leftarrow> cgact_line bits line;
     rs \<leftarrow> cgact_lines bits ls;
     Some (r # rs) }"

text \<open>
  A line of \<open>AT+CGDCONT?\<close> describes the first context of its number, if there is one. A token that was
  found is not null.
\<close>

fun index_of_cid :: "i32 \<Rightarrow> RIL_Data_Call_Response list \<Rightarrow> nat" where
  "index_of_cid cid [] = 0"
| "index_of_cid cid (r # rs) = (if dc_cid r = cid then 0 else Suc (index_of_cid cid rs))"

definition cgdcont_line ::
    "nat \<Rightarrow> u8 list \<Rightarrow> RIL_Data_Call_Response list \<Rightarrow> RIL_Data_Call_Response list option" where
  "cgdcont_line bits line rs = do {
     p \<leftarrow> tok_start line;
     (cid, p) \<leftarrow> tok_int bits p;
     let i = index_of_cid cid rs;
     if i \<ge> length rs then Some rs
     else do {
       (type, p) \<leftarrow> tok_str p;
       (apn, p) \<leftarrow> tok_str p;
       (address, p) \<leftarrow> tok_str p;
       Some (rs[i := (rs ! i)\<lparr>dc_type := type, dc_apn := apn, dc_address := address\<rparr>]) } }"

definition data_call_list :: "addr option \<Rightarrow> RIL_Errno \<Rightarrow> resp_data option \<Rightarrow> nat \<Rightarrow> ref_ril \<Rightarrow> ref_result option" where
  "data_call_list t e response responselen s = Some (Returns (case t of
       Some t \<Rightarrow> complete t e response responselen s
     | None \<Rightarrow> unsolicited RIL_UNSOL_DATA_CALL_LIST_CHANGED response responselen s))"

definition requestOrSendDataCallList :: "ref_world \<Rightarrow> addr option \<Rightarrow> ref_ril \<Rightarrow> ref_result option" where
  "requestOrSendDataCallList W t s =
     (let failure = data_call_list t RIL_E_GENERIC_FAILURE None 0;
          bits = long_bits W; size = size_of (RIL_Data_Call_Response_layout (rw_abi W))
      in command_multiline W (chars ''AT+CGACT?'') (chars ''+CGACT:'') (\<lambda>err p_response s. do {
           bad \<leftarrow> failed (err \<noteq> 0) p_response;
           if bad then failure s
           else do {
             ls \<leftarrow> lines p_response;
             alloca (rw_abi W) (length ls * size);
             case cgact_lines bits ls of
               None \<Rightarrow> failure s
             | Some responses \<Rightarrow>
                 command_multiline W (chars ''AT+CGDCONT?'') (chars ''+CGDCONT:'') (\<lambda>err p_response s. do {
                   bad \<leftarrow> failed (err \<noteq> 0) p_response;
                   if bad then failure s
                   else do {
                     ls \<leftarrow> lines p_response;
                     case foldM (cgdcont_line bits) ls responses of
                       None \<Rightarrow> failure s
                     | Some responses \<Rightarrow>
                         data_call_list t RIL_E_SUCCESS (Some (RDataCallList responses))
                           (length responses * size) s } }) s } }) s)"

definition onDataCallListChanged :: "ref_world \<Rightarrow> ref_ril \<Rightarrow> ref_result option" where
  "onDataCallListChanged W s = requestOrSendDataCallList W None s"

definition requestDataCallList :: "ref_world \<Rightarrow> addr \<Rightarrow> ref_ril \<Rightarrow> ref_result option" where
  "requestDataCallList W t s = requestOrSendDataCallList W (Some t) s"

section \<open>Calls\<close>

definition clccStateToRILState :: "i32 \<Rightarrow> RIL_CallState option" where
  "clccStateToRILState st =
     (if st = 0 then Some RIL_CALL_ACTIVE
      else if st = 1 then Some RIL_CALL_HOLDING
      else if st = 2 then Some RIL_CALL_DIALING
      else if st = 3 then Some RIL_CALL_ALERTING
      else if st = 4 then Some RIL_CALL_INCOMING
      else if st = 5 then Some RIL_CALL_WAITING
      else None)"

text \<open>A struct of zeros.\<close>

definition zero_call :: RIL_Call where
  "zero_call = \<lparr>call_state = RIL_CALL_ACTIVE, call_index = 0, call_toa = 0, call_isMpty = 0, call_isMT = 0,
     call_als = 0, call_isVoice = 0, call_isVoicePrivacy = 0, call_number = None, call_numberPresentation = 0,
     call_name = None, call_namePresentation = 0, call_uusInfo = None\<rparr>"

text \<open>An out parameter that may have been stored.\<close>

definition stored :: "('a \<Rightarrow> 'b \<Rightarrow> 'b) \<Rightarrow> 'a option \<Rightarrow> 'b \<Rightarrow> 'b" where
  "stored f out x = (case out of None \<Rightarrow> x | Some v \<Rightarrow> f v x)"

text \<open>\<open>strspn (number, "+0123456789") == 0\<close>.\<close>

definition no_number :: "u8 list \<Rightarrow> bool" where
  "no_number s \<longleftrightarrow> s = [] \<or> \<not> (hd s = 43 \<or> isdigit (hd s))"

text \<open>The tokens behind the flag \<open>isMpty\<close>. A failure leaves in the struct what was stored before.\<close>

definition clcc_number :: "nat \<Rightarrow> cstr \<Rightarrow> RIL_Call \<Rightarrow> int \<times> RIL_Call" where
  "clcc_number bits p call =
     (if at_tok_hasmore p then
        (let (err, out, p) = at_tok_nextstr p;
             call = stored (\<lambda>x c. c\<lparr>call_number := x\<rparr>) out call
         in if err < 0 then (0, call)
            else
              (let call = (case call_number call of
                     Some n \<Rightarrow> if no_number n then call\<lparr>call_number := None\<rparr> else call
                   | None \<Rightarrow> call);
                   (err, out, p) = at_tok_nextint bits p;
                   call = stored (\<lambda>x c. c\<lparr>call_toa := x\<rparr>) out call
               in if err < 0 then (-1, call) else (0, call\<lparr>call_uusInfo := None\<rparr>)))
      else (0, call\<lparr>call_uusInfo := None\<rparr>))"

definition callFromCLCCLine :: "nat \<Rightarrow> u8 list \<Rightarrow> RIL_Call \<Rightarrow> int \<times> RIL_Call" where
  "callFromCLCCLine bits line call =
     (let (err, p) = at_tok_start (Some line)
      in if err < 0 then (-1, call) else
     (let (err, out, p) = at_tok_nextint bits p; call = stored (\<lambda>x c. c\<lparr>call_index := x\<rparr>) out call
      in if err < 0 then (-1, call) else
     (let (err, out, p) = at_tok_nextbool bits p; call = stored (\<lambda>x c. c\<lparr>call_isMT := x\<rparr>) out call
      in if err < 0 then (-1, call) else
     (let (err, out, p) = at_tok_nextint bits p; st = stored (\<lambda>x _. x) out 0
      in if err < 0 then (-1, call) else
     (case clccStateToRILState st of None \<Rightarrow> (-1, call) | Some st \<Rightarrow>
     (let call = call\<lparr>call_state := st\<rparr>;
          (err, out, p) = at_tok_nextint bits p; mode = stored (\<lambda>x _. x) out 0
      in if err < 0 then (-1, call) else
     (let call = call\<lparr>call_isVoice := (if mode = 0 then 1 else 0)\<rparr>;
          (err, out, p) = at_tok_nextbool bits p; call = stored (\<lambda>x c. c\<lparr>call_isMpty := x\<rparr>) out call
      in if err < 0 then (-1, call)
         else clcc_number bits p call)))))))"

text \<open>
  The loop of \<open>requestGetCurrentCalls\<close>. A line that is no call leaves what it stored in the next struct
  of the array, which the next line fills.
\<close>

fun clcc_calls :: "nat \<Rightarrow> u8 list list \<Rightarrow> RIL_Call \<Rightarrow> RIL_Call list" where
  "clcc_calls bits [] slot = []"
| "clcc_calls bits (line # ls) slot =
     (let (err, slot) = callFromCLCCLine bits line slot
      in if err \<noteq> 0 then clcc_calls bits ls slot else slot # clcc_calls bits ls zero_call)"

definition RIL_Call_layout :: "abi \<Rightarrow> ctype" where
  "RIL_Call_layout a = c_struct [c_int, c_int, c_int, c_char, c_char, c_char, c_char, c_char, c_ptr a, c_int, c_ptr a,
     c_int, c_ptr a]"

definition requestGetCurrentCalls :: "ref_world \<Rightarrow> addr \<Rightarrow> ref_ril \<Rightarrow> ref_result option" where
  "requestGetCurrentCalls W t s =
     command_multiline W (chars ''AT+CLCC'') (chars ''+CLCC:'') (\<lambda>err p_response s. do {
       bad \<leftarrow> failed (err \<noteq> 0) p_response;
       if bad then Some (Returns (complete t RIL_E_GENERIC_FAILURE None 0 s))
       else do {
         ls \<leftarrow> lines p_response;
         alloca (rw_abi W) (length ls * psize W);
         alloca (rw_abi W) (length ls * size_of (RIL_Call_layout (rw_abi W)));
         let cs = clcc_calls (long_bits W) ls zero_call;
         let needRepoll = list_ex (\<lambda>c. call_state c \<noteq> RIL_CALL_ACTIVE \<and> call_state c \<noteq> RIL_CALL_HOLDING) cs;
         let s = complete t RIL_E_SUCCESS (Some (RCallList cs)) (length cs * psize W) s;
         Some (Returns (if needRepoll
           then request_timed cb_sendCallStateChanged (Some TIMEVAL_CALLSTATEPOLL) s else s)) } }) s"

definition sendCallStateChanged :: "ref_ril \<Rightarrow> ref_ril" where
  "sendCallStateChanged s = unsolicited RIL_UNSOL_RESPONSE_CALL_STATE_CHANGED None 0 s"

definition requestDial :: "ref_world \<Rightarrow> req_data \<Rightarrow> addr \<Rightarrow> ref_ril \<Rightarrow> ref_result option" where
  "requestDial W d t s = (case d of
       DDial p_dial \<Rightarrow>
         (let clir = (if dial_clir p_dial = 1 then chars ''I'' else if dial_clir p_dial = 2 then chars ''i'' else [])
          in command_only W (chars ''ATD'' @ fmt_s (dial_address p_dial) @ clir @ chars '';'')
               (\<lambda>s. Some (Returns (complete t RIL_E_SUCCESS None 0 s))) s)
     | _ \<Rightarrow> None)"

definition requestHangup :: "ref_world \<Rightarrow> req_data \<Rightarrow> addr \<Rightarrow> ref_ril \<Rightarrow> ref_result option" where
  "requestHangup W d t s = do {
     line \<leftarrow> int_at d 0;
     command_only W (chars ''AT+CHLD=1'' @ fmt_d line) (\<lambda>s. Some (Returns (complete t RIL_E_SUCCESS None 0 s))) s }"

section \<open>Short messages\<close>

definition requestWriteSmsToSim :: "ref_world \<Rightarrow> req_data \<Rightarrow> addr \<Rightarrow> ref_ril \<Rightarrow> ref_result option" where
  "requestWriteSmsToSim W d t s = (case d of
       DSmsWrite p_args \<Rightarrow> do {
         pdu \<leftarrow> sw_pdu p_args;
         command_sms W (chars ''AT+CMGW='' @ fmt_d (of_nat (length pdu div 2)) @ chars '','' @ fmt_d (sw_status p_args))
           pdu (chars ''+CMGW:'') (\<lambda>err p_response s. do {
             bad \<leftarrow> failed (err \<noteq> 0) p_response;
             if bad then Some (Returns (complete t RIL_E_GENERIC_FAILURE None 0 s))
             else Some (Returns (complete t RIL_E_SUCCESS None 0 s)) }) s }
     | _ \<Rightarrow> None)"

definition requestSendSMS :: "ref_world \<Rightarrow> req_data \<Rightarrow> addr \<Rightarrow> ref_ril \<Rightarrow> ref_result option" where
  "requestSendSMS W d t s = do {
     smsc \<leftarrow> string_at d 0;
     p \<leftarrow> string_at d 1;
     pdu \<leftarrow> p;
     let smsc = (case smsc of None \<Rightarrow> chars ''00'' | Some x \<Rightarrow> x);
     let response = \<lparr>sms_messageRef = 0, sms_ackPDU = None, sms_errorCode = 0\<rparr>;
     command_sms W (chars ''AT+CMGS='' @ fmt_d (of_nat (length pdu div 2))) (smsc @ pdu) (chars ''+CMGS:'')
       (\<lambda>err p_response s. do {
         bad \<leftarrow> failed (err \<noteq> 0) p_response;
         if bad then Some (Returns (complete t RIL_E_GENERIC_FAILURE None 0 s))
         else Some (Returns (complete t RIL_E_SUCCESS (Some (RSMS response))
           (size_of (RIL_SMS_Response_layout (rw_abi W))) s)) }) s }"

text \<open>The code runs on into the label \<open>error\<close>.\<close>

definition requestSMSAcknowledge :: "ref_world \<Rightarrow> req_data \<Rightarrow> addr \<Rightarrow> ref_ril \<Rightarrow> ref_result option" where
  "requestSMSAcknowledge W d t s = do {
     ackSuccess \<leftarrow> int_at d 0;
     let failure = (\<lambda>s. Some (Returns (complete t RIL_E_GENERIC_FAILURE None 0 s)));
     if ackSuccess = 1 then
       command_only W (chars ''AT+CNMA=1'') (\<lambda>s. failure (complete t RIL_E_SUCCESS None 0 s)) s
     else if ackSuccess = 0 then
       command_only W (chars ''AT+CNMA=2'') (\<lambda>s. failure (complete t RIL_E_SUCCESS None 0 s)) s
     else failure s }"

section \<open>The network\<close>

definition requestQueryNetworkSelectionMode :: "ref_world \<Rightarrow> addr \<Rightarrow> ref_ril \<Rightarrow> ref_result option" where
  "requestQueryNetworkSelectionMode W t s =
     (let failure = (\<lambda>s. Some (Returns (complete t RIL_E_GENERIC_FAILURE None 0 s)))
      in command_singleline W (chars ''AT+COPS?'') (chars ''+COPS:'') (\<lambda>err p_response s. do {
           bad \<leftarrow> failed (err < 0) p_response;
           if bad then failure s
           else do {
             line \<leftarrow> the_line p_response;
             case do { p \<leftarrow> tok_start line; tok_int (long_bits W) p } of
               None \<Rightarrow> failure s
             | Some (response, p) \<Rightarrow>
                 Some (Returns (complete t RIL_E_SUCCESS (Some (RInts [response])) 4 s)) } }) s)"

definition csq_line :: "nat \<Rightarrow> u8 list \<Rightarrow> i32 list option" where
  "csq_line bits line = do {
     p \<leftarrow> tok_start line;
     (x, p) \<leftarrow> tok_int bits p;
     (y, p) \<leftarrow> tok_int bits p;
     Some [x, y] }"

definition requestSignalStrength :: "ref_world \<Rightarrow> addr \<Rightarrow> ref_ril \<Rightarrow> ref_result option" where
  "requestSignalStrength W t s =
     (let failure = (\<lambda>s. Some (Returns (complete t RIL_E_GENERIC_FAILURE None 0 s)))
      in command_singleline W (chars ''AT+CSQ'') (chars ''+CSQ:'') (\<lambda>err p_response s. do {
           bad \<leftarrow> failed (err < 0) p_response;
           if bad then failure (complete t RIL_E_GENERIC_FAILURE None 0 s)
           else do {
             line \<leftarrow> the_line p_response;
             case csq_line (long_bits W) line of
               None \<Rightarrow> failure s
             | Some response \<Rightarrow>
                 Some (Returns (complete t RIL_E_SUCCESS (Some (RInts response)) 8 s)) } }) s)"

text \<open>The answer to \<open>AT+CREG?\<close> or \<open>AT+CGREG?\<close>, with or without its first number.\<close>

definition creg_line :: "nat \<Rightarrow> u8 list \<Rightarrow> i32 list option" where
  "creg_line bits line = do {
     p \<leftarrow> tok_start line;
     rest \<leftarrow> p;
     if commas rest = 0 then do {
       (r0, p) \<leftarrow> tok_int bits p;
       Some [r0, -1, -1] }
     else if commas rest = 1 then do {
       (skip, p) \<leftarrow> tok_int bits p;
       (r0, p) \<leftarrow> tok_int bits p;
       Some [r0, -1, -1] }
     else if commas rest = 2 then do {
       (r0, p) \<leftarrow> tok_int bits p;
       (r1, p) \<leftarrow> tok_hex bits p;
       (r2, p) \<leftarrow> tok_hex bits p;
       Some [r0, r1, r2] }
     else if commas rest = 3 then do {
       (skip, p) \<leftarrow> tok_int bits p;
       (r0, p) \<leftarrow> tok_int bits p;
       (r1, p) \<leftarrow> tok_hex bits p;
       (r2, p) \<leftarrow> tok_hex bits p;
       Some [r0, r1, r2] }
     else if commas rest = 4 then do {
       (skip, p) \<leftarrow> tok_int bits p;
       (r0, p) \<leftarrow> tok_int bits p;
       (r1, p) \<leftarrow> tok_hex bits p;
       (r2, p) \<leftarrow> tok_hex bits p;
       (r3, p) \<leftarrow> tok_hex bits p;
       Some [r0, r1, r2, r3] }
     else None }"

text \<open>The strings of the response: two numbers of it are printed in base 16.\<close>

definition creg_strings :: "i32 list \<Rightarrow> cstr list" where
  "creg_strings r = map Some ([fmt_d (r ! 0), fmt_x (r ! 1), fmt_x (r ! 2)] @ map fmt_d (drop 3 r))"

definition requestRegistrationState :: "ref_world \<Rightarrow> i32 \<Rightarrow> addr \<Rightarrow> ref_ril \<Rightarrow> ref_result option" where
  "requestRegistrationState W request t s =
     (let failure = (\<lambda>s. Some (Returns (complete t RIL_E_GENERIC_FAILURE None 0 s)))
      in do {
        (cmd, responsePrefix) \<leftarrow>
          (if request = RIL_REQUEST_REGISTRATION_STATE then Some (chars ''AT+CREG?'', chars ''+CREG:'')
           else if request = RIL_REQUEST_GPRS_REGISTRATION_STATE then Some (chars ''AT+CGREG?'', chars ''+CGREG:'')
           else None);        \<comment> \<open>\<open>assert (0)\<close>\<close>
        command_singleline W cmd responsePrefix (\<lambda>err p_response s.
          if err \<noteq> 0 then failure s
          else do {
            line \<leftarrow> the_line p_response;
            case creg_line (long_bits W) line of
              None \<Rightarrow> failure s
            | Some r \<Rightarrow> Some (Returns (complete_strings W t (creg_strings r) s)) }) s })"

text \<open>
  A line of the answer to \<open>AT+COPS?\<close>: the jump to \<open>error\<close>, or the name, null when there is none.
\<close>

definition cops_line :: "nat \<Rightarrow> u8 list \<Rightarrow> cstr option" where
  "cops_line bits line = do {
     p \<leftarrow> tok_start line;
     (skip, p) \<leftarrow> tok_int bits p;
     if \<not> at_tok_hasmore p then Some None
     else do {
       (skip, p) \<leftarrow> tok_int bits p;
       if \<not> at_tok_hasmore p then Some None
       else map_option fst (tok_str p) } }"

text \<open>The loop over the lines, with room for \<open>room\<close> strings.\<close>

fun cops_lines :: "nat \<Rightarrow> nat \<Rightarrow> u8 list list \<Rightarrow> cstr list option option" where
  "cops_lines bits room [] = Some (Some [])"
| "cops_lines bits room (line # ls) =
     (case cops_line bits line of
        None \<Rightarrow> Some None
      | Some x \<Rightarrow>
          if room = 0 then None
          else map_option (map_option (\<lambda>xs. x # xs)) (cops_lines bits (room - 1) ls))"

definition requestOperator :: "ref_world \<Rightarrow> addr \<Rightarrow> ref_ril \<Rightarrow> ref_result option" where
  "requestOperator W t s =
     (let failure = (\<lambda>s. Some (Returns (complete t RIL_E_GENERIC_FAILURE None 0 s)))
      in command_multiline W (chars ''AT+COPS=3,0;+COPS?;+COPS=3,1;+COPS?;+COPS=3,2;+COPS?'') (chars ''+COPS:'')
        (\<lambda>err p_response s.
          if err \<noteq> 0 then failure s
          else do {
            ls \<leftarrow> lines p_response;
            r \<leftarrow> cops_lines (long_bits W) 3 ls;
            case r of
              None \<Rightarrow> failure s
            | Some response \<Rightarrow>
                if length response \<noteq> 3 then failure s
                else Some (Returns (complete_strings W t response s)) }) s)"

section \<open>The SIM\<close>

definition crsm_command :: "RIL_SIM_IO \<Rightarrow> u8 list" where
  "crsm_command p_args =
     (let sep = chars '','';
          head = chars ''AT+CRSM='' @ fmt_d (sio_command p_args) @ sep @ fmt_d (sio_fileid p_args) @ sep @
            fmt_d (sio_p1 p_args) @ sep @ fmt_d (sio_p2 p_args) @ sep @ fmt_d (sio_p3 p_args)
      in case sio_data p_args of None \<Rightarrow> head | Some x \<Rightarrow> head @ sep @ x)"

definition crsm_line :: "nat \<Rightarrow> u8 list \<Rightarrow> RIL_SIM_IO_Response option" where
  "crsm_line bits line = do {
     p \<leftarrow> tok_start line;
     (sw1, p) \<leftarrow> tok_int bits p;
     (sw2, p) \<leftarrow> tok_int bits p;
     if at_tok_hasmore p then do {
       (simResponse, p) \<leftarrow> tok_str p;
       Some \<lparr>sior_sw1 = sw1, sior_sw2 = sw2, sior_simResponse = simResponse\<rparr> }
     else Some \<lparr>sior_sw1 = sw1, sior_sw2 = sw2, sior_simResponse = None\<rparr> }"

definition requestSIM_IO :: "ref_world \<Rightarrow> req_data \<Rightarrow> addr \<Rightarrow> ref_ril \<Rightarrow> ref_result option" where
  "requestSIM_IO W d t s = (case d of
       DSimIO p_args \<Rightarrow>
         (let failure = (\<lambda>s. Some (Returns (complete t RIL_E_GENERIC_FAILURE None 0 s)))
          in command_singleline W (crsm_command p_args) (chars ''+CRSM:'') (\<lambda>err p_response s. do {
               bad \<leftarrow> failed (err < 0) p_response;
               if bad then failure s
               else do {
                 line \<leftarrow> the_line p_response;
                 case crsm_line (long_bits W) line of
                   None \<Rightarrow> failure s
                 | Some sr \<Rightarrow> Some (Returns (complete t RIL_E_SUCCESS (Some (RSIM_IO sr))
                     (size_of (RIL_SIM_IO_Response_layout (rw_abi W))) s)) } }) s)
     | _ \<Rightarrow> None)"

definition requestEnterSimPin :: "ref_world \<Rightarrow> req_data \<Rightarrow> nat \<Rightarrow> addr \<Rightarrow> ref_ril \<Rightarrow> ref_result option" where
  "requestEnterSimPin W d datalen t s =
     (let failure = (\<lambda>s. Some (Returns (complete t RIL_E_PASSWORD_INCORRECT None 0 s)));
          enter = (\<lambda>cmd. command_singleline W cmd (chars ''+CPIN:'') (\<lambda>err p_response s. do {
            bad \<leftarrow> failed (err < 0) p_response;
            if bad then failure s else Some (Returns (complete t RIL_E_SUCCESS None 0 s)) }) s)
      in if datalen = psize W then do {
           x \<leftarrow> string_at d 0;
           enter (chars ''AT+CPIN='' @ fmt_s x) }
         else if datalen = 2 * psize W then do {
           x \<leftarrow> string_at d 0;
           y \<leftarrow> string_at d 1;
           enter (chars ''AT+CPIN='' @ fmt_s x @ chars '','' @ fmt_s y) }
         else failure s)"

definition requestSendUSSD :: "addr \<Rightarrow> ref_ril \<Rightarrow> ref_result option" where
  "requestSendUSSD t s = Some (Returns (complete t RIL_E_REQUEST_NOT_SUPPORTED None 0 s))"

end
