(* ===== verification/Ref_Ril.thy ===== *)
theory Ref_Ril
  imports Ref_Requests
begin

text \<open>
  The rest of \<open>reference-ril/reference-ril.c\<close>: data calls, the status of the SIM, \<open>onRequest\<close>, timed
  callbacks, the main loop that opens the channel, and \<open>RIL_Init\<close>. The library as a whole is a step
  relation: a request, a timed callback, a line from the modem, the end of its input, or the main loop
  after the channel was closed.
\<close>

section \<open>Setting up a data call\<close>

text \<open>The loop that writes \<open>cmd\<close> to \<open>/dev/qmi\<close>, from \<open>cur\<close>; \<open>False\<close> is an error.\<close>

partial_function (option) qmi_write :: "ref_world \<Rightarrow> u8 list \<Rightarrow> nat \<Rightarrow> ref_ril \<Rightarrow> (bool \<times> ref_ril) option" where
  "qmi_write W cmd cur s =
     (if cur < length cmd then
        (let (r, s) = ref_sys (rw_write W) s
         in case r of
              Moved k \<Rightarrow>
                (let n = min k (length cmd - cur)
                 in qmi_write W cmd (cur + n) (ref_emit (Wrote_qmi (take n (drop cur cmd))) s))
            | Failed eintr \<Rightarrow> if eintr then qmi_write W cmd cur s else Some (False, s))
      else Some (True, s))"

text \<open>A read of up to 31 bytes, and the string they are.\<close>

partial_function (option) qmi_read :: "ref_world \<Rightarrow> ref_ril \<Rightarrow> (cstr \<times> ref_ril) option" where
  "qmi_read W s =
     (let (r, s) = ref_sys (rw_read W) s
      in case r of
           Got bs \<Rightarrow> Some (Some (takeWhile (\<lambda>c. c \<noteq> 0) (take 31 bs)), s)
         | Read_error eintr \<Rightarrow> if eintr then qmi_read W s else Some (None, s))"

definition qmi_up :: "u8 list \<Rightarrow> bool" where
  "qmi_up status \<longleftrightarrow> take 8 status = chars ''STATE=up'' \<or> status = chars ''online''"

text \<open>The polling loop, once a second; the result is the number of tries left, or an error.\<close>

fun qmi_poll :: "ref_world \<Rightarrow> nat \<Rightarrow> ref_ril \<Rightarrow> (nat option \<times> ref_ril) option" where
  "qmi_poll W 0 s = Some (Some 0, s)"
| "qmi_poll W (Suc retry) s = do {
     (r, s) \<leftarrow> qmi_read W s;
     case r of
       None \<Rightarrow> Some (None, s)
     | Some status \<Rightarrow> if qmi_up status then Some (Some (Suc retry), s) else qmi_poll W retry s }"

definition PPP_TTY_PATH :: "u8 list" where "PPP_TTY_PATH = chars ''/dev/appvcom''"

definition requestSetupDataCall :: "ref_world \<Rightarrow> req_data \<Rightarrow> addr \<Rightarrow> ref_ril \<Rightarrow> ref_result option" where
  "requestSetupDataCall W d t s = do {
     apn \<leftarrow> string_at d 2;
     let failure = (\<lambda>s. Some (Returns (complete t RIL_E_GENERIC_FAILURE None 0 s)));
     let finish = (\<lambda>s. Some (Returns (complete_strings W t [Some (chars ''1''), Some PPP_TTY_PATH] s)));
     let (fd, s) = ref_sys (rw_open W) s;
     if fd \<ge> 0 then do {
       (ok, s) \<leftarrow> qmi_write W (chars ''up:'' @ fmt_s apn) 0 s;
       if \<not> ok then failure s
       else do {
         (r, s) \<leftarrow> qmi_poll W 10 s;
         case r of
           None \<Rightarrow> failure s
         | Some retry \<Rightarrow>
             if retry = 0 then failure s
             else
               (let (qmistatus, s) = ref_sys (rw_system W) (ref_emit (Ran (chars ''netcfg rmnet0 dhcp'')) s)
                in if qmistatus < 0 then failure s else finish s) } }
     else
       command_only W (chars ''AT+CGDCONT=1,\"IP\",\"'' @ fmt_s apn @ chars ''\",,0,0'') (
       command_only W (chars ''AT+CGQREQ=1'') (
       command_only W (chars ''AT+CGQMIN=1'') (
       command_only W (chars ''AT+CGEREP=1,0'') (
       command_only W (chars ''AT+CGACT=1,0'') (
       command W (chars ''ATD*99***1#'') (\<lambda>err p_response s. do {
         bad \<leftarrow> failed (err < 0) p_response;
         if bad then failure s else finish s })))))) s }"

section \<open>The SIM\<close>

datatype SIM_Status = SIM_ABSENT | SIM_NOT_READY | SIM_READY | SIM_PIN | SIM_PUK | SIM_NETWORK_PERSONALIZATION

primrec SIM_Status_val :: "SIM_Status \<Rightarrow> nat" where
  "SIM_Status_val SIM_ABSENT = 0"
| "SIM_Status_val SIM_NOT_READY = 1"
| "SIM_Status_val SIM_READY = 2"
| "SIM_Status_val SIM_PIN = 3"
| "SIM_Status_val SIM_PUK = 4"
| "SIM_Status_val SIM_NETWORK_PERSONALIZATION = 5"

definition CME_SIM_NOT_INSERTED :: i32 where "CME_SIM_NOT_INSERTED = 10"

text \<open>What a successful answer to \<open>AT+CPIN?\<close> says.\<close>

definition cpin_line :: "u8 list \<Rightarrow> SIM_Status" where
  "cpin_line line =
     (case do { p \<leftarrow> tok_start line; tok_str p } of
        None \<Rightarrow> SIM_NOT_READY
      | Some (cpinResult, p) \<Rightarrow>
          if cpinResult = Some (chars ''SIM PIN'') then SIM_PIN
          else if cpinResult = Some (chars ''SIM PUK'') then SIM_PUK
          else if cpinResult = Some (chars ''PH-NET PIN'') then SIM_NETWORK_PERSONALIZATION
          else if cpinResult \<noteq> Some (chars ''READY'') then SIM_ABSENT
          else SIM_READY)"

definition getSIMStatus ::
    "ref_world \<Rightarrow> (SIM_Status \<Rightarrow> ref_ril \<Rightarrow> ref_result option) \<Rightarrow> ref_ril \<Rightarrow> ref_result option" where
  "getSIMStatus W k s =
     (if sState s = RADIO_STATE_OFF \<or> sState s = RADIO_STATE_UNAVAILABLE then k SIM_NOT_READY s
      else command_singleline W (chars ''AT+CPIN?'') (chars ''+CPIN:'') (\<lambda>err p_response s.
        if err \<noteq> 0 then k SIM_NOT_READY s
        else do {
          resp \<leftarrow> p_response;
          if at_get_cme_error (long_bits W) resp = CME_SUCCESS then do {
            line \<leftarrow> the_line p_response;
            k (cpin_line line) s }
          else if at_get_cme_error (long_bits W) resp = CME_SIM_NOT_INSERTED then k SIM_ABSENT s
          else k SIM_NOT_READY s }) s)"

definition app_status :: "RIL_AppType \<Rightarrow> RIL_AppState \<Rightarrow> RIL_PersoSubstate \<Rightarrow> RIL_PinState \<Rightarrow> RIL_AppStatus" where
  "app_status type st perso pin1 = \<lparr>app_type = type, app_state = st, app_perso_substate = perso, app_aid_ptr = None,
     app_label_ptr = None, app_pin1_replaced = 0, app_pin1 = pin1, app_pin2 = RIL_PINSTATE_UNKNOWN\<rparr>"

definition app_status_array :: "RIL_AppStatus list" where
  "app_status_array = [
     app_status RIL_APPTYPE_UNKNOWN RIL_APPSTATE_UNKNOWN RIL_PERSOSUBSTATE_UNKNOWN RIL_PINSTATE_UNKNOWN,
     app_status RIL_APPTYPE_SIM RIL_APPSTATE_DETECTED RIL_PERSOSUBSTATE_UNKNOWN RIL_PINSTATE_UNKNOWN,
     app_status RIL_APPTYPE_SIM RIL_APPSTATE_READY RIL_PERSOSUBSTATE_READY RIL_PINSTATE_UNKNOWN,
     app_status RIL_APPTYPE_SIM RIL_APPSTATE_PIN RIL_PERSOSUBSTATE_UNKNOWN RIL_PINSTATE_ENABLED_NOT_VERIFIED,
     app_status RIL_APPTYPE_SIM RIL_APPSTATE_PUK RIL_PERSOSUBSTATE_UNKNOWN RIL_PINSTATE_ENABLED_BLOCKED,
     app_status RIL_APPTYPE_SIM RIL_APPSTATE_SUBSCRIPTION_PERSO RIL_PERSOSUBSTATE_SIM_NETWORK
       RIL_PINSTATE_ENABLED_NOT_VERIFIED]"

text \<open>The struct that \<open>getCardStatus\<close> fills once it knows \<open>sim_status\<close>.\<close>

definition card_status :: "SIM_Status \<Rightarrow> RIL_CardStatus" where
  "card_status sim_status =
     (let num_apps = (if sim_status = SIM_ABSENT then 0 else 1);
          p_card_status = \<lparr>
            card_state = (if sim_status = SIM_ABSENT then RIL_CARDSTATE_ABSENT else RIL_CARDSTATE_PRESENT),
            card_universal_pin_state = RIL_PINSTATE_UNKNOWN,
            card_gsm_umts_subscription_app_index = of_nat RIL_CARD_MAX_APPS,
            card_cdma_subscription_app_index = of_nat RIL_CARD_MAX_APPS,
            card_num_applications = num_apps,
            card_applications = replicate RIL_CARD_MAX_APPS (app_status_array ! SIM_Status_val SIM_ABSENT)\<rparr>
      in if num_apps \<noteq> 0 then p_card_status\<lparr>
           card_num_applications := 1,
           card_gsm_umts_subscription_app_index := 0,
           card_applications := (card_applications p_card_status)[0 := app_status_array ! SIM_Status_val sim_status]\<rparr>
         else p_card_status)"

definition getCardStatus ::
    "ref_world \<Rightarrow> (RIL_Errno \<Rightarrow> RIL_CardStatus \<Rightarrow> ref_ril \<Rightarrow> ref_result option) \<Rightarrow> ref_ril \<Rightarrow> ref_result option" where
  "getCardStatus W k s = getSIMStatus W (\<lambda>sim_status. k RIL_E_SUCCESS (card_status sim_status)) s"

definition RIL_AppStatus_layout :: "abi \<Rightarrow> ctype" where
  "RIL_AppStatus_layout a = c_struct [c_int, c_int, c_int, c_ptr a, c_ptr a, c_int, c_int, c_int]"

definition RIL_CardStatus_layout :: "abi \<Rightarrow> ctype" where
  "RIL_CardStatus_layout a =
     c_struct [c_int, c_int, c_int, c_int, c_int, c_array RIL_CARD_MAX_APPS (RIL_AppStatus_layout a)]"

section \<open>Requests\<close>

text \<open>The cases of \<open>onRequest\<close> that send a command and report success whatever comes back.\<close>

definition send_and_succeed :: "ref_world \<Rightarrow> u8 list \<Rightarrow> addr \<Rightarrow> ref_ril \<Rightarrow> ref_result option" where
  "send_and_succeed W cmd t = command_only W cmd (\<lambda>s. Some (Returns (complete t RIL_E_SUCCESS None 0 s)))"

text \<open>The cases for \<open>GET_IMSI\<close>, \<open>GET_IMEI\<close> and \<open>CANCEL_USSD\<close>.\<close>

definition numeric_request :: "ref_world \<Rightarrow> u8 list \<Rightarrow> addr \<Rightarrow> ref_ril \<Rightarrow> ref_result option" where
  "numeric_request W cmd t = command_numeric W cmd (\<lambda>err p_response s. do {
     bad \<leftarrow> failed (err < 0) p_response;
     if bad then Some (Returns (complete t RIL_E_GENERIC_FAILURE None 0 s))
     else do {
       line \<leftarrow> the_line p_response;
       Some (Returns (complete t RIL_E_SUCCESS (Some (RString line)) (psize W) s)) } })"

definition delete_sms :: "ref_world \<Rightarrow> req_data \<Rightarrow> addr \<Rightarrow> ref_ril \<Rightarrow> ref_result option" where
  "delete_sms W d t s = do {
     i \<leftarrow> int_at d 0;
     command W (chars ''AT+CMGD='' @ fmt_d i) (\<lambda>err p_response s. do {
       bad \<leftarrow> failed (err < 0) p_response;
       Some (Returns (if bad then complete t RIL_E_GENERIC_FAILURE None 0 s
         else complete t RIL_E_SUCCESS None 0 s)) }) s }"

definition separate_connection :: "ref_world \<Rightarrow> req_data \<Rightarrow> addr \<Rightarrow> ref_ril \<Rightarrow> ref_result option" where
  "separate_connection W d t s = do {
     party \<leftarrow> int_at d 0;
     if sint party > 0 \<and> sint party < 10 then send_and_succeed W (chars ''AT+CHLD=2'' @ fmt_d party) t s
     else Some (Returns (complete t RIL_E_GENERIC_FAILURE None 0 s)) }"

text \<open>The first character of a string, the zero of an empty one included, and a command that ends there.\<close>

definition send_dtmf :: "ref_world \<Rightarrow> req_data \<Rightarrow> addr \<Rightarrow> ref_ril \<Rightarrow> ref_result option" where
  "send_dtmf W d t s = (case d of
       DString (Some x) \<Rightarrow> send_and_succeed W (chars ''AT+VTS='' @ take 1 x) t s
     | _ \<Rightarrow> None)"

text \<open>Data that goes back as it came; the strings are printed first.\<close>

definition echo_raw :: "req_data \<Rightarrow> nat \<Rightarrow> addr \<Rightarrow> ref_ril \<Rightarrow> ref_result option" where
  "echo_raw d datalen t s = (case d of
       DRaw x \<Rightarrow> Some (Returns (complete t RIL_E_SUCCESS (map_option RRaw x) datalen s))
     | _ \<Rightarrow> None)"

definition echo_strings :: "ref_world \<Rightarrow> req_data \<Rightarrow> nat \<Rightarrow> addr \<Rightarrow> ref_ril \<Rightarrow> ref_result option" where
  "echo_strings W d datalen t s = (case d of
       DStrings xs \<Rightarrow>
         if sint (word_of_nat (datalen div psize W) :: i32) \<le> int (case xs of None \<Rightarrow> 0 | Some xs \<Rightarrow> length xs) then
           Some (Returns (complete t RIL_E_SUCCESS (map_option RStrings xs) datalen s))
         else None
     | _ \<Rightarrow> None)"

text \<open>The \<open>switch\<close> of \<open>onRequest\<close>.\<close>

definition handle_request :: "ref_world \<Rightarrow> i32 \<Rightarrow> req_data \<Rightarrow> nat \<Rightarrow> addr \<Rightarrow> ref_ril \<Rightarrow> ref_result option" where
  "handle_request W request d datalen t s =
     (if request = RIL_REQUEST_GET_SIM_STATUS then
        getCardStatus W (\<lambda>result p_card_status s. Some (Returns (complete t result (Some (RCardStatus p_card_status))
          (size_of (RIL_CardStatus_layout (rw_abi W))) s))) s
      else if request = RIL_REQUEST_GET_CURRENT_CALLS then requestGetCurrentCalls W t s
      else if request = RIL_REQUEST_DIAL then requestDial W d t s
      else if request = RIL_REQUEST_HANGUP then requestHangup W d t s
      else if request = RIL_REQUEST_HANGUP_WAITING_OR_BACKGROUND then send_and_succeed W (chars ''AT+CHLD=0'') t s
      else if request = RIL_REQUEST_HANGUP_FOREGROUND_RESUME_BACKGROUND then
        send_and_succeed W (chars ''AT+CHLD=1'') t s
      else if request = RIL_REQUEST_SWITCH_WAITING_OR_HOLDING_AND_ACTIVE then
        send_and_succeed W (chars ''AT+CHLD=2'') t s
      else if request = RIL_REQUEST_ANSWER then send_and_succeed W (chars ''ATA'') t s
      else if request = RIL_REQUEST_CONFERENCE then send_and_succeed W (chars ''AT+CHLD=3'') t s
      else if request = RIL_REQUEST_UDUB then send_and_succeed W (chars ''ATH'') t s
      else if request = RIL_REQUEST_SEPARATE_CONNECTION then separate_connection W d t s
      else if request = RIL_REQUEST_SIGNAL_STRENGTH then requestSignalStrength W t s
      else if request = RIL_REQUEST_REGISTRATION_STATE \<or> request = RIL_REQUEST_GPRS_REGISTRATION_STATE then
        requestRegistrationState W request t s
      else if request = RIL_REQUEST_OPERATOR then requestOperator W t s
      else if request = RIL_REQUEST_RADIO_POWER then requestRadioPower W d datalen t s
      else if request = RIL_REQUEST_DTMF then send_dtmf W d t s
      else if request = RIL_REQUEST_SEND_SMS then requestSendSMS W d t s
      else if request = RIL_REQUEST_SETUP_DATA_CALL then requestSetupDataCall W d t s
      else if request = RIL_REQUEST_SMS_ACKNOWLEDGE then requestSMSAcknowledge W d t s
      else if request = RIL_REQUEST_GET_IMSI then numeric_request W (chars ''AT+CIMI'') t s
      else if request = RIL_REQUEST_GET_IMEI then numeric_request W (chars ''AT+CGSN'') t s
      else if request = RIL_REQUEST_SIM_IO then requestSIM_IO W d t s
      else if request = RIL_REQUEST_SEND_USSD then requestSendUSSD t s
      else if request = RIL_REQUEST_CANCEL_USSD then numeric_request W (chars ''AT+CUSD=2'') t s
      else if request = RIL_REQUEST_SET_NETWORK_SELECTION_AUTOMATIC then
        command_only W (chars ''AT+COPS=0'') (\<lambda>s. Some (Returns s)) s
      else if request = RIL_REQUEST_DATA_CALL_LIST then requestDataCallList W t s
      else if request = RIL_REQUEST_QUERY_NETWORK_SELECTION_MODE then requestQueryNetworkSelectionMode W t s
      else if request = RIL_REQUEST_OEM_HOOK_RAW then echo_raw d datalen t s
      else if request = RIL_REQUEST_OEM_HOOK_STRINGS then echo_strings W d datalen t s
      else if request = RIL_REQUEST_WRITE_SMS_TO_SIM then requestWriteSmsToSim W d t s
      else if request = RIL_REQUEST_DELETE_SMS_ON_SIM then delete_sms W d t s
      else if request = RIL_REQUEST_ENTER_SIM_PIN \<or> request = RIL_REQUEST_ENTER_SIM_PUK
          \<or> request = RIL_REQUEST_ENTER_SIM_PIN2 \<or> request = RIL_REQUEST_ENTER_SIM_PUK2
          \<or> request = RIL_REQUEST_CHANGE_SIM_PIN \<or> request = RIL_REQUEST_CHANGE_SIM_PIN2 then
        requestEnterSimPin W d datalen t s
      else if request = RIL_REQUEST_SUPPORT_PORTS then requestPortList W d datalen t s
      else if request = RIL_REQUEST_PSCS_BIND_STATE then requestPsCsStat W d datalen t s
      else if request = RIL_REQUEST_NDIS_DIAL then requestNdisDial W d datalen t s
      else if request = RIL_REQUEST_PDP_ADDR then requestPdpAddr W d datalen t s
      else if request = RIL_REQUEST_DHCP_INFO then requestDhcpInfo W d datalen t s
      else Some (Returns (complete t RIL_E_REQUEST_NOT_SUPPORTED None 0 s)))"

definition onRequest_ref :: "ref_world \<Rightarrow> i32 \<Rightarrow> req_data \<Rightarrow> nat \<Rightarrow> addr \<Rightarrow> ref_ril \<Rightarrow> ref_result option" where
  "onRequest_ref W request d datalen t s =
     (if sState s = RADIO_STATE_UNAVAILABLE \<and> request \<noteq> RIL_REQUEST_GET_SIM_STATUS then
        Some (Returns (complete t RIL_E_RADIO_NOT_AVAILABLE None 0 s))
      else if sState s = RADIO_STATE_OFF
          \<and> \<not> (request = RIL_REQUEST_RADIO_POWER \<or> request = RIL_REQUEST_GET_SIM_STATUS) then
        Some (Returns (complete t RIL_E_RADIO_NOT_AVAILABLE None 0 s))
      else handle_request W request d datalen t s)"

definition currentState :: "ref_ril \<Rightarrow> RIL_RadioState" where "currentState s = sState s"
definition onSupports :: "i32 \<Rightarrow> i32" where "onSupports requestCode = 1"
definition onCancel :: "addr \<Rightarrow> ref_ril \<Rightarrow> ref_ril" where "onCancel t s = s"
definition getVersion :: "u8 list" where "getVersion = chars ''android reference-ril 1.0''"

text \<open>A timed callback, by the number it was requested with.\<close>

definition on_timed :: "ref_world \<Rightarrow> nat \<Rightarrow> ref_ril \<Rightarrow> ref_result option" where
  "on_timed W k s =
     (if k = cb_sendCallStateChanged then Some (Returns (sendCallStateChanged s))
      else if k = cb_onDataCallListChanged then onDataCallListChanged W s
      else if k = cb_initializeCallback then Some (Returns (initializeCallback s))
      else None)"

section \<open>The main loop\<close>

text \<open>The control socket of the emulator: \<open>gsm\<close> is written, and \<open>OK\<close> must come back.\<close>

definition qemud_answers :: "ref_world \<Rightarrow> ref_ril \<Rightarrow> bool \<times> ref_ril" where
  "qemud_answers W s =
     (let (r, s) = ref_sys (rw_write W) s
      in if (case r of Moved k \<Rightarrow> k < 3 | Failed _ \<Rightarrow> True) then (False, s)
         else (let (r, s) = ref_sys (rw_read W) s
               in (case r of Got bs \<Rightarrow> take 2 bs = chars ''OK'' | Read_error _ \<Rightarrow> False, s)))"

text \<open>An attempt to open the interface; a null path is not compared.\<close>

definition open_interface :: "ref_world \<Rightarrow> ref_ril \<Rightarrow> (int \<times> ref_ril) option" where
  "open_interface W s =
     (if sint (s_port s) > 0 then Some (ref_sys (rw_open W) s)
      else if s_device_socket s then do {
        path \<leftarrow> s_device_path s;
        let (fd, s) = ref_sys (rw_open W) s;
        if path = chars ''/dev/socket/qemud'' \<and> fd \<ge> 0 then
          (let (ok, s) = qemud_answers W s in Some (if ok then fd else -1, s))
        else Some (fd, s) }
      else if s_device_path s \<noteq> None then Some (ref_sys (rw_open W) s)
      else Some (-1, s))"

partial_function (option) open_loop :: "ref_world \<Rightarrow> ref_ril \<Rightarrow> (int \<times> ref_ril) option" where
  "open_loop W s = do {
     (fd, s) \<leftarrow> open_interface W s;
     if fd < 0 then open_loop W s else Some (fd, s) }"

text \<open>One turn of \<open>mainLoop\<close>, up to \<open>waitForClose\<close>; \<open>False\<close> says that the loop ends.\<close>

definition mainLoop_turn :: "ref_world \<Rightarrow> ref_ril \<Rightarrow> (bool \<times> ref_ril) option" where
  "mainLoop_turn W s = do {
     (fd, s) \<leftarrow> open_loop W s;
     let s = s\<lparr>s_closed := False\<rparr>;
     let (ret, c) = at_open (rw_thread W) fd True (chan s);
     let s = s\<lparr>chan := c\<rparr>;
     if ret < 0 then Some (False, s)
     else Some (True, request_timed cb_initializeCallback (Some TIMEVAL_0) s) }"

definition mainLoop_start :: "ref_world \<Rightarrow> ref_ril \<Rightarrow> (bool \<times> ref_ril) option" where
  "mainLoop_start W s = mainLoop_turn W
     (s\<lparr>chan := at_set_on_timeout True (at_set_on_reader_closed True (chan s))\<rparr>)"

definition waitForClose :: "ref_ril \<Rightarrow> bool" where "waitForClose s = s_closed s"

definition atoi :: "ref_world \<Rightarrow> u8 list \<Rightarrow> i32" where
  "atoi W x = (let (neg, ds) = strto_digits 10 x
     in word_of_int (strto_value (long_bits W) False neg (digits_value 10 ds)))"

text \<open>The options as \<open>getopt\<close> reports them; \<open>False\<close> is a null pointer as the result of \<open>RIL_Init\<close>.\<close>

fun parse_options :: "ref_world \<Rightarrow> (u8 \<times> u8 list) list \<Rightarrow> ref_ril \<Rightarrow> bool \<times> ref_ril" where
  "parse_options W [] s = (True, s)"
| "parse_options W ((opt, optarg) # os) s =
     (if opt = 112 then
        (let s = s\<lparr>s_port := atoi W optarg\<rparr>
         in if s_port s = 0 then (False, s) else parse_options W os s)
      else if opt = 100 then parse_options W os (s\<lparr>s_device_path := Some optarg\<rparr>)
      else if opt = 115 then parse_options W os (s\<lparr>s_device_path := Some optarg, s_device_socket := True\<rparr>)
      else (False, s))"

definition RIL_Init :: "ref_world \<Rightarrow> (u8 \<times> u8 list) list \<Rightarrow> ref_ril \<Rightarrow> bool \<times> ref_ril" where
  "RIL_Init W os s =
     (let (ok, s) = parse_options W os s
      in if \<not> ok then (False, s)
         else if sint (s_port s) < 0 \<and> s_device_path s = None then (False, s)
         else (let (ret, s) = ref_sys (rw_thread W) s in (True, s)))"

section \<open>The library as a whole\<close>

text \<open>Every step that may wait for the modem comes with the events of that time.\<close>

inductive ref_step :: "ref_world \<Rightarrow> ref_ril \<Rightarrow> ref_ril \<Rightarrow> bool" for W where
  request: "onRequest_ref W request d n t (s\<lparr>script := es\<rparr>) = Some (Returns s') \<Longrightarrow> ref_step W s s'"
| timed: "on_timed W k (s\<lparr>script := es\<rparr>) = Some (Returns s') \<Longrightarrow> ref_step W s s'"
| line: "processLine (rw_at W) l (chan s) = Some c \<Longrightarrow> channel_moves W c s = Some s' \<Longrightarrow> ref_step W s s'"
| input_ends: "channel_moves W (onReaderClosed (chan s)) s = Some s' \<Longrightarrow> ref_step W s s'"
| reopen: "waitForClose s \<Longrightarrow> mainLoop_turn W s = Some (go, s') \<Longrightarrow> ref_step W s s'"

inductive ref_reaches :: "ref_world \<Rightarrow> ref_ril \<Rightarrow> ref_ril \<Rightarrow> bool" for W where
  ref_refl: "ref_reaches W s s"
| ref_more: "ref_reaches W s u \<Longrightarrow> ref_step W u s' \<Longrightarrow> ref_reaches W s s'"

inductive_cases ref_step_cases: "ref_step W s s'"

end
