(* ===== verification/Ref_Evolve.thy ===== *)
theory Ref_Evolve
  imports Ref_Ril
begin

text \<open>
  What a handler of the reference library does to the state as a whole, whatever the modem answers: how
  often it completes its request, that it keeps the invariant of the radio state, and that it tells the
  daemon of every change of the radio state. \<open>silent\<close> and \<open>handled\<close> are relations between states; one
  rule says how a command passes from the first to the second, and every handler follows from it.
\<close>

section \<open>Completions and notifications\<close>

text \<open>The tokens that are completed, and the notifications of the radio state.\<close>

fun answers :: "vendor_call list \<Rightarrow> addr list" where
  "answers [] = []"
| "answers (Complete t e r n # cs) = t # answers cs"
| "answers (c # cs) = answers cs"

definition radio_note :: vendor_call where
  "radio_note = Unsolicited RIL_UNSOL_RESPONSE_RADIO_STATE_CHANGED None 0"

definition radio_notes :: "ref_ril \<Rightarrow> nat" where
  "radio_notes s = count_list (calls s) radio_note"

lemma answers_append [simp]: "answers (cs @ ds) = answers cs @ answers ds"
  by (induction cs rule: answers.induct) simp_all

lemma count_list_snoc [simp]: "count_list (xs @ ys) x = count_list xs x + count_list ys x"
  by (induction xs) auto

text \<open>The invariant: no state in which the SIM is not ready, and none but one while the channel is closed.\<close>

definition radio_ok :: "ref_ril \<Rightarrow> bool" where
  "radio_ok s \<longleftrightarrow> sState s \<in> {RADIO_STATE_OFF, RADIO_STATE_UNAVAILABLE, RADIO_STATE_SIM_READY} \<and>
     (s_closed s \<longrightarrow> sState s = RADIO_STATE_UNAVAILABLE)"

definition evolves :: "ref_ril \<Rightarrow> ref_ril \<Rightarrow> bool" where
  "evolves s s' \<longleftrightarrow> (radio_ok s \<longrightarrow> radio_ok s') \<and> radio_notes s \<le> radio_notes s' \<and>
     (sState s' = sState s \<or> radio_notes s < radio_notes s')"

definition silent :: "ref_ril \<Rightarrow> ref_ril \<Rightarrow> bool" where
  "silent s s' \<longleftrightarrow> evolves s s' \<and> answers (calls s') = answers (calls s)"

definition handled :: "addr \<Rightarrow> nat set \<Rightarrow> ref_ril \<Rightarrow> ref_ril \<Rightarrow> bool" where
  "handled t K s s' \<longleftrightarrow> evolves s s' \<and> (\<exists>k \<in> K. answers (calls s') = answers (calls s) @ replicate k t)"

lemma evolves_refl [simp]: "evolves s s"
  by (simp add: evolves_def)

lemma evolves_trans: "evolves s u \<Longrightarrow> evolves u s' \<Longrightarrow> evolves s s'"
  unfolding evolves_def by (auto intro: order_trans)

lemma silent_refl [simp]: "silent s s"
  by (simp add: silent_def)

lemma silent_trans [trans]: "silent s u \<Longrightarrow> silent u s' \<Longrightarrow> silent s s'"
  unfolding silent_def using evolves_trans by metis

lemma silent_handled: "silent s u \<Longrightarrow> handled t K u s' \<Longrightarrow> handled t K s s'"
  unfolding silent_def handled_def using evolves_trans by metis

lemma handled_none: "silent s s' \<Longrightarrow> 0 \<in> K \<Longrightarrow> handled t K s s'"
  unfolding silent_def handled_def by force

text \<open>Fields that nobody looks at here.\<close>

lemma evolves_frame:
  "sState s' = sState s \<Longrightarrow> s_closed s' = s_closed s \<Longrightarrow> calls s' = calls s \<Longrightarrow> silent s s'"
  by (simp add: silent_def evolves_def radio_ok_def radio_notes_def)

lemma evolves_complete: "evolves s (complete t e r n s)"
  by (simp add: evolves_def complete_def radio_notes_def radio_note_def radio_ok_def)

lemma handled_complete: "silent s u \<Longrightarrow> 1 \<in> K \<Longrightarrow> handled t K s (complete t e r n u)"
proof -
  assume "silent s u" "1 \<in> K"
  moreover have "handled t K u (complete t e r n u)"
    using \<open>1 \<in> K\<close> evolves_complete [of u t e r n] by (force simp: handled_def complete_def)
  ultimately show ?thesis using silent_handled by blast
qed

lemma handled_twice: "silent s u \<Longrightarrow> 2 \<in> K \<Longrightarrow> handled t K s (complete t e r n (complete t e' r' n' u))"
proof -
  assume "silent s u" "2 \<in> K"
  moreover have "handled t K u (complete t e r n (complete t e' r' n' u))"
  proof -
    have "answers (calls (complete t e r n (complete t e' r' n' u))) = answers (calls u) @ replicate 2 t"
      by (simp add: complete_def numeral_2_eq_2)
    then show ?thesis
      using \<open>2 \<in> K\<close> evolves_trans [OF evolves_complete evolves_complete] unfolding handled_def by blast
  qed
  ultimately show ?thesis using silent_handled by blast
qed

lemma silent_calls:
  "silent s (request_timed k tv s)"
  "code \<noteq> RIL_UNSOL_RESPONSE_RADIO_STATE_CHANGED \<Longrightarrow> silent s (unsolicited code d n s)"
  by (simp_all add: silent_def evolves_def request_timed_def unsolicited_def radio_notes_def radio_note_def radio_ok_def)

section \<open>The radio state\<close>

text \<open>What \<open>setRadioState\<close> comes to: the state that is stored, and one notification, or two.\<close>

definition radio_told :: "RIL_RadioState \<Rightarrow> ref_ril \<Rightarrow> ref_ril" where
  "radio_told st s = unsolicited RIL_UNSOL_RESPONSE_RADIO_STATE_CHANGED None 0 (s\<lparr>sState := st\<rparr>)"

lemma setRadioState_closed:
  "s_closed s \<Longrightarrow> setRadioState st s =
    (if sState s = RADIO_STATE_UNAVAILABLE then s else radio_told RADIO_STATE_UNAVAILABLE s)"
  by (subst setRadioState.simps) (simp add: store_state_def unsolicited_def radio_told_def Let_def)

lemma setRadioState_same: "\<not> s_closed s \<Longrightarrow> sState s = st \<Longrightarrow> setRadioState st s = s"
  by (subst setRadioState.simps) (simp add: store_state_def)

lemma setRadioState_other:
  assumes "\<not> s_closed s" and "sState s \<noteq> st" and "st \<noteq> RADIO_STATE_SIM_NOT_READY"
  shows "setRadioState st s = radio_told st s"
  using assms by (subst setRadioState.simps)
    (simp add: store_state_def unsolicited_def radio_told_def onSIMReady_def Let_def)

lemma setRadioState_power_on:
  assumes "\<not> s_closed s" and "sState s \<noteq> RADIO_STATE_SIM_NOT_READY"
  shows "setRadioState RADIO_STATE_SIM_NOT_READY s =
    radio_told RADIO_STATE_SIM_READY (radio_told RADIO_STATE_SIM_NOT_READY s)"
proof -
  have "setRadioState RADIO_STATE_SIM_NOT_READY s =
      setRadioState RADIO_STATE_SIM_READY (radio_told RADIO_STATE_SIM_NOT_READY s)"
    using assms by (subst setRadioState.simps)
      (simp add: store_state_def unsolicited_def radio_told_def Let_def)
  also have "\<dots> = radio_told RADIO_STATE_SIM_READY (radio_told RADIO_STATE_SIM_NOT_READY s)"
    using assms(1) by (intro setRadioState_other) (simp_all add: radio_told_def unsolicited_def)
  finally show ?thesis .
qed

lemmas setRadioState_cases =
  setRadioState_closed setRadioState_same setRadioState_other setRadioState_power_on

lemma told_fields [simp]:
  "sState (radio_told st s) = st" "s_closed (radio_told st s) = s_closed s"
  "answers (calls (radio_told st s)) = answers (calls s)" "radio_notes (radio_told st s) = Suc (radio_notes s)"
  "chan (radio_told st s) = chan s"
  by (simp_all add: radio_told_def unsolicited_def radio_notes_def radio_note_def)

lemma setRadioState_silent:
  assumes "st \<in> {RADIO_STATE_OFF, RADIO_STATE_UNAVAILABLE, RADIO_STATE_SIM_READY, RADIO_STATE_SIM_NOT_READY}"
  shows "silent s (setRadioState st s)"
proof (cases "s_closed s")
  case True
  then show ?thesis by (auto simp: setRadioState_closed silent_def evolves_def radio_ok_def)
next
  case False
  then show ?thesis using assms
    by (cases "sState s = st"; cases "st = RADIO_STATE_SIM_NOT_READY")
      (auto simp: setRadioState_cases silent_def evolves_def radio_ok_def)
qed

lemma onATReaderClosed_silent: "silent s (onATReaderClosed s)"
proof -
  let ?u = "s\<lparr>chan := at_close (chan s), s_closed := True\<rparr>"
  have "onATReaderClosed s = (if sState s = RADIO_STATE_UNAVAILABLE then ?u else radio_told RADIO_STATE_UNAVAILABLE ?u)"
    by (simp add: onATReaderClosed_def setRadioState_closed)
  moreover have "radio_notes ?u = radio_notes s" by (simp add: radio_notes_def)
  ultimately show ?thesis by (auto simp: silent_def evolves_def radio_ok_def)
qed

lemma onATTimeout_same: "onATTimeout s = onATReaderClosed s"
  by (simp add: onATTimeout_def onATReaderClosed_def)

lemma onUnsolicited_silent: "onUnsolicited W l pdu s = Some s' \<Longrightarrow> silent s s'"
  by (auto simp: onUnsolicited_def silent_calls split: if_splits prod.splits Option.bind_splits)

lemma called_back_silent: "called_back W e s = Some s' \<Longrightarrow> silent s s'"
  by (auto simp: called_back_def onATTimeout_same onATReaderClosed_silent onUnsolicited_silent
      split: at_effect.splits)

lemma foldM_called_back_silent: "foldM (called_back W) es s = Some s' \<Longrightarrow> silent s s'"
  by (induction es arbitrary: s) (auto split: Option.bind_splits dest: called_back_silent intro: silent_trans)

lemma channel_moves_silent: "channel_moves W c s = Some s' \<Longrightarrow> silent s s'"
proof -
  assume "channel_moves W c s = Some s'"
  then have "silent (s\<lparr>chan := c\<rparr>) s'" by (auto simp: channel_moves_def dest: foldM_called_back_silent)
  moreover have "silent s (s\<lparr>chan := c\<rparr>)" by (rule evolves_frame) simp_all
  ultimately show ?thesis by (rule silent_trans [rotated])
qed

section \<open>Handlers\<close>

definition meets :: "(ref_ril \<Rightarrow> bool) \<Rightarrow> ref_result option \<Rightarrow> bool" where
  "meets Q r \<longleftrightarrow> (\<forall>s'. r = Some (Returns s') \<longrightarrow> Q s')"

lemma meets_simps [simp]:
  "meets Q None" "meets Q (Some (Waits u))" "meets Q (Some (Returns u)) \<longleftrightarrow> Q u"
  by (simp_all add: meets_def)

lemma meets_bind: "(\<And>x. m = Some x \<Longrightarrow> meets Q (f x)) \<Longrightarrow> meets Q (m \<bind> f)"
  by (cases m) auto

named_theorems handler_rules "rules for the handlers of requests"

lemma meets_at_call:
  assumes "\<And>err resp u. silent s u \<Longrightarrow> meets Q (k err resp u)"
  shows "meets Q (at_call W f k s)"
  unfolding at_call_def
proof (intro meets_bind)
  fix out assume "f (script s) (chan s) = Some out"
  show "meets Q (case out of
       Done err p_response es c \<Rightarrow> channel_moves W c s \<bind> (\<lambda>s. k err p_response (s\<lparr>script := es\<rparr>))
     | Still_waiting c \<Rightarrow> channel_moves W c s \<bind> (\<lambda>s. Some (Waits (s\<lparr>script := []\<rparr>))))"
  proof (cases out)
    case (Done err p_response es c)
    have "meets Q (k err p_response (u\<lparr>script := es\<rparr>))" if "channel_moves W c s = Some u" for u
      using channel_moves_silent [OF that] silent_trans [OF _ evolves_frame [of "u\<lparr>script := es\<rparr>" u]] assms by simp
    then show ?thesis using Done by (auto intro!: meets_bind)
  qed (auto intro!: meets_bind)
qed

lemma meets_commands [handler_rules]:
  assumes "\<And>err resp u. silent s u \<Longrightarrow> meets Q (k err resp u)"
  shows "meets Q (command W cmd k s)" "meets Q (command_singleline W cmd p k s)"
    "meets Q (command_numeric W cmd k s)" "meets Q (command_sms W cmd pdu p k s)"
    "meets Q (command_multiline W cmd p k s)"
  by (simp_all add: command_def command_singleline_def command_numeric_def command_sms_def command_multiline_def
      meets_at_call assms)

lemma meets_command_only [handler_rules]:
  assumes "\<And>u. silent s u \<Longrightarrow> meets Q (k u)"
  shows "meets Q (command_only W cmd k s)"
  by (simp add: command_only_def meets_at_call assms)

section \<open>Every handler\<close>

lemma handled_silent_complete [handler_rules]:
  "silent s u \<Longrightarrow> handled t {1} s (complete t e r n u)" "silent s u \<Longrightarrow> handled t {1, 2} s (complete t e r n u)"
  "silent s u \<Longrightarrow> handled t {1, 2} s (complete t e r n (complete t e' r' n' u))"
  by (simp_all add: handled_complete handled_twice)

lemma handled_strings [handler_rules]:
  "silent s u \<Longrightarrow> handled t {1} s (complete_strings W t xs u)"
  "silent s u \<Longrightarrow> handled t {1, 2} s (complete_strings W t xs u)"
  by (simp_all add: complete_strings_def handled_complete)

lemma silent_set [handler_rules]:
  "silent s u \<Longrightarrow> silent s (setRadioState RADIO_STATE_OFF u)"
  "silent s u \<Longrightarrow> silent s (setRadioState RADIO_STATE_SIM_NOT_READY u)"
  using silent_trans [OF _ setRadioState_silent] by blast+

lemma meets_returns [handler_rules]: "Q u \<Longrightarrow> meets Q (Some (Returns u))"
  by simp

lemma meets_if [handler_rules]:
  "(b \<Longrightarrow> meets Q x) \<Longrightarrow> (\<not> b \<Longrightarrow> meets Q y) \<Longrightarrow> meets Q (if b then x else y)"
  by simp

lemma meets_option [handler_rules]:
  "(m = None \<Longrightarrow> meets Q x) \<Longrightarrow> (\<And>y. m = Some y \<Longrightarrow> meets Q (f y)) \<Longrightarrow> meets Q (case m of None \<Rightarrow> x | Some y \<Rightarrow> f y)"
  by (cases m) simp_all

lemma meets_none [handler_rules]: "meets Q None"
  by simp

lemmas [handler_rules] = meets_bind silent_refl

lemma meets_prod [handler_rules]: "(\<And>x y. p = (x, y) \<Longrightarrow> meets Q (f x y)) \<Longrightarrow> meets Q (case p of (x, y) \<Rightarrow> f x y)"
  by (cases p) simp

lemma meets_list [handler_rules]:
  "(xs = [] \<Longrightarrow> meets Q x) \<Longrightarrow> (\<And>y ys. xs = y # ys \<Longrightarrow> meets Q (f y ys)) \<Longrightarrow>
    meets Q (case xs of [] \<Rightarrow> x | y # ys \<Rightarrow> f y ys)"
  by (cases xs) simp_all

lemma handled_if [handler_rules]:
  "(b \<Longrightarrow> handled t K s x) \<Longrightarrow> (\<not> b \<Longrightarrow> handled t K s y) \<Longrightarrow> handled t K s (if b then x else y)"
  by simp

lemma handled_timed [handler_rules]: "handled t K s u \<Longrightarrow> handled t K s (request_timed k tv u)"
  using silent_calls(1) [of u k tv] evolves_trans unfolding handled_def silent_def by metis

text \<open>Requests that are completed once.\<close>

lemma requestRadioPower_handled: "meets (handled t {1} s) (requestRadioPower W d n t s)"
  unfolding requestRadioPower_def Let_def by (intro handler_rules)

lemma requestNdisDial_handled: "meets (handled t {1} s) (requestNdisDial W d n t s)"
  unfolding requestNdisDial_def Let_def by (intro handler_rules)

lemma data_call_list_handled: "silent s u \<Longrightarrow> meets (handled t {1} s) (data_call_list (Some t) e r n u)"
  unfolding data_call_list_def by (simp add: handled_complete)

lemma requestDataCallList_handled: "meets (handled t {1} s) (requestDataCallList W t s)"
  unfolding requestDataCallList_def requestOrSendDataCallList_def Let_def
  by (intro handler_rules data_call_list_handled) (blast intro: silent_trans)+

lemma data_call_list_silent: "silent s u \<Longrightarrow> meets (silent s) (data_call_list None e r n u)"
  unfolding data_call_list_def by (simp add: silent_trans [OF _ silent_calls(2)])

lemma onDataCallListChanged_silent: "meets (silent s) (onDataCallListChanged W s)"
  unfolding onDataCallListChanged_def requestOrSendDataCallList_def Let_def
  by (intro handler_rules data_call_list_silent) (blast intro: silent_trans)+

lemma requestGetCurrentCalls_handled: "meets (handled t {1} s) (requestGetCurrentCalls W t s)"
  unfolding requestGetCurrentCalls_def Let_def by (intro handler_rules) simp_all

lemma send_and_succeed_handled: "meets (handled t {1} s) (send_and_succeed W cmd t s)"
  unfolding send_and_succeed_def by (intro handler_rules)

lemma requestHangup_handled: "meets (handled t {1} s) (requestHangup W d t s)"
  unfolding requestHangup_def by (intro handler_rules)

lemma separate_connection_handled: "meets (handled t {1} s) (separate_connection W d t s)"
  unfolding separate_connection_def by (intro handler_rules send_and_succeed_handled)

lemma requestDial_handled: "meets (handled t {1} s) (requestDial W d t s)"
  unfolding requestDial_def Let_def by (cases d; simp only: req_data.case; intro handler_rules)

lemma send_dtmf_handled: "meets (handled t {1} s) (send_dtmf W d t s)"
  unfolding send_dtmf_def by (cases d; simp only: req_data.case; intro handler_rules send_and_succeed_handled)

lemma requestWriteSmsToSim_handled: "meets (handled t {1} s) (requestWriteSmsToSim W d t s)"
  unfolding requestWriteSmsToSim_def by (cases d; simp only: req_data.case; intro handler_rules)

lemma requestSendSMS_handled: "meets (handled t {1} s) (requestSendSMS W d t s)"
  unfolding requestSendSMS_def Let_def by (intro handler_rules)

lemma requestQueryNetworkSelectionMode_handled: "meets (handled t {1} s) (requestQueryNetworkSelectionMode W t s)"
  unfolding requestQueryNetworkSelectionMode_def Let_def by (intro handler_rules)

lemma requestRegistrationState_handled: "meets (handled t {1} s) (requestRegistrationState W r t s)"
  unfolding requestRegistrationState_def Let_def by (intro handler_rules)

lemma requestOperator_handled: "meets (handled t {1} s) (requestOperator W t s)"
  unfolding requestOperator_def Let_def by (intro handler_rules)

lemma requestSIM_IO_handled: "meets (handled t {1} s) (requestSIM_IO W d t s)"
  unfolding requestSIM_IO_def Let_def by (cases d; simp only: req_data.case; intro handler_rules)

lemma requestEnterSimPin_handled: "meets (handled t {1} s) (requestEnterSimPin W d n t s)"
  unfolding requestEnterSimPin_def Let_def by (intro handler_rules)

lemma numeric_request_handled: "meets (handled t {1} s) (numeric_request W cmd t s)"
  unfolding numeric_request_def by (intro handler_rules)

lemma delete_sms_handled: "meets (handled t {1} s) (delete_sms W d t s)"
  unfolding delete_sms_def by (intro handler_rules)

lemma echo_handled:
  "meets (handled t {1} s) (echo_raw d n t s)" "meets (handled t {1} s) (echo_strings W d n t s)"
  "meets (handled t {1} s) (requestSendUSSD t s)"
  by (auto simp: echo_raw_def echo_strings_def requestSendUSSD_def handled_complete split: req_data.splits)

text \<open>Requests that may be completed twice.\<close>

lemma requestPortList_handled: "meets (handled t {1, 2} s) (requestPortList W d n t s)"
  unfolding requestPortList_def Let_def by (intro handler_rules)

lemma requestSignalStrength_handled: "meets (handled t {1, 2} s) (requestSignalStrength W t s)"
  unfolding requestSignalStrength_def Let_def by (intro handler_rules)

lemma request_one_line_handled: "meets (handled t {1, 2} s) (request_one_line W cmd p b t s)"
  unfolding request_one_line_def Let_def by (intro handler_rules)

lemma requestPdpAddr_handled: "meets (handled t {1, 2} s) (requestPdpAddr W d n t s)"
  unfolding requestPdpAddr_def by (intro handler_rules request_one_line_handled)

lemma requestDhcpInfo_handled: "meets (handled t {1, 2} s) (requestDhcpInfo W d n t s)"
  unfolding requestDhcpInfo_def by (intro handler_rules request_one_line_handled)

lemma requestPsCsStat_handled: "meets (handled t {1, 2} s) (requestPsCsStat W d n t s)"
  unfolding requestPsCsStat_def Let_def by (intro handler_rules) (blast intro: silent_trans)+

lemma requestSMSAcknowledge_handled: "meets (handled t {1, 2} s) (requestSMSAcknowledge W d t s)"
  unfolding requestSMSAcknowledge_def Let_def by (intro handler_rules)

text \<open>Setting up a data call.\<close>

lemma ref_sys_silent: "ref_sys f s = (x, s') \<Longrightarrow> silent s s'"
  by (auto simp: ref_sys_def intro: evolves_frame)

lemma ref_emit_silent [simp]: "silent s (ref_emit e s)"
  by (simp add: ref_emit_def evolves_frame)

lemma qmi_write_silent: "qmi_write W cmd cur s = Some (ok, s') \<Longrightarrow> silent s s'"
proof -
  have "qmi_write W cmd cur s = Some y \<Longrightarrow> silent s (snd y)" for y
  proof (erule qmi_write.raw_induct [rotated, where P = "\<lambda>W cmd cur s y. silent s (snd y)"], goal_cases)
    case (1 f W cmd cur s y)
    obtain r u where u: "ref_sys (rw_write W) s = (r, u)" by fastforce
    show ?case
    proof (cases "cur < length cmd")
      case True
      show ?thesis
      proof (cases r)
        case (Moved k)
        then have "f W cmd (cur + min k (length cmd - cur)) (ref_emit (Wrote_qmi (take (min k (length cmd - cur))
            (drop cur cmd))) u) = Some y"
          using 1(2) True u by (simp add: Let_def)
        from 1(1) [OF this] show ?thesis using ref_sys_silent [OF u] silent_trans ref_emit_silent by blast
      next
        case (Failed eintr)
        then show ?thesis using 1(1) [of W cmd cur u y] 1(2) True u ref_sys_silent [OF u] silent_trans
          by (auto split: if_splits)
      qed
    qed (use 1(2) in auto)
  qed
  then show "qmi_write W cmd cur s = Some (ok, s') \<Longrightarrow> silent s s'" by fastforce
qed

lemma qmi_read_silent: "qmi_read W s = Some (r, s') \<Longrightarrow> silent s s'"
proof -
  have "qmi_read W s = Some y \<Longrightarrow> silent s (snd y)" for y
  proof (erule qmi_read.raw_induct [rotated, where P = "\<lambda>W s y. silent s (snd y)"], goal_cases)
    case (1 f W s y)
    obtain r u where u: "ref_sys (rw_read W) s = (r, u)" by fastforce
    then show ?case
      using 1(1) [of W u y] 1(2) ref_sys_silent [OF u] silent_trans by (auto split: ref_read.splits if_splits)
  qed
  then show "qmi_read W s = Some (r, s') \<Longrightarrow> silent s s'" by fastforce
qed

lemma qmi_poll_silent: "qmi_poll W n s = Some (r, s') \<Longrightarrow> silent s s'"
proof (induction n arbitrary: s)
  case (Suc n)
  obtain q u where u: "qmi_read W s = Some (q, u)" using Suc.prems by (auto split: Option.bind_splits)
  then show ?case
    using Suc.prems Suc.IH [of u] qmi_read_silent [OF u] silent_trans by (auto split: option.splits if_splits)
qed simp

lemma requestSetupDataCall_handled: "meets (handled t {1} s) (requestSetupDataCall W d t s)"
proof -
  obtain fd u where u: "ref_sys (rw_open W) s = (fd, u)" by fastforce
  have first: "silent s u" by (rule ref_sys_silent [OF u])
  show ?thesis
    unfolding requestSetupDataCall_def Let_def u prod.case
    by (intro handler_rules; simp?;
        meson first qmi_write_silent qmi_poll_silent ref_sys_silent ref_emit_silent silent_trans)
qed

text \<open>The status of the SIM.\<close>

lemma meets_getSIMStatus:
  assumes "\<And>st u. silent s u \<Longrightarrow> meets Q (k st u)"
  shows "meets Q (getSIMStatus W k s)"
  unfolding getSIMStatus_def by (intro handler_rules assms)

lemma getCardStatus_handled:
  "meets (handled t {1} s) (getCardStatus W (\<lambda>e c u. Some (Returns (complete t e (Some (RCardStatus c)) n u))) s)"
  unfolding getCardStatus_def by (intro meets_getSIMStatus handler_rules)

section \<open>\<open>onRequest\<close>\<close>

text \<open>How often a request may be completed.\<close>

definition twice_requests :: "i32 set" where
  "twice_requests = {RIL_REQUEST_SUPPORT_PORTS, RIL_REQUEST_PSCS_BIND_STATE, RIL_REQUEST_PDP_ADDR,
     RIL_REQUEST_DHCP_INFO, RIL_REQUEST_SIGNAL_STRENGTH, RIL_REQUEST_SMS_ACKNOWLEDGE}"

definition completions :: "i32 \<Rightarrow> nat set" where
  "completions request =
     (if request = RIL_REQUEST_SET_NETWORK_SELECTION_AUTOMATIC then {0, 1}
      else if request \<in> twice_requests then {1, 2} else {1})"

lemma handled_mono: "handled t K s s' \<Longrightarrow> K \<subseteq> L \<Longrightarrow> handled t L s s'"
  unfolding handled_def by blast

lemma meets_mono: "meets P r \<Longrightarrow> (\<And>s. P s \<Longrightarrow> Q s) \<Longrightarrow> meets Q r"
  unfolding meets_def by blast

lemma handled_completions:
  "meets (handled t {1} s) r \<Longrightarrow> meets (handled t (completions request) s) r"
  by (elim meets_mono handled_mono) (simp add: completions_def)

lemma handled_completions_twice:
  "meets (handled t {1, 2} s) r \<Longrightarrow> request \<in> twice_requests \<Longrightarrow> meets (handled t (completions request) s) r"
  by (elim meets_mono handled_mono) (auto simp: completions_def twice_requests_def)

lemma select_network_handled:
  "request = RIL_REQUEST_SET_NETWORK_SELECTION_AUTOMATIC \<Longrightarrow>
    meets (handled t (completions request) s) (command_only W cmd (\<lambda>s. Some (Returns s)) s)"
  by (intro handler_rules) (simp_all add: completions_def handled_none)

lemmas handled_once = handled_completions [OF requestRadioPower_handled]
  handled_completions [OF requestNdisDial_handled] handled_completions [OF requestDataCallList_handled]
  handled_completions [OF requestGetCurrentCalls_handled] handled_completions [OF send_and_succeed_handled]
  handled_completions [OF requestHangup_handled] handled_completions [OF separate_connection_handled]
  handled_completions [OF requestDial_handled] handled_completions [OF send_dtmf_handled]
  handled_completions [OF requestWriteSmsToSim_handled] handled_completions [OF requestSendSMS_handled]
  handled_completions [OF requestQueryNetworkSelectionMode_handled]
  handled_completions [OF requestRegistrationState_handled] handled_completions [OF requestOperator_handled]
  handled_completions [OF requestSIM_IO_handled] handled_completions [OF requestEnterSimPin_handled]
  handled_completions [OF numeric_request_handled] handled_completions [OF delete_sms_handled]
  handled_completions [OF echo_handled(1)] handled_completions [OF echo_handled(2)]
  handled_completions [OF echo_handled(3)] handled_completions [OF requestSetupDataCall_handled]
  handled_completions [OF getCardStatus_handled]

lemmas handled_once_or_twice = handled_completions_twice [OF requestPortList_handled]
  handled_completions_twice [OF requestSignalStrength_handled] handled_completions_twice [OF requestPdpAddr_handled]
  handled_completions_twice [OF requestDhcpInfo_handled] handled_completions_twice [OF requestPsCsStat_handled]
  handled_completions_twice [OF requestSMSAcknowledge_handled]

lemma handled_default: "meets (handled t (completions request) s) (Some (Returns (complete t e r n s)))"
  by (rule handled_completions) (simp add: handled_complete)

lemma handle_request_handled:
  "meets (handled t (completions request) s) (handle_request W request d n t s)"
  unfolding handle_request_def
  by (intro meets_if handled_once handled_once_or_twice select_network_handled handled_default)
    (simp_all add: twice_requests_def)

lemma onRequest_handled: "meets (handled t (completions request) s) (onRequest_ref W request d n t s)"
  unfolding onRequest_ref_def by (intro meets_if handle_request_handled handled_default)

section \<open>Steps\<close>

lemma on_timed_silent: "meets (silent s) (on_timed W k s)"
proof -
  have "silent s (initializeCallback s)"
    by (auto simp: initializeCallback_def isRadioOn_def intro!: silent_set)
  moreover have "silent s (sendCallStateChanged s)" by (simp add: sendCallStateChanged_def silent_calls)
  ultimately show ?thesis by (auto simp: on_timed_def onDataCallListChanged_silent)
qed

lemma open_interface_silent: "open_interface W s = Some (fd, s') \<Longrightarrow> silent s s'"
  by (auto simp: open_interface_def qemud_answers_def Let_def split: if_splits prod.splits Option.bind_splits
      dest!: ref_sys_silent intro: silent_trans)

lemma open_loop_silent: "open_loop W s = Some (fd, s') \<Longrightarrow> silent s s'"
proof -
  have "open_loop W s = Some y \<Longrightarrow> silent s (snd y)" for y
  proof (erule open_loop.raw_induct [rotated, where P = "\<lambda>W s y. silent s (snd y)"], goal_cases)
    case (1 f W s y)
    obtain fd u where u: "open_interface W s = Some (fd, u)" using 1(2) by (auto split: Option.bind_splits)
    then show ?case
      using 1(1) [of W u y] 1(2) silent_trans [OF open_interface_silent [OF u]] open_interface_silent [OF u]
      by (auto split: if_splits)
  qed
  then show "open_loop W s = Some (fd, s') \<Longrightarrow> silent s s'" by fastforce
qed

text \<open>When the channel is opened again it is not closed any more; the radio state does not change.\<close>

lemma mainLoop_turn_evolves:
  assumes "mainLoop_turn W s = Some (go, s')"
  shows "evolves s s' \<and> answers (calls s') = answers (calls s)"
proof -
  obtain fd u where u: "open_loop W s = Some (fd, u)" using assms by (auto simp: mainLoop_turn_def split: Option.bind_splits)
  obtain ret c where "at_open (rw_thread W) fd True (chan (u\<lparr>s_closed := False\<rparr>)) = (ret, c)" by fastforce
  then have s': "s' = u\<lparr>s_closed := False, chan := c\<rparr> \<or>
      s' = request_timed cb_initializeCallback (Some TIMEVAL_0) (u\<lparr>s_closed := False, chan := c\<rparr>)"
    using assms u by (auto simp: mainLoop_turn_def Let_def split: if_splits)
  have "silent s u" by (rule open_loop_silent [OF u])
  moreover have "evolves u s'" "answers (calls s') = answers (calls u)"
    using s' by (auto simp: evolves_def radio_ok_def radio_notes_def request_timed_def radio_note_def)
  ultimately show ?thesis unfolding silent_def using evolves_trans by metis
qed

text \<open>A step completes the token of its request, at most twice, or none.\<close>

lemma script_silent: "silent s (s\<lparr>script := es\<rparr>)"
  by (rule evolves_frame) simp_all

lemma ref_step_evolves: "ref_step W s s' \<Longrightarrow> evolves s s'"
proof (erule ref_step_cases, goal_cases)
  case (1 request d n t es)
  then have "handled t (completions request) (s\<lparr>script := es\<rparr>) s'"
    using onRequest_handled unfolding meets_def by metis
  then show ?case using evolves_trans script_silent [of s es] unfolding handled_def silent_def by blast
next
  case (2 k es)
  then have "silent (s\<lparr>script := es\<rparr>) s'" using on_timed_silent unfolding meets_def by metis
  then show ?case using silent_trans script_silent [of s es] unfolding silent_def using evolves_trans by blast
qed (auto dest!: channel_moves_silent mainLoop_turn_evolves simp: silent_def)

lemma ref_reaches_evolves: "ref_reaches W s s' \<Longrightarrow> evolves s s'"
  by (induction rule: ref_reaches.induct) (auto intro: evolves_trans ref_step_evolves)

end
