(* ===== verification/Ref_Answer.thy ===== *)
theory Ref_Answer
  imports Ref_Evolve
begin

text \<open>
  What the handlers of the reference library make of the answers of the modem. An answer is a list of
  lines with a prefix and fields as the modem prints them, numbers in base 10 and quoted strings and
  numbers in base 16; each token function reads back its field.
\<close>

section \<open>Fields\<close>

lemma digits_in_10: "digits_in 10 n = decimal n"
proof (induction n rule: decimal.induct)
  case (1 n)
  then show ?case by (subst digits_in.simps, subst decimal.simps) (simp add: Let_def)
qed

lemma fmt_d_render: "fmt_d x = at_render (AtInt (sint x))"
  by (simp add: fmt_d_def digits_in_10)

lemma sint_ok: "at_value_ok (AtInt (sint (x :: i32)))"
  using sint_range_size [of x] by (simp add: word_size)

lemma nextint_token:
  assumes "nextTok p = (Some (fmt_d x), q)" and "p \<noteq> None" and "32 \<le> bits"
  shows "at_tok_nextint bits p = (0, Some x, q)"
proof -
  have "at_read bits (AtInt (sint x)) p = Some (AtInt (sint x), q)"
    by (rule at_read_int [OF sint_ok assms(3) _ assms(2)]) (use assms(1) in \<open>simp add: fmt_d_render\<close>)
  then show ?thesis by (auto simp: at_read_def split: prod.splits if_splits dest: signed_word_eqI)
qed

lemma nextint_field:
  assumes "32 \<le> bits"
  shows "at_tok_nextint bits (Some (fmt_d x)) = (0, Some x, None)"
    "at_tok_nextint bits (Some (fmt_d x @ 44 # rest)) = (0, Some x, Some rest)"
    "at_tok_nextint bits (Some (32 # fmt_d x)) = (0, Some x, None)"
    "at_tok_nextint bits (Some (32 # fmt_d x @ 44 # rest)) = (0, Some x, Some rest)"
  using nextTok_plain(1) [OF render_int_token, of "sint x"] nextTok_plain(2) [OF render_int_token, of "sint x" rest] assms
    nextTok_blanks [of 1 "fmt_d x"] nextTok_blanks [of 1 "fmt_d x @ 44 # rest"]
  by (intro nextint_token; simp add: fmt_d_render del: at_render.simps)+

lemma fmt_d_no_comma: "44 \<notin> set (fmt_d x)"
  using render_int_token(2) [of "sint x"] by (simp only: fmt_d_render) blast

text \<open>Numbers in base 16.\<close>

lemma hex_digit:
  assumes "d < 16"
  shows "digit_value (word_of_nat (if d < 10 then 48 + d else 87 + d)) = d"
proof -
  have "unat (word_of_nat (if d < 10 then 48 + d else 87 + d) :: u8) = (if d < 10 then 48 + d else 87 + d)"
    using assms by (simp only: unat_of_nat) simp
  then show ?thesis using assms by (simp add: digit_value_def isdigit_def word_le_nat_alt split: if_splits)
qed

lemma hex_digits: "\<forall>c \<in> set (digits_in 16 n). digit_value c < 16"
proof (induction n rule: less_induct)
  case (less n)
  have "digit_value (word_of_nat (if n mod 16 < 10 then 48 + n mod 16 else 87 + n mod 16)) < 16"
    by (subst hex_digit) simp_all
  then show ?case using less [of "n div 16"] by (subst digits_in.simps) (auto simp: Let_def)
qed

lemma hex_value: "digits_value 16 (digits_in 16 n) = int n"
proof (induction n rule: less_induct)
  case (less n)
  let ?c = "word_of_nat (if n mod 16 < 10 then 48 + n mod 16 else 87 + n mod 16) :: u8"
  have c: "digit_value ?c = n mod 16" by (rule hex_digit) simp
  show ?case
  proof (cases "n < 16")
    case True
    then have "digits_in 16 n = [?c]" by (subst digits_in.simps) (simp add: Let_def)
    then show ?thesis using c True by (simp only: digits_value_def foldl.simps) simp
  next
    case False
    then have "digits_in 16 n = digits_in 16 (n div 16) @ [?c]" by (subst digits_in.simps) (simp add: Let_def)
    then have "digits_value 16 (digits_in 16 n) = digits_value 16 (digits_in 16 (n div 16)) * 16 + int (digit_value ?c)"
      by (simp only: digits_value_def foldl_append foldl.simps of_nat_numeral)
    also have "\<dots> = int (n div 16) * 16 + int (n mod 16)" using less [of "n div 16"] False c by simp
    also have "\<dots> = int n" by (simp add: zdiv_int zmod_int)
    finally show ?thesis .
  qed
qed

lemma digits_nonempty: "digits_in b n \<noteq> []"
  by (subst digits_in.simps) (simp add: Let_def)

lemma hex_not_special: "digit_value c < 16 \<Longrightarrow> \<not> isspace c \<and> c \<notin> {34, 43, 44, 45, 88, 120}"
  by (auto simp: digit_value_def isspace_def isdigit_def word_le_nat_alt split: if_splits)

lemma strto_digits_hex: "strto_digits 16 (digits_in 16 n) = (False, digits_in 16 n)"
proof -
  let ?s = "digits_in 16 n"
  have all: "\<forall>c \<in> set ?s. digit_value c < 16" by (rule hex_digits)
  obtain c cs where c: "?s = c # cs" using digits_nonempty by (cases ?s) auto
  have h: "\<not> isspace c" "c \<noteq> 45" "c \<noteq> 43" using hex_not_special [of c] all c by auto
  have prefix: "(case ?s of z # x # d # cs \<Rightarrow>
      if (16 :: nat) = 16 \<and> z = 48 \<and> (x = 120 \<or> x = 88) \<and> digit_value d < 16 then d # cs else ?s | _ \<Rightarrow> ?s) = ?s"
    using all hex_not_special by (auto split: list.splits)
  have "dropWhile isspace ?s = ?s" "(case ?s of c # cs \<Rightarrow> if c = 45 then (True, cs) else if c = 43 then (False, cs)
      else (False, ?s) | [] \<Rightarrow> (False, ?s)) = (False, ?s)" using c h by simp_all
  moreover have "takeWhile (\<lambda>c. digit_value c < 16) ?s = ?s" using all by (simp add: takeWhile_eq_all_conv)
  ultimately show ?thesis by (simp only: strto_digits_def Let_def prod.case prefix)
qed

lemma nexthexint_token:
  assumes "nextTok p = (Some (fmt_x x), q)" and "p \<noteq> None" and "32 \<le> bits"
  shows "at_tok_nexthexint bits p = (0, Some x, q)"
proof -
  have "int (unat x) < 2 ^ 32" using uint_lt2p [of x] unfolding uint_nat by simp
  moreover have "(2 :: int) ^ 32 \<le> 2 ^ bits" using assms(3) by (intro power_increasing) auto
  ultimately have "\<not> int (unat x) \<ge> 2 ^ bits" by linarith
  then have "strto_value bits True False (int (unat x)) = int (unat x)" by (simp add: strto_value_def)
  then show ?thesis
    using assms(1,2) digits_nonempty
    by (simp add: at_tok_nexthexint_def at_tok_nextint_base_def fmt_x_def strto_digits_hex hex_value)
qed

text \<open>Quoted fields.\<close>

definition quoted :: "u8 list \<Rightarrow> u8 list" where "quoted s = 34 # s @ [34]"

lemma nextTok_quoted_field:
  assumes "34 \<notin> set s"
  shows "nextTok (Some (quoted s)) = (Some s, Some [])" "nextTok (Some (quoted s @ 44 # rest)) = (Some s, Some rest)"
  using nextTok_quoted [OF assms, of "[]"] nextTok_quoted [OF assms, of "44 # rest"]
  by (simp_all add: quoted_def skipNextComma_def)

lemma fmt_x_no_quote: "34 \<notin> set (fmt_x x)" "44 \<notin> set (fmt_x x)"
  using hex_digits [of "unat x"] hex_not_special unfolding fmt_x_def by blast+

lemma nexthexint_field:
  assumes "32 \<le> bits"
  shows "at_tok_nexthexint bits (Some (quoted (fmt_x x))) = (0, Some x, Some [])"
    "at_tok_nexthexint bits (Some (quoted (fmt_x x) @ 44 # rest)) = (0, Some x, Some rest)"
  by (intro nexthexint_token; simp add: nextTok_quoted_field fmt_x_no_quote assms)+

lemma nextstr_field:
  assumes "34 \<notin> set s"
  shows "at_tok_nextstr (Some (quoted s)) = (0, Some (Some s), Some [])"
    "at_tok_nextstr (Some (quoted s @ 44 # rest)) = (0, Some (Some s), Some rest)"
  by (simp_all add: at_tok_nextstr_def nextTok_quoted_field [OF assms])

text \<open>The same with \<open>goto error\<close> as \<open>None\<close>.\<close>

lemmas tok_fields =
  nextint_field nexthexint_field nextstr_field

lemma tok_int_field:
  assumes "32 \<le> bits"
  shows "tok_int bits (Some (fmt_d x)) = Some (x, None)"
    "tok_int bits (Some (fmt_d x @ 44 # rest)) = Some (x, Some rest)"
    "tok_int bits (Some (32 # fmt_d x)) = Some (x, None)"
    "tok_int bits (Some (32 # fmt_d x @ 44 # rest)) = Some (x, Some rest)"
  by (simp_all add: tok_int_def nextint_field [OF assms])

lemma tok_hex_field:
  assumes "32 \<le> bits"
  shows "tok_hex bits (Some (quoted (fmt_x x))) = Some (x, Some [])"
    "tok_hex bits (Some (quoted (fmt_x x) @ 44 # rest)) = Some (x, Some rest)"
  by (simp_all add: tok_hex_def nexthexint_field [OF assms])

lemma tok_str_field:
  assumes "34 \<notin> set s"
  shows "tok_str (Some (quoted s)) = Some (Some s, Some [])"
    "tok_str (Some (quoted s @ 44 # rest)) = Some (Some s, Some rest)"
  by (simp_all add: tok_str_def nextstr_field [OF assms])

section \<open>Lines\<close>

text \<open>Fields with commas between them, behind a prefix, a colon and a blank.\<close>

fun joined :: "u8 list list \<Rightarrow> u8 list" where
  "joined [] = []"
| "joined [f] = f"
| "joined (f # fs) = f @ 44 # joined fs"

definition answer_line :: "u8 list \<Rightarrow> u8 list list \<Rightarrow> u8 list" where
  "answer_line pre fs = pre @ 58 # 32 # joined fs"

lemma start_answer: "58 \<notin> set pre \<Longrightarrow> at_tok_start (Some (answer_line pre fs)) = (0, Some (32 # joined fs))"
proof -
  assume "58 \<notin> set pre"
  then have "\<forall>c \<in> set pre. c \<noteq> 58" by auto
  then show ?thesis by (simp add: answer_line_def at_tok_start_def dropWhile_append2)
qed

lemma tok_start_answer: "58 \<notin> set pre \<Longrightarrow> tok_start (answer_line pre fs) = Some (Some (32 # joined fs))"
  by (simp add: tok_start_def start_answer)

lemma prefix_answer: "prefix (pre @ [58]) (answer_line pre fs)"
  by (simp add: answer_line_def)

lemma commas_append [simp]: "commas (xs @ ys) = commas xs + commas ys"
  by (simp add: commas_def)

lemma commas_Cons [simp]: "commas (c # xs) = (if c = 44 then Suc (commas xs) else commas xs)" "commas [] = 0"
  by (simp_all add: commas_def)

lemma commas_none: "44 \<notin> set s \<Longrightarrow> commas s = 0"
  by (auto simp: commas_def filter_empty_conv)

lemma commas_fields [simp]: "commas (fmt_d x) = 0" "commas (quoted (fmt_x x)) = 0"
  by (simp_all add: commas_none fmt_d_no_comma fmt_x_no_quote quoted_def)

lemma plain_answer:
  assumes "pre \<noteq> []" and "hd pre \<noteq> 62" and "\<not> isFinalResponse (answer_line pre fs)"
  shows "plain_line (answer_line pre fs)"
  using assms by (cases pre) (auto simp: plain_line_def answer_line_def sms_prompt_def)

section \<open>The modem answers\<close>

text \<open>A channel on which a command may be sent, by a thread that may send one.\<close>

definition idle :: "at_channel \<Rightarrow> bool" where
  "idle c \<longleftrightarrow> sp_response c = None \<and> \<not> s_readerClosed c \<and> \<not> on_reader c \<and> 0 \<le> s_fd c"

text \<open>The modem accepts \<open>cmd\<close> on the channel \<open>c\<close>.\<close>

definition accepts :: "ref_world \<Rightarrow> u8 list \<Rightarrow> at_channel \<Rightarrow> bool" where
  "accepts W cmd c \<longleftrightarrow> idle c \<and> (\<exists>c'. writeline (rw_at W) cmd c = Some (0, c'))"

text \<open>Writing leaves writes in the trace and nothing else.\<close>

definition only_writes :: "at_channel \<Rightarrow> at_channel \<Rightarrow> bool" where
  "only_writes s s' \<longleftrightarrow> (\<exists>t ws. s' = s\<lparr>at_tick := t, at_trace := at_trace s @ map Wrote_modem ws\<rparr>)"

lemma only_writes_trans:
  assumes "only_writes s u" and "only_writes u s'"
  shows "only_writes s s'"
proof -
  obtain t ws k vs where u: "u = s\<lparr>at_tick := t, at_trace := at_trace s @ map Wrote_modem ws\<rparr>"
      "s' = u\<lparr>at_tick := k, at_trace := at_trace u @ map Wrote_modem vs\<rparr>"
    using assms by (auto simp: only_writes_def)
  then show ?thesis unfolding only_writes_def by (intro exI [of _ k] exI [of _ "ws @ vs"]) simp
qed

lemma only_writes_tick: "only_writes s (s\<lparr>at_tick := t\<rparr>)"
  unfolding only_writes_def by (intro exI [of _ t] exI [of _ "[]"]) simp

lemma only_writes_emit: "only_writes s (at_emit (Wrote_modem bs) (s\<lparr>at_tick := t\<rparr>))"
  unfolding only_writes_def at_emit_def by (intro exI [of _ t] exI [of _ "[bs]"]) simp

lemma write_string_writes: "write_string W bs cur s = Some (ok, s') \<Longrightarrow> only_writes s s'"
proof -
  have "write_string W bs cur s = Some y \<Longrightarrow> only_writes s (snd y)" for y
  proof (erule write_string.raw_induct [rotated, where P = "\<lambda>W bs cur s y. only_writes s (snd y)"], goal_cases)
    case (1 ws W bs cur s y)
    then show ?case
      by (auto simp: at_sys_def Let_def only_writes_tick [of s "at_tick s", simplified] split: if_splits at_result.splits
          dest!: 1(1) intro: only_writes_trans [OF only_writes_emit] only_writes_trans [OF only_writes_tick] only_writes_tick)
  qed
  then show "write_string W bs cur s = Some (ok, s') \<Longrightarrow> only_writes s s'" by fastforce
qed

lemma write_char_writes: "write_char W c s = Some (ok, s') \<Longrightarrow> only_writes s s'"
proof -
  have "write_char W c s = Some y \<Longrightarrow> only_writes s (snd y)" for y
  proof (erule write_char.raw_induct [rotated, where P = "\<lambda>W c s y. only_writes s (snd y)"], goal_cases)
    case (1 wc W c s y)
    then show ?case
      by (auto simp: at_sys_def Let_def split: if_splits at_result.splits
          dest!: 1(1) intro: only_writes_emit only_writes_trans [OF only_writes_tick] only_writes_tick)
  qed
  then show "write_char W c s = Some (ok, s') \<Longrightarrow> only_writes s s'" by fastforce
qed

lemma writeline_writes: "writeline W bs s = Some (err, s') \<Longrightarrow> only_writes s s'"
  using only_writes_tick [of s "at_tick s"]
  by (auto simp: writeline_def write_terminated_def split: if_splits Option.bind_splits
      dest!: write_string_writes write_char_writes elim: only_writes_trans)

text \<open>A modem to which every write succeeds, byte by byte or in larger pieces, accepts every command.\<close>

definition writable :: "ref_world \<Rightarrow> bool" where
  "writable W \<longleftrightarrow> (\<forall>n. \<exists>k > 0. aw_write (rw_at W) n = Moved k)"

lemma write_string_succeeds:
  assumes "writable W"
  shows "\<exists>c'. write_string (rw_at W) bs cur c = Some (True, c')"
proof (induction "length bs - cur" arbitrary: cur c rule: less_induct)
  case less
  obtain k where k: "k > 0" "aw_write (rw_at W) (at_tick c) = Moved k" using assms by (auto simp: writable_def)
  show ?case
  proof (cases "cur < length bs")
    case True
    then have "length bs - (cur + min k (length bs - cur)) < length bs - cur" using k(1) by (auto simp: min_def)
    from less [OF this] show ?thesis
      using k True by (subst write_string.simps) (simp add: at_sys_def Let_def)
  qed (subst write_string.simps, simp)
qed

lemma accepts_idle:
  assumes "writable W" and "idle c"
  shows "accepts W cmd c"
proof -
  obtain c1 where c1: "write_string (rw_at W) cmd 0 c = Some (True, c1)"
    using write_string_succeeds [OF assms(1)] by blast
  obtain k where "k > 0" "aw_write (rw_at W) (at_tick c1) = Moved k" using assms(1) by (auto simp: writable_def)
  then have "\<exists>c2. write_char (rw_at W) 13 c1 = Some (True, c2)"
    by (subst write_char.simps) (simp add: at_sys_def)
  then show ?thesis
    using assms(2) c1 by (auto simp: accepts_def idle_def writeline_def write_terminated_def)
qed

lemma channel_moves_writes:
  assumes "at_trace c = at_trace (chan s) @ map Wrote_modem ws"
  shows "channel_moves W c s = Some (s\<lparr>chan := c\<rparr>)"
proof -
  have "foldM (called_back W) (map Wrote_modem ws) u = Some u" for u
    by (induction ws) (simp_all add: called_back_def)
  then show ?thesis using assms by (simp add: channel_moves_def)
qed

text \<open>The events of an answer: its lines, a final line, and the wake-up of the thread that waits.\<close>

definition answer :: "u8 list list \<Rightarrow> u8 list \<Rightarrow> at_event list" where
  "answer ls f = map Reader_line (ls @ [f]) @ [Wake]"

lemma full_answered:
  assumes acc: "accepts W cmd (chan s)" and script: "script s = answer ls f @ es" and p: "prefix_ok type p"
    and ls: "\<forall>l \<in> set ls. plain_line l" and f: "isFinalResponse f" and all: "response_lines type p ls = ls"
    and no_others: "other_lines type p ls = []"
  shows "\<exists>c. idle c \<and> channel_moves W c s = Some (s\<lparr>chan := c\<rparr>) \<and>
    at_send_command_full (rw_at W) cmd type p pdu False wanted (script s) (chan s) =
      Some (Done 0 (if wanted then Some \<lparr>success = isFinalResponseSuccess f, finalResponse = Some f,
        p_intermediates = ls\<rparr> else None) es c)"
proof -
  let ?r = "if wanted then Some \<lparr>success = isFinalResponseSuccess f, finalResponse = Some f, p_intermediates = ls\<rparr> else None"
  obtain c1 where c1: "writeline (rw_at W) cmd (chan s) = Some (0, c1)" and i: "idle (chan s)"
    using acc by (auto simp: accepts_def)
  obtain t ws where w: "c1 = (chan s)\<lparr>at_tick := t, at_trace := at_trace (chan s) @ map Wrote_modem ws\<rparr>"
    using writeline_writes [OF c1] by (auto simp: only_writes_def)
  define c where "c = clearPendingCommand (c1\<lparr>s_type := type\<rparr>)"
  have "at_send_command_full_nolock (rw_at W) cmd type p pdu False wanted (script s) (chan s) = Some (Done 0 ?r es c)"
    using command_collects [OF _ c1 _ p ls f, of pdu False wanted es] i script all no_others
    by (simp add: answer_def c_def idle_def unsolicited_lines_def)
  then have "at_send_command_full (rw_at W) cmd type p pdu False wanted (script s) (chan s) = Some (Done 0 ?r es c)"
    using i by (simp add: at_send_command_full_def idle_def)
  moreover have "channel_moves W c s = Some (s\<lparr>chan := c\<rparr>)"
    by (rule channel_moves_writes [of _ _ ws]) (simp add: c_def w clearPendingCommand_def)
  moreover have "idle c" using i by (simp add: c_def w idle_def clearPendingCommand_def)
  ultimately show ?thesis by blast
qed

text \<open>The response a thread gets for an answer.\<close>

definition answered :: "u8 list list \<Rightarrow> u8 list \<Rightarrow> ATResponse" where
  "answered ls f = \<lparr>success = isFinalResponseSuccess f, finalResponse = Some f, p_intermediates = ls\<rparr>"

lemma answered_simps [simp]:
  "success (answered ls f) = isFinalResponseSuccess f" "p_intermediates (answered ls f) = ls"
  "finalResponse (answered ls f) = Some f"
  by (simp_all add: answered_def)

lemma command_answered:
  assumes "accepts W cmd (chan s)" and "script s = answer [] f @ es" and "isFinalResponse f"
  shows "\<exists>c. idle c \<and> (\<forall>k. command W cmd k s = k 0 (Some (answered [] f)) (s\<lparr>chan := c, script := es\<rparr>))"
    "\<exists>c. idle c \<and> (\<forall>k. command_only W cmd k s = k (s\<lparr>chan := c, script := es\<rparr>))"
  using full_answered [OF assms(1,2), of NO_RESULT None None True]
    full_answered [OF assms(1,2), of NO_RESULT None None False] assms(3)
  by (auto simp: command_def command_only_def at_call_def at_send_command_def answered_def prefix_ok_def
      response_lines_def other_lines_def)

text \<open>At most one line with the prefix, and one if the command succeeds.\<close>

lemma command_singleline_answered:
  assumes "accepts W cmd (chan s)" and "script s = answer ls f @ es" and "isFinalResponse f"
    and "\<forall>l \<in> set ls. plain_line l \<and> prefix p l" and "length ls \<le> 1"
    and "isFinalResponseSuccess f \<longrightarrow> ls \<noteq> []"
  shows "\<exists>c. idle c \<and> (\<forall>k. command_singleline W cmd p k s = k 0 (Some (answered ls f)) (s\<lparr>chan := c, script := es\<rparr>))"
proof -
  have "filter (takes SINGLELINE (Some p)) ls = ls" "takeWhile (\<lambda>l. \<not> takes SINGLELINE (Some p) l) ls = []"
    "dropWhile (\<lambda>l. \<not> takes SINGLELINE (Some p) l) ls = ls"
    using assms(4) by (cases ls; auto simp: filter_id_conv)+
  then have "response_lines SINGLELINE (Some p) ls = ls" "other_lines SINGLELINE (Some p) ls = []"
    using assms(5) by (cases ls; simp add: response_lines_def other_lines_def)+
  then show ?thesis
    using full_answered [OF assms(1,2), of SINGLELINE "Some p" None True] assms(3,4,6)
    by (auto simp: command_singleline_def at_call_def at_send_command_singleline_def answered_def prefix_ok_def
        need_intermediate_def)
qed

lemma command_multiline_answered:
  assumes "accepts W cmd (chan s)" and "script s = answer ls f @ es" and "isFinalResponse f"
    and "\<forall>l \<in> set ls. plain_line l \<and> prefix p l"
  shows "\<exists>c. idle c \<and> (\<forall>k. command_multiline W cmd p k s = k 0 (Some (answered ls f)) (s\<lparr>chan := c, script := es\<rparr>))"
proof -
  have "response_lines MULTILINE (Some p) ls = ls" "other_lines MULTILINE (Some p) ls = []"
    using assms(4) by (auto simp: response_lines_def other_lines_def filter_id_conv filter_empty_conv)
  then show ?thesis
    using full_answered [OF assms(1,2), of MULTILINE "Some p" None True] assms(3,4)
    by (auto simp: command_multiline_def at_call_def at_send_command_multiline_def answered_def prefix_ok_def)
qed

text \<open>The final lines.\<close>

lemma final_OK [simp]: "isFinalResponse (chars ''OK'')" "isFinalResponseSuccess (chars ''OK'')"
  by (simp_all add: isFinalResponse_def isFinalResponseSuccess_def s_finalResponsesSuccess_def chars_def)

lemma final_ERROR [simp]: "isFinalResponse (chars ''ERROR'')" "\<not> isFinalResponseSuccess (chars ''ERROR'')"
  by (simp_all add: isFinalResponse_def isFinalResponseSuccess_def isFinalResponseError_def
      s_finalResponsesSuccess_def s_finalResponsesError_def chars_def)

lemmas final_prefixes = isFinalResponse_def isFinalResponseSuccess_def isFinalResponseError_def
  s_finalResponsesSuccess_def s_finalResponsesError_def chars_def

lemma the_line_answered [simp]: "the_line (Some (answered (l # ls) f)) = Some l"
  "the_line (Some (answered [] f)) = None" "lines (Some (answered ls f)) = Some ls"
  by (simp_all add: the_line_def lines_def aget_def)

lemma failed_answered [simp]: "failed bad (Some (answered ls f)) = Some (bad \<or> \<not> isFinalResponseSuccess f)"
  by (simp add: failed_def)

end
