(* ===== verification/Ref_Results.thy ===== *)
theory Ref_Results
  imports Ref_Answer
begin

text \<open>
  What the handlers of the reference library report when the modem answers with well-formed lines: the
  registration, the signal, the calls, the operator, the data calls and the status of the SIM.
\<close>

lemma nexthexint_plain: "32 \<le> bits \<Longrightarrow> at_tok_nexthexint bits (Some (fmt_x x)) = (0, Some x, None)"
proof -
  assume bits: "32 \<le> bits"
  have "\<forall>c \<in> set (fmt_x x). \<not> isspace c \<and> c \<noteq> 34" "fmt_x x \<noteq> []"
    using hex_digits [of "unat x"] hex_not_special digits_nonempty by (auto simp: fmt_x_def)
  then have "nextTok (Some (fmt_x x)) = (Some (fmt_x x), None)"
    using fmt_x_no_quote(2) by (intro nextTok_plain(1)) auto
  then show ?thesis using bits by (intro nexthexint_token) simp_all
qed

lemma tok_hex_plain: "32 \<le> bits \<Longrightarrow> tok_hex bits (Some (fmt_x x)) = Some (x, None)"
  by (simp add: tok_hex_def nexthexint_plain)

lemma commas_hex [simp]: "commas (fmt_x x) = 0"
  by (simp add: commas_none fmt_x_no_quote)

section \<open>Registration\<close>

text \<open>The fields of an answer: whether unsolicited reports are on, the state, the cell, and the network type.\<close>

definition creg_fields :: "i32 option \<Rightarrow> i32 \<Rightarrow> (i32 \<times> i32) option \<Rightarrow> i32 option \<Rightarrow> u8 list list" where
  "creg_fields n st cell net =
     (case n of None \<Rightarrow> [] | Some n \<Rightarrow> [fmt_d n]) @ [fmt_d st] @
     (case cell of None \<Rightarrow> [] | Some (lac, cid) \<Rightarrow> [quoted (fmt_x lac), quoted (fmt_x cid)]) @
     (case net of None \<Rightarrow> [] | Some v \<Rightarrow> [fmt_x v])"

definition creg_reported :: "i32 \<Rightarrow> (i32 \<times> i32) option \<Rightarrow> i32 option \<Rightarrow> cstr list" where
  "creg_reported st cell net = map Some
     ([fmt_d st] @ (case cell of None \<Rightarrow> [fmt_x (-1), fmt_x (-1)] | Some (lac, cid) \<Rightarrow> [fmt_x lac, fmt_x cid]) @
      (case net of None \<Rightarrow> [] | Some v \<Rightarrow> [fmt_d v]))"

lemma creg_line_reads:
  assumes "32 \<le> bits" and "58 \<notin> set pre" and "net \<noteq> None \<longrightarrow> n \<noteq> None \<and> cell \<noteq> None"
  shows "\<exists>r. creg_line bits (answer_line pre (creg_fields n st cell net)) = Some r \<and>
    creg_strings r = creg_reported st cell net"
  using assms(3)
  by (cases n; cases cell; cases net)
    (auto simp: creg_line_def tok_start_answer [OF assms(2)] creg_fields_def creg_reported_def creg_strings_def
      tok_int_field [OF assms(1)] tok_hex_field [OF assms(1)] tok_hex_plain [OF assms(1)])

text \<open>An unsuccessful answer has no line, and the code follows the null pointer.\<close>

lemma registration_state_answered:
  assumes "accepts W (if gprs then chars ''AT+CGREG?'' else chars ''AT+CREG?'') (chan s)"
    and "script s = answer [answer_line (if gprs then chars ''+CGREG'' else chars ''+CREG'') fs] (chars ''OK'') @ es"
    and "creg_line (long_bits W) (answer_line (if gprs then chars ''+CGREG'' else chars ''+CREG'') fs) = Some r"
  shows "\<exists>c. idle c \<and> requestRegistrationState W
      (if gprs then RIL_REQUEST_GPRS_REGISTRATION_STATE else RIL_REQUEST_REGISTRATION_STATE) t s =
    Some (Returns (complete_strings W t (creg_strings r) (s\<lparr>chan := c, script := es\<rparr>)))"
proof -
  let ?l = "answer_line (if gprs then chars ''+CGREG'' else chars ''+CREG'') fs"
    and ?p = "if gprs then chars ''+CGREG:'' else chars ''+CREG:''"
  have "plain_line ?l" by (simp add: answer_line_def plain_line_def final_prefixes sms_prompt_def)
  moreover have "prefix ?p ?l" by (simp add: answer_line_def chars_def)
  ultimately obtain c where "idle c" "\<forall>k. command_singleline W (if gprs then chars ''AT+CGREG?'' else chars ''AT+CREG?'')
      ?p k s = k 0 (Some (answered [?l] (chars ''OK''))) (s\<lparr>chan := c, script := es\<rparr>)"
    using command_singleline_answered [OF assms(1,2), of ?p] by auto
  then show ?thesis using assms(3) by (cases gprs) (auto simp: requestRegistrationState_def)
qed

text \<open>An answer without a line, after an error, leads the code to follow a null pointer.\<close>

lemma registration_state_error:
  assumes "accepts W (if gprs then chars ''AT+CGREG?'' else chars ''AT+CREG?'') (chan s)"
    and "script s = answer [] f @ es" and "isFinalResponse f" and "\<not> isFinalResponseSuccess f"
  shows "requestRegistrationState W
      (if gprs then RIL_REQUEST_GPRS_REGISTRATION_STATE else RIL_REQUEST_REGISTRATION_STATE) t s = None"
proof -
  let ?p = "if gprs then chars ''+CGREG:'' else chars ''+CREG:''"
  obtain c where "\<forall>k. command_singleline W (if gprs then chars ''AT+CGREG?'' else chars ''AT+CREG?'')
      ?p k s = k 0 (Some (answered [] f)) (s\<lparr>chan := c, script := es\<rparr>)"
    using command_singleline_answered [OF assms(1-3), of ?p] assms(4) by auto
  then show ?thesis by (cases gprs) (auto simp: requestRegistrationState_def)
qed

section \<open>Signal\<close>

lemma csq_line_reads:
  "32 \<le> bits \<Longrightarrow> 58 \<notin> set pre \<Longrightarrow> csq_line bits (answer_line pre [fmt_d x, fmt_d y]) = Some [x, y]"
  by (simp add: csq_line_def tok_start_answer tok_int_field)

lemma signal_strength_answered:
  assumes "accepts W (chars ''AT+CSQ'') (chan s)"
    and "script s = answer [answer_line (chars ''+CSQ'') [fmt_d x, fmt_d y]] (chars ''OK'') @ es"
    and "32 \<le> long_bits W"
  shows "\<exists>c. idle c \<and> requestSignalStrength W t s =
    Some (Returns (complete t RIL_E_SUCCESS (Some (RInts [x, y])) 8 (s\<lparr>chan := c, script := es\<rparr>)))"
proof -
  let ?l = "answer_line (chars ''+CSQ'') [fmt_d x, fmt_d y]"
  have "plain_line ?l" by (simp add: answer_line_def plain_line_def final_prefixes sms_prompt_def)
  moreover have "prefix (chars ''+CSQ:'') ?l" by (simp add: answer_line_def chars_def)
  ultimately obtain c where "idle c" "\<forall>k. command_singleline W (chars ''AT+CSQ'') (chars ''+CSQ:'') k s =
      k 0 (Some (answered [?l] (chars ''OK''))) (s\<lparr>chan := c, script := es\<rparr>)"
    using command_singleline_answered [OF assms(1,2), of "chars ''+CSQ:''"] by auto
  moreover have "58 \<notin> set (chars ''+CSQ'')" by (simp add: chars_def)
  ultimately show ?thesis using csq_line_reads [OF assms(3)] by (auto simp: requestSignalStrength_def)
qed

section \<open>Calls\<close>

text \<open>
  A call as \<open>AT+CLCC\<close> can describe it, with a number, digits or a plus sign first, or without one.
\<close>

definition clcc_call :: "RIL_Call \<Rightarrow> bool" where
  "clcc_call c \<longleftrightarrow> call_isMT c \<in> {0, 1} \<and> call_isMpty c \<in> {0, 1} \<and> call_isVoice c \<in> {0, 1} \<and>
     (case call_number c of Some n \<Rightarrow> 34 \<notin> set n \<and> \<not> no_number n | None \<Rightarrow> call_toa c = 0) \<and>
     c = zero_call\<lparr>call_state := call_state c, call_index := call_index c, call_toa := call_toa c,
       call_isMpty := call_isMpty c, call_isMT := call_isMT c, call_isVoice := call_isVoice c,
       call_number := call_number c\<rparr>"

definition fmt_bool :: "u8 \<Rightarrow> u8 list" where "fmt_bool b = fmt_d (ucast b)"

definition clcc_fields :: "RIL_Call \<Rightarrow> u8 list list" where
  "clcc_fields c =
     [fmt_d (call_index c), fmt_bool (call_isMT c), fmt_d (RIL_CallState_val (call_state c)),
      fmt_d (if call_isVoice c = 1 then 0 else 1), fmt_bool (call_isMpty c)] @
     (case call_number c of None \<Rightarrow> [] | Some n \<Rightarrow> [quoted n, fmt_d (call_toa c)])"

lemma clccState_reads: "clccStateToRILState (RIL_CallState_val st) = Some st"
  by (cases st) (simp_all add: clccStateToRILState_def)

lemma nextbool_field:
  assumes "32 \<le> bits" and "b \<in> {0, 1}"
  shows "at_tok_nextbool bits (Some (fmt_bool b)) = (0, Some b, None)"
    "at_tok_nextbool bits (Some (fmt_bool b @ 44 # rest)) = (0, Some b, Some rest)"
  using assms(2) by (auto simp: at_tok_nextbool_def fmt_bool_def nextint_field [OF assms(1)])

lemma hasmore_quoted [simp]: "at_tok_hasmore (Some (quoted s @ rest))" "at_tok_hasmore (Some (quoted s))"
  by (simp_all add: at_tok_hasmore_def quoted_def)

lemma callFromCLCCLine_reads:
  assumes "32 \<le> bits" and "clcc_call c" and "58 \<notin> set pre"
  shows "callFromCLCCLine bits (answer_line pre (clcc_fields c)) zero_call = (0, c)"
proof -
  note facts = start_answer [OF assms(3)] nextint_field [OF assms(1)] nextbool_field [OF assms(1)]
    clccState_reads
  have c: "c = zero_call\<lparr>call_state := call_state c, call_index := call_index c, call_toa := call_toa c,
       call_isMpty := call_isMpty c, call_isMT := call_isMT c, call_isVoice := call_isVoice c,
       call_number := call_number c\<rparr>" "call_isMT c \<in> {0, 1}" "call_isMpty c \<in> {0, 1}" "call_isVoice c \<in> {0, 1}"
    using assms(2) by (auto simp: clcc_call_def)
  show ?thesis
  proof (cases "call_number c")
    case None
    then have "call_toa c = 0" using assms(2) by (simp add: clcc_call_def)
    then show ?thesis
      using None c by (auto simp: callFromCLCCLine_def clcc_fields_def facts stored_def Let_def clcc_number_def
          at_tok_hasmore_def zero_call_def)
  next
    case (Some n)
    then have n: "34 \<notin> set n" "\<not> no_number n" using assms(2) by (simp_all add: clcc_call_def)
    show ?thesis
      using Some c n by (auto simp: callFromCLCCLine_def clcc_fields_def facts stored_def Let_def clcc_number_def
          zero_call_def nextstr_field [OF n(1)])
  qed
qed

lemma clcc_calls_reads:
  assumes "32 \<le> bits" and "\<forall>c \<in> set cs. clcc_call c" and "58 \<notin> set pre"
  shows "clcc_calls bits (map (\<lambda>c. answer_line pre (clcc_fields c)) cs) zero_call = cs"
  using assms(2) callFromCLCCLine_reads [OF assms(1) _ assms(3)] by (induction cs) simp_all

text \<open>The calls are reported, and polled again while one of them is neither active nor on hold.\<close>

definition settled :: "RIL_Call \<Rightarrow> bool" where
  "settled c \<longleftrightarrow> call_state c = RIL_CALL_ACTIVE \<or> call_state c = RIL_CALL_HOLDING"

lemma current_calls_answered:
  assumes "accepts W (chars ''AT+CLCC'') (chan s)"
    and "script s = answer (map (\<lambda>c. answer_line (chars ''+CLCC'') (clcc_fields c)) cs) (chars ''OK'') @ es"
    and "32 \<le> long_bits W" and "\<forall>c \<in> set cs. clcc_call c"
    and "length cs * size_of (RIL_Call_layout (rw_abi W)) \<le> stack_avail (rw_abi W)"
    and "length cs * psize W \<le> stack_avail (rw_abi W)"
  shows "\<exists>c. idle c \<and> requestGetCurrentCalls W t s =
    (let u = complete t RIL_E_SUCCESS (Some (RCallList cs)) (length cs * psize W) (s\<lparr>chan := c, script := es\<rparr>)
     in Some (Returns (if list_all settled cs then u
       else request_timed cb_sendCallStateChanged (Some TIMEVAL_CALLSTATEPOLL) u)))"
proof -
  let ?ls = "map (\<lambda>c. answer_line (chars ''+CLCC'') (clcc_fields c)) cs"
  have ls: "\<forall>l \<in> set ?ls. plain_line l \<and> prefix (chars ''+CLCC:'') l"
    by (auto simp: answer_line_def plain_line_def final_prefixes sms_prompt_def)
  obtain c where c: "idle c" "\<forall>k. command_multiline W (chars ''AT+CLCC'') (chars ''+CLCC:'') k s =
      k 0 (Some (answered ?ls (chars ''OK''))) (s\<lparr>chan := c, script := es\<rparr>)"
    using command_multiline_answered [OF assms(1,2) final_OK(1) ls] by auto
  have "58 \<notin> set (chars ''+CLCC'')" by (simp add: chars_def)
  then have cs: "clcc_calls (long_bits W) ?ls zero_call = cs" using clcc_calls_reads assms(3,4) by blast
  have again: "list_ex (\<lambda>c. call_state c \<noteq> RIL_CALL_ACTIVE \<and> call_state c \<noteq> RIL_CALL_HOLDING) cs \<longleftrightarrow> \<not> list_all settled cs"
    by (auto simp: list_ex_iff list_all_iff settled_def)
  show ?thesis
    using c(1) assms(5,6) by (intro exI [of _ c])
      (simp add: requestGetCurrentCalls_def c(2) cs again alloca_def Let_def)
qed

text \<open>A line that is no call can leave its number behind for the next call.\<close>

lemma clcc_stale_number:
  assumes "32 \<le> bits" and "34 \<notin> set n" and "\<not> no_number n" and "clcc_call c" and "call_number c = None"
    and "pre = chars ''+CLCC''"
  shows "clcc_calls bits [answer_line pre (take 5 (clcc_fields c) @ [quoted n]), answer_line pre (clcc_fields c)]
    zero_call = [c\<lparr>call_number := Some n\<rparr>]"
proof -
  have pre: "58 \<notin> set pre" using assms(6) by (simp add: chars_def)
  note facts = start_answer [OF pre] nextint_field [OF assms(1)] nextbool_field [OF assms(1)] clccState_reads
    nextstr_field [OF assms(2)]
  have c: "c = zero_call\<lparr>call_state := call_state c, call_index := call_index c, call_toa := call_toa c,
       call_isMpty := call_isMpty c, call_isMT := call_isMT c, call_isVoice := call_isVoice c,
       call_number := call_number c\<rparr>" "call_isMT c \<in> {0, 1}" "call_isMpty c \<in> {0, 1}" "call_isVoice c \<in> {0, 1}"
    "call_toa c = 0"
    using assms(4,5) by (auto simp: clcc_call_def)
  have empty: "at_tok_nextint bits (Some []) = (-1, Some 0, None)"
    by (simp add: at_tok_nextint_def at_tok_nextint_base_def nextTok_def skipWhiteSpace_def strsep_def strto_digits_def
        digits_value_def strto_value_def)
  have "callFromCLCCLine bits (answer_line pre (take 5 (clcc_fields c) @ [quoted n])) zero_call =
      (-1, c\<lparr>call_number := Some n\<rparr>)"
    using c assms(3,5) by (cases c) (auto simp: callFromCLCCLine_def clcc_fields_def facts stored_def Let_def clcc_number_def
        zero_call_def empty)
  moreover have "callFromCLCCLine bits (answer_line pre (clcc_fields c)) (c\<lparr>call_number := Some n\<rparr>) =
      (0, c\<lparr>call_number := Some n\<rparr>)"
    using c assms(3,5) by (cases c) (auto simp: callFromCLCCLine_def clcc_fields_def facts stored_def Let_def clcc_number_def
        at_tok_hasmore_def zero_call_def)
  ultimately show ?thesis by simp
qed

section \<open>The SIM\<close>

text \<open>The words for the states of the SIM; every other word is a lock that is not supported.\<close>

definition sim_words :: "(u8 list \<times> SIM_Status) list" where
  "sim_words = [(chars ''READY'', SIM_READY), (chars ''SIM PIN'', SIM_PIN), (chars ''SIM PUK'', SIM_PUK),
     (chars ''PH-NET PIN'', SIM_NETWORK_PERSONALIZATION)]"

definition sim_status_of :: "u8 list \<Rightarrow> SIM_Status" where
  "sim_status_of word = (case map_of sim_words word of None \<Rightarrow> SIM_ABSENT | Some st \<Rightarrow> st)"

definition bare_word :: "u8 list \<Rightarrow> bool" where
  "bare_word s \<longleftrightarrow> s \<noteq> [] \<and> 44 \<notin> set s \<and> \<not> isspace (hd s) \<and> hd s \<noteq> 34"

lemma tok_str_word: "bare_word s \<Longrightarrow> tok_str (Some (32 # s)) = Some (Some s, None)"
  using nextTok_plain(1) [of s] nextTok_blanks [of 1 s]
  by (simp add: bare_word_def tok_str_def at_tok_nextstr_def)

lemma cpin_line_reads:
  "bare_word word \<Longrightarrow> 58 \<notin> set pre \<Longrightarrow> cpin_line (answer_line pre [word]) = sim_status_of word"
  by (auto simp: cpin_line_def tok_start_answer tok_str_word sim_status_of_def sim_words_def) (simp_all add: chars_def)

text \<open>What the modem says about the SIM: a word, or an error.\<close>

lemma sim_status_answered:
  assumes "accepts W (chars ''AT+CPIN?'') (chan s)" and "sState s \<notin> {RADIO_STATE_OFF, RADIO_STATE_UNAVAILABLE}"
    and "script s = answer [answer_line (chars ''+CPIN'') [word]] (chars ''OK'') @ es" and "bare_word word"
  shows "\<exists>c. idle c \<and> getSIMStatus W k s = k (sim_status_of word) (s\<lparr>chan := c, script := es\<rparr>)"
proof -
  let ?l = "answer_line (chars ''+CPIN'') [word]"
  have "plain_line ?l" by (simp add: answer_line_def plain_line_def final_prefixes sms_prompt_def)
  moreover have "prefix (chars ''+CPIN:'') ?l" by (simp add: answer_line_def chars_def)
  ultimately obtain c where "idle c" "\<forall>k. command_singleline W (chars ''AT+CPIN?'') (chars ''+CPIN:'') k s =
      k 0 (Some (answered [?l] (chars ''OK''))) (s\<lparr>chan := c, script := es\<rparr>)"
    using command_singleline_answered [OF assms(1,3), of "chars ''+CPIN:''"] by auto
  moreover have "58 \<notin> set (chars ''+CPIN'')" by (simp add: chars_def)
  ultimately show ?thesis
    using assms(2) cpin_line_reads [OF assms(4)] by (auto simp: getSIMStatus_def at_get_cme_error_def)
qed

lemma sim_status_error:
  assumes "accepts W (chars ''AT+CPIN?'') (chan s)" and "sState s \<notin> {RADIO_STATE_OFF, RADIO_STATE_UNAVAILABLE}"
    and "script s = answer [] (answer_line (chars ''+CME ERROR'') [fmt_d n]) @ es" and "32 \<le> long_bits W"
    and "n \<noteq> 0"
  shows "\<exists>c. idle c \<and> getSIMStatus W k s =
    k (if n = 10 then SIM_ABSENT else SIM_NOT_READY) (s\<lparr>chan := c, script := es\<rparr>)"
proof -
  let ?f = "answer_line (chars ''+CME ERROR'') [fmt_d n]"
  have f: "isFinalResponse ?f" "\<not> isFinalResponseSuccess ?f" by (simp_all add: answer_line_def final_prefixes)
  obtain c where "idle c" "\<forall>k. command_singleline W (chars ''AT+CPIN?'') (chars ''+CPIN:'') k s =
      k 0 (Some (answered [] ?f)) (s\<lparr>chan := c, script := es\<rparr>)"
    using command_singleline_answered [OF assms(1,3) f(1), of "chars ''+CPIN:''"] f(2) by auto
  moreover have "at_tok_start (Some ?f) = (0, Some (32 # fmt_d n))"
    using start_answer [of "chars ''+CME ERROR''" "[fmt_d n]"] by (simp add: chars_def)
  then have "at_get_cme_error (long_bits W) (answered [] ?f) = n"
    using f nextint_field(3) [OF assms(4), of n] by (simp add: at_get_cme_error_def) (simp add: answer_line_def chars_def)
  ultimately show ?thesis
    using assms(2,5) by (auto simp: getSIMStatus_def CME_SUCCESS_def CME_SIM_NOT_INSERTED_def)
qed

section \<open>The operator\<close>

lemma cops_line_reads:
  assumes "32 \<le> bits" and "58 \<notin> set pre" and "34 \<notin> set name"
  shows "cops_line bits (answer_line pre [fmt_d mode, fmt_d format, quoted name]) = Some (Some name)"
  using tok_str_field [OF assms(3)]
  by (simp add: cops_line_def tok_start_answer [OF assms(2)] tok_int_field [OF assms(1)])
    (auto simp: at_tok_hasmore_def fmt_d_def digits_nonempty)

lemma operator_answered:
  assumes "accepts W (chars ''AT+COPS=3,0;+COPS?;+COPS=3,1;+COPS?;+COPS=3,2;+COPS?'') (chan s)"
    and "script s = answer (map (\<lambda>(format, name). answer_line (chars ''+COPS'') [fmt_d mode, fmt_d format, quoted name])
      [(0, long), (1, short), (2, numeric)]) (chars ''OK'') @ es"
    and "32 \<le> long_bits W" and "34 \<notin> set long" and "34 \<notin> set short" and "34 \<notin> set numeric"
  shows "\<exists>c. idle c \<and> requestOperator W t s =
    Some (Returns (complete_strings W t [Some long, Some short, Some numeric] (s\<lparr>chan := c, script := es\<rparr>)))"
proof -
  let ?ls = "map (\<lambda>(format, name). answer_line (chars ''+COPS'') [fmt_d mode, fmt_d format, quoted name])
      [(0, long), (1, short), (2, numeric)]"
  have ls: "\<forall>l \<in> set ?ls. plain_line l \<and> prefix (chars ''+COPS:'') l"
    by (auto simp: answer_line_def plain_line_def final_prefixes sms_prompt_def)
  obtain c where c: "idle c" "\<forall>k. command_multiline W (chars ''AT+COPS=3,0;+COPS?;+COPS=3,1;+COPS?;+COPS=3,2;+COPS?'')
      (chars ''+COPS:'') k s = k 0 (Some (answered ?ls (chars ''OK''))) (s\<lparr>chan := c, script := es\<rparr>)"
    using command_multiline_answered [OF assms(1,2) final_OK(1) ls] by auto
  have pre: "58 \<notin> set (chars ''+COPS'')" by (simp add: chars_def)
  have "cops_lines (long_bits W) 3 ?ls = Some (Some [Some long, Some short, Some numeric])"
    using cops_line_reads [OF assms(3) pre] assms(4-6) by (simp add: numeral_3_eq_3)
  then show ?thesis using c by (auto simp: requestOperator_def)
qed

section \<open>Data calls\<close>

text \<open>The contexts and their states, and the descriptions of contexts.\<close>

definition cgact_answer :: "(i32 \<times> i32) list \<Rightarrow> u8 list list" where
  "cgact_answer = map (\<lambda>(cid, active). answer_line (chars ''+CGACT'') [fmt_d cid, fmt_d active])"

definition cgdcont_answer :: "(i32 \<times> u8 list \<times> u8 list \<times> u8 list) list \<Rightarrow> u8 list list" where
  "cgdcont_answer = map (\<lambda>(cid, type, apn, address).
     answer_line (chars ''+CGDCONT'') [fmt_d cid, quoted type, quoted apn, quoted address])"

text \<open>Each context with its description, if there is one.\<close>

definition described ::
    "(i32 \<times> u8 list \<times> u8 list \<times> u8 list) list \<Rightarrow> i32 \<times> i32 \<Rightarrow> RIL_Data_Call_Response" where
  "described ds = (\<lambda>(cid, active). case map_of ds cid of
       None \<Rightarrow> no_data_call\<lparr>dc_cid := cid, dc_active := active\<rparr>
     | Some (type, apn, address) \<Rightarrow> \<lparr>dc_cid = cid, dc_active = active, dc_type = Some type, dc_apn = Some apn,
         dc_address = Some address\<rparr>)"

lemma no_colon: "58 \<notin> set (chars ''+CGACT'')" "58 \<notin> set (chars ''+CGDCONT'')"
  by (simp_all add: chars_def)

lemma cgact_lines_reads:
  "32 \<le> bits \<Longrightarrow> cgact_lines bits (cgact_answer xs) = Some (map (described []) xs)"
  by (induction xs) (auto simp: cgact_answer_def cgact_line_def tok_start_answer no_colon tok_int_field described_def)

lemma index_of_cid_map:
  "index_of_cid cid (map (described ds) xs) < length xs \<longleftrightarrow> cid \<in> fst ` set xs"
  "index_of_cid cid (map (described ds) xs) \<le> length xs"
  by (induction xs) (auto simp: described_def split: option.splits)

lemma described_cid: "dc_cid (described ds x) = fst x"
  by (auto simp: described_def split: option.splits prod.splits)

lemma cgdcont_line_reads:
  assumes "32 \<le> bits" and "34 \<notin> set type" and "34 \<notin> set apn" and "34 \<notin> set address"
    and "cid \<notin> fst ` set ds" and "distinct (map fst xs)"
  shows "cgdcont_line bits (answer_line (chars ''+CGDCONT'') [fmt_d cid, quoted type, quoted apn, quoted address])
    (map (described ds) xs) = Some (map (described (ds @ [(cid, type, apn, address)])) xs)"
proof -
  let ?rs = "map (described ds) xs" and ?i = "index_of_cid cid (map (described ds) xs)"
  have other: "described (ds @ [(cid, type, apn, address)]) x = described ds x" if "fst x \<noteq> cid" for x
    using that by (auto simp: described_def map_add_def split: prod.splits option.splits)
  have hit: "described (ds @ [(cid, type, apn, address)]) x =
      (described ds x)\<lparr>dc_type := Some type, dc_apn := Some apn, dc_address := Some address\<rparr>" if "fst x = cid" for x
  proof -
    have "map_of ds cid = None" using assms(5) by (simp add: map_of_eq_None_iff)
    then show ?thesis using that by (auto simp: described_def map_add_def no_data_call_def split: prod.splits)
  qed
  have "map (described (ds @ [(cid, type, apn, address)])) xs =
      (if ?i < length xs then ?rs[?i := (?rs ! ?i)\<lparr>dc_type := Some type, dc_apn := Some apn, dc_address := Some address\<rparr>]
       else ?rs)" using assms(6)
  proof (induction xs)
    case (Cons x xs)
    show ?case
    proof (cases "fst x = cid")
      case True
      then have "\<forall>y \<in> set xs. fst y \<noteq> cid" using Cons.prems by (auto simp: image_iff)
      then show ?thesis using True hit other by (auto simp: described_cid)
    next
      case False
      then show ?thesis using Cons other by (auto simp: described_cid)
    qed
  qed simp
  then show ?thesis
    using assms(1-4) index_of_cid_map(2) [of cid ds xs]
    by (auto simp: cgdcont_line_def Let_def tok_start_answer no_colon tok_int_field tok_str_field)
qed

lemma cgdcont_lines_read:
  assumes "32 \<le> bits" and "\<forall>(cid, type, apn, address) \<in> set es. 34 \<notin> set type \<and> 34 \<notin> set apn \<and> 34 \<notin> set address"
    and "distinct (map fst (ds @ es))" and "distinct (map fst xs)"
  shows "foldM (cgdcont_line bits) (cgdcont_answer es) (map (described ds) xs) = Some (map (described (ds @ es)) xs)"
  using assms(2,3)
proof (induction es arbitrary: ds)
  case (Cons e es)
  obtain cid type apn address where e: "e = (cid, type, apn, address)" by (cases e)
  have "cgdcont_line bits (answer_line (chars ''+CGDCONT'') [fmt_d cid, quoted type, quoted apn, quoted address])
      (map (described ds) xs) = Some (map (described (ds @ [e])) xs)"
    using cgdcont_line_reads [OF assms(1), of type apn address cid ds xs] Cons.prems assms(4) e by auto
  then show ?case using Cons.IH [of "ds @ [e]"] Cons.prems by (simp add: cgdcont_answer_def e)
qed (simp add: cgdcont_answer_def)

lemma answer_append: "answer ls f @ es = map Reader_line ls @ Reader_line f # Wake # es"
  by (simp add: answer_def)

lemma data_call_list_answered:
  assumes W: "writable W" and idle: "idle (chan s)"
    and script: "script s = answer (cgact_answer xs) (chars ''OK'') @ answer (cgdcont_answer ds) (chars ''OK'') @ es"
    and bits: "32 \<le> long_bits W" and dist: "distinct (map fst xs)" "distinct (map fst ds)"
    and quotes: "\<forall>(cid, type, apn, address) \<in> set ds. 34 \<notin> set type \<and> 34 \<notin> set apn \<and> 34 \<notin> set address"
    and room: "length xs * size_of (RIL_Data_Call_Response_layout (rw_abi W)) \<le> stack_avail (rw_abi W)"
  shows "\<exists>c. idle c \<and> requestOrSendDataCallList W t s = data_call_list t RIL_E_SUCCESS
    (Some (RDataCallList (map (described ds) xs)))
    (length xs * size_of (RIL_Data_Call_Response_layout (rw_abi W))) (s\<lparr>chan := c, script := es\<rparr>)"
proof -
  have ls: "\<forall>l \<in> set (cgact_answer xs). plain_line l \<and> prefix (chars ''+CGACT:'') l"
    "\<forall>l \<in> set (cgdcont_answer ds). plain_line l \<and> prefix (chars ''+CGDCONT:'') l"
    by (auto simp: cgact_answer_def cgdcont_answer_def answer_line_def plain_line_def final_prefixes sms_prompt_def)
  obtain c where c: "idle c" "\<forall>k. command_multiline W (chars ''AT+CGACT?'') (chars ''+CGACT:'') k s =
      k 0 (Some (answered (cgact_answer xs) (chars ''OK'')))
        (s\<lparr>chan := c, script := answer (cgdcont_answer ds) (chars ''OK'') @ es\<rparr>)"
    using command_multiline_answered [OF accepts_idle [OF W idle] script final_OK(1) ls(1)] by auto
  let ?u = "s\<lparr>chan := c, script := answer (cgdcont_answer ds) (chars ''OK'') @ es\<rparr>"
  have "accepts W (chars ''AT+CGDCONT?'') (chan ?u)" "script ?u = answer (cgdcont_answer ds) (chars ''OK'') @ es"
    using accepts_idle [OF W c(1)] by simp_all
  from command_multiline_answered [OF this final_OK(1) ls(2)]
  obtain d where d: "idle d" "\<forall>k. command_multiline W (chars ''AT+CGDCONT?'') (chars ''+CGDCONT:'') k ?u =
      k 0 (Some (answered (cgdcont_answer ds) (chars ''OK''))) (s\<lparr>chan := d, script := es\<rparr>)"
    by auto
  have "foldM (cgdcont_line (long_bits W)) (cgdcont_answer ds) (map (described []) xs) = Some (map (described ds) xs)"
    using cgdcont_lines_read [OF bits quotes, of "[]" xs] dist by simp
  moreover have "length (cgact_answer xs) = length xs" by (simp add: cgact_answer_def)
  ultimately show ?thesis
    using d(1) room by (intro exI [of _ d])
      (simp add: requestOrSendDataCallList_def Let_def c(2) d(2) cgact_lines_reads [OF bits] alloca_def)
qed

end
