(* ===== verification/Ref_Vendor.thy ===== *)
theory Ref_Vendor
  imports Ref_Results
begin

text \<open>
  The reference library as the vendor library of the daemon. Its state is the rest of the daemon's
  state record; a handler runs on it, and the calls that it made are made on the daemon. That this
  honours the contract \<open>vendor_library\<close> is an interpretation.
\<close>

definition ref_part :: "ref_ril ril_state_scheme \<Rightarrow> ref_ril" where
  "ref_part s = ril_state.more s"

definition set_ref :: "ref_ril \<Rightarrow> ref_ril ril_state_scheme \<Rightarrow> ref_ril ril_state_scheme" where
  "set_ref u s = ril_state.more_update (\<lambda>_. u) s"

text \<open>The calls of a handler, once it has returned. A handler that waits has not.\<close>

definition run_reference ::
    "('p, ref_ril) world \<Rightarrow> ref_result option \<Rightarrow> ref_ril ril_state_scheme \<Rightarrow> ref_ril ril_state_scheme option" where
  "run_reference W r s = (case r of
       Some (Returns u) \<Rightarrow> vendor_run W (calls u) (set_ref (u\<lparr>calls := []\<rparr>) s)
     | _ \<Rightarrow> None)"

definition reference_world :: "('p, ref_ril) world \<Rightarrow> ref_world \<Rightarrow> ('p, ref_ril) world" where
  "reference_world W V =
     (let W = W\<lparr>w_malloc := \<lambda>k L. if L (w_malloc W k L) then NULL else w_malloc W k L,
          w_getVersion := Some (\<lambda>_. Some getVersion)\<rparr> in
      W\<lparr>w_onRequest := \<lambda>request d n t s.
          run_reference W (onRequest_ref V request d n t ((ref_part s)\<lparr>calls := []\<rparr>)) s,
        w_timed := \<lambda>k param s. run_reference W (on_timed V k ((ref_part s)\<lparr>calls := []\<rparr>)) s\<rparr>)"

lemma set_ref_quiet: "quiet s (set_ref u s)"
  by (simp add: quiet_def set_ref_def)

lemma run_reference_reaches:
  assumes "w_write V = w_write W" and "w_env V = w_env W" and "run_reference W r s = Some s'"
  shows "reaches V s s'"
proof -
  obtain u where "vendor_run W (calls u) (set_ref (u\<lparr>calls := []\<rparr>) s) = Some s'"
    using assms(3) by (auto simp: run_reference_def split: option.splits ref_result.splits)
  then show ?thesis
    using vendor_run_reaches [OF assms(1,2)] reaches_trans [OF reaches_quiet [OF set_ref_quiet]] by blast
qed

interpretation reference: vendor_library "reference_world W V" for W :: "('p, ref_ril) world" and V :: ref_world
proof
  fix request d n a k param and s s' :: "ref_ril ril_state_scheme"
  let ?W = "W\<lparr>w_malloc := \<lambda>k L. if L (w_malloc W k L) then NULL else w_malloc W k L,
      w_getVersion := Some (\<lambda>_. Some getVersion)\<rparr>"
  have same: "w_write (reference_world W V) = w_write ?W" "w_env (reference_world W V) = w_env ?W"
    by (simp_all add: reference_world_def Let_def)
  show "w_onRequest (reference_world W V) request d n a s = Some s' \<Longrightarrow> reaches (reference_world W V) s s'"
    using run_reference_reaches [OF same] by (simp add: reference_world_def Let_def)
  show "w_timed (reference_world W V) k param s = Some s' \<Longrightarrow> reaches (reference_world W V) s s'"
    using run_reference_reaches [OF same] by (simp add: reference_world_def Let_def)
next
  show "malloc_ok (reference_world W V)" by (simp add: malloc_ok_def reference_world_def Let_def)
qed

section \<open>The pending requests\<close>

lemma vendor_run_pending:
  "vendor_run W cs s = Some s' \<Longrightarrow> pending s R \<Longrightarrow> pending s' (fold AList.delete (answers cs) R)"
proof (induction cs arbitrary: s R)
  case (Cons c cs)
  obtain u where u: "vendor_run W [c] s = Some u" "vendor_run W cs u = Some s'"
    using Cons.prems by (auto split: Option.bind_splits)
  show ?case
  proof (cases c)
    case (Complete t e resp n)
    then have "pending u (AList.delete t R)"
      using u(1) RIL_onRequestComplete_pending [OF _ Cons.prems(2)] by (auto split: Option.bind_splits)
    then show ?thesis using Cons.IH [OF u(2)] Complete by simp
  next
    case (Unsolicited num data n)
    then have "quiet s u" using u(1) by (auto split: Option.bind_splits dest: RIL_onUnsolicitedResponse_quiet)
    then show ?thesis using Cons.IH [OF u(2)] Cons.prems(2) Unsolicited by (simp add: quiet_pending)
  next
    case (RequestTimed k param tv)
    then have "quiet s u" using u(1) by (auto simp: RIL_requestTimedCallback_def split: Option.bind_splits
        dest: internalRequestTimedCallback_quiet)
    then show ?thesis using Cons.IH [OF u(2)] Cons.prems(2) RequestTimed by (simp add: quiet_pending)
  qed
qed simp

lemma delete_twice: "AList.delete t (AList.delete t R) = AList.delete t R"
  by (simp add: delete_idem not_in_delete)

text \<open>When a handler has returned, its request is not pending any more, unless it was never completed.\<close>

lemma reference_request_pending:
  assumes "w_onRequest (reference_world W V) request d n t s = Some s'" and "pending s R"
  shows "pending s' (AList.delete t R) \<or>
    (request = RIL_REQUEST_SET_NETWORK_SELECTION_AUTOMATIC \<and> pending s' R)"
proof -
  let ?W = "W\<lparr>w_malloc := \<lambda>k L. if L (w_malloc W k L) then NULL else w_malloc W k L,
      w_getVersion := Some (\<lambda>_. Some getVersion)\<rparr>" and ?p = "(ref_part s)\<lparr>calls := []\<rparr>"
  obtain u where u: "onRequest_ref V request d n t ?p = Some (Returns u)"
      "vendor_run ?W (calls u) (set_ref (u\<lparr>calls := []\<rparr>) s) = Some s'"
    using assms(1) by (auto simp: reference_world_def run_reference_def Let_def split: option.splits ref_result.splits)
  have "handled t (completions request) ?p u"
    using onRequest_handled [of t request ?p V d n] u(1) by (simp add: meets_def)
  then obtain k where k: "k \<in> completions request" "answers (calls u) = replicate k t" by (auto simp: handled_def)
  have p: "pending s' (fold AList.delete (replicate k t) R)"
    using vendor_run_pending [OF u(2)] assms(2) quiet_pending [OF set_ref_quiet] k(2) by metis
  have "fold AList.delete (replicate (Suc j) t) R = AList.delete t R" for j
    by (induction j) (simp_all add: delete_twice)
  then show ?thesis using p k(1) by (cases k) (auto simp: completions_def split: if_splits)
qed

end
