(* ===== verification/Ref_Correct.thy ===== *)
theory Ref_Correct
  imports Ref_Vendor At_Correct Ril_Core_Correct
begin

text \<open>
  The properties of the reference library, each with an instance in a concrete world: the modem of
  \<open>At_Correct\<close>, a radio that is on, and an answer that is still to come.
\<close>

section \<open>A concrete world\<close>

definition demo_library :: ref_world where
  "demo_library = \<lparr>rw_abi = abi32, rw_at = demo_modem, rw_open = (\<lambda>n. -1), rw_write = (\<lambda>n. Moved 1),
     rw_read = (\<lambda>n. Got []), rw_system = (\<lambda>n. 0), rw_thread = (\<lambda>n. 0)\<rparr>"

definition demo_radio :: "RIL_RadioState \<Rightarrow> at_event list \<Rightarrow> ref_ril" where
  "demo_radio st es = \<lparr>sState = st, s_closed = False, s_port = 6200, s_device_path = None, s_device_socket = False,
     chan = demo_channel [], script = es, calls = [], ref_tick = 0, ref_trace = []\<rparr>"

lemma demo_writable [simp]: "writable demo_library"
  by (auto simp: writable_def demo_library_def demo_modem_def)

lemma demo_idle [simp]: "idle (chan (demo_radio st es))"
  by (simp add: idle_def demo_radio_def demo_channel_def)

lemma demo_fields [simp]:
  "script (demo_radio st es) = es" "sState (demo_radio st es) = st" "long_bits demo_library = 32"
  "psize demo_library = 4" "rw_abi demo_library = abi32" "calls (demo_radio st es) = []"
  by (simp_all add: demo_radio_def demo_library_def long_bits_def psize_def abi32_def)

section \<open>Requests\<close>

text \<open>C10: Whatever the modem answers and whatever else happens on the channel meanwhile: when the handler of a
  request returns, it has completed that request and no other, once; only the automatic selection of
  a network may be left without a completion, and only the requests in \<open>twice_requests\<close> may be completed
  a second time.\<close>

theorem request_is_completed:
  assumes "onRequest_ref W request d n t s = Some (Returns s')"
  shows "\<exists>k \<in> completions request. answers (calls s') = answers (calls s) @ replicate k t"
  using onRequest_handled [of t request s W d n] assms by (simp add: meets_def handled_def)

theorem request_is_completed_witness:
  "\<exists>s'. onRequest_ref demo_library RIL_REQUEST_SMS_ACKNOWLEDGE (DInts [1]) 4 7
      (demo_radio RADIO_STATE_SIM_READY (answer [] (chars ''OK''))) = Some (Returns s') \<and>
    answers (calls s') \<in> {[7], [7, 7]}"
proof -
  let ?s = "demo_radio RADIO_STATE_SIM_READY (answer [] (chars ''OK''))"
  obtain c where c: "\<forall>k. command_only demo_library (chars ''AT+CNMA=1'') k ?s = k (?s\<lparr>chan := c, script := []\<rparr>)"
    using command_answered(2) [of demo_library "chars ''AT+CNMA=1''" ?s "chars ''OK''" "[]"] accepts_idle by auto
  have "onRequest_ref demo_library RIL_REQUEST_SMS_ACKNOWLEDGE (DInts [1]) 4 7 ?s =
      Some (Returns (complete 7 RIL_E_GENERIC_FAILURE None 0 (complete 7 RIL_E_SUCCESS None 0
        (?s\<lparr>chan := c, script := []\<rparr>))))"
    using c by (simp add: onRequest_ref_def handle_request_def requestSMSAcknowledge_def int_at_def aget_def)
  moreover have "completions RIL_REQUEST_SMS_ACKNOWLEDGE = {1, 2}" by (simp add: completions_def twice_requests_def)
  moreover have "replicate 1 (7 :: nat) = [7]" "replicate 2 (7 :: nat) = [7, 7]" by (simp_all add: numeral_2_eq_2)
  ultimately show ?thesis using request_is_completed by (metis (no_types, lifting) append_Nil answers.simps(1)
      demo_fields(6) insertE insertI1 insertI2 singletonD)
qed

text \<open>C14: With the reference library behind the daemon, a request is not pending any more when its handler has
  returned, however often it was completed; the one exception is the automatic selection of a network,
  which the library never completes.\<close>

theorem handled_request_is_not_pending:
  assumes "w_onRequest (reference_world W V) request d n t s = Some s'" and "pending s R"
    and "request \<noteq> RIL_REQUEST_SET_NETWORK_SELECTION_AUTOMATIC"
  shows "pending s' (AList.delete t R)"
  using reference_request_pending [OF assms(1,2)] assms(3) by blast

text \<open>A daemon with this library, and a request that it made itself.\<close>

definition demo_daemon_world :: "(byte_parcel, ref_ril) world" where
  "demo_daemon_world = \<lparr>w_env = demo_env, w_write = (\<lambda>n. Wrote 3), w_read = (\<lambda>n. ReadBytes 0),
     w_malloc = w_malloc demo_world, w_now = w_now demo_world, w_elapsedRealtime = (\<lambda>n. of_nat n),
     w_accept = (\<lambda>n. 9), w_server = (\<lambda>n. 8), w_pipe = (\<lambda>n. Some (10, 11)), w_thread = (\<lambda>n. True),
     w_record = (\<lambda>p n. EndOfStream), w_onRequest = (\<lambda>request d n a s. Some s),
     w_onStateRequest = (\<lambda>n. RADIO_STATE_OFF), w_getVersion = None, w_timed = (\<lambda>k param s. Some s)\<rparr>"

definition demo_daemon :: "ref_ril ril_state_scheme" where
  "demo_daemon = ril_state.extend demo_state (demo_radio RADIO_STATE_SIM_READY [])"

lemma demo_daemon_pending: "pending demo_daemon []"
  by (simp add: pending_def demo_daemon_def ril_state.defs demo_state_def)

theorem handled_request_is_not_pending_witness:
  "\<exists>s'. w_onRequest (reference_world demo_daemon_world demo_library) RIL_REQUEST_SEND_USSD (DString None) 4 100
      (push_request 100 77 (s_commands ! 29) True demo_daemon) = Some s' \<and> pending s' []"
proof -
  let ?s = "push_request 100 77 (s_commands ! 29) True demo_daemon"
  let ?d = "new_request (77, s_commands ! 29, True)"
  let ?W = "demo_daemon_world\<lparr>w_malloc := \<lambda>k L. if L (w_malloc demo_daemon_world k L) then NULL else w_malloc demo_daemon_world k L,
      w_getVersion := Some (\<lambda>_. Some getVersion)\<rparr>"
  have p: "pending ?s [(100, ?d)]" using pending_push [OF demo_daemon_pending, of 100 77 "s_commands ! 29" True] by simp
  have loc: "\<forall>d. map_of [(100, ?d)] 100 = Some d \<longrightarrow> ri_local d \<or> ri_cancelled d" by (simp add: new_request_def)
  have st: "sState (ref_part ?s) = RADIO_STATE_SIM_READY"
    by (simp add: ref_part_def push_request_def demo_daemon_def ril_state.defs demo_state_def)
  let ?u = "complete 100 RIL_E_REQUEST_NOT_SUPPORTED None 0 ((ref_part ?s)\<lparr>calls := []\<rparr>)"
  have "onRequest_ref demo_library RIL_REQUEST_SEND_USSD (DString None) 4 100 ((ref_part ?s)\<lparr>calls := []\<rparr>) =
      Some (Returns ?u)"
    using st by (simp add: onRequest_ref_def handle_request_def requestSendUSSD_def)
  moreover have "pending (set_ref (?u\<lparr>calls := []\<rparr>) ?s) [(100, ?d)]" using p quiet_pending [OF set_ref_quiet] by blast
  then obtain s' where "RIL_onRequestComplete ?W 100 RIL_E_REQUEST_NOT_SUPPORTED None 0
      (set_ref (?u\<lparr>calls := []\<rparr>) ?s) = Some s'"
    using RIL_onRequestComplete_dropped [OF _ loc, where W = ?W and e = RIL_E_REQUEST_NOT_SUPPORTED and resp = None
        and n = 0] by blast
  ultimately have "w_onRequest (reference_world demo_daemon_world demo_library) RIL_REQUEST_SEND_USSD (DString None) 4 100 ?s = Some s'"
    by (simp add: reference_world_def run_reference_def Let_def complete_def)
  then show ?thesis using handled_request_is_not_pending [OF _ p] by fastforce
qed

text \<open>The event loop with the reference library behind it refines the store of requests: whatever the modem
  sends, the pending requests are what the operations of the run make of them.\<close>

theorem reference_loop_refines_store:
  assumes "ril_event_loop (call_back (reference_world W V)) turns s = Some r" and "pending s R"
    and "r = Continue s' \<or> r = Returned s'"
  shows "\<exists>ops. daemon_run (reference_world W V) s ops s' \<and> ops_ok new_request cancelled ops R \<and>
    pending s' (abs_run new_request cancelled ops R)"
proof -
  obtain ops where "daemon_run (reference_world W V) s ops s'"
    using reference.ril_event_loop_reaches [OF assms(1)] assms(3) by (auto simp: reaches_def)
  then show ?thesis using daemon_run_refines_store assms(2) by blast
qed

theorem reference_loop_refines_store_witness:
  "\<exists>s' R'. ril_event_loop (call_back (reference_world demo_daemon_world demo_library))
      [(Timeval 0 0, SelectError True, Timeval 0 0), (Timeval 0 0, SelectError False, Timeval 0 0)] demo_daemon =
    Some (Returned s') \<and> pending s' R'"
proof -
  have "calcNextTimeout (Timeval 0 0) demo_daemon = Some None"
    by (simp add: calcNextTimeout_def demo_daemon_def ril_state.defs demo_state_def get_next_def timer_list_def
        pending_list_def s_commands_event_def s_wakeupfd_event_def s_listen_event_def)
  then have "ril_event_loop (call_back (reference_world demo_daemon_world demo_library))
      [(Timeval 0 0, SelectError True, Timeval 0 0), (Timeval 0 0, SelectError False, Timeval 0 0)] demo_daemon =
    Some (Returned demo_daemon)" by (simp add: ril_event_loop_turn_def)
  then show ?thesis using reference_loop_refines_store [OF _ demo_daemon_pending] by blast
qed

section \<open>The radio\<close>

text \<open>C11: In every run of the library, of requests, timed callbacks, lines of the modem, the end of its input and
  the opening of the channel in any order, the radio is off, unavailable or ready, and unavailable as
  long as the channel is closed; and the daemon is told when the radio state has changed.\<close>

theorem radio_state_is_told:
  assumes "ref_reaches W s s'" and "radio_ok s"
  shows "radio_ok s' \<and> (sState s' = sState s \<or> radio_notes s < radio_notes s')"
  using ref_reaches_evolves [OF assms(1)] assms(2) by (simp add: evolves_def)

theorem radio_state_is_told_witness:
  "\<exists>s'. ref_reaches demo_library (demo_radio RADIO_STATE_UNAVAILABLE []) s' \<and> sState s' = RADIO_STATE_SIM_READY \<and>
    radio_notes s' > 0"
proof -
  let ?s = "demo_radio RADIO_STATE_UNAVAILABLE []"
  let ?u = "initializeCallback (?s\<lparr>script := []\<rparr>)"
  have "ref_step demo_library ?s ?u"
    by (rule ref_step.timed [of _ cb_initializeCallback])
      (simp add: on_timed_def cb_initializeCallback_def cb_sendCallStateChanged_def cb_onDataCallListChanged_def)
  then have r: "ref_reaches demo_library ?s ?u" using ref_reaches.intros by blast
  have "setRadioState RADIO_STATE_OFF ?s = radio_told RADIO_STATE_OFF ?s"
    by (rule setRadioState_other) (simp_all add: demo_radio_def)
  then have "sState ?u = RADIO_STATE_SIM_READY"
    by (simp add: initializeCallback_def isRadioOn_def demo_radio_def setRadioState_power_on del: told_fields)
      (simp add: setRadioState_power_on demo_radio_def radio_told_def unsolicited_def)
  moreover have "radio_ok ?s" by (simp add: radio_ok_def demo_radio_def)
  ultimately show ?thesis using radio_state_is_told [OF r] r by auto
qed

section \<open>Answers of the modem\<close>

text \<open>C12: The calls that the modem lists are the calls that the library reports, each with its state, index, flags
  and number, in the order of the list; while one of them is neither active nor on hold, the library
  asks to be called again to have the list fetched once more.\<close>

theorem calls_round_trip:
  assumes "writable W" and "idle (chan s)"
    and "script s = answer (map (\<lambda>c. answer_line (chars ''+CLCC'') (clcc_fields c)) cs) (chars ''OK'') @ es"
    and "32 \<le> long_bits W" and "\<forall>c \<in> set cs. clcc_call c"
    and "length cs * size_of (RIL_Call_layout (rw_abi W)) \<le> stack_avail (rw_abi W)"
    and "length cs * psize W \<le> stack_avail (rw_abi W)"
  shows "\<exists>c. idle c \<and> requestGetCurrentCalls W t s =
    (let u = complete t RIL_E_SUCCESS (Some (RCallList cs)) (length cs * psize W) (s\<lparr>chan := c, script := es\<rparr>)
     in Some (Returns (if list_all settled cs then u
       else request_timed cb_sendCallStateChanged (Some TIMEVAL_CALLSTATEPOLL) u)))"
  by (rule current_calls_answered [OF accepts_idle [OF assms(1,2)] assms(3-7)])

definition demo_call :: RIL_Call where
  "demo_call = zero_call\<lparr>call_state := RIL_CALL_INCOMING, call_index := 1, call_toa := 145, call_isMT := 1,
     call_isVoice := 1, call_number := Some (chars ''+18005551212'')\<rparr>"

lemma demo_call_ok: "clcc_call demo_call"
  by (simp add: clcc_call_def demo_call_def zero_call_def no_number_def chars_def)

theorem calls_round_trip_witness:
  "\<exists>c. requestGetCurrentCalls demo_library 7 (demo_radio RADIO_STATE_SIM_READY
      (answer [answer_line (chars ''+CLCC'') (clcc_fields demo_call)] (chars ''OK''))) =
    Some (Returns (request_timed cb_sendCallStateChanged (Some TIMEVAL_CALLSTATEPOLL)
      (complete 7 RIL_E_SUCCESS (Some (RCallList [demo_call])) 4
        ((demo_radio RADIO_STATE_SIM_READY [])\<lparr>chan := c\<rparr>))))"
proof -
  let ?s = "demo_radio RADIO_STATE_SIM_READY (answer [answer_line (chars ''+CLCC'') (clcc_fields demo_call)] (chars ''OK''))"
  have "size_of (RIL_Call_layout abi32) \<le> stack_avail abi32"
    by (simp add: RIL_Call_layout_def abi32_def size_simps)
  moreover have "\<not> settled demo_call" by (simp add: settled_def demo_call_def zero_call_def)
  moreover have "?s\<lparr>chan := c, script := []\<rparr> = (demo_radio RADIO_STATE_SIM_READY [])\<lparr>chan := c\<rparr>" for c
    by (simp add: demo_radio_def)
  ultimately show ?thesis
    using calls_round_trip [OF demo_writable demo_idle, of RADIO_STATE_SIM_READY
        "answer [answer_line (chars ''+CLCC'') (clcc_fields demo_call)] (chars ''OK'')" "[demo_call]" "[]" 7] demo_call_ok
    by (auto simp: Let_def abi32_def)
qed

text \<open>A line of the list that is no call, since its number is not followed by a type, is skipped, but it
  leaves its number behind: the next call, if it comes without a number, is reported with that one.\<close>

theorem stale_number_is_reported:
  assumes "32 \<le> bits" and "34 \<notin> set n" and "\<not> no_number n" and "clcc_call c" and "call_number c = None"
  shows "clcc_calls bits [answer_line (chars ''+CLCC'') (take 5 (clcc_fields c) @ [quoted n]),
      answer_line (chars ''+CLCC'') (clcc_fields c)] zero_call = [c\<lparr>call_number := Some n\<rparr>]"
  by (rule clcc_stale_number [OF assms refl])

theorem stale_number_is_reported_witness:
  "clcc_calls 32 [answer_line (chars ''+CLCC'') (take 5 (clcc_fields zero_call) @ [quoted (chars ''112'')]),
      answer_line (chars ''+CLCC'') (clcc_fields zero_call)] zero_call = [zero_call\<lparr>call_number := Some (chars ''112'')\<rparr>]"
  by (rule stale_number_is_reported) (simp_all add: chars_def no_number_def isdigit_def clcc_call_def zero_call_def)



text \<open>When the modem answers the query of the registration with an error, the handler follows a null pointer:
  it tests whether the command was sent, not whether it succeeded.\<close>

theorem registration_error_is_fatal:
  assumes "writable W" and "idle (chan s)" and "script s = answer [] f @ es"
    and "isFinalResponse f" and "\<not> isFinalResponseSuccess f"
  shows "requestRegistrationState W
      (if gprs then RIL_REQUEST_GPRS_REGISTRATION_STATE else RIL_REQUEST_REGISTRATION_STATE) t s = None"
  by (rule registration_state_error [OF accepts_idle [OF assms(1,2)] assms(3-5)])

theorem registration_error_is_fatal_witness:
  "requestRegistrationState demo_library RIL_REQUEST_REGISTRATION_STATE 7
    (demo_radio RADIO_STATE_SIM_READY (answer [] (chars ''ERROR''))) = None"
  using registration_error_is_fatal [OF demo_writable demo_idle, of RADIO_STATE_SIM_READY "answer [] (chars ''ERROR'')"
      "chars ''ERROR''" "[]" False 7] by simp

text \<open>The contexts that the modem lists are reported in its order, each with the type, name and address that it
  gives in a second answer, and with empty strings if it gives none; descriptions of other contexts
  are left out.\<close>

theorem data_calls_are_described:
  assumes "writable W" and "idle (chan s)"
    and "script s = answer (cgact_answer xs) (chars ''OK'') @ answer (cgdcont_answer ds) (chars ''OK'') @ es"
    and "32 \<le> long_bits W" and "distinct (map fst xs)" and "distinct (map fst ds)"
    and "\<forall>(cid, type, apn, address) \<in> set ds. 34 \<notin> set type \<and> 34 \<notin> set apn \<and> 34 \<notin> set address"
    and "length xs * size_of (RIL_Data_Call_Response_layout (rw_abi W)) \<le> stack_avail (rw_abi W)"
  shows "\<exists>c. idle c \<and> requestOrSendDataCallList W t s = data_call_list t RIL_E_SUCCESS
    (Some (RDataCallList (map (described ds) xs)))
    (length xs * size_of (RIL_Data_Call_Response_layout (rw_abi W))) (s\<lparr>chan := c, script := es\<rparr>)"
  by (rule data_call_list_answered [OF assms])

theorem data_calls_are_described_witness:
  "\<exists>c. requestOrSendDataCallList demo_library (Some 7) (demo_radio RADIO_STATE_SIM_READY
      (answer (cgact_answer [(1, 1), (2, 0)]) (chars ''OK'') @
       answer (cgdcont_answer [(2, chars ''IP'', chars ''net'', [])]) (chars ''OK''))) =
    data_call_list (Some 7) RIL_E_SUCCESS (Some (RDataCallList (map (described [(2, chars ''IP'', chars ''net'', [])])
      [(1, 1), (2, 0)]))) 40 ((demo_radio RADIO_STATE_SIM_READY [])\<lparr>chan := c\<rparr>)"
proof -
  let ?es = "answer (cgact_answer [(1, 1), (2, 0)]) (chars ''OK'') @
       answer (cgdcont_answer [(2, chars ''IP'', chars ''net'', [])]) (chars ''OK'') @ []"
  have "size_of (RIL_Data_Call_Response_layout abi32) = 20" by (simp add: size_simps abi32_def)
  moreover have "(demo_radio RADIO_STATE_SIM_READY ?es)\<lparr>chan := c, script := []\<rparr> =
      (demo_radio RADIO_STATE_SIM_READY [])\<lparr>chan := c\<rparr>" for c by (simp add: demo_radio_def)
  moreover have "34 \<notin> set (chars ''IP'')" "34 \<notin> set (chars ''net'')" "40 \<le> stack_avail abi32"
    by (simp_all add: chars_def abi32_def)
  ultimately show ?thesis
    using data_calls_are_described [OF demo_writable demo_idle [of RADIO_STATE_SIM_READY ?es], of
        "[(1, 1), (2, 0)]" "[(2, chars ''IP'', chars ''net'', [])]" "[]" "Some 7"] by auto
qed

text \<open>The status of the SIM is what the modem says about it: ready, locked by a PIN, a PUK or a network, and
  absent for every other word; the card that is reported has one application, in the state that
  belongs to this status, or none.\<close>

theorem sim_status_is_reported:
  assumes "writable W" and "idle (chan s)" and "sState s = RADIO_STATE_SIM_READY" and "bare_word word"
    and "script s = answer [answer_line (chars ''+CPIN'') [word]] (chars ''OK'') @ es"
  shows "\<exists>c. idle c \<and> onRequest_ref W RIL_REQUEST_GET_SIM_STATUS d n t s =
    Some (Returns (complete t RIL_E_SUCCESS (Some (RCardStatus (card_status (sim_status_of word))))
      (size_of (RIL_CardStatus_layout (rw_abi W))) (s\<lparr>chan := c, script := es\<rparr>)))"
proof -
  let ?k = "\<lambda>st s. Some (Returns (complete t RIL_E_SUCCESS (Some (RCardStatus (card_status st)))
      (size_of (RIL_CardStatus_layout (rw_abi W))) s))"
  obtain c where "idle c" "getSIMStatus W ?k s = ?k (sim_status_of word) (s\<lparr>chan := c, script := es\<rparr>)"
    using sim_status_answered [OF accepts_idle [OF assms(1,2)] _ assms(5,4)] assms(3) by auto
  then show ?thesis
    using assms(3) by (auto simp: onRequest_ref_def handle_request_def getCardStatus_def)
qed

theorem sim_status_is_reported_witness:
  "\<exists>c. onRequest_ref demo_library RIL_REQUEST_GET_SIM_STATUS DVoid 0 7 (demo_radio RADIO_STATE_SIM_READY
      (answer [answer_line (chars ''+CPIN'') [chars ''SIM PIN'']] (chars ''OK''))) =
    Some (Returns (complete 7 RIL_E_SUCCESS (Some (RCardStatus (card_status SIM_PIN)))
      (size_of (RIL_CardStatus_layout abi32)) ((demo_radio RADIO_STATE_SIM_READY [])\<lparr>chan := c\<rparr>)))"
proof -
  let ?es = "answer [answer_line (chars ''+CPIN'') [chars ''SIM PIN'']] (chars ''OK'')"
  have "(demo_radio RADIO_STATE_SIM_READY ?es)\<lparr>chan := c, script := []\<rparr> =
      (demo_radio RADIO_STATE_SIM_READY [])\<lparr>chan := c\<rparr>" for c by (simp add: demo_radio_def)
  moreover have "bare_word (chars ''SIM PIN'')" "sim_status_of (chars ''SIM PIN'') = SIM_PIN"
    by (simp_all add: bare_word_def chars_def isspace_def sim_status_of_def sim_words_def)
  ultimately show ?thesis
    using sim_status_is_reported [OF demo_writable demo_idle [of RADIO_STATE_SIM_READY ?es], of "chars ''SIM PIN''"
        "[]" DVoid 0 7] by auto
qed

section \<open>Unsolicited lines\<close>



end
