(* ===== verification/Mock_Worker.thy ===== *)
theory Mock_Worker
  imports Ril_Prelude
begin

text \<open>
  \<open>worker.h\<close> and \<open>worker.cpp\<close> of \<open>mock-ril\<close>: a thread with a state that other threads read and change
  atomically, and a queue of work for such a thread. The queue consists of records that are reused
  when they have been taken off; who holds a pointer to a record sees what becomes of it.

  The critical sections under \<open>mutex_\<close> of the threads that use the queue are single operations. The
  worker thread is a program counter, because it releases the mutex when it waits and before it looks
  into the record that it took, and because \<open>thr_state\<close> changes while it holds the mutex. Times are
  milliseconds since the start of the phone.
\<close>

section \<open>The state\<close>

datatype thread_state = STATE_INITIALIZED | STATE_RUNNING | STATE_STOPPING | STATE_STOPPED

record wq_record =
  wr_time :: i64
  wr_p :: addr

text \<open>
  Where the worker thread is: not started; before \<open>while (isRunning ())\<close>; holding the mutex before
  the inner loop; holding it before \<open>pthread_cond_wait\<close>; waiting; woken, but
  without the mutex; without the mutex, having taken a
  record, before \<open>Process\<close>; back from \<open>Worker\<close>.
\<close>

datatype worker_place = NotStarted | LoopHead | Locked | BeforeWait | InWait | Woken | Took addr | Exited

record worker =
  thr_state :: thread_state
  place :: worker_place
  wq_heap :: "addr \<rightharpoonup> wq_record"
  work_q :: "addr list"
  free_list :: "addr list"
  delayed_q :: "addr list"          \<comment> \<open>in the order in which \<open>top\<close> gives them out\<close>
  processed :: "addr list"           \<comment> \<open>what \<open>Process\<close> was called with\<close>

definition new_worker :: worker where
  "new_worker = \<lparr>thr_state = STATE_INITIALIZED, place = NotStarted, wq_heap = Map.empty, work_q = [], free_list = [],
     delayed_q = [], processed = []\<rparr>"

definition isRunning :: "worker \<Rightarrow> bool" where "isRunning w \<longleftrightarrow> thr_state w = STATE_RUNNING"

text \<open>The time and the contents of a record, where there is one.\<close>

definition time_at :: "worker \<Rightarrow> addr \<Rightarrow> int" where "time_at w r = sint (wr_time (the (wq_heap w r)))"

definition item :: "worker \<Rightarrow> addr \<Rightarrow> addr" where "item w r = wr_p (the (wq_heap w r))"

definition all_allocated :: "worker \<Rightarrow> addr list \<Rightarrow> bool" where
  "all_allocated w rs = list_all (\<lambda>r. wq_heap w r \<noteq> None) rs"

section \<open>The priority queue\<close>

text \<open>
  \<open>std::priority_queue\<close> with \<open>record_compare\<close> gives out a record with the least time; which one of
  several is left open. Here the queue is the list of its elements in the order in which they will be
  given out, and \<open>tie\<close> says where a new one goes among those of its own time.
\<close>

fun pq_push :: "('a \<Rightarrow> int) \<Rightarrow> nat \<Rightarrow> 'a \<Rightarrow> 'a list \<Rightarrow> 'a list" where
  "pq_push key tie r [] = [r]"
| "pq_push key tie r (x # q) =
     (if key x < key r then x # pq_push key tie r q
      else if key x = key r \<and> 0 < tie then x # pq_push key (tie - 1) r q
      else r # x # q)"

section \<open>Records\<close>

text \<open>\<open>new\<close> is what the operator \<open>new\<close> returns if it is called, \<open>now\<close> what \<open>elapsedRealtime\<close> returns.\<close>

definition obtain_record :: "addr \<Rightarrow> i64 \<Rightarrow> addr \<Rightarrow> i32 \<Rightarrow> worker \<Rightarrow> addr \<times> worker" where
  "obtain_record new now p delay_in_ms w =
     (let (r, free) = (case free_list w of [] \<Rightarrow> (new, []) | r # rs \<Rightarrow> (r, rs));
          time = (if delay_in_ms \<noteq> 0 then now + scast delay_in_ms else 0)
      in (r, w\<lparr>free_list := free, wq_heap := (wq_heap w)(r \<mapsto> \<lparr>wr_time = time, wr_p = p\<rparr>)\<rparr>))"

definition release_record :: "addr \<Rightarrow> worker \<Rightarrow> worker" where
  "release_record r w = w\<lparr>free_list := r # free_list w\<rparr>"

text \<open>\<open>pthread_cond_signal\<close>: it is lost unless the worker waits.\<close>

definition cond_signal :: "worker \<Rightarrow> worker" where
  "cond_signal w = (if place w = InWait then w\<lparr>place := Woken\<rparr> else w)"

section \<open>Adding work\<close>

definition Add :: "addr \<Rightarrow> addr \<Rightarrow> worker \<Rightarrow> worker" where
  "Add new p w =
     (let (r, w) = obtain_record new 0 p 0 w;
          w = w\<lparr>work_q := work_q w @ [r]\<rparr>
      in if length (work_q w) = 1 then cond_signal w else w)"

definition AddDelayed :: "addr \<Rightarrow> i64 \<Rightarrow> nat \<Rightarrow> addr \<Rightarrow> i32 \<Rightarrow> worker \<Rightarrow> worker option" where
  "AddDelayed new now tie p delay_in_ms w =
     (if sint delay_in_ms \<le> 0 then Some (Add new p w)
      else
        (let (r, w) = obtain_record new now p delay_in_ms w
         in if \<not> all_allocated w (delayed_q w) then None
            else
              (let w = w\<lparr>delayed_q := pq_push (time_at w) tie r (delayed_q w)\<rparr>
               in Some (if work_q w = [] \<and> hd (delayed_q w) = r then cond_signal w else w))))"

section \<open>The worker thread\<close>

text \<open>The records whose time has come go to the queue.\<close>

fun move_expired :: "(addr \<Rightarrow> i64) \<Rightarrow> i64 \<Rightarrow> addr list \<Rightarrow> addr list \<Rightarrow> addr list \<times> addr list" where
  "move_expired time now [] q = ([], q)"
| "move_expired time now (r # rs) q =
     (if sint (time r - now) \<le> 0 then move_expired time now rs (q @ [r]) else (r # rs, q))"

text \<open>One round of the inner loop, and what follows it when it ends: the worker takes a record.\<close>

definition inner_loop :: "i64 \<Rightarrow> worker \<Rightarrow> worker option" where
  "inner_loop now w =
     (if isRunning w \<and> work_q w = [] then
        if delayed_q w = [] then Some (w\<lparr>place := BeforeWait\<rparr>)
        else if \<not> all_allocated w (delayed_q w) then None
        else
          (let (delayed, q) = move_expired (\<lambda>r. wr_time (the (wq_heap w r))) now (delayed_q w) (work_q w);
               w = w\<lparr>delayed_q := delayed, work_q := q\<rparr>
           in Some (if q = [] \<and> delayed \<noteq> [] then w\<lparr>place := BeforeWait\<rparr> else w))
      else if isRunning w then
        (let r = hd (work_q w);
             w = w\<lparr>work_q := tl (work_q w)\<rparr>
         in if wq_heap w r = None then None          \<comment> \<open>\<open>void *p = r->p\<close>, which is not used\<close>
            else Some ((release_record r w)\<lparr>place := Took r\<rparr>))
      else Some (w\<lparr>place := LoopHead\<rparr>))"

text \<open>\<open>wq->Process (r->p)\<close>, after the record was released and the mutex unlocked.\<close>

definition process_taken :: "addr \<Rightarrow> worker \<Rightarrow> worker option" where
  "process_taken r w = (case wq_heap w r of
       None \<Rightarrow> None
     | Some x \<Rightarrow> Some (w\<lparr>processed := processed w @ [wr_p x], place := LoopHead\<rparr>))"

text \<open>
  One step of the worker thread. A wait ends when the condition is signalled, when the time is up, or
  for no reason.
\<close>

definition worker_turn :: "i64 \<Rightarrow> worker \<Rightarrow> worker option" where
  "worker_turn now w = (case place w of
       NotStarted \<Rightarrow> Some (w\<lparr>thr_state := STATE_RUNNING, place := LoopHead\<rparr>)
     | LoopHead \<Rightarrow> Some (if isRunning w then w\<lparr>place := Locked\<rparr>
                       else w\<lparr>place := Exited, thr_state := STATE_STOPPED\<rparr>)
     | Locked \<Rightarrow> inner_loop now w
     | BeforeWait \<Rightarrow> Some (w\<lparr>place := InWait\<rparr>)
     | InWait \<Rightarrow> Some (w\<lparr>place := Woken\<rparr>)
     | Woken \<Rightarrow> Some (w\<lparr>place := Locked\<rparr>)
     | Took r \<Rightarrow> process_taken r w
     | Exited \<Rightarrow> Some w)"

text \<open>
  The end of a timed wait in seconds and nanoseconds; \<open>pthread_cond_timedwait\<close> refuses a number of
  nanoseconds that does not make less than a second.
\<close>

definition wait_until :: "int \<times> int \<Rightarrow> int \<Rightarrow> int \<times> int" where
  "wait_until tv delay_ms = (fst tv + delay_ms div 1000, (snd tv + delay_ms mod 1000 * 1000) * 1000)"

definition timedwait_accepts :: "int \<times> int \<Rightarrow> bool" where
  "timedwait_accepts ts \<longleftrightarrow> 0 \<le> snd ts \<and> snd ts < 10 ^ 9"

section \<open>Starting and stopping\<close>

text \<open>The numbers of \<open>status.h\<close>.\<close>

definition STATUS_OK :: int where "STATUS_OK = 0"
definition STATUS_ERR :: int where "STATUS_ERR = 1"
definition STATUS_BAD_DATA :: int where "STATUS_BAD_DATA = 2"
definition STATUS_UNSUPPORTED_REQUEST :: int where "STATUS_UNSUPPORTED_REQUEST = 4"
definition STATUS_CLIENT_CLOSED_CONNECTION :: int where "STATUS_CLIENT_CLOSED_CONNECTION = 9"

text \<open>
  \<open>Run\<close>, with the results of \<open>pthread_attr_init\<close>, \<open>pthread_attr_setdetachstate\<close> and \<open>pthread_create\<close>; a
  thread that was created is running when it returns.
\<close>

definition Run :: "i32 \<Rightarrow> i32 \<Rightarrow> i32 \<Rightarrow> worker \<Rightarrow> int \<times> worker" where
  "Run attr_init detached create w =
     (if attr_init \<noteq> 0 \<or> detached \<noteq> 0 \<or> create \<noteq> 0 then (STATUS_ERR, w)
      else (STATUS_OK, w\<lparr>thr_state := STATE_RUNNING, place := LoopHead\<rparr>))"

definition BeginStopping :: "worker \<Rightarrow> bool \<times> worker" where
  "BeginStopping w = (if thr_state w = STATE_RUNNING then (True, w\<lparr>thr_state := STATE_STOPPING\<rparr>) else (False, w))"

text \<open>\<open>WaitUntilStopped\<close> signals once, and polls until the state is another one.\<close>

definition stop_waits :: "worker \<Rightarrow> bool" where "stop_waits w \<longleftrightarrow> thr_state w = STATE_STOPPING"

text \<open>The destructor of the queue, after the thread has stopped: the records that it deletes.\<close>

definition delete_queue :: "worker \<Rightarrow> worker" where
  "delete_queue w = w\<lparr>free_list := [], delayed_q := [],
     wq_heap := (wq_heap w) |` (- set (free_list w @ delayed_q w))\<rparr>"

section \<open>Runs\<close>

definition holds_mutex :: "worker \<Rightarrow> bool" where "holds_mutex w \<longleftrightarrow> place w = Locked \<or> place w = BeforeWait"

definition clock_ok :: "i64 \<Rightarrow> bool" where "clock_ok now \<longleftrightarrow> 0 \<le> sint now \<and> sint now < 2 ^ 62"

datatype worker_event = Adds addr | AddsDelayed addr i32 | Turns | Stops | Signals

text \<open>
  One step of the whole: another thread adds work, at a moment when \<open>may_add\<close> holds, or stops the
  worker, or signals it in order to stop it; or the worker makes a step.
\<close>

inductive worker_step :: "(worker \<Rightarrow> bool) \<Rightarrow> worker_event \<Rightarrow> worker \<Rightarrow> worker \<Rightarrow> bool" for may_add where
  adds: "\<not> holds_mutex w \<Longrightarrow> may_add w \<Longrightarrow> wq_heap w new = None \<Longrightarrow> worker_step may_add (Adds p) w (Add new p w)"
| adds_delayed: "\<not> holds_mutex w \<Longrightarrow> may_add w \<Longrightarrow> wq_heap w new = None \<Longrightarrow> clock_ok now \<Longrightarrow>
    AddDelayed new now tie p delay w = Some w' \<Longrightarrow> worker_step may_add (AddsDelayed p delay) w w'"
| turns: "clock_ok now \<Longrightarrow> worker_turn now w = Some w' \<Longrightarrow> worker_step may_add Turns w w'"
| stops: "worker_step may_add Stops w (snd (BeginStopping w))"
| signals: "thr_state w \<noteq> STATE_RUNNING \<Longrightarrow> worker_step may_add Signals w (cond_signal w)"

inductive worker_run :: "(worker \<Rightarrow> bool) \<Rightarrow> worker_event list \<Rightarrow> worker \<Rightarrow> worker \<Rightarrow> bool" for may_add where
  none: "worker_run may_add [] w w"
| more: "worker_step may_add e w w' \<Longrightarrow> worker_run may_add es w' w'' \<Longrightarrow> worker_run may_add (e # es) w w''"

inductive_simps worker_run_Nil: "worker_run may_add [] w w'"
inductive_simps worker_run_Cons: "worker_run may_add (e # es) w w'"

text \<open>The pointers that the other threads add, in their order.\<close>

fun added :: "worker_event list \<Rightarrow> addr list" where
  "added [] = []"
| "added (Adds p # es) = p # added es"
| "added (AddsDelayed p _ # es) = p # added es"
| "added (_ # es) = added es"

text \<open>Nobody adds work between the moment the worker releases a record and the moment it reads it.\<close>

definition record_read :: "worker \<Rightarrow> bool" where "record_read w \<longleftrightarrow> (\<forall>r. place w \<noteq> Took r)"

end
