(* ===== verification/Mock_Worker_Correct.thy ===== *)
theory Mock_Worker_Correct
  imports Mock_Worker "HOL-Library.Multiset"
begin

text \<open>
  The queue of work: its records are never lost and never shared, the delayed ones come in the order
  of their times, and as long as no other thread adds work between the release of a record and its
  reading, what is added is processed, once and in order. Otherwise it is not.
\<close>

named_theorems worker_simps "what the operations of the queue do to its fields"

section \<open>The priority queue\<close>

locale time_queue =
  fixes push :: "('a \<Rightarrow> int) \<Rightarrow> nat \<Rightarrow> 'a \<Rightarrow> 'a list \<Rightarrow> 'a list"
  assumes mset_push: "mset (push key tie r q) = add_mset r (mset q)"
    and sorted_push: "sorted (map key q) \<Longrightarrow> sorted (map key (push key tie r q))"
begin

lemma set_push: "set (push key tie r q) = insert r (set q)"
  by (metis mset_push set_mset_add_mset_insert set_mset_mset)

lemma distinct_push: "distinct (push key tie r q) \<longleftrightarrow> r \<notin> set q \<and> distinct q"
  by (metis distinct.simps(2) mset.simps(2) mset_eq_imp_distinct_iff mset_push)

lemma mset_map_push: "mset (map f (push key tie r q)) = add_mset (f r) (mset (map f q))"
  by (simp add: mset_push)

end

lemma mset_pq_push: "mset (pq_push key tie r q) = add_mset r (mset q)"
  by (induction key tie r q rule: pq_push.induct) auto

lemma sorted_pq_push: "sorted (map key q) \<Longrightarrow> sorted (map key (pq_push key tie r q))"
proof (induction key tie r q rule: pq_push.induct)
  case (2 key tie r x q)
  have "set (pq_push key tie' r q) = insert r (set q)" for tie'
    by (metis mset_pq_push set_mset_add_mset_insert set_mset_mset)
  then show ?case using 2 by (auto simp: ball_Un)
qed simp

interpretation pq: time_queue pq_push
  by unfold_locales (simp_all add: mset_pq_push sorted_pq_push)


section \<open>What an operation does\<close>

lemma obtain_record_facts:
  assumes "obtain_record new now p delay w = (r, w')"
  shows "r = (if free_list w = [] then new else hd (free_list w))" "free_list w' = tl (free_list w)"
    "wq_heap w' = (wq_heap w)(r \<mapsto> \<lparr>wr_time = (if delay \<noteq> 0 then now + scast delay else 0), wr_p = p\<rparr>)"
    "work_q w' = work_q w" "delayed_q w' = delayed_q w" "thr_state w' = thr_state w" "place w' = place w"
    "processed w' = processed w"
  using assms by (auto simp: obtain_record_def split: list.splits)

lemma cond_signal_fields [simp]:
  "thr_state (cond_signal w) = thr_state w" "wq_heap (cond_signal w) = wq_heap w" "work_q (cond_signal w) = work_q w"
  "free_list (cond_signal w) = free_list w" "delayed_q (cond_signal w) = delayed_q w"
  "processed (cond_signal w) = processed w" "place (cond_signal w) = NotStarted \<longleftrightarrow> place w = NotStarted"
  "place (cond_signal w) = Exited \<longleftrightarrow> place w = Exited" "place (cond_signal w) = Took r \<longleftrightarrow> place w = Took r"
  by (auto simp: cond_signal_def)

lemma BeginStopping_fields [simp]:
  "place (snd (BeginStopping w)) = place w" "wq_heap (snd (BeginStopping w)) = wq_heap w"
  "work_q (snd (BeginStopping w)) = work_q w" "free_list (snd (BeginStopping w)) = free_list w"
  "delayed_q (snd (BeginStopping w)) = delayed_q w" "processed (snd (BeginStopping w)) = processed w"
  by (auto simp: BeginStopping_def)

lemma move_expired_split:
  assumes "move_expired time now rs q = (delayed, q')"
  shows "\<exists>moved. rs = moved @ delayed \<and> q' = q @ moved \<and> (\<forall>r \<in> set moved. sint (time r - now) \<le> 0) \<and>
    (delayed \<noteq> [] \<longrightarrow> 0 < sint (time (hd delayed) - now))"
  using assms
proof (induction time now rs q rule: move_expired.induct)
  case (2 time now r rs q)
  show ?case
  proof (cases "sint (time r - now) \<le> 0")
    case True
    then obtain moved where "rs = moved @ delayed \<and> q' = (q @ [r]) @ moved \<and>
        (\<forall>r \<in> set moved. sint (time r - now) \<le> 0) \<and> (delayed \<noteq> [] \<longrightarrow> 0 < sint (time (hd delayed) - now))"
      using 2 by auto
    then show ?thesis using True by (intro exI [of _ "r # moved"]) simp
  next
    case False
    then show ?thesis using "2.prems" by auto
  qed
qed simp

lemma time_at_fields [simp]:
  "time_at (cond_signal w) = time_at w" "time_at (w\<lparr>place := pl\<rparr>) = time_at w" "time_at (w\<lparr>work_q := q\<rparr>) = time_at w"
  "time_at (w\<lparr>free_list := q\<rparr>) = time_at w" "time_at (w\<lparr>delayed_q := q\<rparr>) = time_at w"
  "time_at (w\<lparr>thr_state := st\<rparr>) = time_at w" "time_at (w\<lparr>processed := ps\<rparr>) = time_at w"
  "time_at (snd (BeginStopping w)) = time_at w"
  by (simp_all add: time_at_def fun_eq_iff)

section \<open>The records\<close>

text \<open>
  A record is in one of the three lists, the delayed ones are sorted, and the worker has taken one that
  exists; a thread that runs has started and not returned.
\<close>

definition worker_ok :: "worker \<Rightarrow> bool" where
  "worker_ok w \<longleftrightarrow> distinct (work_q w @ free_list w @ delayed_q w) \<and>
     set (work_q w @ free_list w @ delayed_q w) \<subseteq> dom (wq_heap w) \<and>
     sorted (map (time_at w) (delayed_q w)) \<and> (\<forall>r \<in> set (delayed_q w). 0 \<le> time_at w r \<and> time_at w r < 2 ^ 62 + 2 ^ 31) \<and>
     (\<forall>r. place w = Took r \<longrightarrow> r \<in> dom (wq_heap w)) \<and>
     (thr_state w = STATE_RUNNING \<longrightarrow> place w \<noteq> NotStarted \<and> place w \<noteq> Exited)"

lemma worker_ok_new: "worker_ok new_worker"
  by (simp add: worker_ok_def new_worker_def)


lemma obtain_record_ok:
  assumes "obtain_record new now p delay w = (r, w')" and "worker_ok w" and "wq_heap w new = None"
  shows "r \<notin> set (work_q w @ tl (free_list w) @ delayed_q w)" "worker_ok w'" "wq_heap w' r \<noteq> None"
    "item w' r = p" "\<forall>x \<in> set (work_q w @ delayed_q w). item w' x = item w x"
    "time_at w' r = sint (if delay \<noteq> 0 then now + scast delay else 0)"
proof -
  note f = obtain_record_facts [OF assms(1)]
  show n: "r \<notin> set (work_q w @ tl (free_list w) @ delayed_q w)"
    using assms(2,3) f(1) by (cases "free_list w") (auto simp: worker_ok_def split: if_splits)
  show "wq_heap w' r \<noteq> None" "item w' r = p" "time_at w' r = sint (if delay \<noteq> 0 then now + scast delay else 0)"
    by (simp_all add: f(3) item_def time_at_def)
  show "\<forall>x \<in> set (work_q w @ delayed_q w). item w' x = item w x" using n by (auto simp: f(3) item_def)
  have t: "time_at w' x = time_at w x" if "x \<in> set (delayed_q w)" for x
    using n that by (auto simp: f(3) time_at_def)
  have m: "map (time_at w') (delayed_q w) = map (time_at w) (delayed_q w)" by (simp add: t)
  have "sorted (map (time_at w') (delayed_q w))" using assms(2) unfolding m by (simp add: worker_ok_def)
  moreover have "distinct (work_q w @ tl (free_list w) @ delayed_q w)"
    "set (work_q w @ tl (free_list w) @ delayed_q w) \<subseteq> dom (wq_heap w')"
    using assms(2) by (cases "free_list w"; auto simp: worker_ok_def f(3))+
  moreover have "\<forall>x \<in> set (delayed_q w). 0 \<le> time_at w' x \<and> time_at w' x < 2 ^ 62 + 2 ^ 31"
    using assms(2) t by (simp add: worker_ok_def)
  moreover have "\<forall>x. place w = Took x \<longrightarrow> x \<in> dom (wq_heap w')" using assms(2) by (auto simp: worker_ok_def f(3))
  ultimately show "worker_ok w'" using assms(2) by (simp add: worker_ok_def f(2,4-7))
qed

lemma worker_ok_signal [simp]: "worker_ok (cond_signal w) = worker_ok w"
  by (simp add: worker_ok_def)

lemma Add_ok:
  assumes "worker_ok w" and "wq_heap w new = None"
  shows "worker_ok (Add new p w)"
proof -
  obtain r w' where o: "obtain_record new 0 p 0 w = (r, w')" by fastforce
  note f = obtain_record_facts [OF o] and k = obtain_record_ok [OF o assms]
  have "worker_ok (w'\<lparr>work_q := work_q w' @ [r]\<rparr>)"
    using k(1-3) by (auto simp: worker_ok_def f(2,4-7))
  then show ?thesis by (auto simp: Add_def o Let_def)
qed

lemma delayed_time:
  assumes "clock_ok now" and "0 < sint (delay :: i32)"
  shows "0 \<le> sint (now + scast delay) \<and> sint (now + scast delay) < 2 ^ 62 + 2 ^ 31"
    "sint (now + scast delay) = sint now + sint delay"
proof -
  have d: "sint (scast delay :: i64) = sint delay" by (simp add: sint_up_scast is_up)
  have "sint delay < 2 ^ 31" using sint_lt [of delay] by simp
  then have "sint (now + scast delay) = sint now + sint (scast delay :: i64)"
    using assms d by (auto simp: clock_ok_def sint_word_ariths signed_take_bit_int_eq_self)
  then show "sint (now + scast delay) = sint now + sint delay" using d by simp
  then show "0 \<le> sint (now + scast delay) \<and> sint (now + scast delay) < 2 ^ 62 + 2 ^ 31"
    using assms \<open>sint delay < 2 ^ 31\<close> by (simp add: clock_ok_def)
qed

lemma AddDelayed_ok:
  assumes "worker_ok w" and "wq_heap w new = None" and "clock_ok now"
  shows "\<exists>w'. AddDelayed new now tie p delay w = Some w' \<and> worker_ok w'"
proof (cases "sint delay \<le> 0")
  case True
  then show ?thesis using Add_ok [OF assms(1,2)] by (simp add: AddDelayed_def)
next
  case False
  obtain r w' where o: "obtain_record new now p delay w = (r, w')" by fastforce
  note f = obtain_record_facts [OF o] and k = obtain_record_ok [OF o assms(1,2)]
  let ?w = "w'\<lparr>delayed_q := pq_push (time_at w') tie r (delayed_q w')\<rparr>"
  have "time_at w' r = sint (now + scast delay)" using k(6) False by auto
  then have "worker_ok ?w"
    using k(1-3) delayed_time [OF assms(3)] False
    by (auto simp: worker_ok_def f(2,4-7) pq.set_push pq.distinct_push pq.sorted_push)
  moreover have "all_allocated w' (delayed_q w')" using k(2) by (auto simp: all_allocated_def list_all_iff worker_ok_def)
  ultimately show ?thesis using False by (auto simp: AddDelayed_def o Let_def)
qed

lemma worker_ok_place:
  "worker_ok w \<Longrightarrow> pl \<in> {LoopHead, Locked, BeforeWait, InWait, Woken} \<Longrightarrow> worker_ok (w\<lparr>place := pl\<rparr>)"
  by (auto simp: worker_ok_def)

lemma inner_loop_ok:
  assumes "worker_ok w" and "clock_ok now" and "place w = Locked"
  shows "\<exists>w'. inner_loop now w = Some w' \<and> worker_ok w'"
proof -
  consider "\<not> isRunning w" | "isRunning w" "work_q w = []" "delayed_q w = []"
    | "isRunning w" "work_q w = []" "delayed_q w \<noteq> []" | r q where "isRunning w" "work_q w = r # q"
    by (cases "work_q w") auto
  then show ?thesis
  proof cases
    case 3
    obtain delayed q where m: "move_expired (\<lambda>r. wr_time (the (wq_heap w r))) now (delayed_q w) [] = (delayed, q)"
      by fastforce
    then obtain moved where "delayed_q w = moved @ delayed" "q = moved" using move_expired_split by fastforce
    then have "worker_ok (w\<lparr>delayed_q := delayed, work_q := q\<rparr>)"
      using assms(1) 3(2) by (auto simp: worker_ok_def sorted_append)
    moreover have "all_allocated w (delayed_q w)" using assms(1) by (auto simp: all_allocated_def list_all_iff worker_ok_def)
    ultimately show ?thesis
      using 3 m worker_ok_place [of "w\<lparr>delayed_q := delayed, work_q := q\<rparr>" BeforeWait]
      by (auto simp: inner_loop_def Let_def)
  next
    case 4
    then have "worker_ok ((release_record r (w\<lparr>work_q := q\<rparr>))\<lparr>place := Took r\<rparr>)" "wq_heap w r \<noteq> None"
      using assms(1) by (auto simp: worker_ok_def release_record_def)
    then show ?thesis using 4 by (auto simp: inner_loop_def)
  qed (use assms worker_ok_place in \<open>auto simp: inner_loop_def\<close>)
qed

lemma worker_turn_ok:
  assumes "worker_ok w" and "clock_ok now"
  shows "\<exists>w'. worker_turn now w = Some w' \<and> worker_ok w'"
proof (cases "place w")
  case (Took r)
  then have "wq_heap w r \<noteq> None" using assms(1) by (auto simp: worker_ok_def)
  then show ?thesis using Took assms(1)
    by (auto simp: worker_turn_def process_taken_def worker_ok_def split: option.splits)
next
  case Locked
  then show ?thesis using inner_loop_ok [OF assms] by (simp add: worker_turn_def)
next
  case LoopHead
  then show ?thesis using assms(1) worker_ok_place [OF assms(1), of Locked]
    by (simp add: worker_turn_def) (simp add: worker_ok_def isRunning_def)
next
  case NotStarted
  then show ?thesis using assms(1) by (simp add: worker_turn_def) (simp add: worker_ok_def)
qed (simp_all add: worker_turn_def worker_ok_place assms(1))

lemma worker_step_ok: "worker_step may_add e w w' \<Longrightarrow> worker_ok w \<Longrightarrow> worker_ok w'"
proof (induction rule: worker_step.induct)
  case (stops w)
  have "thr_state (snd (BeginStopping w)) = STATE_RUNNING \<Longrightarrow> thr_state w = STATE_RUNNING"
    by (simp add: BeginStopping_def split: if_splits)
  then show ?case using stops by (simp add: worker_ok_def)
next
  case (adds_delayed w new now tie p delay w')
  then show ?case using AddDelayed_ok by (metis option.inject)
next
  case (turns now w w')
  then show ?case using worker_turn_ok by (metis option.inject)
qed (simp_all add: Add_ok)

lemma worker_run_ok: "worker_run may_add es w w' \<Longrightarrow> worker_ok w \<Longrightarrow> worker_ok w'"
  by (induction rule: worker_run.induct) (auto dest: worker_step_ok)


section \<open>The work\<close>

text \<open>The work that was processed, taken or is queued, in this order, and the work that is delayed.\<close>

definition taken :: "worker \<Rightarrow> addr list" where
  "taken w = (case place w of Took r \<Rightarrow> [item w r] | _ \<Rightarrow> [])"

definition contents :: "worker \<Rightarrow> addr list" where
  "contents w = processed w @ taken w @ map (item w) (work_q w)"

definition delayed_items :: "worker \<Rightarrow> addr list" where
  "delayed_items w = map (item w) (delayed_q w)"

text \<open>What an event adds at once, and what it adds for later.\<close>

fun at_once :: "worker_event \<Rightarrow> addr list" where
  "at_once (Adds p) = [p]"
| "at_once (AddsDelayed p delay) = (if sint delay \<le> 0 then [p] else [])"
| "at_once _ = []"

fun later :: "worker_event \<Rightarrow> addr list" where
  "later (AddsDelayed p delay) = (if sint delay \<le> 0 then [] else [p])"
| "later _ = []"

lemma item_fields [simp]:
  "item (cond_signal w) = item w" "item (w\<lparr>place := pl\<rparr>) = item w" "item (w\<lparr>work_q := q\<rparr>) = item w"
  "item (w\<lparr>free_list := q\<rparr>) = item w" "item (w\<lparr>delayed_q := q\<rparr>) = item w"
  "item (w\<lparr>thr_state := st\<rparr>) = item w" "item (w\<lparr>processed := ps\<rparr>) = item w"
  "item (snd (BeginStopping w)) = item w"
  by (simp_all add: item_def fun_eq_iff)

lemma taken_signal [simp]: "taken (cond_signal w) = taken w" "taken (snd (BeginStopping w)) = taken w"
  by (auto simp: taken_def cond_signal_def item_def split: worker_place.splits)

lemma contents_signal [simp]:
  "contents (cond_signal w) = contents w" "delayed_items (cond_signal w) = delayed_items w"
  "contents (snd (BeginStopping w)) = contents w" "delayed_items (snd (BeginStopping w)) = delayed_items w"
  by (simp_all add: contents_def delayed_items_def)

lemma taken_nothing: "record_read w \<Longrightarrow> taken w = []"
  by (simp add: record_read_def taken_def split: worker_place.splits)

lemma record_read_fields [simp]:
  "record_read (w\<lparr>work_q := q\<rparr>) = record_read w" "record_read (w\<lparr>delayed_q := q\<rparr>) = record_read w"
  by (simp_all add: record_read_def)

lemma obtained_contents:
  assumes "obtain_record new now p delay w = (r, w')" and "worker_ok w" and "wq_heap w new = None" and "record_read w"
  shows "item w' r = p" "map (item w') (work_q w') = map (item w) (work_q w)"
    "map (item w') (delayed_q w') = map (item w) (delayed_q w)" "processed w' = processed w" "record_read w'"
  using obtain_record_ok [OF assms(1-3)] obtain_record_facts [OF assms(1)] assms(4) by (auto simp: record_read_def)

lemma Add_contents:
  assumes "worker_ok w" and "wq_heap w new = None" and "record_read w"
  shows "contents (Add new p w) = contents w @ [p]" "delayed_items (Add new p w) = delayed_items w"
proof -
  obtain r w' where o: "obtain_record new 0 p 0 w = (r, w')" by fastforce
  note f = obtained_contents [OF o assms]
  have "contents (w'\<lparr>work_q := work_q w' @ [r]\<rparr>) = contents w @ [p]"
    "delayed_items (w'\<lparr>work_q := work_q w' @ [r]\<rparr>) = delayed_items w"
    using f taken_nothing [OF assms(3)] by (simp_all add: contents_def delayed_items_def taken_nothing)
  then show "contents (Add new p w) = contents w @ [p]" "delayed_items (Add new p w) = delayed_items w"
    by (auto simp: Add_def o Let_def)
qed

lemma AddDelayed_contents:
  assumes "worker_ok w" and "wq_heap w new = None" and "record_read w"
    and "AddDelayed new now tie p delay w = Some w'" and "0 < sint delay"
  shows "contents w' = contents w" "mset (delayed_items w') = add_mset p (mset (delayed_items w))"
proof -
  obtain r u where o: "obtain_record new now p delay w = (r, u)" by fastforce
  note f = obtained_contents [OF o assms(1-3)]
  let ?u = "u\<lparr>delayed_q := pq_push (time_at u) tie r (delayed_q u)\<rparr>"
  have "w' = ?u \<or> w' = cond_signal ?u" using assms(4,5) o by (auto simp: AddDelayed_def Let_def split: if_splits)
  moreover have "contents ?u = contents w"
    using f taken_nothing [OF assms(3)] by (simp add: contents_def taken_nothing)
  moreover have "mset (delayed_items ?u) = add_mset p (mset (delayed_items w))"
    using f pq.mset_map_push [of "item u"] by (simp add: delayed_items_def) (metis mset_map)
  ultimately show "contents w' = contents w" "mset (delayed_items w') = add_mset p (mset (delayed_items w))"
    by (metis contents_signal(1), metis contents_signal(2))
qed

lemma inner_loop_contents:
  assumes "inner_loop now w = Some w'" and "place w = Locked"
  shows "\<exists>moved. contents w' = contents w @ map (item w) moved \<and> delayed_q w = moved @ delayed_q w' \<and>
    item w' = item w \<and> (\<forall>r \<in> set moved. sint (wr_time (the (wq_heap w r)) - now) \<le> 0)"
proof -
  consider "\<not> isRunning w" | "isRunning w" "work_q w = []" "delayed_q w = []"
    | "isRunning w" "work_q w = []" "delayed_q w \<noteq> []" | r q where "isRunning w" "work_q w = r # q"
    by (cases "work_q w") auto
  then show ?thesis
  proof cases
    case 3
    obtain delayed q where m: "move_expired (\<lambda>r. wr_time (the (wq_heap w r))) now (delayed_q w) [] = (delayed, q)"
      by fastforce
    then obtain moved where d: "delayed_q w = moved @ delayed" "q = moved"
        "\<forall>r \<in> set moved. sint (wr_time (the (wq_heap w r)) - now) \<le> 0"
      using move_expired_split by fastforce
    then show ?thesis
      using 3 m assms
      by (intro exI [of _ moved]) (auto simp: inner_loop_def Let_def contents_def taken_def split: if_splits)
  qed (use assms in \<open>auto simp: inner_loop_def contents_def taken_def release_record_def split: if_splits\<close>)
qed

lemma worker_turn_contents:
  assumes "worker_turn now w = Some w'"
  shows "\<exists>moved. contents w' = contents w @ map (item w) moved \<and> delayed_q w = moved @ delayed_q w' \<and> item w' = item w"
proof (cases "place w")
  case Locked
  then show ?thesis using assms inner_loop_contents by (fastforce simp: worker_turn_def)
next
  case (Took r)
  then show ?thesis using assms
    by (auto simp: worker_turn_def process_taken_def contents_def taken_def item_def fun_eq_iff split: option.splits)
qed (use assms in \<open>auto simp: worker_turn_def contents_def taken_def split: if_splits\<close>)

lemma worker_step_contents:
  assumes "worker_step record_read e w w'" and "worker_ok w"
  shows "\<exists>moved. contents w' = contents w @ at_once e @ moved \<and>
    mset (delayed_items w) + mset (later e) = mset moved + mset (delayed_items w')"
  using assms
proof (induction rule: worker_step.induct)
  case (adds_delayed w new now tie p delay w')
  show ?case
  proof (cases "sint delay \<le> 0")
    case True
    then have "w' = Add new p w" using adds_delayed(5) by (simp add: AddDelayed_def)
    then show ?thesis using True Add_contents adds_delayed by simp
  next
    case False
    then show ?thesis using AddDelayed_contents [OF adds_delayed(6,3,2,5)] by auto
  qed
next
  case (turns now w w')
  then obtain moved where "contents w' = contents w @ map (item w) moved" "delayed_q w = moved @ delayed_q w'"
      "item w' = item w"
    using worker_turn_contents by blast
  then show ?case by (auto simp: delayed_items_def)
qed (use Add_contents in simp_all)

lemma append_in_shuffles:
  "xs \<in> shuffles a b \<Longrightarrow> c @ xs \<in> shuffles (c @ a) b" "xs \<in> shuffles a b \<Longrightarrow> c @ xs \<in> shuffles a (c @ b)"
  by (induction c) (auto simp: Cons_in_shuffles_iff)

lemma worker_run_contents:
  assumes "worker_run record_read es w w'" and "worker_ok w"
  shows "\<exists>x moved. contents w' = contents w @ x \<and> x \<in> shuffles (concat (map at_once es)) moved \<and>
    mset (delayed_items w) + mset (concat (map later es)) = mset moved + mset (delayed_items w')"
  using assms
proof (induction rule: worker_run.induct)
  case (none w)
  then show ?case by simp
next
  case (more e w w' es w'')
  obtain m where m: "contents w' = contents w @ at_once e @ m"
      "mset (delayed_items w) + mset (later e) = mset m + mset (delayed_items w')"
    using worker_step_contents more by blast
  obtain x moved where x: "contents w'' = contents w' @ x" "x \<in> shuffles (concat (map at_once es)) moved"
      "mset (delayed_items w') + mset (concat (map later es)) = mset moved + mset (delayed_items w'')"
    using more worker_step_ok by blast
  have "at_once e @ m @ x \<in> shuffles (at_once e @ concat (map at_once es)) (m @ moved)"
    using x(2) by (simp add: append_in_shuffles)
  moreover have "mset (delayed_items w) + mset (later e @ concat (map later es)) =
      mset (m @ moved) + mset (delayed_items w'')"
    using m(2) x(3) by (metis add.assoc mset_append)
  ultimately show ?case
    using m(1) x(1) by (intro exI [of _ "at_once e @ m @ x"] exI [of _ "m @ moved"]) simp
qed


section \<open>Runs by computation\<close>

text \<open>A run with given addresses of new records and given times.\<close>

fun simulate :: "(worker \<Rightarrow> bool) \<Rightarrow> (addr \<times> i64 \<times> worker_event) list \<Rightarrow> worker \<Rightarrow> worker option" where
  "simulate may_add [] w = Some w"
| "simulate may_add ((new, now, e) # es) w = do {
     w \<leftarrow> (case e of
         Adds p \<Rightarrow> if \<not> holds_mutex w \<and> may_add w \<and> wq_heap w new = None then Some (Add new p w) else None
       | AddsDelayed p delay \<Rightarrow> if \<not> holds_mutex w \<and> may_add w \<and> wq_heap w new = None \<and> clock_ok now
           then AddDelayed new now 0 p delay w else None
       | Turns \<Rightarrow> if clock_ok now then worker_turn now w else None
       | Stops \<Rightarrow> Some (snd (BeginStopping w))
       | Signals \<Rightarrow> if thr_state w \<noteq> STATE_RUNNING then Some (cond_signal w) else None);
     simulate may_add es w }"

lemma simulate_run:
  "simulate may_add es w = Some w' \<Longrightarrow> worker_run may_add (map (\<lambda>(new, now, e). e) es) w w'"
proof (induction may_add es w rule: simulate.induct)
  case (2 may_add new now e es w)
  then show ?case
    by (cases e) (auto split: if_splits Option.bind_splits intro!: worker_run.more intro: worker_step.intros)
qed (simp add: worker_run.none)

definition quiet_trip :: "(addr \<times> i64 \<times> worker_event) list" where
  "quiet_trip = [(0, 0, Turns), (10, 0, Adds 1), (11, 5, AddsDelayed 2 100), (0, 6, Turns), (0, 6, Turns), (0, 6, Turns),
     (12, 6, Adds 3), (0, 200, Turns), (0, 200, Turns)]"

definition reused_trip :: "(addr \<times> i64 \<times> worker_event) list" where
  "reused_trip = [(0, 0, Turns), (10, 0, Adds 1), (0, 0, Turns), (0, 0, Turns), (11, 0, Adds 2), (0, 0, Turns),
     (0, 0, Turns), (0, 0, Turns), (0, 0, Turns)]"

lemmas worker_defs = worker_turn_def inner_loop_def process_taken_def Add_def AddDelayed_def obtain_record_def
  release_record_def cond_signal_def BeginStopping_def holds_mutex_def isRunning_def all_allocated_def time_at_def
  new_worker_def clock_ok_def

lemma quiet_trip_runs:
  "\<exists>w. simulate record_read quiet_trip new_worker = Some w \<and> processed w = [1] \<and> taken w = [3] \<and> work_q w = [] \<and>
     delayed_q w = [11]"
  by (simp add: quiet_trip_def worker_defs record_read_def taken_def item_def)

lemma reused_trip_runs:
  "\<exists>w. simulate (\<lambda>w. True) reused_trip new_worker = Some w \<and> processed w = [2, 2] \<and> work_q w = [] \<and> delayed_q w = []"
  by (simp add: reused_trip_def worker_defs)

section \<open>The properties\<close>

text \<open>C23: Whatever the threads do, the operations of the queue use records that exist, and no record is in two
  places of the queue.\<close>

theorem worker_records_are_safe:
  assumes "worker_run may_add es new_worker w" and "clock_ok now" and "wq_heap w new = None"
  shows "distinct (work_q w @ free_list w @ delayed_q w) \<and> worker_turn now w \<noteq> None \<and>
    AddDelayed new now tie p delay w \<noteq> None"
proof -
  have ok: "worker_ok w" using worker_run_ok [OF assms(1) worker_ok_new] .
  then have "distinct (work_q w @ free_list w @ delayed_q w)" unfolding worker_ok_def by blast
  moreover have "worker_turn now w \<noteq> None" using worker_turn_ok [OF ok assms(2)] by auto
  moreover have "AddDelayed new now tie p delay w \<noteq> None" using AddDelayed_ok [OF ok assms(3,2), of tie p delay] by auto
  ultimately show ?thesis by blast
qed



text \<open>When the worker looks for work and finds the queue empty, it moves exactly the delayed records whose time has
  come, in the order of their times.\<close>

theorem delayed_work_waits:
  assumes "worker_run may_add es new_worker w" and "clock_ok now" and "place w = Locked" and "isRunning w"
    and "work_q w = []" and "inner_loop now w = Some w'"
  shows "delayed_q w = work_q w' @ delayed_q w' \<and> sorted (map (time_at w) (work_q w')) \<and>
    (\<forall>r \<in> set (work_q w'). time_at w r \<le> sint now) \<and> (\<forall>r \<in> set (delayed_q w'). sint now < time_at w r)"
proof -
  have ok: "worker_ok w" using worker_run_ok [OF assms(1) worker_ok_new] .
  have due: "sint (wr_time (the (wq_heap w r)) - now) = time_at w r - sint now" if "r \<in> set (delayed_q w)" for r
    using ok that assms(2)
    by (auto simp: worker_ok_def clock_ok_def time_at_def sint_word_ariths intro!: signed_take_bit_int_eq_self)
  obtain q delayed where m: "move_expired (\<lambda>r. wr_time (the (wq_heap w r))) now (delayed_q w) [] = (delayed, q)"
    by fastforce
  then have split: "delayed_q w = q @ delayed" "\<forall>r \<in> set q. sint (wr_time (the (wq_heap w r)) - now) \<le> 0"
      "delayed \<noteq> [] \<longrightarrow> 0 < sint (wr_time (the (wq_heap w (hd delayed))) - now)"
    using move_expired_split by fastforce+
  moreover have "work_q w' = q \<and> delayed_q w' = delayed"
    using assms(4-6) m by (cases "delayed_q w = []") (auto simp: inner_loop_def Let_def split: if_splits)
  moreover have "sorted (map (time_at w) (q @ delayed))" using ok split(1) by (simp add: worker_ok_def)
  moreover have "\<forall>r \<in> set q. time_at w r \<le> sint now" using due split(1,2) by fastforce
  moreover have "\<forall>r \<in> set delayed. sint now < time_at w r"
  proof (cases delayed)
    case (Cons r rs)
    then have "sint now < time_at w r" using due [of r] split(1,3) by auto
    then show ?thesis using Cons \<open>sorted (map (time_at w) (q @ delayed))\<close> by (auto simp: sorted_append)
  qed simp
  ultimately show ?thesis by (simp add: sorted_append)
qed

text \<open>A thread that is told to stop while it runs returns after at most five of its steps, once the wait that it may
  be in has ended.\<close>

fun turns :: "nat \<Rightarrow> i64 \<Rightarrow> worker \<Rightarrow> worker option" where
  "turns 0 now w = Some w"
| "turns (Suc n) now w = do { w \<leftarrow> worker_turn now w; turns n now w }"

theorem stopped_worker_returns:
  assumes "worker_run may_add es new_worker w" and "thr_state w = STATE_RUNNING"
  shows "\<exists>w'. turns 5 now (snd (BeginStopping w)) = Some w' \<and> thr_state w' = STATE_STOPPED \<and> work_q w' = work_q w"
proof -
  have "worker_ok w" using worker_run_ok [OF assms(1) worker_ok_new] .
  then show ?thesis
    using assms(2)
    by (cases "place w") (auto simp: eval_nat_numeral worker_turn_def BeginStopping_def isRunning_def inner_loop_def
        process_taken_def worker_ok_def split: option.splits)
qed


text \<open>The end of a wait for delayed work is no valid time when the microseconds of the clock and of the delay make more
  than a second: the wait is refused, and the worker does not wait.\<close>

theorem timed_wait_is_refused:
  assumes "0 \<le> usec"
  shows "timedwait_accepts (wait_until (sec, usec) delay_ms) \<longleftrightarrow> usec + delay_ms mod 1000 * 1000 < 10 ^ 6"
proof -
  have "0 \<le> delay_ms mod 1000 * 1000" by simp
  then have "0 \<le> (usec + delay_ms mod 1000 * 1000) * 1000" using assms by (intro mult_nonneg_nonneg add_nonneg_nonneg) simp_all
  moreover have "x * 1000 < 10 ^ 9 \<longleftrightarrow> x < 10 ^ 6" for x :: int by simp
  ultimately show ?thesis unfolding timedwait_accepts_def wait_until_def snd_conv by blast
qed


theorem worker_records_are_safe_witness:
  "\<exists>w. processed w = [2, 2] \<and> distinct (work_q w @ free_list w @ delayed_q w) \<and> worker_turn 7 w \<noteq> None \<and>
    AddDelayed 12 7 0 3 1000 w \<noteq> None"
proof -
  obtain w where w: "simulate (\<lambda>w. True) reused_trip new_worker = Some w" "processed w = [2, 2]"
    using reused_trip_runs by blast
  moreover have "wq_heap w 12 = None" using w(1) by (auto simp: reused_trip_def worker_defs)
  ultimately show ?thesis
    using worker_records_are_safe [OF simulate_run [OF w(1)], of 7 12 0 3 1000] by (auto simp: clock_ok_def)
qed

definition waiting_trip :: "(addr \<times> i64 \<times> worker_event) list" where
  "waiting_trip = [(0, 0, Turns), (10, 0, AddsDelayed 1 100), (11, 0, AddsDelayed 2 50), (0, 0, Turns)]"

theorem delayed_work_waits_witness:
  "\<exists>w w'. worker_run (\<lambda>w. True) [Turns, AddsDelayed 1 100, AddsDelayed 2 50, Turns] new_worker w \<and>
    inner_loop 70 w = Some w' \<and> work_q w' = [11] \<and> (\<forall>r \<in> set (delayed_q w'). sint (70 :: i64) < time_at w r)"
proof -
  have "\<exists>w w'. simulate (\<lambda>w. True) waiting_trip new_worker = Some w \<and> place w = Locked \<and> isRunning w \<and> work_q w = [] \<and>
      inner_loop 70 w = Some w' \<and> work_q w' = [11]"
    by (simp add: waiting_trip_def worker_defs)
  then obtain w w' where w: "simulate (\<lambda>w. True) waiting_trip new_worker = Some w" "place w = Locked" "isRunning w"
      "work_q w = []" "inner_loop 70 w = Some w'" "work_q w' = [11]"
    by blast
  have r: "worker_run (\<lambda>w. True) [Turns, AddsDelayed 1 100, AddsDelayed 2 50, Turns] new_worker w"
    using simulate_run [OF w(1)] by (simp add: waiting_trip_def)
  show ?thesis using delayed_work_waits [OF r _ w(2-5)] r w(5,6) by (auto simp: clock_ok_def)
qed

theorem stopped_worker_returns_witness:
  "\<exists>w w'. processed w = [2, 2] \<and> turns 5 0 (snd (BeginStopping w)) = Some w' \<and> thr_state w' = STATE_STOPPED"
proof -
  have "\<exists>w. simulate (\<lambda>w. True) reused_trip new_worker = Some w \<and> processed w = [2, 2] \<and> thr_state w = STATE_RUNNING \<and>
      place w = LoopHead"
    by (simp add: reused_trip_def worker_defs)
  then obtain w where w: "simulate (\<lambda>w. True) reused_trip new_worker = Some w" "processed w = [2, 2]"
      "thr_state w = STATE_RUNNING" "place w = LoopHead"
    by blast
  show ?thesis using stopped_worker_returns [OF simulate_run [OF w(1)] w(3)] w(2,4) by fastforce
qed

theorem timed_wait_is_refused_witness:
  "\<not> timedwait_accepts (wait_until (100, 900000) 500)"
  using timed_wait_is_refused [of 900000 100 500] by simp

end
