(* ===== verification/Mock_Wire.thy ===== *)
theory Mock_Wire
  imports Mock_Worker
begin

text \<open>
  The library of protocol buffers, as far as the generated classes use it. It is not part of the
  repository: it is the record \<open>wire\<close>, and the locale \<open>wire_format\<close> states what is documented of it.
  The documented format, integers in groups of seven bits, is such a library.
\<close>

section \<open>The library\<close>

text \<open>
  Fields are written by their number. To read is to take bytes from the front of the input. A string
  that cannot be read leaves the object to which it was read changed, and so do packed integers; a
  message that is part of another one is read from the bytes that its length gives.
\<close>

record wire =
  WriteUInt32 :: "nat \<Rightarrow> i32 \<Rightarrow> u8 list"
  WriteUInt64 :: "nat \<Rightarrow> i64 \<Rightarrow> u8 list"
  WriteInt32 :: "nat \<Rightarrow> i32 \<Rightarrow> u8 list"
  WriteEnum :: "nat \<Rightarrow> i32 \<Rightarrow> u8 list"
  WriteBool :: "nat \<Rightarrow> bool \<Rightarrow> u8 list"
  WriteString :: "nat \<Rightarrow> u8 list \<Rightarrow> u8 list"
  WriteMessage_wire :: "nat \<Rightarrow> nat \<Rightarrow> u8 list \<Rightarrow> u8 list"       \<comment> \<open>cached size, contents\<close>
  UInt32Size :: "i32 \<Rightarrow> nat"
  UInt64Size :: "i64 \<Rightarrow> nat"
  Int32Size :: "i32 \<Rightarrow> nat"
  EnumSize :: "i32 \<Rightarrow> nat"
  StringSize :: "u8 list \<Rightarrow> nat"
  MessageSize :: "nat \<Rightarrow> nat"                \<comment> \<open>of a message of that size\<close>
  ReadTag :: "u8 list \<Rightarrow> i32 \<times> u8 list"      \<comment> \<open>0 at the end of the input\<close>
  ReadUInt32 :: "u8 list \<Rightarrow> (i32 \<times> u8 list) option"
  ReadUInt64 :: "u8 list \<Rightarrow> (i64 \<times> u8 list) option"
  ReadInt32 :: "u8 list \<Rightarrow> (i32 \<times> u8 list) option"
  ReadEnum :: "u8 list \<Rightarrow> (i32 \<times> u8 list) option"
  ReadBool :: "u8 list \<Rightarrow> (bool \<times> u8 list) option"
  ReadString :: "u8 list \<Rightarrow> u8 list \<times> u8 list option"
  ReadPackedInt32 :: "u8 list \<Rightarrow> i32 list \<times> u8 list option"
  EnterMessage :: "u8 list \<Rightarrow> (u8 list \<times> u8 list) option"      \<comment> \<open>the message, what follows it\<close>
  SkipField :: "i32 \<Rightarrow> u8 list \<Rightarrow> (u8 list \<times> u8 list) option"   \<comment> \<open>the field as it came, the rest\<close>
  UnknownVarint :: "nat \<Rightarrow> i32 \<Rightarrow> u8 list"   \<comment> \<open>how an unknown field of that value is kept\<close>

definition GetTagFieldNumber :: "i32 \<Rightarrow> nat" where "GetTagFieldNumber tag = unat tag div 8"
definition GetTagWireType :: "i32 \<Rightarrow> nat" where "GetTagWireType tag = unat tag mod 8"
definition WIRETYPE_VARINT :: nat where "WIRETYPE_VARINT = 0"
definition WIRETYPE_LENGTH_DELIMITED :: nat where "WIRETYPE_LENGTH_DELIMITED = 2"
definition WIRETYPE_END_GROUP :: nat where "WIRETYPE_END_GROUP = 4"

section \<open>The laws\<close>

definition varint_tag :: "nat \<Rightarrow> i32" where "varint_tag field = of_nat (8 * field)"
definition length_tag :: "nat \<Rightarrow> i32" where "length_tag field = of_nat (8 * field + 2)"

text \<open>The numbers of fields in use make tags of one byte; lengths are less than \<open>2 ^ 31\<close>.\<close>

definition small_field :: "nat \<Rightarrow> bool" where "small_field field \<longleftrightarrow> 0 < field \<and> field < 16"

definition short :: "'a list \<Rightarrow> bool" where "short xs \<longleftrightarrow> length xs < 2 ^ 31"

locale wire_format =
  fixes L :: wire
  assumes tag_end: "ReadTag L [] = (0, [])"
    and tag_uint32: "small_field field \<Longrightarrow> \<exists>bs. ReadTag L (WriteUInt32 L field x @ r) = (varint_tag field, bs) \<and>
      ReadUInt32 L bs = Some (x, r)"
    and tag_uint64: "small_field field \<Longrightarrow> \<exists>bs. ReadTag L (WriteUInt64 L field y @ r) = (varint_tag field, bs) \<and>
      ReadUInt64 L bs = Some (y, r)"
    and tag_int32: "small_field field \<Longrightarrow> \<exists>bs. ReadTag L (WriteInt32 L field x @ r) = (varint_tag field, bs) \<and>
      ReadInt32 L bs = Some (x, r)"
    and tag_enum: "small_field field \<Longrightarrow> \<exists>bs. ReadTag L (WriteEnum L field x @ r) = (varint_tag field, bs) \<and>
      ReadEnum L bs = Some (x, r)"
    and tag_bool: "small_field field \<Longrightarrow> \<exists>bs. ReadTag L (WriteBool L field b @ r) = (varint_tag field, bs) \<and>
      ReadBool L bs = Some (b, r)"
    and tag_string: "small_field field \<Longrightarrow> short s \<Longrightarrow>
      \<exists>bs. ReadTag L (WriteString L field s @ r) = (length_tag field, bs) \<and> ReadString L bs = (s, Some r)"
    and tag_message: "small_field field \<Longrightarrow> short s \<Longrightarrow>
      \<exists>bs. ReadTag L (WriteMessage_wire L field (length s) s @ r) = (length_tag field, bs) \<and> EnterMessage L bs = Some (s, r)"
    and size_uint32: "small_field field \<Longrightarrow> length (WriteUInt32 L field x) = 1 + UInt32Size L x"
    and size_uint64: "small_field field \<Longrightarrow> length (WriteUInt64 L field y) = 1 + UInt64Size L y"
    and size_int32: "small_field field \<Longrightarrow> length (WriteInt32 L field x) = 1 + Int32Size L x"
    and size_enum: "small_field field \<Longrightarrow> length (WriteEnum L field x) = 1 + EnumSize L x"
    and size_bool: "small_field field \<Longrightarrow> length (WriteBool L field b) = 1 + 1"
    and size_string: "small_field field \<Longrightarrow> length (WriteString L field s) = 1 + StringSize L s"
    and size_message: "small_field field \<Longrightarrow> length (WriteMessage_wire L field (length s) s) = 1 + MessageSize L (length s)"
    and small: "UInt32Size L x \<le> 5" "UInt64Size L y \<le> 10"
    and tag_shorter: "fst (ReadTag L bs) \<noteq> 0 \<Longrightarrow> length (snd (ReadTag L bs)) < length bs"
    and number_shorter: "ReadUInt32 L bs = Some (x, r) \<Longrightarrow> length r \<le> length bs"
      "ReadUInt64 L bs = Some (y, r) \<Longrightarrow> length r \<le> length bs" "ReadInt32 L bs = Some (x, r) \<Longrightarrow> length r \<le> length bs"
      "ReadEnum L bs = Some (x, r) \<Longrightarrow> length r \<le> length bs" "ReadBool L bs = Some (b, r) \<Longrightarrow> length r \<le> length bs"
    and string_shorter: "ReadString L bs = (s, Some r) \<Longrightarrow> length r \<le> length bs"
      "ReadPackedInt32 L bs = (xs, Some r) \<Longrightarrow> length r \<le> length bs" "EnterMessage L bs = Some (s, r) \<Longrightarrow> length r \<le> length bs"
      "SkipField L tag bs = Some (s, r) \<Longrightarrow> length r \<le> length bs"

lemma small_fields [simp]:
  "small_field 1" "small_field (Suc 0)" "small_field 2" "small_field 3" "small_field 4" "small_field 5" "small_field 6" "small_field 7"
  "small_field 8" "small_field 9" "small_field 10" "small_field 11" "small_field 12" "small_field 13"
  by (simp_all add: small_field_def)

lemma tag_parts:
  assumes "small_field field"
  shows "GetTagFieldNumber (varint_tag field) = field" "GetTagWireType (varint_tag field) = WIRETYPE_VARINT"
    "GetTagFieldNumber (length_tag field) = field" "GetTagWireType (length_tag field) = WIRETYPE_LENGTH_DELIMITED"
    "varint_tag field \<noteq> 0" "length_tag field \<noteq> 0"
proof -
  have v: "unat (varint_tag field) = 8 * field" and l: "unat (length_tag field) = 8 * field + 2"
    unfolding varint_tag_def length_tag_def unat_of_nat using assms by (simp_all add: small_field_def)
  have "Suc (Suc (8 * field)) mod 8 = 2" by presburger
  with v l show "GetTagFieldNumber (varint_tag field) = field" "GetTagWireType (varint_tag field) = WIRETYPE_VARINT"
    "GetTagFieldNumber (length_tag field) = field" "GetTagWireType (length_tag field) = WIRETYPE_LENGTH_DELIMITED"
    by (simp_all add: GetTagFieldNumber_def GetTagWireType_def WIRETYPE_VARINT_def WIRETYPE_LENGTH_DELIMITED_def)
  have "unat (varint_tag field) \<noteq> 0" "unat (length_tag field) \<noteq> 0" using assms v l by (simp_all add: small_field_def)
  then show "varint_tag field \<noteq> 0" "length_tag field \<noteq> 0" by auto
qed

section \<open>The documented format\<close>

fun varint :: "nat \<Rightarrow> u8 list" where
  "varint n = (if n < 128 then [of_nat n] else of_nat (n mod 128 + 128) # varint (n div 128))"

declare varint.simps [simp del]

fun read_varint :: "u8 list \<Rightarrow> (nat \<times> u8 list) option" where
  "read_varint [] = None"
| "read_varint (b # bs) =
     (if unat b < 128 then Some (unat b, bs)
      else case read_varint bs of None \<Rightarrow> None | Some (n, r) \<Rightarrow> Some (unat b - 128 + 128 * n, r))"

lemma read_varint_varint: "read_varint (varint n @ r) = Some (n, r)"
proof (induction n rule: varint.induct)
  case (1 n)
  show ?case
  proof (cases "n < 128")
    case True
    then show ?thesis by (simp add: varint.simps unat_of_nat)
  next
    case False
    have "unat (of_nat (n mod 128 + 128) :: u8) = n mod 128 + 128" by (simp add: unat_of_nat del: of_nat_add)
    then show ?thesis using 1 False by (simp add: varint.simps [of n] del: of_nat_add)
  qed
qed

lemma read_varint_shorter: "read_varint bs = Some (n, r) \<Longrightarrow> length r < length bs"
  by (induction bs arbitrary: n) (auto split: if_splits option.splits)

lemma length_varint: "n < 128 ^ Suc k \<Longrightarrow> length (varint n) \<le> Suc k"
proof (induction k arbitrary: n)
  case 0
  then show ?case by (simp add: varint.simps)
next
  case (Suc k)
  then have "n div 128 < 128 ^ Suc k" by (simp add: less_mult_imp_div_less mult.commute)
  then show ?case using Suc.IH by (subst varint.simps) auto
qed

lemma varint_byte: "n < 128 \<Longrightarrow> length (varint n) = Suc 0"
  by (simp add: varint.simps)

text \<open>Signed numbers are written as 64 bits; strings and messages come after their length.\<close>

definition signed_varint :: "i32 \<Rightarrow> u8 list" where
  "signed_varint x = varint (unat (scast x :: i64))"

definition read_number :: "u8 list \<Rightarrow> ('n :: len word \<times> u8 list) option" where
  "read_number bs = map_option (\<lambda>(n, r). (of_nat n, r)) (read_varint bs)"

definition read_delimited :: "u8 list \<Rightarrow> (u8 list \<times> u8 list) option" where
  "read_delimited bs = (case read_varint bs of
       Some (n, r) \<Rightarrow> if n < 2 ^ 31 \<and> n \<le> length r then Some (take n r, drop n r) else None
     | None \<Rightarrow> None)"

fun read_packed :: "nat \<Rightarrow> u8 list \<Rightarrow> i32 list option" where
  "read_packed fuel bs =
     (if bs = [] then Some []
      else case fuel of 0 \<Rightarrow> None
      | Suc k \<Rightarrow> (case read_number bs of None \<Rightarrow> None | Some (x, r) \<Rightarrow> map_option ((#) x) (read_packed k r)))"

definition skip_field :: "i32 \<Rightarrow> u8 list \<Rightarrow> (u8 list \<times> u8 list) option" where
  "skip_field tag bs =
     (let key = varint (unat tag)
      in if unat tag mod 8 = 0 then map_option (\<lambda>(n, r). (key @ varint n, r)) (read_varint bs)
         else if unat tag mod 8 = 1 \<and> 8 \<le> length bs then Some (key @ take 8 bs, drop 8 bs)
         else if unat tag mod 8 = 2 then map_option (\<lambda>(s, r). (key @ varint (length s) @ s, r)) (read_delimited bs)
         else if unat tag mod 8 = 5 \<and> 4 \<le> length bs then Some (key @ take 4 bs, drop 4 bs)
         else None)"

definition varint_wire :: wire where
  "varint_wire = \<lparr>
     WriteUInt32 = (\<lambda>field x. varint (8 * field) @ varint (unat x)),
     WriteUInt64 = (\<lambda>field x. varint (8 * field) @ varint (unat x)),
     WriteInt32 = (\<lambda>field x. varint (8 * field) @ signed_varint x),
     WriteEnum = (\<lambda>field x. varint (8 * field) @ signed_varint x),
     WriteBool = (\<lambda>field b. varint (8 * field) @ varint (if b then 1 else 0)),
     WriteString = (\<lambda>field s. varint (8 * field + 2) @ varint (length s) @ s),
     WriteMessage_wire = (\<lambda>field n s. varint (8 * field + 2) @ varint n @ s),
     UInt32Size = (\<lambda>x. length (varint (unat x))), UInt64Size = (\<lambda>x. length (varint (unat x))),
     Int32Size = (\<lambda>x. length (signed_varint x)), EnumSize = (\<lambda>x. length (signed_varint x)),
     StringSize = (\<lambda>s. length (varint (length s)) + length s), MessageSize = (\<lambda>n. length (varint n) + n),
     ReadTag = (\<lambda>bs. case read_varint bs of None \<Rightarrow> (0, []) | Some (n, r) \<Rightarrow> (of_nat n, r)),
     ReadUInt32 = read_number, ReadUInt64 = read_number, ReadInt32 = read_number, ReadEnum = read_number,
     ReadBool = (\<lambda>bs. map_option (\<lambda>(n, r). (n \<noteq> 0, r)) (read_varint bs)),
     ReadString = (\<lambda>bs. case read_delimited bs of None \<Rightarrow> ([], None) | Some (s, r) \<Rightarrow> (s, Some r)),
     ReadPackedInt32 = (\<lambda>bs. case read_delimited bs of None \<Rightarrow> ([], None)
       | Some (s, r) \<Rightarrow> (case read_packed (length s) s of None \<Rightarrow> ([], None) | Some xs \<Rightarrow> (xs, Some r))),
     EnterMessage = read_delimited, SkipField = skip_field,
     UnknownVarint = (\<lambda>field x. varint (8 * field) @ signed_varint x)\<rparr>"

lemma read_number_varint: "read_number (varint (unat (x :: 'n :: len word)) @ r) = Some (x, r)"
  by (simp add: read_number_def read_varint_varint)

lemma read_number_signed: "read_number (signed_varint x @ r) = Some (x, r)"
proof -
  have "(of_nat (unat (scast x :: i64)) :: i32) = x" by (rule bit_word_eqI) (simp add: bit_simps)
  then show ?thesis by (simp add: read_number_def signed_varint_def read_varint_varint)
qed

lemma read_delimited_length: "short s \<Longrightarrow> read_delimited (varint (length s) @ s @ r) = Some (s, r)"
  by (simp add: read_delimited_def read_varint_varint short_def)

lemma read_number_shorter: "read_number bs = Some (x, r) \<Longrightarrow> length r \<le> length bs"
  using read_varint_shorter by (fastforce simp: read_number_def)

lemma read_delimited_shorter: "read_delimited bs = Some (s, r) \<Longrightarrow> length r \<le> length bs"
  using read_varint_shorter by (fastforce simp: read_delimited_def split: option.splits if_splits)

lemma skip_field_shorter: "skip_field tag bs = Some (s, r) \<Longrightarrow> length r \<le> length bs"
  using read_varint_shorter read_delimited_shorter by (fastforce simp: skip_field_def Let_def split: if_splits)

lemma varint_small: "n < 128 \<Longrightarrow> varint n = [of_nat n]"
  by (simp add: varint.simps)

lemma varint_wire_sizes:
  "Int32Size varint_wire x = length (signed_varint x)" "EnumSize varint_wire x = length (signed_varint x)"
  "StringSize varint_wire s = length (varint (length s)) + length s" "MessageSize varint_wire n = length (varint n) + n"
  by (simp_all add: varint_wire_def)

interpretation varint_wire: wire_format varint_wire
proof
  fix x :: i32 and y :: i64
  have "unat x < 2 ^ 32" "unat y < 2 ^ 64" using unsigned_less [of x] unsigned_less [of y] by simp_all
  then have "unat x < 128 ^ Suc 4" "unat y < 128 ^ Suc 9" by simp_all
  then show "UInt32Size varint_wire x \<le> 5" "UInt64Size varint_wire y \<le> 10"
    using length_varint [of "unat x" 4] length_varint [of "unat y" 9] by (simp_all add: varint_wire_def)
next
  fix bs :: "u8 list"
  show "fst (ReadTag varint_wire bs) \<noteq> 0 \<Longrightarrow> length (snd (ReadTag varint_wire bs)) < length bs"
    using read_varint_shorter by (auto simp: varint_wire_def split: option.splits)
next
  fix bs s r :: "u8 list" and xs tag
  show "ReadString varint_wire bs = (s, Some r) \<Longrightarrow> length r \<le> length bs"
    "ReadPackedInt32 varint_wire bs = (xs, Some r) \<Longrightarrow> length r \<le> length bs"
    "EnterMessage varint_wire bs = Some (s, r) \<Longrightarrow> length r \<le> length bs"
    using read_delimited_shorter by (auto simp: varint_wire_def split: option.splits)
  show "SkipField varint_wire tag bs = Some (s, r) \<Longrightarrow> length r \<le> length bs"
    by (simp add: varint_wire_def skip_field_shorter)
next
  fix bs r :: "u8 list" and b
  show "ReadBool varint_wire bs = Some (b, r) \<Longrightarrow> length r \<le> length bs"
    using read_varint_shorter [of bs] by (auto simp: varint_wire_def intro: less_imp_le)
qed (simp_all add: varint_wire_def read_varint_varint varint_tag_def length_tag_def read_number_varint read_number_signed
    read_delimited_length read_number_shorter varint_byte small_field_def)

end
