(* ===== verification/Mock_Header.thy ===== *)
theory Mock_Header
  imports Mock_Wire
begin

text \<open>
  The header of a control message, \<open>msgheader.pb.cpp\<close>: code that the protocol buffer compiler made of
  \<open>msgheader.proto\<close>, over the library of \<open>Mock_Wire\<close>.
\<close>

section \<open>The header\<close>

text \<open>A field that has been set, or not; the accessors return zero for one that has not.\<close>

record MsgHeader =
  hd_cmd :: "i32 option"
  hd_length_data :: "i32 option"
  hd_status :: "i32 option"
  hd_token :: "i64 option"
  hd_unknown :: "u8 list"

definition Clear :: MsgHeader where
  "Clear = \<lparr>hd_cmd = None, hd_length_data = None, hd_status = None, hd_token = None, hd_unknown = []\<rparr>"

definition cmd :: "MsgHeader \<Rightarrow> i32" where "cmd h = (case hd_cmd h of None \<Rightarrow> 0 | Some x \<Rightarrow> x)"
definition length_data :: "MsgHeader \<Rightarrow> i32" where
  "length_data h = (case hd_length_data h of None \<Rightarrow> 0 | Some x \<Rightarrow> x)"
definition token :: "MsgHeader \<Rightarrow> i64" where "token h = (case hd_token h of None \<Rightarrow> 0 | Some x \<Rightarrow> x)"

definition set_cmd :: "i32 \<Rightarrow> MsgHeader \<Rightarrow> MsgHeader" where "set_cmd x h = h\<lparr>hd_cmd := Some x\<rparr>"
definition set_length_data :: "i32 \<Rightarrow> MsgHeader \<Rightarrow> MsgHeader" where "set_length_data x h = h\<lparr>hd_length_data := Some x\<rparr>"
definition set_status :: "i32 \<Rightarrow> MsgHeader \<Rightarrow> MsgHeader" where "set_status x h = h\<lparr>hd_status := Some x\<rparr>"
definition set_token :: "i64 \<Rightarrow> MsgHeader \<Rightarrow> MsgHeader" where "set_token x h = h\<lparr>hd_token := Some x\<rparr>"

section \<open>Writing\<close>

definition written :: "('a \<Rightarrow> 'b list) \<Rightarrow> 'a option \<Rightarrow> 'b list" where
  "written f x = (case x of None \<Rightarrow> [] | Some v \<Rightarrow> f v)"

definition SerializeWithCachedSizes :: "wire \<Rightarrow> MsgHeader \<Rightarrow> u8 list" where
  "SerializeWithCachedSizes L h =
     written (WriteUInt32 L 1) (hd_cmd h) @ written (WriteUInt32 L 2) (hd_length_data h) @
     written (WriteUInt32 L 3) (hd_status h) @ written (WriteUInt64 L 4) (hd_token h) @ hd_unknown h"

definition field_size :: "('a \<Rightarrow> nat) \<Rightarrow> 'a option \<Rightarrow> nat" where
  "field_size f x = (case x of None \<Rightarrow> 0 | Some v \<Rightarrow> 1 + f v)"

definition ByteSize :: "wire \<Rightarrow> MsgHeader \<Rightarrow> nat" where
  "ByteSize L h =
     field_size (UInt32Size L) (hd_cmd h) + field_size (UInt32Size L) (hd_length_data h) +
     field_size (UInt32Size L) (hd_status h) + field_size (UInt64Size L) (hd_token h) + length (hd_unknown h)"

section \<open>Reading\<close>

text \<open>
  A run over the fields of the input. What was read before a field that is cut off stays in the header.
  The tests \<open>ExpectTag\<close> and \<open>ExpectAtEnd\<close> are short cuts of the next \<open>ReadTag\<close>.
\<close>

partial_function (option) MergePartialFromCodedStream ::
    "wire \<Rightarrow> u8 list \<Rightarrow> MsgHeader \<Rightarrow> (bool \<times> MsgHeader) option" where
  "MergePartialFromCodedStream L input h =
     (let (tag, input) = ReadTag L input; field = GetTagFieldNumber tag; varint = GetTagWireType tag = WIRETYPE_VARINT
      in if tag = 0 then Some (True, h)
         else if field = 1 \<and> varint then
           (case ReadUInt32 L input of None \<Rightarrow> Some (False, h)
            | Some (x, input) \<Rightarrow> MergePartialFromCodedStream L input (set_cmd x h))
         else if field = 2 \<and> varint then
           (case ReadUInt32 L input of None \<Rightarrow> Some (False, h)
            | Some (x, input) \<Rightarrow> MergePartialFromCodedStream L input (set_length_data x h))
         else if field = 3 \<and> varint then
           (case ReadUInt32 L input of None \<Rightarrow> Some (False, h)
            | Some (x, input) \<Rightarrow> MergePartialFromCodedStream L input (set_status x h))
         else if field = 4 \<and> varint then
           (case ReadUInt64 L input of None \<Rightarrow> Some (False, h)
            | Some (x, input) \<Rightarrow> MergePartialFromCodedStream L input (set_token x h))
         else if GetTagWireType tag = WIRETYPE_END_GROUP then Some (True, h)
         else
           (case SkipField L tag input of None \<Rightarrow> Some (False, h)
            | Some (raw, input) \<Rightarrow>
                MergePartialFromCodedStream L input (h\<lparr>hd_unknown := hd_unknown h @ raw\<rparr>)))"

text \<open>\<open>ParseFromArray\<close>, whose result the control server does not look at.\<close>

definition ParseFromArray :: "wire \<Rightarrow> u8 list \<Rightarrow> MsgHeader option" where
  "ParseFromArray L input = map_option snd (MergePartialFromCodedStream L input Clear)"

section \<open>What is written is read again\<close>

context wire_format
begin

lemma ByteSize_serialize: "length (SerializeWithCachedSizes L h) = ByteSize L h"
  by (cases "hd_cmd h"; cases "hd_length_data h"; cases "hd_status h"; cases "hd_token h")
    (simp_all add: SerializeWithCachedSizes_def ByteSize_def written_def field_size_def size_uint32 size_uint64)

lemma ByteSize_small: "ByteSize L h \<le> 29 + length (hd_unknown h)"
  using small(1) [of "the (hd_cmd h)"] small(1) [of "the (hd_length_data h)"] small(1) [of "the (hd_status h)"]
    small(2) [of "the (hd_token h)"]
  by (cases "hd_cmd h"; cases "hd_length_data h"; cases "hd_status h"; cases "hd_token h")
    (simp_all add: ByteSize_def field_size_def)

lemmas merge = MergePartialFromCodedStream.simps [of L]

lemma merge_end: "MergePartialFromCodedStream L [] h = Some (True, h)"
  by (subst merge) (simp add: tag_end)

lemma merge_cmd:
  "MergePartialFromCodedStream L (WriteUInt32 L 1 x @ r) h = MergePartialFromCodedStream L r (set_cmd x h)"
proof -
  obtain bs where "ReadTag L (WriteUInt32 L 1 x @ r) = (varint_tag 1, bs)" "ReadUInt32 L bs = Some (x, r)"
    using tag_uint32 [of 1 x r] by auto
  then show ?thesis by (subst merge) (simp add: tag_parts)
qed

lemma merge_length_data:
  "MergePartialFromCodedStream L (WriteUInt32 L 2 x @ r) h = MergePartialFromCodedStream L r (set_length_data x h)"
proof -
  obtain bs where "ReadTag L (WriteUInt32 L 2 x @ r) = (varint_tag 2, bs)" "ReadUInt32 L bs = Some (x, r)"
    using tag_uint32 [of 2 x r] by auto
  then show ?thesis by (subst merge) (simp add: tag_parts)
qed

lemma merge_status:
  "MergePartialFromCodedStream L (WriteUInt32 L 3 x @ r) h = MergePartialFromCodedStream L r (set_status x h)"
proof -
  obtain bs where "ReadTag L (WriteUInt32 L 3 x @ r) = (varint_tag 3, bs)" "ReadUInt32 L bs = Some (x, r)"
    using tag_uint32 [of 3 x r] by auto
  then show ?thesis by (subst merge) (simp add: tag_parts)
qed

lemma merge_token:
  "MergePartialFromCodedStream L (WriteUInt64 L 4 y @ r) h = MergePartialFromCodedStream L r (set_token y h)"
proof -
  obtain bs where "ReadTag L (WriteUInt64 L 4 y @ r) = (varint_tag 4, bs)" "ReadUInt64 L bs = Some (y, r)"
    using tag_uint64 [of 4 y r] by auto
  then show ?thesis by (subst merge) (simp add: tag_parts)
qed

text \<open>A header that is written is read again.\<close>

lemma parse_serialize:
  assumes "hd_unknown h = []" shows "ParseFromArray L (SerializeWithCachedSizes L h) = Some h"
proof -
  have 1: "MergePartialFromCodedStream L (written (WriteUInt32 L 1) x @ r) g =
      MergePartialFromCodedStream L r (case x of None \<Rightarrow> g | Some x \<Rightarrow> set_cmd x g)"
    "MergePartialFromCodedStream L (written (WriteUInt32 L 2) x @ r) g =
      MergePartialFromCodedStream L r (case x of None \<Rightarrow> g | Some x \<Rightarrow> set_length_data x g)"
    "MergePartialFromCodedStream L (written (WriteUInt32 L 3) x @ r) g =
      MergePartialFromCodedStream L r (case x of None \<Rightarrow> g | Some x \<Rightarrow> set_status x g)" for x r g
    unfolding written_def using merge_cmd merge_length_data merge_status by (simp_all split: option.split)
  have 2: "MergePartialFromCodedStream L (written (WriteUInt64 L 4) x @ r) g =
      MergePartialFromCodedStream L r (case x of None \<Rightarrow> g | Some x \<Rightarrow> set_token x g)" for x r g
    by (simp add: written_def merge_token split: option.split)
  have "MergePartialFromCodedStream L (SerializeWithCachedSizes L h) Clear = Some (True, h)"
    unfolding SerializeWithCachedSizes_def 1 2 assms merge_end
    by (cases h) (use assms in \<open>auto simp: Clear_def set_cmd_def set_length_data_def set_status_def set_token_def
      split: option.split\<close>)
  then show ?thesis by (simp add: ParseFromArray_def)
qed

end

end
