(* ===== verification/Mock_Ctrl.thy ===== *)
theory Mock_Ctrl
  imports Mock_Header
begin

text \<open>
  \<open>ctrl_server.cpp\<close>: a thread that serves one client after another. A message is the length of its
  header, least significant byte first, the header, and as many bytes of data as the header says. An
  echo is answered by the server, any other command by the JavaScript code.

  A client is the bytes that it will send; it closes the connection after them. Sockets and the
  JavaScript code are the record \<open>ctrl_world\<close>.
\<close>

section \<open>The world and the state\<close>

text \<open>\<open>recv\<close> gets some of the bytes that are there, none when the client has closed, or fails.\<close>

datatype received = Received nat | RecvFails

text \<open>
  The arguments of \<open>SendCtrlRequestComplete\<close>: too few, or a status, a command, a token, and maybe a
  buffer.
\<close>

datatype js_call = TooFewArguments | CtrlRequestComplete i32 i32 i64 "u8 list option"

text \<open>
  The function \<open>onCtrlServerCmd\<close> gets a command, a token and maybe a buffer; it throws an exception or
  not, and before that it has completed some commands. How it rounds a token is its own affair.
\<close>

record ctrl_world =
  cw_abi :: abi
  cw_wire :: wire
  cw_recv :: "nat \<Rightarrow> received"
  cw_send :: "nat \<Rightarrow> int"
  cw_accept :: "nat \<Rightarrow> int"
  cw_js :: "nat \<Rightarrow> i32 \<Rightarrow> i64 \<Rightarrow> u8 list option \<Rightarrow> bool \<times> js_call list"
  cw_stop :: "nat \<Rightarrow> bool"               \<comment> \<open>whether \<open>Stop\<close> is called in this wait\<close>
  cw_ready :: "nat \<Rightarrow> bool"              \<comment> \<open>whether this wait ends with something to read\<close>

record ctrl =
  server_state :: thread_state
  done_flag :: bool
  server_to_client :: int                 \<comment> \<open>a descriptor, or \<open>-1\<close>\<close>
  from_client :: "u8 list"
  to_client :: "u8 list"
  waiting_clients :: "u8 list list"
  ctrl_tick :: nat

definition ctrl_isRunning :: "ctrl \<Rightarrow> bool" where
  "ctrl_isRunning s \<longleftrightarrow> done_flag s \<or> server_state s = STATE_RUNNING"

definition ctrl_stop :: "ctrl \<Rightarrow> ctrl" where
  "ctrl_stop s = (if server_state s = STATE_RUNNING then s\<lparr>server_state := STATE_STOPPING, done_flag := True\<rparr> else s)"

definition ask :: "(nat \<Rightarrow> 'a) \<Rightarrow> ctrl \<Rightarrow> 'a \<times> ctrl" where
  "ask f s = (f (ctrl_tick s), s\<lparr>ctrl_tick := Suc (ctrl_tick s)\<rparr>)"

definition WaitOnSocketOrStopping :: "ctrl_world \<Rightarrow> ctrl \<Rightarrow> bool \<times> ctrl" where
  "WaitOnSocketOrStopping W s =
     (let (stopped, _) = ask (cw_stop W) s;
          (readable, s) = ask (cw_ready W) s
      in (readable, if stopped then ctrl_stop s else s))"

section \<open>Bytes\<close>

text \<open>The number of bytes that \<open>recv\<close> returns, where \<open>n\<close> are asked for.\<close>

definition recv_count :: "received \<Rightarrow> nat \<Rightarrow> ctrl \<Rightarrow> nat" where
  "recv_count r n s = (case r of RecvFails \<Rightarrow> 0 | Received k \<Rightarrow> min (max 1 k) (min n (length (from_client s))))"

function ReadAll :: "ctrl_world \<Rightarrow> nat \<Rightarrow> u8 list \<Rightarrow> ctrl \<Rightarrow> int \<times> u8 list \<times> ctrl" where
  "ReadAll W n got s =
     (if n = 0 then (STATUS_OK, got, s)
      else
        (let (r, s) = ask (cw_recv W) s; k = recv_count r n s
         in if r = RecvFails then (STATUS_ERR, got, s)
            else if k = 0 then (STATUS_CLIENT_CLOSED_CONNECTION, got, s)
            else ReadAll W (n - k) (got @ take k (from_client s)) (s\<lparr>from_client := drop k (from_client s)\<rparr>)))"
  by pat_completeness auto
termination
  by (relation "measure (\<lambda>(W, n, got, s). n)") (auto simp: Let_def split: prod.splits)

declare ReadAll.simps [simp del]

function WriteAll :: "ctrl_world \<Rightarrow> u8 list \<Rightarrow> ctrl \<Rightarrow> int \<times> ctrl" where
  "WriteAll W data s =
     (if data = [] then (STATUS_OK, s)
      else
        (let (r, s) = ask (cw_send W) s; k = min (nat r) (length data)
         in if r < 0 then (STATUS_ERR, s)
            else if r = 0 then (STATUS_CLIENT_CLOSED_CONNECTION, s)
            else WriteAll W (drop k data) (s\<lparr>to_client := to_client s @ take k data\<rparr>)))"
  by pat_completeness auto
termination
  by (relation "measure (\<lambda>(W, data, s). length data)") (auto simp: Let_def split: prod.splits)

declare WriteAll.simps [simp del]

section \<open>Messages\<close>

text \<open>\<open>None\<close> where the stack or a buffer cannot be as large as the length that was read.\<close>

definition ReadMessage :: "ctrl_world \<Rightarrow> ctrl \<Rightarrow> (int \<times> MsgHeader \<times> u8 list option \<times> ctrl) option" where
  "ReadMessage W s =
     (let (status, raw, s) = ReadAll W 4 [] s;
          len = from_be32 (rev raw)
      in if status \<noteq> STATUS_OK then Some (status, Clear, None, s)
         else do {
           alloca (cw_abi W) (to_size (cw_abi W) (sint len));
           let (status, raw, s) = ReadAll W (to_size (cw_abi W) (sint len)) [] s;
           if status \<noteq> STATUS_OK then Some (status, Clear, None, s)
           else do {
             mh \<leftarrow> ParseFromArray (cw_wire W) raw;
             if length_data mh = 0 then Some (STATUS_OK, mh, None, s)
             else if sint (length_data mh) < 0 then None
             else (let (status, buffer, s) = ReadAll W (unat (length_data mh)) [] s
                   in Some (status, mh, Some buffer, s)) } })"

text \<open>The header is changed: its length of data is set.\<close>

definition WriteMessage :: "ctrl_world \<Rightarrow> MsgHeader \<Rightarrow> u8 list option \<Rightarrow> ctrl \<Rightarrow> (int \<times> ctrl) option" where
  "WriteMessage W mh buffer s =
     (let mh = set_length_data (case buffer of None \<Rightarrow> 0 | Some b \<Rightarrow> of_nat (length b)) mh;
          n = ByteSize (cw_wire W) mh
      in do {
        alloca (cw_abi W) n;
        let raw = SerializeWithCachedSizes (cw_wire W) mh;
        let (status, s) = WriteAll W (le32 (of_nat n)) s;
        if status \<noteq> STATUS_OK then Some (status, s)
        else (let (status, s) = WriteAll W raw s
              in if status \<noteq> STATUS_OK then Some (status, s)
                 else if length_data mh = 0 then Some (STATUS_OK, s)
                 else (case buffer of None \<Rightarrow> None | Some b \<Rightarrow> Some (WriteAll W b s))) })"

section \<open>Commands\<close>

definition CTRL_CMD_ECHO :: i32 where "CTRL_CMD_ECHO = 0"
definition CTRL_STATUS_ERR :: i32 where "CTRL_STATUS_ERR = 1"

fun SendCtrlRequestComplete :: "ctrl_world \<Rightarrow> js_call \<Rightarrow> ctrl \<Rightarrow> ctrl option" where
  "SendCtrlRequestComplete W TooFewArguments s = Some s"
| "SendCtrlRequestComplete W (CtrlRequestComplete status reqNum tok buffer) s =
     map_option snd (WriteMessage W (set_token tok (set_cmd reqNum (set_status status Clear))) buffer s)"

definition sendToCtrlServer :: "ctrl_world \<Rightarrow> MsgHeader \<Rightarrow> u8 list option \<Rightarrow> ctrl \<Rightarrow> (int \<times> ctrl) option" where
  "sendToCtrlServer W mh buffer s =
     (let (js, s) = ask (cw_js W) s;
          (caught, calls) = js (cmd mh) (token mh) (if length_data mh = 0 then None else buffer)
      in do {
        s \<leftarrow> foldM (SendCtrlRequestComplete W) calls s;
        if caught then
          map_option (\<lambda>(_, s). (STATUS_ERR, s)) (WriteMessage W (set_status CTRL_STATUS_ERR (set_length_data 0 mh)) None s)
        else Some (STATUS_OK, s) })"

section \<open>The thread\<close>

partial_function (option) client_loop :: "ctrl_world \<Rightarrow> ctrl \<Rightarrow> ctrl option" where
  "client_loop W s =
     (if server_to_client s > 0 \<and> ctrl_isRunning s then
        (let (_, s) = WaitOnSocketOrStopping W s
         in if \<not> ctrl_isRunning s then Some s
            else do {
              (status, mh, buffer, s) \<leftarrow> ReadMessage W s;
              if status \<noteq> STATUS_OK then Some s
              else do {
                (status, s) \<leftarrow> (if cmd mh = CTRL_CMD_ECHO then WriteMessage W mh buffer s
                               else sendToCtrlServer W mh buffer s);
                if status \<noteq> STATUS_OK then Some s else client_loop W s } })
      else Some s)"

text \<open>One round of the outer loop, where the listening socket may have a client.\<close>

definition accept_client :: "ctrl_world \<Rightarrow> ctrl \<Rightarrow> ctrl" where
  "accept_client W s =
     (let (fd, s) = ask (cw_accept W) s
      in case waiting_clients s of
           [] \<Rightarrow> s\<lparr>server_to_client := -1\<rparr>
         | c # cs \<Rightarrow> s\<lparr>server_to_client := fd, from_client := c, to_client := [], waiting_clients := cs\<rparr>)"

definition server_turn :: "ctrl_world \<Rightarrow> ctrl \<Rightarrow> ctrl option" where
  "server_turn W s =
     (let (readable, s) = WaitOnSocketOrStopping W s
      in if \<not> ctrl_isRunning s then Some s
         else if readable then
           map_option (\<lambda>s. s\<lparr>server_to_client := -1\<rparr>) (client_loop W (accept_client W s))
         else Some s)"

text \<open>\<open>while (isRunning ())\<close>: the loop goes on, or it ends and the thread is stopped.\<close>

inductive server_runs :: "ctrl_world \<Rightarrow> ctrl \<Rightarrow> ctrl \<Rightarrow> bool" for W where
  started: "server_runs W s s"
| turn: "server_runs W s u \<Longrightarrow> ctrl_isRunning u \<Longrightarrow> server_turn W u = Some v \<Longrightarrow> server_runs W s v"
| ended: "server_runs W s u \<Longrightarrow> \<not> ctrl_isRunning u \<Longrightarrow> server_runs W s (u\<lparr>server_state := STATE_STOPPED\<rparr>)"

end
