(* ===== verification/Mock_Ctrl_Correct.thy ===== *)
theory Mock_Ctrl_Correct
  imports Mock_Ctrl
begin

text \<open>
  The control server: what is written as a message is read as that message, in whatever pieces it is
  sent and received; an echo gives back what came; a command that throws is answered with an error;
  and \<open>Stop\<close> does not stop the server.
\<close>

section \<open>Bytes\<close>

definition recv_ok :: "ctrl_world \<Rightarrow> bool" where "recv_ok W \<longleftrightarrow> (\<forall>n. cw_recv W n \<noteq> RecvFails)"
definition send_ok :: "ctrl_world \<Rightarrow> bool" where "send_ok W \<longleftrightarrow> (\<forall>n. 0 < cw_send W n)"

text \<open>Two states that differ in what was read, what was written and in the number of calls.\<close>

definition moved_to :: "u8 list \<Rightarrow> u8 list \<Rightarrow> ctrl \<Rightarrow> ctrl \<Rightarrow> bool" where
  "moved_to input output s s' \<longleftrightarrow> (\<exists>t. s' = s\<lparr>from_client := input, to_client := output, ctrl_tick := t\<rparr>)"

lemma moved_to_refl [simp]: "moved_to (from_client s) (to_client s) s s"
  unfolding moved_to_def by (intro exI [of _ "ctrl_tick s"]) simp

lemma moved_to_trans: "moved_to i p s u \<Longrightarrow> moved_to i' p' u v \<Longrightarrow> moved_to i' p' s v"
  by (auto simp: moved_to_def)

lemma moved_to_fields:
  assumes "moved_to i p s s'"
  shows "from_client s' = i" "to_client s' = p" "server_state s' = server_state s" "done_flag s' = done_flag s"
    "server_to_client s' = server_to_client s" "waiting_clients s' = waiting_clients s"
  using assms by (auto simp: moved_to_def)

lemma ReadAll_reads:
  assumes "recv_ok W"
  shows "n \<le> length (from_client s) \<Longrightarrow> \<exists>s'. ReadAll W n got s = (STATUS_OK, got @ take n (from_client s), s') \<and>
    moved_to (drop n (from_client s)) (to_client s) s s'"
proof (induction n arbitrary: got s rule: less_induct)
  case (less n)
  show ?case
  proof (cases "n = 0")
    case True
    then show ?thesis by (subst ReadAll.simps) simp
  next
    case False
    obtain k where r: "cw_recv W (ctrl_tick s) = Received k" using assms received.exhaust by (auto simp: recv_ok_def)
    define m where "m = recv_count (Received k) n s"
    let ?s = "s\<lparr>ctrl_tick := Suc (ctrl_tick s), from_client := drop m (from_client s)\<rparr>"
    have m: "m \<noteq> 0" "m \<le> n" using False less.prems by (auto simp: m_def recv_count_def)
    have "recv_count (Received k) n (s\<lparr>ctrl_tick := Suc (ctrl_tick s)\<rparr>) = m" by (simp add: m_def recv_count_def)
    then have step: "ReadAll W n got s = ReadAll W (n - m) (got @ take m (from_client s)) ?s"
      using False m(1) by (subst ReadAll.simps) (simp add: ask_def r Let_def)
    have "n - m < n" using m by simp
    moreover have "n - m \<le> length (from_client ?s)" using less.prems m by simp
    ultimately obtain s' where s': "ReadAll W (n - m) (got @ take m (from_client s)) ?s =
        (STATUS_OK, (got @ take m (from_client s)) @ take (n - m) (from_client ?s), s')"
        "moved_to (drop (n - m) (from_client ?s)) (to_client ?s) ?s s'"
      using less.IH by blast
    have "take m (from_client s) @ take (n - m) (from_client ?s) = take n (from_client s)"
      "drop (n - m) (from_client ?s) = drop n (from_client s)"
      using m take_add [of m "n - m" "from_client s"] by simp_all
    then show ?thesis using s' step by (auto simp: moved_to_def)
  qed
qed

lemma WriteAll_writes:
  assumes "send_ok W"
  shows "\<exists>s'. WriteAll W data s = (STATUS_OK, s') \<and> moved_to (from_client s) (to_client s @ data) s s'"
proof (induction data arbitrary: s rule: length_induct)
  case (1 data)
  show ?case
  proof (cases "data = []")
    case True
    then show ?thesis by (subst WriteAll.simps) simp
  next
    case False
    let ?r = "cw_send W (ctrl_tick s)"
    let ?k = "min (nat ?r) (length data)"
    let ?s = "s\<lparr>ctrl_tick := Suc (ctrl_tick s), to_client := to_client s @ take ?k data\<rparr>"
    have r: "0 < ?r" using assms by (simp add: send_ok_def)
    then have "WriteAll W data s = WriteAll W (drop ?k data) ?s"
      using False by (subst WriteAll.simps) (simp add: ask_def Let_def)
    moreover have "length (drop ?k data) < length data" using False r by (cases data) auto
    then obtain s' where "WriteAll W (drop ?k data) ?s = (STATUS_OK, s')"
        "moved_to (from_client ?s) (to_client ?s @ drop ?k data) ?s s'"
      using 1 by blast
    ultimately show ?thesis by (auto simp: moved_to_def)
  qed
qed

section \<open>Messages\<close>

text \<open>A message as bytes.\<close>

definition message_ok :: "ctrl_world \<Rightarrow> MsgHeader \<Rightarrow> u8 list \<Rightarrow> bool" where
  "message_ok W mh data \<longleftrightarrow> hd_unknown mh = [] \<and> length_data mh = of_nat (length data) \<and> length data < 2 ^ 31 \<and>
     hd_length_data mh \<noteq> None"

definition frame :: "ctrl_world \<Rightarrow> MsgHeader \<Rightarrow> u8 list \<Rightarrow> u8 list" where
  "frame W mh data = le32 (of_nat (ByteSize (cw_wire W) mh)) @ SerializeWithCachedSizes (cw_wire W) mh @ data"

definition buffer_of :: "u8 list \<Rightarrow> u8 list option" where "buffer_of data = (if data = [] then None else Some data)"

definition small_ints :: "ctrl_world \<Rightarrow> bool" where
  "small_ints W \<longleftrightarrow> 29 \<le> stack_avail (cw_abi W) \<and> 29 < (2 :: nat) ^ (8 * ptr_size (cw_abi W))"

lemma WriteMessage_writes:
  assumes "send_ok W" and "wire_format (cw_wire W)" and "small_ints W" and "hd_unknown mh = []" and "length data < 2 ^ 32"
    and "b = Some data \<or> b = None \<and> data = []"
  shows "\<exists>s'. WriteMessage W mh b s = Some (STATUS_OK, s') \<and>
    moved_to (from_client s) (to_client s @ frame W (set_length_data (of_nat (length data)) mh) data) s s'"
proof -
  let ?mh = "set_length_data (of_nat (length data)) mh"
  let ?raw = "SerializeWithCachedSizes (cw_wire W) ?mh"
  let ?n = "of_nat (ByteSize (cw_wire W) ?mh) :: i32"
  have "ByteSize (cw_wire W) ?mh \<le> 29"
    using wire_format.ByteSize_small [OF assms(2), of ?mh] assms(4) by (simp add: set_length_data_def)
  then have a: "alloca (cw_abi W) (ByteSize (cw_wire W) ?mh) = Some ()" using assms(3) by (simp add: alloca_def small_ints_def)
  obtain u where u: "WriteAll W (le32 ?n) s = (STATUS_OK, u)" "moved_to (from_client s) (to_client s @ le32 ?n) s u"
    using WriteAll_writes [OF assms(1)] by blast
  obtain v where v: "WriteAll W ?raw u = (STATUS_OK, v)" "moved_to (from_client u) (to_client u @ ?raw) u v"
    using WriteAll_writes [OF assms(1)] by blast
  obtain w where w: "WriteAll W data v = (STATUS_OK, w)" "moved_to (from_client v) (to_client v @ data) v w"
    using WriteAll_writes [OF assms(1)] by blast
  have "length_data ?mh = 0 \<longleftrightarrow> data = []"
    using assms(5) by (simp add: length_data_def set_length_data_def word_of_nat_eq_0_iff) (auto dest: dvd_imp_le)
  moreover have "(case b of None \<Rightarrow> 0 | Some b \<Rightarrow> of_nat (length b)) = (of_nat (length data) :: i32)"
    using assms(6) by auto
  moreover have "moved_to (from_client s) (to_client s @ frame W ?mh data) s w"
    using u(2) v(2) w(2) by (auto simp: moved_to_def frame_def)
  moreover have "data = [] \<Longrightarrow> w = v" using w(1) by (simp add: WriteAll.simps)
  ultimately show ?thesis using a u(1) v(1) w assms(6) by (auto simp: WriteMessage_def Let_def)
qed

lemma ReadMessage_reads:
  assumes "recv_ok W" and "wire_format (cw_wire W)" and "small_ints W" and "message_ok W mh data"
    and "from_client s = frame W mh data @ rest"
  shows "\<exists>s'. ReadMessage W s = Some (STATUS_OK, mh, buffer_of data, s') \<and> moved_to rest (to_client s) s s'"
proof -
  let ?raw = "SerializeWithCachedSizes (cw_wire W) mh"
  let ?n = "ByteSize (cw_wire W) mh"
  have n: "?n \<le> 29" "length ?raw = ?n"
    using wire_format.ByteSize_small [OF assms(2), of mh] wire_format.ByteSize_serialize [OF assms(2)] assms(4)
    by (simp_all add: message_ok_def)
  have "unat (of_nat ?n :: i32) = ?n" using n(1) by (simp add: unat_of_nat)
  moreover have "sint (of_nat ?n :: i32) = int ?n" using n(1) by (simp add: sint_small)
  ultimately have size: "to_size (cw_abi W) (sint (of_nat ?n :: i32)) = ?n"
    using n(1) assms(3) by (subst to_size_small) (auto simp: small_ints_def)
  then have a: "alloca (cw_abi W) (to_size (cw_abi W) (sint (of_nat ?n :: i32))) = Some ()"
    using n(1) assms(3) by (simp add: alloca_def small_ints_def)
  obtain u where u: "ReadAll W 4 [] s = (STATUS_OK, le32 (of_nat ?n), u)" "moved_to (?raw @ data @ rest) (to_client s) s u"
    using ReadAll_reads [OF assms(1), of 4 s "[]"] assms(5) by (auto simp: frame_def)
  obtain v where v: "ReadAll W ?n [] u = (STATUS_OK, ?raw, v)" "moved_to (data @ rest) (to_client s) s v"
    using ReadAll_reads [OF assms(1), of ?n u "[]"] moved_to_fields [OF u(2)] moved_to_trans [OF u(2)] n(2) by auto
  obtain w where w: "ReadAll W (length data) [] v = (STATUS_OK, data, w)" "moved_to rest (to_client s) s w"
    using ReadAll_reads [OF assms(1), of "length data" v "[]"] moved_to_fields [OF v(2)] moved_to_trans [OF v(2)] by auto
  have p: "ParseFromArray (cw_wire W) ?raw = Some mh"
    using wire_format.parse_serialize [OF assms(2)] assms(4) by (simp add: message_ok_def)
  have l: "unat (length_data mh) = length data" "sint (length_data mh) = int (length data)"
    using assms(4) by (simp_all add: message_ok_def unat_of_nat sint_small)
  show ?thesis
  proof (cases "data = []")
    case True
    then show ?thesis using u(1) v a p size l by (auto simp: ReadMessage_def buffer_of_def unat_eq_0)
  next
    case False
    then have "length_data mh \<noteq> 0" using l(1) by auto
    then show ?thesis using False u(1) v(1) w a p size l by (simp add: ReadMessage_def buffer_of_def)
  qed
qed


section \<open>The states of the server\<close>

text \<open>What no function but the wait changes.\<close>

definition same_server :: "ctrl \<Rightarrow> ctrl \<Rightarrow> bool" where
  "same_server s s' \<longleftrightarrow> server_state s' = server_state s \<and> done_flag s' = done_flag s"

lemma same_server_refl [simp]: "same_server s s" by (simp add: same_server_def)

lemma same_server_trans: "same_server s u \<Longrightarrow> same_server u v \<Longrightarrow> same_server s v"
  by (simp add: same_server_def)

lemma ReadAll_same: "ReadAll W n got s = (st, bs, s') \<Longrightarrow> same_server s s'"
proof (induction W n got s rule: ReadAll.induct)
  case (1 W n got s)
  from 1(2) show ?case
    by (subst (asm) ReadAll.simps)
      (use 1(1) in \<open>auto simp: ask_def Let_def same_server_def split: if_splits received.splits\<close>)
qed

lemma WriteAll_same: "WriteAll W data s = (st, s') \<Longrightarrow> same_server s s'"
proof (induction W data s rule: WriteAll.induct)
  case (1 W data s)
  from 1(2) show ?case
    by (subst (asm) WriteAll.simps) (use 1(1) in \<open>auto simp: ask_def Let_def same_server_def split: if_splits\<close>)
qed

lemma ReadMessage_same: "ReadMessage W s = Some (st, mh, b, s') \<Longrightarrow> same_server s s'"
  by (auto simp: ReadMessage_def Let_def split: prod.splits if_splits Option.bind_splits
      dest!: ReadAll_same intro: same_server_trans)

lemma WriteMessage_same: "WriteMessage W mh b s = Some (st, s') \<Longrightarrow> same_server s s'"
  by (auto simp: WriteMessage_def Let_def split: prod.splits if_splits Option.bind_splits option.splits
      dest!: WriteAll_same intro: same_server_trans)

lemma SendCtrlRequestComplete_same: "SendCtrlRequestComplete W c s = Some s' \<Longrightarrow> same_server s s'"
  by (cases c) (auto dest: WriteMessage_same)

lemma sendToCtrlServer_same:
  assumes "sendToCtrlServer W mh b s = Some (st, s')" shows "same_server s s'"
proof -
  obtain caught calls where js: "cw_js W (ctrl_tick s) (cmd mh) (token mh) (if length_data mh = 0 then None else b) =
      (caught, calls)" by fastforce
  let ?s = "s\<lparr>ctrl_tick := Suc (ctrl_tick s)\<rparr>"
  obtain u where u: "foldM (SendCtrlRequestComplete W) calls ?s = Some u"
    using assms js by (auto simp: sendToCtrlServer_def ask_def split: Option.bind_splits)
  have "same_server ?s u"
    by (rule foldM_invariant [OF u, where I = "same_server ?s"])
      (auto dest: SendCtrlRequestComplete_same intro: same_server_trans)
  then have "same_server s u" by (simp add: same_server_def)
  then show ?thesis
    using assms js u by (auto simp: sendToCtrlServer_def ask_def split: if_splits dest!: WriteMessage_same intro: same_server_trans)
qed

text \<open>A server that runs, or was told to stop and has not stopped.\<close>

definition goes_on :: "ctrl \<Rightarrow> bool" where
  "goes_on s \<longleftrightarrow> server_state s = STATE_RUNNING \<or> server_state s = STATE_STOPPING \<and> done_flag s"

lemma goes_on_runs: "goes_on s \<Longrightarrow> ctrl_isRunning s"
  by (auto simp: goes_on_def ctrl_isRunning_def)

definition later_server :: "ctrl \<Rightarrow> ctrl \<Rightarrow> bool" where
  "later_server s s' \<longleftrightarrow> (goes_on s \<longrightarrow> goes_on s' \<and> (server_state s = STATE_STOPPING \<longrightarrow> server_state s' = STATE_STOPPING))"

lemma later_server_refl [simp]: "later_server s s" by (simp add: later_server_def)

lemma later_server_trans: "later_server s u \<Longrightarrow> later_server u v \<Longrightarrow> later_server s v"
  by (auto simp: later_server_def)

lemma later_server_same: "same_server s u \<Longrightarrow> later_server s u"
  by (auto simp: later_server_def same_server_def goes_on_def)

lemma Wait_later: "WaitOnSocketOrStopping W s = (r, s') \<Longrightarrow> later_server s s'"
  by (auto simp: WaitOnSocketOrStopping_def ask_def Let_def ctrl_stop_def later_server_def goes_on_def split: if_splits)

lemma Wait_fields:
  assumes "WaitOnSocketOrStopping W s = (r, s')"
  shows "from_client s' = from_client s" "to_client s' = to_client s" "server_to_client s' = server_to_client s"
  using assms by (auto simp: WaitOnSocketOrStopping_def ask_def Let_def ctrl_stop_def split: if_splits)

lemma client_loop_later:
  assumes "client_loop W s = Some s'" shows "later_server s s'"
  using assms
proof (induction rule: client_loop.raw_induct [rotated, where P = "\<lambda>W s s'. later_server s s'", consumes 1, case_names step])
  case (step loop W s s')
  obtain r u where w: "WaitOnSocketOrStopping W s = (r, u)" by fastforce
  note later = Wait_later [OF w]
  show ?case
  proof (cases "server_to_client s > 0 \<and> ctrl_isRunning s \<and> ctrl_isRunning u")
    case True
    then obtain st mh b v where m: "ReadMessage W u = Some (st, mh, b, v)"
      using step(2) w by (auto split: Option.bind_splits)
    then have v: "later_server s v" using later later_server_same [OF ReadMessage_same] later_server_trans by blast
    show ?thesis
    proof (cases "st = STATUS_OK")
      case True2: True
      then obtain st' x where x: "(if cmd mh = CTRL_CMD_ECHO then WriteMessage W mh b v else sendToCtrlServer W mh b v) =
          Some (st', x)" "s' = x \<or> loop W x = Some s'"
        using step(2) w True m by (auto split: Option.bind_splits if_splits)
      then have "same_server v x" using WriteMessage_same sendToCtrlServer_same by (auto split: if_splits)
      then have "later_server s x" using v later_server_same later_server_trans by blast
      then show ?thesis using x(2) step(1) later_server_trans by blast
    next
      case False
      then show ?thesis using step(2) w True m v by auto
    qed
  next
    case False
    then show ?thesis using step(2) w later by (auto split: if_splits)
  qed
qed


lemma server_turn_later:
  assumes "server_turn W s = Some s'" shows "later_server s s'"
proof -
  obtain r u where w: "WaitOnSocketOrStopping W s = (r, u)" by fastforce
  note later = Wait_later [OF w]
  show ?thesis
  proof (cases "ctrl_isRunning u \<and> r")
    case True
    then obtain v where v: "client_loop W (accept_client W u) = Some v" "s' = v\<lparr>server_to_client := -1\<rparr>"
      using assms w by (auto simp: server_turn_def)
    have "same_server u (accept_client W u)" "same_server v s'"
      using v(2) by (auto simp: accept_client_def ask_def Let_def same_server_def split: list.splits)
    then show ?thesis
      using later client_loop_later [OF v(1)] later_server_same later_server_trans by blast
  next
    case False
    then show ?thesis using assms w later by (auto simp: server_turn_def split: if_splits)
  qed
qed

lemma server_runs_later: "server_runs W s s' \<Longrightarrow> goes_on s \<Longrightarrow> later_server s s' \<and> goes_on s'"
proof (induction rule: server_runs.induct)
  case (turn s u v)
  then have "later_server s v" using server_turn_later later_server_trans by blast
  then show ?case using turn.prems by (simp add: later_server_def)
next
  case (ended s u)
  then show ?case using goes_on_runs by blast
qed simp

section \<open>Sessions\<close>

lemma ReadMessage_closed:
  assumes "recv_ok W" and "from_client s = []"
  shows "\<exists>s'. ReadMessage W s = Some (STATUS_CLIENT_CLOSED_CONNECTION, Clear, None, s') \<and> moved_to [] (to_client s) s s'"
proof -
  obtain k where "cw_recv W (ctrl_tick s) = Received k" using assms(1) received.exhaust by (auto simp: recv_ok_def)
  then have "ReadAll W 4 [] s = (STATUS_CLIENT_CLOSED_CONNECTION, [], s\<lparr>ctrl_tick := Suc (ctrl_tick s)\<rparr>)"
    using assms(2) by (subst ReadAll.simps) (simp add: ask_def recv_count_def)
  moreover have "moved_to [] (to_client s) s (s\<lparr>ctrl_tick := Suc (ctrl_tick s)\<rparr>)"
    unfolding moved_to_def assms(2) [symmetric] by (intro exI [of _ "Suc (ctrl_tick s)"]) simp
  ultimately show ?thesis by (auto simp: ReadMessage_def STATUS_CLIENT_CLOSED_CONNECTION_def STATUS_OK_def)
qed

text \<open>A client is connected and the server goes on.\<close>

definition serving :: "ctrl \<Rightarrow> bool" where "serving s \<longleftrightarrow> 0 < server_to_client s \<and> goes_on s"

lemma serving_moved: "moved_to i p s s' \<Longrightarrow> serving s \<Longrightarrow> serving s'"
  by (auto simp: serving_def goes_on_def dest: moved_to_fields)

text \<open>What the loop does after a wait.\<close>

definition serve :: "ctrl_world \<Rightarrow> ctrl \<Rightarrow> ctrl option" where
  "serve W u = do {
     (status, mh, buffer, v) \<leftarrow> ReadMessage W u;
     if status \<noteq> STATUS_OK then Some v
     else do {
       (status, v) \<leftarrow> (if cmd mh = CTRL_CMD_ECHO then WriteMessage W mh buffer v else sendToCtrlServer W mh buffer v);
       if status \<noteq> STATUS_OK then Some v else client_loop W v } }"

lemma client_loop_serves:
  assumes "serving s"
  shows "\<exists>u. serving u \<and> from_client u = from_client s \<and> to_client u = to_client s \<and> client_loop W s = serve W u"
proof -
  obtain r u where w: "WaitOnSocketOrStopping W s = (r, u)" by fastforce
  have "goes_on u" using Wait_later [OF w] assms by (simp add: later_server_def serving_def)
  then have u: "serving u" using assms Wait_fields(3) [OF w] by (simp add: serving_def)
  have "ctrl_isRunning s" "ctrl_isRunning u" "server_to_client s > 0"
    using \<open>goes_on u\<close> assms goes_on_runs by (auto simp: serving_def)
  then have "client_loop W s = serve W u" using w by (simp add: client_loop.simps [of W s] serve_def)
  then show ?thesis using u Wait_fields [OF w] by blast
qed

lemma echo_header: "message_ok W mh data \<Longrightarrow> set_length_data (of_nat (length data)) mh = mh"
  by (cases mh) (auto simp: message_ok_def set_length_data_def length_data_def)

lemma serve_closed:
  assumes "recv_ok W" and "from_client u = []"
  shows "\<exists>v. serve W u = Some v \<and> to_client v = to_client u"
  using ReadMessage_closed [OF assms] by (auto simp: serve_def STATUS_CLIENT_CLOSED_CONNECTION_def STATUS_OK_def
      dest: moved_to_fields)

lemma serve_echo:
  assumes "recv_ok W" and "send_ok W" and "wire_format (cw_wire W)" and "small_ints W" and "message_ok W mh data"
    and "cmd mh = CTRL_CMD_ECHO" and "from_client u = frame W mh data @ rest" and "serving u"
  shows "\<exists>x. serve W u = client_loop W x \<and> serving x \<and> from_client x = rest \<and> to_client x = to_client u @ frame W mh data"
proof -
  obtain v where v: "ReadMessage W u = Some (STATUS_OK, mh, buffer_of data, v)" "moved_to rest (to_client u) u v"
    using ReadMessage_reads [OF assms(1,3-5,7)] by blast
  have b: "buffer_of data = Some data \<or> buffer_of data = None \<and> data = []" by (simp add: buffer_of_def)
  obtain x where x: "WriteMessage W mh (buffer_of data) v = Some (STATUS_OK, x)"
      "moved_to (from_client v) (to_client v @ frame W mh data) v x"
    using WriteMessage_writes [OF assms(2-4) _ _ b, of mh v] assms(5) echo_header [OF assms(5)]
    by (auto simp: message_ok_def)
  have "serve W u = client_loop W x" using v(1) x(1) assms(6) by (simp add: serve_def)
  moreover have "serving x" using serving_moved v(2) x(2) assms(8) by blast
  ultimately show ?thesis using moved_to_fields [OF v(2)] moved_to_fields [OF x(2)] by auto
qed

lemma session_echoes:
  assumes "recv_ok W" and "send_ok W" and "wire_format (cw_wire W)" and "small_ints W"
  shows "serving s \<Longrightarrow> \<forall>(mh, data) \<in> set ms. message_ok W mh data \<and> cmd mh = CTRL_CMD_ECHO \<Longrightarrow>
    from_client s = concat (map (\<lambda>(mh, data). frame W mh data) ms) \<Longrightarrow>
    \<exists>s'. client_loop W s = Some s' \<and> to_client s' = to_client s @ from_client s"
proof (induction ms arbitrary: s)
  case Nil
  then show ?case using client_loop_serves [OF Nil(1), of W] serve_closed [OF assms(1)] by fastforce
next
  case (Cons m ms)
  obtain mh data where m: "m = (mh, data)" by fastforce
  let ?rest = "concat (map (\<lambda>(mh, data). frame W mh data) ms)"
  obtain u where u: "serving u" "from_client u = frame W mh data @ ?rest" "to_client u = to_client s"
      "client_loop W s = serve W u"
    using client_loop_serves [OF Cons.prems(1), of W] Cons.prems(3) m by auto
  obtain x where x: "serve W u = client_loop W x" "serving x" "from_client x = ?rest"
      "to_client x = to_client u @ frame W mh data"
    using serve_echo [OF assms _ _ u(2,1)] Cons.prems(2) m by auto
  then obtain s' where "client_loop W x = Some s'" "to_client s' = to_client x @ from_client x"
    using Cons.IH [of x] Cons.prems(2) by auto
  then show ?case using x u Cons.prems(3) m by auto
qed

section \<open>The properties\<close>

text \<open>A client that sends echo commands gets back what it sent, byte for byte, in whatever pieces the bytes come and
  go; the session ends when the client closes the connection.\<close>

theorem echo_gives_back:
  assumes "recv_ok W" and "send_ok W" and "wire_format (cw_wire W)" and "small_ints W" and "serving s"
    and "\<forall>(mh, data) \<in> set ms. message_ok W mh data \<and> cmd mh = CTRL_CMD_ECHO"
    and "from_client s = concat (map (\<lambda>(mh, data). frame W mh data) ms)"
  shows "\<exists>s'. client_loop W s = Some s' \<and> to_client s' = to_client s @ from_client s"
  by (rule session_echoes [OF assms])

text \<open>C24: What \<open>WriteMessage\<close> sends on one side \<open>ReadMessage\<close> reads on the other: the same header and the same data.\<close>

theorem message_round_trip:
  assumes "recv_ok W" and "send_ok W" and "wire_format (cw_wire W)" and "small_ints W" and "hd_unknown mh = []"
    and "length data < 2 ^ 31" and "to_client s = []"
  shows "\<exists>s'. WriteMessage W mh (Some data) s = Some (STATUS_OK, s') \<and>
    (\<forall>r. from_client r = to_client s' \<longrightarrow> (\<exists>r'. ReadMessage W r =
       Some (STATUS_OK, set_length_data (of_nat (length data)) mh, buffer_of data, r') \<and> from_client r' = []))"
proof -
  let ?mh = "set_length_data (of_nat (length data)) mh"
  obtain s' where s': "WriteMessage W mh (Some data) s = Some (STATUS_OK, s')"
      "moved_to (from_client s) (to_client s @ frame W ?mh data) s s'"
    using WriteMessage_writes [OF assms(2-5), of data "Some data" s] assms(6) by auto
  have "message_ok W ?mh data" using assms(5,6) by (simp add: message_ok_def set_length_data_def length_data_def)
  moreover have "to_client s' = frame W ?mh data @ []" using moved_to_fields [OF s'(2)] assms(7) by simp
  ultimately show ?thesis
    using s'(1) ReadMessage_reads [OF assms(1,3,4), of ?mh data _ "[]"] by (metis moved_to_fields(1))
qed

text \<open>A command whose JavaScript code throws is answered with an error that has its command and token, and the session
  ends.\<close>

theorem thrown_command_is_answered:
  assumes "recv_ok W" and "send_ok W" and "wire_format (cw_wire W)" and "small_ints W" and "serving s"
    and "message_ok W mh data" and "cmd mh \<noteq> CTRL_CMD_ECHO" and "from_client s = frame W mh data @ rest"
    and "\<forall>n. cw_js W n (cmd mh) (token mh) (buffer_of data) = (True, [])"
  shows "\<exists>s'. client_loop W s = Some s' \<and> from_client s' = rest \<and>
    to_client s' = to_client s @ frame W (set_status CTRL_STATUS_ERR (set_length_data 0 mh)) []"
proof -
  let ?mh = "set_status CTRL_STATUS_ERR (set_length_data 0 mh)"
  obtain u where u: "serving u" "from_client u = frame W mh data @ rest" "to_client u = to_client s"
      "client_loop W s = serve W u"
    using client_loop_serves [OF assms(5), of W] assms(8) by auto
  obtain v where v: "ReadMessage W u = Some (STATUS_OK, mh, buffer_of data, v)" "moved_to rest (to_client u) u v"
    using ReadMessage_reads [OF assms(1,3,4,6) u(2)] by blast
  let ?v = "v\<lparr>ctrl_tick := Suc (ctrl_tick v)\<rparr>"
  have "set_length_data (of_nat (length [])) ?mh = ?mh" by (simp add: set_length_data_def set_status_def)
  moreover have "hd_unknown ?mh = []" using assms(6) by (simp add: set_length_data_def set_status_def message_ok_def)
  ultimately obtain x where x: "WriteMessage W ?mh None ?v = Some (STATUS_OK, x)"
      "moved_to (from_client ?v) (to_client ?v @ frame W ?mh []) ?v x"
    using WriteMessage_writes [OF assms(2-4), of ?mh "[]" None ?v] by auto
  have "length_data mh = 0 \<longleftrightarrow> data = []"
    using assms(6) by (auto simp: message_ok_def word_of_nat_eq_0_iff dest: dvd_imp_le)
  then have "(if length_data mh = 0 then None else buffer_of data) = buffer_of data" by (simp add: buffer_of_def)
  then have "sendToCtrlServer W mh (buffer_of data) v = Some (STATUS_ERR, x)"
    using assms(9) x(1) by (simp add: sendToCtrlServer_def ask_def)
  then have "serve W u = Some x" using v(1) assms(7) by (simp add: serve_def STATUS_ERR_def STATUS_OK_def)
  then show ?thesis using u(3,4) moved_to_fields [OF v(2)] moved_to_fields [OF x(2)] by auto
qed

text \<open>The length of a header is not checked: a negative one, or one that is larger than the stack, ends the process.\<close>

theorem header_length_is_fatal:
  assumes "recv_ok W" and "from_client s = le32 n @ rest"
    and "stack_avail (cw_abi W) < to_size (cw_abi W) (sint n)"
  shows "ReadMessage W s = None"
proof -
  obtain u where "ReadAll W 4 [] s = (STATUS_OK, le32 n, u)"
    using ReadAll_reads [OF assms(1), of 4 s "[]"] assms(2) by auto
  then show ?thesis using assms(3) by (simp add: ReadMessage_def alloca_def)
qed


section \<open>A concrete world\<close>

text \<open>Bytes come three and go two at a time; the command 7 throws.\<close>

definition demo_server_world :: ctrl_world where
  "demo_server_world = \<lparr>cw_abi = abi32, cw_wire = varint_wire, cw_recv = (\<lambda>n. Received 3), cw_send = (\<lambda>n. 2),
     cw_accept = (\<lambda>n. 5), cw_js = (\<lambda>n c t b. (c = 7, [])), cw_stop = (\<lambda>n. False), cw_ready = (\<lambda>n. True)\<rparr>"

definition demo_server :: "u8 list \<Rightarrow> ctrl" where
  "demo_server bs = \<lparr>server_state = STATE_RUNNING, done_flag = False, server_to_client = 5, from_client = bs,
     to_client = [], waiting_clients = [], ctrl_tick = 0\<rparr>"

lemma demo_server_ok:
  "recv_ok demo_server_world" "send_ok demo_server_world" "wire_format (cw_wire demo_server_world)"
  "small_ints demo_server_world" "serving (demo_server bs)"
  using varint_wire.wire_format_axioms
  by (simp_all add: recv_ok_def send_ok_def small_ints_def serving_def goes_on_def demo_server_world_def
      demo_server_def abi32_def)

definition demo_header :: "i32 \<Rightarrow> u8 list \<Rightarrow> MsgHeader" where
  "demo_header c data = \<lparr>hd_cmd = Some c, hd_length_data = Some (of_nat (length data)), hd_status = None,
     hd_token = Some 12345, hd_unknown = []\<rparr>"

lemma demo_header_ok: "length data < 2 ^ 31 \<Longrightarrow> message_ok demo_server_world (demo_header c data) data"
  by (simp add: message_ok_def demo_header_def length_data_def)

theorem echo_gives_back_witness:
  "\<exists>s'. client_loop demo_server_world (demo_server (frame demo_server_world (demo_header 0 [1, 2, 3]) [1, 2, 3])) = Some s' \<and>
    to_client s' = frame demo_server_world (demo_header 0 [1, 2, 3]) [1, 2, 3]"
proof -
  let ?f = "frame demo_server_world (demo_header 0 [1, 2, 3]) [1, 2, 3]"
  have "\<forall>(mh, data) \<in> set [(demo_header 0 [1, 2, 3], [1, 2, 3])]. message_ok demo_server_world mh data \<and> cmd mh = CTRL_CMD_ECHO"
    using demo_header_ok [of "[1, 2, 3]" 0] by (simp add: cmd_def demo_header_def CTRL_CMD_ECHO_def)
  then show ?thesis
    using echo_gives_back [OF demo_server_ok, of "[(demo_header 0 [1, 2, 3], [1, 2, 3])]" ?f] by (simp add: demo_server_def)
qed

theorem message_round_trip_witness:
  "\<exists>s'. WriteMessage demo_server_world (demo_header 7 []) (Some [9, 8]) (demo_server []) = Some (STATUS_OK, s') \<and>
    (\<exists>r'. ReadMessage demo_server_world (demo_server (to_client s')) =
       Some (STATUS_OK, set_length_data 2 (demo_header 7 []), Some [9, 8], r'))"
proof -
  obtain s' where s': "WriteMessage demo_server_world (demo_header 7 []) (Some [9, 8]) (demo_server []) = Some (STATUS_OK, s')"
      "\<forall>r. from_client r = to_client s' \<longrightarrow> (\<exists>r'. ReadMessage demo_server_world r =
       Some (STATUS_OK, set_length_data (of_nat (length [9, 8 :: u8])) (demo_header 7 []), buffer_of [9, 8], r') \<and> from_client r' = [])"
    using message_round_trip [OF demo_server_ok(1-4), of "demo_header 7 []" "[9, 8]" "demo_server []"]
    by (auto simp: demo_header_def demo_server_def)
  have "from_client (demo_server (to_client s')) = to_client s'" by (simp add: demo_server_def)
  then show ?thesis using s' by (auto simp: buffer_of_def)
qed

theorem thrown_command_is_answered_witness:
  "\<exists>s'. client_loop demo_server_world (demo_server (frame demo_server_world (demo_header 7 [1]) [1])) = Some s' \<and>
    to_client s' = frame demo_server_world (set_status 1 (demo_header 7 [])) []"
proof -
  have "\<forall>n. cw_js demo_server_world n (cmd (demo_header 7 [1])) (token (demo_header 7 [1])) (buffer_of [1]) = (True, [])"
    by (simp add: demo_server_world_def demo_header_def cmd_def)
  moreover have "set_status CTRL_STATUS_ERR (set_length_data 0 (demo_header 7 [1])) = set_status 1 (demo_header 7 [])"
    by (simp add: set_status_def set_length_data_def demo_header_def CTRL_STATUS_ERR_def)
  moreover have "cmd (demo_header 7 [1]) \<noteq> CTRL_CMD_ECHO" by (simp add: cmd_def demo_header_def CTRL_CMD_ECHO_def)
  ultimately show ?thesis
    using thrown_command_is_answered [OF demo_server_ok demo_header_ok [of "[1]" 7],
        of "frame demo_server_world (demo_header 7 [1]) [1]" "[]"]
    by (auto simp: demo_server_def)
qed

theorem header_length_is_fatal_witness: "ReadMessage demo_server_world (demo_server (le32 (-1))) = None"
  using header_length_is_fatal [OF demo_server_ok(1), of "demo_server (le32 (-1))" "-1" "[]"]
  by (simp add: demo_server_def demo_server_world_def abi32_def to_size_def)


end
