(* ===== verification/Mock_Pb.thy ===== *)
theory Mock_Pb
  imports Mock_Header
begin

text \<open>
  What the generated classes of \<open>ril.pb.cpp\<close> share: the loop over the fields of the input, how a field of
  each type is read, and the rules by which what was written is merged again.
\<close>

section \<open>Fields\<close>

text \<open>
  What \<open>MergePartialFromCodedStream\<close> makes of a field: it goes on with the rest of the input, it returns
  \<open>false\<close>, or it does not know the field.
\<close>

datatype 'm field_result = Goes 'm "u8 list" | Fails 'm | Uninterpreted

text \<open>It returns \<open>true\<close> at the end of the input, or before it, or \<open>false\<close>.\<close>

datatype merged = Consumed | NotConsumed | Cut

partial_function (option) merge_fields ::
    "wire \<Rightarrow> (i32 \<Rightarrow> u8 list \<Rightarrow> 'm \<Rightarrow> 'm field_result option) \<Rightarrow> (u8 list \<Rightarrow> 'm \<Rightarrow> 'm) \<Rightarrow> u8 list \<Rightarrow> 'm \<Rightarrow>
      (merged \<times> 'm) option" where
  "merge_fields L field unknown input m =
     (let (tag, rest) = ReadTag L input
      in if tag = 0 then Some (if input = [] then Consumed else NotConsumed, m)
         else do {
           f \<leftarrow> field tag rest m;
           (case f of
              Goes m rest \<Rightarrow> merge_fields L field unknown rest m
            | Fails m \<Rightarrow> Some (Cut, m)
            | Uninterpreted \<Rightarrow>
                if GetTagWireType tag = WIRETYPE_END_GROUP then Some (NotConsumed, m)
                else (case SkipField L tag rest of
                    None \<Rightarrow> Some (Cut, m)
                  | Some (raw, rest) \<Rightarrow> merge_fields L field unknown rest (unknown raw m))) })"

definition read_value :: "(u8 list \<Rightarrow> ('a \<times> u8 list) option) \<Rightarrow> u8 list \<Rightarrow> 'm \<Rightarrow> ('a \<Rightarrow> 'm) \<Rightarrow> 'm field_result" where
  "read_value rd input m upd = (case rd input of None \<Rightarrow> Fails m | Some (x, rest) \<Rightarrow> Goes (upd x) rest)"

text \<open>A number that is not one of the enumeration is kept as an unknown field.\<close>

definition read_enum ::
    "wire \<Rightarrow> (i32 \<Rightarrow> bool) \<Rightarrow> nat \<Rightarrow> u8 list \<Rightarrow> 'm \<Rightarrow> (i32 \<Rightarrow> 'm) \<Rightarrow> (u8 list \<Rightarrow> 'm \<Rightarrow> 'm) \<Rightarrow> 'm field_result" where
  "read_enum L valid field input m upd unknown =
     read_value (ReadEnum L) input m (\<lambda>x. if valid x then upd x else unknown (UnknownVarint L field x) m)"

text \<open>A string, or packed integers: the field is set before it is read.\<close>

definition read_into :: "(u8 list \<Rightarrow> 'a \<times> u8 list option) \<Rightarrow> u8 list \<Rightarrow> ('a \<Rightarrow> 'm) \<Rightarrow> 'm field_result" where
  "read_into rd input upd = (case rd input of (x, None) \<Rightarrow> Fails (upd x) | (x, Some rest) \<Rightarrow> Goes (upd x) rest)"

definition read_message ::
    "wire \<Rightarrow> (u8 list \<Rightarrow> 'a \<Rightarrow> (merged \<times> 'a) option) \<Rightarrow> u8 list \<Rightarrow> 'a \<Rightarrow> ('a \<Rightarrow> 'm) \<Rightarrow> 'm field_result option" where
  "read_message L merge input old upd = (case EnterMessage L input of
       None \<Rightarrow> Some (Fails (upd old))
     | Some (inside, rest) \<Rightarrow> do {
         (r, v) \<leftarrow> merge inside old;
         Some (if r = Consumed then Goes (upd v) rest else Fails (upd v)) })"

text \<open>\<open>ParseFromArray\<close> into a new object, whose result is not looked at.\<close>

definition parse_message :: "(u8 list \<Rightarrow> 'm \<Rightarrow> (merged \<times> 'm) option) \<Rightarrow> 'm \<Rightarrow> u8 list \<Rightarrow> 'm option" where
  "parse_message merge new input = map_option snd (merge input new)"

text \<open>The value of a field, with the default that the accessor returns; a field that another message sets.\<close>

definition value_or :: "'a \<Rightarrow> 'a option \<Rightarrow> 'a" where "value_or d x = (case x of None \<Rightarrow> d | Some v \<Rightarrow> v)"

definition over :: "'a option \<Rightarrow> 'a option \<Rightarrow> 'a option" where "over x y = (case x of None \<Rightarrow> y | Some v \<Rightarrow> Some v)"

definition merge_over :: "('a \<Rightarrow> 'a \<Rightarrow> 'a) \<Rightarrow> 'a \<Rightarrow> 'a option \<Rightarrow> 'a option \<Rightarrow> 'a option" where
  "merge_over merge_from new x y = (case x of None \<Rightarrow> y | Some v \<Rightarrow> Some (merge_from v (value_or new y)))"

lemma over_simps [simp]: "over None y = y" "over (Some v) y = Some v" "over x None = x"
  by (simp_all add: over_def split: option.split)

lemma merge_over_simps [simp]: "merge_over f d None y = y" "merge_over f d (Some v) y = Some (f v (value_or d y))"
  by (simp_all add: merge_over_def)

lemma value_or_simps [simp]: "value_or d None = d" "value_or d (Some v) = v"
  by (simp_all add: value_or_def)

section \<open>What the loop keeps\<close>

definition keeps_field :: "('m \<Rightarrow> bool) \<Rightarrow> 'm field_result option \<Rightarrow> bool" where
  "keeps_field P f = (case f of Some (Goes m r) \<Rightarrow> P m | Some (Fails m) \<Rightarrow> P m | _ \<Rightarrow> True)"

lemma merge_fields_keeps:
  assumes "merge_fields L field unknown input m = Some (res, m')" and "P m"
    and "\<And>tag bs m. P m \<Longrightarrow> keeps_field P (field tag bs m)" and "\<And>raw m. P m \<Longrightarrow> P (unknown raw m)"
  shows "P m'"
proof -
  have "\<forall>P. P m \<longrightarrow> (\<forall>tag bs m. P m \<longrightarrow> keeps_field P (field tag bs m)) \<longrightarrow> (\<forall>raw m. P m \<longrightarrow> P (unknown raw m)) \<longrightarrow> P (snd (res, m'))"
    using assms(1)
  proof (induction rule: merge_fields.raw_induct [rotated, where P = "\<lambda>L field unknown input m y. \<forall>P. P m \<longrightarrow>
      (\<forall>tag bs m. P m \<longrightarrow> keeps_field P (field tag bs m)) \<longrightarrow> (\<forall>raw m. P m \<longrightarrow> P (unknown raw m)) \<longrightarrow> P (snd y)",
      consumes 1, case_names step])
    case (step rec L field unknown input m y)
    show ?case
    proof (intro allI impI)
      fix P :: "'a \<Rightarrow> bool"
      assume P: "P m" "\<forall>tag bs m. P m \<longrightarrow> keeps_field P (field tag bs m)" "\<forall>raw m. P m \<longrightarrow> P (unknown raw m)"
      obtain tag rest where tag: "ReadTag L input = (tag, rest)" by fastforce
      have k: "keeps_field P (field tag rest m)" using P by blast
      note IH = step(1) [rule_format, OF _ _ P(2,3) [rule_format]]
      have res: "tag \<noteq> 0 \<Longrightarrow> field tag rest m \<bind> (\<lambda>f. case f of Goes m rest \<Rightarrow> rec L field unknown rest m
          | Fails m \<Rightarrow> Some (Cut, m)
          | Uninterpreted \<Rightarrow> if GetTagWireType tag = WIRETYPE_END_GROUP then Some (NotConsumed, m)
              else case SkipField L tag rest of None \<Rightarrow> Some (Cut, m)
                | Some (raw, rest) \<Rightarrow> rec L field unknown rest (unknown raw m)) = Some y"
        "tag = 0 \<Longrightarrow> snd y = m"
        using step(2) tag by (auto split: if_splits)
      show "P (snd y)"
      proof (cases "tag = 0")
        case False
        then obtain f where f: "field tag rest m = Some f" using res(1) by (cases "field tag rest m") auto
        show ?thesis
          using res(1) [OF False] f k P(1,3)
          by (cases f) (auto simp: keeps_field_def intro: IH split: if_splits option.splits)
      qed (use res(2) P(1) in simp)
    qed
  qed
  then show ?thesis using assms(2-4) by auto
qed

lemma keeps_fields:
  "P m \<Longrightarrow> (\<And>v. P (upd v)) \<Longrightarrow> keeps_field P (Some (read_value rd bs m upd))"
  "P m \<Longrightarrow> (\<And>v. valid v \<Longrightarrow> P (updE v)) \<Longrightarrow> (\<And>raw. P (add raw m)) \<Longrightarrow>
    keeps_field P (Some (read_enum L valid n bs m updE add))"
  "(\<And>v. P (updI v)) \<Longrightarrow> keeps_field P (Some (read_into rdI bs updI))"
  "keeps_field P (Some Uninterpreted)"
  by (auto simp: keeps_field_def read_value_def read_enum_def read_into_def split: option.splits prod.splits)

lemma keeps_if:
  "keeps_field P f \<Longrightarrow> keeps_field P g \<Longrightarrow> keeps_field P (if c then f else g)"
  by simp

lemma keeps_message:
  "Q old \<Longrightarrow> (\<And>inside r v. merge inside old = Some (r, v) \<Longrightarrow> Q v) \<Longrightarrow> (\<And>v. Q v \<Longrightarrow> P (upd v)) \<Longrightarrow>
    keeps_field P (read_message L merge bs old upd)"
  by (auto simp: keeps_field_def read_message_def split: option.splits prod.splits Option.bind_splits)

text \<open>A field is read from bytes that do not get more.\<close>

definition goes_on_within :: "u8 list \<Rightarrow> 'm field_result option \<Rightarrow> bool" where
  "goes_on_within bs f \<longleftrightarrow> f \<noteq> None \<and> (\<forall>m r. f = Some (Goes m r) \<longrightarrow> length r \<le> length bs)"

section \<open>Rules for what was written\<close>

context wire_format
begin

lemma merge_fields_returns:
  assumes "\<And>tag bs m. goes_on_within bs (field tag bs m)"
  shows "merge_fields L field unknown input m \<noteq> None"
proof (induction "length input" arbitrary: input m rule: less_induct)
  case less
  obtain tag rest where tag: "ReadTag L input = (tag, rest)" by fastforce
  show ?case
  proof (cases "tag = 0")
    case False
    then have rest: "length rest < length input" using tag tag_shorter [of input] by simp
    obtain f where f: "field tag rest m = Some f" "\<And>m r. f = Goes m r \<Longrightarrow> length r \<le> length rest"
      using assms [of rest tag m] by (auto simp: goes_on_within_def)
    have "merge_fields L field unknown r u \<noteq> None" if "length r \<le> length rest" for r u
      using less [of r u] rest that by linarith
    then show ?thesis
      using tag False f string_shorter(4)
      by (subst merge_fields.simps) (auto split: field_result.split option.split)
  qed (use tag in \<open>simp add: merge_fields.simps\<close>)
qed

lemma goes_on_within_value:
  "(\<And>x r. rd bs = Some (x, r) \<Longrightarrow> length r \<le> length bs) \<Longrightarrow> goes_on_within bs (Some (read_value rd bs m upd))"
  by (auto simp: goes_on_within_def read_value_def split: option.splits)

lemma goes_on_within_fields:
  "goes_on_within bs (Some (read_value (ReadInt32 L) bs m upd))" "goes_on_within bs (Some (read_value (ReadBool L) bs m upd'))"
  "goes_on_within bs (Some (read_enum L valid n bs m upd unknown))"
  "goes_on_within bs (Some (read_into (ReadString L) bs updS))" "goes_on_within bs (Some (read_into (ReadPackedInt32 L) bs updP))"
  "goes_on_within bs (Some Uninterpreted)"
  using number_shorter(3-5) string_shorter(1,2)
  by (auto simp: goes_on_within_def read_value_def read_enum_def read_into_def split: option.splits prod.splits)

lemma goes_on_within_message:
  assumes "\<And>bs v. merge bs v \<noteq> None"
  shows "goes_on_within bs (read_message L merge bs old upd)"
proof (cases "EnterMessage L bs")
  case (Some x)
  obtain inside rest where x: "x = (inside, rest)" by fastforce
  obtain r v where "merge inside old = Some (r, v)" using assms [of inside old] by auto
  then show ?thesis using Some x string_shorter(3) [of bs inside rest] by (auto simp: goes_on_within_def read_message_def)
qed (simp add: goes_on_within_def read_message_def)

lemma merge_end_fields: "merge_fields L field unknown [] m = Some (Consumed, m)"
  by (subst merge_fields.simps) (simp add: tag_end)

lemma merge_goes:
  "ReadTag L input = (tag, bs) \<Longrightarrow> tag \<noteq> 0 \<Longrightarrow> field tag bs m = Some (Goes m' r) \<Longrightarrow>
    merge_fields L field unknown input m = merge_fields L field unknown r m'"
  by (subst merge_fields.simps) simp

text \<open>A field that is written if it is set, read by an update of the field.\<close>

lemma merge_int32:
  assumes "small_field n" and "\<And>bs. field (varint_tag n) bs m = Some (read_value (ReadInt32 L) bs m (\<lambda>v. upd (\<lambda>_. Some v) m))"
    and "upd (\<lambda>_. y) m = m"
  shows "merge_fields L field unknown (written (WriteInt32 L n) x @ r) m = merge_fields L field unknown r (upd (\<lambda>_. over x y) m)"
proof (cases x)
  case (Some v)
  obtain bs where "ReadTag L (WriteInt32 L n v @ r) = (varint_tag n, bs)" "ReadInt32 L bs = Some (v, r)"
    using tag_int32 [OF assms(1)] by blast
  then show ?thesis
    using merge_goes [OF _ tag_parts(5) [OF assms(1)]] assms(2) [of bs] by (simp add: Some written_def read_value_def)
qed (simp add: written_def assms(3))

lemma merge_bool:
  assumes "small_field n" and "\<And>bs. field (varint_tag n) bs m = Some (read_value (ReadBool L) bs m (\<lambda>v. upd (\<lambda>_. Some v) m))"
    and "upd (\<lambda>_. y) m = m"
  shows "merge_fields L field unknown (written (WriteBool L n) x @ r) m = merge_fields L field unknown r (upd (\<lambda>_. over x y) m)"
proof (cases x)
  case (Some v)
  obtain bs where "ReadTag L (WriteBool L n v @ r) = (varint_tag n, bs)" "ReadBool L bs = Some (v, r)"
    using tag_bool [OF assms(1)] by blast
  then show ?thesis
    using merge_goes [OF _ tag_parts(5) [OF assms(1)]] assms(2) [of bs] by (simp add: Some written_def read_value_def)
qed (simp add: written_def assms(3))

lemma merge_enum:
  assumes "small_field n"
    and "\<And>bs. field (varint_tag n) bs m = Some (read_enum L valid k bs m (\<lambda>v. upd (\<lambda>_. Some v) m) add)"
    and "upd (\<lambda>_. y) m = m" and "pred_option valid x"
  shows "merge_fields L field unknown (written (WriteEnum L n) x @ r) m = merge_fields L field unknown r (upd (\<lambda>_. over x y) m)"
proof (cases x)
  case (Some v)
  obtain bs where "ReadTag L (WriteEnum L n v @ r) = (varint_tag n, bs)" "ReadEnum L bs = Some (v, r)"
    using tag_enum [OF assms(1)] by blast
  then show ?thesis
    using merge_goes [OF _ tag_parts(5) [OF assms(1)]] assms(2) [of bs] assms(4)
    by (simp add: Some written_def read_value_def read_enum_def)
qed (simp add: written_def assms(3))

lemma merge_string:
  assumes "small_field n" and "\<And>bs. field (length_tag n) bs m = Some (read_into (ReadString L) bs (\<lambda>v. upd (\<lambda>_. Some v) m))"
    and "upd (\<lambda>_. y) m = m" and "pred_option short x"
  shows "merge_fields L field unknown (written (WriteString L n) x @ r) m = merge_fields L field unknown r (upd (\<lambda>_. over x y) m)"
proof (cases x)
  case (Some v)
  then have "short v" using assms(4) by simp
  then obtain bs where "ReadTag L (WriteString L n v @ r) = (length_tag n, bs)" "ReadString L bs = (v, Some r)"
    using tag_string [OF assms(1)] by blast
  then show ?thesis
    using merge_goes [OF _ tag_parts(6) [OF assms(1)]] assms(2) [of bs] by (simp add: Some written_def read_into_def)
qed (simp add: written_def assms(3))

lemma merge_message:
  assumes "small_field n"
    and "\<And>bs. field (length_tag n) bs m = read_message L merge bs (value_or new y) (\<lambda>v. upd (\<lambda>_. Some v) m)"
    and "upd (\<lambda>_. y) m = m" and "\<And>v. x = Some v \<Longrightarrow> sz v = length (ser v) \<and> short (ser v) \<and>
      (\<forall>u. merge (ser v) u = Some (Consumed, merge_from v u))"
  shows "merge_fields L field unknown (written (\<lambda>v. WriteMessage_wire L n (sz v) (ser v)) x @ r) m =
    merge_fields L field unknown r (upd (\<lambda>_. merge_over merge_from new x y) m)"
proof (cases x)
  case (Some v)
  then have v: "sz v = length (ser v)" "short (ser v)" "merge (ser v) u = Some (Consumed, merge_from v u)" for u
    using assms(4) by blast+
  then obtain bs where "ReadTag L (WriteMessage_wire L n (length (ser v)) (ser v) @ r) = (length_tag n, bs)"
      "EnterMessage L bs = Some (ser v, r)"
    using tag_message [OF assms(1)] by blast
  then show ?thesis
    using merge_goes [OF _ tag_parts(6) [OF assms(1)]] assms(2) [of bs] v by (simp add: Some written_def read_message_def)
qed (simp add: written_def assms(3))

text \<open>Repeated fields.\<close>

lemma merge_integers:
  assumes "small_field n"
    and "\<And>bs m. field (varint_tag n) bs m = Some (read_value (ReadInt32 L) bs m (\<lambda>v. upd (\<lambda>_. get m @ [v]) m))"
    and "\<And>x m. get (upd (\<lambda>_. x) m) = x" and "\<And>x y m. upd (\<lambda>_. x) (upd (\<lambda>_. y) m) = upd (\<lambda>_. x) m"
    and "\<And>m. upd (\<lambda>_. get m) m = m"
  shows "merge_fields L field unknown (concat (map (WriteInt32 L n) vs) @ r) m =
    merge_fields L field unknown r (upd (\<lambda>_. get m @ vs) m)"
proof (induction vs arbitrary: m)
  case (Cons v vs)
  let ?rest = "concat (map (WriteInt32 L n) vs) @ r"
  obtain bs where bs: "ReadTag L (WriteInt32 L n v @ ?rest) = (varint_tag n, bs)" "ReadInt32 L bs = Some (v, ?rest)"
    using tag_int32 [OF assms(1)] by blast
  then have "merge_fields L field unknown (WriteInt32 L n v @ ?rest) m = merge_fields L field unknown ?rest (upd (\<lambda>_. get m @ [v]) m)"
    by (intro merge_goes [OF bs(1) tag_parts(5) [OF assms(1)]]) (simp add: assms(2) read_value_def)
  then show ?case by (simp add: Cons.IH assms(3,4))
qed (simp add: assms(5))

lemma merge_strings:
  assumes "small_field n" and "\<And>bs m. field (length_tag n) bs m = Some (read_into (ReadString L) bs (\<lambda>v. upd (\<lambda>_. get m @ [v]) m))"
    and "\<And>x m. get (upd (\<lambda>_. x) m) = x" and "\<And>x y m. upd (\<lambda>_. x) (upd (\<lambda>_. y) m) = upd (\<lambda>_. x) m"
    and "\<And>m. upd (\<lambda>_. get m) m = m"
  shows "list_all short vs \<Longrightarrow> merge_fields L field unknown (concat (map (WriteString L n) vs) @ r) m =
    merge_fields L field unknown r (upd (\<lambda>_. get m @ vs) m)"
proof (induction vs arbitrary: m)
  case (Cons v vs)
  let ?rest = "concat (map (WriteString L n) vs) @ r"
  have "short v" using Cons.prems by simp
  then obtain bs where bs: "ReadTag L (WriteString L n v @ ?rest) = (length_tag n, bs)" "ReadString L bs = (v, Some ?rest)"
    using tag_string [OF assms(1)] by blast
  then have "merge_fields L field unknown (WriteString L n v @ ?rest) m = merge_fields L field unknown ?rest (upd (\<lambda>_. get m @ [v]) m)"
    by (intro merge_goes [OF bs(1) tag_parts(6) [OF assms(1)]]) (simp add: assms(2) read_into_def)
  then show ?case using Cons by (simp add: assms(3,4))
qed (simp add: assms(5))

lemma merge_messages:
  assumes "small_field n"
    and "\<And>bs m. field (length_tag n) bs m = read_message L merge bs new (\<lambda>v. upd (\<lambda>_. get m @ [v]) m)"
    and "\<And>x m. get (upd (\<lambda>_. x) m) = x" and "\<And>x y m. upd (\<lambda>_. x) (upd (\<lambda>_. y) m) = upd (\<lambda>_. x) m"
    and "\<And>m. upd (\<lambda>_. get m) m = m"
  shows "(\<And>v. v \<in> set vs \<Longrightarrow> sz v = length (ser v) \<and> short (ser v) \<and> merge (ser v) new = Some (Consumed, v)) \<Longrightarrow>
    merge_fields L field unknown (concat (map (\<lambda>v. WriteMessage_wire L n (sz v) (ser v)) vs) @ r) m =
    merge_fields L field unknown r (upd (\<lambda>_. get m @ vs) m)"
proof (induction vs arbitrary: m)
  case (Cons v vs)
  let ?rest = "concat (map (\<lambda>v. WriteMessage_wire L n (sz v) (ser v)) vs) @ r"
  have v: "sz v = length (ser v)" "short (ser v)" "merge (ser v) new = Some (Consumed, v)" using Cons.prems by auto
  then obtain bs where bs: "ReadTag L (WriteMessage_wire L n (length (ser v)) (ser v) @ ?rest) = (length_tag n, bs)"
      "EnterMessage L bs = Some (ser v, ?rest)"
    using tag_message [OF assms(1)] by blast
  then have "merge_fields L field unknown (WriteMessage_wire L n (sz v) (ser v) @ ?rest) m =
      merge_fields L field unknown ?rest (upd (\<lambda>_. get m @ [v]) m)"
    using v bs by (intro merge_goes [OF _ tag_parts(6) [OF assms(1)]]) (auto simp: assms(2) read_message_def)
  then show ?case using Cons by (simp add: assms(3,4))
qed (simp add: assms(5))

text \<open>How long the fields are.\<close>

lemma length_written:
  "small_field n \<Longrightarrow> length (written (WriteInt32 L n) x) = field_size (Int32Size L) x"
  "small_field n \<Longrightarrow> length (written (WriteEnum L n) x) = field_size (EnumSize L) x"
  "small_field n \<Longrightarrow> length (written (WriteBool L n) b) = field_size (\<lambda>_. 1) b"
  "small_field n \<Longrightarrow> length (written (WriteString L n) s) = field_size (StringSize L) s"
  by (simp_all add: written_def field_size_def size_int32 size_enum size_bool size_string split: option.split)

lemma length_written_message:
  "small_field n \<Longrightarrow> (\<And>v. length (ser v) = sz v) \<Longrightarrow>
    length (written (\<lambda>v. WriteMessage_wire L n (sz v) (ser v)) x) = field_size (\<lambda>v. MessageSize L (sz v)) x"
  using size_message [of n "ser (the x)"] by (auto simp: written_def field_size_def split: option.split)

lemma length_repeated:
  "small_field n \<Longrightarrow> length (concat (map (WriteInt32 L n) vs)) = length vs + sum_list (map (Int32Size L) vs)"
  "small_field n \<Longrightarrow> length (concat (map (WriteString L n) ss)) = length ss + sum_list (map (StringSize L) ss)"
  by (induction vs; simp add: size_int32) (induction ss; simp add: size_string)

lemma length_repeated_messages:
  "small_field n \<Longrightarrow> (\<And>v. length (ser v) = sz v) \<Longrightarrow>
    length (concat (map (\<lambda>v. WriteMessage_wire L n (sz v) (ser v)) vs)) =
    length vs + sum_list (map (\<lambda>v. MessageSize L (sz v)) vs)"
proof (induction vs)
  case (Cons v vs)
  then have "length (WriteMessage_wire L n (sz v) (ser v)) = 1 + MessageSize L (sz v)"
    using size_message [of n "ser v"] by simp
  then show ?case using Cons by simp
qed simp

end

end
