(* ===== verification/Mock_Proto.thy ===== *)
theory Mock_Proto
  imports Mock_Pb
begin

text \<open>
  \<open>ril.pb.cpp\<close>, the classes that the protocol buffer compiler made of \<open>ril.proto\<close>. A field is an option,
  that is its value with its bit in \<open>_has_bits_\<close>, or a list; the fields that are not known are kept as they
  came. Of each class: the state of a new object (\<open>SharedCtor\<close>), \<open>MergePartialFromCodedStream\<close> with its
  switch over the fields, \<open>SerializeWithCachedSizes\<close> (\<open>SerializeWithCachedSizesToArray\<close> writes the same
  bytes), \<open>ByteSize\<close>, \<open>MergeFrom\<close>, \<open>Clear\<close>, \<open>CopyFrom\<close>, and \<open>IsInitialized\<close> where fields are required.
  The check of the encoding of strings only writes to the log.
\<close>

section \<open>Enumerations\<close>

definition RilCardState_IsValid :: "i32 \<Rightarrow> bool" where
  "RilCardState_IsValid value \<longleftrightarrow> value \<in> set [0, 1, 2]"

definition RilPersoSubstate_IsValid :: "i32 \<Rightarrow> bool" where
  "RilPersoSubstate_IsValid value \<longleftrightarrow> value \<in> set [0, 1, 2, 3, 4, 5, 6, 7, 8, 9, 10, 11, 12, 13, 14, 15, 16, 17, 18, 19, 20, 21, 22, 23, 24]"

definition RilAppState_IsValid :: "i32 \<Rightarrow> bool" where
  "RilAppState_IsValid value \<longleftrightarrow> value \<in> set [0, 1, 2, 3, 4, 5]"

definition RilPinState_IsValid :: "i32 \<Rightarrow> bool" where
  "RilPinState_IsValid value \<longleftrightarrow> value \<in> set [0, 1, 2, 3, 4, 5]"

definition RilAppType_IsValid :: "i32 \<Rightarrow> bool" where
  "RilAppType_IsValid value \<longleftrightarrow> value \<in> set [0, 1, 2, 3, 4]"

definition RilUusType_IsValid :: "i32 \<Rightarrow> bool" where
  "RilUusType_IsValid value \<longleftrightarrow> value \<in> set [0, 1, 2, 3, 4, 5, 6]"

definition RilUusDcs_IsValid :: "i32 \<Rightarrow> bool" where
  "RilUusDcs_IsValid value \<longleftrightarrow> value \<in> set [0, 1, 2, 3, 4]"

definition RilCallState_IsValid :: "i32 \<Rightarrow> bool" where
  "RilCallState_IsValid value \<longleftrightarrow> value \<in> set [0, 1, 2, 3, 4, 5]"

section \<open>\<open>RilAppStatus\<close>\<close>

record RilAppStatus =
  pa_app_type :: "i32 option"
  pa_app_state :: "i32 option"
  pa_perso_substate :: "i32 option"
  pa_aid :: "u8 list option"
  pa_app_label :: "u8 list option"
  pa_pin1_replaced :: "i32 option"
  pa_pin1 :: "i32 option"
  pa_pin2 :: "i32 option"
  pa_unknown :: "u8 list"

definition RilAppStatus_new :: RilAppStatus where
  "RilAppStatus_new = \<lparr>pa_app_type = None, pa_app_state = None, pa_perso_substate = None, pa_aid = None, pa_app_label = None,
     pa_pin1_replaced = None, pa_pin1 = None, pa_pin2 = None, pa_unknown = []\<rparr>"

definition RilAppStatus_add_unknown :: "u8 list \<Rightarrow> RilAppStatus \<Rightarrow> RilAppStatus" where
  "RilAppStatus_add_unknown raw m = m\<lparr>pa_unknown := pa_unknown m @ raw\<rparr>"

definition RilAppStatus_field :: "wire \<Rightarrow> i32 \<Rightarrow> u8 list \<Rightarrow> RilAppStatus \<Rightarrow> RilAppStatus field_result option" where
  "RilAppStatus_field L tag input m =
     (let n = GetTagFieldNumber tag; t = GetTagWireType tag in
      if n = 1 \<and> t = WIRETYPE_VARINT then
        Some (read_enum L RilAppType_IsValid 1 input m (\<lambda>v. m\<lparr>pa_app_type := Some v\<rparr>) RilAppStatus_add_unknown)
      else if n = 2 \<and> t = WIRETYPE_VARINT then
        Some (read_enum L RilAppState_IsValid 2 input m (\<lambda>v. m\<lparr>pa_app_state := Some v\<rparr>) RilAppStatus_add_unknown)
      else if n = 3 \<and> t = WIRETYPE_VARINT then
        Some (read_enum L RilPersoSubstate_IsValid 3 input m (\<lambda>v. m\<lparr>pa_perso_substate := Some v\<rparr>) RilAppStatus_add_unknown)
      else if n = 4 \<and> t = WIRETYPE_LENGTH_DELIMITED then
        Some (read_into (ReadString L) input (\<lambda>v. m\<lparr>pa_aid := Some v\<rparr>))
      else if n = 5 \<and> t = WIRETYPE_LENGTH_DELIMITED then
        Some (read_into (ReadString L) input (\<lambda>v. m\<lparr>pa_app_label := Some v\<rparr>))
      else if n = 6 \<and> t = WIRETYPE_VARINT then
        Some (read_value (ReadInt32 L) input m (\<lambda>v. m\<lparr>pa_pin1_replaced := Some v\<rparr>))
      else if n = 7 \<and> t = WIRETYPE_VARINT then
        Some (read_enum L RilPinState_IsValid 7 input m (\<lambda>v. m\<lparr>pa_pin1 := Some v\<rparr>) RilAppStatus_add_unknown)
      else if n = 8 \<and> t = WIRETYPE_VARINT then
        Some (read_enum L RilPinState_IsValid 8 input m (\<lambda>v. m\<lparr>pa_pin2 := Some v\<rparr>) RilAppStatus_add_unknown)
      else Some Uninterpreted)"

definition RilAppStatus_MergePartialFromCodedStream :: "wire \<Rightarrow> u8 list \<Rightarrow> RilAppStatus \<Rightarrow> (merged \<times> RilAppStatus) option" where
  "RilAppStatus_MergePartialFromCodedStream L = merge_fields L (RilAppStatus_field L) RilAppStatus_add_unknown"

definition RilAppStatus_ByteSize :: "wire \<Rightarrow> RilAppStatus \<Rightarrow> nat" where
  "RilAppStatus_ByteSize L m =
     field_size (EnumSize L) (pa_app_type m) + field_size (EnumSize L) (pa_app_state m) +
     field_size (EnumSize L) (pa_perso_substate m) + field_size (StringSize L) (pa_aid m) +
     field_size (StringSize L) (pa_app_label m) + field_size (Int32Size L) (pa_pin1_replaced m) +
     field_size (EnumSize L) (pa_pin1 m) + field_size (EnumSize L) (pa_pin2 m) + length (pa_unknown m)"

definition RilAppStatus_SerializeWithCachedSizes :: "wire \<Rightarrow> RilAppStatus \<Rightarrow> u8 list" where
  "RilAppStatus_SerializeWithCachedSizes L m =
     written (WriteEnum L 1) (pa_app_type m) @ written (WriteEnum L 2) (pa_app_state m) @
     written (WriteEnum L 3) (pa_perso_substate m) @ written (WriteString L 4) (pa_aid m) @
     written (WriteString L 5) (pa_app_label m) @ written (WriteInt32 L 6) (pa_pin1_replaced m) @
     written (WriteEnum L 7) (pa_pin1 m) @ written (WriteEnum L 8) (pa_pin2 m) @ pa_unknown m"

definition RilAppStatus_MergeFrom :: "RilAppStatus \<Rightarrow> RilAppStatus \<Rightarrow> RilAppStatus" where
  "RilAppStatus_MergeFrom src m = m\<lparr>
     pa_app_type := over (pa_app_type src) (pa_app_type m),
     pa_app_state := over (pa_app_state src) (pa_app_state m),
     pa_perso_substate := over (pa_perso_substate src) (pa_perso_substate m),
     pa_aid := over (pa_aid src) (pa_aid m), pa_app_label := over (pa_app_label src) (pa_app_label m),
     pa_pin1_replaced := over (pa_pin1_replaced src) (pa_pin1_replaced m),
     pa_pin1 := over (pa_pin1 src) (pa_pin1 m), pa_pin2 := over (pa_pin2 src) (pa_pin2 m),
     pa_unknown := pa_unknown m @ pa_unknown src\<rparr>"

definition RilAppStatus_Clear :: "RilAppStatus \<Rightarrow> RilAppStatus" where
  "RilAppStatus_Clear m = m\<lparr>
     pa_app_type := None, pa_app_state := None, pa_perso_substate := None, pa_aid := None, pa_app_label := None,
     pa_pin1_replaced := None, pa_pin1 := None, pa_pin2 := None, pa_unknown := []\<rparr>"

definition RilAppStatus_CopyFrom :: "RilAppStatus \<Rightarrow> RilAppStatus \<Rightarrow> RilAppStatus" where
  "RilAppStatus_CopyFrom src m = (if src = m then m else RilAppStatus_MergeFrom src (RilAppStatus_Clear m))"

section \<open>\<open>RilCardStatus\<close>\<close>

record RilCardStatus =
  ps_card_state :: "i32 option"
  ps_universal_pin_state :: "i32 option"
  ps_gsm_umts_subscription_app_index :: "i32 option"
  ps_cdma_subscription_app_index :: "i32 option"
  ps_num_applications :: "i32 option"
  ps_applications :: "RilAppStatus list"
  ps_unknown :: "u8 list"

definition RilCardStatus_new :: RilCardStatus where
  "RilCardStatus_new = \<lparr>ps_card_state = None, ps_universal_pin_state = None, ps_gsm_umts_subscription_app_index = None,
     ps_cdma_subscription_app_index = None, ps_num_applications = None, ps_applications = [], ps_unknown = []\<rparr>"

definition RilCardStatus_add_unknown :: "u8 list \<Rightarrow> RilCardStatus \<Rightarrow> RilCardStatus" where
  "RilCardStatus_add_unknown raw m = m\<lparr>ps_unknown := ps_unknown m @ raw\<rparr>"

definition RilCardStatus_field :: "wire \<Rightarrow> i32 \<Rightarrow> u8 list \<Rightarrow> RilCardStatus \<Rightarrow> RilCardStatus field_result option" where
  "RilCardStatus_field L tag input m =
     (let n = GetTagFieldNumber tag; t = GetTagWireType tag in
      if n = 1 \<and> t = WIRETYPE_VARINT then
        Some (read_enum L RilCardState_IsValid 1 input m (\<lambda>v. m\<lparr>ps_card_state := Some v\<rparr>) RilCardStatus_add_unknown)
      else if n = 2 \<and> t = WIRETYPE_VARINT then
        Some (read_enum L RilPinState_IsValid 2 input m (\<lambda>v. m\<lparr>ps_universal_pin_state := Some v\<rparr>) RilCardStatus_add_unknown)
      else if n = 3 \<and> t = WIRETYPE_VARINT then
        Some (read_value (ReadInt32 L) input m (\<lambda>v. m\<lparr>ps_gsm_umts_subscription_app_index := Some v\<rparr>))
      else if n = 4 \<and> t = WIRETYPE_VARINT then
        Some (read_value (ReadInt32 L) input m (\<lambda>v. m\<lparr>ps_cdma_subscription_app_index := Some v\<rparr>))
      else if n = 5 \<and> t = WIRETYPE_VARINT then
        Some (read_value (ReadInt32 L) input m (\<lambda>v. m\<lparr>ps_num_applications := Some v\<rparr>))
      else if n = 6 \<and> t = WIRETYPE_LENGTH_DELIMITED then
        read_message L (RilAppStatus_MergePartialFromCodedStream L) input RilAppStatus_new
             (\<lambda>v. m\<lparr>ps_applications := ps_applications m @ [v]\<rparr>)
      else Some Uninterpreted)"

definition RilCardStatus_MergePartialFromCodedStream :: "wire \<Rightarrow> u8 list \<Rightarrow> RilCardStatus \<Rightarrow> (merged \<times> RilCardStatus) option" where
  "RilCardStatus_MergePartialFromCodedStream L = merge_fields L (RilCardStatus_field L) RilCardStatus_add_unknown"

definition RilCardStatus_ByteSize :: "wire \<Rightarrow> RilCardStatus \<Rightarrow> nat" where
  "RilCardStatus_ByteSize L m =
     field_size (EnumSize L) (ps_card_state m) + field_size (EnumSize L) (ps_universal_pin_state m) +
     field_size (Int32Size L) (ps_gsm_umts_subscription_app_index m) +
     field_size (Int32Size L) (ps_cdma_subscription_app_index m) +
     field_size (Int32Size L) (ps_num_applications m) +
     length (ps_applications m) + sum_list (map (\<lambda>v. MessageSize L (RilAppStatus_ByteSize L v)) (ps_applications m)) +
     length (ps_unknown m)"

definition RilCardStatus_SerializeWithCachedSizes :: "wire \<Rightarrow> RilCardStatus \<Rightarrow> u8 list" where
  "RilCardStatus_SerializeWithCachedSizes L m =
     written (WriteEnum L 1) (ps_card_state m) @ written (WriteEnum L 2) (ps_universal_pin_state m) @
     written (WriteInt32 L 3) (ps_gsm_umts_subscription_app_index m) @
     written (WriteInt32 L 4) (ps_cdma_subscription_app_index m) @
     written (WriteInt32 L 5) (ps_num_applications m) @
     concat (map (\<lambda>v. WriteMessage_wire L 6 (RilAppStatus_ByteSize L v) (RilAppStatus_SerializeWithCachedSizes L v)) (ps_applications m)) @
     ps_unknown m"

definition RilCardStatus_MergeFrom :: "RilCardStatus \<Rightarrow> RilCardStatus \<Rightarrow> RilCardStatus" where
  "RilCardStatus_MergeFrom src m = m\<lparr>
     ps_card_state := over (ps_card_state src) (ps_card_state m),
     ps_universal_pin_state := over (ps_universal_pin_state src) (ps_universal_pin_state m),
     ps_gsm_umts_subscription_app_index := over (ps_gsm_umts_subscription_app_index src) (ps_gsm_umts_subscription_app_index m),
     ps_cdma_subscription_app_index := over (ps_cdma_subscription_app_index src) (ps_cdma_subscription_app_index m),
     ps_num_applications := over (ps_num_applications src) (ps_num_applications m),
     ps_applications := ps_applications m @ ps_applications src, ps_unknown := ps_unknown m @ ps_unknown src\<rparr>"

definition RilCardStatus_Clear :: "RilCardStatus \<Rightarrow> RilCardStatus" where
  "RilCardStatus_Clear m = m\<lparr>
     ps_card_state := None, ps_universal_pin_state := None, ps_gsm_umts_subscription_app_index := None,
     ps_cdma_subscription_app_index := None, ps_num_applications := None, ps_applications := [],
     ps_unknown := []\<rparr>"

definition RilCardStatus_CopyFrom :: "RilCardStatus \<Rightarrow> RilCardStatus \<Rightarrow> RilCardStatus" where
  "RilCardStatus_CopyFrom src m = (if src = m then m else RilCardStatus_MergeFrom src (RilCardStatus_Clear m))"

section \<open>\<open>RilUusInfo\<close>\<close>

record RilUusInfo =
  pu_uus_type :: "i32 option"
  pu_uus_dcs :: "i32 option"
  pu_uus_length :: "i32 option"
  pu_uus_data :: "u8 list option"
  pu_unknown :: "u8 list"

definition RilUusInfo_new :: RilUusInfo where
  "RilUusInfo_new = \<lparr>pu_uus_type = None, pu_uus_dcs = None, pu_uus_length = None, pu_uus_data = None, pu_unknown = []\<rparr>"

definition RilUusInfo_add_unknown :: "u8 list \<Rightarrow> RilUusInfo \<Rightarrow> RilUusInfo" where
  "RilUusInfo_add_unknown raw m = m\<lparr>pu_unknown := pu_unknown m @ raw\<rparr>"

definition RilUusInfo_field :: "wire \<Rightarrow> i32 \<Rightarrow> u8 list \<Rightarrow> RilUusInfo \<Rightarrow> RilUusInfo field_result option" where
  "RilUusInfo_field L tag input m =
     (let n = GetTagFieldNumber tag; t = GetTagWireType tag in
      if n = 1 \<and> t = WIRETYPE_VARINT then
        Some (read_enum L RilUusType_IsValid 1 input m (\<lambda>v. m\<lparr>pu_uus_type := Some v\<rparr>) RilUusInfo_add_unknown)
      else if n = 2 \<and> t = WIRETYPE_VARINT then
        Some (read_enum L RilUusDcs_IsValid 2 input m (\<lambda>v. m\<lparr>pu_uus_dcs := Some v\<rparr>) RilUusInfo_add_unknown)
      else if n = 3 \<and> t = WIRETYPE_VARINT then
        Some (read_value (ReadInt32 L) input m (\<lambda>v. m\<lparr>pu_uus_length := Some v\<rparr>))
      else if n = 4 \<and> t = WIRETYPE_LENGTH_DELIMITED then
        Some (read_into (ReadString L) input (\<lambda>v. m\<lparr>pu_uus_data := Some v\<rparr>))
      else Some Uninterpreted)"

definition RilUusInfo_MergePartialFromCodedStream :: "wire \<Rightarrow> u8 list \<Rightarrow> RilUusInfo \<Rightarrow> (merged \<times> RilUusInfo) option" where
  "RilUusInfo_MergePartialFromCodedStream L = merge_fields L (RilUusInfo_field L) RilUusInfo_add_unknown"

definition RilUusInfo_ByteSize :: "wire \<Rightarrow> RilUusInfo \<Rightarrow> nat" where
  "RilUusInfo_ByteSize L m =
     field_size (EnumSize L) (pu_uus_type m) + field_size (EnumSize L) (pu_uus_dcs m) +
     field_size (Int32Size L) (pu_uus_length m) + field_size (StringSize L) (pu_uus_data m) +
     length (pu_unknown m)"

definition RilUusInfo_SerializeWithCachedSizes :: "wire \<Rightarrow> RilUusInfo \<Rightarrow> u8 list" where
  "RilUusInfo_SerializeWithCachedSizes L m =
     written (WriteEnum L 1) (pu_uus_type m) @ written (WriteEnum L 2) (pu_uus_dcs m) @
     written (WriteInt32 L 3) (pu_uus_length m) @ written (WriteString L 4) (pu_uus_data m) @ pu_unknown m"

definition RilUusInfo_MergeFrom :: "RilUusInfo \<Rightarrow> RilUusInfo \<Rightarrow> RilUusInfo" where
  "RilUusInfo_MergeFrom src m = m\<lparr>
     pu_uus_type := over (pu_uus_type src) (pu_uus_type m),
     pu_uus_dcs := over (pu_uus_dcs src) (pu_uus_dcs m),
     pu_uus_length := over (pu_uus_length src) (pu_uus_length m),
     pu_uus_data := over (pu_uus_data src) (pu_uus_data m), pu_unknown := pu_unknown m @ pu_unknown src\<rparr>"

definition RilUusInfo_Clear :: "RilUusInfo \<Rightarrow> RilUusInfo" where
  "RilUusInfo_Clear m = m\<lparr>
     pu_uus_type := None, pu_uus_dcs := None, pu_uus_length := None, pu_uus_data := None, pu_unknown := []\<rparr>"

definition RilUusInfo_CopyFrom :: "RilUusInfo \<Rightarrow> RilUusInfo \<Rightarrow> RilUusInfo" where
  "RilUusInfo_CopyFrom src m = (if src = m then m else RilUusInfo_MergeFrom src (RilUusInfo_Clear m))"

section \<open>\<open>RilCall\<close>\<close>

record RilCall =
  pc_state :: "i32 option"
  pc_index :: "i32 option"
  pc_toa :: "i32 option"
  pc_is_mpty :: "bool option"
  pc_is_mt :: "bool option"
  pc_als :: "i32 option"
  pc_is_voice :: "bool option"
  pc_is_voice_privacy :: "bool option"
  pc_number :: "u8 list option"
  pc_number_presentation :: "i32 option"
  pc_name :: "u8 list option"
  pc_name_presentation :: "i32 option"
  pc_uus_info :: "RilUusInfo option"
  pc_unknown :: "u8 list"

definition RilCall_new :: RilCall where
  "RilCall_new = \<lparr>pc_state = None, pc_index = None, pc_toa = None, pc_is_mpty = None, pc_is_mt = None, pc_als = None,
     pc_is_voice = None, pc_is_voice_privacy = None, pc_number = None, pc_number_presentation = None,
     pc_name = None, pc_name_presentation = None, pc_uus_info = None, pc_unknown = []\<rparr>"

definition RilCall_add_unknown :: "u8 list \<Rightarrow> RilCall \<Rightarrow> RilCall" where
  "RilCall_add_unknown raw m = m\<lparr>pc_unknown := pc_unknown m @ raw\<rparr>"

definition RilCall_field :: "wire \<Rightarrow> i32 \<Rightarrow> u8 list \<Rightarrow> RilCall \<Rightarrow> RilCall field_result option" where
  "RilCall_field L tag input m =
     (let n = GetTagFieldNumber tag; t = GetTagWireType tag in
      if n = 1 \<and> t = WIRETYPE_VARINT then
        Some (read_enum L RilCallState_IsValid 1 input m (\<lambda>v. m\<lparr>pc_state := Some v\<rparr>) RilCall_add_unknown)
      else if n = 2 \<and> t = WIRETYPE_VARINT then
        Some (read_value (ReadInt32 L) input m (\<lambda>v. m\<lparr>pc_index := Some v\<rparr>))
      else if n = 3 \<and> t = WIRETYPE_VARINT then
        Some (read_value (ReadInt32 L) input m (\<lambda>v. m\<lparr>pc_toa := Some v\<rparr>))
      else if n = 4 \<and> t = WIRETYPE_VARINT then
        Some (read_value (ReadBool L) input m (\<lambda>v. m\<lparr>pc_is_mpty := Some v\<rparr>))
      else if n = 5 \<and> t = WIRETYPE_VARINT then
        Some (read_value (ReadBool L) input m (\<lambda>v. m\<lparr>pc_is_mt := Some v\<rparr>))
      else if n = 6 \<and> t = WIRETYPE_VARINT then
        Some (read_value (ReadInt32 L) input m (\<lambda>v. m\<lparr>pc_als := Some v\<rparr>))
      else if n = 7 \<and> t = WIRETYPE_VARINT then
        Some (read_value (ReadBool L) input m (\<lambda>v. m\<lparr>pc_is_voice := Some v\<rparr>))
      else if n = 8 \<and> t = WIRETYPE_VARINT then
        Some (read_value (ReadBool L) input m (\<lambda>v. m\<lparr>pc_is_voice_privacy := Some v\<rparr>))
      else if n = 9 \<and> t = WIRETYPE_LENGTH_DELIMITED then
        Some (read_into (ReadString L) input (\<lambda>v. m\<lparr>pc_number := Some v\<rparr>))
      else if n = 10 \<and> t = WIRETYPE_VARINT then
        Some (read_value (ReadInt32 L) input m (\<lambda>v. m\<lparr>pc_number_presentation := Some v\<rparr>))
      else if n = 11 \<and> t = WIRETYPE_LENGTH_DELIMITED then
        Some (read_into (ReadString L) input (\<lambda>v. m\<lparr>pc_name := Some v\<rparr>))
      else if n = 12 \<and> t = WIRETYPE_VARINT then
        Some (read_value (ReadInt32 L) input m (\<lambda>v. m\<lparr>pc_name_presentation := Some v\<rparr>))
      else if n = 13 \<and> t = WIRETYPE_LENGTH_DELIMITED then
        read_message L (RilUusInfo_MergePartialFromCodedStream L) input (value_or RilUusInfo_new (pc_uus_info m))
             (\<lambda>v. m\<lparr>pc_uus_info := Some v\<rparr>)
      else Some Uninterpreted)"

definition RilCall_MergePartialFromCodedStream :: "wire \<Rightarrow> u8 list \<Rightarrow> RilCall \<Rightarrow> (merged \<times> RilCall) option" where
  "RilCall_MergePartialFromCodedStream L = merge_fields L (RilCall_field L) RilCall_add_unknown"

definition RilCall_ByteSize :: "wire \<Rightarrow> RilCall \<Rightarrow> nat" where
  "RilCall_ByteSize L m =
     field_size (EnumSize L) (pc_state m) + field_size (Int32Size L) (pc_index m) +
     field_size (Int32Size L) (pc_toa m) + field_size (\<lambda>_. 1) (pc_is_mpty m) +
     field_size (\<lambda>_. 1) (pc_is_mt m) + field_size (Int32Size L) (pc_als m) +
     field_size (\<lambda>_. 1) (pc_is_voice m) + field_size (\<lambda>_. 1) (pc_is_voice_privacy m) +
     field_size (StringSize L) (pc_number m) + field_size (Int32Size L) (pc_number_presentation m) +
     field_size (StringSize L) (pc_name m) + field_size (Int32Size L) (pc_name_presentation m) +
     field_size (\<lambda>v. MessageSize L (RilUusInfo_ByteSize L v)) (pc_uus_info m) + length (pc_unknown m)"

definition RilCall_SerializeWithCachedSizes :: "wire \<Rightarrow> RilCall \<Rightarrow> u8 list" where
  "RilCall_SerializeWithCachedSizes L m =
     written (WriteEnum L 1) (pc_state m) @ written (WriteInt32 L 2) (pc_index m) @
     written (WriteInt32 L 3) (pc_toa m) @ written (WriteBool L 4) (pc_is_mpty m) @
     written (WriteBool L 5) (pc_is_mt m) @ written (WriteInt32 L 6) (pc_als m) @
     written (WriteBool L 7) (pc_is_voice m) @ written (WriteBool L 8) (pc_is_voice_privacy m) @
     written (WriteString L 9) (pc_number m) @ written (WriteInt32 L 10) (pc_number_presentation m) @
     written (WriteString L 11) (pc_name m) @ written (WriteInt32 L 12) (pc_name_presentation m) @
     written (\<lambda>v. WriteMessage_wire L 13 (RilUusInfo_ByteSize L v) (RilUusInfo_SerializeWithCachedSizes L v)) (pc_uus_info m) @
     pc_unknown m"

definition RilCall_MergeFrom :: "RilCall \<Rightarrow> RilCall \<Rightarrow> RilCall" where
  "RilCall_MergeFrom src m = m\<lparr>
     pc_state := over (pc_state src) (pc_state m), pc_index := over (pc_index src) (pc_index m),
     pc_toa := over (pc_toa src) (pc_toa m), pc_is_mpty := over (pc_is_mpty src) (pc_is_mpty m),
     pc_is_mt := over (pc_is_mt src) (pc_is_mt m), pc_als := over (pc_als src) (pc_als m),
     pc_is_voice := over (pc_is_voice src) (pc_is_voice m),
     pc_is_voice_privacy := over (pc_is_voice_privacy src) (pc_is_voice_privacy m),
     pc_number := over (pc_number src) (pc_number m),
     pc_number_presentation := over (pc_number_presentation src) (pc_number_presentation m),
     pc_name := over (pc_name src) (pc_name m),
     pc_name_presentation := over (pc_name_presentation src) (pc_name_presentation m),
     pc_uus_info := merge_over RilUusInfo_MergeFrom RilUusInfo_new (pc_uus_info src) (pc_uus_info m),
     pc_unknown := pc_unknown m @ pc_unknown src\<rparr>"

definition RilCall_Clear :: "RilCall \<Rightarrow> RilCall" where
  "RilCall_Clear m = m\<lparr>
     pc_state := None, pc_index := None, pc_toa := None, pc_is_mpty := None, pc_is_mt := None, pc_als := None,
     pc_is_voice := None, pc_is_voice_privacy := None, pc_number := None, pc_number_presentation := None,
     pc_name := None, pc_name_presentation := None, pc_uus_info := None, pc_unknown := []\<rparr>"

definition RilCall_CopyFrom :: "RilCall \<Rightarrow> RilCall \<Rightarrow> RilCall" where
  "RilCall_CopyFrom src m = (if src = m then m else RilCall_MergeFrom src (RilCall_Clear m))"

section \<open>\<open>RILGWSignalStrength\<close>\<close>

record RILGWSignalStrength =
  pgw_signal_strength :: "i32 option"
  pgw_bit_error_rate :: "i32 option"
  pgw_unknown :: "u8 list"

definition RILGWSignalStrength_new :: RILGWSignalStrength where
  "RILGWSignalStrength_new = \<lparr>pgw_signal_strength = None, pgw_bit_error_rate = None, pgw_unknown = []\<rparr>"

definition RILGWSignalStrength_add_unknown :: "u8 list \<Rightarrow> RILGWSignalStrength \<Rightarrow> RILGWSignalStrength" where
  "RILGWSignalStrength_add_unknown raw m = m\<lparr>pgw_unknown := pgw_unknown m @ raw\<rparr>"

definition RILGWSignalStrength_field :: "wire \<Rightarrow> i32 \<Rightarrow> u8 list \<Rightarrow> RILGWSignalStrength \<Rightarrow> RILGWSignalStrength field_result option" where
  "RILGWSignalStrength_field L tag input m =
     (let n = GetTagFieldNumber tag; t = GetTagWireType tag in
      if n = 1 \<and> t = WIRETYPE_VARINT then
        Some (read_value (ReadInt32 L) input m (\<lambda>v. m\<lparr>pgw_signal_strength := Some v\<rparr>))
      else if n = 2 \<and> t = WIRETYPE_VARINT then
        Some (read_value (ReadInt32 L) input m (\<lambda>v. m\<lparr>pgw_bit_error_rate := Some v\<rparr>))
      else Some Uninterpreted)"

definition RILGWSignalStrength_MergePartialFromCodedStream :: "wire \<Rightarrow> u8 list \<Rightarrow> RILGWSignalStrength \<Rightarrow> (merged \<times> RILGWSignalStrength) option" where
  "RILGWSignalStrength_MergePartialFromCodedStream L = merge_fields L (RILGWSignalStrength_field L) RILGWSignalStrength_add_unknown"

definition RILGWSignalStrength_ByteSize :: "wire \<Rightarrow> RILGWSignalStrength \<Rightarrow> nat" where
  "RILGWSignalStrength_ByteSize L m =
     field_size (Int32Size L) (pgw_signal_strength m) + field_size (Int32Size L) (pgw_bit_error_rate m) +
     length (pgw_unknown m)"

definition RILGWSignalStrength_SerializeWithCachedSizes :: "wire \<Rightarrow> RILGWSignalStrength \<Rightarrow> u8 list" where
  "RILGWSignalStrength_SerializeWithCachedSizes L m =
     written (WriteInt32 L 1) (pgw_signal_strength m) @ written (WriteInt32 L 2) (pgw_bit_error_rate m) @
     pgw_unknown m"

definition RILGWSignalStrength_MergeFrom :: "RILGWSignalStrength \<Rightarrow> RILGWSignalStrength \<Rightarrow> RILGWSignalStrength" where
  "RILGWSignalStrength_MergeFrom src m = m\<lparr>
     pgw_signal_strength := over (pgw_signal_strength src) (pgw_signal_strength m),
     pgw_bit_error_rate := over (pgw_bit_error_rate src) (pgw_bit_error_rate m),
     pgw_unknown := pgw_unknown m @ pgw_unknown src\<rparr>"

definition RILGWSignalStrength_Clear :: "RILGWSignalStrength \<Rightarrow> RILGWSignalStrength" where
  "RILGWSignalStrength_Clear m = m\<lparr>
     pgw_signal_strength := None, pgw_bit_error_rate := None, pgw_unknown := []\<rparr>"

definition RILGWSignalStrength_CopyFrom :: "RILGWSignalStrength \<Rightarrow> RILGWSignalStrength \<Rightarrow> RILGWSignalStrength" where
  "RILGWSignalStrength_CopyFrom src m = (if src = m then m else RILGWSignalStrength_MergeFrom src (RILGWSignalStrength_Clear m))"

section \<open>\<open>RILCDMASignalStrength\<close>\<close>

record RILCDMASignalStrength =
  pcdma_dbm :: "i32 option"
  pcdma_ecio :: "i32 option"
  pcdma_unknown :: "u8 list"

definition RILCDMASignalStrength_new :: RILCDMASignalStrength where
  "RILCDMASignalStrength_new = \<lparr>pcdma_dbm = None, pcdma_ecio = None, pcdma_unknown = []\<rparr>"

definition RILCDMASignalStrength_add_unknown :: "u8 list \<Rightarrow> RILCDMASignalStrength \<Rightarrow> RILCDMASignalStrength" where
  "RILCDMASignalStrength_add_unknown raw m = m\<lparr>pcdma_unknown := pcdma_unknown m @ raw\<rparr>"

definition RILCDMASignalStrength_field :: "wire \<Rightarrow> i32 \<Rightarrow> u8 list \<Rightarrow> RILCDMASignalStrength \<Rightarrow> RILCDMASignalStrength field_result option" where
  "RILCDMASignalStrength_field L tag input m =
     (let n = GetTagFieldNumber tag; t = GetTagWireType tag in
      if n = 1 \<and> t = WIRETYPE_VARINT then
        Some (read_value (ReadInt32 L) input m (\<lambda>v. m\<lparr>pcdma_dbm := Some v\<rparr>))
      else if n = 2 \<and> t = WIRETYPE_VARINT then
        Some (read_value (ReadInt32 L) input m (\<lambda>v. m\<lparr>pcdma_ecio := Some v\<rparr>))
      else Some Uninterpreted)"

definition RILCDMASignalStrength_MergePartialFromCodedStream :: "wire \<Rightarrow> u8 list \<Rightarrow> RILCDMASignalStrength \<Rightarrow> (merged \<times> RILCDMASignalStrength) option" where
  "RILCDMASignalStrength_MergePartialFromCodedStream L = merge_fields L (RILCDMASignalStrength_field L) RILCDMASignalStrength_add_unknown"

definition RILCDMASignalStrength_ByteSize :: "wire \<Rightarrow> RILCDMASignalStrength \<Rightarrow> nat" where
  "RILCDMASignalStrength_ByteSize L m =
     field_size (Int32Size L) (pcdma_dbm m) + field_size (Int32Size L) (pcdma_ecio m) + length (pcdma_unknown m)"

definition RILCDMASignalStrength_SerializeWithCachedSizes :: "wire \<Rightarrow> RILCDMASignalStrength \<Rightarrow> u8 list" where
  "RILCDMASignalStrength_SerializeWithCachedSizes L m =
     written (WriteInt32 L 1) (pcdma_dbm m) @ written (WriteInt32 L 2) (pcdma_ecio m) @ pcdma_unknown m"

definition RILCDMASignalStrength_MergeFrom :: "RILCDMASignalStrength \<Rightarrow> RILCDMASignalStrength \<Rightarrow> RILCDMASignalStrength" where
  "RILCDMASignalStrength_MergeFrom src m = m\<lparr>
     pcdma_dbm := over (pcdma_dbm src) (pcdma_dbm m), pcdma_ecio := over (pcdma_ecio src) (pcdma_ecio m),
     pcdma_unknown := pcdma_unknown m @ pcdma_unknown src\<rparr>"

definition RILCDMASignalStrength_Clear :: "RILCDMASignalStrength \<Rightarrow> RILCDMASignalStrength" where
  "RILCDMASignalStrength_Clear m = m\<lparr>
     pcdma_dbm := None, pcdma_ecio := None, pcdma_unknown := []\<rparr>"

definition RILCDMASignalStrength_CopyFrom :: "RILCDMASignalStrength \<Rightarrow> RILCDMASignalStrength \<Rightarrow> RILCDMASignalStrength" where
  "RILCDMASignalStrength_CopyFrom src m = (if src = m then m else RILCDMASignalStrength_MergeFrom src (RILCDMASignalStrength_Clear m))"

section \<open>\<open>RILEVDOSignalStrength\<close>\<close>

record RILEVDOSignalStrength =
  pevdo_dbm :: "i32 option"
  pevdo_ecio :: "i32 option"
  pevdo_signal_noise_ratio :: "i32 option"
  pevdo_unknown :: "u8 list"

definition RILEVDOSignalStrength_new :: RILEVDOSignalStrength where
  "RILEVDOSignalStrength_new = \<lparr>pevdo_dbm = None, pevdo_ecio = None, pevdo_signal_noise_ratio = None, pevdo_unknown = []\<rparr>"

definition RILEVDOSignalStrength_add_unknown :: "u8 list \<Rightarrow> RILEVDOSignalStrength \<Rightarrow> RILEVDOSignalStrength" where
  "RILEVDOSignalStrength_add_unknown raw m = m\<lparr>pevdo_unknown := pevdo_unknown m @ raw\<rparr>"

definition RILEVDOSignalStrength_field :: "wire \<Rightarrow> i32 \<Rightarrow> u8 list \<Rightarrow> RILEVDOSignalStrength \<Rightarrow> RILEVDOSignalStrength field_result option" where
  "RILEVDOSignalStrength_field L tag input m =
     (let n = GetTagFieldNumber tag; t = GetTagWireType tag in
      if n = 1 \<and> t = WIRETYPE_VARINT then
        Some (read_value (ReadInt32 L) input m (\<lambda>v. m\<lparr>pevdo_dbm := Some v\<rparr>))
      else if n = 2 \<and> t = WIRETYPE_VARINT then
        Some (read_value (ReadInt32 L) input m (\<lambda>v. m\<lparr>pevdo_ecio := Some v\<rparr>))
      else if n = 3 \<and> t = WIRETYPE_VARINT then
        Some (read_value (ReadInt32 L) input m (\<lambda>v. m\<lparr>pevdo_signal_noise_ratio := Some v\<rparr>))
      else Some Uninterpreted)"

definition RILEVDOSignalStrength_MergePartialFromCodedStream :: "wire \<Rightarrow> u8 list \<Rightarrow> RILEVDOSignalStrength \<Rightarrow> (merged \<times> RILEVDOSignalStrength) option" where
  "RILEVDOSignalStrength_MergePartialFromCodedStream L = merge_fields L (RILEVDOSignalStrength_field L) RILEVDOSignalStrength_add_unknown"

definition RILEVDOSignalStrength_ByteSize :: "wire \<Rightarrow> RILEVDOSignalStrength \<Rightarrow> nat" where
  "RILEVDOSignalStrength_ByteSize L m =
     field_size (Int32Size L) (pevdo_dbm m) + field_size (Int32Size L) (pevdo_ecio m) +
     field_size (Int32Size L) (pevdo_signal_noise_ratio m) + length (pevdo_unknown m)"

definition RILEVDOSignalStrength_SerializeWithCachedSizes :: "wire \<Rightarrow> RILEVDOSignalStrength \<Rightarrow> u8 list" where
  "RILEVDOSignalStrength_SerializeWithCachedSizes L m =
     written (WriteInt32 L 1) (pevdo_dbm m) @ written (WriteInt32 L 2) (pevdo_ecio m) @
     written (WriteInt32 L 3) (pevdo_signal_noise_ratio m) @ pevdo_unknown m"

definition RILEVDOSignalStrength_MergeFrom :: "RILEVDOSignalStrength \<Rightarrow> RILEVDOSignalStrength \<Rightarrow> RILEVDOSignalStrength" where
  "RILEVDOSignalStrength_MergeFrom src m = m\<lparr>
     pevdo_dbm := over (pevdo_dbm src) (pevdo_dbm m), pevdo_ecio := over (pevdo_ecio src) (pevdo_ecio m),
     pevdo_signal_noise_ratio := over (pevdo_signal_noise_ratio src) (pevdo_signal_noise_ratio m),
     pevdo_unknown := pevdo_unknown m @ pevdo_unknown src\<rparr>"

definition RILEVDOSignalStrength_Clear :: "RILEVDOSignalStrength \<Rightarrow> RILEVDOSignalStrength" where
  "RILEVDOSignalStrength_Clear m = m\<lparr>
     pevdo_dbm := None, pevdo_ecio := None, pevdo_signal_noise_ratio := None, pevdo_unknown := []\<rparr>"

definition RILEVDOSignalStrength_CopyFrom :: "RILEVDOSignalStrength \<Rightarrow> RILEVDOSignalStrength \<Rightarrow> RILEVDOSignalStrength" where
  "RILEVDOSignalStrength_CopyFrom src m = (if src = m then m else RILEVDOSignalStrength_MergeFrom src (RILEVDOSignalStrength_Clear m))"

section \<open>\<open>RspStrings\<close>\<close>

record RspStrings_msg =
  pstr_strings :: "u8 list list"
  pstr_unknown :: "u8 list"

definition RspStrings_new :: RspStrings_msg where
  "RspStrings_new = \<lparr>pstr_strings = [], pstr_unknown = []\<rparr>"

definition RspStrings_add_unknown :: "u8 list \<Rightarrow> RspStrings_msg \<Rightarrow> RspStrings_msg" where
  "RspStrings_add_unknown raw m = m\<lparr>pstr_unknown := pstr_unknown m @ raw\<rparr>"

definition RspStrings_field :: "wire \<Rightarrow> i32 \<Rightarrow> u8 list \<Rightarrow> RspStrings_msg \<Rightarrow> RspStrings_msg field_result option" where
  "RspStrings_field L tag input m =
     (let n = GetTagFieldNumber tag; t = GetTagWireType tag in
      if n = 1 \<and> t = WIRETYPE_LENGTH_DELIMITED then
        Some (read_into (ReadString L) input (\<lambda>v. m\<lparr>pstr_strings := pstr_strings m @ [v]\<rparr>))
      else Some Uninterpreted)"

definition RspStrings_MergePartialFromCodedStream :: "wire \<Rightarrow> u8 list \<Rightarrow> RspStrings_msg \<Rightarrow> (merged \<times> RspStrings_msg) option" where
  "RspStrings_MergePartialFromCodedStream L = merge_fields L (RspStrings_field L) RspStrings_add_unknown"

definition RspStrings_ByteSize :: "wire \<Rightarrow> RspStrings_msg \<Rightarrow> nat" where
  "RspStrings_ByteSize L m =
     length (pstr_strings m) + sum_list (map (StringSize L) (pstr_strings m)) + length (pstr_unknown m)"

definition RspStrings_SerializeWithCachedSizes :: "wire \<Rightarrow> RspStrings_msg \<Rightarrow> u8 list" where
  "RspStrings_SerializeWithCachedSizes L m =
     concat (map (WriteString L 1) (pstr_strings m)) @ pstr_unknown m"

definition RspStrings_MergeFrom :: "RspStrings_msg \<Rightarrow> RspStrings_msg \<Rightarrow> RspStrings_msg" where
  "RspStrings_MergeFrom src m = m\<lparr>
     pstr_strings := pstr_strings m @ pstr_strings src, pstr_unknown := pstr_unknown m @ pstr_unknown src\<rparr>"

definition RspStrings_Clear :: "RspStrings_msg \<Rightarrow> RspStrings_msg" where
  "RspStrings_Clear m = m\<lparr>
     pstr_strings := [], pstr_unknown := []\<rparr>"

definition RspStrings_CopyFrom :: "RspStrings_msg \<Rightarrow> RspStrings_msg \<Rightarrow> RspStrings_msg" where
  "RspStrings_CopyFrom src m = (if src = m then m else RspStrings_MergeFrom src (RspStrings_Clear m))"

section \<open>\<open>RspIntegers\<close>\<close>

record RspIntegers_msg =
  pint_integers :: "i32 list"
  pint_unknown :: "u8 list"

definition RspIntegers_new :: RspIntegers_msg where
  "RspIntegers_new = \<lparr>pint_integers = [], pint_unknown = []\<rparr>"

definition RspIntegers_add_unknown :: "u8 list \<Rightarrow> RspIntegers_msg \<Rightarrow> RspIntegers_msg" where
  "RspIntegers_add_unknown raw m = m\<lparr>pint_unknown := pint_unknown m @ raw\<rparr>"

definition RspIntegers_field :: "wire \<Rightarrow> i32 \<Rightarrow> u8 list \<Rightarrow> RspIntegers_msg \<Rightarrow> RspIntegers_msg field_result option" where
  "RspIntegers_field L tag input m =
     (let n = GetTagFieldNumber tag; t = GetTagWireType tag in
      if n = 1 \<and> t = WIRETYPE_VARINT then
        Some (read_value (ReadInt32 L) input m (\<lambda>v. m\<lparr>pint_integers := pint_integers m @ [v]\<rparr>))
      else if n = 1 \<and> t = WIRETYPE_LENGTH_DELIMITED then
        Some (read_into (ReadPackedInt32 L) input (\<lambda>vs. m\<lparr>pint_integers := pint_integers m @ vs\<rparr>))
      else Some Uninterpreted)"

definition RspIntegers_MergePartialFromCodedStream :: "wire \<Rightarrow> u8 list \<Rightarrow> RspIntegers_msg \<Rightarrow> (merged \<times> RspIntegers_msg) option" where
  "RspIntegers_MergePartialFromCodedStream L = merge_fields L (RspIntegers_field L) RspIntegers_add_unknown"

definition RspIntegers_ByteSize :: "wire \<Rightarrow> RspIntegers_msg \<Rightarrow> nat" where
  "RspIntegers_ByteSize L m =
     length (pint_integers m) + sum_list (map (Int32Size L) (pint_integers m)) + length (pint_unknown m)"

definition RspIntegers_SerializeWithCachedSizes :: "wire \<Rightarrow> RspIntegers_msg \<Rightarrow> u8 list" where
  "RspIntegers_SerializeWithCachedSizes L m =
     concat (map (WriteInt32 L 1) (pint_integers m)) @ pint_unknown m"

definition RspIntegers_MergeFrom :: "RspIntegers_msg \<Rightarrow> RspIntegers_msg \<Rightarrow> RspIntegers_msg" where
  "RspIntegers_MergeFrom src m = m\<lparr>
     pint_integers := pint_integers m @ pint_integers src, pint_unknown := pint_unknown m @ pint_unknown src\<rparr>"

definition RspIntegers_Clear :: "RspIntegers_msg \<Rightarrow> RspIntegers_msg" where
  "RspIntegers_Clear m = m\<lparr>
     pint_integers := [], pint_unknown := []\<rparr>"

definition RspIntegers_CopyFrom :: "RspIntegers_msg \<Rightarrow> RspIntegers_msg \<Rightarrow> RspIntegers_msg" where
  "RspIntegers_CopyFrom src m = (if src = m then m else RspIntegers_MergeFrom src (RspIntegers_Clear m))"

section \<open>\<open>RspGetSimStatus\<close>\<close>

record RspGetSimStatus_msg =
  psim_card_status :: "RilCardStatus option"
  psim_unknown :: "u8 list"

definition RspGetSimStatus_new :: RspGetSimStatus_msg where
  "RspGetSimStatus_new = \<lparr>psim_card_status = None, psim_unknown = []\<rparr>"

definition RspGetSimStatus_add_unknown :: "u8 list \<Rightarrow> RspGetSimStatus_msg \<Rightarrow> RspGetSimStatus_msg" where
  "RspGetSimStatus_add_unknown raw m = m\<lparr>psim_unknown := psim_unknown m @ raw\<rparr>"

definition RspGetSimStatus_field :: "wire \<Rightarrow> i32 \<Rightarrow> u8 list \<Rightarrow> RspGetSimStatus_msg \<Rightarrow> RspGetSimStatus_msg field_result option" where
  "RspGetSimStatus_field L tag input m =
     (let n = GetTagFieldNumber tag; t = GetTagWireType tag in
      if n = 1 \<and> t = WIRETYPE_LENGTH_DELIMITED then
        read_message L (RilCardStatus_MergePartialFromCodedStream L) input (value_or RilCardStatus_new (psim_card_status m))
             (\<lambda>v. m\<lparr>psim_card_status := Some v\<rparr>)
      else Some Uninterpreted)"

definition RspGetSimStatus_MergePartialFromCodedStream :: "wire \<Rightarrow> u8 list \<Rightarrow> RspGetSimStatus_msg \<Rightarrow> (merged \<times> RspGetSimStatus_msg) option" where
  "RspGetSimStatus_MergePartialFromCodedStream L = merge_fields L (RspGetSimStatus_field L) RspGetSimStatus_add_unknown"

definition RspGetSimStatus_ByteSize :: "wire \<Rightarrow> RspGetSimStatus_msg \<Rightarrow> nat" where
  "RspGetSimStatus_ByteSize L m =
     field_size (\<lambda>v. MessageSize L (RilCardStatus_ByteSize L v)) (psim_card_status m) +
     length (psim_unknown m)"

definition RspGetSimStatus_SerializeWithCachedSizes :: "wire \<Rightarrow> RspGetSimStatus_msg \<Rightarrow> u8 list" where
  "RspGetSimStatus_SerializeWithCachedSizes L m =
     written (\<lambda>v. WriteMessage_wire L 1 (RilCardStatus_ByteSize L v) (RilCardStatus_SerializeWithCachedSizes L v)) (psim_card_status m) @
     psim_unknown m"

definition RspGetSimStatus_MergeFrom :: "RspGetSimStatus_msg \<Rightarrow> RspGetSimStatus_msg \<Rightarrow> RspGetSimStatus_msg" where
  "RspGetSimStatus_MergeFrom src m = m\<lparr>
     psim_card_status := merge_over RilCardStatus_MergeFrom RilCardStatus_new (psim_card_status src) (psim_card_status m),
     psim_unknown := psim_unknown m @ psim_unknown src\<rparr>"

definition RspGetSimStatus_Clear :: "RspGetSimStatus_msg \<Rightarrow> RspGetSimStatus_msg" where
  "RspGetSimStatus_Clear m = m\<lparr>
     psim_card_status := None, psim_unknown := []\<rparr>"

definition RspGetSimStatus_CopyFrom :: "RspGetSimStatus_msg \<Rightarrow> RspGetSimStatus_msg \<Rightarrow> RspGetSimStatus_msg" where
  "RspGetSimStatus_CopyFrom src m = (if src = m then m else RspGetSimStatus_MergeFrom src (RspGetSimStatus_Clear m))"

definition RspGetSimStatus_IsInitialized :: "RspGetSimStatus_msg \<Rightarrow> bool" where
  "RspGetSimStatus_IsInitialized m \<longleftrightarrow> psim_card_status m \<noteq> None"

section \<open>\<open>ReqEnterSimPin\<close>\<close>

record ReqEnterSimPin_msg =
  pin_pin :: "u8 list option"
  pin_unknown :: "u8 list"

definition ReqEnterSimPin_new :: ReqEnterSimPin_msg where
  "ReqEnterSimPin_new = \<lparr>pin_pin = None, pin_unknown = []\<rparr>"

definition ReqEnterSimPin_add_unknown :: "u8 list \<Rightarrow> ReqEnterSimPin_msg \<Rightarrow> ReqEnterSimPin_msg" where
  "ReqEnterSimPin_add_unknown raw m = m\<lparr>pin_unknown := pin_unknown m @ raw\<rparr>"

definition ReqEnterSimPin_field :: "wire \<Rightarrow> i32 \<Rightarrow> u8 list \<Rightarrow> ReqEnterSimPin_msg \<Rightarrow> ReqEnterSimPin_msg field_result option" where
  "ReqEnterSimPin_field L tag input m =
     (let n = GetTagFieldNumber tag; t = GetTagWireType tag in
      if n = 1 \<and> t = WIRETYPE_LENGTH_DELIMITED then
        Some (read_into (ReadString L) input (\<lambda>v. m\<lparr>pin_pin := Some v\<rparr>))
      else Some Uninterpreted)"

definition ReqEnterSimPin_MergePartialFromCodedStream :: "wire \<Rightarrow> u8 list \<Rightarrow> ReqEnterSimPin_msg \<Rightarrow> (merged \<times> ReqEnterSimPin_msg) option" where
  "ReqEnterSimPin_MergePartialFromCodedStream L = merge_fields L (ReqEnterSimPin_field L) ReqEnterSimPin_add_unknown"

definition ReqEnterSimPin_ByteSize :: "wire \<Rightarrow> ReqEnterSimPin_msg \<Rightarrow> nat" where
  "ReqEnterSimPin_ByteSize L m =
     field_size (StringSize L) (pin_pin m) + length (pin_unknown m)"

definition ReqEnterSimPin_SerializeWithCachedSizes :: "wire \<Rightarrow> ReqEnterSimPin_msg \<Rightarrow> u8 list" where
  "ReqEnterSimPin_SerializeWithCachedSizes L m =
     written (WriteString L 1) (pin_pin m) @ pin_unknown m"

definition ReqEnterSimPin_MergeFrom :: "ReqEnterSimPin_msg \<Rightarrow> ReqEnterSimPin_msg \<Rightarrow> ReqEnterSimPin_msg" where
  "ReqEnterSimPin_MergeFrom src m = m\<lparr>
     pin_pin := over (pin_pin src) (pin_pin m), pin_unknown := pin_unknown m @ pin_unknown src\<rparr>"

definition ReqEnterSimPin_Clear :: "ReqEnterSimPin_msg \<Rightarrow> ReqEnterSimPin_msg" where
  "ReqEnterSimPin_Clear m = m\<lparr>
     pin_pin := None, pin_unknown := []\<rparr>"

definition ReqEnterSimPin_CopyFrom :: "ReqEnterSimPin_msg \<Rightarrow> ReqEnterSimPin_msg \<Rightarrow> ReqEnterSimPin_msg" where
  "ReqEnterSimPin_CopyFrom src m = (if src = m then m else ReqEnterSimPin_MergeFrom src (ReqEnterSimPin_Clear m))"

definition ReqEnterSimPin_IsInitialized :: "ReqEnterSimPin_msg \<Rightarrow> bool" where
  "ReqEnterSimPin_IsInitialized m \<longleftrightarrow> pin_pin m \<noteq> None"

section \<open>\<open>RspEnterSimPin\<close>\<close>

record RspEnterSimPin_msg =
  pret_retries_remaining :: "i32 option"
  pret_unknown :: "u8 list"

definition RspEnterSimPin_new :: RspEnterSimPin_msg where
  "RspEnterSimPin_new = \<lparr>pret_retries_remaining = None, pret_unknown = []\<rparr>"

definition RspEnterSimPin_add_unknown :: "u8 list \<Rightarrow> RspEnterSimPin_msg \<Rightarrow> RspEnterSimPin_msg" where
  "RspEnterSimPin_add_unknown raw m = m\<lparr>pret_unknown := pret_unknown m @ raw\<rparr>"

definition RspEnterSimPin_field :: "wire \<Rightarrow> i32 \<Rightarrow> u8 list \<Rightarrow> RspEnterSimPin_msg \<Rightarrow> RspEnterSimPin_msg field_result option" where
  "RspEnterSimPin_field L tag input m =
     (let n = GetTagFieldNumber tag; t = GetTagWireType tag in
      if n = 1 \<and> t = WIRETYPE_VARINT then
        Some (read_value (ReadInt32 L) input m (\<lambda>v. m\<lparr>pret_retries_remaining := Some v\<rparr>))
      else Some Uninterpreted)"

definition RspEnterSimPin_MergePartialFromCodedStream :: "wire \<Rightarrow> u8 list \<Rightarrow> RspEnterSimPin_msg \<Rightarrow> (merged \<times> RspEnterSimPin_msg) option" where
  "RspEnterSimPin_MergePartialFromCodedStream L = merge_fields L (RspEnterSimPin_field L) RspEnterSimPin_add_unknown"

definition RspEnterSimPin_ByteSize :: "wire \<Rightarrow> RspEnterSimPin_msg \<Rightarrow> nat" where
  "RspEnterSimPin_ByteSize L m =
     field_size (Int32Size L) (pret_retries_remaining m) + length (pret_unknown m)"

definition RspEnterSimPin_SerializeWithCachedSizes :: "wire \<Rightarrow> RspEnterSimPin_msg \<Rightarrow> u8 list" where
  "RspEnterSimPin_SerializeWithCachedSizes L m =
     written (WriteInt32 L 1) (pret_retries_remaining m) @ pret_unknown m"

definition RspEnterSimPin_MergeFrom :: "RspEnterSimPin_msg \<Rightarrow> RspEnterSimPin_msg \<Rightarrow> RspEnterSimPin_msg" where
  "RspEnterSimPin_MergeFrom src m = m\<lparr>
     pret_retries_remaining := over (pret_retries_remaining src) (pret_retries_remaining m),
     pret_unknown := pret_unknown m @ pret_unknown src\<rparr>"

definition RspEnterSimPin_Clear :: "RspEnterSimPin_msg \<Rightarrow> RspEnterSimPin_msg" where
  "RspEnterSimPin_Clear m = m\<lparr>
     pret_retries_remaining := None, pret_unknown := []\<rparr>"

definition RspEnterSimPin_CopyFrom :: "RspEnterSimPin_msg \<Rightarrow> RspEnterSimPin_msg \<Rightarrow> RspEnterSimPin_msg" where
  "RspEnterSimPin_CopyFrom src m = (if src = m then m else RspEnterSimPin_MergeFrom src (RspEnterSimPin_Clear m))"

definition RspEnterSimPin_IsInitialized :: "RspEnterSimPin_msg \<Rightarrow> bool" where
  "RspEnterSimPin_IsInitialized m \<longleftrightarrow> pret_retries_remaining m \<noteq> None"

section \<open>\<open>RspGetCurrentCalls\<close>\<close>

record RspGetCurrentCalls_msg =
  pcalls_calls :: "RilCall list"
  pcalls_unknown :: "u8 list"

definition RspGetCurrentCalls_new :: RspGetCurrentCalls_msg where
  "RspGetCurrentCalls_new = \<lparr>pcalls_calls = [], pcalls_unknown = []\<rparr>"

definition RspGetCurrentCalls_add_unknown :: "u8 list \<Rightarrow> RspGetCurrentCalls_msg \<Rightarrow> RspGetCurrentCalls_msg" where
  "RspGetCurrentCalls_add_unknown raw m = m\<lparr>pcalls_unknown := pcalls_unknown m @ raw\<rparr>"

definition RspGetCurrentCalls_field :: "wire \<Rightarrow> i32 \<Rightarrow> u8 list \<Rightarrow> RspGetCurrentCalls_msg \<Rightarrow> RspGetCurrentCalls_msg field_result option" where
  "RspGetCurrentCalls_field L tag input m =
     (let n = GetTagFieldNumber tag; t = GetTagWireType tag in
      if n = 1 \<and> t = WIRETYPE_LENGTH_DELIMITED then
        read_message L (RilCall_MergePartialFromCodedStream L) input RilCall_new
             (\<lambda>v. m\<lparr>pcalls_calls := pcalls_calls m @ [v]\<rparr>)
      else Some Uninterpreted)"

definition RspGetCurrentCalls_MergePartialFromCodedStream :: "wire \<Rightarrow> u8 list \<Rightarrow> RspGetCurrentCalls_msg \<Rightarrow> (merged \<times> RspGetCurrentCalls_msg) option" where
  "RspGetCurrentCalls_MergePartialFromCodedStream L = merge_fields L (RspGetCurrentCalls_field L) RspGetCurrentCalls_add_unknown"

definition RspGetCurrentCalls_ByteSize :: "wire \<Rightarrow> RspGetCurrentCalls_msg \<Rightarrow> nat" where
  "RspGetCurrentCalls_ByteSize L m =
     length (pcalls_calls m) + sum_list (map (\<lambda>v. MessageSize L (RilCall_ByteSize L v)) (pcalls_calls m)) +
     length (pcalls_unknown m)"

definition RspGetCurrentCalls_SerializeWithCachedSizes :: "wire \<Rightarrow> RspGetCurrentCalls_msg \<Rightarrow> u8 list" where
  "RspGetCurrentCalls_SerializeWithCachedSizes L m =
     concat (map (\<lambda>v. WriteMessage_wire L 1 (RilCall_ByteSize L v) (RilCall_SerializeWithCachedSizes L v)) (pcalls_calls m)) @
     pcalls_unknown m"

definition RspGetCurrentCalls_MergeFrom :: "RspGetCurrentCalls_msg \<Rightarrow> RspGetCurrentCalls_msg \<Rightarrow> RspGetCurrentCalls_msg" where
  "RspGetCurrentCalls_MergeFrom src m = m\<lparr>
     pcalls_calls := pcalls_calls m @ pcalls_calls src,
     pcalls_unknown := pcalls_unknown m @ pcalls_unknown src\<rparr>"

definition RspGetCurrentCalls_Clear :: "RspGetCurrentCalls_msg \<Rightarrow> RspGetCurrentCalls_msg" where
  "RspGetCurrentCalls_Clear m = m\<lparr>
     pcalls_calls := [], pcalls_unknown := []\<rparr>"

definition RspGetCurrentCalls_CopyFrom :: "RspGetCurrentCalls_msg \<Rightarrow> RspGetCurrentCalls_msg \<Rightarrow> RspGetCurrentCalls_msg" where
  "RspGetCurrentCalls_CopyFrom src m = (if src = m then m else RspGetCurrentCalls_MergeFrom src (RspGetCurrentCalls_Clear m))"

section \<open>\<open>ReqDial\<close>\<close>

record ReqDial_msg =
  pd_address :: "u8 list option"
  pd_clir :: "i32 option"
  pd_uus_info :: "RilUusInfo option"
  pd_unknown :: "u8 list"

definition ReqDial_new :: ReqDial_msg where
  "ReqDial_new = \<lparr>pd_address = None, pd_clir = None, pd_uus_info = None, pd_unknown = []\<rparr>"

definition ReqDial_add_unknown :: "u8 list \<Rightarrow> ReqDial_msg \<Rightarrow> ReqDial_msg" where
  "ReqDial_add_unknown raw m = m\<lparr>pd_unknown := pd_unknown m @ raw\<rparr>"

definition ReqDial_field :: "wire \<Rightarrow> i32 \<Rightarrow> u8 list \<Rightarrow> ReqDial_msg \<Rightarrow> ReqDial_msg field_result option" where
  "ReqDial_field L tag input m =
     (let n = GetTagFieldNumber tag; t = GetTagWireType tag in
      if n = 1 \<and> t = WIRETYPE_LENGTH_DELIMITED then
        Some (read_into (ReadString L) input (\<lambda>v. m\<lparr>pd_address := Some v\<rparr>))
      else if n = 2 \<and> t = WIRETYPE_VARINT then
        Some (read_value (ReadInt32 L) input m (\<lambda>v. m\<lparr>pd_clir := Some v\<rparr>))
      else if n = 3 \<and> t = WIRETYPE_LENGTH_DELIMITED then
        read_message L (RilUusInfo_MergePartialFromCodedStream L) input (value_or RilUusInfo_new (pd_uus_info m))
             (\<lambda>v. m\<lparr>pd_uus_info := Some v\<rparr>)
      else Some Uninterpreted)"

definition ReqDial_MergePartialFromCodedStream :: "wire \<Rightarrow> u8 list \<Rightarrow> ReqDial_msg \<Rightarrow> (merged \<times> ReqDial_msg) option" where
  "ReqDial_MergePartialFromCodedStream L = merge_fields L (ReqDial_field L) ReqDial_add_unknown"

definition ReqDial_ByteSize :: "wire \<Rightarrow> ReqDial_msg \<Rightarrow> nat" where
  "ReqDial_ByteSize L m =
     field_size (StringSize L) (pd_address m) + field_size (Int32Size L) (pd_clir m) +
     field_size (\<lambda>v. MessageSize L (RilUusInfo_ByteSize L v)) (pd_uus_info m) + length (pd_unknown m)"

definition ReqDial_SerializeWithCachedSizes :: "wire \<Rightarrow> ReqDial_msg \<Rightarrow> u8 list" where
  "ReqDial_SerializeWithCachedSizes L m =
     written (WriteString L 1) (pd_address m) @ written (WriteInt32 L 2) (pd_clir m) @
     written (\<lambda>v. WriteMessage_wire L 3 (RilUusInfo_ByteSize L v) (RilUusInfo_SerializeWithCachedSizes L v)) (pd_uus_info m) @
     pd_unknown m"

definition ReqDial_MergeFrom :: "ReqDial_msg \<Rightarrow> ReqDial_msg \<Rightarrow> ReqDial_msg" where
  "ReqDial_MergeFrom src m = m\<lparr>
     pd_address := over (pd_address src) (pd_address m), pd_clir := over (pd_clir src) (pd_clir m),
     pd_uus_info := merge_over RilUusInfo_MergeFrom RilUusInfo_new (pd_uus_info src) (pd_uus_info m),
     pd_unknown := pd_unknown m @ pd_unknown src\<rparr>"

definition ReqDial_Clear :: "ReqDial_msg \<Rightarrow> ReqDial_msg" where
  "ReqDial_Clear m = m\<lparr>
     pd_address := None, pd_clir := None, pd_uus_info := None, pd_unknown := []\<rparr>"

definition ReqDial_CopyFrom :: "ReqDial_msg \<Rightarrow> ReqDial_msg \<Rightarrow> ReqDial_msg" where
  "ReqDial_CopyFrom src m = (if src = m then m else ReqDial_MergeFrom src (ReqDial_Clear m))"

section \<open>\<open>ReqHangUp\<close>\<close>

record ReqHangUp_msg =
  phang_connection_index :: "i32 option"
  phang_unknown :: "u8 list"

definition ReqHangUp_new :: ReqHangUp_msg where
  "ReqHangUp_new = \<lparr>phang_connection_index = None, phang_unknown = []\<rparr>"

definition ReqHangUp_add_unknown :: "u8 list \<Rightarrow> ReqHangUp_msg \<Rightarrow> ReqHangUp_msg" where
  "ReqHangUp_add_unknown raw m = m\<lparr>phang_unknown := phang_unknown m @ raw\<rparr>"

definition ReqHangUp_field :: "wire \<Rightarrow> i32 \<Rightarrow> u8 list \<Rightarrow> ReqHangUp_msg \<Rightarrow> ReqHangUp_msg field_result option" where
  "ReqHangUp_field L tag input m =
     (let n = GetTagFieldNumber tag; t = GetTagWireType tag in
      if n = 1 \<and> t = WIRETYPE_VARINT then
        Some (read_value (ReadInt32 L) input m (\<lambda>v. m\<lparr>phang_connection_index := Some v\<rparr>))
      else Some Uninterpreted)"

definition ReqHangUp_MergePartialFromCodedStream :: "wire \<Rightarrow> u8 list \<Rightarrow> ReqHangUp_msg \<Rightarrow> (merged \<times> ReqHangUp_msg) option" where
  "ReqHangUp_MergePartialFromCodedStream L = merge_fields L (ReqHangUp_field L) ReqHangUp_add_unknown"

definition ReqHangUp_ByteSize :: "wire \<Rightarrow> ReqHangUp_msg \<Rightarrow> nat" where
  "ReqHangUp_ByteSize L m =
     field_size (Int32Size L) (phang_connection_index m) + length (phang_unknown m)"

definition ReqHangUp_SerializeWithCachedSizes :: "wire \<Rightarrow> ReqHangUp_msg \<Rightarrow> u8 list" where
  "ReqHangUp_SerializeWithCachedSizes L m =
     written (WriteInt32 L 1) (phang_connection_index m) @ phang_unknown m"

definition ReqHangUp_MergeFrom :: "ReqHangUp_msg \<Rightarrow> ReqHangUp_msg \<Rightarrow> ReqHangUp_msg" where
  "ReqHangUp_MergeFrom src m = m\<lparr>
     phang_connection_index := over (phang_connection_index src) (phang_connection_index m),
     phang_unknown := phang_unknown m @ phang_unknown src\<rparr>"

definition ReqHangUp_Clear :: "ReqHangUp_msg \<Rightarrow> ReqHangUp_msg" where
  "ReqHangUp_Clear m = m\<lparr>
     phang_connection_index := None, phang_unknown := []\<rparr>"

definition ReqHangUp_CopyFrom :: "ReqHangUp_msg \<Rightarrow> ReqHangUp_msg \<Rightarrow> ReqHangUp_msg" where
  "ReqHangUp_CopyFrom src m = (if src = m then m else ReqHangUp_MergeFrom src (ReqHangUp_Clear m))"

definition ReqHangUp_IsInitialized :: "ReqHangUp_msg \<Rightarrow> bool" where
  "ReqHangUp_IsInitialized m \<longleftrightarrow> phang_connection_index m \<noteq> None"

section \<open>\<open>RspLastCallFailCause\<close>\<close>

record RspLastCallFailCause_msg =
  pcause_last_call_fail_cause :: "i32 option"
  pcause_unknown :: "u8 list"

definition RspLastCallFailCause_new :: RspLastCallFailCause_msg where
  "RspLastCallFailCause_new = \<lparr>pcause_last_call_fail_cause = None, pcause_unknown = []\<rparr>"

definition RspLastCallFailCause_add_unknown :: "u8 list \<Rightarrow> RspLastCallFailCause_msg \<Rightarrow> RspLastCallFailCause_msg" where
  "RspLastCallFailCause_add_unknown raw m = m\<lparr>pcause_unknown := pcause_unknown m @ raw\<rparr>"

definition RspLastCallFailCause_field :: "wire \<Rightarrow> i32 \<Rightarrow> u8 list \<Rightarrow> RspLastCallFailCause_msg \<Rightarrow> RspLastCallFailCause_msg field_result option" where
  "RspLastCallFailCause_field L tag input m =
     (let n = GetTagFieldNumber tag; t = GetTagWireType tag in
      if n = 1 \<and> t = WIRETYPE_VARINT then
        Some (read_value (ReadInt32 L) input m (\<lambda>v. m\<lparr>pcause_last_call_fail_cause := Some v\<rparr>))
      else Some Uninterpreted)"

definition RspLastCallFailCause_MergePartialFromCodedStream :: "wire \<Rightarrow> u8 list \<Rightarrow> RspLastCallFailCause_msg \<Rightarrow> (merged \<times> RspLastCallFailCause_msg) option" where
  "RspLastCallFailCause_MergePartialFromCodedStream L = merge_fields L (RspLastCallFailCause_field L) RspLastCallFailCause_add_unknown"

definition RspLastCallFailCause_ByteSize :: "wire \<Rightarrow> RspLastCallFailCause_msg \<Rightarrow> nat" where
  "RspLastCallFailCause_ByteSize L m =
     field_size (Int32Size L) (pcause_last_call_fail_cause m) + length (pcause_unknown m)"

definition RspLastCallFailCause_SerializeWithCachedSizes :: "wire \<Rightarrow> RspLastCallFailCause_msg \<Rightarrow> u8 list" where
  "RspLastCallFailCause_SerializeWithCachedSizes L m =
     written (WriteInt32 L 1) (pcause_last_call_fail_cause m) @ pcause_unknown m"

definition RspLastCallFailCause_MergeFrom :: "RspLastCallFailCause_msg \<Rightarrow> RspLastCallFailCause_msg \<Rightarrow> RspLastCallFailCause_msg" where
  "RspLastCallFailCause_MergeFrom src m = m\<lparr>
     pcause_last_call_fail_cause := over (pcause_last_call_fail_cause src) (pcause_last_call_fail_cause m),
     pcause_unknown := pcause_unknown m @ pcause_unknown src\<rparr>"

definition RspLastCallFailCause_Clear :: "RspLastCallFailCause_msg \<Rightarrow> RspLastCallFailCause_msg" where
  "RspLastCallFailCause_Clear m = m\<lparr>
     pcause_last_call_fail_cause := None, pcause_unknown := []\<rparr>"

definition RspLastCallFailCause_CopyFrom :: "RspLastCallFailCause_msg \<Rightarrow> RspLastCallFailCause_msg \<Rightarrow> RspLastCallFailCause_msg" where
  "RspLastCallFailCause_CopyFrom src m = (if src = m then m else RspLastCallFailCause_MergeFrom src (RspLastCallFailCause_Clear m))"

definition RspLastCallFailCause_IsInitialized :: "RspLastCallFailCause_msg \<Rightarrow> bool" where
  "RspLastCallFailCause_IsInitialized m \<longleftrightarrow> pcause_last_call_fail_cause m \<noteq> None"

section \<open>\<open>RspSignalStrength\<close>\<close>

record RspSignalStrength_msg =
  pss_gw_signalstrength :: "RILGWSignalStrength option"
  pss_cdma_signalstrength :: "RILCDMASignalStrength option"
  pss_evdo_signalstrength :: "RILEVDOSignalStrength option"
  pss_unknown :: "u8 list"

definition RspSignalStrength_new :: RspSignalStrength_msg where
  "RspSignalStrength_new = \<lparr>pss_gw_signalstrength = None, pss_cdma_signalstrength = None, pss_evdo_signalstrength = None,
     pss_unknown = []\<rparr>"

definition RspSignalStrength_add_unknown :: "u8 list \<Rightarrow> RspSignalStrength_msg \<Rightarrow> RspSignalStrength_msg" where
  "RspSignalStrength_add_unknown raw m = m\<lparr>pss_unknown := pss_unknown m @ raw\<rparr>"

definition RspSignalStrength_field :: "wire \<Rightarrow> i32 \<Rightarrow> u8 list \<Rightarrow> RspSignalStrength_msg \<Rightarrow> RspSignalStrength_msg field_result option" where
  "RspSignalStrength_field L tag input m =
     (let n = GetTagFieldNumber tag; t = GetTagWireType tag in
      if n = 1 \<and> t = WIRETYPE_LENGTH_DELIMITED then
        read_message L (RILGWSignalStrength_MergePartialFromCodedStream L) input (value_or RILGWSignalStrength_new (pss_gw_signalstrength m))
             (\<lambda>v. m\<lparr>pss_gw_signalstrength := Some v\<rparr>)
      else if n = 2 \<and> t = WIRETYPE_LENGTH_DELIMITED then
        read_message L (RILCDMASignalStrength_MergePartialFromCodedStream L) input (value_or RILCDMASignalStrength_new (pss_cdma_signalstrength m))
             (\<lambda>v. m\<lparr>pss_cdma_signalstrength := Some v\<rparr>)
      else if n = 3 \<and> t = WIRETYPE_LENGTH_DELIMITED then
        read_message L (RILEVDOSignalStrength_MergePartialFromCodedStream L) input (value_or RILEVDOSignalStrength_new (pss_evdo_signalstrength m))
             (\<lambda>v. m\<lparr>pss_evdo_signalstrength := Some v\<rparr>)
      else Some Uninterpreted)"

definition RspSignalStrength_MergePartialFromCodedStream :: "wire \<Rightarrow> u8 list \<Rightarrow> RspSignalStrength_msg \<Rightarrow> (merged \<times> RspSignalStrength_msg) option" where
  "RspSignalStrength_MergePartialFromCodedStream L = merge_fields L (RspSignalStrength_field L) RspSignalStrength_add_unknown"

definition RspSignalStrength_ByteSize :: "wire \<Rightarrow> RspSignalStrength_msg \<Rightarrow> nat" where
  "RspSignalStrength_ByteSize L m =
     field_size (\<lambda>v. MessageSize L (RILGWSignalStrength_ByteSize L v)) (pss_gw_signalstrength m) +
     field_size (\<lambda>v. MessageSize L (RILCDMASignalStrength_ByteSize L v)) (pss_cdma_signalstrength m) +
     field_size (\<lambda>v. MessageSize L (RILEVDOSignalStrength_ByteSize L v)) (pss_evdo_signalstrength m) +
     length (pss_unknown m)"

definition RspSignalStrength_SerializeWithCachedSizes :: "wire \<Rightarrow> RspSignalStrength_msg \<Rightarrow> u8 list" where
  "RspSignalStrength_SerializeWithCachedSizes L m =
     written (\<lambda>v. WriteMessage_wire L 1 (RILGWSignalStrength_ByteSize L v) (RILGWSignalStrength_SerializeWithCachedSizes L v)) (pss_gw_signalstrength m) @
     written (\<lambda>v. WriteMessage_wire L 2 (RILCDMASignalStrength_ByteSize L v) (RILCDMASignalStrength_SerializeWithCachedSizes L v)) (pss_cdma_signalstrength m) @
     written (\<lambda>v. WriteMessage_wire L 3 (RILEVDOSignalStrength_ByteSize L v) (RILEVDOSignalStrength_SerializeWithCachedSizes L v)) (pss_evdo_signalstrength m) @
     pss_unknown m"

definition RspSignalStrength_MergeFrom :: "RspSignalStrength_msg \<Rightarrow> RspSignalStrength_msg \<Rightarrow> RspSignalStrength_msg" where
  "RspSignalStrength_MergeFrom src m = m\<lparr>
     pss_gw_signalstrength := merge_over RILGWSignalStrength_MergeFrom RILGWSignalStrength_new (pss_gw_signalstrength src) (pss_gw_signalstrength m),
     pss_cdma_signalstrength := merge_over RILCDMASignalStrength_MergeFrom RILCDMASignalStrength_new (pss_cdma_signalstrength src) (pss_cdma_signalstrength m),
     pss_evdo_signalstrength := merge_over RILEVDOSignalStrength_MergeFrom RILEVDOSignalStrength_new (pss_evdo_signalstrength src) (pss_evdo_signalstrength m),
     pss_unknown := pss_unknown m @ pss_unknown src\<rparr>"

definition RspSignalStrength_Clear :: "RspSignalStrength_msg \<Rightarrow> RspSignalStrength_msg" where
  "RspSignalStrength_Clear m = m\<lparr>
     pss_gw_signalstrength := None, pss_cdma_signalstrength := None, pss_evdo_signalstrength := None,
     pss_unknown := []\<rparr>"

definition RspSignalStrength_CopyFrom :: "RspSignalStrength_msg \<Rightarrow> RspSignalStrength_msg \<Rightarrow> RspSignalStrength_msg" where
  "RspSignalStrength_CopyFrom src m = (if src = m then m else RspSignalStrength_MergeFrom src (RspSignalStrength_Clear m))"

section \<open>\<open>RspOperator\<close>\<close>

record RspOperator_msg =
  po_long_alpha_ons :: "u8 list option"
  po_short_alpha_ons :: "u8 list option"
  po_mcc_mnc :: "u8 list option"
  po_unknown :: "u8 list"

definition RspOperator_new :: RspOperator_msg where
  "RspOperator_new = \<lparr>po_long_alpha_ons = None, po_short_alpha_ons = None, po_mcc_mnc = None, po_unknown = []\<rparr>"

definition RspOperator_add_unknown :: "u8 list \<Rightarrow> RspOperator_msg \<Rightarrow> RspOperator_msg" where
  "RspOperator_add_unknown raw m = m\<lparr>po_unknown := po_unknown m @ raw\<rparr>"

definition RspOperator_field :: "wire \<Rightarrow> i32 \<Rightarrow> u8 list \<Rightarrow> RspOperator_msg \<Rightarrow> RspOperator_msg field_result option" where
  "RspOperator_field L tag input m =
     (let n = GetTagFieldNumber tag; t = GetTagWireType tag in
      if n = 1 \<and> t = WIRETYPE_LENGTH_DELIMITED then
        Some (read_into (ReadString L) input (\<lambda>v. m\<lparr>po_long_alpha_ons := Some v\<rparr>))
      else if n = 2 \<and> t = WIRETYPE_LENGTH_DELIMITED then
        Some (read_into (ReadString L) input (\<lambda>v. m\<lparr>po_short_alpha_ons := Some v\<rparr>))
      else if n = 3 \<and> t = WIRETYPE_LENGTH_DELIMITED then
        Some (read_into (ReadString L) input (\<lambda>v. m\<lparr>po_mcc_mnc := Some v\<rparr>))
      else Some Uninterpreted)"

definition RspOperator_MergePartialFromCodedStream :: "wire \<Rightarrow> u8 list \<Rightarrow> RspOperator_msg \<Rightarrow> (merged \<times> RspOperator_msg) option" where
  "RspOperator_MergePartialFromCodedStream L = merge_fields L (RspOperator_field L) RspOperator_add_unknown"

definition RspOperator_ByteSize :: "wire \<Rightarrow> RspOperator_msg \<Rightarrow> nat" where
  "RspOperator_ByteSize L m =
     field_size (StringSize L) (po_long_alpha_ons m) + field_size (StringSize L) (po_short_alpha_ons m) +
     field_size (StringSize L) (po_mcc_mnc m) + length (po_unknown m)"

definition RspOperator_SerializeWithCachedSizes :: "wire \<Rightarrow> RspOperator_msg \<Rightarrow> u8 list" where
  "RspOperator_SerializeWithCachedSizes L m =
     written (WriteString L 1) (po_long_alpha_ons m) @ written (WriteString L 2) (po_short_alpha_ons m) @
     written (WriteString L 3) (po_mcc_mnc m) @ po_unknown m"

definition RspOperator_MergeFrom :: "RspOperator_msg \<Rightarrow> RspOperator_msg \<Rightarrow> RspOperator_msg" where
  "RspOperator_MergeFrom src m = m\<lparr>
     po_long_alpha_ons := over (po_long_alpha_ons src) (po_long_alpha_ons m),
     po_short_alpha_ons := over (po_short_alpha_ons src) (po_short_alpha_ons m),
     po_mcc_mnc := over (po_mcc_mnc src) (po_mcc_mnc m), po_unknown := po_unknown m @ po_unknown src\<rparr>"

definition RspOperator_Clear :: "RspOperator_msg \<Rightarrow> RspOperator_msg" where
  "RspOperator_Clear m = m\<lparr>
     po_long_alpha_ons := None, po_short_alpha_ons := None, po_mcc_mnc := None, po_unknown := []\<rparr>"

definition RspOperator_CopyFrom :: "RspOperator_msg \<Rightarrow> RspOperator_msg \<Rightarrow> RspOperator_msg" where
  "RspOperator_CopyFrom src m = (if src = m then m else RspOperator_MergeFrom src (RspOperator_Clear m))"

section \<open>\<open>ReqSeparateConnection\<close>\<close>

record ReqSeparateConnection_msg =
  psep_index :: "i32 option"
  psep_unknown :: "u8 list"

definition ReqSeparateConnection_new :: ReqSeparateConnection_msg where
  "ReqSeparateConnection_new = \<lparr>psep_index = None, psep_unknown = []\<rparr>"

definition ReqSeparateConnection_add_unknown :: "u8 list \<Rightarrow> ReqSeparateConnection_msg \<Rightarrow> ReqSeparateConnection_msg" where
  "ReqSeparateConnection_add_unknown raw m = m\<lparr>psep_unknown := psep_unknown m @ raw\<rparr>"

definition ReqSeparateConnection_field :: "wire \<Rightarrow> i32 \<Rightarrow> u8 list \<Rightarrow> ReqSeparateConnection_msg \<Rightarrow> ReqSeparateConnection_msg field_result option" where
  "ReqSeparateConnection_field L tag input m =
     (let n = GetTagFieldNumber tag; t = GetTagWireType tag in
      if n = 1 \<and> t = WIRETYPE_VARINT then
        Some (read_value (ReadInt32 L) input m (\<lambda>v. m\<lparr>psep_index := Some v\<rparr>))
      else Some Uninterpreted)"

definition ReqSeparateConnection_MergePartialFromCodedStream :: "wire \<Rightarrow> u8 list \<Rightarrow> ReqSeparateConnection_msg \<Rightarrow> (merged \<times> ReqSeparateConnection_msg) option" where
  "ReqSeparateConnection_MergePartialFromCodedStream L = merge_fields L (ReqSeparateConnection_field L) ReqSeparateConnection_add_unknown"

definition ReqSeparateConnection_ByteSize :: "wire \<Rightarrow> ReqSeparateConnection_msg \<Rightarrow> nat" where
  "ReqSeparateConnection_ByteSize L m =
     field_size (Int32Size L) (psep_index m) + length (psep_unknown m)"

definition ReqSeparateConnection_SerializeWithCachedSizes :: "wire \<Rightarrow> ReqSeparateConnection_msg \<Rightarrow> u8 list" where
  "ReqSeparateConnection_SerializeWithCachedSizes L m =
     written (WriteInt32 L 1) (psep_index m) @ psep_unknown m"

definition ReqSeparateConnection_MergeFrom :: "ReqSeparateConnection_msg \<Rightarrow> ReqSeparateConnection_msg \<Rightarrow> ReqSeparateConnection_msg" where
  "ReqSeparateConnection_MergeFrom src m = m\<lparr>
     psep_index := over (psep_index src) (psep_index m), psep_unknown := psep_unknown m @ psep_unknown src\<rparr>"

definition ReqSeparateConnection_Clear :: "ReqSeparateConnection_msg \<Rightarrow> ReqSeparateConnection_msg" where
  "ReqSeparateConnection_Clear m = m\<lparr>
     psep_index := None, psep_unknown := []\<rparr>"

definition ReqSeparateConnection_CopyFrom :: "ReqSeparateConnection_msg \<Rightarrow> ReqSeparateConnection_msg \<Rightarrow> ReqSeparateConnection_msg" where
  "ReqSeparateConnection_CopyFrom src m = (if src = m then m else ReqSeparateConnection_MergeFrom src (ReqSeparateConnection_Clear m))"

definition ReqSeparateConnection_IsInitialized :: "ReqSeparateConnection_msg \<Rightarrow> bool" where
  "ReqSeparateConnection_IsInitialized m \<longleftrightarrow> psep_index m \<noteq> None"

section \<open>\<open>ReqSetMute\<close>\<close>

record ReqSetMute_msg =
  pmute_state :: "bool option"
  pmute_unknown :: "u8 list"

definition ReqSetMute_new :: ReqSetMute_msg where
  "ReqSetMute_new = \<lparr>pmute_state = None, pmute_unknown = []\<rparr>"

definition ReqSetMute_add_unknown :: "u8 list \<Rightarrow> ReqSetMute_msg \<Rightarrow> ReqSetMute_msg" where
  "ReqSetMute_add_unknown raw m = m\<lparr>pmute_unknown := pmute_unknown m @ raw\<rparr>"

definition ReqSetMute_field :: "wire \<Rightarrow> i32 \<Rightarrow> u8 list \<Rightarrow> ReqSetMute_msg \<Rightarrow> ReqSetMute_msg field_result option" where
  "ReqSetMute_field L tag input m =
     (let n = GetTagFieldNumber tag; t = GetTagWireType tag in
      if n = 1 \<and> t = WIRETYPE_VARINT then
        Some (read_value (ReadBool L) input m (\<lambda>v. m\<lparr>pmute_state := Some v\<rparr>))
      else Some Uninterpreted)"

definition ReqSetMute_MergePartialFromCodedStream :: "wire \<Rightarrow> u8 list \<Rightarrow> ReqSetMute_msg \<Rightarrow> (merged \<times> ReqSetMute_msg) option" where
  "ReqSetMute_MergePartialFromCodedStream L = merge_fields L (ReqSetMute_field L) ReqSetMute_add_unknown"

definition ReqSetMute_ByteSize :: "wire \<Rightarrow> ReqSetMute_msg \<Rightarrow> nat" where
  "ReqSetMute_ByteSize L m =
     field_size (\<lambda>_. 1) (pmute_state m) + length (pmute_unknown m)"

definition ReqSetMute_SerializeWithCachedSizes :: "wire \<Rightarrow> ReqSetMute_msg \<Rightarrow> u8 list" where
  "ReqSetMute_SerializeWithCachedSizes L m =
     written (WriteBool L 1) (pmute_state m) @ pmute_unknown m"

definition ReqSetMute_MergeFrom :: "ReqSetMute_msg \<Rightarrow> ReqSetMute_msg \<Rightarrow> ReqSetMute_msg" where
  "ReqSetMute_MergeFrom src m = m\<lparr>
     pmute_state := over (pmute_state src) (pmute_state m),
     pmute_unknown := pmute_unknown m @ pmute_unknown src\<rparr>"

definition ReqSetMute_Clear :: "ReqSetMute_msg \<Rightarrow> ReqSetMute_msg" where
  "ReqSetMute_Clear m = m\<lparr>
     pmute_state := None, pmute_unknown := []\<rparr>"

definition ReqSetMute_CopyFrom :: "ReqSetMute_msg \<Rightarrow> ReqSetMute_msg \<Rightarrow> ReqSetMute_msg" where
  "ReqSetMute_CopyFrom src m = (if src = m then m else ReqSetMute_MergeFrom src (ReqSetMute_Clear m))"

definition ReqSetMute_IsInitialized :: "ReqSetMute_msg \<Rightarrow> bool" where
  "ReqSetMute_IsInitialized m \<longleftrightarrow> pmute_state m \<noteq> None"

section \<open>\<open>ReqScreenState\<close>\<close>

record ReqScreenState_msg =
  pscr_state :: "bool option"
  pscr_unknown :: "u8 list"

definition ReqScreenState_new :: ReqScreenState_msg where
  "ReqScreenState_new = \<lparr>pscr_state = None, pscr_unknown = []\<rparr>"

definition ReqScreenState_add_unknown :: "u8 list \<Rightarrow> ReqScreenState_msg \<Rightarrow> ReqScreenState_msg" where
  "ReqScreenState_add_unknown raw m = m\<lparr>pscr_unknown := pscr_unknown m @ raw\<rparr>"

definition ReqScreenState_field :: "wire \<Rightarrow> i32 \<Rightarrow> u8 list \<Rightarrow> ReqScreenState_msg \<Rightarrow> ReqScreenState_msg field_result option" where
  "ReqScreenState_field L tag input m =
     (let n = GetTagFieldNumber tag; t = GetTagWireType tag in
      if n = 1 \<and> t = WIRETYPE_VARINT then
        Some (read_value (ReadBool L) input m (\<lambda>v. m\<lparr>pscr_state := Some v\<rparr>))
      else Some Uninterpreted)"

definition ReqScreenState_MergePartialFromCodedStream :: "wire \<Rightarrow> u8 list \<Rightarrow> ReqScreenState_msg \<Rightarrow> (merged \<times> ReqScreenState_msg) option" where
  "ReqScreenState_MergePartialFromCodedStream L = merge_fields L (ReqScreenState_field L) ReqScreenState_add_unknown"

definition ReqScreenState_ByteSize :: "wire \<Rightarrow> ReqScreenState_msg \<Rightarrow> nat" where
  "ReqScreenState_ByteSize L m =
     field_size (\<lambda>_. 1) (pscr_state m) + length (pscr_unknown m)"

definition ReqScreenState_SerializeWithCachedSizes :: "wire \<Rightarrow> ReqScreenState_msg \<Rightarrow> u8 list" where
  "ReqScreenState_SerializeWithCachedSizes L m =
     written (WriteBool L 1) (pscr_state m) @ pscr_unknown m"

definition ReqScreenState_MergeFrom :: "ReqScreenState_msg \<Rightarrow> ReqScreenState_msg \<Rightarrow> ReqScreenState_msg" where
  "ReqScreenState_MergeFrom src m = m\<lparr>
     pscr_state := over (pscr_state src) (pscr_state m), pscr_unknown := pscr_unknown m @ pscr_unknown src\<rparr>"

definition ReqScreenState_Clear :: "ReqScreenState_msg \<Rightarrow> ReqScreenState_msg" where
  "ReqScreenState_Clear m = m\<lparr>
     pscr_state := None, pscr_unknown := []\<rparr>"

definition ReqScreenState_CopyFrom :: "ReqScreenState_msg \<Rightarrow> ReqScreenState_msg \<Rightarrow> ReqScreenState_msg" where
  "ReqScreenState_CopyFrom src m = (if src = m then m else ReqScreenState_MergeFrom src (ReqScreenState_Clear m))"

definition ReqScreenState_IsInitialized :: "ReqScreenState_msg \<Rightarrow> bool" where
  "ReqScreenState_IsInitialized m \<longleftrightarrow> pscr_state m \<noteq> None"

end
