(* ===== verification/Mock_Messages.thy ===== *)
theory Mock_Messages
  imports Ref_Ril Mock_Proto
begin

text \<open>
  \<open>requests.cpp\<close> and \<open>responses.cpp\<close> of \<open>mock-ril\<close>, as far as they convert data: of a request into the
  bytes of a message of \<open>ril.proto\<close>, and of the bytes of a message into the response for the daemon.

  The classes of the messages are those of \<open>Mock_Proto\<close>; \<open>L\<close> is the library of protocol buffers.
\<close>

section \<open>Casts\<close>

text \<open>To an enumeration of \<open>ril.h\<close>; \<open>None\<close> where the number is none of its values.\<close>

definition RIL_CardState_of :: "i32 \<Rightarrow> RIL_CardState option" where
  "RIL_CardState_of v = find (\<lambda>e. RIL_CardState_val e = v)
     [RIL_CARDSTATE_ABSENT, RIL_CARDSTATE_PRESENT, RIL_CARDSTATE_ERROR]"

definition RIL_PinState_of :: "i32 \<Rightarrow> RIL_PinState option" where
  "RIL_PinState_of v = find (\<lambda>e. RIL_PinState_val e = v)
     [RIL_PINSTATE_UNKNOWN, RIL_PINSTATE_ENABLED_NOT_VERIFIED, RIL_PINSTATE_ENABLED_VERIFIED,
      RIL_PINSTATE_DISABLED, RIL_PINSTATE_ENABLED_BLOCKED, RIL_PINSTATE_ENABLED_PERM_BLOCKED]"

definition RIL_AppType_of :: "i32 \<Rightarrow> RIL_AppType option" where
  "RIL_AppType_of v = find (\<lambda>e. RIL_AppType_val e = v)
     [RIL_APPTYPE_UNKNOWN, RIL_APPTYPE_SIM, RIL_APPTYPE_USIM, RIL_APPTYPE_RUIM, RIL_APPTYPE_CSIM]"

definition RIL_AppState_of :: "i32 \<Rightarrow> RIL_AppState option" where
  "RIL_AppState_of v = find (\<lambda>e. RIL_AppState_val e = v)
     [RIL_APPSTATE_UNKNOWN, RIL_APPSTATE_DETECTED, RIL_APPSTATE_PIN, RIL_APPSTATE_PUK,
      RIL_APPSTATE_SUBSCRIPTION_PERSO, RIL_APPSTATE_READY]"

definition RIL_PersoSubstate_of :: "i32 \<Rightarrow> RIL_PersoSubstate option" where
  "RIL_PersoSubstate_of v = find (\<lambda>e. RIL_PersoSubstate_val e = v)
     [RIL_PERSOSUBSTATE_UNKNOWN, RIL_PERSOSUBSTATE_IN_PROGRESS, RIL_PERSOSUBSTATE_READY,
      RIL_PERSOSUBSTATE_SIM_NETWORK, RIL_PERSOSUBSTATE_SIM_NETWORK_SUBSET, RIL_PERSOSUBSTATE_SIM_CORPORATE,
      RIL_PERSOSUBSTATE_SIM_SERVICE_PROVIDER, RIL_PERSOSUBSTATE_SIM_SIM, RIL_PERSOSUBSTATE_SIM_NETWORK_PUK,
      RIL_PERSOSUBSTATE_SIM_NETWORK_SUBSET_PUK, RIL_PERSOSUBSTATE_SIM_CORPORATE_PUK,
      RIL_PERSOSUBSTATE_SIM_SERVICE_PROVIDER_PUK, RIL_PERSOSUBSTATE_SIM_SIM_PUK,
      RIL_PERSOSUBSTATE_RUIM_NETWORK1, RIL_PERSOSUBSTATE_RUIM_NETWORK2, RIL_PERSOSUBSTATE_RUIM_HRPD,
      RIL_PERSOSUBSTATE_RUIM_CORPORATE, RIL_PERSOSUBSTATE_RUIM_SERVICE_PROVIDER, RIL_PERSOSUBSTATE_RUIM_RUIM,
      RIL_PERSOSUBSTATE_RUIM_NETWORK1_PUK, RIL_PERSOSUBSTATE_RUIM_NETWORK2_PUK,
      RIL_PERSOSUBSTATE_RUIM_HRPD_PUK, RIL_PERSOSUBSTATE_RUIM_CORPORATE_PUK,
      RIL_PERSOSUBSTATE_RUIM_SERVICE_PROVIDER_PUK, RIL_PERSOSUBSTATE_RUIM_RUIM_PUK]"

definition RIL_CallState_of :: "i32 \<Rightarrow> RIL_CallState option" where
  "RIL_CallState_of v = find (\<lambda>e. RIL_CallState_val e = v)
     [RIL_CALL_ACTIVE, RIL_CALL_HOLDING, RIL_CALL_DIALING, RIL_CALL_ALERTING, RIL_CALL_INCOMING,
      RIL_CALL_WAITING]"

text \<open>\<open>c_str ()\<close>, read as a C string.\<close>

definition c_str :: "u8 list \<Rightarrow> u8 list" where "c_str s = takeWhile (\<lambda>b. b \<noteq> 0) s"

definition c_bool :: "bool \<Rightarrow> u8" where "c_bool b = (if b then 1 else 0)"

section \<open>Requests\<close>

text \<open>
  A status and the contents of the buffer. \<open>None\<close> where data of another type or a null pointer is read:
  to set a string of a message to a null pointer has no defined behaviour.
\<close>

type_synonym ReqConversion = "req_data \<Rightarrow> nat \<Rightarrow> (int \<times> u8 list) option"

definition ReqWithNoData :: ReqConversion where
  "ReqWithNoData d datalen = Some (STATUS_OK, [])"

text \<open>The conversions of an integer test that there are four bytes of data.\<close>

definition int_request :: "(i32 \<Rightarrow> u8 list) \<Rightarrow> ReqConversion" where
  "int_request ser d datalen =
     (if datalen < 4 then Some (STATUS_BAD_DATA, [])
      else map_option (\<lambda>x. (STATUS_OK, ser x)) (int_at d 0))"

definition ReqEnterSimPin :: "wire \<Rightarrow> ReqConversion" where
  "ReqEnterSimPin L d datalen =
     (if datalen < 4 then Some (STATUS_BAD_DATA, [])
      else do {
        pin \<leftarrow> string_at d 0;
        pin \<leftarrow> pin;
        Some (STATUS_OK, ReqEnterSimPin_SerializeWithCachedSizes L (ReqEnterSimPin_new\<lparr>pin_pin := Some pin\<rparr>)) })"

text \<open>
  The user-to-user information is written into the object that \<open>uus_info ()\<close> returns for a message that
  has none, the default instance of the class: the message still has none.
\<close>

definition ReqDial :: "wire \<Rightarrow> ReqConversion" where
  "ReqDial L d datalen =
     (if datalen < 4 then Some (STATUS_BAD_DATA, [])
      else (case d of
          DDial rilDial \<Rightarrow> do {
            address \<leftarrow> dial_address rilDial;
            let req = ReqDial_new\<lparr>pd_address := Some address, pd_clir := Some (dial_clir rilDial)\<rparr>;
            if (case dial_uusInfo rilDial of None \<Rightarrow> False | Some u \<Rightarrow> uus_uusData u = None) then None
            else Some (STATUS_OK, ReqDial_SerializeWithCachedSizes L req) }
        | _ \<Rightarrow> None))"

definition ReqHangUp :: "wire \<Rightarrow> ReqConversion" where
  "ReqHangUp L = int_request (\<lambda>x. ReqHangUp_SerializeWithCachedSizes L (ReqHangUp_new\<lparr>phang_connection_index := Some x\<rparr>))"

definition ReqSeparateConnection :: "wire \<Rightarrow> ReqConversion" where
  "ReqSeparateConnection L =
     int_request (\<lambda>x. ReqSeparateConnection_SerializeWithCachedSizes L (ReqSeparateConnection_new\<lparr>psep_index := Some x\<rparr>))"

definition ReqSetMute :: "wire \<Rightarrow> ReqConversion" where
  "ReqSetMute L =
     int_request (\<lambda>x. ReqSetMute_SerializeWithCachedSizes L (ReqSetMute_new\<lparr>pmute_state := Some (x \<noteq> 0)\<rparr>))"

definition ReqScreenState :: "wire \<Rightarrow> ReqConversion" where
  "ReqScreenState L =
     int_request (\<lambda>x. ReqScreenState_SerializeWithCachedSizes L (ReqScreenState_new\<lparr>pscr_state := Some (x \<noteq> 0)\<rparr>))"

definition rilReqConversionMap :: "wire \<Rightarrow> (i32 \<times> ReqConversion) list" where
  "rilReqConversionMap L =
    [(RIL_REQUEST_GET_SIM_STATUS, ReqWithNoData),
     (RIL_REQUEST_ENTER_SIM_PIN, ReqEnterSimPin L),
     (RIL_REQUEST_GET_CURRENT_CALLS, ReqWithNoData),
     (RIL_REQUEST_DIAL, ReqDial L),
     (RIL_REQUEST_GET_IMSI, ReqWithNoData),
     (RIL_REQUEST_HANGUP, ReqHangUp L),
     (RIL_REQUEST_HANGUP_WAITING_OR_BACKGROUND, ReqWithNoData),
     (RIL_REQUEST_HANGUP_FOREGROUND_RESUME_BACKGROUND, ReqWithNoData),
     (RIL_REQUEST_SWITCH_WAITING_OR_HOLDING_AND_ACTIVE, ReqWithNoData),
     (RIL_REQUEST_CONFERENCE, ReqWithNoData),
     (RIL_REQUEST_LAST_CALL_FAIL_CAUSE, ReqWithNoData),
     (RIL_REQUEST_SIGNAL_STRENGTH, ReqWithNoData),
     (RIL_REQUEST_REGISTRATION_STATE, ReqWithNoData),
     (RIL_REQUEST_GPRS_REGISTRATION_STATE, ReqWithNoData),
     (RIL_REQUEST_OPERATOR, ReqWithNoData),
     (RIL_REQUEST_GET_IMEI, ReqWithNoData),
     (RIL_REQUEST_GET_IMEISV, ReqWithNoData),
     (RIL_REQUEST_ANSWER, ReqWithNoData),
     (RIL_REQUEST_QUERY_NETWORK_SELECTION_MODE, ReqWithNoData),
     (RIL_REQUEST_SET_NETWORK_SELECTION_AUTOMATIC, ReqWithNoData),
     (RIL_REQUEST_BASEBAND_VERSION, ReqWithNoData),
     (RIL_REQUEST_SEPARATE_CONNECTION, ReqSeparateConnection L),
     (RIL_REQUEST_SET_MUTE, ReqSetMute L),
     (RIL_REQUEST_SCREEN_STATE, ReqScreenState L)]"

section \<open>Responses\<close>

text \<open>
  A response completes its request. The buffer may be missing; all but one of the conversions follow
  its pointer.
\<close>

type_synonym RspConversion = "addr \<Rightarrow> RIL_Errno \<Rightarrow> u8 list option \<Rightarrow> vendor_call option"

definition RspWithNoData :: RspConversion where
  "RspWithNoData tok rilErrno buffer = Some (Complete tok rilErrno None 0)"

definition magic_null :: "u8 list" where "magic_null = chars ''*magic-null*''"

definition RspStrings :: "abi \<Rightarrow> wire \<Rightarrow> RspConversion" where
  "RspStrings A L tok rilErrno buffer = do {
     b \<leftarrow> buffer;
     rsp \<leftarrow> parse_message (RspStrings_MergePartialFromCodedStream L) RspStrings_new b;
     let strings = pstr_strings rsp;
     let result_len = length strings * ptr_size A;
     alloca A result_len;
     let result = map (\<lambda>s. if c_str s = magic_null then None else Some (c_str s)) strings;
     Some (Complete tok rilErrno (Some (RStrings result)) result_len) }"

definition RspString :: "wire \<Rightarrow> RspConversion" where
  "RspString L tok rilErrno buffer = do {
     b \<leftarrow> buffer;
     rsp \<leftarrow> parse_message (RspStrings_MergePartialFromCodedStream L) RspStrings_new b;
     s \<leftarrow> aget (pstr_strings rsp) 0;
     Some (Complete tok rilErrno (Some (RString (c_str s))) (length (c_str s))) }"

definition RspIntegers :: "abi \<Rightarrow> wire \<Rightarrow> RspConversion" where
  "RspIntegers A L tok rilErrno buffer = do {
     b \<leftarrow> buffer;
     rsp \<leftarrow> parse_message (RspIntegers_MergePartialFromCodedStream L) RspIntegers_new b;
     let integers = pint_integers rsp;
     let result_len = length integers * 4;
     alloca A result_len;
     Some (Complete tok rilErrno (Some (RInts integers)) result_len) }"

definition app_of_msg :: "RilAppStatus \<Rightarrow> RIL_AppStatus option" where
  "app_of_msg a = do {
     app_type \<leftarrow> RIL_AppType_of (value_or 0 (pa_app_type a));
     app_state \<leftarrow> RIL_AppState_of (value_or 0 (pa_app_state a));
     perso_substate \<leftarrow> RIL_PersoSubstate_of (value_or 0 (pa_perso_substate a));
     pin1 \<leftarrow> RIL_PinState_of (value_or 0 (pa_pin1 a));
     pin2 \<leftarrow> RIL_PinState_of (value_or 0 (pa_pin2 a));
     Some \<lparr>app_type = app_type, app_state = app_state, app_perso_substate = perso_substate,
       app_aid_ptr = Some (c_str (value_or [] (pa_aid a))), app_label_ptr = Some (c_str (value_or [] (pa_app_label a))),
       app_pin1_replaced = value_or 0 (pa_pin1_replaced a), app_pin1 = pin1, app_pin2 = pin2\<rparr> }"

text \<open>
  The struct is not initialised: \<open>garbage\<close> is what is on the stack. The number of applications is taken
  from the message; it bounds neither the array nor the applications of the message.
\<close>

definition RspGetSimStatus :: "abi \<Rightarrow> RIL_CardStatus \<Rightarrow> wire \<Rightarrow> RspConversion" where
  "RspGetSimStatus A garbage L tok rilErrno buffer = do {
     b \<leftarrow> buffer;
     rsp \<leftarrow> parse_message (RspGetSimStatus_MergePartialFromCodedStream L) RspGetSimStatus_new b;
     let r = value_or RilCardStatus_new (psim_card_status rsp);
     card \<leftarrow> RIL_CardState_of (value_or 0 (ps_card_state r));
     universal \<leftarrow> RIL_PinState_of (value_or 0 (ps_universal_pin_state r));
     let num_applications = value_or 0 (ps_num_applications r);
     let cardStatus = garbage\<lparr>card_state := card, card_universal_pin_state := universal,
       card_gsm_umts_subscription_app_index := value_or 0 (ps_gsm_umts_subscription_app_index r),
       card_num_applications := num_applications\<rparr>;
     apps \<leftarrow> for_int num_applications (\<lambda>i apps. do {
       a \<leftarrow> aget (ps_applications r) i;
       a \<leftarrow> app_of_msg a;
       aput apps i a }) (card_applications cardStatus);
     Some (Complete tok rilErrno (Some (RCardStatus (cardStatus\<lparr>card_applications := apps\<rparr>)))
       (size_of (RIL_CardStatus_layout A))) }"

definition RspEnterSimPinData :: "wire \<Rightarrow> RspConversion" where
  "RspEnterSimPinData L tok rilErrno buffer = do {
     b \<leftarrow> buffer;
     rsp \<leftarrow> parse_message (RspEnterSimPin_MergePartialFromCodedStream L) RspEnterSimPin_new b;
     Some (Complete tok rilErrno (Some (RInts [value_or 0 (pret_retries_remaining rsp)])) 4) }"

definition uus_of_msg :: "RilUusInfo \<Rightarrow> RIL_UUS_Info" where
  "uus_of_msg u = \<lparr>uus_uusType = value_or 0 (pu_uus_type u), uus_uusDcs = value_or 0 (pu_uus_dcs u),
     uus_uusLength = value_or 0 (pu_uus_length u), uus_uusData = Some (c_str (value_or [] (pu_uus_data u)))\<rparr>"

definition call_of_msg :: "RilCall \<Rightarrow> RIL_Call option" where
  "call_of_msg c = do {
     state \<leftarrow> RIL_CallState_of (value_or 0 (pc_state c));
     Some \<lparr>call_state = state, call_index = value_or 0 (pc_index c), call_toa = value_or 0 (pc_toa c),
       call_isMpty = c_bool (value_or False (pc_is_mpty c)), call_isMT = c_bool (value_or False (pc_is_mt c)),
       call_als = ucast (value_or 0 (pc_als c)), call_isVoice = c_bool (value_or False (pc_is_voice c)),
       call_isVoicePrivacy = c_bool (value_or False (pc_is_voice_privacy c)),
       call_number = Some (c_str (value_or [] (pc_number c))),
       call_numberPresentation = value_or 0 (pc_number_presentation c),
       call_name = Some (c_str (value_or [] (pc_name c))), call_namePresentation = value_or 0 (pc_name_presentation c),
       call_uusInfo = map_option uus_of_msg (pc_uus_info c)\<rparr> }"

definition RspGetCurrentCalls :: "abi \<Rightarrow> wire \<Rightarrow> RspConversion" where
  "RspGetCurrentCalls A L tok rilErrno buffer = do {
     b \<leftarrow> buffer;
     rsp \<leftarrow> parse_message (RspGetCurrentCalls_MergePartialFromCodedStream L) RspGetCurrentCalls_new b;
     let cs = pcalls_calls rsp;
     let result_len = length cs * ptr_size A;
     alloca A (result_len + length cs * size_of (RIL_Call_layout A) +
       length (filter (\<lambda>c. pc_uus_info c \<noteq> None) cs) * size_of (RIL_UUS_Info_layout A));
     calls \<leftarrow> those (map call_of_msg cs);
     Some (Complete tok rilErrno (Some (RCallList calls)) result_len) }"

definition signal_of_msg :: "RspSignalStrength_msg \<Rightarrow> RIL_SignalStrength" where
  "signal_of_msg rsp =
     (let gwST = value_or RILGWSignalStrength_new (pss_gw_signalstrength rsp);
          cdmaST = value_or RILCDMASignalStrength_new (pss_cdma_signalstrength rsp);
          evdoST = value_or RILEVDOSignalStrength_new (pss_evdo_signalstrength rsp)
      in \<lparr>ss_GW = \<lparr>gw_signalStrength = value_or 0 (pgw_signal_strength gwST),
             gw_bitErrorRate = value_or 0 (pgw_bit_error_rate gwST)\<rparr>,
           ss_CDMA = \<lparr>cdmass_dbm = value_or 0 (pcdma_dbm cdmaST), cdmass_ecio = value_or 0 (pcdma_ecio cdmaST)\<rparr>,
           ss_EVDO = \<lparr>evdo_dbm = value_or 0 (pevdo_dbm evdoST), evdo_ecio = value_or 0 (pevdo_ecio evdoST),
             evdo_signalNoiseRatio = value_or 0 (pevdo_signal_noise_ratio evdoST)\<rparr>\<rparr>)"

definition RspSignalStrength :: "wire \<Rightarrow> RspConversion" where
  "RspSignalStrength L tok rilErrno buffer = do {
     b \<leftarrow> buffer;
     rsp \<leftarrow> parse_message (RspSignalStrength_MergePartialFromCodedStream L) RspSignalStrength_new b;
     Some (Complete tok rilErrno (Some (RSignalStrength (signal_of_msg rsp))) (size_of RIL_SignalStrength_layout)) }"

definition RspOperator :: "abi \<Rightarrow> wire \<Rightarrow> RspConversion" where
  "RspOperator A L tok rilErrno buffer = do {
     b \<leftarrow> buffer;
     rsp \<leftarrow> parse_message (RspOperator_MergePartialFromCodedStream L) RspOperator_new b;
     Some (Complete tok rilErrno (Some (RStrings [map_option c_str (po_long_alpha_ons rsp),
       map_option c_str (po_short_alpha_ons rsp), map_option c_str (po_mcc_mnc rsp)])) (3 * ptr_size A)) }"

definition UnsolRspSignalStrength :: "wire \<Rightarrow> i32 \<Rightarrow> u8 list option \<Rightarrow> vendor_call option" where
  "UnsolRspSignalStrength L c buffer = do {
     b \<leftarrow> buffer;
     rsp \<leftarrow> parse_message (RspSignalStrength_MergePartialFromCodedStream L) RspSignalStrength_new b;
     Some (Unsolicited c (Some (RSignalStrength (signal_of_msg rsp))) (size_of RIL_SignalStrength_layout)) }"

definition rilRspConversionMap :: "abi \<Rightarrow> RIL_CardStatus \<Rightarrow> wire \<Rightarrow> (i32 \<times> RspConversion) list" where
  "rilRspConversionMap A garbage L =
    [(RIL_REQUEST_GET_SIM_STATUS, RspGetSimStatus A garbage L),
     (RIL_REQUEST_ENTER_SIM_PIN, RspEnterSimPinData L),
     (RIL_REQUEST_GET_CURRENT_CALLS, RspGetCurrentCalls A L),
     (RIL_REQUEST_GET_IMSI, RspString L),
     (RIL_REQUEST_HANGUP, RspWithNoData),
     (RIL_REQUEST_HANGUP_WAITING_OR_BACKGROUND, RspWithNoData),
     (RIL_REQUEST_HANGUP_FOREGROUND_RESUME_BACKGROUND, RspWithNoData),
     (RIL_REQUEST_SWITCH_WAITING_OR_HOLDING_AND_ACTIVE, RspWithNoData),
     (RIL_REQUEST_CONFERENCE, RspWithNoData),
     (RIL_REQUEST_LAST_CALL_FAIL_CAUSE, RspIntegers A L),
     (RIL_REQUEST_SIGNAL_STRENGTH, RspSignalStrength L),
     (RIL_REQUEST_REGISTRATION_STATE, RspStrings A L),
     (RIL_REQUEST_GPRS_REGISTRATION_STATE, RspStrings A L),
     (RIL_REQUEST_OPERATOR, RspOperator A L),
     (RIL_REQUEST_GET_IMEI, RspString L),
     (RIL_REQUEST_GET_IMEISV, RspString L),
     (RIL_REQUEST_ANSWER, RspWithNoData),
     (RIL_REQUEST_QUERY_NETWORK_SELECTION_MODE, RspIntegers A L),
     (RIL_REQUEST_SET_NETWORK_SELECTION_AUTOMATIC, RspWithNoData),
     (RIL_REQUEST_BASEBAND_VERSION, RspString L),
     (RIL_REQUEST_SEPARATE_CONNECTION, RspWithNoData),
     (RIL_REQUEST_SET_MUTE, RspWithNoData),
     (RIL_REQUEST_SCREEN_STATE, RspWithNoData)]"

definition unsolRilRspConversionMap :: "wire \<Rightarrow> (i32 \<times> (i32 \<Rightarrow> u8 list option \<Rightarrow> vendor_call option)) list" where
  "unsolRilRspConversionMap L = [(RIL_UNSOL_SIGNAL_STRENGTH, UnsolRspSignalStrength L)]"

end
