(* ===== verification/Mock_Ril.thy ===== *)
theory Mock_Ril
  imports Mock_Messages Mock_Worker_Correct
begin

text \<open>
  The queue of requests of \<open>requests.cpp\<close>, the functions that \<open>responses.cpp\<close> offers to the JavaScript
  code, and \<open>mock_ril.cpp\<close>. A request of the daemon is converted and queued, or refused; the worker
  thread gives it to the JavaScript code, which completes it, at once or later.

  The JavaScript code is a function: for the n-th call it says whether it throws, and what it calls.
\<close>

section \<open>What the JavaScript code can call\<close>

text \<open>Too few arguments, or an error code, a command, a token, and maybe a buffer.\<close>

datatype js_sent =
    CompleteWithTooFew
  | SendRilRequestComplete RIL_Errno i32 addr "u8 list option"
  | UnsolicitedWithTooFew
  | SendRilUnsolicitedResponse i32 "u8 list option"

record mock_world =
  mw_abi :: abi
  mw_wire :: wire
  mw_garbage :: RIL_CardStatus
  mw_js :: "nat \<Rightarrow> i32 \<Rightarrow> addr \<Rightarrow> u8 list \<Rightarrow> bool \<times> js_sent list"
  mw_new :: "nat \<Rightarrow> addr \<times> addr"          \<comment> \<open>what \<open>new\<close> would return for a request and a record\<close>

definition request_complete :: "mock_world \<Rightarrow> RIL_Errno \<Rightarrow> i32 \<Rightarrow> addr \<Rightarrow> u8 list option \<Rightarrow> vendor_call option" where
  "request_complete W rilErrno c tok buffer =
     (case map_of (rilRspConversionMap (mw_abi W) (mw_garbage W) (mw_wire W)) c of
        Some f \<Rightarrow> f tok rilErrno buffer
      | None \<Rightarrow>
          Some (Complete tok
            (case buffer of None \<Rightarrow> RIL_E_SUCCESS | Some b \<Rightarrow> if b = [] then RIL_E_SUCCESS else RIL_E_REQUEST_NOT_SUPPORTED)
            None 0))"

definition unsolicited_response :: "mock_world \<Rightarrow> i32 \<Rightarrow> u8 list option \<Rightarrow> vendor_call option" where
  "unsolicited_response W c buffer = (case map_of (unsolRilRspConversionMap (mw_wire W)) c of
       Some f \<Rightarrow> f c buffer
     | None \<Rightarrow> Some (Unsolicited c None 0))"

fun js_call_made :: "mock_world \<Rightarrow> js_sent \<Rightarrow> vendor_call list option" where
  "js_call_made W CompleteWithTooFew = Some []"
| "js_call_made W (SendRilRequestComplete e c tok b) = map_option (\<lambda>x. [x]) (request_complete W e c tok b)"
| "js_call_made W UnsolicitedWithTooFew = Some []"
| "js_call_made W (SendRilUnsolicitedResponse c b) = map_option (\<lambda>x. [x]) (unsolicited_response W c b)"

section \<open>The queue of requests\<close>

record mock_request =
  mr_request :: i32
  mr_buffer :: "u8 list"
  mr_token :: addr

record mock_ril =
  mq :: worker
  m_requests :: "addr \<rightharpoonup> mock_request"
  m_free :: "addr list"
  m_calls :: "vendor_call list"           \<comment> \<open>of the functions of the daemon\<close>
  m_tick :: nat
  m_given :: "mock_request list"          \<comment> \<open>what the JavaScript code was called with\<close>

definition new_mock :: mock_ril where
  "new_mock = \<lparr>mq = new_worker, m_requests = Map.empty, m_free = [], m_calls = [], m_tick = 0, m_given = []\<rparr>"

definition converted :: "mock_world \<Rightarrow> i32 \<Rightarrow> req_data \<Rightarrow> nat \<Rightarrow> (int \<times> u8 list) option" where
  "converted W request d datalen = (case map_of (rilReqConversionMap (mw_wire W)) request of
       Some f \<Rightarrow> f d datalen
     | None \<Rightarrow> Some (STATUS_UNSUPPORTED_REQUEST, []))"

text \<open>The operator \<open>new\<close> does not return an address that is in use.\<close>

definition AddRequest ::
    "mock_world \<Rightarrow> i32 \<Rightarrow> req_data \<Rightarrow> nat \<Rightarrow> addr \<Rightarrow> mock_ril \<Rightarrow> mock_ril option" where
  "AddRequest W request d datalen tok s = do {
     (status, buffer) \<leftarrow> converted W request d datalen;
     if status = STATUS_OK then
       (let (new_request, new_record) = mw_new W (m_tick s);
            (req, free) = (case m_free s of [] \<Rightarrow> (new_request, []) | r # rs \<Rightarrow> (r, rs))
        in if m_requests s new_request \<noteq> None \<or> wq_heap (mq s) new_record \<noteq> None then None
           else Some (s\<lparr>m_tick := Suc (m_tick s), m_free := free,
             m_requests := (m_requests s)(req \<mapsto> \<lparr>mr_request = request, mr_buffer = buffer, mr_token = tok\<rparr>),
             mq := Add new_record req (mq s)\<rparr>))
     else
       Some (s\<lparr>m_calls := m_calls s @ [Complete tok
         (if status = STATUS_UNSUPPORTED_REQUEST then RIL_E_REQUEST_NOT_SUPPORTED else RIL_E_GENERIC_FAILURE) None 0]\<rparr>) }"

text \<open>What the JavaScript code makes of a request; whether it throws is not looked at.\<close>

definition callOnRilRequest :: "mock_world \<Rightarrow> mock_request \<Rightarrow> mock_ril \<Rightarrow> mock_ril option" where
  "callOnRilRequest W r s =
     (let (thrown, sent) = mw_js W (length (m_given s)) (mr_request r) (mr_token r) (mr_buffer r)
      in do {
        calls \<leftarrow> foldM (\<lambda>j cs. map_option (\<lambda>c. cs @ c) (js_call_made W j)) sent [];
        Some (s\<lparr>m_given := m_given s @ [r], m_calls := m_calls s @ calls\<rparr>) })"

definition Process :: "mock_world \<Rightarrow> addr \<Rightarrow> mock_ril \<Rightarrow> mock_ril option" where
  "Process W p s = do {
     r \<leftarrow> m_requests s p;
     s \<leftarrow> callOnRilRequest W r s;
     Some (s\<lparr>m_free := m_free s @ [p]\<rparr>) }"

text \<open>A step of the worker thread, with the virtual \<open>Process\<close>.\<close>

definition mock_turn :: "mock_world \<Rightarrow> i64 \<Rightarrow> mock_ril \<Rightarrow> mock_ril option" where
  "mock_turn W now s = do {
     w \<leftarrow> worker_turn now (mq s);
     case place (mq s) of
       Took r \<Rightarrow> Process W (item (mq s) r) (s\<lparr>mq := w\<rparr>)
     | _ \<Rightarrow> Some (s\<lparr>mq := w\<rparr>) }"

datatype mock_event = Arrives i32 req_data nat addr | Works

inductive mock_step :: "mock_world \<Rightarrow> (worker \<Rightarrow> bool) \<Rightarrow> mock_event \<Rightarrow> mock_ril \<Rightarrow> mock_ril \<Rightarrow> bool" for W may_add where
  arrives: "\<not> holds_mutex (mq s) \<Longrightarrow> may_add (mq s) \<Longrightarrow> AddRequest W request d n tok s = Some s' \<Longrightarrow>
    mock_step W may_add (Arrives request d n tok) s s'"
| works: "clock_ok now \<Longrightarrow> mock_turn W now s = Some s' \<Longrightarrow> mock_step W may_add Works s s'"

inductive mock_run :: "mock_world \<Rightarrow> (worker \<Rightarrow> bool) \<Rightarrow> mock_event list \<Rightarrow> mock_ril \<Rightarrow> mock_ril \<Rightarrow> bool" for W may_add where
  none: "mock_run W may_add [] s s"
| more: "mock_step W may_add e s u \<Longrightarrow> mock_run W may_add es u v \<Longrightarrow> mock_run W may_add (e # es) s v"

section \<open>The functions of \<open>mock_ril.cpp\<close>\<close>

definition mock_onSupports :: "i32 \<Rightarrow> i32" where "mock_onSupports requestCode = 0"
definition mock_onCancel :: "addr \<Rightarrow> mock_ril \<Rightarrow> mock_ril" where "mock_onCancel tok s = s"
definition mock_getVersion :: "u8 list" where "mock_getVersion = chars ''Android Mock-ril 0.1''"

definition mock_onRequest :: "mock_world \<Rightarrow> i32 \<Rightarrow> req_data \<Rightarrow> nat \<Rightarrow> addr \<Rightarrow> mock_ril \<Rightarrow> mock_ril option" where
  "mock_onRequest W request d datalen tok s = AddRequest W request d datalen tok s"

end
