(* ===== verification/Mock_Proto_Correct.thy ===== *)
theory Mock_Proto_Correct
  imports Mock_Proto
begin

text \<open>
  What the classes of \<open>ril.proto\<close> write is read again: to merge the bytes of a message into an object is
  \<open>MergeFrom\<close>, its length is \<open>ByteSize\<close>, and to parse always returns and leaves valid enumerations.
\<close>

lemmas wire_types = WIRETYPE_VARINT_def WIRETYPE_LENGTH_DELIMITED_def

section \<open>\<open>RilAppStatus\<close>\<close>

definition RilAppStatus_ok :: "wire \<Rightarrow> RilAppStatus \<Rightarrow> bool" where
  "RilAppStatus_ok L m \<longleftrightarrow> pred_option RilAppType_IsValid (pa_app_type m) \<and>
     pred_option RilAppState_IsValid (pa_app_state m) \<and>
     pred_option RilPersoSubstate_IsValid (pa_perso_substate m) \<and> pred_option short (pa_aid m) \<and>
     pred_option short (pa_app_label m) \<and> pred_option RilPinState_IsValid (pa_pin1 m) \<and>
     pred_option RilPinState_IsValid (pa_pin2 m) \<and> pa_unknown m = []"

lemma RilAppStatus_MergeFrom_new [simp]: "RilAppStatus_MergeFrom m RilAppStatus_new = m"
  by (cases m) (simp add: RilAppStatus_MergeFrom_def RilAppStatus_new_def)

lemma RilAppStatus_CopyFrom: "RilAppStatus_CopyFrom src m = src"
  using RilAppStatus_MergeFrom_new [of src] by (cases m) (simp add: RilAppStatus_CopyFrom_def RilAppStatus_Clear_def RilAppStatus_new_def)

definition RilAppStatus_valid :: "RilAppStatus \<Rightarrow> bool" where
  "RilAppStatus_valid m \<longleftrightarrow> pred_option RilAppType_IsValid (pa_app_type m) \<and>
     pred_option RilAppState_IsValid (pa_app_state m) \<and>
     pred_option RilPersoSubstate_IsValid (pa_perso_substate m) \<and>
     pred_option RilPinState_IsValid (pa_pin1 m) \<and> pred_option RilPinState_IsValid (pa_pin2 m)"

lemma RilAppStatus_new_valid [simp]: "RilAppStatus_valid RilAppStatus_new"
  by (simp add: RilAppStatus_valid_def RilAppStatus_new_def)

lemma RilAppStatus_field_valid: "RilAppStatus_valid m \<Longrightarrow> keeps_field RilAppStatus_valid (RilAppStatus_field L tag bs m)"
  unfolding RilAppStatus_field_def Let_def
  by (intro keeps_if keeps_fields)
    (auto simp: RilAppStatus_valid_def RilAppStatus_add_unknown_def value_or_def split: option.splits)

lemma RilAppStatus_merge_valid:
  "RilAppStatus_MergePartialFromCodedStream L input m = Some (res, m') \<Longrightarrow> RilAppStatus_valid m \<Longrightarrow> RilAppStatus_valid m'"
  unfolding RilAppStatus_MergePartialFromCodedStream_def by (erule merge_fields_keeps) (auto simp: RilAppStatus_field_valid, simp add: RilAppStatus_valid_def RilAppStatus_add_unknown_def)

context wire_format
begin

lemma RilAppStatus_app_type:
  "pred_option RilAppType_IsValid x \<Longrightarrow> RilAppStatus_MergePartialFromCodedStream L (written (WriteEnum L 1) x @ r) m =
    RilAppStatus_MergePartialFromCodedStream L r (m\<lparr>pa_app_type := over x (pa_app_type m)\<rparr>)"
  unfolding RilAppStatus_MergePartialFromCodedStream_def by (rule merge_enum [where upd = pa_app_type_update and y = "pa_app_type m"]) (simp_all add: RilAppStatus_field_def tag_parts wire_types)

lemma RilAppStatus_app_state:
  "pred_option RilAppState_IsValid x \<Longrightarrow> RilAppStatus_MergePartialFromCodedStream L (written (WriteEnum L 2) x @ r) m =
    RilAppStatus_MergePartialFromCodedStream L r (m\<lparr>pa_app_state := over x (pa_app_state m)\<rparr>)"
  unfolding RilAppStatus_MergePartialFromCodedStream_def by (rule merge_enum [where upd = pa_app_state_update and y = "pa_app_state m"]) (simp_all add: RilAppStatus_field_def tag_parts wire_types)

lemma RilAppStatus_perso_substate:
  "pred_option RilPersoSubstate_IsValid x \<Longrightarrow> RilAppStatus_MergePartialFromCodedStream L (written (WriteEnum L 3) x @ r) m =
    RilAppStatus_MergePartialFromCodedStream L r (m\<lparr>pa_perso_substate := over x (pa_perso_substate m)\<rparr>)"
  unfolding RilAppStatus_MergePartialFromCodedStream_def by (rule merge_enum [where upd = pa_perso_substate_update and y = "pa_perso_substate m"]) (simp_all add: RilAppStatus_field_def tag_parts wire_types)

lemma RilAppStatus_aid:
  "pred_option short x \<Longrightarrow> RilAppStatus_MergePartialFromCodedStream L (written (WriteString L 4) x @ r) m =
    RilAppStatus_MergePartialFromCodedStream L r (m\<lparr>pa_aid := over x (pa_aid m)\<rparr>)"
  unfolding RilAppStatus_MergePartialFromCodedStream_def by (rule merge_string [where upd = pa_aid_update and y = "pa_aid m"]) (simp_all add: RilAppStatus_field_def tag_parts wire_types)

lemma RilAppStatus_app_label:
  "pred_option short x \<Longrightarrow> RilAppStatus_MergePartialFromCodedStream L (written (WriteString L 5) x @ r) m =
    RilAppStatus_MergePartialFromCodedStream L r (m\<lparr>pa_app_label := over x (pa_app_label m)\<rparr>)"
  unfolding RilAppStatus_MergePartialFromCodedStream_def by (rule merge_string [where upd = pa_app_label_update and y = "pa_app_label m"]) (simp_all add: RilAppStatus_field_def tag_parts wire_types)

lemma RilAppStatus_pin1_replaced:
  "RilAppStatus_MergePartialFromCodedStream L (written (WriteInt32 L 6) x @ r) m =
    RilAppStatus_MergePartialFromCodedStream L r (m\<lparr>pa_pin1_replaced := over x (pa_pin1_replaced m)\<rparr>)"
  unfolding RilAppStatus_MergePartialFromCodedStream_def by (rule merge_int32 [where upd = pa_pin1_replaced_update and y = "pa_pin1_replaced m"]) (simp_all add: RilAppStatus_field_def tag_parts wire_types)

lemma RilAppStatus_pin1:
  "pred_option RilPinState_IsValid x \<Longrightarrow> RilAppStatus_MergePartialFromCodedStream L (written (WriteEnum L 7) x @ r) m =
    RilAppStatus_MergePartialFromCodedStream L r (m\<lparr>pa_pin1 := over x (pa_pin1 m)\<rparr>)"
  unfolding RilAppStatus_MergePartialFromCodedStream_def by (rule merge_enum [where upd = pa_pin1_update and y = "pa_pin1 m"]) (simp_all add: RilAppStatus_field_def tag_parts wire_types)

lemma RilAppStatus_pin2:
  "pred_option RilPinState_IsValid x \<Longrightarrow> RilAppStatus_MergePartialFromCodedStream L (written (WriteEnum L 8) x @ r) m =
    RilAppStatus_MergePartialFromCodedStream L r (m\<lparr>pa_pin2 := over x (pa_pin2 m)\<rparr>)"
  unfolding RilAppStatus_MergePartialFromCodedStream_def by (rule merge_enum [where upd = pa_pin2_update and y = "pa_pin2 m"]) (simp_all add: RilAppStatus_field_def tag_parts wire_types)

lemma RilAppStatus_merge:
  "RilAppStatus_ok L m \<Longrightarrow> RilAppStatus_MergePartialFromCodedStream L (RilAppStatus_SerializeWithCachedSizes L m @ r) u =
    RilAppStatus_MergePartialFromCodedStream L r (RilAppStatus_MergeFrom m u)"
  by (simp add: RilAppStatus_SerializeWithCachedSizes_def RilAppStatus_ok_def RilAppStatus_MergeFrom_def
      RilAppStatus_app_type RilAppStatus_app_state RilAppStatus_perso_substate RilAppStatus_aid
      RilAppStatus_app_label RilAppStatus_pin1_replaced RilAppStatus_pin1 RilAppStatus_pin2 del: One_nat_def)

lemma RilAppStatus_merge_all: "RilAppStatus_ok L m \<Longrightarrow> RilAppStatus_MergePartialFromCodedStream L (RilAppStatus_SerializeWithCachedSizes L m) u = Some (Consumed, RilAppStatus_MergeFrom m u)"
  using RilAppStatus_merge [of m "[]" u] by (simp add: RilAppStatus_MergePartialFromCodedStream_def merge_end_fields)

lemma length_RilAppStatus: "length (RilAppStatus_SerializeWithCachedSizes L m) = RilAppStatus_ByteSize L m"
  by (simp add: RilAppStatus_SerializeWithCachedSizes_def RilAppStatus_ByteSize_def length_written)

lemma RilAppStatus_returns: "RilAppStatus_MergePartialFromCodedStream L input m \<noteq> None"
  unfolding RilAppStatus_MergePartialFromCodedStream_def by (rule merge_fields_returns) (simp add: RilAppStatus_field_def goes_on_within_fields Let_def)

end

section \<open>\<open>RilCardStatus\<close>\<close>

definition RilCardStatus_ok :: "wire \<Rightarrow> RilCardStatus \<Rightarrow> bool" where
  "RilCardStatus_ok L m \<longleftrightarrow> pred_option RilCardState_IsValid (ps_card_state m) \<and>
     pred_option RilPinState_IsValid (ps_universal_pin_state m) \<and>
     list_all (\<lambda>v. RilAppStatus_ok L v \<and> short (RilAppStatus_SerializeWithCachedSizes L v)) (ps_applications m) \<and>
     ps_unknown m = []"

lemma RilCardStatus_MergeFrom_new [simp]: "RilCardStatus_MergeFrom m RilCardStatus_new = m"
  by (cases m) (simp add: RilCardStatus_MergeFrom_def RilCardStatus_new_def)

lemma RilCardStatus_CopyFrom: "RilCardStatus_CopyFrom src m = src"
  using RilCardStatus_MergeFrom_new [of src] by (cases m) (simp add: RilCardStatus_CopyFrom_def RilCardStatus_Clear_def RilCardStatus_new_def)

definition RilCardStatus_valid :: "RilCardStatus \<Rightarrow> bool" where
  "RilCardStatus_valid m \<longleftrightarrow> pred_option RilCardState_IsValid (ps_card_state m) \<and>
     pred_option RilPinState_IsValid (ps_universal_pin_state m) \<and>
     list_all RilAppStatus_valid (ps_applications m)"

lemma RilCardStatus_new_valid [simp]: "RilCardStatus_valid RilCardStatus_new"
  by (simp add: RilCardStatus_valid_def RilCardStatus_new_def)

lemma RilCardStatus_field_valid: "RilCardStatus_valid m \<Longrightarrow> keeps_field RilCardStatus_valid (RilCardStatus_field L tag bs m)"
  unfolding RilCardStatus_field_def Let_def
  by (intro keeps_if keeps_fields keeps_message [where Q = RilAppStatus_valid])
    (auto simp: RilCardStatus_valid_def RilCardStatus_add_unknown_def value_or_def dest: RilAppStatus_merge_valid split: option.splits)

lemma RilCardStatus_merge_valid:
  "RilCardStatus_MergePartialFromCodedStream L input m = Some (res, m') \<Longrightarrow> RilCardStatus_valid m \<Longrightarrow> RilCardStatus_valid m'"
  unfolding RilCardStatus_MergePartialFromCodedStream_def by (erule merge_fields_keeps) (auto simp: RilCardStatus_field_valid, simp add: RilCardStatus_valid_def RilCardStatus_add_unknown_def)

context wire_format
begin

lemma RilCardStatus_card_state:
  "pred_option RilCardState_IsValid x \<Longrightarrow> RilCardStatus_MergePartialFromCodedStream L (written (WriteEnum L 1) x @ r) m =
    RilCardStatus_MergePartialFromCodedStream L r (m\<lparr>ps_card_state := over x (ps_card_state m)\<rparr>)"
  unfolding RilCardStatus_MergePartialFromCodedStream_def by (rule merge_enum [where upd = ps_card_state_update and y = "ps_card_state m"]) (simp_all add: RilCardStatus_field_def tag_parts wire_types)

lemma RilCardStatus_universal_pin_state:
  "pred_option RilPinState_IsValid x \<Longrightarrow> RilCardStatus_MergePartialFromCodedStream L (written (WriteEnum L 2) x @ r) m =
    RilCardStatus_MergePartialFromCodedStream L r (m\<lparr>ps_universal_pin_state := over x (ps_universal_pin_state m)\<rparr>)"
  unfolding RilCardStatus_MergePartialFromCodedStream_def by (rule merge_enum [where upd = ps_universal_pin_state_update and y = "ps_universal_pin_state m"]) (simp_all add: RilCardStatus_field_def tag_parts wire_types)

lemma RilCardStatus_gsm_umts_subscription_app_index:
  "RilCardStatus_MergePartialFromCodedStream L (written (WriteInt32 L 3) x @ r) m =
    RilCardStatus_MergePartialFromCodedStream L r (m\<lparr>ps_gsm_umts_subscription_app_index := over x (ps_gsm_umts_subscription_app_index m)\<rparr>)"
  unfolding RilCardStatus_MergePartialFromCodedStream_def by (rule merge_int32 [where upd = ps_gsm_umts_subscription_app_index_update and y = "ps_gsm_umts_subscription_app_index m"]) (simp_all add: RilCardStatus_field_def tag_parts wire_types)

lemma RilCardStatus_cdma_subscription_app_index:
  "RilCardStatus_MergePartialFromCodedStream L (written (WriteInt32 L 4) x @ r) m =
    RilCardStatus_MergePartialFromCodedStream L r (m\<lparr>ps_cdma_subscription_app_index := over x (ps_cdma_subscription_app_index m)\<rparr>)"
  unfolding RilCardStatus_MergePartialFromCodedStream_def by (rule merge_int32 [where upd = ps_cdma_subscription_app_index_update and y = "ps_cdma_subscription_app_index m"]) (simp_all add: RilCardStatus_field_def tag_parts wire_types)

lemma RilCardStatus_num_applications:
  "RilCardStatus_MergePartialFromCodedStream L (written (WriteInt32 L 5) x @ r) m =
    RilCardStatus_MergePartialFromCodedStream L r (m\<lparr>ps_num_applications := over x (ps_num_applications m)\<rparr>)"
  unfolding RilCardStatus_MergePartialFromCodedStream_def by (rule merge_int32 [where upd = ps_num_applications_update and y = "ps_num_applications m"]) (simp_all add: RilCardStatus_field_def tag_parts wire_types)

lemma RilCardStatus_applications:
  "list_all (\<lambda>v. RilAppStatus_ok L v \<and> short (RilAppStatus_SerializeWithCachedSizes L v)) vs \<Longrightarrow>
    RilCardStatus_MergePartialFromCodedStream L (concat (map (\<lambda>v. WriteMessage_wire L 6 (RilAppStatus_ByteSize L v) (RilAppStatus_SerializeWithCachedSizes L v)) vs) @ r) m =
    RilCardStatus_MergePartialFromCodedStream L r (m\<lparr>ps_applications := ps_applications m @ vs\<rparr>)"
  unfolding RilCardStatus_MergePartialFromCodedStream_def
  by (rule merge_messages [where upd = ps_applications_update and get = ps_applications and new = RilAppStatus_new and merge = "RilAppStatus_MergePartialFromCodedStream L"])
    (auto simp: RilCardStatus_field_def tag_parts wire_types length_RilAppStatus list_all_iff RilAppStatus_merge_all)

lemma RilCardStatus_merge:
  "RilCardStatus_ok L m \<Longrightarrow> RilCardStatus_MergePartialFromCodedStream L (RilCardStatus_SerializeWithCachedSizes L m @ r) u =
    RilCardStatus_MergePartialFromCodedStream L r (RilCardStatus_MergeFrom m u)"
  by (simp add: RilCardStatus_SerializeWithCachedSizes_def RilCardStatus_ok_def RilCardStatus_MergeFrom_def
      RilCardStatus_card_state RilCardStatus_universal_pin_state RilCardStatus_gsm_umts_subscription_app_index
      RilCardStatus_cdma_subscription_app_index RilCardStatus_num_applications RilCardStatus_applications del: One_nat_def)

lemma RilCardStatus_merge_all: "RilCardStatus_ok L m \<Longrightarrow> RilCardStatus_MergePartialFromCodedStream L (RilCardStatus_SerializeWithCachedSizes L m) u = Some (Consumed, RilCardStatus_MergeFrom m u)"
  using RilCardStatus_merge [of m "[]" u] by (simp add: RilCardStatus_MergePartialFromCodedStream_def merge_end_fields)

lemma length_RilCardStatus: "length (RilCardStatus_SerializeWithCachedSizes L m) = RilCardStatus_ByteSize L m"
  by (simp add: RilCardStatus_SerializeWithCachedSizes_def RilCardStatus_ByteSize_def length_written length_repeated_messages length_RilAppStatus)

lemma RilCardStatus_returns: "RilCardStatus_MergePartialFromCodedStream L input m \<noteq> None"
  unfolding RilCardStatus_MergePartialFromCodedStream_def by (rule merge_fields_returns) (simp add: RilCardStatus_field_def goes_on_within_fields goes_on_within_message RilAppStatus_returns Let_def)

end

section \<open>\<open>RilUusInfo\<close>\<close>

definition RilUusInfo_ok :: "wire \<Rightarrow> RilUusInfo \<Rightarrow> bool" where
  "RilUusInfo_ok L m \<longleftrightarrow> pred_option RilUusType_IsValid (pu_uus_type m) \<and> pred_option RilUusDcs_IsValid (pu_uus_dcs m) \<and>
     pred_option short (pu_uus_data m) \<and> pu_unknown m = []"

lemma RilUusInfo_MergeFrom_new [simp]: "RilUusInfo_MergeFrom m RilUusInfo_new = m"
  by (cases m) (simp add: RilUusInfo_MergeFrom_def RilUusInfo_new_def)

lemma RilUusInfo_CopyFrom: "RilUusInfo_CopyFrom src m = src"
  using RilUusInfo_MergeFrom_new [of src] by (cases m) (simp add: RilUusInfo_CopyFrom_def RilUusInfo_Clear_def RilUusInfo_new_def)

definition RilUusInfo_valid :: "RilUusInfo \<Rightarrow> bool" where
  "RilUusInfo_valid m \<longleftrightarrow> pred_option RilUusType_IsValid (pu_uus_type m) \<and> pred_option RilUusDcs_IsValid (pu_uus_dcs m)"

lemma RilUusInfo_new_valid [simp]: "RilUusInfo_valid RilUusInfo_new"
  by (simp add: RilUusInfo_valid_def RilUusInfo_new_def)

lemma RilUusInfo_field_valid: "RilUusInfo_valid m \<Longrightarrow> keeps_field RilUusInfo_valid (RilUusInfo_field L tag bs m)"
  unfolding RilUusInfo_field_def Let_def
  by (intro keeps_if keeps_fields)
    (auto simp: RilUusInfo_valid_def RilUusInfo_add_unknown_def value_or_def split: option.splits)

lemma RilUusInfo_merge_valid:
  "RilUusInfo_MergePartialFromCodedStream L input m = Some (res, m') \<Longrightarrow> RilUusInfo_valid m \<Longrightarrow> RilUusInfo_valid m'"
  unfolding RilUusInfo_MergePartialFromCodedStream_def by (erule merge_fields_keeps) (auto simp: RilUusInfo_field_valid, simp add: RilUusInfo_valid_def RilUusInfo_add_unknown_def)

context wire_format
begin

lemma RilUusInfo_uus_type:
  "pred_option RilUusType_IsValid x \<Longrightarrow> RilUusInfo_MergePartialFromCodedStream L (written (WriteEnum L 1) x @ r) m =
    RilUusInfo_MergePartialFromCodedStream L r (m\<lparr>pu_uus_type := over x (pu_uus_type m)\<rparr>)"
  unfolding RilUusInfo_MergePartialFromCodedStream_def by (rule merge_enum [where upd = pu_uus_type_update and y = "pu_uus_type m"]) (simp_all add: RilUusInfo_field_def tag_parts wire_types)

lemma RilUusInfo_uus_dcs:
  "pred_option RilUusDcs_IsValid x \<Longrightarrow> RilUusInfo_MergePartialFromCodedStream L (written (WriteEnum L 2) x @ r) m =
    RilUusInfo_MergePartialFromCodedStream L r (m\<lparr>pu_uus_dcs := over x (pu_uus_dcs m)\<rparr>)"
  unfolding RilUusInfo_MergePartialFromCodedStream_def by (rule merge_enum [where upd = pu_uus_dcs_update and y = "pu_uus_dcs m"]) (simp_all add: RilUusInfo_field_def tag_parts wire_types)

lemma RilUusInfo_uus_length:
  "RilUusInfo_MergePartialFromCodedStream L (written (WriteInt32 L 3) x @ r) m =
    RilUusInfo_MergePartialFromCodedStream L r (m\<lparr>pu_uus_length := over x (pu_uus_length m)\<rparr>)"
  unfolding RilUusInfo_MergePartialFromCodedStream_def by (rule merge_int32 [where upd = pu_uus_length_update and y = "pu_uus_length m"]) (simp_all add: RilUusInfo_field_def tag_parts wire_types)

lemma RilUusInfo_uus_data:
  "pred_option short x \<Longrightarrow> RilUusInfo_MergePartialFromCodedStream L (written (WriteString L 4) x @ r) m =
    RilUusInfo_MergePartialFromCodedStream L r (m\<lparr>pu_uus_data := over x (pu_uus_data m)\<rparr>)"
  unfolding RilUusInfo_MergePartialFromCodedStream_def by (rule merge_string [where upd = pu_uus_data_update and y = "pu_uus_data m"]) (simp_all add: RilUusInfo_field_def tag_parts wire_types)

lemma RilUusInfo_merge:
  "RilUusInfo_ok L m \<Longrightarrow> RilUusInfo_MergePartialFromCodedStream L (RilUusInfo_SerializeWithCachedSizes L m @ r) u =
    RilUusInfo_MergePartialFromCodedStream L r (RilUusInfo_MergeFrom m u)"
  by (simp add: RilUusInfo_SerializeWithCachedSizes_def RilUusInfo_ok_def RilUusInfo_MergeFrom_def
      RilUusInfo_uus_type RilUusInfo_uus_dcs RilUusInfo_uus_length RilUusInfo_uus_data del: One_nat_def)

lemma RilUusInfo_merge_all: "RilUusInfo_ok L m \<Longrightarrow> RilUusInfo_MergePartialFromCodedStream L (RilUusInfo_SerializeWithCachedSizes L m) u = Some (Consumed, RilUusInfo_MergeFrom m u)"
  using RilUusInfo_merge [of m "[]" u] by (simp add: RilUusInfo_MergePartialFromCodedStream_def merge_end_fields)

lemma length_RilUusInfo: "length (RilUusInfo_SerializeWithCachedSizes L m) = RilUusInfo_ByteSize L m"
  by (simp add: RilUusInfo_SerializeWithCachedSizes_def RilUusInfo_ByteSize_def length_written)

lemma RilUusInfo_returns: "RilUusInfo_MergePartialFromCodedStream L input m \<noteq> None"
  unfolding RilUusInfo_MergePartialFromCodedStream_def by (rule merge_fields_returns) (simp add: RilUusInfo_field_def goes_on_within_fields Let_def)

end

section \<open>\<open>RilCall\<close>\<close>

definition RilCall_ok :: "wire \<Rightarrow> RilCall \<Rightarrow> bool" where
  "RilCall_ok L m \<longleftrightarrow> pred_option RilCallState_IsValid (pc_state m) \<and> pred_option short (pc_number m) \<and>
     pred_option short (pc_name m) \<and>
     pred_option (\<lambda>v. RilUusInfo_ok L v \<and> short (RilUusInfo_SerializeWithCachedSizes L v)) (pc_uus_info m) \<and>
     pc_unknown m = []"

lemma RilCall_MergeFrom_new [simp]: "RilCall_MergeFrom m RilCall_new = m"
  by (cases m) (simp add: RilCall_MergeFrom_def RilCall_new_def merge_over_def split: option.split)

lemma RilCall_CopyFrom: "RilCall_CopyFrom src m = src"
  using RilCall_MergeFrom_new [of src] by (cases m) (simp add: RilCall_CopyFrom_def RilCall_Clear_def RilCall_new_def)

definition RilCall_valid :: "RilCall \<Rightarrow> bool" where
  "RilCall_valid m \<longleftrightarrow> pred_option RilCallState_IsValid (pc_state m) \<and> pred_option RilUusInfo_valid (pc_uus_info m)"

lemma RilCall_new_valid [simp]: "RilCall_valid RilCall_new"
  by (simp add: RilCall_valid_def RilCall_new_def)

lemma RilCall_field_valid: "RilCall_valid m \<Longrightarrow> keeps_field RilCall_valid (RilCall_field L tag bs m)"
  unfolding RilCall_field_def Let_def
  by (intro keeps_if keeps_fields keeps_message [where Q = RilUusInfo_valid])
    (auto simp: RilCall_valid_def RilCall_add_unknown_def value_or_def dest: RilUusInfo_merge_valid split: option.splits)

lemma RilCall_merge_valid:
  "RilCall_MergePartialFromCodedStream L input m = Some (res, m') \<Longrightarrow> RilCall_valid m \<Longrightarrow> RilCall_valid m'"
  unfolding RilCall_MergePartialFromCodedStream_def by (erule merge_fields_keeps) (auto simp: RilCall_field_valid, simp add: RilCall_valid_def RilCall_add_unknown_def)

context wire_format
begin

lemma RilCall_state:
  "pred_option RilCallState_IsValid x \<Longrightarrow> RilCall_MergePartialFromCodedStream L (written (WriteEnum L 1) x @ r) m =
    RilCall_MergePartialFromCodedStream L r (m\<lparr>pc_state := over x (pc_state m)\<rparr>)"
  unfolding RilCall_MergePartialFromCodedStream_def by (rule merge_enum [where upd = pc_state_update and y = "pc_state m"]) (simp_all add: RilCall_field_def tag_parts wire_types)

lemma RilCall_index:
  "RilCall_MergePartialFromCodedStream L (written (WriteInt32 L 2) x @ r) m =
    RilCall_MergePartialFromCodedStream L r (m\<lparr>pc_index := over x (pc_index m)\<rparr>)"
  unfolding RilCall_MergePartialFromCodedStream_def by (rule merge_int32 [where upd = pc_index_update and y = "pc_index m"]) (simp_all add: RilCall_field_def tag_parts wire_types)

lemma RilCall_toa:
  "RilCall_MergePartialFromCodedStream L (written (WriteInt32 L 3) x @ r) m =
    RilCall_MergePartialFromCodedStream L r (m\<lparr>pc_toa := over x (pc_toa m)\<rparr>)"
  unfolding RilCall_MergePartialFromCodedStream_def by (rule merge_int32 [where upd = pc_toa_update and y = "pc_toa m"]) (simp_all add: RilCall_field_def tag_parts wire_types)

lemma RilCall_is_mpty:
  "RilCall_MergePartialFromCodedStream L (written (WriteBool L 4) x @ r) m =
    RilCall_MergePartialFromCodedStream L r (m\<lparr>pc_is_mpty := over x (pc_is_mpty m)\<rparr>)"
  unfolding RilCall_MergePartialFromCodedStream_def by (rule merge_bool [where upd = pc_is_mpty_update and y = "pc_is_mpty m"]) (simp_all add: RilCall_field_def tag_parts wire_types)

lemma RilCall_is_mt:
  "RilCall_MergePartialFromCodedStream L (written (WriteBool L 5) x @ r) m =
    RilCall_MergePartialFromCodedStream L r (m\<lparr>pc_is_mt := over x (pc_is_mt m)\<rparr>)"
  unfolding RilCall_MergePartialFromCodedStream_def by (rule merge_bool [where upd = pc_is_mt_update and y = "pc_is_mt m"]) (simp_all add: RilCall_field_def tag_parts wire_types)

lemma RilCall_als:
  "RilCall_MergePartialFromCodedStream L (written (WriteInt32 L 6) x @ r) m =
    RilCall_MergePartialFromCodedStream L r (m\<lparr>pc_als := over x (pc_als m)\<rparr>)"
  unfolding RilCall_MergePartialFromCodedStream_def by (rule merge_int32 [where upd = pc_als_update and y = "pc_als m"]) (simp_all add: RilCall_field_def tag_parts wire_types)

lemma RilCall_is_voice:
  "RilCall_MergePartialFromCodedStream L (written (WriteBool L 7) x @ r) m =
    RilCall_MergePartialFromCodedStream L r (m\<lparr>pc_is_voice := over x (pc_is_voice m)\<rparr>)"
  unfolding RilCall_MergePartialFromCodedStream_def by (rule merge_bool [where upd = pc_is_voice_update and y = "pc_is_voice m"]) (simp_all add: RilCall_field_def tag_parts wire_types)

lemma RilCall_is_voice_privacy:
  "RilCall_MergePartialFromCodedStream L (written (WriteBool L 8) x @ r) m =
    RilCall_MergePartialFromCodedStream L r (m\<lparr>pc_is_voice_privacy := over x (pc_is_voice_privacy m)\<rparr>)"
  unfolding RilCall_MergePartialFromCodedStream_def by (rule merge_bool [where upd = pc_is_voice_privacy_update and y = "pc_is_voice_privacy m"]) (simp_all add: RilCall_field_def tag_parts wire_types)

lemma RilCall_number:
  "pred_option short x \<Longrightarrow> RilCall_MergePartialFromCodedStream L (written (WriteString L 9) x @ r) m =
    RilCall_MergePartialFromCodedStream L r (m\<lparr>pc_number := over x (pc_number m)\<rparr>)"
  unfolding RilCall_MergePartialFromCodedStream_def by (rule merge_string [where upd = pc_number_update and y = "pc_number m"]) (simp_all add: RilCall_field_def tag_parts wire_types)

lemma RilCall_number_presentation:
  "RilCall_MergePartialFromCodedStream L (written (WriteInt32 L 10) x @ r) m =
    RilCall_MergePartialFromCodedStream L r (m\<lparr>pc_number_presentation := over x (pc_number_presentation m)\<rparr>)"
  unfolding RilCall_MergePartialFromCodedStream_def by (rule merge_int32 [where upd = pc_number_presentation_update and y = "pc_number_presentation m"]) (simp_all add: RilCall_field_def tag_parts wire_types)

lemma RilCall_name:
  "pred_option short x \<Longrightarrow> RilCall_MergePartialFromCodedStream L (written (WriteString L 11) x @ r) m =
    RilCall_MergePartialFromCodedStream L r (m\<lparr>pc_name := over x (pc_name m)\<rparr>)"
  unfolding RilCall_MergePartialFromCodedStream_def by (rule merge_string [where upd = pc_name_update and y = "pc_name m"]) (simp_all add: RilCall_field_def tag_parts wire_types)

lemma RilCall_name_presentation:
  "RilCall_MergePartialFromCodedStream L (written (WriteInt32 L 12) x @ r) m =
    RilCall_MergePartialFromCodedStream L r (m\<lparr>pc_name_presentation := over x (pc_name_presentation m)\<rparr>)"
  unfolding RilCall_MergePartialFromCodedStream_def by (rule merge_int32 [where upd = pc_name_presentation_update and y = "pc_name_presentation m"]) (simp_all add: RilCall_field_def tag_parts wire_types)

lemma RilCall_uus_info:
  "pred_option (\<lambda>v. RilUusInfo_ok L v \<and> short (RilUusInfo_SerializeWithCachedSizes L v)) x \<Longrightarrow>
    RilCall_MergePartialFromCodedStream L (written (\<lambda>v. WriteMessage_wire L 13 (RilUusInfo_ByteSize L v) (RilUusInfo_SerializeWithCachedSizes L v)) x @ r) m =
    RilCall_MergePartialFromCodedStream L r (m\<lparr>pc_uus_info := merge_over RilUusInfo_MergeFrom RilUusInfo_new x (pc_uus_info m)\<rparr>)"
  unfolding RilCall_MergePartialFromCodedStream_def
  by (rule merge_message [where upd = pc_uus_info_update and new = RilUusInfo_new and merge = "RilUusInfo_MergePartialFromCodedStream L" and
        y = "pc_uus_info m"])
    (auto simp: RilCall_field_def tag_parts wire_types length_RilUusInfo RilUusInfo_merge_all)

lemma RilCall_merge:
  "RilCall_ok L m \<Longrightarrow> RilCall_MergePartialFromCodedStream L (RilCall_SerializeWithCachedSizes L m @ r) u =
    RilCall_MergePartialFromCodedStream L r (RilCall_MergeFrom m u)"
  by (simp add: RilCall_SerializeWithCachedSizes_def RilCall_ok_def RilCall_MergeFrom_def
      RilCall_state RilCall_index RilCall_toa RilCall_is_mpty RilCall_is_mt RilCall_als RilCall_is_voice
      RilCall_is_voice_privacy RilCall_number RilCall_number_presentation RilCall_name RilCall_name_presentation
      RilCall_uus_info del: One_nat_def)

lemma RilCall_merge_all: "RilCall_ok L m \<Longrightarrow> RilCall_MergePartialFromCodedStream L (RilCall_SerializeWithCachedSizes L m) u = Some (Consumed, RilCall_MergeFrom m u)"
  using RilCall_merge [of m "[]" u] by (simp add: RilCall_MergePartialFromCodedStream_def merge_end_fields)

lemma length_RilCall: "length (RilCall_SerializeWithCachedSizes L m) = RilCall_ByteSize L m"
  by (simp add: RilCall_SerializeWithCachedSizes_def RilCall_ByteSize_def length_written length_written_message length_RilUusInfo)

lemma RilCall_returns: "RilCall_MergePartialFromCodedStream L input m \<noteq> None"
  unfolding RilCall_MergePartialFromCodedStream_def by (rule merge_fields_returns) (simp add: RilCall_field_def goes_on_within_fields goes_on_within_message RilUusInfo_returns Let_def)

end

section \<open>\<open>RILGWSignalStrength\<close>\<close>

definition RILGWSignalStrength_ok :: "wire \<Rightarrow> RILGWSignalStrength \<Rightarrow> bool" where
  "RILGWSignalStrength_ok L m \<longleftrightarrow> pgw_unknown m = []"

lemma RILGWSignalStrength_MergeFrom_new [simp]: "RILGWSignalStrength_MergeFrom m RILGWSignalStrength_new = m"
  by (cases m) (simp add: RILGWSignalStrength_MergeFrom_def RILGWSignalStrength_new_def)

lemma RILGWSignalStrength_CopyFrom: "RILGWSignalStrength_CopyFrom src m = src"
  using RILGWSignalStrength_MergeFrom_new [of src] by (cases m) (simp add: RILGWSignalStrength_CopyFrom_def RILGWSignalStrength_Clear_def RILGWSignalStrength_new_def)

context wire_format
begin

lemma RILGWSignalStrength_signal_strength:
  "RILGWSignalStrength_MergePartialFromCodedStream L (written (WriteInt32 L 1) x @ r) m =
    RILGWSignalStrength_MergePartialFromCodedStream L r (m\<lparr>pgw_signal_strength := over x (pgw_signal_strength m)\<rparr>)"
  unfolding RILGWSignalStrength_MergePartialFromCodedStream_def by (rule merge_int32 [where upd = pgw_signal_strength_update and y = "pgw_signal_strength m"]) (simp_all add: RILGWSignalStrength_field_def tag_parts wire_types)

lemma RILGWSignalStrength_bit_error_rate:
  "RILGWSignalStrength_MergePartialFromCodedStream L (written (WriteInt32 L 2) x @ r) m =
    RILGWSignalStrength_MergePartialFromCodedStream L r (m\<lparr>pgw_bit_error_rate := over x (pgw_bit_error_rate m)\<rparr>)"
  unfolding RILGWSignalStrength_MergePartialFromCodedStream_def by (rule merge_int32 [where upd = pgw_bit_error_rate_update and y = "pgw_bit_error_rate m"]) (simp_all add: RILGWSignalStrength_field_def tag_parts wire_types)

lemma RILGWSignalStrength_merge:
  "RILGWSignalStrength_ok L m \<Longrightarrow> RILGWSignalStrength_MergePartialFromCodedStream L (RILGWSignalStrength_SerializeWithCachedSizes L m @ r) u =
    RILGWSignalStrength_MergePartialFromCodedStream L r (RILGWSignalStrength_MergeFrom m u)"
  by (simp add: RILGWSignalStrength_SerializeWithCachedSizes_def RILGWSignalStrength_ok_def RILGWSignalStrength_MergeFrom_def
      RILGWSignalStrength_signal_strength RILGWSignalStrength_bit_error_rate del: One_nat_def)

lemma RILGWSignalStrength_merge_all: "RILGWSignalStrength_ok L m \<Longrightarrow> RILGWSignalStrength_MergePartialFromCodedStream L (RILGWSignalStrength_SerializeWithCachedSizes L m) u = Some (Consumed, RILGWSignalStrength_MergeFrom m u)"
  using RILGWSignalStrength_merge [of m "[]" u] by (simp add: RILGWSignalStrength_MergePartialFromCodedStream_def merge_end_fields)

lemma length_RILGWSignalStrength: "length (RILGWSignalStrength_SerializeWithCachedSizes L m) = RILGWSignalStrength_ByteSize L m"
  by (simp add: RILGWSignalStrength_SerializeWithCachedSizes_def RILGWSignalStrength_ByteSize_def length_written)

lemma RILGWSignalStrength_returns: "RILGWSignalStrength_MergePartialFromCodedStream L input m \<noteq> None"
  unfolding RILGWSignalStrength_MergePartialFromCodedStream_def by (rule merge_fields_returns) (simp add: RILGWSignalStrength_field_def goes_on_within_fields Let_def)

end

section \<open>\<open>RILCDMASignalStrength\<close>\<close>

definition RILCDMASignalStrength_ok :: "wire \<Rightarrow> RILCDMASignalStrength \<Rightarrow> bool" where
  "RILCDMASignalStrength_ok L m \<longleftrightarrow> pcdma_unknown m = []"

lemma RILCDMASignalStrength_MergeFrom_new [simp]: "RILCDMASignalStrength_MergeFrom m RILCDMASignalStrength_new = m"
  by (cases m) (simp add: RILCDMASignalStrength_MergeFrom_def RILCDMASignalStrength_new_def)

lemma RILCDMASignalStrength_CopyFrom: "RILCDMASignalStrength_CopyFrom src m = src"
  using RILCDMASignalStrength_MergeFrom_new [of src] by (cases m) (simp add: RILCDMASignalStrength_CopyFrom_def RILCDMASignalStrength_Clear_def RILCDMASignalStrength_new_def)

context wire_format
begin

lemma RILCDMASignalStrength_dbm:
  "RILCDMASignalStrength_MergePartialFromCodedStream L (written (WriteInt32 L 1) x @ r) m =
    RILCDMASignalStrength_MergePartialFromCodedStream L r (m\<lparr>pcdma_dbm := over x (pcdma_dbm m)\<rparr>)"
  unfolding RILCDMASignalStrength_MergePartialFromCodedStream_def by (rule merge_int32 [where upd = pcdma_dbm_update and y = "pcdma_dbm m"]) (simp_all add: RILCDMASignalStrength_field_def tag_parts wire_types)

lemma RILCDMASignalStrength_ecio:
  "RILCDMASignalStrength_MergePartialFromCodedStream L (written (WriteInt32 L 2) x @ r) m =
    RILCDMASignalStrength_MergePartialFromCodedStream L r (m\<lparr>pcdma_ecio := over x (pcdma_ecio m)\<rparr>)"
  unfolding RILCDMASignalStrength_MergePartialFromCodedStream_def by (rule merge_int32 [where upd = pcdma_ecio_update and y = "pcdma_ecio m"]) (simp_all add: RILCDMASignalStrength_field_def tag_parts wire_types)

lemma RILCDMASignalStrength_merge:
  "RILCDMASignalStrength_ok L m \<Longrightarrow> RILCDMASignalStrength_MergePartialFromCodedStream L (RILCDMASignalStrength_SerializeWithCachedSizes L m @ r) u =
    RILCDMASignalStrength_MergePartialFromCodedStream L r (RILCDMASignalStrength_MergeFrom m u)"
  by (simp add: RILCDMASignalStrength_SerializeWithCachedSizes_def RILCDMASignalStrength_ok_def RILCDMASignalStrength_MergeFrom_def
      RILCDMASignalStrength_dbm RILCDMASignalStrength_ecio del: One_nat_def)

lemma RILCDMASignalStrength_merge_all: "RILCDMASignalStrength_ok L m \<Longrightarrow> RILCDMASignalStrength_MergePartialFromCodedStream L (RILCDMASignalStrength_SerializeWithCachedSizes L m) u = Some (Consumed, RILCDMASignalStrength_MergeFrom m u)"
  using RILCDMASignalStrength_merge [of m "[]" u] by (simp add: RILCDMASignalStrength_MergePartialFromCodedStream_def merge_end_fields)

lemma length_RILCDMASignalStrength: "length (RILCDMASignalStrength_SerializeWithCachedSizes L m) = RILCDMASignalStrength_ByteSize L m"
  by (simp add: RILCDMASignalStrength_SerializeWithCachedSizes_def RILCDMASignalStrength_ByteSize_def length_written)

lemma RILCDMASignalStrength_returns: "RILCDMASignalStrength_MergePartialFromCodedStream L input m \<noteq> None"
  unfolding RILCDMASignalStrength_MergePartialFromCodedStream_def by (rule merge_fields_returns) (simp add: RILCDMASignalStrength_field_def goes_on_within_fields Let_def)

end

section \<open>\<open>RILEVDOSignalStrength\<close>\<close>

definition RILEVDOSignalStrength_ok :: "wire \<Rightarrow> RILEVDOSignalStrength \<Rightarrow> bool" where
  "RILEVDOSignalStrength_ok L m \<longleftrightarrow> pevdo_unknown m = []"

lemma RILEVDOSignalStrength_MergeFrom_new [simp]: "RILEVDOSignalStrength_MergeFrom m RILEVDOSignalStrength_new = m"
  by (cases m) (simp add: RILEVDOSignalStrength_MergeFrom_def RILEVDOSignalStrength_new_def)

lemma RILEVDOSignalStrength_CopyFrom: "RILEVDOSignalStrength_CopyFrom src m = src"
  using RILEVDOSignalStrength_MergeFrom_new [of src] by (cases m) (simp add: RILEVDOSignalStrength_CopyFrom_def RILEVDOSignalStrength_Clear_def RILEVDOSignalStrength_new_def)

context wire_format
begin

lemma RILEVDOSignalStrength_dbm:
  "RILEVDOSignalStrength_MergePartialFromCodedStream L (written (WriteInt32 L 1) x @ r) m =
    RILEVDOSignalStrength_MergePartialFromCodedStream L r (m\<lparr>pevdo_dbm := over x (pevdo_dbm m)\<rparr>)"
  unfolding RILEVDOSignalStrength_MergePartialFromCodedStream_def by (rule merge_int32 [where upd = pevdo_dbm_update and y = "pevdo_dbm m"]) (simp_all add: RILEVDOSignalStrength_field_def tag_parts wire_types)

lemma RILEVDOSignalStrength_ecio:
  "RILEVDOSignalStrength_MergePartialFromCodedStream L (written (WriteInt32 L 2) x @ r) m =
    RILEVDOSignalStrength_MergePartialFromCodedStream L r (m\<lparr>pevdo_ecio := over x (pevdo_ecio m)\<rparr>)"
  unfolding RILEVDOSignalStrength_MergePartialFromCodedStream_def by (rule merge_int32 [where upd = pevdo_ecio_update and y = "pevdo_ecio m"]) (simp_all add: RILEVDOSignalStrength_field_def tag_parts wire_types)

lemma RILEVDOSignalStrength_signal_noise_ratio:
  "RILEVDOSignalStrength_MergePartialFromCodedStream L (written (WriteInt32 L 3) x @ r) m =
    RILEVDOSignalStrength_MergePartialFromCodedStream L r (m\<lparr>pevdo_signal_noise_ratio := over x (pevdo_signal_noise_ratio m)\<rparr>)"
  unfolding RILEVDOSignalStrength_MergePartialFromCodedStream_def by (rule merge_int32 [where upd = pevdo_signal_noise_ratio_update and y = "pevdo_signal_noise_ratio m"]) (simp_all add: RILEVDOSignalStrength_field_def tag_parts wire_types)

lemma RILEVDOSignalStrength_merge:
  "RILEVDOSignalStrength_ok L m \<Longrightarrow> RILEVDOSignalStrength_MergePartialFromCodedStream L (RILEVDOSignalStrength_SerializeWithCachedSizes L m @ r) u =
    RILEVDOSignalStrength_MergePartialFromCodedStream L r (RILEVDOSignalStrength_MergeFrom m u)"
  by (simp add: RILEVDOSignalStrength_SerializeWithCachedSizes_def RILEVDOSignalStrength_ok_def RILEVDOSignalStrength_MergeFrom_def
      RILEVDOSignalStrength_dbm RILEVDOSignalStrength_ecio RILEVDOSignalStrength_signal_noise_ratio del: One_nat_def)

lemma RILEVDOSignalStrength_merge_all: "RILEVDOSignalStrength_ok L m \<Longrightarrow> RILEVDOSignalStrength_MergePartialFromCodedStream L (RILEVDOSignalStrength_SerializeWithCachedSizes L m) u = Some (Consumed, RILEVDOSignalStrength_MergeFrom m u)"
  using RILEVDOSignalStrength_merge [of m "[]" u] by (simp add: RILEVDOSignalStrength_MergePartialFromCodedStream_def merge_end_fields)

lemma length_RILEVDOSignalStrength: "length (RILEVDOSignalStrength_SerializeWithCachedSizes L m) = RILEVDOSignalStrength_ByteSize L m"
  by (simp add: RILEVDOSignalStrength_SerializeWithCachedSizes_def RILEVDOSignalStrength_ByteSize_def length_written)

lemma RILEVDOSignalStrength_returns: "RILEVDOSignalStrength_MergePartialFromCodedStream L input m \<noteq> None"
  unfolding RILEVDOSignalStrength_MergePartialFromCodedStream_def by (rule merge_fields_returns) (simp add: RILEVDOSignalStrength_field_def goes_on_within_fields Let_def)

end

section \<open>\<open>RspStrings\<close>\<close>

definition RspStrings_ok :: "wire \<Rightarrow> RspStrings_msg \<Rightarrow> bool" where
  "RspStrings_ok L m \<longleftrightarrow> list_all short (pstr_strings m) \<and> pstr_unknown m = []"

lemma RspStrings_MergeFrom_new [simp]: "RspStrings_MergeFrom m RspStrings_new = m"
  by (cases m) (simp add: RspStrings_MergeFrom_def RspStrings_new_def)

lemma RspStrings_CopyFrom: "RspStrings_CopyFrom src m = src"
  using RspStrings_MergeFrom_new [of src] by (cases m) (simp add: RspStrings_CopyFrom_def RspStrings_Clear_def RspStrings_new_def)

context wire_format
begin

lemma RspStrings_strings:
  "list_all short vs \<Longrightarrow> RspStrings_MergePartialFromCodedStream L (concat (map (WriteString L 1) vs) @ r) m =
    RspStrings_MergePartialFromCodedStream L r (m\<lparr>pstr_strings := pstr_strings m @ vs\<rparr>)"
  unfolding RspStrings_MergePartialFromCodedStream_def by (rule merge_strings [where upd = pstr_strings_update and get = pstr_strings])
    (simp_all add: RspStrings_field_def tag_parts wire_types)

lemma RspStrings_merge:
  "RspStrings_ok L m \<Longrightarrow> RspStrings_MergePartialFromCodedStream L (RspStrings_SerializeWithCachedSizes L m @ r) u =
    RspStrings_MergePartialFromCodedStream L r (RspStrings_MergeFrom m u)"
  by (simp add: RspStrings_SerializeWithCachedSizes_def RspStrings_ok_def RspStrings_MergeFrom_def
      RspStrings_strings del: One_nat_def)

lemma RspStrings_merge_all: "RspStrings_ok L m \<Longrightarrow> RspStrings_MergePartialFromCodedStream L (RspStrings_SerializeWithCachedSizes L m) u = Some (Consumed, RspStrings_MergeFrom m u)"
  using RspStrings_merge [of m "[]" u] by (simp add: RspStrings_MergePartialFromCodedStream_def merge_end_fields)

lemma length_RspStrings: "length (RspStrings_SerializeWithCachedSizes L m) = RspStrings_ByteSize L m"
  by (simp add: RspStrings_SerializeWithCachedSizes_def RspStrings_ByteSize_def length_written length_repeated)

lemma RspStrings_returns: "RspStrings_MergePartialFromCodedStream L input m \<noteq> None"
  unfolding RspStrings_MergePartialFromCodedStream_def by (rule merge_fields_returns) (simp add: RspStrings_field_def goes_on_within_fields Let_def)

end

section \<open>\<open>RspIntegers\<close>\<close>

definition RspIntegers_ok :: "wire \<Rightarrow> RspIntegers_msg \<Rightarrow> bool" where
  "RspIntegers_ok L m \<longleftrightarrow> pint_unknown m = []"

lemma RspIntegers_MergeFrom_new [simp]: "RspIntegers_MergeFrom m RspIntegers_new = m"
  by (cases m) (simp add: RspIntegers_MergeFrom_def RspIntegers_new_def)

lemma RspIntegers_CopyFrom: "RspIntegers_CopyFrom src m = src"
  using RspIntegers_MergeFrom_new [of src] by (cases m) (simp add: RspIntegers_CopyFrom_def RspIntegers_Clear_def RspIntegers_new_def)

context wire_format
begin

lemma RspIntegers_integers:
  "RspIntegers_MergePartialFromCodedStream L (concat (map (WriteInt32 L 1) vs) @ r) m =
    RspIntegers_MergePartialFromCodedStream L r (m\<lparr>pint_integers := pint_integers m @ vs\<rparr>)"
  unfolding RspIntegers_MergePartialFromCodedStream_def by (rule merge_integers [where upd = pint_integers_update and get = pint_integers])
    (simp_all add: RspIntegers_field_def tag_parts wire_types)

lemma RspIntegers_merge:
  "RspIntegers_ok L m \<Longrightarrow> RspIntegers_MergePartialFromCodedStream L (RspIntegers_SerializeWithCachedSizes L m @ r) u =
    RspIntegers_MergePartialFromCodedStream L r (RspIntegers_MergeFrom m u)"
  by (simp add: RspIntegers_SerializeWithCachedSizes_def RspIntegers_ok_def RspIntegers_MergeFrom_def
      RspIntegers_integers del: One_nat_def)

lemma RspIntegers_merge_all: "RspIntegers_ok L m \<Longrightarrow> RspIntegers_MergePartialFromCodedStream L (RspIntegers_SerializeWithCachedSizes L m) u = Some (Consumed, RspIntegers_MergeFrom m u)"
  using RspIntegers_merge [of m "[]" u] by (simp add: RspIntegers_MergePartialFromCodedStream_def merge_end_fields)

lemma length_RspIntegers: "length (RspIntegers_SerializeWithCachedSizes L m) = RspIntegers_ByteSize L m"
  by (simp add: RspIntegers_SerializeWithCachedSizes_def RspIntegers_ByteSize_def length_written length_repeated)

lemma RspIntegers_returns: "RspIntegers_MergePartialFromCodedStream L input m \<noteq> None"
  unfolding RspIntegers_MergePartialFromCodedStream_def by (rule merge_fields_returns) (simp add: RspIntegers_field_def goes_on_within_fields Let_def)

end

section \<open>\<open>RspGetSimStatus\<close>\<close>

definition RspGetSimStatus_ok :: "wire \<Rightarrow> RspGetSimStatus_msg \<Rightarrow> bool" where
  "RspGetSimStatus_ok L m \<longleftrightarrow> pred_option (\<lambda>v. RilCardStatus_ok L v \<and> short (RilCardStatus_SerializeWithCachedSizes L v)) (psim_card_status m) \<and>
     psim_unknown m = []"

lemma RspGetSimStatus_MergeFrom_new [simp]: "RspGetSimStatus_MergeFrom m RspGetSimStatus_new = m"
  by (cases m) (simp add: RspGetSimStatus_MergeFrom_def RspGetSimStatus_new_def merge_over_def split: option.split)

lemma RspGetSimStatus_CopyFrom: "RspGetSimStatus_CopyFrom src m = src"
  using RspGetSimStatus_MergeFrom_new [of src] by (cases m) (simp add: RspGetSimStatus_CopyFrom_def RspGetSimStatus_Clear_def RspGetSimStatus_new_def)

definition RspGetSimStatus_valid :: "RspGetSimStatus_msg \<Rightarrow> bool" where
  "RspGetSimStatus_valid m \<longleftrightarrow> pred_option RilCardStatus_valid (psim_card_status m)"

lemma RspGetSimStatus_new_valid [simp]: "RspGetSimStatus_valid RspGetSimStatus_new"
  by (simp add: RspGetSimStatus_valid_def RspGetSimStatus_new_def)

lemma RspGetSimStatus_field_valid: "RspGetSimStatus_valid m \<Longrightarrow> keeps_field RspGetSimStatus_valid (RspGetSimStatus_field L tag bs m)"
  unfolding RspGetSimStatus_field_def Let_def
  by (intro keeps_if keeps_fields keeps_message [where Q = RilCardStatus_valid])
    (auto simp: RspGetSimStatus_valid_def RspGetSimStatus_add_unknown_def value_or_def dest: RilCardStatus_merge_valid split: option.splits)

lemma RspGetSimStatus_merge_valid:
  "RspGetSimStatus_MergePartialFromCodedStream L input m = Some (res, m') \<Longrightarrow> RspGetSimStatus_valid m \<Longrightarrow> RspGetSimStatus_valid m'"
  unfolding RspGetSimStatus_MergePartialFromCodedStream_def by (erule merge_fields_keeps) (auto simp: RspGetSimStatus_field_valid, simp add: RspGetSimStatus_valid_def RspGetSimStatus_add_unknown_def)

context wire_format
begin

lemma RspGetSimStatus_card_status:
  "pred_option (\<lambda>v. RilCardStatus_ok L v \<and> short (RilCardStatus_SerializeWithCachedSizes L v)) x \<Longrightarrow>
    RspGetSimStatus_MergePartialFromCodedStream L (written (\<lambda>v. WriteMessage_wire L 1 (RilCardStatus_ByteSize L v) (RilCardStatus_SerializeWithCachedSizes L v)) x @ r) m =
    RspGetSimStatus_MergePartialFromCodedStream L r (m\<lparr>psim_card_status := merge_over RilCardStatus_MergeFrom RilCardStatus_new x (psim_card_status m)\<rparr>)"
  unfolding RspGetSimStatus_MergePartialFromCodedStream_def
  by (rule merge_message [where upd = psim_card_status_update and new = RilCardStatus_new and merge = "RilCardStatus_MergePartialFromCodedStream L" and
        y = "psim_card_status m"])
    (auto simp: RspGetSimStatus_field_def tag_parts wire_types length_RilCardStatus RilCardStatus_merge_all)

lemma RspGetSimStatus_merge:
  "RspGetSimStatus_ok L m \<Longrightarrow> RspGetSimStatus_MergePartialFromCodedStream L (RspGetSimStatus_SerializeWithCachedSizes L m @ r) u =
    RspGetSimStatus_MergePartialFromCodedStream L r (RspGetSimStatus_MergeFrom m u)"
  by (simp add: RspGetSimStatus_SerializeWithCachedSizes_def RspGetSimStatus_ok_def RspGetSimStatus_MergeFrom_def
      RspGetSimStatus_card_status del: One_nat_def)

lemma RspGetSimStatus_merge_all: "RspGetSimStatus_ok L m \<Longrightarrow> RspGetSimStatus_MergePartialFromCodedStream L (RspGetSimStatus_SerializeWithCachedSizes L m) u = Some (Consumed, RspGetSimStatus_MergeFrom m u)"
  using RspGetSimStatus_merge [of m "[]" u] by (simp add: RspGetSimStatus_MergePartialFromCodedStream_def merge_end_fields)

lemma length_RspGetSimStatus: "length (RspGetSimStatus_SerializeWithCachedSizes L m) = RspGetSimStatus_ByteSize L m"
  by (simp add: RspGetSimStatus_SerializeWithCachedSizes_def RspGetSimStatus_ByteSize_def length_written length_written_message length_RilCardStatus)

lemma RspGetSimStatus_returns: "RspGetSimStatus_MergePartialFromCodedStream L input m \<noteq> None"
  unfolding RspGetSimStatus_MergePartialFromCodedStream_def by (rule merge_fields_returns) (simp add: RspGetSimStatus_field_def goes_on_within_fields goes_on_within_message RilCardStatus_returns Let_def)

end

section \<open>\<open>ReqEnterSimPin\<close>\<close>

definition ReqEnterSimPin_ok :: "wire \<Rightarrow> ReqEnterSimPin_msg \<Rightarrow> bool" where
  "ReqEnterSimPin_ok L m \<longleftrightarrow> pred_option short (pin_pin m) \<and> pin_unknown m = []"

lemma ReqEnterSimPin_MergeFrom_new [simp]: "ReqEnterSimPin_MergeFrom m ReqEnterSimPin_new = m"
  by (cases m) (simp add: ReqEnterSimPin_MergeFrom_def ReqEnterSimPin_new_def)

lemma ReqEnterSimPin_CopyFrom: "ReqEnterSimPin_CopyFrom src m = src"
  using ReqEnterSimPin_MergeFrom_new [of src] by (cases m) (simp add: ReqEnterSimPin_CopyFrom_def ReqEnterSimPin_Clear_def ReqEnterSimPin_new_def)

context wire_format
begin

lemma ReqEnterSimPin_pin:
  "pred_option short x \<Longrightarrow> ReqEnterSimPin_MergePartialFromCodedStream L (written (WriteString L 1) x @ r) m =
    ReqEnterSimPin_MergePartialFromCodedStream L r (m\<lparr>pin_pin := over x (pin_pin m)\<rparr>)"
  unfolding ReqEnterSimPin_MergePartialFromCodedStream_def by (rule merge_string [where upd = pin_pin_update and y = "pin_pin m"]) (simp_all add: ReqEnterSimPin_field_def tag_parts wire_types)

lemma ReqEnterSimPin_merge:
  "ReqEnterSimPin_ok L m \<Longrightarrow> ReqEnterSimPin_MergePartialFromCodedStream L (ReqEnterSimPin_SerializeWithCachedSizes L m @ r) u =
    ReqEnterSimPin_MergePartialFromCodedStream L r (ReqEnterSimPin_MergeFrom m u)"
  by (simp add: ReqEnterSimPin_SerializeWithCachedSizes_def ReqEnterSimPin_ok_def ReqEnterSimPin_MergeFrom_def
      ReqEnterSimPin_pin del: One_nat_def)

lemma ReqEnterSimPin_merge_all: "ReqEnterSimPin_ok L m \<Longrightarrow> ReqEnterSimPin_MergePartialFromCodedStream L (ReqEnterSimPin_SerializeWithCachedSizes L m) u = Some (Consumed, ReqEnterSimPin_MergeFrom m u)"
  using ReqEnterSimPin_merge [of m "[]" u] by (simp add: ReqEnterSimPin_MergePartialFromCodedStream_def merge_end_fields)

lemma length_ReqEnterSimPin: "length (ReqEnterSimPin_SerializeWithCachedSizes L m) = ReqEnterSimPin_ByteSize L m"
  by (simp add: ReqEnterSimPin_SerializeWithCachedSizes_def ReqEnterSimPin_ByteSize_def length_written)

lemma ReqEnterSimPin_returns: "ReqEnterSimPin_MergePartialFromCodedStream L input m \<noteq> None"
  unfolding ReqEnterSimPin_MergePartialFromCodedStream_def by (rule merge_fields_returns) (simp add: ReqEnterSimPin_field_def goes_on_within_fields Let_def)

end

section \<open>\<open>RspEnterSimPin\<close>\<close>

definition RspEnterSimPin_ok :: "wire \<Rightarrow> RspEnterSimPin_msg \<Rightarrow> bool" where
  "RspEnterSimPin_ok L m \<longleftrightarrow> pret_unknown m = []"

lemma RspEnterSimPin_MergeFrom_new [simp]: "RspEnterSimPin_MergeFrom m RspEnterSimPin_new = m"
  by (cases m) (simp add: RspEnterSimPin_MergeFrom_def RspEnterSimPin_new_def)

lemma RspEnterSimPin_CopyFrom: "RspEnterSimPin_CopyFrom src m = src"
  using RspEnterSimPin_MergeFrom_new [of src] by (cases m) (simp add: RspEnterSimPin_CopyFrom_def RspEnterSimPin_Clear_def RspEnterSimPin_new_def)

context wire_format
begin

lemma RspEnterSimPin_retries_remaining:
  "RspEnterSimPin_MergePartialFromCodedStream L (written (WriteInt32 L 1) x @ r) m =
    RspEnterSimPin_MergePartialFromCodedStream L r (m\<lparr>pret_retries_remaining := over x (pret_retries_remaining m)\<rparr>)"
  unfolding RspEnterSimPin_MergePartialFromCodedStream_def by (rule merge_int32 [where upd = pret_retries_remaining_update and y = "pret_retries_remaining m"]) (simp_all add: RspEnterSimPin_field_def tag_parts wire_types)

lemma RspEnterSimPin_merge:
  "RspEnterSimPin_ok L m \<Longrightarrow> RspEnterSimPin_MergePartialFromCodedStream L (RspEnterSimPin_SerializeWithCachedSizes L m @ r) u =
    RspEnterSimPin_MergePartialFromCodedStream L r (RspEnterSimPin_MergeFrom m u)"
  by (simp add: RspEnterSimPin_SerializeWithCachedSizes_def RspEnterSimPin_ok_def RspEnterSimPin_MergeFrom_def
      RspEnterSimPin_retries_remaining del: One_nat_def)

lemma RspEnterSimPin_merge_all: "RspEnterSimPin_ok L m \<Longrightarrow> RspEnterSimPin_MergePartialFromCodedStream L (RspEnterSimPin_SerializeWithCachedSizes L m) u = Some (Consumed, RspEnterSimPin_MergeFrom m u)"
  using RspEnterSimPin_merge [of m "[]" u] by (simp add: RspEnterSimPin_MergePartialFromCodedStream_def merge_end_fields)

lemma length_RspEnterSimPin: "length (RspEnterSimPin_SerializeWithCachedSizes L m) = RspEnterSimPin_ByteSize L m"
  by (simp add: RspEnterSimPin_SerializeWithCachedSizes_def RspEnterSimPin_ByteSize_def length_written)

lemma RspEnterSimPin_returns: "RspEnterSimPin_MergePartialFromCodedStream L input m \<noteq> None"
  unfolding RspEnterSimPin_MergePartialFromCodedStream_def by (rule merge_fields_returns) (simp add: RspEnterSimPin_field_def goes_on_within_fields Let_def)

end

section \<open>\<open>RspGetCurrentCalls\<close>\<close>

definition RspGetCurrentCalls_ok :: "wire \<Rightarrow> RspGetCurrentCalls_msg \<Rightarrow> bool" where
  "RspGetCurrentCalls_ok L m \<longleftrightarrow> list_all (\<lambda>v. RilCall_ok L v \<and> short (RilCall_SerializeWithCachedSizes L v)) (pcalls_calls m) \<and>
     pcalls_unknown m = []"

lemma RspGetCurrentCalls_MergeFrom_new [simp]: "RspGetCurrentCalls_MergeFrom m RspGetCurrentCalls_new = m"
  by (cases m) (simp add: RspGetCurrentCalls_MergeFrom_def RspGetCurrentCalls_new_def)

lemma RspGetCurrentCalls_CopyFrom: "RspGetCurrentCalls_CopyFrom src m = src"
  using RspGetCurrentCalls_MergeFrom_new [of src] by (cases m) (simp add: RspGetCurrentCalls_CopyFrom_def RspGetCurrentCalls_Clear_def RspGetCurrentCalls_new_def)

definition RspGetCurrentCalls_valid :: "RspGetCurrentCalls_msg \<Rightarrow> bool" where
  "RspGetCurrentCalls_valid m \<longleftrightarrow> list_all RilCall_valid (pcalls_calls m)"

lemma RspGetCurrentCalls_new_valid [simp]: "RspGetCurrentCalls_valid RspGetCurrentCalls_new"
  by (simp add: RspGetCurrentCalls_valid_def RspGetCurrentCalls_new_def)

lemma RspGetCurrentCalls_field_valid: "RspGetCurrentCalls_valid m \<Longrightarrow> keeps_field RspGetCurrentCalls_valid (RspGetCurrentCalls_field L tag bs m)"
  unfolding RspGetCurrentCalls_field_def Let_def
  by (intro keeps_if keeps_fields keeps_message [where Q = RilCall_valid])
    (auto simp: RspGetCurrentCalls_valid_def RspGetCurrentCalls_add_unknown_def value_or_def dest: RilCall_merge_valid split: option.splits)

lemma RspGetCurrentCalls_merge_valid:
  "RspGetCurrentCalls_MergePartialFromCodedStream L input m = Some (res, m') \<Longrightarrow> RspGetCurrentCalls_valid m \<Longrightarrow> RspGetCurrentCalls_valid m'"
  unfolding RspGetCurrentCalls_MergePartialFromCodedStream_def by (erule merge_fields_keeps) (auto simp: RspGetCurrentCalls_field_valid, simp add: RspGetCurrentCalls_valid_def RspGetCurrentCalls_add_unknown_def)

context wire_format
begin

lemma RspGetCurrentCalls_calls:
  "list_all (\<lambda>v. RilCall_ok L v \<and> short (RilCall_SerializeWithCachedSizes L v)) vs \<Longrightarrow>
    RspGetCurrentCalls_MergePartialFromCodedStream L (concat (map (\<lambda>v. WriteMessage_wire L 1 (RilCall_ByteSize L v) (RilCall_SerializeWithCachedSizes L v)) vs) @ r) m =
    RspGetCurrentCalls_MergePartialFromCodedStream L r (m\<lparr>pcalls_calls := pcalls_calls m @ vs\<rparr>)"
  unfolding RspGetCurrentCalls_MergePartialFromCodedStream_def
  by (rule merge_messages [where upd = pcalls_calls_update and get = pcalls_calls and new = RilCall_new and merge = "RilCall_MergePartialFromCodedStream L"])
    (auto simp: RspGetCurrentCalls_field_def tag_parts wire_types length_RilCall list_all_iff RilCall_merge_all)

lemma RspGetCurrentCalls_merge:
  "RspGetCurrentCalls_ok L m \<Longrightarrow> RspGetCurrentCalls_MergePartialFromCodedStream L (RspGetCurrentCalls_SerializeWithCachedSizes L m @ r) u =
    RspGetCurrentCalls_MergePartialFromCodedStream L r (RspGetCurrentCalls_MergeFrom m u)"
  by (simp add: RspGetCurrentCalls_SerializeWithCachedSizes_def RspGetCurrentCalls_ok_def RspGetCurrentCalls_MergeFrom_def
      RspGetCurrentCalls_calls del: One_nat_def)

lemma RspGetCurrentCalls_merge_all: "RspGetCurrentCalls_ok L m \<Longrightarrow> RspGetCurrentCalls_MergePartialFromCodedStream L (RspGetCurrentCalls_SerializeWithCachedSizes L m) u = Some (Consumed, RspGetCurrentCalls_MergeFrom m u)"
  using RspGetCurrentCalls_merge [of m "[]" u] by (simp add: RspGetCurrentCalls_MergePartialFromCodedStream_def merge_end_fields)

lemma length_RspGetCurrentCalls: "length (RspGetCurrentCalls_SerializeWithCachedSizes L m) = RspGetCurrentCalls_ByteSize L m"
  by (simp add: RspGetCurrentCalls_SerializeWithCachedSizes_def RspGetCurrentCalls_ByteSize_def length_written length_repeated_messages length_RilCall)

lemma RspGetCurrentCalls_returns: "RspGetCurrentCalls_MergePartialFromCodedStream L input m \<noteq> None"
  unfolding RspGetCurrentCalls_MergePartialFromCodedStream_def by (rule merge_fields_returns) (simp add: RspGetCurrentCalls_field_def goes_on_within_fields goes_on_within_message RilCall_returns Let_def)

end

section \<open>\<open>ReqDial\<close>\<close>

definition ReqDial_ok :: "wire \<Rightarrow> ReqDial_msg \<Rightarrow> bool" where
  "ReqDial_ok L m \<longleftrightarrow> pred_option short (pd_address m) \<and>
     pred_option (\<lambda>v. RilUusInfo_ok L v \<and> short (RilUusInfo_SerializeWithCachedSizes L v)) (pd_uus_info m) \<and>
     pd_unknown m = []"

lemma ReqDial_MergeFrom_new [simp]: "ReqDial_MergeFrom m ReqDial_new = m"
  by (cases m) (simp add: ReqDial_MergeFrom_def ReqDial_new_def merge_over_def split: option.split)

lemma ReqDial_CopyFrom: "ReqDial_CopyFrom src m = src"
  using ReqDial_MergeFrom_new [of src] by (cases m) (simp add: ReqDial_CopyFrom_def ReqDial_Clear_def ReqDial_new_def)

context wire_format
begin

lemma ReqDial_address:
  "pred_option short x \<Longrightarrow> ReqDial_MergePartialFromCodedStream L (written (WriteString L 1) x @ r) m =
    ReqDial_MergePartialFromCodedStream L r (m\<lparr>pd_address := over x (pd_address m)\<rparr>)"
  unfolding ReqDial_MergePartialFromCodedStream_def by (rule merge_string [where upd = pd_address_update and y = "pd_address m"]) (simp_all add: ReqDial_field_def tag_parts wire_types)

lemma ReqDial_clir:
  "ReqDial_MergePartialFromCodedStream L (written (WriteInt32 L 2) x @ r) m =
    ReqDial_MergePartialFromCodedStream L r (m\<lparr>pd_clir := over x (pd_clir m)\<rparr>)"
  unfolding ReqDial_MergePartialFromCodedStream_def by (rule merge_int32 [where upd = pd_clir_update and y = "pd_clir m"]) (simp_all add: ReqDial_field_def tag_parts wire_types)

lemma ReqDial_uus_info:
  "pred_option (\<lambda>v. RilUusInfo_ok L v \<and> short (RilUusInfo_SerializeWithCachedSizes L v)) x \<Longrightarrow>
    ReqDial_MergePartialFromCodedStream L (written (\<lambda>v. WriteMessage_wire L 3 (RilUusInfo_ByteSize L v) (RilUusInfo_SerializeWithCachedSizes L v)) x @ r) m =
    ReqDial_MergePartialFromCodedStream L r (m\<lparr>pd_uus_info := merge_over RilUusInfo_MergeFrom RilUusInfo_new x (pd_uus_info m)\<rparr>)"
  unfolding ReqDial_MergePartialFromCodedStream_def
  by (rule merge_message [where upd = pd_uus_info_update and new = RilUusInfo_new and merge = "RilUusInfo_MergePartialFromCodedStream L" and
        y = "pd_uus_info m"])
    (auto simp: ReqDial_field_def tag_parts wire_types length_RilUusInfo RilUusInfo_merge_all)

lemma ReqDial_merge:
  "ReqDial_ok L m \<Longrightarrow> ReqDial_MergePartialFromCodedStream L (ReqDial_SerializeWithCachedSizes L m @ r) u =
    ReqDial_MergePartialFromCodedStream L r (ReqDial_MergeFrom m u)"
  by (simp add: ReqDial_SerializeWithCachedSizes_def ReqDial_ok_def ReqDial_MergeFrom_def
      ReqDial_address ReqDial_clir ReqDial_uus_info del: One_nat_def)

lemma ReqDial_merge_all: "ReqDial_ok L m \<Longrightarrow> ReqDial_MergePartialFromCodedStream L (ReqDial_SerializeWithCachedSizes L m) u = Some (Consumed, ReqDial_MergeFrom m u)"
  using ReqDial_merge [of m "[]" u] by (simp add: ReqDial_MergePartialFromCodedStream_def merge_end_fields)

lemma length_ReqDial: "length (ReqDial_SerializeWithCachedSizes L m) = ReqDial_ByteSize L m"
  by (simp add: ReqDial_SerializeWithCachedSizes_def ReqDial_ByteSize_def length_written length_written_message length_RilUusInfo)

lemma ReqDial_returns: "ReqDial_MergePartialFromCodedStream L input m \<noteq> None"
  unfolding ReqDial_MergePartialFromCodedStream_def by (rule merge_fields_returns) (simp add: ReqDial_field_def goes_on_within_fields goes_on_within_message RilUusInfo_returns Let_def)

end

section \<open>\<open>ReqHangUp\<close>\<close>

definition ReqHangUp_ok :: "wire \<Rightarrow> ReqHangUp_msg \<Rightarrow> bool" where
  "ReqHangUp_ok L m \<longleftrightarrow> phang_unknown m = []"

lemma ReqHangUp_MergeFrom_new [simp]: "ReqHangUp_MergeFrom m ReqHangUp_new = m"
  by (cases m) (simp add: ReqHangUp_MergeFrom_def ReqHangUp_new_def)

lemma ReqHangUp_CopyFrom: "ReqHangUp_CopyFrom src m = src"
  using ReqHangUp_MergeFrom_new [of src] by (cases m) (simp add: ReqHangUp_CopyFrom_def ReqHangUp_Clear_def ReqHangUp_new_def)

context wire_format
begin

lemma ReqHangUp_connection_index:
  "ReqHangUp_MergePartialFromCodedStream L (written (WriteInt32 L 1) x @ r) m =
    ReqHangUp_MergePartialFromCodedStream L r (m\<lparr>phang_connection_index := over x (phang_connection_index m)\<rparr>)"
  unfolding ReqHangUp_MergePartialFromCodedStream_def by (rule merge_int32 [where upd = phang_connection_index_update and y = "phang_connection_index m"]) (simp_all add: ReqHangUp_field_def tag_parts wire_types)

lemma ReqHangUp_merge:
  "ReqHangUp_ok L m \<Longrightarrow> ReqHangUp_MergePartialFromCodedStream L (ReqHangUp_SerializeWithCachedSizes L m @ r) u =
    ReqHangUp_MergePartialFromCodedStream L r (ReqHangUp_MergeFrom m u)"
  by (simp add: ReqHangUp_SerializeWithCachedSizes_def ReqHangUp_ok_def ReqHangUp_MergeFrom_def
      ReqHangUp_connection_index del: One_nat_def)

lemma ReqHangUp_merge_all: "ReqHangUp_ok L m \<Longrightarrow> ReqHangUp_MergePartialFromCodedStream L (ReqHangUp_SerializeWithCachedSizes L m) u = Some (Consumed, ReqHangUp_MergeFrom m u)"
  using ReqHangUp_merge [of m "[]" u] by (simp add: ReqHangUp_MergePartialFromCodedStream_def merge_end_fields)

lemma length_ReqHangUp: "length (ReqHangUp_SerializeWithCachedSizes L m) = ReqHangUp_ByteSize L m"
  by (simp add: ReqHangUp_SerializeWithCachedSizes_def ReqHangUp_ByteSize_def length_written)

lemma ReqHangUp_returns: "ReqHangUp_MergePartialFromCodedStream L input m \<noteq> None"
  unfolding ReqHangUp_MergePartialFromCodedStream_def by (rule merge_fields_returns) (simp add: ReqHangUp_field_def goes_on_within_fields Let_def)

end

section \<open>\<open>RspLastCallFailCause\<close>\<close>

definition RspLastCallFailCause_ok :: "wire \<Rightarrow> RspLastCallFailCause_msg \<Rightarrow> bool" where
  "RspLastCallFailCause_ok L m \<longleftrightarrow> pcause_unknown m = []"

lemma RspLastCallFailCause_MergeFrom_new [simp]: "RspLastCallFailCause_MergeFrom m RspLastCallFailCause_new = m"
  by (cases m) (simp add: RspLastCallFailCause_MergeFrom_def RspLastCallFailCause_new_def)

lemma RspLastCallFailCause_CopyFrom: "RspLastCallFailCause_CopyFrom src m = src"
  using RspLastCallFailCause_MergeFrom_new [of src] by (cases m) (simp add: RspLastCallFailCause_CopyFrom_def RspLastCallFailCause_Clear_def RspLastCallFailCause_new_def)

context wire_format
begin

lemma RspLastCallFailCause_last_call_fail_cause:
  "RspLastCallFailCause_MergePartialFromCodedStream L (written (WriteInt32 L 1) x @ r) m =
    RspLastCallFailCause_MergePartialFromCodedStream L r (m\<lparr>pcause_last_call_fail_cause := over x (pcause_last_call_fail_cause m)\<rparr>)"
  unfolding RspLastCallFailCause_MergePartialFromCodedStream_def by (rule merge_int32 [where upd = pcause_last_call_fail_cause_update and y = "pcause_last_call_fail_cause m"]) (simp_all add: RspLastCallFailCause_field_def tag_parts wire_types)

lemma RspLastCallFailCause_merge:
  "RspLastCallFailCause_ok L m \<Longrightarrow> RspLastCallFailCause_MergePartialFromCodedStream L (RspLastCallFailCause_SerializeWithCachedSizes L m @ r) u =
    RspLastCallFailCause_MergePartialFromCodedStream L r (RspLastCallFailCause_MergeFrom m u)"
  by (simp add: RspLastCallFailCause_SerializeWithCachedSizes_def RspLastCallFailCause_ok_def RspLastCallFailCause_MergeFrom_def
      RspLastCallFailCause_last_call_fail_cause del: One_nat_def)

lemma RspLastCallFailCause_merge_all: "RspLastCallFailCause_ok L m \<Longrightarrow> RspLastCallFailCause_MergePartialFromCodedStream L (RspLastCallFailCause_SerializeWithCachedSizes L m) u = Some (Consumed, RspLastCallFailCause_MergeFrom m u)"
  using RspLastCallFailCause_merge [of m "[]" u] by (simp add: RspLastCallFailCause_MergePartialFromCodedStream_def merge_end_fields)

lemma length_RspLastCallFailCause: "length (RspLastCallFailCause_SerializeWithCachedSizes L m) = RspLastCallFailCause_ByteSize L m"
  by (simp add: RspLastCallFailCause_SerializeWithCachedSizes_def RspLastCallFailCause_ByteSize_def length_written)

lemma RspLastCallFailCause_returns: "RspLastCallFailCause_MergePartialFromCodedStream L input m \<noteq> None"
  unfolding RspLastCallFailCause_MergePartialFromCodedStream_def by (rule merge_fields_returns) (simp add: RspLastCallFailCause_field_def goes_on_within_fields Let_def)

end

section \<open>\<open>RspSignalStrength\<close>\<close>

definition RspSignalStrength_ok :: "wire \<Rightarrow> RspSignalStrength_msg \<Rightarrow> bool" where
  "RspSignalStrength_ok L m \<longleftrightarrow> pred_option (\<lambda>v. RILGWSignalStrength_ok L v \<and> short (RILGWSignalStrength_SerializeWithCachedSizes L v)) (pss_gw_signalstrength m) \<and>
     pred_option (\<lambda>v. RILCDMASignalStrength_ok L v \<and> short (RILCDMASignalStrength_SerializeWithCachedSizes L v)) (pss_cdma_signalstrength m) \<and>
     pred_option (\<lambda>v. RILEVDOSignalStrength_ok L v \<and> short (RILEVDOSignalStrength_SerializeWithCachedSizes L v)) (pss_evdo_signalstrength m) \<and>
     pss_unknown m = []"

lemma RspSignalStrength_MergeFrom_new [simp]: "RspSignalStrength_MergeFrom m RspSignalStrength_new = m"
  by (cases m) (simp add: RspSignalStrength_MergeFrom_def RspSignalStrength_new_def merge_over_def split: option.split)

lemma RspSignalStrength_CopyFrom: "RspSignalStrength_CopyFrom src m = src"
  using RspSignalStrength_MergeFrom_new [of src] by (cases m) (simp add: RspSignalStrength_CopyFrom_def RspSignalStrength_Clear_def RspSignalStrength_new_def)

context wire_format
begin

lemma RspSignalStrength_gw_signalstrength:
  "pred_option (\<lambda>v. RILGWSignalStrength_ok L v \<and> short (RILGWSignalStrength_SerializeWithCachedSizes L v)) x \<Longrightarrow>
    RspSignalStrength_MergePartialFromCodedStream L (written (\<lambda>v. WriteMessage_wire L 1 (RILGWSignalStrength_ByteSize L v) (RILGWSignalStrength_SerializeWithCachedSizes L v)) x @ r) m =
    RspSignalStrength_MergePartialFromCodedStream L r (m\<lparr>pss_gw_signalstrength := merge_over RILGWSignalStrength_MergeFrom RILGWSignalStrength_new x (pss_gw_signalstrength m)\<rparr>)"
  unfolding RspSignalStrength_MergePartialFromCodedStream_def
  by (rule merge_message [where upd = pss_gw_signalstrength_update and new = RILGWSignalStrength_new and merge = "RILGWSignalStrength_MergePartialFromCodedStream L" and
        y = "pss_gw_signalstrength m"])
    (auto simp: RspSignalStrength_field_def tag_parts wire_types length_RILGWSignalStrength RILGWSignalStrength_merge_all)

lemma RspSignalStrength_cdma_signalstrength:
  "pred_option (\<lambda>v. RILCDMASignalStrength_ok L v \<and> short (RILCDMASignalStrength_SerializeWithCachedSizes L v)) x \<Longrightarrow>
    RspSignalStrength_MergePartialFromCodedStream L (written (\<lambda>v. WriteMessage_wire L 2 (RILCDMASignalStrength_ByteSize L v) (RILCDMASignalStrength_SerializeWithCachedSizes L v)) x @ r) m =
    RspSignalStrength_MergePartialFromCodedStream L r (m\<lparr>pss_cdma_signalstrength := merge_over RILCDMASignalStrength_MergeFrom RILCDMASignalStrength_new x (pss_cdma_signalstrength m)\<rparr>)"
  unfolding RspSignalStrength_MergePartialFromCodedStream_def
  by (rule merge_message [where upd = pss_cdma_signalstrength_update and new = RILCDMASignalStrength_new and merge = "RILCDMASignalStrength_MergePartialFromCodedStream L" and
        y = "pss_cdma_signalstrength m"])
    (auto simp: RspSignalStrength_field_def tag_parts wire_types length_RILCDMASignalStrength RILCDMASignalStrength_merge_all)

lemma RspSignalStrength_evdo_signalstrength:
  "pred_option (\<lambda>v. RILEVDOSignalStrength_ok L v \<and> short (RILEVDOSignalStrength_SerializeWithCachedSizes L v)) x \<Longrightarrow>
    RspSignalStrength_MergePartialFromCodedStream L (written (\<lambda>v. WriteMessage_wire L 3 (RILEVDOSignalStrength_ByteSize L v) (RILEVDOSignalStrength_SerializeWithCachedSizes L v)) x @ r) m =
    RspSignalStrength_MergePartialFromCodedStream L r (m\<lparr>pss_evdo_signalstrength := merge_over RILEVDOSignalStrength_MergeFrom RILEVDOSignalStrength_new x (pss_evdo_signalstrength m)\<rparr>)"
  unfolding RspSignalStrength_MergePartialFromCodedStream_def
  by (rule merge_message [where upd = pss_evdo_signalstrength_update and new = RILEVDOSignalStrength_new and merge = "RILEVDOSignalStrength_MergePartialFromCodedStream L" and
        y = "pss_evdo_signalstrength m"])
    (auto simp: RspSignalStrength_field_def tag_parts wire_types length_RILEVDOSignalStrength RILEVDOSignalStrength_merge_all)

lemma RspSignalStrength_merge:
  "RspSignalStrength_ok L m \<Longrightarrow> RspSignalStrength_MergePartialFromCodedStream L (RspSignalStrength_SerializeWithCachedSizes L m @ r) u =
    RspSignalStrength_MergePartialFromCodedStream L r (RspSignalStrength_MergeFrom m u)"
  by (simp add: RspSignalStrength_SerializeWithCachedSizes_def RspSignalStrength_ok_def RspSignalStrength_MergeFrom_def
      RspSignalStrength_gw_signalstrength RspSignalStrength_cdma_signalstrength
      RspSignalStrength_evdo_signalstrength del: One_nat_def)

lemma RspSignalStrength_merge_all: "RspSignalStrength_ok L m \<Longrightarrow> RspSignalStrength_MergePartialFromCodedStream L (RspSignalStrength_SerializeWithCachedSizes L m) u = Some (Consumed, RspSignalStrength_MergeFrom m u)"
  using RspSignalStrength_merge [of m "[]" u] by (simp add: RspSignalStrength_MergePartialFromCodedStream_def merge_end_fields)

lemma length_RspSignalStrength: "length (RspSignalStrength_SerializeWithCachedSizes L m) = RspSignalStrength_ByteSize L m"
  by (simp add: RspSignalStrength_SerializeWithCachedSizes_def RspSignalStrength_ByteSize_def length_written length_written_message length_RILGWSignalStrength length_RILCDMASignalStrength length_RILEVDOSignalStrength)

lemma RspSignalStrength_returns: "RspSignalStrength_MergePartialFromCodedStream L input m \<noteq> None"
  unfolding RspSignalStrength_MergePartialFromCodedStream_def by (rule merge_fields_returns) (simp add: RspSignalStrength_field_def goes_on_within_fields goes_on_within_message RILGWSignalStrength_returns goes_on_within_message RILCDMASignalStrength_returns goes_on_within_message RILEVDOSignalStrength_returns Let_def)

end

section \<open>\<open>RspOperator\<close>\<close>

definition RspOperator_ok :: "wire \<Rightarrow> RspOperator_msg \<Rightarrow> bool" where
  "RspOperator_ok L m \<longleftrightarrow> pred_option short (po_long_alpha_ons m) \<and> pred_option short (po_short_alpha_ons m) \<and>
     pred_option short (po_mcc_mnc m) \<and> po_unknown m = []"

lemma RspOperator_MergeFrom_new [simp]: "RspOperator_MergeFrom m RspOperator_new = m"
  by (cases m) (simp add: RspOperator_MergeFrom_def RspOperator_new_def)

lemma RspOperator_CopyFrom: "RspOperator_CopyFrom src m = src"
  using RspOperator_MergeFrom_new [of src] by (cases m) (simp add: RspOperator_CopyFrom_def RspOperator_Clear_def RspOperator_new_def)

context wire_format
begin

lemma RspOperator_long_alpha_ons:
  "pred_option short x \<Longrightarrow> RspOperator_MergePartialFromCodedStream L (written (WriteString L 1) x @ r) m =
    RspOperator_MergePartialFromCodedStream L r (m\<lparr>po_long_alpha_ons := over x (po_long_alpha_ons m)\<rparr>)"
  unfolding RspOperator_MergePartialFromCodedStream_def by (rule merge_string [where upd = po_long_alpha_ons_update and y = "po_long_alpha_ons m"]) (simp_all add: RspOperator_field_def tag_parts wire_types)

lemma RspOperator_short_alpha_ons:
  "pred_option short x \<Longrightarrow> RspOperator_MergePartialFromCodedStream L (written (WriteString L 2) x @ r) m =
    RspOperator_MergePartialFromCodedStream L r (m\<lparr>po_short_alpha_ons := over x (po_short_alpha_ons m)\<rparr>)"
  unfolding RspOperator_MergePartialFromCodedStream_def by (rule merge_string [where upd = po_short_alpha_ons_update and y = "po_short_alpha_ons m"]) (simp_all add: RspOperator_field_def tag_parts wire_types)

lemma RspOperator_mcc_mnc:
  "pred_option short x \<Longrightarrow> RspOperator_MergePartialFromCodedStream L (written (WriteString L 3) x @ r) m =
    RspOperator_MergePartialFromCodedStream L r (m\<lparr>po_mcc_mnc := over x (po_mcc_mnc m)\<rparr>)"
  unfolding RspOperator_MergePartialFromCodedStream_def by (rule merge_string [where upd = po_mcc_mnc_update and y = "po_mcc_mnc m"]) (simp_all add: RspOperator_field_def tag_parts wire_types)

lemma RspOperator_merge:
  "RspOperator_ok L m \<Longrightarrow> RspOperator_MergePartialFromCodedStream L (RspOperator_SerializeWithCachedSizes L m @ r) u =
    RspOperator_MergePartialFromCodedStream L r (RspOperator_MergeFrom m u)"
  by (simp add: RspOperator_SerializeWithCachedSizes_def RspOperator_ok_def RspOperator_MergeFrom_def
      RspOperator_long_alpha_ons RspOperator_short_alpha_ons RspOperator_mcc_mnc del: One_nat_def)

lemma RspOperator_merge_all: "RspOperator_ok L m \<Longrightarrow> RspOperator_MergePartialFromCodedStream L (RspOperator_SerializeWithCachedSizes L m) u = Some (Consumed, RspOperator_MergeFrom m u)"
  using RspOperator_merge [of m "[]" u] by (simp add: RspOperator_MergePartialFromCodedStream_def merge_end_fields)

lemma length_RspOperator: "length (RspOperator_SerializeWithCachedSizes L m) = RspOperator_ByteSize L m"
  by (simp add: RspOperator_SerializeWithCachedSizes_def RspOperator_ByteSize_def length_written)

lemma RspOperator_returns: "RspOperator_MergePartialFromCodedStream L input m \<noteq> None"
  unfolding RspOperator_MergePartialFromCodedStream_def by (rule merge_fields_returns) (simp add: RspOperator_field_def goes_on_within_fields Let_def)

end

section \<open>\<open>ReqSeparateConnection\<close>\<close>

definition ReqSeparateConnection_ok :: "wire \<Rightarrow> ReqSeparateConnection_msg \<Rightarrow> bool" where
  "ReqSeparateConnection_ok L m \<longleftrightarrow> psep_unknown m = []"

lemma ReqSeparateConnection_MergeFrom_new [simp]: "ReqSeparateConnection_MergeFrom m ReqSeparateConnection_new = m"
  by (cases m) (simp add: ReqSeparateConnection_MergeFrom_def ReqSeparateConnection_new_def)

lemma ReqSeparateConnection_CopyFrom: "ReqSeparateConnection_CopyFrom src m = src"
  using ReqSeparateConnection_MergeFrom_new [of src] by (cases m) (simp add: ReqSeparateConnection_CopyFrom_def ReqSeparateConnection_Clear_def ReqSeparateConnection_new_def)

context wire_format
begin

lemma ReqSeparateConnection_index:
  "ReqSeparateConnection_MergePartialFromCodedStream L (written (WriteInt32 L 1) x @ r) m =
    ReqSeparateConnection_MergePartialFromCodedStream L r (m\<lparr>psep_index := over x (psep_index m)\<rparr>)"
  unfolding ReqSeparateConnection_MergePartialFromCodedStream_def by (rule merge_int32 [where upd = psep_index_update and y = "psep_index m"]) (simp_all add: ReqSeparateConnection_field_def tag_parts wire_types)

lemma ReqSeparateConnection_merge:
  "ReqSeparateConnection_ok L m \<Longrightarrow> ReqSeparateConnection_MergePartialFromCodedStream L (ReqSeparateConnection_SerializeWithCachedSizes L m @ r) u =
    ReqSeparateConnection_MergePartialFromCodedStream L r (ReqSeparateConnection_MergeFrom m u)"
  by (simp add: ReqSeparateConnection_SerializeWithCachedSizes_def ReqSeparateConnection_ok_def ReqSeparateConnection_MergeFrom_def
      ReqSeparateConnection_index del: One_nat_def)

lemma ReqSeparateConnection_merge_all: "ReqSeparateConnection_ok L m \<Longrightarrow> ReqSeparateConnection_MergePartialFromCodedStream L (ReqSeparateConnection_SerializeWithCachedSizes L m) u = Some (Consumed, ReqSeparateConnection_MergeFrom m u)"
  using ReqSeparateConnection_merge [of m "[]" u] by (simp add: ReqSeparateConnection_MergePartialFromCodedStream_def merge_end_fields)

lemma length_ReqSeparateConnection: "length (ReqSeparateConnection_SerializeWithCachedSizes L m) = ReqSeparateConnection_ByteSize L m"
  by (simp add: ReqSeparateConnection_SerializeWithCachedSizes_def ReqSeparateConnection_ByteSize_def length_written)

lemma ReqSeparateConnection_returns: "ReqSeparateConnection_MergePartialFromCodedStream L input m \<noteq> None"
  unfolding ReqSeparateConnection_MergePartialFromCodedStream_def by (rule merge_fields_returns) (simp add: ReqSeparateConnection_field_def goes_on_within_fields Let_def)

end

section \<open>\<open>ReqSetMute\<close>\<close>

definition ReqSetMute_ok :: "wire \<Rightarrow> ReqSetMute_msg \<Rightarrow> bool" where
  "ReqSetMute_ok L m \<longleftrightarrow> pmute_unknown m = []"

lemma ReqSetMute_MergeFrom_new [simp]: "ReqSetMute_MergeFrom m ReqSetMute_new = m"
  by (cases m) (simp add: ReqSetMute_MergeFrom_def ReqSetMute_new_def)

lemma ReqSetMute_CopyFrom: "ReqSetMute_CopyFrom src m = src"
  using ReqSetMute_MergeFrom_new [of src] by (cases m) (simp add: ReqSetMute_CopyFrom_def ReqSetMute_Clear_def ReqSetMute_new_def)

context wire_format
begin

lemma ReqSetMute_state:
  "ReqSetMute_MergePartialFromCodedStream L (written (WriteBool L 1) x @ r) m =
    ReqSetMute_MergePartialFromCodedStream L r (m\<lparr>pmute_state := over x (pmute_state m)\<rparr>)"
  unfolding ReqSetMute_MergePartialFromCodedStream_def by (rule merge_bool [where upd = pmute_state_update and y = "pmute_state m"]) (simp_all add: ReqSetMute_field_def tag_parts wire_types)

lemma ReqSetMute_merge:
  "ReqSetMute_ok L m \<Longrightarrow> ReqSetMute_MergePartialFromCodedStream L (ReqSetMute_SerializeWithCachedSizes L m @ r) u =
    ReqSetMute_MergePartialFromCodedStream L r (ReqSetMute_MergeFrom m u)"
  by (simp add: ReqSetMute_SerializeWithCachedSizes_def ReqSetMute_ok_def ReqSetMute_MergeFrom_def
      ReqSetMute_state del: One_nat_def)

lemma ReqSetMute_merge_all: "ReqSetMute_ok L m \<Longrightarrow> ReqSetMute_MergePartialFromCodedStream L (ReqSetMute_SerializeWithCachedSizes L m) u = Some (Consumed, ReqSetMute_MergeFrom m u)"
  using ReqSetMute_merge [of m "[]" u] by (simp add: ReqSetMute_MergePartialFromCodedStream_def merge_end_fields)

lemma length_ReqSetMute: "length (ReqSetMute_SerializeWithCachedSizes L m) = ReqSetMute_ByteSize L m"
  by (simp add: ReqSetMute_SerializeWithCachedSizes_def ReqSetMute_ByteSize_def length_written)

lemma ReqSetMute_returns: "ReqSetMute_MergePartialFromCodedStream L input m \<noteq> None"
  unfolding ReqSetMute_MergePartialFromCodedStream_def by (rule merge_fields_returns) (simp add: ReqSetMute_field_def goes_on_within_fields Let_def)

end

section \<open>\<open>ReqScreenState\<close>\<close>

definition ReqScreenState_ok :: "wire \<Rightarrow> ReqScreenState_msg \<Rightarrow> bool" where
  "ReqScreenState_ok L m \<longleftrightarrow> pscr_unknown m = []"

lemma ReqScreenState_MergeFrom_new [simp]: "ReqScreenState_MergeFrom m ReqScreenState_new = m"
  by (cases m) (simp add: ReqScreenState_MergeFrom_def ReqScreenState_new_def)

lemma ReqScreenState_CopyFrom: "ReqScreenState_CopyFrom src m = src"
  using ReqScreenState_MergeFrom_new [of src] by (cases m) (simp add: ReqScreenState_CopyFrom_def ReqScreenState_Clear_def ReqScreenState_new_def)

context wire_format
begin

lemma ReqScreenState_state:
  "ReqScreenState_MergePartialFromCodedStream L (written (WriteBool L 1) x @ r) m =
    ReqScreenState_MergePartialFromCodedStream L r (m\<lparr>pscr_state := over x (pscr_state m)\<rparr>)"
  unfolding ReqScreenState_MergePartialFromCodedStream_def by (rule merge_bool [where upd = pscr_state_update and y = "pscr_state m"]) (simp_all add: ReqScreenState_field_def tag_parts wire_types)

lemma ReqScreenState_merge:
  "ReqScreenState_ok L m \<Longrightarrow> ReqScreenState_MergePartialFromCodedStream L (ReqScreenState_SerializeWithCachedSizes L m @ r) u =
    ReqScreenState_MergePartialFromCodedStream L r (ReqScreenState_MergeFrom m u)"
  by (simp add: ReqScreenState_SerializeWithCachedSizes_def ReqScreenState_ok_def ReqScreenState_MergeFrom_def
      ReqScreenState_state del: One_nat_def)

lemma ReqScreenState_merge_all: "ReqScreenState_ok L m \<Longrightarrow> ReqScreenState_MergePartialFromCodedStream L (ReqScreenState_SerializeWithCachedSizes L m) u = Some (Consumed, ReqScreenState_MergeFrom m u)"
  using ReqScreenState_merge [of m "[]" u] by (simp add: ReqScreenState_MergePartialFromCodedStream_def merge_end_fields)

lemma length_ReqScreenState: "length (ReqScreenState_SerializeWithCachedSizes L m) = ReqScreenState_ByteSize L m"
  by (simp add: ReqScreenState_SerializeWithCachedSizes_def ReqScreenState_ByteSize_def length_written)

lemma ReqScreenState_returns: "ReqScreenState_MergePartialFromCodedStream L input m \<noteq> None"
  unfolding ReqScreenState_MergePartialFromCodedStream_def by (rule merge_fields_returns) (simp add: ReqScreenState_field_def goes_on_within_fields Let_def)

end

end
