(* ===== verification/Mock_Data_Correct.thy ===== *)
theory Mock_Data_Correct
  imports Mock_Ril Mock_Proto_Correct Ril_Response_Correct
begin

text \<open>
  What the conversions of the simulator do to the data: what is read from a message has valid
  enumerations, so that the casts are defined; calls and the status of the card come to the daemon as
  the script wrote them, with the exceptions that are shown; a request to dial loses a part of its data.
\<close>

section \<open>Casts\<close>

text \<open>The numbers of the two sets of enumerations agree.\<close>

lemma casts_defined:
  "RilCardState_IsValid v \<Longrightarrow> RIL_CardState_of v \<noteq> None" "RilPinState_IsValid v \<Longrightarrow> RIL_PinState_of v \<noteq> None"
  "RilAppType_IsValid v \<Longrightarrow> RIL_AppType_of v \<noteq> None" "RilAppState_IsValid v \<Longrightarrow> RIL_AppState_of v \<noteq> None"
  "RilPersoSubstate_IsValid v \<Longrightarrow> RIL_PersoSubstate_of v \<noteq> None" "RilCallState_IsValid v \<Longrightarrow> RIL_CallState_of v \<noteq> None"
  by (auto simp: RilCardState_IsValid_def RIL_CardState_of_def RilPinState_IsValid_def RIL_PinState_of_def
      RilAppType_IsValid_def RIL_AppType_of_def RilAppState_IsValid_def RIL_AppState_of_def RilPersoSubstate_IsValid_def
      RIL_PersoSubstate_of_def RilCallState_IsValid_def RIL_CallState_of_def)

lemma zero_valid:
  "RilCardState_IsValid 0" "RilPinState_IsValid 0" "RilAppType_IsValid 0" "RilAppState_IsValid 0"
  "RilPersoSubstate_IsValid 0" "RilCallState_IsValid 0"
  by (simp_all add: RilCardState_IsValid_def RilPinState_IsValid_def RilAppType_IsValid_def RilAppState_IsValid_def
      RilPersoSubstate_IsValid_def RilCallState_IsValid_def)

lemma cast_values:
  "pred_option RilCardState_IsValid x \<Longrightarrow> \<exists>y. RIL_CardState_of (value_or 0 x) = Some y"
  "pred_option RilPinState_IsValid x \<Longrightarrow> \<exists>y. RIL_PinState_of (value_or 0 x) = Some y"
  "pred_option RilAppType_IsValid x \<Longrightarrow> \<exists>y. RIL_AppType_of (value_or 0 x) = Some y"
  "pred_option RilAppState_IsValid x \<Longrightarrow> \<exists>y. RIL_AppState_of (value_or 0 x) = Some y"
  "pred_option RilPersoSubstate_IsValid x \<Longrightarrow> \<exists>y. RIL_PersoSubstate_of (value_or 0 x) = Some y"
  "pred_option RilCallState_IsValid x \<Longrightarrow> \<exists>y. RIL_CallState_of (value_or 0 x) = Some y"
  using casts_defined zero_valid by (cases x; simp)+

lemma those_defined: "\<forall>x \<in> set xs. \<exists>y. f x = Some y \<Longrightarrow> \<exists>ys. map f xs = map Some ys \<and> those (map f xs) = Some ys"
proof (induction xs)
  case (Cons x xs)
  then obtain y ys where "f x = Some y" "map f xs = map Some ys" "those (map f xs) = Some ys" by auto
  then have "map f (x # xs) = map Some (y # ys) \<and> those (map f (x # xs)) = Some (y # ys)" by simp
  then show ?case by blast
qed simp

lemma app_of_msg_defined: "RilAppStatus_valid a \<Longrightarrow> \<exists>y. app_of_msg a = Some y"
  unfolding RilAppStatus_valid_def app_of_msg_def
  by (elim conjE) (drule cast_values; elim exE; simp)+

lemma call_of_msg_defined: "RilCall_valid c \<Longrightarrow> \<exists>y. call_of_msg c = Some y"
  unfolding RilCall_valid_def call_of_msg_def by (elim conjE, drule cast_values) auto

lemma card_state_defined:
  assumes "RilCardStatus_valid r"
  shows "\<exists>y. RIL_CardState_of (value_or 0 (ps_card_state r)) = Some y"
    "\<exists>y. RIL_PinState_of (value_or 0 (ps_universal_pin_state r)) = Some y"
    "\<forall>a \<in> set (ps_applications r). \<exists>y. app_of_msg a = Some y"
  using assms cast_values(1,2) app_of_msg_defined by (simp_all add: RilCardStatus_valid_def list_all_iff)

lemma parsed_card_valid:
  assumes "parse_message (RspGetSimStatus_MergePartialFromCodedStream L) RspGetSimStatus_new b = Some rsp"
  shows "RilCardStatus_valid (value_or RilCardStatus_new (psim_card_status rsp))"
proof -
  obtain res where "RspGetSimStatus_MergePartialFromCodedStream L b RspGetSimStatus_new = Some (res, rsp)"
    using assms by (auto simp: parse_message_def)
  from RspGetSimStatus_merge_valid [OF this RspGetSimStatus_new_valid] show ?thesis
    by (cases "psim_card_status rsp") (simp_all add: RspGetSimStatus_valid_def)
qed

lemma parsed_calls_valid:
  assumes "parse_message (RspGetCurrentCalls_MergePartialFromCodedStream L) RspGetCurrentCalls_new b = Some rsp"
  shows "list_all RilCall_valid (pcalls_calls rsp)"
proof -
  obtain res where "RspGetCurrentCalls_MergePartialFromCodedStream L b RspGetCurrentCalls_new = Some (res, rsp)"
    using assms by (auto simp: parse_message_def)
  from RspGetCurrentCalls_merge_valid [OF this RspGetCurrentCalls_new_valid] show ?thesis by (simp add: RspGetCurrentCalls_valid_def)
qed

section \<open>The applications of a card\<close>

lemma apps_loop:
  "n \<le> length src \<Longrightarrow> n \<le> length dst \<Longrightarrow> \<forall>a \<in> set src. f a = Some (g a) \<Longrightarrow>
    foldM (\<lambda>i apps. do { a \<leftarrow> aget src i; a \<leftarrow> f a; aput apps i a }) [0..<n] dst = Some (map g (take n src) @ drop n dst)"
proof (induction n)
  case (Suc n)
  then have "foldM (\<lambda>i apps. do { a \<leftarrow> aget src i; a \<leftarrow> f a; aput apps i a }) [0..<n] dst =
      Some (map g (take n src) @ drop n dst)"
    by simp
  moreover have "(map g (take n src) @ drop n dst)[n := g (src ! n)] = map g (take (Suc n) src) @ drop (Suc n) dst"
    using Suc.prems by (simp add: take_Suc_conv_app_nth list_update_append Cons_nth_drop_Suc [symmetric])
  ultimately show ?case using Suc.prems by (simp add: foldM_append)
qed simp

lemma apps_loop_beyond:
  assumes "length src < n \<or> length dst < n" and "\<forall>a \<in> set src. f a = Some (g a)"
  shows "foldM (\<lambda>i apps. do { a \<leftarrow> aget src i; a \<leftarrow> f a; aput apps i a }) [0..<n] dst = None"
proof -
  define m where "m = min (length src) (length dst)"
  let ?f = "\<lambda>i apps. do { a \<leftarrow> aget src i; a \<leftarrow> f a; aput apps i a }"
  have "m < n" using assms(1) unfolding m_def by linarith
  then have "[0..<n] = [0..<m] @ m # [Suc m..<n]"
    using upt_add_eq_append [of 0 m "n - m"] by (simp add: upt_conv_Cons del: upt_Suc)
  moreover have "foldM ?f [0..<m] dst = Some (map g (take m src) @ drop m dst)"
    by (rule apps_loop) (simp_all add: m_def assms(2))
  moreover have "?f m (map g (take m src) @ drop m dst) = None"
    using assms(2) by (auto simp: m_def min_def aput_def aget_def)
  ultimately show ?thesis by (simp only: foldM_append foldM.simps bind.simps)
qed

section \<open>A concrete simulator\<close>

text \<open>A script that answers every request at once, and the documented format of messages.\<close>

definition demo_simulator :: mock_world where
  "demo_simulator = \<lparr>mw_abi = abi32, mw_wire = varint_wire, mw_garbage = demo_card,
     mw_js = (\<lambda>n request tok b. (False, [SendRilRequestComplete RIL_E_SUCCESS request tok (Some [1])])),
     mw_new = (\<lambda>n. (1000 + 2 * n, 1001 + 2 * n))\<rparr>"

text \<open>The field 1 with the number 2.\<close>

definition demo_hangup :: "u8 list" where "demo_hangup = [8, 2]"

lemma demo_unsupported: "STATUS_UNSUPPORTED_REQUEST \<noteq> STATUS_OK"
  by (simp add: STATUS_OK_def STATUS_UNSUPPORTED_REQUEST_def)

lemma demo_unsupported_converted:
  "converted demo_simulator RIL_REQUEST_SMS_ACKNOWLEDGE (DInts [1]) 4 = Some (STATUS_UNSUPPORTED_REQUEST, [])"
  by (simp add: converted_def rilReqConversionMap_def)

lemma demo_converted:
  "converted demo_simulator RIL_REQUEST_HANGUP (DInts [2]) 4 = Some (STATUS_OK, demo_hangup)"
  "converted demo_simulator RIL_REQUEST_GET_IMSI DVoid 0 = Some (STATUS_OK, [])"
  by (simp_all add: converted_def rilReqConversionMap_def ReqHangUp_def int_request_def ReqWithNoData_def int_at_def
      demo_simulator_def ReqHangUp_SerializeWithCachedSizes_def ReqHangUp_new_def written_def varint_wire_def
      signed_varint_def varint_small demo_hangup_def)

section \<open>The properties\<close>

text \<open>C28: The number of applications that the message of a card status gives bounds nothing: beyond the applications of the
  message or of the struct there is no defined behaviour; otherwise the first ones are those of the
  message, and the others, and one of the indices, are what was on the stack.\<close>

theorem card_status_is_unchecked:
  assumes "parse_message (RspGetSimStatus_MergePartialFromCodedStream (mw_wire W)) RspGetSimStatus_new b = Some rsp"
    and "value_or RilCardStatus_new (psim_card_status rsp) = r" and "nat (sint (value_or 0 (ps_num_applications r))) = n"
  shows "if n \<le> length (ps_applications r) \<and> n \<le> length (card_applications (mw_garbage W)) then
      \<exists>card universal apps. RIL_CardState_of (value_or 0 (ps_card_state r)) = Some card \<and>
        RIL_PinState_of (value_or 0 (ps_universal_pin_state r)) = Some universal \<and>
        map app_of_msg (take n (ps_applications r)) = map Some apps \<and>
        request_complete W e RIL_REQUEST_GET_SIM_STATUS t (Some b) =
          Some (Complete t e (Some (RCardStatus \<lparr>card_state = card, card_universal_pin_state = universal,
            card_gsm_umts_subscription_app_index = value_or 0 (ps_gsm_umts_subscription_app_index r),
            card_cdma_subscription_app_index = card_cdma_subscription_app_index (mw_garbage W),
            card_num_applications = value_or 0 (ps_num_applications r),
            card_applications = apps @ drop n (card_applications (mw_garbage W))\<rparr>))
            (size_of (RIL_CardStatus_layout (mw_abi W))))
    else request_complete W e RIL_REQUEST_GET_SIM_STATUS t (Some b) = None"
proof -
  let ?loop = "foldM (\<lambda>i apps. do { a \<leftarrow> aget (ps_applications r) i; a \<leftarrow> app_of_msg a; aput apps i a }) [0..<n]
    (card_applications (mw_garbage W))"
  have valid: "RilCardStatus_valid r" using parsed_card_valid [OF assms(1)] assms(2) by simp
  obtain card universal where c: "RIL_CardState_of (value_or 0 (ps_card_state r)) = Some card"
      "RIL_PinState_of (value_or 0 (ps_universal_pin_state r)) = Some universal"
    using card_state_defined [OF valid] by auto
  define g where "g = (\<lambda>a. the (app_of_msg a))"
  have g: "\<forall>a \<in> set (ps_applications r). app_of_msg a = Some (g a)" using card_state_defined(3) [OF valid] by (fastforce simp: g_def)
  have "request_complete W e RIL_REQUEST_GET_SIM_STATUS t (Some b) =
      RspGetSimStatus (mw_abi W) (mw_garbage W) (mw_wire W) t e (Some b)"
    by (simp add: request_complete_def rilRspConversionMap_def)
  also have "\<dots> = ?loop \<bind> (\<lambda>apps. Some (Complete t e (Some (RCardStatus (mw_garbage W\<lparr>card_state := card,
      card_universal_pin_state := universal,
      card_gsm_umts_subscription_app_index := value_or 0 (ps_gsm_umts_subscription_app_index r),
      card_num_applications := value_or 0 (ps_num_applications r), card_applications := apps\<rparr>)))
      (size_of (RIL_CardStatus_layout (mw_abi W)))))"
    by (simp add: RspGetSimStatus_def assms Let_def c)
  finally have rc: "request_complete W e RIL_REQUEST_GET_SIM_STATUS t (Some b) = \<dots>" .
  show ?thesis
  proof (cases "n \<le> length (ps_applications r) \<and> n \<le> length (card_applications (mw_garbage W))")
    case True
    have "map app_of_msg (take n (ps_applications r)) = map Some (map g (take n (ps_applications r)))"
      using g by (auto dest: in_set_takeD)
    moreover have "?loop = Some (map g (take n (ps_applications r)) @ drop n (card_applications (mw_garbage W)))"
      using apps_loop g True by blast
    ultimately show ?thesis using True c rc by (cases "mw_garbage W") auto
  next
    case False
    then have "?loop = None" using apps_loop_beyond [OF _ g] by (simp add: not_le)
    then show ?thesis using False rc by simp
  qed
qed

definition demo_sim_status :: RspGetSimStatus_msg where
  "demo_sim_status = RspGetSimStatus_new\<lparr>psim_card_status := Some (RilCardStatus_new\<lparr>ps_num_applications := Some 1\<rparr>)\<rparr>"

theorem card_status_is_unchecked_witness:
  "request_complete demo_simulator RIL_E_SUCCESS RIL_REQUEST_GET_SIM_STATUS 100
    (Some (RspGetSimStatus_SerializeWithCachedSizes varint_wire demo_sim_status)) = None"
proof -
  have "short (RilCardStatus_SerializeWithCachedSizes varint_wire (RilCardStatus_new\<lparr>ps_num_applications := Some 1\<rparr>))"
    by (simp add: short_def varint_wire.length_RilCardStatus RilCardStatus_ByteSize_def RilCardStatus_new_def field_size_def
        varint_wire_sizes signed_varint_def varint_small)
  then have "RspGetSimStatus_ok varint_wire demo_sim_status"
    by (simp add: RspGetSimStatus_ok_def demo_sim_status_def RspGetSimStatus_new_def RilCardStatus_ok_def RilCardStatus_new_def)
  from varint_wire.RspGetSimStatus_merge_all [OF this, of RspGetSimStatus_new]
  have "parse_message (RspGetSimStatus_MergePartialFromCodedStream varint_wire) RspGetSimStatus_new
      (RspGetSimStatus_SerializeWithCachedSizes varint_wire demo_sim_status) = Some demo_sim_status"
    by (simp add: parse_message_def)
  then show ?thesis
    using card_status_is_unchecked [OF _ refl refl, of demo_simulator _ demo_sim_status RIL_E_SUCCESS 100]
    by (simp add: demo_simulator_def demo_sim_status_def RspGetSimStatus_new_def RilCardStatus_new_def)
qed




text \<open>A request to dial becomes a message with its number and the restriction of the presentation, but the
  user-to-user information never is in it.\<close>

theorem dial_loses_user_information:
  assumes "wire_format (mw_wire W)" and "converted W RIL_REQUEST_DIAL (DDial d) n = Some (status, b)" and "4 \<le> n"
    and "pred_option short (dial_address d)"
  shows "status = STATUS_OK \<and> length b = ReqDial_ByteSize (mw_wire W)
      (ReqDial_new\<lparr>pd_address := dial_address d, pd_clir := Some (dial_clir d)\<rparr>) \<and>
    parse_message (ReqDial_MergePartialFromCodedStream (mw_wire W)) ReqDial_new b =
      Some (ReqDial_new\<lparr>pd_address := dial_address d, pd_clir := Some (dial_clir d), pd_uus_info := None\<rparr>)"
proof -
  let ?m = "ReqDial_new\<lparr>pd_address := dial_address d, pd_clir := Some (dial_clir d)\<rparr>"
  have b: "status = STATUS_OK" "b = ReqDial_SerializeWithCachedSizes (mw_wire W) ?m"
    using assms(2,3)
    by (auto simp: converted_def rilReqConversionMap_def ReqDial_def Let_def split: Option.bind_splits if_splits option.splits)
  have "ReqDial_ok (mw_wire W) ?m" using assms(4) by (simp add: ReqDial_ok_def ReqDial_new_def)
  then show ?thesis
    using b wire_format.length_ReqDial [OF assms(1)] wire_format.ReqDial_merge_all [OF assms(1), of ?m ReqDial_new]
    by (simp add: parse_message_def) (simp add: ReqDial_new_def)
qed



section \<open>Instances\<close>

definition demo_mt_call :: RilCall where
  "demo_mt_call = RilCall_new\<lparr>pc_state := Some 4, pc_index := Some 1, pc_is_mt := Some True, pc_number := Some [49, 50],
     pc_uus_info := Some (RilUusInfo_new\<lparr>pu_uus_dcs := Some 4, pu_uus_data := Some [72, 105]\<rparr>)\<rparr>"

lemma demo_mt_call_ok: "RilCall_ok varint_wire demo_mt_call"
proof -
  have "short (RilUusInfo_SerializeWithCachedSizes varint_wire (RilUusInfo_new\<lparr>pu_uus_dcs := Some 4, pu_uus_data := Some [72, 105]\<rparr>))"
    by (simp add: short_def varint_wire.length_RilUusInfo RilUusInfo_ByteSize_def RilUusInfo_new_def field_size_def
        varint_wire_sizes signed_varint_def varint_small)
  then show ?thesis
    by (simp add: RilCall_ok_def demo_mt_call_def RilCall_new_def RilUusInfo_ok_def RilUusInfo_new_def short_def
        RilCallState_IsValid_def RilUusDcs_IsValid_def)
qed



definition demo_dial_request :: RIL_Dial where
  "demo_dial_request = \<lparr>dial_address = Some [49, 50], dial_clir = 1, dial_uusInfo = Some \<lparr>uus_uusType = 1, uus_uusDcs = 4,
     uus_uusLength = 2, uus_uusData = Some [72, 105]\<rparr>\<rparr>"

theorem dial_loses_user_information_witness:
  "\<exists>b. converted demo_simulator RIL_REQUEST_DIAL (DDial demo_dial_request) 12 = Some (STATUS_OK, b) \<and>
    parse_message (ReqDial_MergePartialFromCodedStream varint_wire) ReqDial_new b =
      Some (ReqDial_new\<lparr>pd_address := Some [49, 50], pd_clir := Some 1, pd_uus_info := None\<rparr>)"
proof -
  have "\<exists>b. converted demo_simulator RIL_REQUEST_DIAL (DDial demo_dial_request) 12 = Some (STATUS_OK, b)"
    by (simp add: converted_def rilReqConversionMap_def ReqDial_def demo_dial_request_def)
  then show ?thesis
    using dial_loses_user_information [of demo_simulator demo_dial_request 12] varint_wire.wire_format_axioms
    by (fastforce simp: demo_simulator_def demo_dial_request_def short_def)
qed

end
