(* ===== verification/Mock_Correct.thy ===== *)
theory Mock_Correct
  imports Mock_Data_Correct Ref_Vendor Ril_Core_Correct
begin

text \<open>
  The simulator \<open>mock-ril\<close>: its queue gives every request that it can convert to the JavaScript code,
  once and in order, and completes the others; what the JavaScript code answers is what the daemon
  gets, with the exceptions that are shown; and the simulator is a vendor library of the daemon.
\<close>

section \<open>The queue\<close>

text \<open>The addresses of the requests that have not been given to the script yet.\<close>

definition unserved :: "worker \<Rightarrow> addr list" where "unserved w = taken w @ map (item w) (work_q w)"

definition mock_ok :: "mock_ril \<Rightarrow> bool" where
  "mock_ok s \<longleftrightarrow> worker_ok (mq s) \<and> delayed_q (mq s) = [] \<and> distinct (unserved (mq s) @ m_free s) \<and>
     set (unserved (mq s) @ m_free s) \<subseteq> dom (m_requests s)"

text \<open>The requests that were taken over, in order.\<close>

definition queued :: "mock_ril \<Rightarrow> mock_request list" where
  "queued s = map (\<lambda>p. the (m_requests s p)) (unserved (mq s))"

fun accepted :: "mock_world \<Rightarrow> mock_event \<Rightarrow> mock_request list" where
  "accepted W (Arrives request d n tok) = (case converted W request d n of
       Some (status, b) \<Rightarrow> if status = STATUS_OK then [\<lparr>mr_request = request, mr_buffer = b, mr_token = tok\<rparr>] else []
     | None \<Rightarrow> [])"
| "accepted W Works = []"

lemma mock_ok_new: "mock_ok new_mock"
  by (simp add: mock_ok_def new_mock_def worker_ok_new unserved_def) (simp add: new_worker_def taken_def)

lemma Add_unserved:
  assumes "worker_ok w" and "wq_heap w new = None" and "record_read w"
  shows "unserved (Add new p w) = unserved w @ [p]" "processed (Add new p w) = processed w" "delayed_q (Add new p w) = delayed_q w"
proof -
  have "processed (Add new p w) = processed w \<and> delayed_q (Add new p w) = delayed_q w"
    by (auto simp: Add_def obtain_record_def Let_def split: prod.splits list.splits)
  then show "processed (Add new p w) = processed w" "delayed_q (Add new p w) = delayed_q w" by simp_all
  then show "unserved (Add new p w) = unserved w @ [p]"
    using Add_contents(1) [OF assms, of p] by (simp add: contents_def unserved_def)
qed

lemma worker_turn_unserved:
  assumes "worker_turn now w = Some w'" and "delayed_q w = []"
  shows "delayed_q w' = []" "place w = Took r \<Longrightarrow> unserved w = item w r # unserved w'"
    "\<forall>r. place w \<noteq> Took r \<Longrightarrow> unserved w' = unserved w"
proof -
  obtain moved where m: "contents w' = contents w @ map (item w) moved" "delayed_q w = moved @ delayed_q w'"
    using worker_turn_contents [OF assms(1)] by blast
  then show "delayed_q w' = []" using assms(2) by simp
  have c: "contents w' = contents w" using m assms(2) by simp
  show "unserved w = item w r # unserved w'" if "place w = Took r"
    using assms(1) that
    by (auto simp: worker_turn_def process_taken_def unserved_def taken_def item_def fun_eq_iff split: option.splits)
  show "unserved w' = unserved w" if "\<forall>r. place w \<noteq> Took r"
  proof -
    have "processed w' = processed w"
      using assms(1) that by (cases "place w") (auto simp: worker_turn_def inner_loop_def release_record_def Let_def
          split: if_splits prod.splits)
    then show ?thesis using c by (simp add: contents_def unserved_def)
  qed
qed


lemma AddRequest_queues:
  assumes "AddRequest W request d n tok s = Some s'" and "mock_ok s" and "record_read (mq s)"
    and "converted W request d n = Some (STATUS_OK, b)"
  shows "mock_ok s' \<and> queued s' = queued s @ [\<lparr>mr_request = request, mr_buffer = b, mr_token = tok\<rparr>] \<and>
    m_given s' = m_given s \<and> m_calls s' = m_calls s"
proof -
  obtain new_request new where new: "mw_new W (m_tick s) = (new_request, new)" by fastforce
  define req where "req = (case m_free s of [] \<Rightarrow> new_request | r # rs \<Rightarrow> r)"
  have fresh: "m_requests s new_request = None" "wq_heap (mq s) new = None"
    and s': "s' = s\<lparr>m_tick := Suc (m_tick s), m_free := tl (m_free s), m_requests := (m_requests s)(req \<mapsto>
      \<lparr>mr_request = request, mr_buffer = b, mr_token = tok\<rparr>), mq := Add new req (mq s)\<rparr>"
    using assms(1,4) new by (auto simp: AddRequest_def req_def split: list.splits if_splits)
  have w: "worker_ok (mq s)" using assms(2) by (simp add: mock_ok_def)
  note add = Add_unserved [OF w fresh(2) assms(3), of req]
  have r: "req \<notin> set (unserved (mq s) @ tl (m_free s))"
    using assms(2) fresh(1) by (cases "m_free s") (auto simp: mock_ok_def req_def)
  have "set (tl (m_free s)) \<subseteq> set (m_free s)" "distinct (tl (m_free s))"
    using assms(2) by (cases "m_free s"; auto simp: mock_ok_def)+
  then have "mock_ok s'"
    using assms(2) r Add_ok [OF w fresh(2), of req] by (auto simp: mock_ok_def s' add)
  moreover have "queued s' = queued s @ [\<lparr>mr_request = request, mr_buffer = b, mr_token = tok\<rparr>]"
    using r by (auto simp: queued_def s' add)
  ultimately show ?thesis by (simp add: s')
qed

lemma AddRequest_refuses:
  assumes "converted W request d n = Some (status, b)" and "status \<noteq> STATUS_OK"
  shows "AddRequest W request d n tok s = Some (s\<lparr>m_calls := m_calls s @ [Complete tok
    (if status = STATUS_UNSUPPORTED_REQUEST then RIL_E_REQUEST_NOT_SUPPORTED else RIL_E_GENERIC_FAILURE) None 0]\<rparr>)"
  using assms by (simp add: AddRequest_def)

lemma mock_turn_serves:
  assumes "mock_turn W now s = Some s'" and "mock_ok s" and "clock_ok now"
  shows "mock_ok s' \<and> m_given s' @ queued s' = m_given s @ queued s"
proof -
  obtain w where w: "worker_turn now (mq s) = Some w" using assms(1) by (auto simp: mock_turn_def split: Option.bind_splits)
  have ok: "worker_ok (mq s)" "delayed_q (mq s) = []" using assms(2) by (simp_all add: mock_ok_def)
  note turn = worker_turn_unserved [OF w ok(2)]
  have w_ok: "worker_ok w" using worker_turn_ok [OF ok(1) assms(3)] w by auto
  have heap: "wq_heap w = wq_heap (mq s)"
    using w by (cases "place (mq s)") (auto simp: worker_turn_def inner_loop_def process_taken_def release_record_def
        Let_def split: if_splits prod.splits option.splits)
  show ?thesis
  proof (cases "\<exists>r. place (mq s) = Took r")
    case True
    then obtain r where r: "place (mq s) = Took r" by blast
    let ?p = "item (mq s) r"
    obtain q u where q: "m_requests s ?p = Some q" "callOnRilRequest W q (s\<lparr>mq := w\<rparr>) = Some u"
        "s' = u\<lparr>m_free := m_free u @ [?p]\<rparr>"
      using assms(1) w r by (auto simp: mock_turn_def Process_def split: Option.bind_splits)
    have u: "mq u = w" "m_requests u = m_requests s" "m_free u = m_free s" "m_given u = m_given s @ [q]"
      using q(2) by (auto simp: callOnRilRequest_def Let_def split: prod.splits Option.bind_splits)
    have "unserved (mq s) = ?p # unserved w" using turn(2) r by blast
    then show ?thesis
      using assms(2) w_ok turn(1) q u heap by (auto simp: mock_ok_def queued_def)
  next
    case False
    then have s': "s' = s\<lparr>mq := w\<rparr>" using assms(1) w by (auto simp: mock_turn_def split: worker_place.splits)
    then show ?thesis using assms(2) w_ok turn(1,3) False heap by (auto simp: mock_ok_def queued_def)
  qed
qed

lemma mock_step_serves:
  assumes "mock_step W record_read e s s'" and "mock_ok s"
  shows "mock_ok s' \<and> m_given s' @ queued s' = m_given s @ queued s @ accepted W e"
  using assms
proof (induction rule: mock_step.induct)
  case (arrives s request d n tok s')
  obtain status b where c: "converted W request d n = Some (status, b)"
    using arrives(3) by (auto simp: AddRequest_def split: Option.bind_splits)
  show ?case
  proof (cases "status = STATUS_OK")
    case True
    then show ?thesis using AddRequest_queues [OF arrives(3,4,2)] c by simp
  next
    case False
    then have "s' = s\<lparr>m_calls := m_calls s'\<rparr>" using arrives(3) AddRequest_refuses [OF c] by auto
    then have "mq s' = mq s" "m_requests s' = m_requests s" "m_free s' = m_free s" "m_given s' = m_given s"
      by (metis mock_ril.select_convs mock_ril.surjective mock_ril.update_convs(4))+
    then show ?thesis using arrives(4) c False by (simp add: mock_ok_def queued_def)
  qed
next
  case (works now s s')
  then show ?case using mock_turn_serves by simp
qed

lemma mock_run_serves:
  "mock_run W record_read es s s' \<Longrightarrow> mock_ok s \<Longrightarrow>
    mock_ok s' \<and> m_given s' @ queued s' = m_given s @ queued s @ concat (map (accepted W) es)"
proof (induction rule: mock_run.induct)
  case (more e s u es v)
  then show ?case using mock_step_serves [OF more(1)] by (metis append.assoc concat.simps(2) list.simps(9))
qed simp


section \<open>The simulator as the vendor library\<close>

text \<open>What a call of the daemon makes the simulator call, on the daemon.\<close>

definition mock_part :: "mock_ril ril_state_scheme \<Rightarrow> mock_ril" where "mock_part s = ril_state.more s"

definition set_mock :: "mock_ril \<Rightarrow> mock_ril ril_state_scheme \<Rightarrow> mock_ril ril_state_scheme" where
  "set_mock u s = ril_state.more_update (\<lambda>_. u) s"

definition simulator_world :: "('p, mock_ril) world \<Rightarrow> mock_world \<Rightarrow> ('p, mock_ril) world" where
  "simulator_world W V =
     (let W = W\<lparr>w_malloc := \<lambda>k L. if L (w_malloc W k L) then NULL else w_malloc W k L,
          w_getVersion := Some (\<lambda>_. Some mock_getVersion)\<rparr> in
      W\<lparr>w_onRequest := \<lambda>request d n t s. do {
          u \<leftarrow> mock_onRequest V request d n t ((mock_part s)\<lparr>m_calls := []\<rparr>);
          vendor_run W (m_calls u) (set_mock (u\<lparr>m_calls := []\<rparr>) s) },
        w_timed := \<lambda>k param s. Some s\<rparr>)"

interpretation simulator: vendor_library "simulator_world W V" for W :: "('p, mock_ril) world" and V :: mock_world
proof
  fix request d n a k param and s s' :: "mock_ril ril_state_scheme"
  let ?W = "W\<lparr>w_malloc := \<lambda>k L. if L (w_malloc W k L) then NULL else w_malloc W k L,
      w_getVersion := Some (\<lambda>_. Some mock_getVersion)\<rparr>"
  have same: "w_write (simulator_world W V) = w_write ?W" "w_env (simulator_world W V) = w_env ?W"
    by (simp_all add: simulator_world_def Let_def)
  have quiet: "quiet s (set_mock u s)" for u by (simp add: quiet_def set_mock_def)
  show "reaches (simulator_world W V) s s'" if "w_onRequest (simulator_world W V) request d n a s = Some s'"
  proof -
    have "mock_onRequest V request d n a ((mock_part s)\<lparr>m_calls := []\<rparr>) \<bind>
        (\<lambda>u. vendor_run ?W (m_calls u) (set_mock (u\<lparr>m_calls := []\<rparr>) s)) = Some s'"
      using that by (simp add: simulator_world_def Let_def)
    then obtain u where u: "vendor_run ?W (m_calls u) (set_mock (u\<lparr>m_calls := []\<rparr>) s) = Some s'"
      unfolding bind_eq_Some_conv by blast
    show ?thesis using reaches_trans [OF reaches_quiet [OF quiet] vendor_run_reaches [OF same u]] .
  qed
  show "w_timed (simulator_world W V) k param s = Some s' \<Longrightarrow> reaches (simulator_world W V) s s'"
    by (simp add: simulator_world_def Let_def)
next
  show "malloc_ok (simulator_world W V)" by (simp add: malloc_ok_def simulator_world_def Let_def)
qed


section \<open>A concrete simulator\<close>

fun mock_simulate :: "mock_world \<Rightarrow> (worker \<Rightarrow> bool) \<Rightarrow> mock_event list \<Rightarrow> mock_ril \<Rightarrow> mock_ril option" where
  "mock_simulate W may_add [] s = Some s"
| "mock_simulate W may_add (Arrives request d n tok # es) s =
     (if \<not> holds_mutex (mq s) \<and> may_add (mq s) then AddRequest W request d n tok s \<bind> mock_simulate W may_add es else None)"
| "mock_simulate W may_add (Works # es) s = mock_turn W 0 s \<bind> mock_simulate W may_add es"

lemma clock_ok_zero: "clock_ok 0"
  by (simp add: clock_ok_def)

lemma mock_simulate_run: "mock_simulate W may_add es s = Some s' \<Longrightarrow> mock_run W may_add es s s'"
  by (induction W may_add es s rule: mock_simulate.induct)
    (auto split: if_splits Option.bind_splits intro!: mock_run.intros intro: mock_step.arrives mock_step.works [OF clock_ok_zero])

definition demo_requests :: "mock_event list" where
  "demo_requests = [Works, Arrives RIL_REQUEST_HANGUP (DInts [2]) 4 77, Arrives RIL_REQUEST_SMS_ACKNOWLEDGE (DInts [1]) 4 78,
     Arrives RIL_REQUEST_GET_IMSI DVoid 0 79, Works, Works, Works]"

lemma demo_answered:
  "callOnRilRequest demo_simulator \<lparr>mr_request = RIL_REQUEST_HANGUP, mr_buffer = demo_hangup, mr_token = 77\<rparr> s =
    Some (s\<lparr>m_given := m_given s @ [\<lparr>mr_request = RIL_REQUEST_HANGUP, mr_buffer = demo_hangup, mr_token = 77\<rparr>],
      m_calls := m_calls s @ [Complete 77 RIL_E_SUCCESS None 0]\<rparr>)"
  by (simp add: callOnRilRequest_def demo_simulator_def request_complete_def rilRspConversionMap_def RspWithNoData_def)

lemma demo_new: "mw_new demo_simulator n = (1000 + 2 * n, 1001 + 2 * n)"
  by (simp add: demo_simulator_def)

lemma demo_requests_run:
  "\<exists>s. mock_simulate demo_simulator record_read demo_requests new_mock = Some s \<and>
     m_given s = [\<lparr>mr_request = RIL_REQUEST_HANGUP, mr_buffer = demo_hangup, mr_token = 77\<rparr>]"
  by (simp add: demo_requests_def AddRequest_def demo_converted demo_unsupported_converted demo_unsupported demo_new demo_answered mock_turn_def
      Process_def new_mock_def worker_defs record_read_def item_def
      del: RIL_REQUEST_HANGUP_def RIL_REQUEST_SMS_ACKNOWLEDGE_def RIL_REQUEST_GET_IMSI_def)

section \<open>The properties\<close>

text \<open>C20: As long as no request comes between the moment the worker releases a record and the moment it reads it, the
  requests that can be converted are given to the JavaScript code in the order in which they came, each
  once, with their data as a message and their token; the others are never given to it.\<close>

theorem requests_reach_the_script:
  assumes "mock_run W record_read es new_mock s"
  shows "m_given s @ queued s = concat (map (accepted W) es)"
proof -
  have "queued new_mock = []" by (simp add: queued_def new_mock_def unserved_def new_worker_def taken_def)
  then show ?thesis using mock_run_serves [OF assms mock_ok_new] by (simp add: new_mock_def)
qed

theorem requests_reach_the_script_witness:
  "\<exists>s. mock_run demo_simulator record_read demo_requests new_mock s \<and>
    m_given s @ queued s = [\<lparr>mr_request = RIL_REQUEST_HANGUP, mr_buffer = demo_hangup, mr_token = 77\<rparr>,
      \<lparr>mr_request = RIL_REQUEST_GET_IMSI, mr_buffer = [], mr_token = 79\<rparr>]"
proof -
  obtain s where s: "mock_run demo_simulator record_read demo_requests new_mock s"
    using demo_requests_run mock_simulate_run by blast
  then show ?thesis using requests_reach_the_script [OF s]
    by (auto simp: demo_requests_def demo_converted demo_unsupported_converted demo_unsupported
        simp del: RIL_REQUEST_HANGUP_def RIL_REQUEST_SMS_ACKNOWLEDGE_def RIL_REQUEST_GET_IMSI_def)
qed

text \<open>C21: With the simulator behind the daemon, a request that it queues is still pending, and one that it refuses is not:
  it has been completed.\<close>

theorem refused_request_is_completed:
  assumes "w_onRequest (simulator_world W V) request d n t s = Some s'" and "pending s R"
    and "converted V request d n = Some (status, b)"
  shows "pending s' (if status = STATUS_OK then R else AList.delete t R)"
proof -
  let ?W = "W\<lparr>w_malloc := \<lambda>k L. if L (w_malloc W k L) then NULL else w_malloc W k L,
      w_getVersion := Some (\<lambda>_. Some mock_getVersion)\<rparr>"
  have "mock_onRequest V request d n t ((mock_part s)\<lparr>m_calls := []\<rparr>) \<bind>
      (\<lambda>u. vendor_run ?W (m_calls u) (set_mock (u\<lparr>m_calls := []\<rparr>) s)) = Some s'"
    using assms(1) by (simp add: simulator_world_def Let_def)
  then obtain u where u: "AddRequest V request d n t ((mock_part s)\<lparr>m_calls := []\<rparr>) = Some u"
      "vendor_run ?W (m_calls u) (set_mock (u\<lparr>m_calls := []\<rparr>) s) = Some s'"
    unfolding bind_eq_Some_conv mock_onRequest_def by blast
  have "quiet s (set_mock (u\<lparr>m_calls := []\<rparr>) s)" by (simp add: quiet_def set_mock_def)
  then have p: "pending s' (fold AList.delete (answers (m_calls u)) R)"
    using vendor_run_pending [OF u(2)] assms(2) quiet_pending by blast
  show ?thesis
  proof (cases "status = STATUS_OK")
    case True
    then have "m_calls u = []" using u(1) assms(3) by (auto simp: AddRequest_def Let_def split: prod.splits if_splits)
    then show ?thesis using p True by simp
  next
    case False
    then have "answers (m_calls u) = [t]" using u(1) AddRequest_refuses [OF assms(3) False] by auto
    then show ?thesis using p False by simp
  qed
qed

text \<open>The daemon of the examples, with the simulator behind it.\<close>

definition simulated_daemon_world :: "(byte_parcel, mock_ril) world" where
  "simulated_daemon_world = \<lparr>w_env = demo_env, w_write = (\<lambda>n. Wrote 3), w_read = (\<lambda>n. ReadBytes 0),
     w_malloc = w_malloc demo_world, w_now = w_now demo_world, w_elapsedRealtime = (\<lambda>n. of_nat n),
     w_accept = (\<lambda>n. 9), w_server = (\<lambda>n. 8), w_pipe = (\<lambda>n. Some (10, 11)), w_thread = (\<lambda>n. True),
     w_record = (\<lambda>p n. EndOfStream), w_onRequest = (\<lambda>request d n a s. Some s),
     w_onStateRequest = (\<lambda>n. RADIO_STATE_OFF), w_getVersion = None, w_timed = (\<lambda>k param s. Some s)\<rparr>"

definition simulated_daemon :: "mock_ril ril_state_scheme" where
  "simulated_daemon = ril_state.extend demo_state new_mock"

lemma set_mock_quiet: "quiet s (set_mock u s)"
  by (simp add: quiet_def set_mock_def)

theorem refused_request_is_completed_witness:
  "\<exists>s'. w_onRequest (simulator_world simulated_daemon_world demo_simulator) RIL_REQUEST_SMS_ACKNOWLEDGE (DInts [1]) 4 100
      (push_request 100 77 (s_commands ! 37) True simulated_daemon) = Some s' \<and> pending s' []"
proof -
  let ?s = "push_request 100 77 (s_commands ! 37) True simulated_daemon"
  let ?d = "new_request (77, s_commands ! 37, True)"
  let ?W = "simulated_daemon_world\<lparr>w_malloc := \<lambda>k L. if L (w_malloc simulated_daemon_world k L) then NULL
      else w_malloc simulated_daemon_world k L, w_getVersion := Some (\<lambda>_. Some mock_getVersion)\<rparr>"
  let ?m = "(mock_part ?s)\<lparr>m_calls := []\<rparr>"
  have "pending simulated_daemon []"
    by (simp add: pending_def simulated_daemon_def ril_state.defs demo_state_def)
  from pending_push [OF this, of 100 77 "s_commands ! 37" True] have p: "pending ?s [(100, ?d)]" by simp
  have loc: "\<forall>d. map_of [(100, ?d)] 100 = Some d \<longrightarrow> ri_local d \<or> ri_cancelled d" by (simp add: new_request_def)
  note c = demo_unsupported_converted and ne = demo_unsupported
  let ?u = "?m\<lparr>m_calls := [Complete 100 RIL_E_REQUEST_NOT_SUPPORTED None 0]\<rparr>"
  have "mock_onRequest demo_simulator RIL_REQUEST_SMS_ACKNOWLEDGE (DInts [1]) 4 100 ?m = Some ?u"
    using AddRequest_refuses [OF c ne, of 100 ?m] by (simp add: mock_onRequest_def)
  moreover have "pending (set_mock (?u\<lparr>m_calls := []\<rparr>) ?s) [(100, ?d)]" using p quiet_pending [OF set_mock_quiet] by blast
  then obtain s' where "RIL_onRequestComplete ?W 100 RIL_E_REQUEST_NOT_SUPPORTED None 0
      (set_mock (?u\<lparr>m_calls := []\<rparr>) ?s) = Some s'"
    using RIL_onRequestComplete_dropped [OF _ loc, where W = ?W and e = RIL_E_REQUEST_NOT_SUPPORTED and resp = None
        and n = 0] by blast
  ultimately have "w_onRequest (simulator_world simulated_daemon_world demo_simulator) RIL_REQUEST_SMS_ACKNOWLEDGE
      (DInts [1]) 4 100 ?s = Some s'"
    by (simp add: simulator_world_def Let_def)
  then show ?thesis using refused_request_is_completed [OF _ p c] ne by fastforce
qed

end
