(* ===== verification/Ril_Debug.thy ===== *)
theory Ril_Debug
  imports Ril_Core At_Tok
begin

text \<open>
  The debug port: the command \<open>rild/radiooptions.c\<close> that writes to it and \<open>debugCallback\<close> of
  \<open>libril/ril.cpp\<close> that serves it. \<open>RIL_register\<close> has the lines that open the port under \<open>#if 0\<close>.

  An \<open>int\<close> crosses the socket in the byte order of the host, little-endian on the platforms of
  \<open>Android.mk\<close>. The memory that \<open>debugCallback\<close> allocates is a set of blocks, so that what is not
  freed can be seen.
\<close>

section \<open>\<open>atoi\<close>\<close>

definition c_atoi :: "abi \<Rightarrow> u8 list \<Rightarrow> i32" where
  "c_atoi a x = (let (neg, ds) = strto_digits 10 x
     in word_of_int (strto_value (8 * ptr_size a) False neg (digits_value 10 ds)))"

section \<open>The client\<close>

definition DIAL_CALL :: int where "DIAL_CALL = 8"
definition SETUP_PDP :: int where "SETUP_PDP = 6"

text \<open>
  \<open>ow_client\<close> is the result of \<open>socket_local_client\<close>; \<open>ow_send\<close> is the result of the n-th \<open>send\<close> of so
  many bytes, which sends no more than these.
\<close>

record options_world =
  ow_client :: int
  ow_send :: "nat \<Rightarrow> nat \<Rightarrow> int"

text \<open>The number of calls of \<open>send\<close>, and the bytes sent.\<close>

type_synonym sender = "nat \<times> u8 list"

definition socket_send :: "options_world \<Rightarrow> u8 list \<Rightarrow> sender \<Rightarrow> int \<times> sender" where
  "socket_send OW bytes = (\<lambda>(k, out).
     (let r = ow_send OW k (length bytes)
      in if r < 0 then (- 1, Suc k, out)
         else (min r (int (length bytes)), Suc k, out @ take (nat r) bytes)))"

definition error_check :: "abi \<Rightarrow> u8 list list \<Rightarrow> int option" where
  "error_check a argv =
     (if length argv < 2 then Some (- 1)
      else do {
        arg \<leftarrow> aget argv 1;
        let option = sint (c_atoi a arg);
        Some (if option < 0 \<or> option > 10 then 0
          else if (option = DIAL_CALL \<or> option = SETUP_PDP) \<and> length argv = 3 then 0
          else if (option \<noteq> DIAL_CALL \<and> option \<noteq> SETUP_PDP) \<and> length argv = 2 then 0
          else - 1)
      })"

definition get_number_args :: "abi \<Rightarrow> u8 list list \<Rightarrow> nat option" where
  "get_number_args a argv = do {
     arg \<leftarrow> aget argv 1;
     let option = sint (c_atoi a arg);
     Some (if option \<noteq> DIAL_CALL \<and> option \<noteq> SETUP_PDP then 1 else 2)
   }"

text \<open>
  A pass of the loop; \<open>False\<close> is an error, after which the other arguments are not sent. The length
  of an argument has to be an \<open>int\<close>.
\<close>

definition send_arg :: "options_world \<Rightarrow> u8 list list \<Rightarrow> nat \<Rightarrow> bool \<times> sender \<Rightarrow> (bool \<times> sender) option" where
  "send_arg OW argv i = (\<lambda>(ok, st).
     if \<not> ok then Some (False, st)
     else do {
       arg \<leftarrow> aget argv (1 + i);
       if length arg \<ge> 2 ^ 31 then None
       else do {
         let (ret, st) = socket_send OW (le32 (of_nat (length arg))) st;
         if ret \<noteq> 4 then Some (False, st)
         else do {
           let (ret, st) = socket_send OW arg st;
           Some (ret = int (length arg), st)
         }
       }
     })"

text \<open>The exit status and the bytes sent.\<close>

definition radiooptions :: "abi \<Rightarrow> options_world \<Rightarrow> u8 list list \<Rightarrow> (int \<times> u8 list) option" where
  "radiooptions a OW argv = do {
     wrong \<leftarrow> error_check a argv;
     if wrong \<noteq> 0 \<or> ow_client OW < 0 then Some (- 1, [])
     else do {
       num_socket_args \<leftarrow> get_number_args a argv;
       let (ret, st) = socket_send OW (le32 (of_nat num_socket_args)) (0, []);
       if ret \<noteq> 4 then Some (- 1, snd st)
       else do {
         (ok, st) \<leftarrow> foldM (send_arg OW argv) [0..<num_socket_args] (True, st);
         Some (if ok then 0 else - 1, snd st)
       }
     }
   }"

section \<open>The connection in the daemon\<close>

text \<open>
  \<open>dw_recv\<close> is the result of the n-th call when so many bytes are asked for; fewer are received when
  the stream has no more. \<open>dw_qxdm\<close> and \<open>dw_uusInfo\<close> are what \<open>qxdm_data[5]\<close> and \<open>dialData.uusInfo\<close>
  hold before they are set.
\<close>

record debug_world =
  dw_accept :: int
  dw_recv :: "nat \<Rightarrow> nat \<Rightarrow> int"
  dw_malloc :: "nat \<Rightarrow> nat \<Rightarrow> bool"
  dw_qxdm :: i32
  dw_uusInfo :: "RIL_UUS_Info option"

record debug_conn =
  dc_calls :: nat            \<comment> \<open>system calls so far\<close>
  dc_stream :: "u8 list"     \<comment> \<open>what the peer sent and nobody received\<close>
  dc_live :: "addr set"      \<comment> \<open>the blocks that are allocated\<close>

definition debug_malloc :: "debug_world \<Rightarrow> nat \<Rightarrow> debug_conn \<Rightarrow> addr \<times> debug_conn" where
  "debug_malloc D n c =
     (let b = Suc (dc_calls c); c' = c\<lparr>dc_calls := Suc (dc_calls c)\<rparr>
      in if dw_malloc D (dc_calls c) n then (b, c'\<lparr>dc_live := insert b (dc_live c)\<rparr>) else (NULL, c'))"

definition debug_free :: "addr \<Rightarrow> debug_conn \<Rightarrow> debug_conn option" where
  "debug_free b c = (if b = NULL then Some c
     else if b \<in> dc_live c then Some (c\<lparr>dc_live := dc_live c - {b}\<rparr>) else None)"

text \<open>
  \<open>recv\<close> of \<open>n\<close> bytes into a block of \<open>m\<close> bytes. A null pointer is an error as soon as there is a byte
  to store.
\<close>

definition debug_recv ::
    "debug_world \<Rightarrow> bool \<Rightarrow> nat \<Rightarrow> nat \<Rightarrow> debug_conn \<Rightarrow> (int \<times> u8 list \<times> debug_conn) option" where
  "debug_recv D null m n c =
     (let r = dw_recv D (dc_calls c) n;
          k = min (nat r) (min n (length (dc_stream c)));
          c' = c\<lparr>dc_calls := Suc (dc_calls c)\<rparr>
      in if r < 0 \<or> null \<and> k > 0 then Some (- 1, [], c')
         else if k > m then None
         else Some (int k, take k (dc_stream c), c'\<lparr>dc_stream := drop k (dc_stream c)\<rparr>))"

definition debug_recv_int :: "debug_world \<Rightarrow> debug_conn \<Rightarrow> (i32 option \<times> debug_conn) option" where
  "debug_recv_int D c = do {
     (r, bytes, c) \<leftarrow> debug_recv D False 4 4 c;
     Some (if r \<noteq> 4 then None else Some (from_be32 (rev bytes)), c)
   }"

text \<open>An argument: its block, and the characters before the first zero.\<close>

type_synonym debug_arg = "addr \<times> u8 list"

definition freeDebugCallbackArgs :: "nat \<Rightarrow> addr \<Rightarrow> debug_arg list \<Rightarrow> debug_conn \<Rightarrow> debug_conn option" where
  "freeDebugCallbackArgs number block args c = do {
     c \<leftarrow> foldM (\<lambda>i c. do {
       arg \<leftarrow> aget args i;
       if fst arg \<noteq> NULL then debug_free (fst arg) c else Some c
     }) [0..<number] c;
     debug_free block c
   }"

text \<open>
  The loop over the arguments, with \<open>n\<close> of them to come; \<open>capacity\<close> is the number of pointers that the
  block of \<open>args\<close> has room for. \<open>False\<close> is a failed \<open>recv\<close>.
\<close>

fun debug_args :: "abi \<Rightarrow> debug_world \<Rightarrow> nat \<Rightarrow> nat \<Rightarrow> debug_arg list \<Rightarrow> debug_conn
    \<Rightarrow> (bool \<times> debug_arg list \<times> debug_conn) option" where
  "debug_args a D capacity 0 args c = Some (True, args, c)"
| "debug_args a D capacity (Suc n) args c = do {
     (len, c) \<leftarrow> debug_recv_int D c;
     case len of
       None \<Rightarrow> Some (False, args, c)
     | Some len \<Rightarrow> do {
         let size = to_size a (sint len + 1);
         let (b, c) = debug_malloc D size c;
         if length args \<ge> capacity then None
         else do {
           (r, bytes, c) \<leftarrow> debug_recv D (b = NULL) size (to_size a (sint len)) c;
           if r \<noteq> sint len then Some (False, args, c)
           else if b = NULL \<or> sint len < 0 then None
           else debug_args a D capacity n (args @ [(b, takeWhile (\<lambda>x. x \<noteq> 0) bytes)]) c
         }
       }
   }"

section \<open>The commands\<close>

definition debug_switch ::
    "debug_world \<Rightarrow> ('p, 'z) world \<Rightarrow> debug_arg list \<Rightarrow> 'z ril_state_scheme \<Rightarrow> 'z ril_state_scheme option" where
  "debug_switch D W args s = do {
     arg0 \<leftarrow> aget args 0;
     let a = env_abi (w_env W);
     let option = sint (c_atoi a (snd arg0));
     if option = 0 then issueLocalRequest W RIL_REQUEST_RESET_RADIO DVoid 0 s
     else if option = 1 then do {
       s \<leftarrow> issueLocalRequest W RIL_REQUEST_RADIO_POWER (DInts [0]) 4 s;
       let s = emit (Closed (s_fdCommand s)) s;
       Some (s\<lparr>s_fdCommand := - 1\<rparr>)
     }
     else if option = 2 then RIL_onUnsolicitedResponse W RIL_UNSOL_RESPONSE_NETWORK_STATE_CHANGED None 0 s
     else if option = 3 then
       issueLocalRequest W RIL_REQUEST_OEM_HOOK_RAW
         (DRaw (Some (concat (map le32 ([65536, 16, 1, 32, 0, dw_qxdm D][4 := 8]))))) (6 * 4) s
     else if option = 4 then
       issueLocalRequest W RIL_REQUEST_OEM_HOOK_RAW
         (DRaw (Some (concat (map le32 [65536, 16, 0, 32, 0, 8])))) (6 * 4) s
     else if option = 5 then do {
       s \<leftarrow> issueLocalRequest W RIL_REQUEST_RADIO_POWER (DInts [1]) 4 s;
       issueLocalRequest W RIL_REQUEST_SET_NETWORK_SELECTION_AUTOMATIC DVoid 0 s
     }
     else if option = 6 then do {
       arg1 \<leftarrow> aget args 1;
       issueLocalRequest W RIL_REQUEST_SETUP_DATA_CALL (DStrings (Some [Some (snd arg1)])) (ptr_size a) s
     }
     else if option = 7 then
       issueLocalRequest W RIL_REQUEST_DEACTIVATE_DATA_CALL
         (DStrings (Some [Some (map of_char ''1'')])) (ptr_size a) s
     else if option = 8 then do {
       arg1 \<leftarrow> aget args 1;
       issueLocalRequest W RIL_REQUEST_DIAL
         (DDial \<lparr>dial_address = Some (snd arg1), dial_clir = 0, dial_uusInfo = dw_uusInfo D\<rparr>)
         (size_of (RIL_Dial_layout a)) s
     }
     else if option = 9 then issueLocalRequest W RIL_REQUEST_ANSWER DVoid 0 s
     else if option = 10 then issueLocalRequest W RIL_REQUEST_HANGUP (DInts [1]) 4 s
     else Some s
   }"

text \<open>A connection of which a \<open>recv\<close> fails is left as it is: it is not closed.\<close>

definition debugCallback ::
    "debug_world \<Rightarrow> ('p, 'z) world \<Rightarrow> debug_conn \<Rightarrow> 'z ril_state_scheme \<Rightarrow> (debug_conn \<times> 'z ril_state_scheme) option" where
  "debugCallback D W c s =
     (if dw_accept D < 0 then Some (c, s)
      else do {
        (number, c) \<leftarrow> debug_recv_int D c;
        case number of
          None \<Rightarrow> Some (c, s)
        | Some number \<Rightarrow> do {
            let a = env_abi (w_env W);
            let size = to_size a (int (ptr_size a) * sint number);
            let (block, c) = debug_malloc D size c;
            let capacity = (if block = NULL then 0 else size div ptr_size a);
            (ok, args, c) \<leftarrow> debug_args a D capacity (nat (sint number)) [] c;
            if \<not> ok then do {
              c \<leftarrow> freeDebugCallbackArgs (length args) block args c;
              Some (c, s)
            }
            else do {
              s \<leftarrow> debug_switch D W args s;
              c \<leftarrow> freeDebugCallbackArgs (nat (sint number)) block args c;
              Some (c, emit (Closed (dw_accept D)) s)
            }
          }
      })"

end
