(* ===== verification/Ril_Debug_Correct.thy ===== *)
theory Ril_Debug_Correct
  imports Ril_Debug Ril_Core_Correct
begin

text \<open>
  The properties of the debug port: what \<open>radiooptions\<close> sends is what \<open>debugCallback\<close> does, a connection
  that breaks off is left open, and no input of the port breaks the list of pending requests.
\<close>

section \<open>The bytes on the socket\<close>

definition debug_frames :: "u8 list list \<Rightarrow> u8 list" where
  "debug_frames xs = concat (map (\<lambda>x. le32 (of_nat (length x)) @ x) xs)"

lemma debug_frames_simps [simp]:
  "debug_frames [] = []" "debug_frames (x # xs) = le32 (of_nat (length x)) @ x @ debug_frames xs"
  by (simp_all add: debug_frames_def)

lemma socket_send_all:
  "socket_send OW bytes st = (int (length bytes), st') \<Longrightarrow> st' = (Suc (fst st), snd st @ bytes)"
  by (cases st) (auto simp: socket_send_def Let_def min_def split: if_splits)

lemma send_arg_fails: "foldM (send_arg OW argv) is (False, st) = Some (ok, st') \<Longrightarrow> \<not> ok"
  by (induction "is") (auto simp: send_arg_def)

lemma send_arg_ok:
  assumes "send_arg OW argv i (True, st) = Some (True, st')"
  shows "1 + i < length argv \<and> length (argv ! (1 + i)) < 2 ^ 31 \<and>
    snd st' = snd st @ debug_frames [argv ! (1 + i)]"
proof -
  obtain arg where arg: "aget argv (1 + i) = Some arg" "length arg < 2 ^ 31"
    using assms by (auto simp: send_arg_def split: Option.bind_splits if_splits)
  obtain ret u where u: "socket_send OW (le32 (of_nat (length arg))) st = (ret, u)" by (metis surj_pair)
  obtain ret' v where v: "socket_send OW arg u = (ret', v)" by (metis surj_pair)
  have "ret = 4" "ret' = int (length arg)" "st' = v"
    using assms arg u v by (auto simp: send_arg_def split: if_splits)
  then have "snd u = snd st @ le32 (of_nat (length arg))" "snd st' = snd u @ arg"
    using socket_send_all [of OW "le32 (of_nat (length arg))" st u] socket_send_all [of OW arg u v] u v by auto
  then show ?thesis using arg by (auto simp: aget_def split: if_splits)
qed

lemma send_args_ok:
  "foldM (send_arg OW argv) [i..<i + n] (True, st) = Some (True, st') \<Longrightarrow>
    (n = 0 \<or> i + n < length argv) \<and> (\<forall>x \<in> set (take n (drop (Suc i) argv)). length x < 2 ^ 31) \<and>
    snd st' = snd st @ debug_frames (take n (drop (Suc i) argv))"
proof (induction n arbitrary: i st)
  case (Suc n)
  have loop: "[i..<i + Suc n] = i # [Suc i..<Suc i + n]" by (simp add: upt_conv_Cons del: upt_Suc)
  obtain ok u where u: "send_arg OW argv i (True, st) = Some (ok, u)"
      "foldM (send_arg OW argv) [Suc i..<Suc i + n] (ok, u) = Some (True, st')"
    using Suc.prems unfolding loop by (auto split: Option.bind_splits)
  then have ok: "ok" using send_arg_fails [of OW argv "[Suc i..<Suc i + n]" u True st'] u(2) by metis
  have first: "Suc i < length argv" "length (argv ! Suc i) < 2 ^ 31" "snd u = snd st @ debug_frames [argv ! Suc i]"
    using send_arg_ok [of OW argv i st u] u(1) ok by auto
  have "(n = 0 \<or> Suc i + n < length argv) \<and> (\<forall>x \<in> set (take n (drop (Suc (Suc i)) argv)). length x < 2 ^ 31) \<and>
      snd st' = snd u @ debug_frames (take n (drop (Suc (Suc i)) argv))"
    using Suc.IH [of "Suc i" u] u(2) ok by (simp del: upt_Suc)
  moreover have "take (Suc n) (drop (Suc i) argv) = argv ! Suc i # take n (drop (Suc (Suc i)) argv)"
    using first(1) by (simp add: Cons_nth_drop_Suc [symmetric])
  ultimately show ?case using first by auto
qed simp

text \<open>What the client has sent when it reports success.\<close>

definition sent_args :: "abi \<Rightarrow> u8 list list \<Rightarrow> u8 list list" where
  "sent_args a argv = (if sint (c_atoi a (argv ! 1)) \<in> {DIAL_CALL, SETUP_PDP} then [argv ! 1, argv ! 2] else [argv ! 1])"

lemma radiooptions_sends:
  assumes "radiooptions a OW argv = Some (0, out)"
  shows "out = le32 (of_nat (length (sent_args a argv))) @ debug_frames (sent_args a argv) \<and>
    (\<forall>x \<in> set (sent_args a argv). x \<in> set argv \<and> length x < 2 ^ 31)"
proof -
  let ?n = "length (sent_args a argv)"
  have "error_check a argv = Some 0" and two: "2 \<le> length argv"
    using assms by (auto simp: radiooptions_def error_check_def split: Option.bind_splits if_splits)
  moreover have n: "get_number_args a argv = Some ?n"
    using two by (simp add: get_number_args_def sent_args_def)
  ultimately obtain ret u st where u: "socket_send OW (le32 (of_nat ?n)) (0, []) = (ret, u)" "ret = 4"
      "foldM (send_arg OW argv) [0..<?n] (True, u) = Some (True, st)" "out = snd st"
    using assms by (auto simp: radiooptions_def split: Option.bind_splits if_splits prod.splits)
  have "u = (1, le32 (of_nat ?n))" using socket_send_all [of OW "le32 (of_nat ?n)" "(0, [])" u] u(1,2) by simp
  moreover have "(?n = 0 \<or> ?n < length argv) \<and> (\<forall>x \<in> set (take ?n (drop 1 argv)). length x < 2 ^ 31) \<and>
      snd st = snd u @ debug_frames (take ?n (drop 1 argv))"
    using send_args_ok [of OW argv 0 ?n u st] u(3) by simp
  moreover have "?n \<noteq> 0" by (simp add: sent_args_def)
  moreover have "take ?n (drop 1 argv) = sent_args a argv" if "?n < length argv"
    using that by (cases argv; cases "tl argv"; cases "tl (tl argv)") (auto simp: sent_args_def split: if_splits)
  moreover have "x \<in> set argv" if "x \<in> set (take ?n (drop 1 argv))" for x
    using that by (meson in_set_dropD in_set_takeD)
  ultimately show ?thesis using u(4) by auto
qed

section \<open>The connection\<close>

definition arrives :: "debug_world \<Rightarrow> bool" where
  "arrives D \<longleftrightarrow> (\<forall>k n. int n \<le> dw_recv D k n)"

definition has_blocks :: "debug_world \<Rightarrow> bool" where
  "has_blocks D \<longleftrightarrow> (\<forall>k n. dw_malloc D k n)"

definition pointer_size :: "abi \<Rightarrow> bool" where
  "pointer_size a \<longleftrightarrow> ptr_size a = 4 \<or> ptr_size a = 8"

lemma to_size_int: "pointer_size a \<Longrightarrow> 0 \<le> x \<Longrightarrow> x < 2 ^ 32 \<Longrightarrow> to_size a x = nat x"
  by (rule to_size_small) (auto simp: pointer_size_def)

lemma debug_recv_all:
  assumes "arrives D" and "dc_stream c = x @ rest" and "length x = n" "n \<le> m"
  shows "debug_recv D False m n c = Some (int n, x, c\<lparr>dc_calls := Suc (dc_calls c), dc_stream := rest\<rparr>)"
proof -
  have "int n \<le> dw_recv D (dc_calls c) n" using assms(1) by (simp add: arrives_def)
  then have "\<not> dw_recv D (dc_calls c) n < 0" "n \<le> nat (dw_recv D (dc_calls c) n)" by linarith+
  then show ?thesis using assms(2,3,4) by (simp add: debug_recv_def Let_def min_absorb2)
qed

lemma debug_recv_int_all:
  assumes "arrives D" and "dc_stream c = le32 v @ rest"
  shows "debug_recv_int D c = Some (Some v, c\<lparr>dc_calls := Suc (dc_calls c), dc_stream := rest\<rparr>)"
  using debug_recv_all [OF assms, of 4 4] by (simp add: debug_recv_int_def)

text \<open>Blocks are numbered by the calls, so that a new block is none of the old ones.\<close>

definition blocks_ok :: "debug_conn \<Rightarrow> bool" where
  "blocks_ok c \<longleftrightarrow> (\<forall>b \<in> dc_live c. 0 < b \<and> b \<le> dc_calls c)"

lemma no_zeros [simp]: "0 \<notin> set x \<Longrightarrow> takeWhile (\<lambda>b. b \<noteq> (0 :: u8)) x = x"
  by (subst takeWhile_eq_all_conv) auto

lemma debug_args_all:
  assumes "arrives D" "has_blocks D" "pointer_size a"
    and "dc_stream c = debug_frames xs @ rest" and "\<forall>x \<in> set xs. length x < 2 ^ 31 \<and> 0 \<notin> set x"
    and "length args + length xs \<le> capacity" and "blocks_ok c"
  shows "\<exists>bs c'. debug_args a D capacity (length xs) args c = Some (True, args @ zip bs xs, c') \<and>
    length bs = length xs \<and> distinct bs \<and> set bs \<inter> dc_live c = {} \<and> (\<forall>b \<in> set bs. dc_calls c < b) \<and>
    dc_stream c' = rest \<and> dc_live c' = dc_live c \<union> set bs \<and> blocks_ok c'"
  using assms(4-)
proof (induction xs arbitrary: args c)
  case Nil
  then show ?case by (intro exI [of _ "[]"] exI [of _ c]) simp
next
  case (Cons x xs)
  let ?n = "length x" and ?b = "Suc (Suc (dc_calls c))"
  let ?c = "c\<lparr>dc_calls := 3 + dc_calls c, dc_stream := debug_frames xs @ rest, dc_live := insert ?b (dc_live c)\<rparr>"
  have n: "sint (of_nat ?n :: i32) = int ?n" "to_size a (int ?n) = ?n" "to_size a (int ?n + 1) = Suc ?n"
    using Cons.prems(2) assms(3) by (auto simp: sint_small to_size_int nat_add_distrib)
  have int: "debug_recv_int D c = Some (Some (of_nat ?n), c\<lparr>dc_calls := Suc (dc_calls c),
      dc_stream := x @ debug_frames xs @ rest\<rparr>)"
    by (rule debug_recv_int_all [OF assms(1)]) (use Cons.prems(1) in simp)
  have malloc: "debug_malloc D (Suc ?n) (c\<lparr>dc_calls := Suc (dc_calls c), dc_stream := x @ debug_frames xs @ rest\<rparr>) =
      (?b, c\<lparr>dc_calls := Suc (Suc (dc_calls c)), dc_stream := x @ debug_frames xs @ rest,
        dc_live := insert ?b (dc_live c)\<rparr>)"
    using assms(2) by (simp add: debug_malloc_def has_blocks_def Let_def)
  have recv: "debug_recv D False (Suc ?n) ?n (c\<lparr>dc_calls := Suc (Suc (dc_calls c)),
      dc_stream := x @ debug_frames xs @ rest, dc_live := insert ?b (dc_live c)\<rparr>) = Some (int ?n, x, ?c)"
    using debug_recv_all [OF assms(1), of _ x] by (simp add: numeral_3_eq_3)
  have step: "debug_args a D capacity (Suc (length xs)) args c =
      debug_args a D capacity (length xs) (args @ [(?b, x)]) ?c"
    using int malloc recv n Cons.prems(2,3) by simp
  have "blocks_ok ?c" using Cons.prems(4) by (force simp: blocks_ok_def)
  then obtain bs c' where IH: "debug_args a D capacity (length xs) (args @ [(?b, x)]) ?c =
        Some (True, (args @ [(?b, x)]) @ zip bs xs, c')" "length bs = length xs" "distinct bs"
      "set bs \<inter> dc_live ?c = {}" "\<forall>b \<in> set bs. dc_calls ?c < b" "dc_stream c' = rest"
      "dc_live c' = dc_live ?c \<union> set bs" "blocks_ok c'"
    using Cons.IH [of ?c "args @ [(?b, x)]"] Cons.prems(2,3) by auto
  have "?b \<notin> dc_live c" using Cons.prems(4) by (force simp: blocks_ok_def)
  then show ?case
    using step IH by (intro exI [of _ "?b # bs"] exI [of _ c']) (auto dest: bspec)
qed

lemma free_blocks:
  assumes "distinct bs" "set bs \<subseteq> dc_live c" "NULL \<notin> set bs"
  shows "foldM (\<lambda>b c. if b \<noteq> NULL then debug_free b c else Some c) bs c = Some (c\<lparr>dc_live := dc_live c - set bs\<rparr>)"
  using assms
proof (induction bs arbitrary: c)
  case (Cons b bs)
  have "foldM (\<lambda>b c. if b \<noteq> NULL then debug_free b c else Some c) bs (c\<lparr>dc_live := dc_live c - {b}\<rparr>) =
      Some (c\<lparr>dc_live := dc_live c - {b} - set bs\<rparr>)"
    using Cons.IH [of "c\<lparr>dc_live := dc_live c - {b}\<rparr>"] Cons.prems by (simp add: subset_Diff_insert)
  moreover have "dc_live c - {b} - set bs = dc_live c - set (b # bs)" by auto
  ultimately show ?case using Cons.prems by (simp add: debug_free_def)
qed simp

lemma freeDebugCallbackArgs_frees:
  assumes "distinct (block # bs)" "set (block # bs) \<subseteq> dc_live c" "NULL \<notin> set (block # bs)" "length bs = length xs"
  shows "freeDebugCallbackArgs (length xs) block (zip bs xs) c =
    Some (c\<lparr>dc_live := dc_live c - set (block # bs)\<rparr>)"
proof -
  have "foldM (\<lambda>i c. do { arg \<leftarrow> aget (zip bs xs) i; if fst arg \<noteq> NULL then debug_free (fst arg) c else Some c })
      [0..<length xs] c = foldM (\<lambda>b c. if b \<noteq> NULL then debug_free b c else Some c) bs c"
    using foldM_aget [of "length xs" "zip bs xs" "\<lambda>arg c. if fst arg \<noteq> NULL then debug_free (fst arg) c else Some c" c]
      foldM_map [of "\<lambda>b c. if b \<noteq> NULL then debug_free b c else Some c" fst "zip bs xs" c] assms(4) by simp
  also have "\<dots> = Some (c\<lparr>dc_live := dc_live c - set bs\<rparr>)" using free_blocks assms by simp
  moreover have "dc_live c - set bs - {block} = dc_live c - set (block # bs)" by auto
  ultimately show ?thesis using assms(1,2,3) by (simp add: freeDebugCallbackArgs_def debug_free_def)
qed

section \<open>The commands\<close>

text \<open>What an option asks for, as the usage text of \<open>radiooptions\<close> lists it.\<close>

datatype debug_call = Issue i32 req_data nat | CloseCommands | TellNetworkChanged

definition debug_calls :: "abi \<Rightarrow> debug_world \<Rightarrow> int \<Rightarrow> u8 list \<Rightarrow> debug_call list" where
  "debug_calls a D option arg = (case map_of [
     (0, [Issue RIL_REQUEST_RESET_RADIO DVoid 0]),
     (1, [Issue RIL_REQUEST_RADIO_POWER (DInts [0]) 4, CloseCommands]),
     (2, [TellNetworkChanged]),
     (3, [Issue RIL_REQUEST_OEM_HOOK_RAW
            (DRaw (Some (concat (map le32 [65536, 16, 1, 32, 8, dw_qxdm D])))) 24]),
     (4, [Issue RIL_REQUEST_OEM_HOOK_RAW (DRaw (Some (concat (map le32 [65536, 16, 0, 32, 0, 8])))) 24]),
     (5, [Issue RIL_REQUEST_RADIO_POWER (DInts [1]) 4,
          Issue RIL_REQUEST_SET_NETWORK_SELECTION_AUTOMATIC DVoid 0]),
     (6, [Issue RIL_REQUEST_SETUP_DATA_CALL (DStrings (Some [Some arg])) (ptr_size a)]),
     (7, [Issue RIL_REQUEST_DEACTIVATE_DATA_CALL (DStrings (Some [Some [49]])) (ptr_size a)]),
     (8, [Issue RIL_REQUEST_DIAL
            (DDial \<lparr>dial_address = Some arg, dial_clir = 0, dial_uusInfo = dw_uusInfo D\<rparr>) (3 * ptr_size a)]),
     (9, [Issue RIL_REQUEST_ANSWER DVoid 0]),
     (10, [Issue RIL_REQUEST_HANGUP (DInts [1]) 4])] option of Some calls \<Rightarrow> calls | None \<Rightarrow> [])"

fun do_debug_call ::
    "('p, 'z) world \<Rightarrow> debug_call \<Rightarrow> 'z ril_state_scheme \<Rightarrow> 'z ril_state_scheme option" where
  "do_debug_call W (Issue request data n) s = issueLocalRequest W request data n s"
| "do_debug_call W CloseCommands s = Some ((emit (Closed (s_fdCommand s)) s)\<lparr>s_fdCommand := - 1\<rparr>)"
| "do_debug_call W TellNetworkChanged s =
     RIL_onUnsolicitedResponse W RIL_UNSOL_RESPONSE_NETWORK_STATE_CHANGED None 0 s"

lemma RIL_Dial_size: "pointer_size a \<Longrightarrow> size_of (RIL_Dial_layout a) = 3 * ptr_size a"
  by (auto simp: pointer_size_def size_simps)

lemma foldM_done: "foldM f [] = Some"
  by (rule ext) simp

lemma foldM_last: "foldM f [x] = f x"
  by (rule ext) (simp add: foldM_done)

lemma CloseCommands_call:
  "do_debug_call W CloseCommands = (\<lambda>s. Some ((emit (Closed (s_fdCommand s)) s)\<lparr>s_fdCommand := - 1\<rparr>))"
  by (rule ext) simp

lemma IssueCall: "do_debug_call W (Issue request data n) = issueLocalRequest W request data n"
  by (rule ext) simp

lemma known_option: "option \<notin> {0..10} \<or> option \<in> {0, 1, 2, 3, 4, 5, 6, 7, 8, 9, 10 :: int}"
  by auto presburger

lemma debug_switch_calls:
  assumes "args \<noteq> []" and "env_abi (w_env W) = a" and "pointer_size a"
    and "option = sint (c_atoi a (snd (args ! 0)))"
    and "option \<in> {DIAL_CALL, SETUP_PDP} \<longrightarrow> length args = 2 \<and> snd (args ! 1) = arg"
  shows "debug_switch D W args s = foldM (do_debug_call W) (debug_calls a D option arg) s"
proof -
  have arg0: "aget args 0 = Some (args ! 0)" using assms(1) by simp
  have arg1: "aget args 1 = Some (args ! 1)" "snd (args ! 1) = arg" if "option = 8 \<or> option = 6"
    using that assms(5) by (auto simp: DIAL_CALL_def SETUP_PDP_def)
  show ?thesis
  proof (cases "option \<in> {0..10}")
    case True
    then show ?thesis
      using arg1 known_option [of option]
      by (auto simp: debug_switch_def debug_calls_def arg0 assms(2) assms(4) [symmetric] RIL_Dial_size [OF assms(3)]
          foldM_done foldM_last CloseCommands_call IssueCall)
  next
    case False
    then have "\<forall>i \<in> {0, 1, 2, 3, 4, 5, 6, 7, 8, 9, 10}. option \<noteq> i" by auto
    then show ?thesis by (simp add: debug_switch_def debug_calls_def arg0 assms(2) assms(4) [symmetric])
  qed
qed

text \<open>The connection when the peer has sent these bytes.\<close>

definition incoming :: "u8 list \<Rightarrow> debug_conn" where
  "incoming bytes = \<lparr>dc_calls = 0, dc_stream = bytes, dc_live = {}\<rparr>"

text \<open>The count and the block of the arguments.\<close>

lemma debugCallback_starts:
  assumes "0 \<le> dw_accept D" "arrives D" "has_blocks D" "pointer_size (env_abi (w_env W))" and "n < 2 ^ 28"
  shows "debugCallback D W (incoming (le32 (of_nat n) @ rest)) s = do {
      (ok, args, c) \<leftarrow> debug_args (env_abi (w_env W)) D n n [] \<lparr>dc_calls = 2, dc_stream = rest, dc_live = {2}\<rparr>;
      if \<not> ok then do {
        c \<leftarrow> freeDebugCallbackArgs (length args) 2 args c;
        Some (c, s)
      }
      else do {
        s \<leftarrow> debug_switch D W args s;
        c \<leftarrow> freeDebugCallbackArgs n 2 args c;
        Some (c, emit (Closed (dw_accept D)) s)
      }
    }"
proof -
  let ?a = "env_abi (w_env W)"
  have "to_size ?a (int (ptr_size ?a) * int n) = ptr_size ?a * n"
    using assms(4,5) to_size_int [OF assms(4), of "int (ptr_size ?a) * int n"] unfolding pointer_size_def
    by (auto simp: nat_mult_distrib)
  moreover have "ptr_size ?a \<noteq> 0" using assms(4) by (auto simp: pointer_size_def)
  moreover have "debug_recv_int D (incoming (le32 (of_nat n) @ rest)) =
      Some (Some (of_nat n), \<lparr>dc_calls = 1, dc_stream = rest, dc_live = {}\<rparr>)"
    using debug_recv_int_all [OF assms(2), of "incoming (le32 (of_nat n) @ rest)"] by (simp add: incoming_def)
  moreover have "sint (of_nat n :: i32) = int n" using assms(5) by (intro sint_small) simp
  ultimately show ?thesis
    using assms(1,3) by (simp add: debugCallback_def debug_malloc_def has_blocks_def Let_def numeral_2_eq_2 cong: if_cong)
qed

lemma debug_command_runs:
  assumes "radiooptions a OW argv = Some (0, out)" and "\<forall>x \<in> set argv. 0 \<notin> set x"
    and "0 \<le> dw_accept D" "arrives D" "has_blocks D" "env_abi (w_env W) = a" "pointer_size a"
    and "foldM (do_debug_call W) (debug_calls a D (sint (c_atoi a (argv ! 1))) (argv ! 2)) s = Some u"
  shows "\<exists>c. debugCallback D W (incoming out) s = Some (c, emit (Closed (dw_accept D)) u) \<and>
    dc_stream c = [] \<and> dc_live c = {}"
proof -
  let ?xs = "sent_args a argv"
  let ?c = "\<lparr>dc_calls = 2, dc_stream = debug_frames ?xs, dc_live = {2}\<rparr>"
  note sent = radiooptions_sends [OF assms(1)]
  have n: "length ?xs < 2 ^ 28" by (simp add: sent_args_def)
  have ok: "\<forall>x \<in> set ?xs. length x < 2 ^ 31 \<and> 0 \<notin> set x" using sent assms(2) by blast
  have c: "blocks_ok ?c" by (simp add: blocks_ok_def)
  obtain bs c' where bs: "debug_args a D (length ?xs) (length ?xs) [] ?c = Some (True, zip bs ?xs, c')"
      "length bs = length ?xs" "distinct bs" "set bs \<inter> {2} = {}" "\<forall>b \<in> set bs. 2 < b"
      "dc_stream c' = []" "dc_live c' = {2} \<union> set bs"
    using debug_args_all [OF assms(4,5,7) _ ok _ c, of "[]" "[]" "length ?xs"] by auto
  have "zip bs ?xs \<noteq> []" "snd (zip bs ?xs ! 0) = argv ! 1" using bs(2) by (auto simp: sent_args_def nth_zip)
  moreover have "sint (c_atoi a (argv ! 1)) \<in> {DIAL_CALL, SETUP_PDP} \<longrightarrow>
      length (zip bs ?xs) = 2 \<and> snd (zip bs ?xs ! 1) = argv ! 2"
    using bs(2) by (auto simp: sent_args_def nth_zip)
  ultimately have switch: "debug_switch D W (zip bs ?xs) s = Some u"
    using debug_switch_calls [OF _ assms(6,7), of "zip bs ?xs" "sint (c_atoi a (argv ! 1))" "argv ! 2" D s] assms(8)
    by metis
  have free: "freeDebugCallbackArgs (length ?xs) 2 (zip bs ?xs) c' = Some (c'\<lparr>dc_live := {}\<rparr>)"
    using freeDebugCallbackArgs_frees [of 2 bs c' ?xs] bs by auto
  show ?thesis
    using debugCallback_starts [OF assms(3,4,5) _ n, of W "debug_frames ?xs" s] sent switch free bs(1,6) assms(6,7)
    by simp
qed


text \<open>\<open>radiooptions 8 12\<close> is on the other side, and every call succeeds.\<close>

definition demo_options :: options_world where
  "demo_options = \<lparr>ow_client = 3, ow_send = (\<lambda>k n. int n)\<rparr>"

definition demo_debug :: debug_world where
  "demo_debug = \<lparr>dw_accept = 12, dw_recv = (\<lambda>k n. int n), dw_malloc = (\<lambda>k n. True), dw_qxdm = 0, dw_uusInfo = None\<rparr>"

definition demo_dial :: "u8 list list" where
  "demo_dial = [[114], [56], [49, 50]]"

lemma demo_dial_option: "c_atoi abi64 [56] = 8"
proof -
  have "strto_digits 10 [56] = (False, [56])"
    by (simp add: strto_digits_def isspace_def digit_value_def isdigit_def)
  moreover have "digits_value 10 [56] = 8" by (simp add: digits_value_def digit_value_def isdigit_def)
  moreover have "strto_value (8 * ptr_size abi64) False False 8 = 8" by (simp add: strto_value_def abi64_def)
  ultimately show ?thesis by (simp add: c_atoi_def)
qed

lemma demo_dial_sent:
  "radiooptions abi64 demo_options demo_dial = Some (0, le32 2 @ le32 1 @ [56] @ le32 2 @ [49, 50])"
proof -
  have "[0..<2] = [0, 1 :: nat]" by (simp add: upt_conv_Cons)
  then show ?thesis
    by (simp add: radiooptions_def demo_dial_def error_check_def get_number_args_def demo_dial_option DIAL_CALL_def
      SETUP_PDP_def demo_options_def socket_send_def send_arg_def)
qed

lemma demo_debug_ok: "0 \<le> dw_accept demo_debug" "arrives demo_debug" "has_blocks demo_debug"
  by (simp_all add: demo_debug_def arrives_def has_blocks_def)

lemma demo_abi: "env_abi (w_env demo_world) = abi64" "pointer_size abi64"
  by (simp_all add: demo_env_def pointer_size_def abi64_def)

lemma demo_dial_issued:
  "\<exists>u. foldM (do_debug_call demo_world) (debug_calls abi64 demo_debug 8 [49, 50]) demo_state = Some u \<and>
    Requested RIL_REQUEST_DIAL (DDial \<lparr>dial_address = Some [49, 50], dial_clir = 0, dial_uusInfo = None\<rparr>) 24 100
      \<in> set (trace u)"
  by (simp add: debug_calls_def issueLocalRequest_def ril_malloc_def sys_def onRequest_def emit_def live_def
      demo_heap_none push_request_def abi64_def demo_debug_def s_commands_def)


section \<open>Connections that break off\<close>

text \<open>A connection that breaks off inside an argument leaves the daemon as it was: the connection is
  not closed, and the block for the argument is not freed.\<close>

theorem debug_connection_is_leaked:
  assumes "0 \<le> dw_accept D" "arrives D" "has_blocks D" "pointer_size (env_abi (w_env W))"
    and "n < 2 ^ 31" "length bytes < n"
  shows "\<exists>c. debugCallback D W (incoming (le32 1 @ le32 (of_nat n) @ bytes)) s = Some (c, s) \<and> dc_live c \<noteq> {}"
proof -
  let ?a = "env_abi (w_env W)"
  let ?c = "\<lparr>dc_calls = 2, dc_stream = le32 (of_nat n) @ bytes, dc_live = {2}\<rparr>"
  have n: "sint (of_nat n :: i32) = int n" "to_size ?a (int n) = n" "to_size ?a (int n + 1) = Suc n"
    using assms(4,5) by (auto simp: sint_small to_size_int nat_add_distrib)
  have "int n \<le> dw_recv D 4 n" using assms(2) by (simp add: arrives_def)
  then have "\<not> dw_recv D 4 n < 0" "n \<le> nat (dw_recv D 4 n)" by linarith+
  then have "debug_args ?a D 1 1 [] ?c = Some (False, [], \<lparr>dc_calls = 5, dc_stream = [], dc_live = {4, 2}\<rparr>)"
    using debug_recv_int_all [OF assms(2), of ?c "of_nat n" bytes] assms(3,6) n
    by (simp add: debug_malloc_def has_blocks_def debug_recv_def Let_def)
  then show ?thesis
    using debugCallback_starts [OF assms(1-4), of 1 "le32 (of_nat n) @ bytes" s]
    by (simp add: freeDebugCallbackArgs_def debug_free_def)
qed

theorem debug_connection_is_leaked_witness:
  "\<exists>c. debugCallback demo_debug demo_world (incoming (le32 1 @ le32 5 @ [48])) demo_state = Some (c, demo_state) \<and>
    dc_live c \<noteq> {}"
  using debug_connection_is_leaked [OF demo_debug_ok, of demo_world 5 "[48]" demo_state] demo_abi by simp

section \<open>The requests of the daemon\<close>

context vendor_library
begin

lemma reaches_emit: "reaches W s u \<Longrightarrow> reaches W s (emit e u)"
  by (rule reaches_trans, assumption, rule reaches_quiet) simp

lemma reaches_close: "reaches W s u \<Longrightarrow> reaches W s (emit e u\<lparr>s_fdCommand := - 1\<rparr>)"
  by (rule reaches_trans, assumption, rule reaches_quiet) simp

lemma debug_switch_reaches: "debug_switch D W args s = Some s' \<Longrightarrow> reaches W s s'"
  by (auto simp: debug_switch_def Let_def split: if_splits Option.bind_splits
      dest!: issueLocalRequest_reaches RIL_onUnsolicitedResponse_quiet intro: reaches_trans reaches_close)

lemma debugCallback_reaches: "debugCallback D W c s = Some (c', s') \<Longrightarrow> reaches W s s'"
  by (auto simp: debugCallback_def Let_def split: if_splits Option.bind_splits option.splits prod.splits
      dest!: debug_switch_reaches intro: reaches_emit)

end

text \<open>Whatever bytes come in at the debug port: what it does is a run of the daemon, and the list of
  pending requests is what the operations of that run make of it.\<close>

theorem debug_port_refines_store:
  assumes "debugCallback D (vendor_world W V) c s = Some (c', s')" and "pending s R"
  shows "\<exists>ops. daemon_run (vendor_world W V) s ops s' \<and> ops_ok new_request cancelled ops R \<and>
    pending s' (abs_run new_request cancelled ops R)"
  using vendor.debugCallback_reaches [OF assms(1)] daemon_run_refines_store [OF _ assms(2)]
  unfolding reaches_def by blast

text \<open>A vendor library that does not answer.\<close>

definition silent_vendor :: "unit vendor" where
  "silent_vendor = \<lparr>v_onRequest = (\<lambda>request d n a s. []), v_timed = (\<lambda>k param s. [])\<rparr>"

lemma silent_world:
  "w_env (vendor_world demo_world silent_vendor) = demo_env"
  "w_malloc (vendor_world demo_world silent_vendor) n L = (if L (100 + n) then NULL else 100 + n)"
  "w_onRequest (vendor_world demo_world silent_vendor) request d len a s = Some s"
  by (simp_all add: vendor_world_def silent_vendor_def Let_def)

lemma silent_dial_issued:
  "\<exists>u. foldM (do_debug_call (vendor_world demo_world silent_vendor)) (debug_calls abi64 demo_debug 8 [49, 50]) demo_state =
    Some u"
  by (simp add: debug_calls_def issueLocalRequest_def ril_malloc_def sys_def onRequest_def emit_def live_def
      demo_heap_none push_request_def s_commands_def silent_world)

theorem debug_port_refines_store_witness:
  "\<exists>c s' R. debugCallback demo_debug (vendor_world demo_world silent_vendor)
      (incoming (le32 2 @ le32 1 @ [56] @ le32 2 @ [49, 50])) demo_state = Some (c, s') \<and> pending s' R"
proof -
  let ?W = "vendor_world demo_world silent_vendor"
  have abi: "env_abi (w_env ?W) = abi64" using demo_abi(1) by (simp add: silent_world)
  obtain u where u: "foldM (do_debug_call ?W) (debug_calls abi64 demo_debug 8 [49, 50]) demo_state = Some u"
    using silent_dial_issued by blast
  have "\<forall>x \<in> set demo_dial. 0 \<notin> set x" "demo_dial ! 1 = [56]" "demo_dial ! 2 = [49, 50]"
    by (simp_all add: demo_dial_def)
  then show ?thesis
    using debug_command_runs [OF demo_dial_sent _ demo_debug_ok abi demo_abi(2), of demo_state u] u demo_dial_option
      debug_port_refines_store [OF _ demo_pending, of demo_debug demo_world silent_vendor] by fastforce
qed

section \<open>Counts\<close>

text \<open>The number of arguments is not checked before the first one is read.\<close>

lemma debug_count_is_unchecked:
  assumes "0 \<le> dw_accept D" "arrives D" and "sint number \<le> 0"
  shows "debugCallback D W (incoming (le32 number @ rest)) s = None"
  using debug_recv_int_all [OF assms(2), of "incoming (le32 number @ rest)"] assms(1,3)
  by (simp add: debugCallback_def incoming_def debug_switch_def split: prod.splits)

end
