(* ===== verification/Rild.thy ===== *)
theory Rild
  imports Ril_Prelude
begin

text \<open>
  The main program \<open>rild/rild.c\<close>: it finds the vendor library and its arguments, from the command line,
  from two system properties, or, in the emulator, from the command line of the kernel, starts the
  event loop, and calls \<open>RIL_Init\<close> of the library and \<open>RIL_register\<close>. The change of the user and the
  output are left out.
\<close>

definition MAX_LIB_ARGS :: nat where "MAX_LIB_ARGS = 16"

text \<open>
  The strings of the source. Characters are bytes.
\<close>

abbreviation c_string :: "string \<Rightarrow> u8 list" where "c_string s \<equiv> map of_char s"

definition REFERENCE_RIL_PATH :: "u8 list" where
  "REFERENCE_RIL_PATH = c_string ''/system/lib/libreference-ril.so''"

definition KERNEL_OPTION :: "u8 list" where "KERNEL_OPTION = c_string ''android.ril=''"
definition QEMUD_OPTION :: "u8 list" where "QEMUD_OPTION = c_string ''android.qemud=''"

text \<open>
  What the system answers: the values of the properties (empty when not set), the results of opening
  and reading \<open>/proc/cmdline\<close>, what the buffer holds before, the attempts to connect to the socket of
  \<open>qemud\<close>, whose directory \<open>ANDROID_SOCKET_DIR\<close> is, and whether a library can be loaded and has
  \<open>RIL_Init\<close>.
\<close>

datatype cmdline_read = CmdlineBytes "u8 list" | CmdlineInterrupted | CmdlineError

record rild_world =
  rl_libpath :: "u8 list"
  rl_libargs :: "u8 list"
  rl_open :: bool
  rl_read :: "nat \<Rightarrow> cmdline_read"
  rl_buffer :: "u8 list"
  rl_qemud :: "nat \<Rightarrow> bool"
  rl_socket_dir :: "u8 list"
  rl_dlopen :: "u8 list \<Rightarrow> bool"
  rl_dlsym :: "u8 list \<Rightarrow> bool"

text \<open>
  How it ends: with \<open>exit (-1)\<close>; asleep for ever, with nothing loaded; or asleep after \<open>RIL_Init\<close> of
  a library was called with these arguments and its result was registered.
\<close>

datatype rild_end = ExitError | NoLibrary | NoQemud | Initialised "u8 list" "cstr list"

section \<open>Arguments\<close>

text \<open>
  The calls of \<open>strtok\<close>: blanks are skipped, a token ends at a blank. The array has \<open>MAX_LIB_ARGS\<close>
  elements, and the first is reserved.
\<close>

function make_argv_loop :: "nat \<Rightarrow> u8 list \<Rightarrow> u8 list list \<Rightarrow> u8 list list option" where
  "make_argv_loop count s toks =
     (let s = dropWhile (\<lambda>c. c = 32) s
      in if s = [] then Some toks
         else if count \<ge> MAX_LIB_ARGS then None
         else make_argv_loop (count + 1) (drop 1 (dropWhile (\<lambda>c. c \<noteq> 32) s)) (toks @ [takeWhile (\<lambda>c. c \<noteq> 32) s]))"
  by auto

termination
proof (relation "measure (\<lambda>(count, s, toks). length s)")
  fix count toks and s x :: "u8 list"
  assume x: "x = dropWhile (\<lambda>c. c = 32) s" "x \<noteq> []"
  have "length (drop 1 (dropWhile (\<lambda>c. c \<noteq> 32) x)) < length x"
    using x(2) length_dropWhile_le [of "\<lambda>c. c \<noteq> 32" x] by (cases x) auto
  also have "length x \<le> length s" using x(1) length_dropWhile_le by simp
  finally show "((count + 1, drop 1 (dropWhile (\<lambda>c. c \<noteq> 32) x), toks @ [takeWhile (\<lambda>c. c \<noteq> 32) x]), count, s, toks)
      \<in> measure (\<lambda>(count, s, toks). length s)" by simp
qed simp

text \<open>The arguments without the reserved one.\<close>

definition make_argv :: "u8 list \<Rightarrow> u8 list list option" where
  "make_argv args = make_argv_loop 1 args []"

text \<open>
  The options of \<open>rild\<close>, from \<open>argv[i]\<close>: the library, the index behind the options, and whether there is
  a \<open>--\<close>. An unknown option is \<open>None\<close>.
\<close>

fun rild_options :: "u8 list list \<Rightarrow> nat \<Rightarrow> u8 list option \<Rightarrow> (u8 list option \<times> nat \<times> bool) option" where
  "rild_options [] i lib = Some (lib, i, False)"
| "rild_options [x] i lib = (if x = c_string ''--'' then Some (lib, i + 1, True) else None)"
| "rild_options (x # y # xs) i lib =
     (if x = c_string ''-l'' then rild_options xs (i + 2) (Some y)
      else if x = c_string ''--'' then Some (lib, i + 1, True)
      else None)"

section \<open>The command line of the kernel\<close>

partial_function (option) read_cmdline :: "rild_world \<Rightarrow> nat \<Rightarrow> u8 list option option" where
  "read_cmdline L k = (case rl_read L k of
       CmdlineInterrupted \<Rightarrow> read_cmdline L (Suc k)
     | CmdlineError \<Rightarrow> Some None
     | CmdlineBytes bytes \<Rightarrow> Some (Some bytes))"

text \<open>The rest of a string from the first occurrence of another one.\<close>

fun find_string :: "u8 list \<Rightarrow> u8 list \<Rightarrow> u8 list option" where
  "find_string x [] = (if x = [] then Some [] else None)"
| "find_string x (c # s) = (if take (length x) (c # s) = x then Some (c # s) else find_string x s)"

text \<open>
  \<open>strstr\<close> in an array of characters. Nothing ends the search in an array without a zero: what lies
  behind the array is not known.
\<close>

definition c_strstr :: "u8 list \<Rightarrow> u8 list \<Rightarrow> u8 list option option" where
  "c_strstr array x = (case find_string x (takeWhile (\<lambda>c. c \<noteq> 0) array) of
       Some s \<Rightarrow> Some (Some s)
     | None \<Rightarrow> if 0 \<in> set array then Some None else None)"

text \<open>
  The device that the kernel asks for: the socket of \<open>qemud\<close>, after at most five attempts to connect,
  or a device file. The results are \<open>arg_overrides[1]\<close> and \<open>arg_overrides[2]\<close>; \<open>Inl ()\<close> stands for the
  endless sleep when there is no \<open>qemud\<close>. The search for the end of the option, whose result only
  shortens the buffer, may run out of the array as well.
\<close>

definition kernel_device :: "rild_world \<Rightarrow> u8 list \<Rightarrow> (unit + (u8 list \<times> u8 list) option) option" where
  "kernel_device L buffer = do {
     qemud \<leftarrow> c_strstr buffer QEMUD_OPTION;
     if qemud \<noteq> None then
       Some (if \<exists>k \<in> {0..<5}. rl_qemud L k
         then Inr (Some (c_string ''-s'', take 31 (rl_socket_dir L @ c_string ''/qemud'')))
         else Inl ())
     else do {
       p \<leftarrow> c_strstr buffer KERNEL_OPTION;
       case p of
         None \<Rightarrow> Some (Inr None)
       | Some p \<Rightarrow>
           if 0 \<notin> set buffer \<and> set (drop (length KERNEL_OPTION) p) \<inter> {32, 9, 10, 13} = {} then None
           else Some (Inr (Some (c_string ''-d'', c_string ''/dev/appvcom'')))
     }
   }"

text \<open>The special override in the emulator.\<close>

definition emulator_override :: "rild_world \<Rightarrow> (unit + (u8 list \<times> u8 list) option) option" where
  "emulator_override L =
     (if \<not> rl_open L then Some (Inr None)
      else do {
        r \<leftarrow> read_cmdline L 0;
        case r of
          None \<Rightarrow> Some (Inr None)
        | Some bytes \<Rightarrow> kernel_device L (bytes @ drop (length bytes) (rl_buffer L))
      })"

section \<open>The main program\<close>

definition rild_start ::
    "rild_world \<Rightarrow> cstr list \<Rightarrow> nat \<Rightarrow> bool \<Rightarrow> u8 list \<Rightarrow> rild_end option" where
  "rild_start L argv i hasLibArgs rilLibPath =
     (if \<not> rl_dlopen L rilLibPath then Some ExitError
      else if \<not> rl_dlsym L rilLibPath then Some ExitError
      else do {
        arg0 \<leftarrow> aget argv 0;
        if hasLibArgs then Some (Initialised rilLibPath (arg0 # drop i argv))
        else do {
          toks \<leftarrow> make_argv (rl_libargs L);
          Some (Initialised rilLibPath (arg0 # map Some toks))
        }
      })"

definition rild_main :: "rild_world \<Rightarrow> u8 list list \<Rightarrow> rild_end option" where
  "rild_main L argv = (case rild_options (tl argv) 1 None of
       None \<Rightarrow> Some ExitError
     | Some (lib, i, hasLibArgs) \<Rightarrow>
         if lib = None \<and> rl_libpath L = [] then Some NoLibrary
         else do {
           let rilLibPath = (case lib of Some l \<Rightarrow> l | None \<Rightarrow> rl_libpath L);
           override \<leftarrow> emulator_override L;
           case override of
             Inl _ \<Rightarrow> Some NoQemud
           | Inr (Some (option, device)) \<Rightarrow>
               rild_start L [None, Some option, Some device] 1 True REFERENCE_RIL_PATH
           | Inr None \<Rightarrow> rild_start L (map Some argv) i hasLibArgs rilLibPath
         })"

section \<open>The arguments of the library\<close>

lemma make_argv_loop_words:
  assumes "\<forall>w \<in> set ws. w \<noteq> [] \<and> 32 \<notin> set w"
  shows "make_argv_loop count (concat (map (\<lambda>w. w @ [32]) ws)) toks =
    (if ws \<noteq> [] \<and> MAX_LIB_ARGS < count + length ws then None else Some (toks @ ws))"
  using assms
proof (induction ws arbitrary: count toks)
  case (Cons w ws)
  let ?s = "concat (map (\<lambda>w. w @ [32]) (w # ws))"
  have "w \<noteq> []" "hd w \<noteq> 32" using Cons.prems hd_in_set [of w] by (auto, metis)
  then have s: "dropWhile (\<lambda>c. c = 32) ?s = ?s" "?s \<noteq> []" by (cases w; simp)+
  have "\<forall>c \<in> set w. c \<noteq> 32" using Cons.prems by auto
  then have tok: "takeWhile (\<lambda>c. c \<noteq> 32) ?s = w" "dropWhile (\<lambda>c. c \<noteq> 32) ?s = 32 # concat (map (\<lambda>w. w @ [32]) ws)"
    by (auto simp: takeWhile_append dropWhile_append)
  have "make_argv_loop count ?s toks =
      (if count \<ge> MAX_LIB_ARGS then None else make_argv_loop (count + 1) (concat (map (\<lambda>w. w @ [32]) ws)) (toks @ [w]))"
    by (subst make_argv_loop.simps) (simp only: s tok Let_def if_False drop_Suc_Cons One_nat_def drop_0)
  then show ?case using Cons.IH [of "count + 1" "toks @ [w]"] Cons.prems by auto
qed (simp add: make_argv_loop.simps)


definition demo_rild :: rild_world where
  "demo_rild = \<lparr>rl_libpath = [], rl_libargs = [45, 100, 32, 47, 109, 32], rl_open = False,
     rl_read = (\<lambda>k. CmdlineError), rl_buffer = replicate 1024 0, rl_qemud = (\<lambda>k. False), rl_socket_dir = [47],
     rl_dlopen = (\<lambda>x. True), rl_dlsym = (\<lambda>x. True)\<rparr>"


section \<open>The options of the kernel\<close>

text \<open>The name of a device that the kernel gives is not used: the device is always the same.\<close>

lemma kernel_device_is_fixed:
  assumes "rl_open L" and "rl_read L 0 = CmdlineBytes bytes" and "bytes @ drop (length bytes) (rl_buffer L) = s @ 0 # rest"
    and "0 \<notin> set s" and "find_string QEMUD_OPTION s = None" and "find_string KERNEL_OPTION s = Some p"
    and "rild_options (tl argv) 1 None = Some (lib, i, hasLibArgs)" "lib \<noteq> None \<or> rl_libpath L \<noteq> []"
    and "rl_dlopen L REFERENCE_RIL_PATH" "rl_dlsym L REFERENCE_RIL_PATH"
  shows "rild_main L argv =
    Some (Initialised REFERENCE_RIL_PATH [None, Some (c_string ''-d''), Some (c_string ''/dev/appvcom'')])"
proof -
  have s: "takeWhile (\<lambda>c. c \<noteq> 0) (s @ 0 # rest) = s" using assms(4) by (subst takeWhile_append2) auto
  have "read_cmdline L 0 = Some (Some bytes)" using assms(2) by (subst read_cmdline.simps) simp
  moreover have "kernel_device L (s @ 0 # rest) = Some (Inr (Some (c_string ''-d'', c_string ''/dev/appvcom'')))"
    using assms(5,6) s by (simp add: kernel_device_def c_strstr_def)
  ultimately have "emulator_override L = Some (Inr (Some (c_string ''-d'', c_string ''/dev/appvcom'')))"
    using assms(1,3) by (simp add: emulator_override_def)
  then show ?thesis using assms(7-10) by (auto simp: rild_main_def rild_start_def)
qed

text \<open>A command line that fills the buffer is not ended by a zero, and the search leaves the buffer.\<close>

lemma unterminated_cmdline:
  assumes "rl_open L" and "rl_read L 0 = CmdlineBytes bytes" and "length bytes = length (rl_buffer L)"
    and "0 \<notin> set bytes" and "find_string QEMUD_OPTION bytes = None"
  shows "emulator_override L = None"
proof -
  have s: "takeWhile (\<lambda>c. c \<noteq> 0) bytes = bytes" using assms(4) by (subst takeWhile_eq_all_conv) auto
  have "c_strstr bytes QEMUD_OPTION = None" using assms(4,5) by (simp add: c_strstr_def s)
  then have "kernel_device L bytes = None" by (simp add: kernel_device_def)
  moreover have "read_cmdline L 0 = Some (Some bytes)" using assms(2) by (subst read_cmdline.simps) simp
  ultimately show ?thesis using assms(1,3) by (simp add: emulator_override_def)
qed

end
