(* ===== verification/Spec2Isabelle.thy ===== *)
theory Spec2Isabelle
  imports Ril_Event_Correct Ril_Dispatch_Correct Ril_Response_Correct Ril_Core_Correct At_Correct Ref_Correct
    Mock_Worker_Correct Mock_Ctrl_Correct Mock_Correct Ril_Debug_Correct Rild
begin

text \<open>
  The radio interface layer of a phone: the daemon library \<open>src/libril\<close>, the vendor library
  \<open>src/reference-ril\<close> for a modem that is driven by AT commands, and the simulator \<open>src/mock-ril\<close>, a vendor
  library whose modem is a script.

  The program. The telephony framework connects to a socket and sends requests, each a frame of a
  length and a parcel. \<open>libril\<close> (\<open>ril.cpp\<close>) takes a request apart, remembers it and calls the vendor
  library; the vendor library drives a modem and calls back with the response to a request or with
  an unsolicited response, which \<open>libril\<close> puts into parcels and sends. One thread runs an event loop
  (\<open>ril_event.cpp\<close>) over descriptors and timers. The reference vendor library talks to its modem in
  lines of text: a reader thread splits the input into lines, and a command waits for the lines that
  answer it (\<open>atchannel.c\<close>); a tokenizer reads the fields of a line (\<open>at_tok.c\<close>); the handlers of the
  requests and of the unsolicited lines are in \<open>reference-ril.c\<close>. The simulator turns a request into a message
  (\<open>requests.cpp\<close>) and queues it for a worker thread (\<open>worker.cpp\<close>), which calls the script; the script
  answers with a message that becomes the response (\<open>responses.cpp\<close>). A second thread lets a test
  program talk to the script over a socket (\<open>ctrl_server.cpp\<close>).

  The theories.

  \<^item> \<open>Ril_Prelude\<close>: machine integers, C strings, the sizes of C types, loops with a bound.
  \<^item> \<open>Ril_Types\<close>, \<open>Ril_Layout\<close>, \<open>Ril_Tables\<close>: the structs and enums of \<open>ril.h\<close> and \<open>ril_cdma_sms.h\<close>, the
    sizes the code takes of them, the tables \<open>ril_commands.h\<close> and \<open>ril_unsol_commands.h\<close>, and the names
    of codes.
  \<^item> \<open>Ril_Time\<close>, \<open>Ril_Event\<close>: \<open>ril_event.cpp\<close>, an event loop over a heap of doubly linked events, a watch
    table, and the mutex \<open>listMutex\<close>. Callbacks are functions of the whole program state, which extends
    the state of the loop. \<open>Ril_Event_Lists\<close>, \<open>Ril_Event_Timers\<close> and \<open>Ril_Event_Watch\<close> hold the lemmas on
    the lists, the sorted timers and the table; \<open>Ril_Event_Correct\<close> states what the loop guarantees.
  \<^item> \<open>Ril_Parcel\<close>: parcels are code of Android that is not here. They are a record of functions, and the
    locales \<open>parcel_reads\<close>, \<open>parcel_stream\<close> and \<open>parcel_rewind\<close> state what \<open>ril.cpp\<close> relies on: what was
    written in order is read back in order, and an integer can be overwritten in place. A byte stream
    with these laws interprets them.
  \<^item> \<open>Ril_Dispatch\<close> and \<open>Ril_Dispatch_Correct\<close>: the functions \<open>dispatch...\<close>, from a parcel to the data of the
    vendor library, on every path with the errors; what they decode, and where they leave defined
    behaviour.
  \<^item> \<open>Ril_Response\<close> and \<open>Ril_Response_Correct\<close>: the functions \<open>response...\<close>, from the data of the vendor library
    to a parcel.
  \<^item> \<open>Ril_Core\<close>: the rest of \<open>ril.cpp\<close>, in the order of the source: the list of pending requests,
    \<open>processCommandBuffer\<close>, sending, timed callbacks, \<open>RIL_onRequestComplete\<close>,
    \<open>RIL_onUnsolicitedResponse\<close>, the connection, the event loop and \<open>RIL_register\<close>. System calls and the
    vendor library are the record \<open>world\<close>; effects on the outside are a trace.
  \<^item> \<open>Ril_Send\<close>: what reaches a descriptor, whatever the partial writes. \<open>Ril_Pending\<close>: the contract of a
    store of requests as the locale \<open>request_store\<close>, and the linked list of \<open>ril.cpp\<close> as its
    interpretation. \<open>Ril_Complete\<close>, \<open>Ril_Unsolicited\<close>, \<open>Ril_Command\<close>, \<open>Ril_Connect\<close>, \<open>Ril_Start\<close>: the handlers
    one by one. \<open>Ril_Daemon\<close>: the handlers as steps of a transition system that refines the store.
    \<open>Ril_Vendor\<close>: the locale \<open>vendor_library\<close>, what the vendor library may do; the event loop as a run of
    the daemon; and as its interpretation every vendor library that acts through the functions of
    \<open>ril.h\<close>. \<open>Ril_Core_Correct\<close>: the properties of the daemon.
  \<^item> \<open>Ril_Debug\<close>: the command \<open>radiooptions.c\<close> and \<open>debugCallback\<close> of \<open>ril.cpp\<close>, the two ends of the debug
    port, with the memory of \<open>debugCallback\<close>. \<open>Ril_Debug_Correct\<close>: what the one sends the other does; what is
    left open and allocated when the connection breaks off; and that whatever comes in keeps the list of
    requests. \<open>Rild\<close>: the main program \<open>rild.c\<close>, which finds the vendor library and its arguments.
  \<^item> \<open>At_Tok\<close>, \<open>At_Tok_Correct\<close>: \<open>at_tok.c\<close> and \<open>misc.c\<close>. \<open>At_Channel\<close>, \<open>At_Command\<close>: \<open>atchannel.c\<close>, its reader and
    its commands. \<open>At_Reader\<close>: the buffer of \<open>readline\<close> and the lines that come out of it. \<open>At_Collect\<close>: what
    a command collects. \<open>At_Correct\<close>: the properties.
  \<^item> \<open>Ref_State\<close>: the state of \<open>reference-ril.c\<close>, its radio state, the unsolicited lines, and how a handler
    sends a command. \<open>Ref_Requests\<close>: the handlers of the requests. \<open>Ref_Ril\<close>: the setup of a data
    connection, the status of the SIM, \<open>onRequest\<close>, the timed callbacks, the main loop, \<open>RIL_Init\<close>, and a run of
    the library as the step relation \<open>ref_step\<close>. \<open>Ref_Evolve\<close>: what every handler keeps and how often it
    completes its request, by rules for commands in sequence (\<open>handler_rules\<close>). \<open>Ref_Answer\<close>: what a
    handler gets when the modem answers as the standard says. \<open>Ref_Results\<close>: what the handlers make of such
    answers. \<open>Ref_Vendor\<close>: the library behind the daemon, which interprets \<open>vendor_library\<close>, so that the
    theorems on the event loop hold of the two together. \<open>Ref_Correct\<close>: the properties.
  \<^item> \<open>Mock_Worker\<close>: \<open>worker.cpp\<close>, a queue of records for a worker thread. The thread is a program counter, the
    calls of the other threads are steps; \<open>Mock_Worker_Correct\<close> shows by induction on the runs what holds
    whatever the interleaving, and by runs what does not. \<open>Mock_Wire\<close>: the library of
    protocol buffers as the record \<open>wire\<close>; the locale \<open>wire_format\<close> states its laws, and the documented
    format interprets it. \<open>Mock_Header\<close>: the generated class of the header of control messages.
    \<open>Mock_Ctrl\<close>, \<open>Mock_Ctrl_Correct\<close>: the control server. \<open>Mock_Pb\<close>: the loop over the fields of a message that
    the generated classes share, with rules for each type of field. \<open>Mock_Proto\<close>,
    \<open>Mock_Proto_Correct\<close>: the classes of \<open>ril.pb.cpp\<close>; to read what a class wrote is \<open>MergeFrom\<close>.
    \<open>Mock_Messages\<close>: the conversions of \<open>requests.cpp\<close> and \<open>responses.cpp\<close>; \<open>Mock_Data_Correct\<close>: what they
    keep of the data. \<open>Mock_Ril\<close>: the queue of requests and the functions that the script calls; the
    script is a function from calls to what it calls in turn. \<open>Mock_Correct\<close>: the simulator behind the daemon,
    which interprets \<open>vendor_library\<close>, and the properties.

  Conventions. \<open>None\<close> as the result of an operation says that the C code has no defined continuation: a
  null or dangling pointer, an index outside an array, a failed \<open>assert\<close>, a mutex that is never released,
  more stack than there is. Loops of the source that may run for ever are partial functions, and that
  they return is proved where it holds; nothing depends on fuel. Integers have their width. A null
  pointer is \<open>None\<close> or the address 0.

  Concurrency. The sections under \<open>s_pendingRequestsMutex\<close>, \<open>s_writeMutex\<close> and \<open>s_commandmutex\<close> are atomic;
  \<open>listMutex\<close> is part of the state, because one path forgets to release it. The vendor library may
  call back at any point where \<open>ril.cpp\<close> calls it, and between any two steps of the daemon. A command
  that waits for the modem releases its mutex; what happens then is a list of events. In the simulator the
  steps of the worker thread between two uses of its mutex are steps of a transition system.

  Not modelled. Debug output and logging, permissions of sockets and the change of user, wake locks
  (their bodies are commented out), memory after \<open>free\<close> other than that of requests, timers and
  \<open>debugCallback\<close>, and the lines of \<open>RIL_register\<close> under \<open>#if 0\<close>, which open the debug port. Of
  \<open>reference-ril.c\<close> the build of \<open>Android.mk\<close> is modelled; the code under \<open>USE_TI_COMMANDS\<close> and
  \<open>POLL_CALL_STATE\<close> is not compiled, and the settings of the terminal are left out. The simulator
  \<open>mock-ril\<close> is modelled up to its JavaScript engine: the bindings of V8 (\<open>node_buffer.cpp\<close>,
  \<open>protobuf_v8.cpp\<close>, \<open>js_support.cpp\<close>, \<open>worker_v8.cpp\<close>) are calls of libraries that are not in the
  repository. \<open>reference-cdma-sms\<close> and \<open>riltest\<close> are stubs and a test client.
\<close>

end
